(* ===== verification/Rust_Base.thy ===== *)
theory Rust_Base
  imports
    Main
    "HOL-Library.Word"
    "HOL-Library.AList"
    "HOL-Library.Sublist"
    "HOL-Library.Multiset"
    "HOL-Library.Product_Lexorder"
    "HOL-Library.List_Lexorder"
    "HOL-Library.Char_ord"
    "HOL-Library.Code_Target_Numeral"
begin

text \<open>
  The prelude of the development: the Rust machine integers and their saturating
  operations, the hash map as an association list with distinct keys, the sorted and
  deduplicated vector, the update of the first matching element of a vector, and the
  interfaces (a stepped state, a table of expiring entries, a book of newest entries, a
  generator of fresh names) whose client lemmas the component theories reuse through their
  interpretations.
\<close>

section \<open>Lemma collections\<close>

named_theorems hm_simps \<open>lookups after hash map operations\<close>
named_theorems hm_wf_intros \<open>hash map operations keep keys distinct\<close>
named_theorems sat_simps \<open>saturating arithmetic read as naturals\<close>

section \<open>Machine integers\<close>

type_synonym u8 = "8 word"
type_synonym u16 = "16 word"
type_synonym u32 = "32 word"
type_synonym u64 = "64 word"

text \<open>\<open>saturating_sub\<close> and \<open>saturating_add\<close> of the unsigned integer types.\<close>

definition saturating_sub :: "'a::len word \<Rightarrow> 'a word \<Rightarrow> 'a word" where
  "saturating_sub a b = (if a < b then 0 else a - b)"

definition saturating_add :: "'a::len word \<Rightarrow> 'a word \<Rightarrow> 'a word" where
  "saturating_add a b = (if a + b < a then - 1 else a + b)"

lemma unat_saturating_sub [sat_simps]: "unat (saturating_sub a b) = unat a - unat b"
  by (simp add: saturating_sub_def word_less_nat_alt unat_sub_if_size word_le_nat_alt)

lemma saturating_sub_le [simp]: "saturating_sub a b \<le> a"
  by (simp add: word_le_nat_alt sat_simps)

lemma saturating_sub_zero [simp]: "saturating_sub a 0 = a"
  by (simp add: saturating_sub_def)

lemma saturating_sub_mono: "a \<le> b \<Longrightarrow> saturating_sub a c \<le> saturating_sub b c"
  by (simp add: word_le_nat_alt sat_simps)

lemma saturating_sub_self [simp]: "saturating_sub a a = 0"
  by (simp add: saturating_sub_def)

lemma unat_saturating_add [sat_simps]:
  fixes a b :: "'a::len word"
  shows "unat (saturating_add a b) = min (unat a + unat b) (2 ^ LENGTH('a) - 1)"
proof (cases "unat a + unat b < 2 ^ LENGTH('a)")
  case True
  then have s: "unat (a + b) = unat a + unat b"
    by (rule unat_add_lem [THEN iffD1])
  then have "\<not> a + b < a" by (simp add: word_less_nat_alt)
  with True s show ?thesis by (simp add: saturating_add_def)
next
  case False
  have la: "unat a < 2 ^ LENGTH('a)" and lb: "unat b < 2 ^ LENGTH('a)"
    by (rule unsigned_less)+
  have "unat (a + b) = (unat a + unat b) mod 2 ^ LENGTH('a)"
    by (simp add: unat_word_ariths)
  also have "\<dots> = unat a + unat b - 2 ^ LENGTH('a)"
    using False la lb by (simp only: le_mod_geq not_less) (rule mod_less, linarith)
  also have "\<dots> < unat a"
    using False lb by linarith
  finally have "a + b < a" by (simp add: word_less_nat_alt)
  moreover have "unat (- 1 :: 'a word) = 2 ^ LENGTH('a) - 1"
    by (simp add: unsigned_minus_1_eq_mask mask_eq_exp_minus_1)
  ultimately show ?thesis using False by (simp add: saturating_add_def)
qed

lemma saturating_add_ge [simp]: "a \<le> saturating_add a b"
  by (auto simp: saturating_add_def not_less)

section \<open>Hash maps\<close>

text \<open>
  A Rust \<open>HashMap\<close> is an association list with distinct keys. The order of the list
  stands for the map's unspecified iteration order: a theorem about every list is a theorem
  about every iteration order.
\<close>

type_synonym ('k, 'v) hmap = "('k \<times> 'v) list"

definition hm_wf :: "('k, 'v) hmap \<Rightarrow> bool" where
  "hm_wf m = distinct (map fst m)"

definition hm_get :: "('k, 'v) hmap \<Rightarrow> 'k \<Rightarrow> 'v option" where
  "hm_get m k = map_of m k"

definition hm_contains :: "('k, 'v) hmap \<Rightarrow> 'k \<Rightarrow> bool" where
  "hm_contains m k = (map_of m k \<noteq> None)"

definition hm_insert :: "'k \<Rightarrow> 'v \<Rightarrow> ('k, 'v) hmap \<Rightarrow> ('k, 'v) hmap" where
  "hm_insert k v m = AList.update k v m"

definition hm_remove :: "'k \<Rightarrow> ('k, 'v) hmap \<Rightarrow> ('k, 'v) hmap" where
  "hm_remove k m = AList.delete k m"

definition hm_retain :: "('k \<Rightarrow> 'v \<Rightarrow> bool) \<Rightarrow> ('k, 'v) hmap \<Rightarrow> ('k, 'v) hmap" where
  "hm_retain P m = filter (\<lambda>(k, v). P k v) m"

definition hm_map_values :: "('k \<Rightarrow> 'v \<Rightarrow> 'v) \<Rightarrow> ('k, 'v) hmap \<Rightarrow> ('k, 'v) hmap" where
  "hm_map_values f m = map (\<lambda>(k, v). (k, f k v)) m"

lemma hm_contains_iff: "hm_contains m k \<longleftrightarrow> (\<exists>v. hm_get m k = Some v)"
  by (auto simp: hm_contains_def hm_get_def)

lemma hm_get_Nil [hm_simps]: "hm_get [] k = None"
  by (simp add: hm_get_def)

lemma hm_contains_Nil [hm_simps]: "\<not> hm_contains [] k"
  by (simp add: hm_contains_def)

lemma hm_get_insert [hm_simps]: "hm_get (hm_insert k v m) = (hm_get m)(k \<mapsto> v)"
  by (simp add: hm_get_def hm_insert_def update_conv' fun_eq_iff)

lemma hm_get_remove [hm_simps]: "hm_get (hm_remove k m) = (hm_get m)(k := None)"
  by (simp add: hm_get_def hm_remove_def delete_conv' fun_eq_iff)

lemma hm_contains_insert [hm_simps]: "hm_contains (hm_insert k v m) j \<longleftrightarrow> j = k \<or> hm_contains m j"
  by (simp add: hm_contains_def hm_insert_def update_conv')

lemma hm_contains_remove [hm_simps]: "hm_contains (hm_remove k m) j \<longleftrightarrow> j \<noteq> k \<and> hm_contains m j"
  by (simp add: hm_contains_def hm_remove_def delete_conv')

lemma hm_get_retain [hm_simps]:
  assumes "hm_wf m"
  shows "hm_get (hm_retain P m) k =
    (case hm_get m k of None \<Rightarrow> None | Some v \<Rightarrow> if P k v then Some v else None)"
  using assms
proof (induction m)
  case Nil
  then show ?case by (simp add: hm_get_def hm_retain_def)
next
  case (Cons p m)
  obtain j w where p: "p = (j, w)" by (cases p)
  from Cons.prems p have wf: "hm_wf m" and j: "map_of m j = None"
    by (auto simp: hm_wf_def map_of_eq_None_iff)
  note IH = Cons.IH [OF wf]
  show ?case
  proof (cases "j = k")
    case True
    with IH j p show ?thesis by (simp add: hm_get_def hm_retain_def)
  next
    case False
    with IH p show ?thesis by (auto simp: hm_get_def hm_retain_def)
  qed
qed

lemma hm_contains_get: "hm_contains m k \<longleftrightarrow> hm_get m k \<noteq> None"
  by (simp add: hm_contains_def hm_get_def)

lemma hm_contains_retain:
  "hm_wf m \<Longrightarrow> hm_contains (hm_retain (\<lambda>k _. P k) m) k \<longleftrightarrow> hm_contains m k \<and> P k"
  by (simp add: hm_contains_get hm_get_retain split: option.split)

lemma hm_get_in: "hm_get m k = Some v \<Longrightarrow> (k, v) \<in> set m"
  by (simp add: hm_get_def map_of_SomeD)

lemma hm_in_get: "hm_wf m \<Longrightarrow> (k, v) \<in> set m \<Longrightarrow> hm_get m k = Some v"
  by (simp add: hm_get_def hm_wf_def)

lemma hm_contains_iff_in: "hm_contains m k \<longleftrightarrow> k \<in> fst ` set m"
  by (auto simp: hm_contains_def map_of_eq_None_iff)

lemma hm_get_map_values [hm_simps]: "hm_get (hm_map_values f m) k = map_option (f k) (hm_get m k)"
  by (induction m) (auto simp: hm_get_def hm_map_values_def)

lemma hm_wf_Nil [hm_wf_intros, simp]: "hm_wf []"
  by (simp add: hm_wf_def)

lemma hm_wf_insert [hm_wf_intros]: "hm_wf m \<Longrightarrow> hm_wf (hm_insert k v m)"
  by (simp add: hm_wf_def hm_insert_def distinct_update)

lemma hm_wf_remove [hm_wf_intros]: "hm_wf m \<Longrightarrow> hm_wf (hm_remove k m)"
  by (simp add: hm_wf_def hm_remove_def distinct_delete)

lemma hm_wf_retain [hm_wf_intros]: "hm_wf m \<Longrightarrow> hm_wf (hm_retain P m)"
  by (simp add: hm_wf_def hm_retain_def distinct_map_filter)

lemma hm_wf_map_values [hm_wf_intros]: "hm_wf m \<Longrightarrow> hm_wf (hm_map_values f m)"
  by (simp add: hm_wf_def hm_map_values_def comp_def split_def)

lemma hm_retain_length: "length (hm_retain P m) \<le> length m"
  by (simp add: hm_retain_def)

lemma hm_retain_same_length:
  "length (hm_retain P m) = length m \<longleftrightarrow> hm_retain P m = m"
  by (metis filter_id_conv hm_retain_def length_filter_less nat_less_le)

lemma hm_set_retain: "set (hm_retain P m) = {(k, v). (k, v) \<in> set m \<and> P k v}"
  by (auto simp: hm_retain_def)

lemma hm_set_map_values: "set (hm_map_values f m) = (\<lambda>(k, v). (k, f k v)) ` set m"
  by (simp add: hm_map_values_def)

lemma hm_set_remove: "set (hm_remove k m) = {p \<in> set m. fst p \<noteq> k}"
  by (auto simp: hm_remove_def AList.delete_eq)

lemma hm_length_insert:
  "length (hm_insert k v m) = (if hm_contains m k then length m else Suc (length m))"
  by (induction m) (auto simp: hm_insert_def hm_contains_def)

lemma hm_set_insert: "hm_wf m \<Longrightarrow> set (hm_insert k v m) = insert (k, v) {p \<in> set m. fst p \<noteq> k}"
  by (induction m) (force simp: hm_insert_def hm_wf_def)+

section \<open>Sorted and deduplicated vectors\<close>

text \<open>\<open>v.sort(); v.dedup();\<close> of the source: sort, then drop equal neighbours.\<close>

definition sort_dedup :: "'a::linorder list \<Rightarrow> 'a list" where
  "sort_dedup xs = remdups_adj (sort xs)"

definition sorted_unique :: "'a::linorder list \<Rightarrow> bool" where
  "sorted_unique xs = (sorted xs \<and> distinct xs)"

lemma set_sort_dedup [simp]: "set (sort_dedup xs) = set xs"
  by (simp add: sort_dedup_def)

lemma distinct_remdups_adj_sorted: "sorted xs \<Longrightarrow> distinct (remdups_adj xs)"
  by (induction xs rule: remdups_adj.induct) (auto simp: less_le)

lemma sorted_unique_sort_dedup [simp]: "sorted_unique (sort_dedup xs)"
  by (simp add: sorted_unique_def sort_dedup_def sorted_remdups_adj distinct_remdups_adj_sorted)

lemma sorted_unique_eqI: "sorted_unique xs \<Longrightarrow> sorted_unique ys \<Longrightarrow> set xs = set ys \<Longrightarrow> xs = ys"
  by (simp add: sorted_unique_def sorted_distinct_set_unique)

lemma sort_dedup_id: "sorted_unique xs \<Longrightarrow> sort_dedup xs = xs"
  by (rule sorted_unique_eqI) simp_all

lemma sort_dedup_idem [simp]: "sort_dedup (sort_dedup xs) = sort_dedup xs"
  by (rule sort_dedup_id) simp

lemma sort_dedup_cong: "set xs = set ys \<Longrightarrow> sort_dedup xs = sort_dedup ys"
  by (rule sorted_unique_eqI) simp_all

lemma sort_dedup_Nil [simp]: "sort_dedup xs = [] \<longleftrightarrow> xs = []"
  by (metis set_empty set_sort_dedup)

lemma sorted_unique_filter: "sorted_unique xs \<Longrightarrow> sorted_unique (filter P xs)"
  by (simp add: sorted_unique_def sorted_wrt_filter)

lemma sorted_unique_Nil [simp]: "sorted_unique []" and sorted_unique_single [simp]: "sorted_unique [x]"
  by (simp_all add: sorted_unique_def)

section \<open>Updating the first match of a vector\<close>

text \<open>\<open>iter_mut().find(P)\<close> followed by a mutation of what it found.\<close>

fun update_first :: "('a \<Rightarrow> bool) \<Rightarrow> ('a \<Rightarrow> 'a) \<Rightarrow> 'a list \<Rightarrow> 'a list" where
  "update_first P f [] = []"
| "update_first P f (x # xs) = (if P x then f x # xs else x # update_first P f xs)"

lemma length_update_first [simp]: "length (update_first P f xs) = length xs"
  by (induction xs) auto

lemma update_first_none: "find P xs = None \<Longrightarrow> update_first P f xs = xs"
  by (induction xs) (auto split: if_splits)

lemma map_update_first: "(\<And>x. P x \<Longrightarrow> g (f x) = g x) \<Longrightarrow> map g (update_first P f xs) = map g xs"
  by (induction xs) auto

lemma set_update_first: "set (update_first P f xs) \<subseteq> set xs \<union> f ` {x \<in> set xs. P x}"
  by (induction xs) auto

lemma list_all_update_first:
  "list_all Q xs \<Longrightarrow> (\<And>x. P x \<Longrightarrow> Q x \<Longrightarrow> Q (f x)) \<Longrightarrow> list_all Q (update_first P f xs)"
  by (induction xs) auto

lemma find_update_first:
  "find P xs = Some x \<Longrightarrow> P (f x) \<Longrightarrow> find P (update_first P f xs) = Some (f x)"
  by (induction xs) (auto split: if_splits)

lemma find_Some_in: "find P xs = Some x \<Longrightarrow> x \<in> set xs \<and> P x"
  by (induction xs) (auto split: if_splits)

lemma find_None_all: "find P xs = None \<longleftrightarrow> (\<forall>x \<in> set xs. \<not> P x)"
  by (induction xs) auto

lemma filter_map_same: "filter P (map f xs) = xs \<longleftrightarrow> (\<forall>x \<in> set xs. P (f x) \<and> f x = x)"
proof
  assume eq: "filter P (map f xs) = xs"
  then have "length (filter P (map f xs)) = length (map f xs)" by simp
  then have all: "filter P (map f xs) = map f xs"
    by (metis filter_id_conv length_filter_less nat_less_le)
  with eq have "map f xs = xs" by simp
  with all show "\<forall>x \<in> set xs. P (f x) \<and> f x = x"
    by (metis filter_id_conv map_eq_conv map_ident)
next
  assume all: "\<forall>x \<in> set xs. P (f x) \<and> f x = x"
  then have "map f xs = xs" by (simp add: map_idI)
  with all show "filter P (map f xs) = xs" by simp (metis filter_True)
qed

section \<open>The last maximum of an iterator\<close>

text \<open>\<open>Iterator::max_by_key\<close>: the last of the elements with the largest key.\<close>

fun max_by_key :: "('a \<Rightarrow> 'k::linorder) \<Rightarrow> 'a list \<Rightarrow> 'a option" where
  "max_by_key f [] = None"
| "max_by_key f (x # xs) = Some (foldl (\<lambda>b y. if f y < f b then b else y) x xs)"

lemma foldl_max_by:
  fixes f :: "'a \<Rightarrow> 'k::linorder"
  defines "m x xs \<equiv> foldl (\<lambda>b y. if f y < f b then b else y) x xs"
  shows "m x xs \<in> insert x (set xs) \<and> (\<forall>y \<in> insert x (set xs). f y \<le> f (m x xs))"
  unfolding m_def by (induction xs arbitrary: x) (force simp: not_less)+

lemma max_by_key_Some:
  "max_by_key f xs = Some m \<Longrightarrow> m \<in> set xs \<and> (\<forall>y \<in> set xs. f y \<le> f m)"
  using foldl_max_by [of f] by (cases xs) auto

lemma max_by_key_None: "max_by_key f xs = None \<longleftrightarrow> xs = []"
  by (cases xs) auto

section \<open>Interfaces\<close>

text \<open>A state that is stepped by events and keeps an invariant: so does every run.\<close>

locale stepped =
  fixes step :: "'e \<Rightarrow> 's \<Rightarrow> 's" and inv :: "'s \<Rightarrow> bool"
  assumes step_inv: "inv s \<Longrightarrow> inv (step e s)"
begin

lemma run_inv: "inv s \<Longrightarrow> inv (fold step es s)"
  by (induction es arbitrary: s) (simp_all add: step_inv)

end

text \<open>A stepped state with a quantity that no event lowers.\<close>

locale stepped_mono = stepped step inv
  for step :: "'e \<Rightarrow> 's \<Rightarrow> 's" and inv :: "'s \<Rightarrow> bool" +
  fixes level :: "'s \<Rightarrow> 'l::preorder"
  assumes step_level: "inv s \<Longrightarrow> level s \<le> level (step e s)"
begin

lemma run_level: "inv s \<Longrightarrow> level s \<le> level (fold step es s)"
proof (induction es arbitrary: s)
  case Nil
  then show ?case by simp
next
  case (Cons e es)
  from Cons.prems have "level s \<le> level (step e s)" by (rule step_level)
  also have "\<dots> \<le> level (fold step es (step e s))"
    using Cons.IH [OF step_inv [OF Cons.prems]] .
  finally show ?case by simp
qed

end

text \<open>
  A table whose entries stop being alive as time passes, and the operation that drops the
  dead ones.
\<close>

locale expiring_table =
  fixes alive :: "'t::linorder \<Rightarrow> 'v \<Rightarrow> bool"
    and prune :: "'t \<Rightarrow> ('k, 'v) hmap \<Rightarrow> ('k, 'v) hmap"
  assumes prune_retains: "prune t m = hm_retain (\<lambda>_ v. alive t v) m"
    and alive_antimono: "t \<le> t' \<Longrightarrow> alive t' v \<Longrightarrow> alive t v"
begin

lemma prune_wf: "hm_wf m \<Longrightarrow> hm_wf (prune t m)"
  by (simp add: prune_retains hm_wf_intros)

lemma prune_get: "hm_wf m \<Longrightarrow>
    hm_get (prune t m) k = Some v \<longleftrightarrow> hm_get m k = Some v \<and> alive t v"
  by (auto simp: prune_retains hm_simps split: option.splits)

lemma prune_set: "set (prune t m) = {p \<in> set m. alive t (snd p)}"
  by (auto simp: prune_retains hm_set_retain)

lemma prune_length: "length (prune t m) \<le> length m"
  by (simp add: prune_retains hm_retain_length)

lemma prune_later: "t \<le> t' \<Longrightarrow> prune t' (prune t m) = prune t' m"
  by (auto simp: prune_retains hm_retain_def alive_antimono split_def intro!: filter_cong)

lemma prune_idem: "prune t (prune t m) = prune t m"
  by (simp add: prune_later)

lemma prune_filter_length:
  "length (filter Q (prune t m)) \<le> length (filter Q m)"
  unfolding prune_retains hm_retain_def by (induction m) auto

end

text \<open>
  A book that keeps, for each key, an entry of the newest time stamp it was given, a later
  entry winning a tie.
\<close>

locale newest_book =
  fixes get :: "'b \<Rightarrow> 'k \<Rightarrow> 'v option"
    and put :: "'i \<Rightarrow> 'b \<Rightarrow> 'b"
    and key :: "'i \<Rightarrow> 'k"
    and val :: "'i \<Rightarrow> 'v"
    and stamp :: "'v \<Rightarrow> 't::linorder"
  assumes get_put: "get (put i b) =
    (if case get b (key i) of None \<Rightarrow> True | Some e \<Rightarrow> stamp e \<le> stamp (val i)
     then (get b)(key i \<mapsto> val i) else get b)"
begin

lemma put_stamp_mono:
  "get b k = Some e \<Longrightarrow> \<exists>e'. get (put i b) k = Some e' \<and> stamp e \<le> stamp e'"
  by (auto simp: get_put split: option.splits)

lemma put_stamp_ge: "\<exists>e. get (put i b) (key i) = Some e \<and> stamp (val i) \<le> stamp e"
  by (auto simp: get_put split: option.splits)

lemma puts_stamp_mono:
  "get b k = Some e \<Longrightarrow> \<exists>e'. get (fold put is b) k = Some e' \<and> stamp e \<le> stamp e'"
proof (induction "is" arbitrary: b e)
  case Nil
  then show ?case by simp
next
  case (Cons i "is")
  obtain e1 where e1: "get (put i b) k = Some e1" "stamp e \<le> stamp e1"
    using put_stamp_mono [OF Cons.prems] by blast
  from Cons.IH [OF e1(1)] e1(2) show ?case by (auto intro: order_trans)
qed

lemma puts_stamp_ge:
  "i \<in> set is \<Longrightarrow> \<exists>e. get (fold put is b) (key i) = Some e \<and> stamp (val i) \<le> stamp e"
proof (induction "is" arbitrary: b)
  case Nil
  then show ?case by simp
next
  case (Cons j "is")
  show ?case
  proof (cases "i \<in> set is")
    case True
    then show ?thesis using Cons.IH [of "put j b"] by simp
  next
    case False
    with Cons.prems have j: "j = i" by simp
    obtain e where e: "get (put i b) (key i) = Some e" "stamp (val i) \<le> stamp e"
      using put_stamp_ge by blast
    from puts_stamp_mono [OF e(1), of "is"] e(2) j show ?thesis by (auto intro: order_trans)
  qed
qed

lemma puts_source:
  "get (fold put is b) k = Some v \<Longrightarrow> get b k = Some v \<or> (\<exists>i \<in> set is. key i = k \<and> val i = v)"
proof (induction "is" arbitrary: b)
  case Nil
  then show ?case by simp
next
  case (Cons i "is")
  then have "get (fold put is (put i b)) k = Some v" by simp
  from Cons.IH [OF this] show ?case
    by (auto simp: get_put split: if_splits)
qed

text \<open>The stored stamp does not depend on the order of arrival.\<close>

lemma puts_stamp_order:
  assumes "set is = set js"
  shows "map_option stamp (get (fold put is b) k) = map_option stamp (get (fold put js b) k)"
proof -
  have le: "\<exists>e'. get (fold put ys b) k = Some e' \<and> stamp e \<le> stamp e'"
    if eq: "set xs = set ys" and e: "get (fold put xs b) k = Some e" for xs ys e
  proof -
    from puts_source [OF e] eq consider "get b k = Some e"
      | i where "i \<in> set ys" "key i = k" "val i = e" by blast
    then show ?thesis by cases (use puts_stamp_mono puts_stamp_ge in blast)+
  qed
  show ?thesis
    using le [OF assms] le [OF assms [symmetric]]
    by (cases "get (fold put is b) k"; cases "get (fold put js b) k") (auto intro: antisym)
qed

end

text \<open>
  A generator of names that are not in use: \<open>elems used\<close> are the names in use and
  \<open>room n used\<close> says that \<open>n\<close> more can be given out.
\<close>

locale fresh_namer =
  fixes uniquify :: "'n \<Rightarrow> 'u \<Rightarrow> 'n \<times> 'u"
    and elems :: "'u \<Rightarrow> 'n set"
    and room :: "nat \<Rightarrow> 'u \<Rightarrow> bool"
  assumes uniquify_fresh: "room (Suc n) used \<Longrightarrow> fst (uniquify base used) \<notin> elems used"
    and uniquify_used: "room (Suc n) used \<Longrightarrow>
      elems (snd (uniquify base used)) = insert (fst (uniquify base used)) (elems used)"
    and uniquify_room: "room (Suc n) used \<Longrightarrow> room n (snd (uniquify base used))"
begin

fun name_all :: "'n list \<Rightarrow> 'u \<Rightarrow> 'n list \<times> 'u" where
  "name_all [] used = ([], used)"
| "name_all (b # bs) used =
    (fst (uniquify b used) # fst (name_all bs (snd (uniquify b used))),
     snd (name_all bs (snd (uniquify b used))))"

lemma name_all_fresh:
  "room (length bs) used \<Longrightarrow>
    distinct (fst (name_all bs used)) \<and> set (fst (name_all bs used)) \<inter> elems used = {}
    \<and> length (fst (name_all bs used)) = length bs
    \<and> elems (snd (name_all bs used)) = elems used \<union> set (fst (name_all bs used))"
proof (induction bs arbitrary: used)
  case Nil
  then show ?case by simp
next
  case (Cons b bs)
  then have room: "room (Suc (length bs)) used" by simp
  note step = uniquify_fresh [OF room, of b] uniquify_used [OF room, of b] uniquify_room [OF room, of b]
  from Cons.IH [OF step(3)] step(1,2) show ?case by auto
qed

end

end
