(* ===== verification/Rust_Str.thy ===== *)
theory Rust_Str
  imports Rust_Base
begin

text \<open>
  Rust's \<open>str\<close> as its UTF-8 bytes, and the string operations the program uses: trimming of
  Unicode white space, splitting, prefixes, ASCII case folding, decimal and hexadecimal
  numbers. A \<open>char\<close> of HOL is one byte.
\<close>

section \<open>Bytes\<close>

definition byte :: "char \<Rightarrow> nat" where
  "byte c = of_char c"

lemma byte_less [simp]: "byte c < 256"
  by (simp add: byte_def)

lemma byte_inj [simp]: "byte c = byte d \<longleftrightarrow> c = d"
  by (simp add: byte_def)

definition byte_char :: "nat \<Rightarrow> char" where
  "byte_char n = char_of n"

lemma byte_byte_char [simp]: "n < 256 \<Longrightarrow> byte (byte_char n) = n"
  by (simp add: byte_def byte_char_def)

lemma byte_char_byte [simp]: "byte_char (byte c) = c"
  by (simp add: byte_def byte_char_def)

section \<open>White space and trimming\<close>

text \<open>
  The length in bytes of the \<open>White_Space\<close> character a string starts with, 0 if it starts
  with none: the one-byte, two-byte and three-byte encodings in turn.
\<close>

definition ws1 :: "char \<Rightarrow> bool" where
  "ws1 c = (byte c \<in> {9, 10, 11, 12, 13, 32})"

definition ws2 :: "char \<Rightarrow> char \<Rightarrow> bool" where
  "ws2 c d = (byte c = 0xC2 \<and> byte d \<in> {0x85, 0xA0})"

definition ws3 :: "char \<Rightarrow> char \<Rightarrow> char \<Rightarrow> bool" where
  "ws3 c d e =
    ((byte c = 0xE1 \<and> byte d = 0x9A \<and> byte e = 0x80)
      \<or> (byte c = 0xE2 \<and> byte d = 0x80 \<and>
          (0x80 \<le> byte e \<and> byte e \<le> 0x8A \<or> byte e \<in> {0xA8, 0xA9, 0xAF}))
      \<or> (byte c = 0xE2 \<and> byte d = 0x81 \<and> byte e = 0x9F)
      \<or> (byte c = 0xE3 \<and> byte d = 0x80 \<and> byte e = 0x80))"

fun ws_len :: "string \<Rightarrow> nat" where
  "ws_len [] = 0"
| "ws_len [c] = (if ws1 c then 1 else 0)"
| "ws_len [c, d] = (if ws1 c then 1 else if ws2 c d then 2 else 0)"
| "ws_len (c # d # e # s) =
    (if ws1 c then 1 else if ws2 c d then 2 else if ws3 c d e then 3 else 0)"

lemma ws_len_le: "ws_len s \<le> length s"
  by (cases s rule: ws_len.cases) auto

lemma ws_len_append: "ws_len s \<noteq> 0 \<Longrightarrow> ws_len (s @ t) = ws_len s"
proof (cases s rule: ws_len.cases)
  case (2 c)
  moreover assume "ws_len s \<noteq> 0"
  ultimately show ?thesis by (cases t rule: ws_len.cases) (auto split: if_splits)
next
  case (3 c d)
  moreover assume "ws_len s \<noteq> 0"
  ultimately show ?thesis by (cases t) (auto split: if_splits)
qed auto

function trim_start :: "string \<Rightarrow> string" where
  "trim_start s = (if ws_len s = 0 then s else trim_start (drop (ws_len s) s))"
  by pat_completeness auto
termination
proof (relation "measure length")
  show "(drop (ws_len s) s, s) \<in> measure length" if "ws_len s \<noteq> 0" for s
    using that ws_len_le [of s] by auto
qed simp

declare trim_start.simps [simp del]

text \<open>The length of the white space character a string ends with.\<close>

definition ws_end_len :: "string \<Rightarrow> nat" where
  "ws_end_len s =
    (let at = (\<lambda>n. n \<le> length s \<and> ws_len (drop (length s - n) s) = n)
     in if at 1 then 1 else if at 2 then 2 else if at 3 then 3 else 0)"

lemma ws_end_len_le: "ws_end_len s \<le> length s"
  by (auto simp: ws_end_len_def Let_def)

function trim_end :: "string \<Rightarrow> string" where
  "trim_end s = (if ws_end_len s = 0 then s else trim_end (take (length s - ws_end_len s) s))"
  by pat_completeness auto
termination
proof (relation "measure length")
  show "(take (length s - ws_end_len s) s, s) \<in> measure length" if "ws_end_len s \<noteq> 0" for s
    using that ws_end_len_le [of s] by auto
qed simp

declare trim_end.simps [simp del]

definition trim :: "string \<Rightarrow> string" where
  "trim s = trim_end (trim_start s)"

lemma trim_start_no_ws: "ws_len (trim_start s) = 0"
  by (induction s rule: trim_start.induct) (subst trim_start.simps, simp)

lemma trim_start_id: "ws_len s = 0 \<Longrightarrow> trim_start s = s"
  by (simp add: trim_start.simps)

lemma trim_end_no_ws: "ws_end_len (trim_end s) = 0"
  by (induction s rule: trim_end.induct) (subst trim_end.simps, simp)

lemma trim_end_id: "ws_end_len s = 0 \<Longrightarrow> trim_end s = s"
  by (simp add: trim_end.simps)

lemma trim_end_prefix: "\<exists>t. s = trim_end s @ t"
proof (induction s rule: trim_end.induct)
  case (1 s)
  show ?case
  proof (cases "ws_end_len s = 0")
    case True
    then show ?thesis by (simp add: trim_end_id)
  next
    case False
    let ?r = "take (length s - ws_end_len s) s"
    obtain t where "?r = trim_end ?r @ t" using 1 False by blast
    then have "s = trim_end ?r @ t @ drop (length s - ws_end_len s) s"
      by (metis append.assoc append_take_drop_id)
    with False show ?thesis by (subst trim_end.simps) auto
  qed
qed

lemma trim_no_ws [simp]: "ws_len (trim s) = 0" "ws_end_len (trim s) = 0"
proof -
  obtain t where t: "trim_start s = trim_end (trim_start s) @ t"
    using trim_end_prefix by blast
  have "ws_len (trim_start s) = 0" by (rule trim_start_no_ws)
  then show "ws_len (trim s) = 0"
    using ws_len_append [of "trim s" t] t by (auto simp: trim_def)
  show "ws_end_len (trim s) = 0"
    by (simp add: trim_def trim_end_no_ws)
qed

lemma trim_id: "ws_len s = 0 \<Longrightarrow> ws_end_len s = 0 \<Longrightarrow> trim s = s"
  by (simp add: trim_def trim_start_id trim_end_id)

lemma trim_idem [simp]: "trim (trim s) = trim s"
  by (simp add: trim_id)

lemma trim_Nil [simp]: "trim [] = []"
  by (rule trim_id) (simp_all add: ws_end_len_def)

lemma set_drop_trim_start: "set (trim_start s) \<subseteq> set s"
proof (induction s rule: trim_start.induct)
  case (1 s)
  show ?case
  proof (cases "ws_len s = 0")
    case True
    then show ?thesis by (simp add: trim_start_id)
  next
    case False
    with 1 show ?thesis by (subst trim_start.simps) (auto dest: in_set_dropD)
  qed
qed

lemma set_trim: "set (trim s) \<subseteq> set s"
  using set_drop_trim_start [of s] trim_end_prefix [of "trim_start s"]
  by (metis Un_iff set_append subsetD subsetI trim_def)

text \<open>A string of bytes that begin no white space character is its own trim.\<close>

definition ws_free :: "string \<Rightarrow> bool" where
  "ws_free s = list_all (\<lambda>c. byte c \<notin> {9, 10, 11, 12, 13, 32} \<and> byte c < 128) s"

lemma ws_freeI: "(\<And>c. c \<in> set s \<Longrightarrow> 33 \<le> byte c \<and> byte c < 128) \<Longrightarrow> ws_free s"
  by (force simp: ws_free_def list_all_iff)

lemma ws_free_ws_len: "ws_free s \<Longrightarrow> ws_len s = 0"
  by (cases s rule: ws_len.cases) (auto simp: ws_free_def ws1_def ws2_def ws3_def)

lemma ws_free_drop: "ws_free s \<Longrightarrow> ws_free (drop n s)"
  by (auto simp: ws_free_def list_all_iff dest: in_set_dropD)

lemma trim_ws_free: "ws_free s \<Longrightarrow> trim s = s"
  by (rule trim_id) (auto simp: ws_end_len_def Let_def ws_free_ws_len ws_free_drop)

section \<open>Splitting and stripping at a character\<close>

definition trim_start_matches :: "char \<Rightarrow> string \<Rightarrow> string" where
  "trim_start_matches c s = dropWhile (\<lambda>x. x = c) s"

definition trim_end_matches :: "char \<Rightarrow> string \<Rightarrow> string" where
  "trim_end_matches c s = rev (dropWhile (\<lambda>x. x = c) (rev s))"

definition trim_matches :: "char \<Rightarrow> string \<Rightarrow> string" where
  "trim_matches c s = trim_end_matches c (trim_start_matches c s)"

fun split_once :: "char \<Rightarrow> string \<Rightarrow> (string \<times> string) option" where
  "split_once c [] = None"
| "split_once c (x # xs) =
    (if x = c then Some ([], xs) else map_option (\<lambda>(l, r). (x # l, r)) (split_once c xs))"

definition rsplit_once :: "char \<Rightarrow> string \<Rightarrow> (string \<times> string) option" where
  "rsplit_once c s = map_option (\<lambda>(l, r). (rev r, rev l)) (split_once c (rev s))"

fun split_char :: "char \<Rightarrow> string \<Rightarrow> string list" where
  "split_char c [] = [[]]"
| "split_char c (x # xs) =
    (if x = c then [] # split_char c xs
     else (case split_char c xs of [] \<Rightarrow> [[x]] | w # ws \<Rightarrow> (x # w) # ws))"

definition strip_prefix :: "string \<Rightarrow> string \<Rightarrow> string option" where
  "strip_prefix p s = (if prefix p s then Some (drop (length p) s) else None)"

definition starts_with :: "string \<Rightarrow> string \<Rightarrow> bool" where
  "starts_with p s = prefix p s"

fun join :: "string \<Rightarrow> string list \<Rightarrow> string" where
  "join sep [] = []"
| "join sep [w] = w"
| "join sep (w # ws) = w @ sep @ join sep ws"

lemma trim_end_matches_parts: "\<exists>r. s = trim_end_matches c s @ r"
  unfolding trim_end_matches_def
  by (metis rev_append rev_rev_ident takeWhile_dropWhile_id)

lemma trim_start_matches_parts: "\<exists>r. s = r @ trim_start_matches c s"
  unfolding trim_start_matches_def by (metis takeWhile_dropWhile_id)

lemma trim_start_matches_Nil: "trim_start_matches c s = [] \<longleftrightarrow> set s \<subseteq> {c}"
  by (auto simp: trim_start_matches_def)

lemma trim_end_matches_Nil: "trim_end_matches c s = [] \<longleftrightarrow> set s \<subseteq> {c}"
  by (auto simp: trim_end_matches_def)

lemma trim_start_matches_hd: "trim_start_matches c s \<noteq> [] \<Longrightarrow> hd (trim_start_matches c s) \<noteq> c"
  unfolding trim_start_matches_def by (rule hd_dropWhile)

lemma trim_end_matches_last: "trim_end_matches c s \<noteq> [] \<Longrightarrow> last (trim_end_matches c s) \<noteq> c"
  using trim_start_matches_hd [of c "rev s"]
  by (simp add: trim_start_matches_def trim_end_matches_def last_rev)

lemma trim_start_matches_id: "s = [] \<or> hd s \<noteq> c \<Longrightarrow> trim_start_matches c s = s"
  by (cases s) (auto simp: trim_start_matches_def)

lemma trim_end_matches_id: "s = [] \<or> last s \<noteq> c \<Longrightarrow> trim_end_matches c s = s"
  by (cases s rule: rev_cases) (auto simp: trim_end_matches_def)

lemma split_once_Some: "split_once c s = Some (l, r) \<longleftrightarrow> s = l @ c # r \<and> c \<notin> set l"
  by (induction s arbitrary: l r) (auto simp: Cons_eq_append_conv split: prod.splits)

lemma split_once_None: "split_once c s = None \<longleftrightarrow> c \<notin> set s"
  by (induction s) auto

lemma split_once_append: "c \<notin> set l \<Longrightarrow> split_once c (l @ c # r) = Some (l, r)"
  by (simp add: split_once_Some)

lemma rsplit_once_append: "c \<notin> set r \<Longrightarrow> rsplit_once c (l @ c # r) = Some (l, r)"
  by (simp add: rsplit_once_def split_once_append)

lemma split_char_ne [simp]: "split_char c s \<noteq> []"
  by (induction s) (auto split: list.splits)

lemma split_char_no_sep: "w \<in> set (split_char c s) \<Longrightarrow> c \<notin> set w"
  by (induction s arbitrary: w) (auto split: if_splits list.splits)

lemma strip_prefix_append [simp]: "strip_prefix p (p @ s) = Some s"
  by (simp add: strip_prefix_def)

lemma strip_prefix_Some: "strip_prefix p s = Some t \<longleftrightarrow> s = p @ t"
  by (auto simp: strip_prefix_def prefix_def)

section \<open>ASCII case and classes\<close>

definition is_ascii_upper :: "char \<Rightarrow> bool" where
  "is_ascii_upper c = (65 \<le> byte c \<and> byte c \<le> 90)"

definition is_ascii_lower :: "char \<Rightarrow> bool" where
  "is_ascii_lower c = (97 \<le> byte c \<and> byte c \<le> 122)"

definition is_ascii_digit :: "char \<Rightarrow> bool" where
  "is_ascii_digit c = (48 \<le> byte c \<and> byte c \<le> 57)"

definition is_ascii_alphanumeric :: "char \<Rightarrow> bool" where
  "is_ascii_alphanumeric c = (is_ascii_upper c \<or> is_ascii_lower c \<or> is_ascii_digit c)"

definition ascii_lower :: "char \<Rightarrow> char" where
  "ascii_lower c = (if is_ascii_upper c then byte_char (byte c + 32) else c)"

definition to_ascii_lowercase :: "string \<Rightarrow> string" where
  "to_ascii_lowercase s = map ascii_lower s"

definition eq_ignore_ascii_case :: "string \<Rightarrow> string \<Rightarrow> bool" where
  "eq_ignore_ascii_case s t = (to_ascii_lowercase s = to_ascii_lowercase t)"

lemma byte_ascii_lower: "byte (ascii_lower c) = (if is_ascii_upper c then byte c + 32 else byte c)"
  by (simp add: ascii_lower_def is_ascii_upper_def)

lemma ascii_lower_not_upper: "\<not> is_ascii_upper (ascii_lower c)"
  by (simp add: is_ascii_upper_def byte_ascii_lower)

lemma ascii_lower_idem [simp]: "ascii_lower (ascii_lower c) = ascii_lower c"
  using ascii_lower_not_upper [of c] by (simp add: ascii_lower_def)

lemma to_ascii_lowercase_idem [simp]: "to_ascii_lowercase (to_ascii_lowercase s) = to_ascii_lowercase s"
  by (simp add: to_ascii_lowercase_def)

section \<open>Numbers\<close>

text \<open>\<open>char::to_digit\<close> for a radix up to 16.\<close>

definition digit_value :: "nat \<Rightarrow> char \<Rightarrow> nat option" where
  "digit_value radix c =
    (let n = byte c;
         d = (if 48 \<le> n \<and> n \<le> 57 then n - 48
              else if 97 \<le> n \<and> n \<le> 102 then n - 87
              else if 65 \<le> n \<and> n \<le> 70 then n - 55 else 16)
     in if d < radix \<and> d < 16 then Some d else None)"

definition is_digit :: "nat \<Rightarrow> char \<Rightarrow> bool" where
  "is_digit radix c = (digit_value radix c \<noteq> None)"

definition digits_value :: "nat \<Rightarrow> string \<Rightarrow> nat" where
  "digits_value radix ds = foldl (\<lambda>v c. v * radix + the (digit_value radix c)) 0 ds"

text \<open>\<open>u8::from_str\<close> and its kin: an optional plus sign, then one or more digits, in range.\<close>

definition parse_uint :: "nat \<Rightarrow> string \<Rightarrow> nat option" where
  "parse_uint bound s =
    (let ds = (case s of [] \<Rightarrow> [] | c # t \<Rightarrow> if c = CHR ''+'' then t else s)
     in if ds \<noteq> [] \<and> list_all (is_digit 10) ds \<and> digits_value 10 ds < bound
        then Some (digits_value 10 ds) else None)"

definition parse_u8 :: "string \<Rightarrow> nat option" where
  "parse_u8 s = parse_uint 256 s"

definition parse_u16 :: "string \<Rightarrow> nat option" where
  "parse_u16 s = parse_uint 65536 s"

text \<open>Printing in a radix, as \<open>{}\<close> and \<open>{:x}\<close> do.\<close>

definition digit_char :: "nat \<Rightarrow> char" where
  "digit_char d = byte_char (if d < 10 then 48 + d else 87 + d)"

fun print_radix :: "nat \<Rightarrow> nat \<Rightarrow> string" where
  "print_radix radix n =
    (if n < radix \<or> radix < 2 then [digit_char n]
     else print_radix radix (n div radix) @ [digit_char (n mod radix)])"

declare print_radix.simps [simp del]

definition dec :: "nat \<Rightarrow> string" where
  "dec n = print_radix 10 n"

definition hex :: "nat \<Rightarrow> string" where
  "hex n = print_radix 16 n"

lemma digit_value_char: "d < radix \<Longrightarrow> radix \<le> 16 \<Longrightarrow> digit_value radix (digit_char d) = Some d"
  by (auto simp: digit_value_def digit_char_def Let_def)

lemma print_radix_digits:
  "2 \<le> radix \<Longrightarrow> radix \<le> 16 \<Longrightarrow> list_all (is_digit radix) (print_radix radix n)"
proof (induction radix n rule: print_radix.induct)
  case (1 radix n)
  then show ?case
    by (subst print_radix.simps) (simp add: is_digit_def [of radix "digit_char _"] digit_value_char)
qed

lemma print_radix_ne [simp]: "print_radix radix n \<noteq> []"
  by (subst print_radix.simps) simp

lemma digits_value_print:
  "2 \<le> radix \<Longrightarrow> radix \<le> 16 \<Longrightarrow> digits_value radix (print_radix radix n) = n"
proof (induction radix n rule: print_radix.induct)
  case (1 radix n)
  show ?case
  proof (cases "n < radix")
    case True
    with 1 show ?thesis
      by (subst print_radix.simps) (simp add: digits_value_def digit_value_char)
  next
    case False
    with 1 have "digits_value radix (print_radix radix (n div radix)) = n div radix" by simp
    with False 1 show ?thesis
      by (subst print_radix.simps) (simp add: digits_value_def digit_value_char)
  qed
qed

text \<open>No leading zero, except for the number zero itself.\<close>

lemma print_radix_hd:
  "2 \<le> radix \<Longrightarrow> radix \<le> 16 \<Longrightarrow> n \<noteq> 0 \<Longrightarrow> hd (print_radix radix n) \<noteq> CHR ''0''"
proof (induction radix n rule: print_radix.induct)
  case (1 radix n)
  show ?case
  proof (cases "n < radix")
    case True
    with 1 have "digit_value radix (digit_char n) = Some n" by (simp add: digit_value_char)
    moreover have "digit_value radix (CHR ''0'') = Some 0"
      using 1 by (simp add: digit_value_def byte_def)
    ultimately show ?thesis using 1 True by (subst print_radix.simps) auto
  next
    case False
    then have "n div radix \<noteq> 0" using 1 by (simp add: div_eq_0_iff)
    with False 1 show ?thesis by (subst print_radix.simps) simp
  qed
qed

lemma print_radix_length: "2 \<le> radix \<Longrightarrow> 0 < k \<Longrightarrow> n < radix ^ k \<Longrightarrow> length (print_radix radix n) \<le> k"
proof (induction radix n arbitrary: k rule: print_radix.induct)
  case (1 radix n)
  show ?case
  proof (cases "n < radix")
    case True
    with 1 show ?thesis by (subst print_radix.simps) simp
  next
    case False
    then obtain j where k: "k = Suc j" and j: "0 < j" using 1
      by (metis gr0_implies_Suc less_nat_zero_code not_gr_zero power_one_right One_nat_def)
    with 1 have "n div radix < radix ^ j"
      by (simp add: less_mult_imp_div_less mult.commute)
    with 1 False j have "length (print_radix radix (n div radix)) \<le> j" by simp
    with False k 1 show ?thesis by (subst print_radix.simps) simp
  qed
qed

lemma dec_digits: "list_all (is_digit 10) (dec n)"
  by (simp add: dec_def print_radix_digits)

lemma dec_ne [simp]: "dec n \<noteq> []"
  by (simp add: dec_def)

lemma digits_value_dec [simp]: "digits_value 10 (dec n) = n"
  by (simp add: dec_def digits_value_print)

lemma is_digit10_iff: "is_digit 10 c \<longleftrightarrow> 48 \<le> byte c \<and> byte c \<le> 57"
  by (auto simp: is_digit_def digit_value_def Let_def)

lemma dec_chars: "c \<in> set (dec n) \<Longrightarrow> 48 \<le> byte c \<and> byte c \<le> 57"
  using dec_digits [of n] by (auto simp: list_all_iff is_digit10_iff)

lemma dec_inj: "dec m = dec n \<longleftrightarrow> m = n"
  by (metis digits_value_dec)

lemma dec_ws_free: "ws_free (dec n)"
  unfolding ws_free_def list_all_iff by (auto dest!: dec_chars)

lemma parse_uint_dec_if: "parse_uint bound (dec n) = (if n < bound then Some n else None)"
proof -
  have "hd (dec n) \<noteq> CHR ''+''"
    using dec_chars [of "hd (dec n)" n] by (auto simp: byte_def)
  then have "(case dec n of [] \<Rightarrow> [] | c # t \<Rightarrow> if c = CHR ''+'' then t else dec n) = dec n"
    by (cases "dec n") auto
  then show ?thesis using dec_digits [of n] by (simp add: parse_uint_def)
qed

lemma parse_uint_dec: "n < bound \<Longrightarrow> parse_uint bound (dec n) = Some n"
  by (simp add: parse_uint_dec_if)

text \<open>The first \<open>n\<close> characters of a string: bytes up to the \<open>n\<close>-th next leading byte.\<close>

definition is_continuation :: "char \<Rightarrow> bool" where
  "is_continuation c = (128 \<le> byte c \<and> byte c < 192)"

fun take_chars :: "nat \<Rightarrow> string \<Rightarrow> string" where
  "take_chars n [] = []"
| "take_chars n (c # s) =
    (if is_continuation c then c # take_chars n s
     else (case n of 0 \<Rightarrow> [] | Suc m \<Rightarrow> c # take_chars m s))"

end
