(* ===== verification/Net_Addr.thy ===== *)
theory Net_Addr
  imports Rust_Str
begin

text \<open>
  \<open>std::net\<close>: IPv4 and IPv6 addresses and socket addresses, the parsers behind
  \<open>parse::<IpAddr>()\<close>, \<open>parse::<Ipv4Addr>()\<close> and \<open>parse::<SocketAddr>()\<close>, the printers
  behind \<open>to_string()\<close>, and the address classes the program tests. IPv4 addresses are 32-bit
  words and IPv6 addresses 128-bit words, in network order.
\<close>

unbundle bit_operations_syntax

section \<open>Addresses\<close>

type_synonym ipv4_addr = "32 word"
type_synonym ipv6_addr = "128 word"

datatype ip_addr = V4 ipv4_addr | V6 ipv6_addr

datatype socket_addr =
    SockV4 ipv4_addr u16
  | SockV6 ipv6_addr u16 u32

fun sock_ip :: "socket_addr \<Rightarrow> ip_addr" where
  "sock_ip (SockV4 ip _) = V4 ip"
| "sock_ip (SockV6 ip _ _) = V6 ip"

fun sock_port :: "socket_addr \<Rightarrow> u16" where
  "sock_port (SockV4 _ p) = p"
| "sock_port (SockV6 _ p _) = p"

fun is_ipv4 :: "socket_addr \<Rightarrow> bool" where
  "is_ipv4 (SockV4 _ _) = True"
| "is_ipv4 (SockV6 _ _ _) = False"

text \<open>\<open>SocketAddr::new\<close>: scope and flow label zero.\<close>

fun socket_addr_new :: "ip_addr \<Rightarrow> u16 \<Rightarrow> socket_addr" where
  "socket_addr_new (V4 ip) p = SockV4 ip p"
| "socket_addr_new (V6 ip) p = SockV6 ip p 0"

text \<open>Octet \<open>k\<close> from the left of an IPv4 address, and segment \<open>k\<close> of an IPv6 address.\<close>

definition v4_octet :: "nat \<Rightarrow> ipv4_addr \<Rightarrow> nat" where
  "v4_octet k ip = unat (drop_bit (24 - 8 * k) ip) mod 256"

definition v4_of_octets :: "nat \<Rightarrow> nat \<Rightarrow> nat \<Rightarrow> nat \<Rightarrow> ipv4_addr" where
  "v4_of_octets a b c d = of_nat (((a * 256 + b) * 256 + c) * 256 + d)"

definition v6_segment :: "nat \<Rightarrow> ipv6_addr \<Rightarrow> nat" where
  "v6_segment k ip = unat (drop_bit (112 - 16 * k) ip) mod 65536"

definition v6_segments :: "ipv6_addr \<Rightarrow> nat list" where
  "v6_segments ip = map (\<lambda>k. v6_segment k ip) [0..<8]"

definition v6_of_segments :: "nat list \<Rightarrow> ipv6_addr" where
  "v6_of_segments gs = of_nat (foldl (\<lambda>v g. v * 65536 + g) 0 gs)"

lemma v4_octet_less [simp]: "v4_octet k ip < 256"
  by (simp add: v4_octet_def)

lemma four_bytes:
  fixes n :: nat
  assumes "n < 4294967296"
  shows "((n div 16777216 mod 256 * 256 + n div 65536 mod 256) * 256 + n div 256 mod 256) * 256
    + n mod 256 = n"
proof -
  define q1 q2 q3 where "q1 = n div 256" and "q2 = q1 div 256" and "q3 = q2 div 256"
  have d: "n div 65536 = q2" "n div 16777216 = q3"
    by (simp_all add: q1_def q2_def q3_def div_mult2_eq [symmetric])
  have "q3 < 256" using assms by (simp add: d(2) [symmetric] less_mult_imp_div_less)
  then have "q3 mod 256 = q3" by simp
  moreover have "q3 * 256 + q2 mod 256 = q2" "q2 * 256 + q1 mod 256 = q1" "q1 * 256 + n mod 256 = n"
    by (simp_all add: q1_def q2_def q3_def)
  ultimately show ?thesis by (simp only: d q1_def [symmetric])
qed

lemma byte_steps:
  fixes m d :: nat
  assumes "d < 256"
  shows "(m * 256 + d) div 256 = m" "(m * 256 + d) mod 256 = d"
  using assms by simp_all

lemma v4_octets_value:
  "unat ip = ((v4_octet 0 ip * 256 + v4_octet 1 ip) * 256 + v4_octet 2 ip) * 256 + v4_octet 3 ip"
proof -
  let ?n = "unat ip"
  have "?n < 2 ^ LENGTH(32)" by (rule unsigned_less)
  then have n: "?n < 2 ^ 32" by simp
  have o: "v4_octet k ip = ?n div 2 ^ (24 - 8 * k) mod 256" for k
    unfolding v4_octet_def unat_drop_bit_eq by (simp add: drop_bit_eq_div)
  show ?thesis using four_bytes [of ?n] n by (simp add: o)
qed

lemma v4_octets_cover:
  "v4_of_octets (v4_octet 0 ip) (v4_octet 1 ip) (v4_octet 2 ip) (v4_octet 3 ip) = ip"
  unfolding v4_of_octets_def v4_octets_value [symmetric] by simp

lemma v4_octet_of_octets:
  assumes "a < 256" "b < 256" "c < 256" "d < 256"
  shows "v4_octet 0 (v4_of_octets a b c d) = a" "v4_octet 1 (v4_of_octets a b c d) = b"
    "v4_octet 2 (v4_of_octets a b c d) = c" "v4_octet 3 (v4_of_octets a b c d) = d"
proof -
  define n where "n = ((a * 256 + b) * 256 + c) * 256 + d"
  have "n < 2 ^ 32" using assms by (simp add: n_def)
  then have u: "unat (v4_of_octets a b c d) = n"
    unfolding v4_of_octets_def n_def [symmetric] unsigned_of_nat take_bit_eq_mod by simp
  have o: "v4_octet k (v4_of_octets a b c d) = n div 2 ^ (24 - 8 * k) mod 256" for k
    unfolding v4_octet_def unat_drop_bit_eq u by (simp add: drop_bit_eq_div)
  have steps: "n mod 256 = d" "n div 256 = (a * 256 + b) * 256 + c"
    unfolding n_def by (rule byte_steps [OF assms(4)])+
  have parts: "n div 256 mod 256 = c" "n div 256 div 256 = a * 256 + b"
    unfolding steps(2) by (rule byte_steps [OF assms(3)])+
  have tops: "n div 256 div 256 mod 256 = b" "n div 256 div 256 div 256 = a"
    unfolding parts(2) by (rule byte_steps [OF assms(2)])+
  have "n div 65536 = n div 256 div 256" "n div 16777216 = n div 256 div 256 div 256"
    by (simp_all only: div_mult2_eq [symmetric]) simp_all
  then show "v4_octet 0 (v4_of_octets a b c d) = a" "v4_octet 1 (v4_of_octets a b c d) = b"
    "v4_octet 2 (v4_of_octets a b c d) = c" "v4_octet 3 (v4_of_octets a b c d) = d"
    using assms(1) by (simp_all only: o) (simp_all add: steps(1) parts(1) tops)
qed

section \<open>Address classes\<close>

definition is_private :: "ipv4_addr \<Rightarrow> bool" where
  "is_private ip =
    (v4_octet 0 ip = 10
      \<or> (v4_octet 0 ip = 172 \<and> 16 \<le> v4_octet 1 ip \<and> v4_octet 1 ip \<le> 31)
      \<or> (v4_octet 0 ip = 192 \<and> v4_octet 1 ip = 168))"

definition is_link_local :: "ipv4_addr \<Rightarrow> bool" where
  "is_link_local ip = (v4_octet 0 ip = 169 \<and> v4_octet 1 ip = 254)"

definition is_loopback :: "ipv4_addr \<Rightarrow> bool" where
  "is_loopback ip = (v4_octet 0 ip = 127)"

definition v6_is_loopback :: "ipv6_addr \<Rightarrow> bool" where
  "v6_is_loopback ip = (ip = 1)"

definition v6_is_unicast_link_local :: "ipv6_addr \<Rightarrow> bool" where
  "v6_is_unicast_link_local ip = (v6_segment 0 ip div 64 = 0xFE80 div 64)"

definition v6_is_unique_local :: "ipv6_addr \<Rightarrow> bool" where
  "v6_is_unique_local ip = (v6_segment 0 ip div 512 = 0xFC00 div 512)"

section \<open>Printing\<close>

definition print_v4 :: "ipv4_addr \<Rightarrow> string" where
  "print_v4 ip = dec (v4_octet 0 ip) @ ''.'' @ dec (v4_octet 1 ip) @ ''.''
    @ dec (v4_octet 2 ip) @ ''.'' @ dec (v4_octet 3 ip)"

text \<open>The first of the longest runs of zero segments, as its start and length.\<close>

fun zero_span :: "nat \<Rightarrow> nat list \<Rightarrow> nat \<times> nat \<Rightarrow> nat \<times> nat \<Rightarrow> nat \<times> nat" where
  "zero_span i [] current longest = longest"
| "zero_span i (g # gs) current longest =
    (if g = 0 then
       (let current' = (if snd current = 0 then i else fst current, Suc (snd current));
            longest' = (if snd longest < snd current' then current' else longest)
        in zero_span (Suc i) gs current' longest')
     else zero_span (Suc i) gs (0, 0) longest)"

definition print_segments :: "nat list \<Rightarrow> string" where
  "print_segments gs = join '':'' (map hex gs)"

definition print_v6 :: "ipv6_addr \<Rightarrow> string" where
  "print_v6 ip =
    (let gs = v6_segments ip in
     if take 6 gs = [0, 0, 0, 0, 0, 0xFFFF]
     then ''::ffff:'' @ print_v4 (ucast ip)
     else (case zero_span 0 gs (0, 0) (0, 0) of
       (start, len) \<Rightarrow>
         if 1 < len
         then print_segments (take start gs) @ ''::'' @ print_segments (drop (start + len) gs)
         else print_segments gs))"

fun print_ip :: "ip_addr \<Rightarrow> string" where
  "print_ip (V4 ip) = print_v4 ip"
| "print_ip (V6 ip) = print_v6 ip"

fun print_socket_addr :: "socket_addr \<Rightarrow> string" where
  "print_socket_addr (SockV4 ip p) = print_v4 ip @ '':'' @ dec (unat p)"
| "print_socket_addr (SockV6 ip p scope) =
    (if scope = 0 then ''['' @ print_v6 ip @ '']:'' @ dec (unat p)
     else ''['' @ print_v6 ip @ ''%'' @ dec (unat scope) @ '']:'' @ dec (unat p))"

section \<open>Parsing\<close>

text \<open>A parser reads a prefix of its input and returns the value with the rest.\<close>

type_synonym 'a parser = "string \<Rightarrow> ('a \<times> string) option"

fun read_given_char :: "char \<Rightarrow> unit parser" where
  "read_given_char c [] = None"
| "read_given_char c (x # s) = (if x = c then Some ((), s) else None)"

definition read_number :: "nat \<Rightarrow> nat option \<Rightarrow> bool \<Rightarrow> nat \<Rightarrow> nat parser" where
  "read_number radix max_digits allow_zero_prefix bound s =
    (let ds = takeWhile (is_digit radix) s; rest = dropWhile (is_digit radix) s in
     if ds = [] then None
     else if (case max_digits of None \<Rightarrow> False | Some k \<Rightarrow> k < length ds) then None
     else if \<not> allow_zero_prefix \<and> hd ds = CHR ''0'' \<and> 1 < length ds then None
     else if digits_value radix ds < bound then Some (digits_value radix ds, rest)
     else None)"

definition read_separator :: "char \<Rightarrow> nat \<Rightarrow> 'a parser \<Rightarrow> 'a parser" where
  "read_separator sep index inner s =
    (if 0 < index then Option.bind (read_given_char sep s) (\<lambda>(_, s'). inner s') else inner s)"

definition read_octet :: "nat \<Rightarrow> nat parser" where
  "read_octet i = read_separator (CHR ''.'') i (read_number 10 (Some 3) False 256)"

definition read_ipv4_addr :: "ipv4_addr parser" where
  "read_ipv4_addr s0 =
    Option.bind (read_octet 0 s0) (\<lambda>(a, s1).
    Option.bind (read_octet 1 s1) (\<lambda>(b, s2).
    Option.bind (read_octet 2 s2) (\<lambda>(c, s3).
    Option.bind (read_octet 3 s3) (\<lambda>(d, s4).
    Some (v4_of_octets a b c d, s4)))))"

text \<open>
  Up to \<open>limit\<close> groups from group \<open>i\<close> on, an embedded IPv4 address counting for two: the
  groups read, whether the last two came from an IPv4 address, and the rest.
\<close>

function read_groups :: "nat \<Rightarrow> nat \<Rightarrow> string \<Rightarrow> nat list \<times> bool \<times> string" where
  "read_groups limit i s =
    (if limit \<le> i then ([], False, s)
     else case (if i < limit - 1 then read_separator (CHR '':'') i read_ipv4_addr s else None) of
       Some (v4, s') \<Rightarrow>
         ([v4_octet 0 v4 * 256 + v4_octet 1 v4, v4_octet 2 v4 * 256 + v4_octet 3 v4], True, s')
     | None \<Rightarrow>
         (case read_separator (CHR '':'') i (read_number 16 (Some 4) True 65536) s of
            None \<Rightarrow> ([], False, s)
          | Some (g, s') \<Rightarrow>
              (case read_groups limit (Suc i) s' of (gs, v, s'') \<Rightarrow> (g # gs, v, s''))))"
  by pat_completeness auto
termination
  by (relation "measure (\<lambda>(limit, i, s). limit - i)") auto

declare read_groups.simps [simp del]

definition read_ipv6_addr :: "ipv6_addr parser" where
  "read_ipv6_addr s =
    (case read_groups 8 0 s of (head, head_ipv4, s1) \<Rightarrow>
       if length head = 8 then Some (v6_of_segments head, s1)
       else if head_ipv4 then None
       else Option.bind (read_given_char (CHR '':'') s1) (\<lambda>(_, s2).
            Option.bind (read_given_char (CHR '':'') s2) (\<lambda>(_, s3).
            (case read_groups (8 - (length head + 1)) 0 s3 of (tail, _, s4) \<Rightarrow>
               Some (v6_of_segments
                 (head @ replicate (8 - length head - length tail) 0 @ tail), s4)))))"

definition read_ip_addr :: "ip_addr parser" where
  "read_ip_addr s =
    (case read_ipv4_addr s of
       Some (ip, s') \<Rightarrow> Some (V4 ip, s')
     | None \<Rightarrow> map_option (\<lambda>(ip, s'). (V6 ip, s')) (read_ipv6_addr s))"

definition read_port :: "u16 parser" where
  "read_port s =
    Option.bind (read_given_char (CHR '':'') s) (\<lambda>(_, s').
    map_option (\<lambda>(n, s''). (of_nat n, s'')) (read_number 10 None True 65536 s'))"

definition read_scope_id :: "u32 parser" where
  "read_scope_id s =
    Option.bind (read_given_char (CHR ''%'') s) (\<lambda>(_, s').
    map_option (\<lambda>(n, s''). (of_nat n, s'')) (read_number 10 None True (2 ^ 32) s'))"

definition read_socket_addr_v4 :: "socket_addr parser" where
  "read_socket_addr_v4 s =
    Option.bind (read_ipv4_addr s) (\<lambda>(ip, s1).
    Option.bind (read_port s1) (\<lambda>(p, s2). Some (SockV4 ip p, s2)))"

definition read_socket_addr_v6 :: "socket_addr parser" where
  "read_socket_addr_v6 s =
    Option.bind (read_given_char (CHR ''['') s) (\<lambda>(_, s1).
    Option.bind (read_ipv6_addr s1) (\<lambda>(ip, s2).
    (case (case read_scope_id s2 of Some r \<Rightarrow> r | None \<Rightarrow> (0, s2)) of (scope, s3) \<Rightarrow>
    Option.bind (read_given_char (CHR '']'') s3) (\<lambda>(_, s4).
    Option.bind (read_port s4) (\<lambda>(p, s5). Some (SockV6 ip p scope, s5))))))"

definition read_socket_addr :: "socket_addr parser" where
  "read_socket_addr s =
    (case read_socket_addr_v4 s of Some r \<Rightarrow> Some r | None \<Rightarrow> read_socket_addr_v6 s)"

text \<open>\<open>parse_with\<close>: the parser must consume everything.\<close>

definition parse_all :: "'a parser \<Rightarrow> string \<Rightarrow> 'a option" where
  "parse_all p s = (case p s of Some (v, []) \<Rightarrow> Some v | _ \<Rightarrow> None)"

definition parse_ipv4 :: "string \<Rightarrow> ipv4_addr option" where
  "parse_ipv4 s = (if 15 < length s then None else parse_all read_ipv4_addr s)"

definition parse_ip :: "string \<Rightarrow> ip_addr option" where
  "parse_ip s = parse_all read_ip_addr s"

definition parse_socket_addr :: "string \<Rightarrow> socket_addr option" where
  "parse_socket_addr s = parse_all read_socket_addr s"

section \<open>Printed IPv4 addresses parse back\<close>

lemma digit_runs:
  "list_all (is_digit radix) ds \<Longrightarrow> (rest = [] \<or> \<not> is_digit radix (hd rest)) \<Longrightarrow>
    takeWhile (is_digit radix) (ds @ rest) = ds \<and> dropWhile (is_digit radix) (ds @ rest) = rest"
proof (induction ds)
  case Nil
  then show ?case by (cases rest) auto
qed auto

lemma read_number_print:
  assumes "2 \<le> radix" "radix \<le> 16" "n < bound"
    and "rest = [] \<or> \<not> is_digit radix (hd rest)"
    and "case max_digits of None \<Rightarrow> True | Some k \<Rightarrow> 0 < k \<and> n < radix ^ k"
  shows "read_number radix max_digits allow bound (print_radix radix n @ rest) = Some (n, rest)"
proof -
  have runs: "takeWhile (is_digit radix) (print_radix radix n @ rest) = print_radix radix n"
    "dropWhile (is_digit radix) (print_radix radix n @ rest) = rest"
    using digit_runs [OF print_radix_digits assms(4)] assms(1,2) by auto
  have len: "\<not> (case max_digits of None \<Rightarrow> False | Some k \<Rightarrow> k < length (print_radix radix n))"
    using assms(1,5) print_radix_length [of radix _ n] by (auto split: option.splits simp: not_less)
  have zero: "hd (print_radix radix n) = CHR ''0'' \<Longrightarrow> length (print_radix radix n) \<le> 1"
    using print_radix_hd [of radix n] print_radix_length [of radix 1 n] assms(1,2)
    by (cases "n = 0") auto
  show ?thesis
    using assms(1-3) runs len zero by (auto simp: read_number_def Let_def digits_value_print)
qed

lemma not_digit_sep: "\<not> is_digit 10 (CHR ''.'')" "\<not> is_digit 10 (CHR '':'')"
    "\<not> is_digit 10 (CHR '']'')" "\<not> is_digit 10 (CHR ''/'')"
  by (simp_all add: is_digit10_iff byte_def)

lemma read_octet_first:
  "n < 256 \<Longrightarrow> rest = [] \<or> \<not> is_digit 10 (hd rest) \<Longrightarrow> read_octet 0 (dec n @ rest) = Some (n, rest)"
  unfolding dec_def read_octet_def read_separator_def
  by (simp add: read_number_print)

lemma read_octet_next:
  "n < 256 \<Longrightarrow> 0 < i \<Longrightarrow> rest = [] \<or> \<not> is_digit 10 (hd rest) \<Longrightarrow>
    read_octet i (CHR ''.'' # dec n @ rest) = Some (n, rest)"
  unfolding dec_def read_octet_def read_separator_def
  by (simp add: read_number_print)

lemma read_ipv4_print:
  assumes "rest = [] \<or> \<not> is_digit 10 (hd rest)"
  shows "read_ipv4_addr (print_v4 ip @ rest) = Some (ip, rest)"
  using assms v4_octets_cover [of ip]
  by (simp add: read_ipv4_addr_def print_v4_def read_octet_first read_octet_next not_digit_sep)

lemma read_port_print: "read_port (CHR '':'' # dec (unat p)) = Some (p, [])"
proof -
  have "unat p < 2 ^ LENGTH(16)" by (rule unsigned_less)
  then have "unat p < 65536" by simp
  then show ?thesis
    using read_number_print [of 10 "unat p" 65536 "[]" None True]
    by (simp add: read_port_def dec_def)
qed

lemma parse_ip_print_v4: "parse_ip (print_v4 ip) = Some (V4 ip)"
  using read_ipv4_print [of "[]" ip] by (simp add: parse_ip_def parse_all_def read_ip_addr_def)

lemma parse_socket_addr_print_v4: "parse_socket_addr (print_socket_addr (SockV4 ip p)) = Some (SockV4 ip p)"
  using read_ipv4_print [of "CHR '':'' # dec (unat p)" ip] read_port_print [of p]
  by (simp add: parse_socket_addr_def parse_all_def read_socket_addr_def read_socket_addr_v4_def
      not_digit_sep)

lemma print_v4_chars: "c \<in> set (print_v4 ip) \<Longrightarrow> c = CHR ''.'' \<or> is_digit 10 c"
  using dec_digits by (auto simp: print_v4_def list_all_iff)

lemma print_v4_bytes: "c \<in> set (print_v4 ip) \<Longrightarrow> 46 \<le> byte c \<and> byte c \<le> 57"
  by (drule print_v4_chars) (auto simp: is_digit10_iff byte_def)

lemma print_v4_ws_free: "ws_free (print_v4 ip)"
  by (rule ws_freeI) (auto dest: print_v4_bytes)

lemma length_print_v4: "length (print_v4 ip) \<le> 15"
proof -
  have "length (dec (v4_octet k ip)) \<le> 3" for k
    unfolding dec_def
    by (rule print_radix_length) (auto intro: less_le_trans [OF v4_octet_less])
  note this [of 0] this [of 1] this [of 2] this [of 3]
  then show ?thesis by (simp add: print_v4_def)
qed

lemma parse_ipv4_print: "parse_ipv4 (print_v4 ip) = Some ip"
  using read_ipv4_print [of "[]" ip] length_print_v4 [of ip] by (simp add: parse_ipv4_def parse_all_def)

end
