(* ===== verification/Key_Roster.thy ===== *)
theory Key_Roster
  imports Net_Addr
begin

text \<open>
  \<open>crates/nostr-vpn-core/src/config_defaults.rs\<close> and \<open>network_roster.rs\<close>: the defaults of a
  configuration, the normal forms of network ids and public keys, and the normalisation of the
  lists of admins, participants and join requests. The Nostr key library and SHA-256 are
  parameters, bundled in a record.
\<close>

section \<open>Keys and digests\<close>

text \<open>
  What the code takes from the key library: \<open>PublicKey::parse\<close> followed by \<open>to_hex\<close>;
  \<open>PublicKey::from_hex\<close> followed by \<open>to_bech32\<close>; and \<open>Keys::parse\<close> of a secret, as the
  hexadecimal and the user-facing form of its public key.
\<close>

record key_env =
  pk_parse :: "string \<Rightarrow> string option"
  npub_of_hex :: "string \<Rightarrow> string option"
  keys_parse :: "string \<Rightarrow> (string \<times> string) option"
  sha256 :: "string \<Rightarrow> string"

text \<open>A nonempty string of lower-case hexadecimal digits.\<close>

definition hex_key :: "string \<Rightarrow> bool" where
  "hex_key s \<longleftrightarrow> s \<noteq> [] \<and> list_all (\<lambda>c. is_ascii_digit c \<or> (97 \<le> byte c \<and> byte c \<le> 102)) s"

text \<open>
  Documented behaviour of the key library: a parsed key is printed as a nonempty lower-case
  hexadecimal string that parses to itself, and has an \<open>npub1\<close> form, without white space, that parses
  back to it; the forms of a secret's public key parse to that key.
\<close>

definition key_laws :: "key_env \<Rightarrow> bool" where
  "key_laws E \<longleftrightarrow>
    (\<forall>s h. pk_parse E s = Some h \<longrightarrow>
       hex_key h \<and> pk_parse E h = Some h
       \<and> (\<exists>n. npub_of_hex E h = Some n \<and> pk_parse E n = Some h \<and> starts_with ''npub1'' n \<and> ws_free n))
    \<and> (\<forall>s h u. keys_parse E s = Some (h, u) \<longrightarrow> pk_parse E h = Some h \<and> pk_parse E u = Some h)"

definition normalize_nostr_pubkey :: "key_env \<Rightarrow> string \<Rightarrow> string option" where
  "normalize_nostr_pubkey E value = pk_parse E value"

definition npub_for_pubkey_hex :: "key_env \<Rightarrow> string \<Rightarrow> string" where
  "npub_for_pubkey_hex E pubkey_hex =
    (case npub_of_hex E pubkey_hex of Some npub \<Rightarrow> npub | None \<Rightarrow> pubkey_hex)"

definition canonical_npub_key :: "key_env \<Rightarrow> string \<Rightarrow> string option" where
  "canonical_npub_key E value =
    (case normalize_nostr_pubkey E value of
       None \<Rightarrow> None
     | Some normalized \<Rightarrow>
         Some (case npub_of_hex E normalized of Some npub \<Rightarrow> npub | None \<Rightarrow> normalized))"

definition normalize_npub_key :: "key_env \<Rightarrow> string \<Rightarrow> string option" where
  "normalize_npub_key E value =
    (let candidate = trim value
     in if \<not> starts_with ''npub1'' candidate then None else canonical_npub_key E candidate)"

definition hex_encode :: "string \<Rightarrow> string" where
  "hex_encode bytes = concat (map (\<lambda>c. [digit_char (byte c div 16), digit_char (byte c mod 16)]) bytes)"

definition newline :: string where
  "newline = [CHR 0x0A]"

definition derive_network_id_from_participants :: "key_env \<Rightarrow> string list \<Rightarrow> string" where
  "derive_network_id_from_participants E participants =
    take 16 (hex_encode (sha256 E (concat (map (\<lambda>p. p @ newline) (sort_dedup participants)))))"

section \<open>Defaults\<close>

definition LEGACY_NETWORK_ID_COMPAT_PREFIX :: string where
  "LEGACY_NETWORK_ID_COMPAT_PREFIX = ''nostr-vpn:''"

definition normalize_runtime_network_id :: "string \<Rightarrow> string" where
  "normalize_runtime_network_id value =
    (let trimmed = trim value
     in case strip_prefix LEGACY_NETWORK_ID_COMPAT_PREFIX trimmed of
          Some rest \<Rightarrow> rest | None \<Rightarrow> trimmed)"

definition DEFAULT_RELAYS :: "string list" where
  "DEFAULT_RELAYS =
    [''wss://temp.iris.to'', ''wss://relay.damus.io'', ''wss://relay.snort.social'',
     ''wss://relay.primal.net'']"

definition default_relays :: "string list" where
  "default_relays = DEFAULT_RELAYS"

definition default_nat_enabled :: bool where "default_nat_enabled = True"

definition default_nat_stun_servers :: "string list" where
  "default_nat_stun_servers =
    [''stun:stun.iris.to:3478'', ''stun:stun.l.google.com:19302'', ''stun:stun.cloudflare.com:3478'']"

definition default_nat_discovery_timeout_secs :: u64 where
  "default_nat_discovery_timeout_secs = 2"

definition default_use_public_relay_fallback :: bool where "default_use_public_relay_fallback = True"
definition default_relay_for_others :: bool where "default_relay_for_others = False"
definition default_provide_nat_assist :: bool where "default_provide_nat_assist = False"
definition default_lan_discovery_enabled :: bool where "default_lan_discovery_enabled = True"
definition default_launch_on_startup :: bool where "default_launch_on_startup = True"
definition default_autoconnect :: bool where "default_autoconnect = True"
definition default_close_to_tray_on_close :: bool where "default_close_to_tray_on_close = True"
definition default_network_enabled :: bool where "default_network_enabled = True"
definition default_listen_for_join_requests :: bool where "default_listen_for_join_requests = True"

definition default_endpoint :: string where "default_endpoint = ''127.0.0.1:51820''"
definition default_tunnel_ip :: string where "default_tunnel_ip = ''10.44.0.1/32''"
definition default_listen_port :: u16 where "default_listen_port = 51820"
definition default_network_id :: string where "default_network_id = ''nostr-vpn''"

definition uses_default_network_id :: "string \<Rightarrow> bool" where
  "uses_default_network_id value \<longleftrightarrow> trim value = [] \<or> trim value = ''nostr-vpn''"

definition needs_endpoint_autoconfig :: "string \<Rightarrow> bool" where
  "needs_endpoint_autoconfig endpoint =
    (let value = trim endpoint
     in if value = [] then True
        else (let host = trim_end_matches (CHR '']'') (trim_start_matches (CHR ''['') (trim
                (case rsplit_once (CHR '':'') value of None \<Rightarrow> value | Some (host, _) \<Rightarrow> host)))
              in host \<in> {''127.0.0.1'', ''0.0.0.0'', ''localhost'', ''::1''}))"

definition needs_tunnel_ip_autoconfig :: "string \<Rightarrow> bool" where
  "needs_tunnel_ip_autoconfig tunnel_ip =
    (let value = trim tunnel_ip in value = [] \<or> value = ''10.44.0.1/32'')"

section \<open>Rosters and join requests\<close>

record pending_outbound_join_request =
  po_recipient :: string
  po_requested_at :: u64

record pending_inbound_join_request =
  pi_requester :: string
  pi_requester_node_name :: string
  pi_requested_at :: u64

definition normalize_network_admins ::
  "key_env \<Rightarrow> string list \<Rightarrow> string option \<Rightarrow> string \<Rightarrow> string list" where
  "normalize_network_admins E admins own_pubkey_hex invite_inviter =
    (let normalized = sort_dedup (List.map_filter (normalize_nostr_pubkey E) admins)
     in if normalized \<noteq> [] then normalized
        else (case normalize_nostr_pubkey E invite_inviter of
            Some inviter \<Rightarrow> [inviter]
          | None \<Rightarrow> (case own_pubkey_hex of Some pubkey \<Rightarrow> [pubkey] | None \<Rightarrow> [])))"

text \<open>\<open>collect::<Result<Vec<_>>>()\<close>: the first failure, or all the values.\<close>

fun collect_results :: "('a \<Rightarrow> 'b option) \<Rightarrow> 'a list \<Rightarrow> 'b list option" where
  "collect_results f [] = Some []"
| "collect_results f (x # xs) =
    (case f x of None \<Rightarrow> None | Some y \<Rightarrow> map_option ((#) y) (collect_results f xs))"

definition normalize_shared_roster_participants ::
  "key_env \<Rightarrow> string list \<Rightarrow> string option \<Rightarrow> string list option" where
  "normalize_shared_roster_participants E participants own_pubkey_hex =
    map_option (\<lambda>normalized. sort_dedup
        (case own_pubkey_hex of None \<Rightarrow> normalized
         | Some own \<Rightarrow> filter (\<lambda>p. p \<noteq> own) normalized))
      (collect_results (normalize_nostr_pubkey E) participants)"

definition normalize_outbound_join_request ::
  "key_env \<Rightarrow> pending_outbound_join_request option \<Rightarrow> pending_outbound_join_request option" where
  "normalize_outbound_join_request E request =
    Option.bind request (\<lambda>r.
      map_option (\<lambda>recipient. \<lparr>po_recipient = recipient, po_requested_at = po_requested_at r\<rparr>)
        (normalize_nostr_pubkey E (po_recipient r)))"

definition canonicalize_outbound_join_request ::
  "key_env \<Rightarrow> pending_outbound_join_request option \<Rightarrow> pending_outbound_join_request option" where
  "canonicalize_outbound_join_request E request =
    Option.bind request (\<lambda>r.
      map_option (\<lambda>recipient. \<lparr>po_recipient = recipient, po_requested_at = po_requested_at r\<rparr>)
        (canonical_npub_key E (po_recipient r)))"

text \<open>One request in the loop that keeps, for each requester, the newest request.\<close>

definition dedup_inbound ::
  "key_env \<Rightarrow> string list \<Rightarrow> pending_inbound_join_request
    \<Rightarrow> (string, pending_inbound_join_request) hmap \<Rightarrow> (string, pending_inbound_join_request) hmap" where
  "dedup_inbound E participants request deduped =
    (case normalize_nostr_pubkey E (pi_requester request) of
       None \<Rightarrow> deduped
     | Some requester \<Rightarrow>
         if requester \<in> set participants then deduped
         else (let normalized = \<lparr>pi_requester = requester,
                     pi_requester_node_name = trim (pi_requester_node_name request),
                     pi_requested_at = pi_requested_at request\<rparr>
               in if (case hm_get deduped requester of None \<Rightarrow> False
                      | Some existing \<Rightarrow> pi_requested_at normalized \<le> pi_requested_at existing)
                  then deduped else hm_insert requester normalized deduped))"

definition normalize_inbound_join_requests ::
  "key_env \<Rightarrow> pending_inbound_join_request list \<Rightarrow> string list \<Rightarrow> pending_inbound_join_request list" where
  "normalize_inbound_join_requests E requests participants =
    sort_key pi_requester (map snd (fold (dedup_inbound E participants) requests []))"

definition canonicalize_inbound_join_requests ::
  "key_env \<Rightarrow> pending_inbound_join_request list \<Rightarrow> pending_inbound_join_request list" where
  "canonicalize_inbound_join_requests E requests =
    List.map_filter (\<lambda>r. map_option (\<lambda>requester. r\<lparr>pi_requester := requester\<rparr>)
      (canonical_npub_key E (pi_requester r))) requests"

section \<open>Facts about keys\<close>

lemma normalize_fixed:
  "key_laws E \<Longrightarrow> normalize_nostr_pubkey E s = Some h \<Longrightarrow> normalize_nostr_pubkey E h = Some h"
  by (auto simp: key_laws_def normalize_nostr_pubkey_def)

lemma normalize_hex: "key_laws E \<Longrightarrow> normalize_nostr_pubkey E s = Some h \<Longrightarrow> hex_key h"
  by (simp add: key_laws_def normalize_nostr_pubkey_def)

lemma normalize_nonempty: "key_laws E \<Longrightarrow> normalize_nostr_pubkey E s = Some h \<Longrightarrow> h \<noteq> []"
  by (drule (1) normalize_hex) (simp add: hex_key_def)

lemma npub_facts:
  assumes "key_laws E" "normalize_nostr_pubkey E s = Some h"
  shows "normalize_nostr_pubkey E (npub_for_pubkey_hex E h) = Some h"
    and "normalize_npub_key E (npub_for_pubkey_hex E h) = Some (npub_for_pubkey_hex E h)"
    and "canonical_npub_key E s = Some (npub_for_pubkey_hex E h)"
proof -
  obtain n where n: "npub_of_hex E h = Some n" "pk_parse E n = Some h" "starts_with ''npub1'' n" "ws_free n"
    using assms unfolding key_laws_def normalize_nostr_pubkey_def by metis
  then show "normalize_nostr_pubkey E (npub_for_pubkey_hex E h) = Some h"
    by (simp add: normalize_nostr_pubkey_def npub_for_pubkey_hex_def)
  then show "normalize_npub_key E (npub_for_pubkey_hex E h) = Some (npub_for_pubkey_hex E h)"
    using n by (simp add: normalize_npub_key_def npub_for_pubkey_hex_def canonical_npub_key_def trim_ws_free)
  show "canonical_npub_key E s = Some (npub_for_pubkey_hex E h)"
    using assms(2) by (simp add: canonical_npub_key_def npub_for_pubkey_hex_def)
qed

lemma npub_inj:
  "key_laws E \<Longrightarrow> normalize_nostr_pubkey E h = Some h \<Longrightarrow> normalize_nostr_pubkey E h' = Some h' \<Longrightarrow>
    npub_for_pubkey_hex E h = npub_for_pubkey_hex E h' \<Longrightarrow> h = h'"
  by (metis npub_facts(1) option.inject)

text \<open>A normalised list: sorted, without repetitions, of normalised keys.\<close>

definition norm_keys :: "key_env \<Rightarrow> string list \<Rightarrow> bool" where
  "norm_keys E ks \<longleftrightarrow> sorted_unique ks \<and> list_all (\<lambda>k. normalize_nostr_pubkey E k = Some k) ks"

lemma set_map_filter: "set (List.map_filter f xs) = {y. \<exists>x \<in> set xs. f x = Some y}"
  by (induction xs) (auto simp: List.map_filter_simps split: option.splits)

lemma map_filter_fixed: "list_all (\<lambda>x. f x = Some x) xs \<Longrightarrow> List.map_filter f xs = xs"
  by (induction xs) (auto simp: List.map_filter_simps)

lemma norm_keys_Nil [simp]: "norm_keys E []"
  by (simp add: norm_keys_def)

lemma norm_keys_map_filter:
  "key_laws E \<Longrightarrow> norm_keys E (sort_dedup (List.map_filter (normalize_nostr_pubkey E) ks))"
  by (auto simp: norm_keys_def list_all_iff set_map_filter normalize_fixed)

lemma norm_keys_fixed:
  "norm_keys E ks \<Longrightarrow> sort_dedup (List.map_filter (normalize_nostr_pubkey E) ks) = ks"
  by (simp add: norm_keys_def map_filter_fixed sort_dedup_id)

lemma norm_keys_single: "normalize_nostr_pubkey E k = Some k \<Longrightarrow> norm_keys E [k]"
  by (simp add: norm_keys_def)

lemma norm_keys_filter: "norm_keys E ks \<Longrightarrow> norm_keys E (filter P ks)"
  by (auto simp: norm_keys_def sorted_unique_filter list_all_iff)

lemma norm_keys_insert:
  "norm_keys E ks \<Longrightarrow> normalize_nostr_pubkey E k = Some k \<Longrightarrow> norm_keys E (sort_dedup (ks @ [k]))"
  by (auto simp: norm_keys_def list_all_iff)

lemma normalize_admins_norm:
  "key_laws E \<Longrightarrow> (\<And>k. own = Some k \<Longrightarrow> normalize_nostr_pubkey E k = Some k) \<Longrightarrow>
    norm_keys E (normalize_network_admins E admins own inviter)"
  by (auto simp: normalize_network_admins_def Let_def norm_keys_map_filter
      intro: norm_keys_single normalize_fixed split: option.splits)

lemma normalize_admins_fixed:
  "norm_keys E admins \<Longrightarrow> admins \<noteq> [] \<Longrightarrow> normalize_network_admins E admins own inviter = admins"
  by (simp add: normalize_network_admins_def norm_keys_fixed)

lemma map_filter_Nil: "List.map_filter f xs = [] \<longleftrightarrow> (\<forall>x \<in> set xs. f x = None)"
  by (induction xs) (auto simp: List.map_filter_simps split: option.splits)

lemma normalize_admins_empty:
  "normalize_network_admins E admins own inviter = [] \<longleftrightarrow>
    (\<forall>a \<in> set admins. normalize_nostr_pubkey E a = None)
    \<and> normalize_nostr_pubkey E inviter = None \<and> own = None"
  by (simp add: normalize_network_admins_def Let_def map_filter_Nil split: option.splits)

lemma collect_results_set:
  "collect_results f xs = Some ys \<Longrightarrow> y \<in> set ys \<Longrightarrow> \<exists>x \<in> set xs. f x = Some y"
  by (induction xs arbitrary: ys) (auto split: option.splits)

lemma collect_results_None: "collect_results f xs = None \<longleftrightarrow> (\<exists>x \<in> set xs. f x = None)"
  by (induction xs) (auto split: option.splits)

lemma normalize_roster_participants_norm:
  assumes "key_laws E" "normalize_shared_roster_participants E ps own = Some qs"
  shows "norm_keys E qs" and "own = Some k \<Longrightarrow> k \<notin> set qs"
proof -
  obtain ys where ys: "collect_results (normalize_nostr_pubkey E) ps = Some ys"
    and qs: "qs = sort_dedup (case own of None \<Rightarrow> ys | Some own \<Rightarrow> filter (\<lambda>p. p \<noteq> own) ys)"
    using assms(2) by (auto simp: normalize_shared_roster_participants_def)
  have "normalize_nostr_pubkey E y = Some y" if "y \<in> set ys" for y
    using collect_results_set [OF ys that] normalize_fixed [OF assms(1)] by blast
  then show "norm_keys E qs" by (auto simp: qs norm_keys_def list_all_iff split: option.split)
  show "k \<notin> set qs" if "own = Some k" using that by (simp add: qs)
qed

section \<open>A concrete key library\<close>

text \<open>
  A key library that satisfies the laws, for the examples: keys are strings of hexadecimal
  digits, and \<open>npub1\<close> is put before them.
\<close>

definition sample_keys :: key_env where
  "sample_keys =
    \<lparr>pk_parse = (\<lambda>s. if hex_key s then Some s
        else case strip_prefix ''npub1'' s of None \<Rightarrow> None | Some h \<Rightarrow> if hex_key h then Some h else None),
     npub_of_hex = (\<lambda>h. if hex_key h then Some (''npub1'' @ h) else None),
     keys_parse = (\<lambda>s. if hex_key s then Some (s, ''npub1'' @ s) else None),
     sha256 = (\<lambda>s. take 32 (s @ replicate 32 (CHR ''0'')))\<rparr>"

lemma hex_key_no_npub: "hex_key h \<Longrightarrow> \<not> hex_key (''npub1'' @ h)"
  by (simp add: hex_key_def is_ascii_digit_def byte_def)

lemma hex_key_ws_free: "hex_key h \<Longrightarrow> ws_free (''npub1'' @ h)"
  by (rule ws_freeI) (auto simp: hex_key_def list_all_iff is_ascii_digit_def byte_def)

lemma sample_parse: "pk_parse sample_keys s = Some h \<Longrightarrow> hex_key h"
  by (auto simp: sample_keys_def split: if_splits option.splits)

lemma sample_self:
  assumes "hex_key h"
  shows "pk_parse sample_keys h = Some h" and "npub_of_hex sample_keys h = Some (''npub1'' @ h)"
    and "pk_parse sample_keys (''npub1'' @ h) = Some h"
proof -
  show "pk_parse sample_keys h = Some h" "npub_of_hex sample_keys h = Some (''npub1'' @ h)"
    using assms by (simp_all add: sample_keys_def)
  have "strip_prefix ''npub1'' (''npub1'' @ h) = Some h" by (rule strip_prefix_append)
  then show "pk_parse sample_keys (''npub1'' @ h) = Some h"
    using assms hex_key_no_npub [OF assms] by (simp only: sample_keys_def key_env.simps if_False option.case if_True)
qed

lemma sample_keys_laws: "key_laws sample_keys"
  unfolding key_laws_def
proof (intro conjI allI impI)
  fix s h assume "pk_parse sample_keys s = Some h"
  then have h: "hex_key h" by (rule sample_parse)
  then show "hex_key h" .
  show "pk_parse sample_keys h = Some h" by (rule sample_self(1) [OF h])
  have "starts_with ''npub1'' (''npub1'' @ h)" unfolding starts_with_def prefix_def by blast
  with sample_self(2,3) [OF h] hex_key_ws_free [OF h]
  show "\<exists>n. npub_of_hex sample_keys h = Some n \<and> pk_parse sample_keys n = Some h
      \<and> starts_with ''npub1'' n \<and> ws_free n" by blast
next
  fix s h u assume "keys_parse sample_keys s = Some (h, u)"
  then have hu: "hex_key h" "u = ''npub1'' @ h" by (auto simp: sample_keys_def split: if_splits)
  show "pk_parse sample_keys h = Some h" by (rule sample_self(1) [OF hu(1)])
  show "pk_parse sample_keys u = Some h" unfolding hu(2) by (rule sample_self(3) [OF hu(1)])
qed

section \<open>Inbound join requests\<close>

lemma dedup_inbound_wf: "hm_wf m \<Longrightarrow> hm_wf (dedup_inbound E ps r m)"
  by (auto simp: dedup_inbound_def Let_def hm_wf_intros split: option.splits)

lemma fold_dedup_inbound_wf: "hm_wf m \<Longrightarrow> hm_wf (fold (dedup_inbound E ps) rs m)"
  by (induction rs arbitrary: m) (simp_all add: dedup_inbound_wf)

text \<open>What the table holds: normalised requests, under their requester, of non-participants.\<close>

definition inbound_ok ::
  "key_env \<Rightarrow> string list \<Rightarrow> (string, pending_inbound_join_request) hmap \<Rightarrow> bool" where
  "inbound_ok E ps m \<longleftrightarrow> (\<forall>k r. hm_get m k = Some r \<longrightarrow>
     pi_requester r = k \<and> normalize_nostr_pubkey E k = Some k \<and> k \<notin> set ps
     \<and> trim (pi_requester_node_name r) = pi_requester_node_name r)"

lemma dedup_inbound_ok:
  "key_laws E \<Longrightarrow> inbound_ok E ps m \<Longrightarrow> inbound_ok E ps (dedup_inbound E ps r m)"
  by (auto simp: inbound_ok_def dedup_inbound_def Let_def hm_simps normalize_fixed split: option.splits)

lemma fold_dedup_inbound_ok:
  "key_laws E \<Longrightarrow> inbound_ok E ps m \<Longrightarrow> inbound_ok E ps (fold (dedup_inbound E ps) rs m)"
  by (induction rs arbitrary: m) (simp_all add: dedup_inbound_ok)

text \<open>The list of a configured network: sorted by requester, each once, normalised.\<close>

definition norm_inbound :: "key_env \<Rightarrow> string list \<Rightarrow> pending_inbound_join_request list \<Rightarrow> bool" where
  "norm_inbound E ps rs \<longleftrightarrow> sorted_unique (map pi_requester rs)
    \<and> list_all (\<lambda>r. normalize_nostr_pubkey E (pi_requester r) = Some (pi_requester r)
        \<and> pi_requester r \<notin> set ps
        \<and> trim (pi_requester_node_name r) = pi_requester_node_name r) rs"

lemma normalize_inbound_norm:
  assumes "key_laws E"
  shows "norm_inbound E ps (normalize_inbound_join_requests E rs ps)"
proof -
  define m where "m = fold (dedup_inbound E ps) rs []"
  have wf: "hm_wf m" by (simp add: m_def fold_dedup_inbound_wf)
  have ok: "inbound_ok E ps m"
    unfolding m_def by (rule fold_dedup_inbound_ok [OF assms]) (simp add: inbound_ok_def hm_simps)
  have keys: "map pi_requester (map snd m) = map fst m"
    using ok hm_in_get [OF wf] by (auto simp: inbound_ok_def)
  have "mset (map pi_requester (normalize_inbound_join_requests E rs ps)) = mset (map fst m)"
    unfolding normalize_inbound_join_requests_def m_def [symmetric]
    by (metis keys mset_map mset_sort)
  then have "distinct (map pi_requester (normalize_inbound_join_requests E rs ps))"
    using wf by (metis hm_wf_def mset_eq_imp_distinct_iff)
  moreover have "sorted (map pi_requester (normalize_inbound_join_requests E rs ps))"
    by (simp add: normalize_inbound_join_requests_def)
  moreover have "r \<in> snd ` set m" if "r \<in> set (normalize_inbound_join_requests E rs ps)" for r
    using that by (simp add: normalize_inbound_join_requests_def m_def)
  ultimately show ?thesis
    using ok hm_in_get [OF wf]
    by (fastforce simp: norm_inbound_def sorted_unique_def list_all_iff inbound_ok_def)
qed

end
