(* ===== verification/Wg_Status.thy ===== *)
theory Wg_Status
  imports Key_Roster
begin

text \<open>
  The state of the WireGuard peers as \<open>crates/nostr-vpn-cli/src/main.rs\<close> reads it from the tunnel:
  the status of a peer, its handshake times, and the parser of the textual status.
\<close>

definition PEER_ONLINE_GRACE_SECS :: u64 where "PEER_ONLINE_GRACE_SECS = 180"

record wg_peer_status =
  wp_endpoint :: "string option"
  wp_last_handshake_sec :: "u64 option"
  wp_last_handshake_nsec :: "u64 option"
  wp_tx_bytes :: u64
  wp_rx_bytes :: u64

definition wg_peer_status_default :: wg_peer_status where
  "wg_peer_status_default = \<lparr>wp_endpoint = None, wp_last_handshake_sec = None,
     wp_last_handshake_nsec = None, wp_tx_bytes = 0, wp_rx_bytes = 0\<rparr>"

definition unwrap_or_zero :: "u64 option \<Rightarrow> u64" where
  "unwrap_or_zero v = (case v of None \<Rightarrow> 0 | Some n \<Rightarrow> n)"

definition has_handshake :: "wg_peer_status \<Rightarrow> bool" where
  "has_handshake p \<longleftrightarrow> 0 < unwrap_or_zero (wp_last_handshake_sec p) \<or> 0 < unwrap_or_zero (wp_last_handshake_nsec p)"

definition ABSOLUTE_HANDSHAKE_TIMESTAMP_FLOOR :: u64 where
  "ABSOLUTE_HANDSHAKE_TIMESTAMP_FLOOR = 946684800"

definition last_handshake_at :: "u64 \<Rightarrow> wg_peer_status \<Rightarrow> u64 option" where
  "last_handshake_at now p =
    (if \<not> has_handshake p then None
     else (case wp_last_handshake_sec p of
         None \<Rightarrow> None
       | Some raw \<Rightarrow>
           if raw = 0 then None
           else if raw < ABSOLUTE_HANDSHAKE_TIMESTAMP_FLOOR then Some (saturating_sub now raw)
           else Some raw))"

definition last_handshake_age :: "u64 \<Rightarrow> wg_peer_status \<Rightarrow> u64 option" where
  "last_handshake_age now p = map_option (\<lambda>at. saturating_sub now at) (last_handshake_at now p)"

definition peer_has_recent_handshake :: "u64 \<Rightarrow> wg_peer_status \<Rightarrow> bool" where
  "peer_has_recent_handshake now p =
    (case last_handshake_age now p of None \<Rightarrow> False | Some age \<Rightarrow> age \<le> PEER_ONLINE_GRACE_SECS)"

text \<open>\<open>b64\<close> is the standard base64 decoder.\<close>

definition key_b64_to_hex :: "(string \<Rightarrow> string option) \<Rightarrow> string \<Rightarrow> string option" where
  "key_b64_to_hex b64 value =
    (case b64 value of
       None \<Rightarrow> None
     | Some bytes \<Rightarrow> if length bytes \<noteq> 32 then None else Some (hex_encode bytes))"

section \<open>The textual status\<close>

text \<open>\<open>str::lines\<close>: split at line feeds, without a carriage return before one and a last empty line.\<close>

definition strip_cr :: "string \<Rightarrow> string" where
  "strip_cr l = (if l \<noteq> [] \<and> last l = CHR 0x0D then butlast l else l)"

definition str_lines :: "string \<Rightarrow> string list" where
  "str_lines s =
    (let parts = split_char (CHR 0x0A) s
     in map strip_cr (butlast parts) @ (if last parts = [] then [] else [last parts]))"

definition parse_u64 :: "string \<Rightarrow> u64 option" where
  "parse_u64 s = map_option of_nat (parse_uint (2 ^ 64) s)"

record wg_reading =
  wr_peers :: "(string, wg_peer_status) hmap"
  wr_current_pubkey :: "string option"
  wr_current :: wg_peer_status

definition commit_current :: "wg_reading \<Rightarrow> wg_reading" where
  "commit_current r = (case wr_current_pubkey r of
      None \<Rightarrow> r
    | Some pubkey \<Rightarrow> r\<lparr>wr_peers := hm_insert pubkey (wr_current r) (wr_peers r),
        wr_current_pubkey := None, wr_current := wg_peer_status_default\<rparr>)"

text \<open>\<open>lower\<close> is Unicode lower-casing, for a key that need not be hexadecimal.\<close>

definition wg_line :: "(string \<Rightarrow> string) \<Rightarrow> string \<Rightarrow> wg_reading \<Rightarrow> wg_reading" where
  "wg_line lower line r =
    (if line = [] \<or> line = ''errno=0'' then r
     else (case strip_prefix ''public_key='' line of
         Some value \<Rightarrow> (commit_current r)\<lparr>wr_current_pubkey := Some (lower (trim value))\<rparr>
       | None \<Rightarrow>
           if wr_current_pubkey r = None then r
           else (case strip_prefix ''endpoint='' line of
               Some value \<Rightarrow> r\<lparr>wr_current := (wr_current r)\<lparr>wp_endpoint := Some (trim value)\<rparr>\<rparr>
             | None \<Rightarrow>
           (case strip_prefix ''last_handshake_time_sec='' line of
               Some value \<Rightarrow> (case parse_u64 (trim value) of
                   None \<Rightarrow> r
                 | Some parsed \<Rightarrow> r\<lparr>wr_current := (wr_current r)\<lparr>wp_last_handshake_sec := Some parsed\<rparr>\<rparr>)
             | None \<Rightarrow>
           (case Option.bind (strip_prefix ''last_handshake_time_nsec='' line) (\<lambda>value. parse_u64 (trim value)) of
               Some parsed \<Rightarrow> r\<lparr>wr_current := (wr_current r)\<lparr>wp_last_handshake_nsec := Some parsed\<rparr>\<rparr>
             | None \<Rightarrow>
           (case strip_prefix ''tx_bytes='' line of
               Some value \<Rightarrow> (case parse_u64 (trim value) of
                   None \<Rightarrow> r | Some parsed \<Rightarrow> r\<lparr>wr_current := (wr_current r)\<lparr>wp_tx_bytes := parsed\<rparr>\<rparr>)
             | None \<Rightarrow>
           (case Option.bind (strip_prefix ''rx_bytes='' line) (\<lambda>value. parse_u64 (trim value)) of
               Some parsed \<Rightarrow> r\<lparr>wr_current := (wr_current r)\<lparr>wp_rx_bytes := parsed\<rparr>\<rparr>
             | None \<Rightarrow> r)))))))"

definition parse_wg_peer_status :: "(string \<Rightarrow> string) \<Rightarrow> string \<Rightarrow> (string, wg_peer_status) hmap" where
  "parse_wg_peer_status lower response =
    wr_peers (commit_current (fold (wg_line lower) (str_lines response)
      \<lparr>wr_peers = [], wr_current_pubkey = None, wr_current = wg_peer_status_default\<rparr>))"

section \<open>Handshake times\<close>

lemma last_handshake_at_sec:
  "last_handshake_at now p = Some t \<Longrightarrow> \<exists>raw. wp_last_handshake_sec p = Some raw \<and> raw \<noteq> 0"
  by (auto simp: last_handshake_at_def split: if_splits option.splits)

lemma recent_handshake_has: "peer_has_recent_handshake now p \<Longrightarrow> has_handshake p"
  by (auto simp: peer_has_recent_handshake_def last_handshake_age_def last_handshake_at_def
      split: if_splits option.splits)

lemma commit_current_wf: "hm_wf (wr_peers r) \<Longrightarrow> hm_wf (wr_peers (commit_current r))"
  by (auto simp: commit_current_def hm_wf_insert split: option.split)

lemma wg_line_wf: "hm_wf (wr_peers r) \<Longrightarrow> hm_wf (wr_peers (wg_line lower line r))"
  by (auto simp: wg_line_def commit_current_wf split: option.split)

lemma parse_wg_peer_status_wf: "hm_wf (parse_wg_peer_status lower response)"
proof -
  have "hm_wf (wr_peers (fold (wg_line lower) ls r))" if "hm_wf (wr_peers r)" for ls r
    using that by (induction ls arbitrary: r) (simp_all add: wg_line_wf)
  then show ?thesis by (simp add: parse_wg_peer_status_def commit_current_wf)
qed

end
