(* ===== verification/Control.thy ===== *)
theory Control
  imports Net_Addr
begin

text \<open>
  \<open>crates/nostr-vpn-core/src/control.rs\<close>: the announcement a peer publishes, the directory
  of the newest announcement of each node, and the choice of the endpoint to dial from the
  announcement and the node's own local endpoints.
\<close>

section \<open>Announcements\<close>

record peer_announcement =
  pa_node_id :: string
  pa_public_key :: string
  pa_endpoint :: string
  pa_local_endpoint :: "string option"
  pa_public_endpoint :: "string option"
  pa_relay_endpoint :: "string option"
  pa_relay_pubkey :: "string option"
  pa_relay_expires_at :: "u64 option"
  pa_tunnel_ip :: string
  pa_advertised_routes :: "string list"
  pa_timestamp :: u64

text \<open>\<open>value.filter(|v| !v.trim().is_empty())\<close> on an optional string.\<close>

definition non_blank :: "string option \<Rightarrow> string option" where
  "non_blank v = (case v of None \<Rightarrow> None | Some s \<Rightarrow> if trim s = [] then None else Some s)"

definition with_relay ::
  "peer_announcement \<Rightarrow> string option \<Rightarrow> string option \<Rightarrow> u64 option \<Rightarrow> peer_announcement" where
  "with_relay a relay_endpoint relay_pubkey relay_expires_at =
    a\<lparr>pa_relay_endpoint := non_blank relay_endpoint,
      pa_relay_pubkey := non_blank relay_pubkey,
      pa_relay_expires_at := relay_expires_at\<rparr>"

definition without_expired_relay :: "peer_announcement \<Rightarrow> u64 \<Rightarrow> peer_announcement" where
  "without_expired_relay a now =
    (if (case pa_relay_expires_at a of None \<Rightarrow> False | Some expires_at \<Rightarrow> expires_at \<le> now)
     then a\<lparr>pa_relay_endpoint := None, pa_relay_pubkey := None, pa_relay_expires_at := None\<rparr>
     else a)"

lemma non_blank_Some: "non_blank v = Some s \<longleftrightarrow> v = Some s \<and> trim s \<noteq> []"
  by (auto simp: non_blank_def split: option.splits)

lemma without_expired_relay_fields [simp]:
  "pa_node_id (without_expired_relay a now) = pa_node_id a"
  "pa_public_key (without_expired_relay a now) = pa_public_key a"
  "pa_endpoint (without_expired_relay a now) = pa_endpoint a"
  "pa_local_endpoint (without_expired_relay a now) = pa_local_endpoint a"
  "pa_public_endpoint (without_expired_relay a now) = pa_public_endpoint a"
  "pa_tunnel_ip (without_expired_relay a now) = pa_tunnel_ip a"
  "pa_advertised_routes (without_expired_relay a now) = pa_advertised_routes a"
  "pa_timestamp (without_expired_relay a now) = pa_timestamp a"
  by (simp_all add: without_expired_relay_def)

lemma without_expired_relay_later:
  "now \<le> now' \<Longrightarrow>
    without_expired_relay (without_expired_relay a now) now' = without_expired_relay a now'"
  by (auto simp: without_expired_relay_def split: option.splits)

lemma without_expired_relay_live:
  "pa_relay_expires_at (without_expired_relay a now) = Some t \<Longrightarrow> now < t"
  by (auto simp: without_expired_relay_def not_le split: option.splits if_splits)

section \<open>The directory of peers\<close>

record peer_directory =
  pd_peers :: "(string, peer_announcement) hmap"

definition peer_directory_new :: peer_directory where
  "peer_directory_new = \<lparr>pd_peers = []\<rparr>"

definition directory_apply :: "peer_announcement \<Rightarrow> peer_directory \<Rightarrow> peer_directory" where
  "directory_apply a d =
    (case hm_get (pd_peers d) (pa_node_id a) of
       Some existing \<Rightarrow>
         if pa_timestamp a < pa_timestamp existing then d
         else d\<lparr>pd_peers := hm_insert (pa_node_id a) a (pd_peers d)\<rparr>
     | None \<Rightarrow> d\<lparr>pd_peers := hm_insert (pa_node_id a) a (pd_peers d)\<rparr>)"

definition directory_get :: "peer_directory \<Rightarrow> string \<Rightarrow> peer_announcement option" where
  "directory_get d node_id = hm_get (pd_peers d) node_id"

definition directory_remove ::
  "string \<Rightarrow> peer_directory \<Rightarrow> peer_announcement option \<times> peer_directory" where
  "directory_remove node_id d =
    (hm_get (pd_peers d) node_id, d\<lparr>pd_peers := hm_remove node_id (pd_peers d)\<rparr>)"

definition directory_all :: "peer_directory \<Rightarrow> peer_announcement list" where
  "directory_all d = sort_key pa_node_id (map snd (pd_peers d))"

text \<open>The invariant: each announcement is stored under its own node id, once.\<close>

definition directory_inv :: "peer_directory \<Rightarrow> bool" where
  "directory_inv d \<longleftrightarrow> hm_wf (pd_peers d) \<and> list_all (\<lambda>(k, a). pa_node_id a = k) (pd_peers d)"

interpretation dir: newest_book directory_get directory_apply pa_node_id id pa_timestamp
  by unfold_locales
    (auto simp: directory_get_def directory_apply_def hm_simps fun_eq_iff not_less
      split: option.splits)

lemma directory_apply_inv: "directory_inv d \<Longrightarrow> directory_inv (directory_apply a d)"
  by (auto simp: directory_inv_def directory_apply_def hm_wf_intros hm_set_insert list_all_iff
      split: option.splits)

interpretation dir_run: stepped directory_apply directory_inv
  by unfold_locales (rule directory_apply_inv)

lemma directory_remove_inv: "directory_inv d \<Longrightarrow> directory_inv (snd (directory_remove k d))"
  by (auto simp: directory_inv_def directory_remove_def hm_wf_intros list_all_iff hm_set_remove)

text \<open>Under the invariant the listing has one announcement per node, in the order of ids.\<close>

lemma directory_all_sorted:
  assumes "directory_inv d"
  shows "sorted_unique (map pa_node_id (directory_all d))"
proof -
  have keys: "map pa_node_id (map snd (pd_peers d)) = map fst (pd_peers d)"
    using assms by (auto simp: directory_inv_def list_all_iff)
  have "mset (map pa_node_id (directory_all d)) = mset (map fst (pd_peers d))"
    unfolding directory_all_def mset_map mset_sort keys [symmetric] ..
  then have "distinct (map pa_node_id (directory_all d)) = distinct (map fst (pd_peers d))"
    by (metis mset_eq_imp_distinct_iff)
  then show ?thesis
    using assms by (simp add: sorted_unique_def directory_inv_def hm_wf_def directory_all_def)
qed

lemma directory_all_set:
  "directory_inv d \<Longrightarrow> a \<in> set (directory_all d) \<longleftrightarrow> directory_get d (pa_node_id a) = Some a"
  by (force simp: directory_all_def directory_get_def directory_inv_def list_all_iff
      dest: hm_get_in intro: hm_in_get)

text \<open>
  Announcements are merged by time stamp alone: however the same announcements are ordered
  and repeated, the directory ends with the same newest time stamp for every node; what it
  holds for a node was announced under that node's id; it has an entry for every announcer at
  least as new as each of its announcements; and its listing names each node once, in order.
\<close>

lemma directory_order_independent:
  assumes "set xs = set ys"
  defines "d \<equiv> fold directory_apply xs peer_directory_new"
  shows "map_option pa_timestamp (directory_get d k)
      = map_option pa_timestamp (directory_get (fold directory_apply ys peer_directory_new) k)
    \<and> (\<forall>a. directory_get d k = Some a \<longrightarrow> a \<in> set xs \<and> pa_node_id a = k)
    \<and> (\<forall>b \<in> set xs. \<exists>a. directory_get d (pa_node_id b) = Some a \<and> pa_timestamp b \<le> pa_timestamp a)
    \<and> sorted_unique (map pa_node_id (directory_all d))"
proof (intro conjI allI ballI impI)
  show "map_option pa_timestamp (directory_get d k)
      = map_option pa_timestamp (directory_get (fold directory_apply ys peer_directory_new) k)"
    unfolding d_def by (rule dir.puts_stamp_order [OF assms(1)])
  have empty: "directory_get peer_directory_new k = None"
    by (simp add: directory_get_def peer_directory_new_def hm_simps)
  fix a assume "directory_get d k = Some a"
  from dir.puts_source [OF this [unfolded d_def]] empty
  show "a \<in> set xs" and "pa_node_id a = k" by auto
next
  fix b assume "b \<in> set xs"
  from dir.puts_stamp_ge [OF this]
  show "\<exists>a. directory_get d (pa_node_id b) = Some a \<and> pa_timestamp b \<le> pa_timestamp a"
    by (simp add: d_def)
next
  have "directory_inv d"
    unfolding d_def
    by (rule dir_run.run_inv) (simp add: directory_inv_def peer_directory_new_def)
  then show "sorted_unique (map pa_node_id (directory_all d))" by (rule directory_all_sorted)
qed

definition sample_announcement :: "string \<Rightarrow> u64 \<Rightarrow> peer_announcement" where
  "sample_announcement node t =
    \<lparr>pa_node_id = node, pa_public_key = ''pk'', pa_endpoint = ''203.0.113.20:51820'',
     pa_local_endpoint = Some ''192.168.1.20:51820'', pa_public_endpoint = None,
     pa_relay_endpoint = None, pa_relay_pubkey = None, pa_relay_expires_at = None,
     pa_tunnel_ip = ''10.44.0.2/32'', pa_advertised_routes = [], pa_timestamp = t\<rparr>"

lemma directory_order_independent_witness:
  "map_option pa_timestamp (directory_get
    (fold directory_apply
      [sample_announcement ''a'' 1, sample_announcement ''a'' 2, sample_announcement ''b'' 1]
      peer_directory_new) ''a'') = Some 2"
proof -
  let ?a = "sample_announcement ''a'' 1" and ?b = "sample_announcement ''a'' 2"
    and ?c = "sample_announcement ''b'' 1"
  have "set [?a, ?b, ?c] = set [?b, ?a, ?c]" by auto
  from directory_order_independent [OF this, of "''a''"]
  show ?thesis
    by (simp add: directory_apply_def directory_get_def peer_directory_new_def
        sample_announcement_def hm_simps)
qed

section \<open>Choosing the endpoint to dial\<close>

definition is_private_ipv4 :: "ipv4_addr \<Rightarrow> bool" where
  "is_private_ipv4 ip =
    (is_private ip \<or> is_link_local ip
      \<or> (v4_octet 0 ip = 100 \<and> 64 \<le> v4_octet 1 ip \<and> v4_octet 1 ip \<le> 127)
      \<or> (v4_octet 0 ip = 198 \<and> (v4_octet 1 ip = 18 \<or> v4_octet 1 ip = 19)))"

definition endpoints_share_private_ipv4_subnet :: "string \<Rightarrow> string \<Rightarrow> bool" where
  "endpoints_share_private_ipv4_subnet left right =
    (case parse_socket_addr left of
       Some (SockV4 left_ip _) \<Rightarrow>
         (case parse_socket_addr right of
            Some (SockV4 right_ip _) \<Rightarrow>
              is_private_ipv4 left_ip \<and> is_private_ipv4 right_ip
              \<and> v4_octet 0 left_ip = v4_octet 0 right_ip
              \<and> v4_octet 1 left_ip = v4_octet 1 right_ip
              \<and> v4_octet 2 left_ip = v4_octet 2 right_ip
          | _ \<Rightarrow> False)
     | _ \<Rightarrow> False)"

definition endpoint_shares_private_ipv4_subnet :: "string \<Rightarrow> string list \<Rightarrow> bool" where
  "endpoint_shares_private_ipv4_subnet endpoint own_local_endpoints =
    list_ex (endpoints_share_private_ipv4_subnet endpoint) own_local_endpoints"

definition select_peer_endpoint :: "peer_announcement \<Rightarrow> string option \<Rightarrow> string" where
  "select_peer_endpoint a own_local_endpoint =
    (case (case (pa_local_endpoint a, own_local_endpoint) of
             (Some peer_local, Some own_local) \<Rightarrow>
               if endpoints_share_private_ipv4_subnet peer_local own_local
               then Some peer_local else None
           | _ \<Rightarrow> None) of
       Some peer_local \<Rightarrow> peer_local
     | None \<Rightarrow> (case non_blank (pa_public_endpoint a) of
         Some endpoint \<Rightarrow> endpoint | None \<Rightarrow> pa_endpoint a))"

definition select_peer_endpoint_from_local_endpoints ::
  "peer_announcement \<Rightarrow> string list \<Rightarrow> string" where
  "select_peer_endpoint_from_local_endpoints a own_local_endpoints =
    (case (case pa_local_endpoint a of
             Some peer_local \<Rightarrow>
               if endpoint_shares_private_ipv4_subnet peer_local own_local_endpoints
               then Some peer_local else None
           | None \<Rightarrow> None) of
       Some peer_local \<Rightarrow> peer_local
     | None \<Rightarrow> (case non_blank (pa_public_endpoint a) of
         Some endpoint \<Rightarrow> endpoint | None \<Rightarrow> pa_endpoint a))"

lemma share_private_sym:
  "endpoints_share_private_ipv4_subnet l r = endpoints_share_private_ipv4_subnet r l"
  by (auto simp: endpoints_share_private_ipv4_subnet_def split: option.splits socket_addr.splits)

text \<open>The single-endpoint selector is the list selector on at most one endpoint.\<close>

lemma select_peer_endpoint_single:
  "select_peer_endpoint a own =
    select_peer_endpoint_from_local_endpoints a (case own of None \<Rightarrow> [] | Some e \<Rightarrow> [e])"
  by (simp add: select_peer_endpoint_def select_peer_endpoint_from_local_endpoints_def
      endpoint_shares_private_ipv4_subnet_def split: option.splits)

text \<open>Equal first three octets are an equal 24-bit prefix.\<close>

lemma v4_prefix_24:
  "(v4_octet 0 ip = v4_octet 0 ip' \<and> v4_octet 1 ip = v4_octet 1 ip' \<and> v4_octet 2 ip = v4_octet 2 ip')
    \<longleftrightarrow> drop_bit 8 ip = drop_bit 8 ip'"
proof -
  have top: "unat (drop_bit 8 i) = (v4_octet 0 i * 256 + v4_octet 1 i) * 256 + v4_octet 2 i"
    for i :: ipv4_addr
  proof -
    have "unat (drop_bit 8 i) = unat i div 256"
      unfolding unat_drop_bit_eq by (simp add: drop_bit_eq_div)
    also have "unat i = ((v4_octet 0 i * 256 + v4_octet 1 i) * 256 + v4_octet 2 i) * 256 + v4_octet 3 i"
      by (rule v4_octets_value)
    finally show ?thesis by (simp only: byte_steps [OF v4_octet_less])
  qed
  have sub: "v4_octet 2 i = unat (drop_bit 8 i) mod 256"
    "v4_octet 1 i = unat (drop_bit 8 i) div 256 mod 256"
    "v4_octet 0 i = unat (drop_bit 8 i) div 256 div 256" for i :: ipv4_addr
    by (simp_all only: top byte_steps [OF v4_octet_less])
  show ?thesis
    by (metis sub top word_unat_eq_iff)
qed

lemma share_private_iff:
  "endpoints_share_private_ipv4_subnet l r \<longleftrightarrow>
    (\<exists>ip p ip' p'. parse_socket_addr l = Some (SockV4 ip p) \<and> parse_socket_addr r = Some (SockV4 ip' p')
      \<and> is_private_ipv4 ip \<and> is_private_ipv4 ip' \<and> drop_bit 8 ip = drop_bit 8 ip')"
  by (auto simp: endpoints_share_private_ipv4_subnet_def v4_prefix_24 [symmetric]
      split: option.splits socket_addr.splits)

text \<open>
  Which endpoint of a peer is dialled: its private local endpoint exactly when that and one
  of the node's own local endpoints are IPv4 sockets on private addresses of one /24, otherwise
  its public endpoint when it is not blank, otherwise its announced endpoint; and the selector
  that takes one optional own endpoint agrees with it.
\<close>

theorem select_peer_endpoint_spec:
  "select_peer_endpoint_from_local_endpoints a own =
    (if \<exists>l o'. pa_local_endpoint a = Some l \<and> o' \<in> set own
        \<and> (\<exists>ip p ip' p'. parse_socket_addr l = Some (SockV4 ip p)
            \<and> parse_socket_addr o' = Some (SockV4 ip' p')
            \<and> is_private_ipv4 ip \<and> is_private_ipv4 ip' \<and> drop_bit 8 ip = drop_bit 8 ip')
     then the (pa_local_endpoint a)
     else if \<exists>e. pa_public_endpoint a = Some e \<and> trim e \<noteq> [] then the (pa_public_endpoint a)
     else pa_endpoint a)
   \<and> select_peer_endpoint a single =
      select_peer_endpoint_from_local_endpoints a (case single of None \<Rightarrow> [] | Some e \<Rightarrow> [e])"
  by (auto simp: select_peer_endpoint_from_local_endpoints_def share_private_iff
      select_peer_endpoint_single endpoint_shares_private_ipv4_subnet_def list_ex_iff
      non_blank_def split: option.splits if_splits)

end
