(* ===== verification/Paths.thy ===== *)
theory Paths
  imports Control
begin

text \<open>
  \<open>crates/nostr-vpn-core/src/paths.rs\<close>: the book of network paths to each participant. A
  path is an endpoint with its source and the times it was announced, selected and last
  succeeded; the book is refreshed from announcements, updated by selections and handshakes,
  pruned, and asked for the endpoint to use next.
\<close>

section \<open>Path state\<close>

definition OBSERVED_PUBLIC_ENDPOINT_STICKY_SECS :: u64 where
  "OBSERVED_PUBLIC_ENDPOINT_STICKY_SECS = 180"

datatype peer_path_source = Local | Public | Relay | Legacy | Observed

text \<open>The derived order of the enum: declaration order.\<close>

fun source_index :: "peer_path_source \<Rightarrow> nat" where
  "source_index Local = 0"
| "source_index Public = 1"
| "source_index Relay = 2"
| "source_index Legacy = 3"
| "source_index Observed = 4"

lemma source_index_inj: "source_index a = source_index b \<Longrightarrow> a = b"
  by (cases a; cases b) simp_all

instantiation peer_path_source :: linorder
begin

definition "a \<le> b = (source_index a \<le> source_index b)"
definition "a < b = (source_index a < source_index b)"

instance
  by standard (auto simp: less_eq_peer_path_source_def less_peer_path_source_def source_index_inj)

end

definition source_merge :: "peer_path_source \<Rightarrow> peer_path_source \<Rightarrow> peer_path_source" where
  "source_merge a b = max a b"

fun source_rank :: "peer_path_source \<Rightarrow> bool \<Rightarrow> nat" where
  "source_rank s same_subnet_local =
    (if s = Relay then 5
     else if same_subnet_local then 4
     else (case s of Public \<Rightarrow> 2 | Observed \<Rightarrow> 2 | Legacy \<Rightarrow> 1 | Local \<Rightarrow> 0 | Relay \<Rightarrow> 5))"

record tracked_peer_path =
  tp_source :: peer_path_source
  tp_announced_at :: u64
  tp_last_selected_at :: "u64 option"
  tp_last_success_at :: "u64 option"

record peer_path_state =
  ps_current_endpoint :: "string option"
  ps_endpoints :: "(string, tracked_peer_path) hmap"

record peer_path_book =
  pb_peers :: "(string, peer_path_state) hmap"

definition tracked_new :: "peer_path_source \<Rightarrow> u64 \<Rightarrow> tracked_peer_path" where
  "tracked_new source announced_at =
    \<lparr>tp_source = source, tp_announced_at = announced_at,
     tp_last_selected_at = None, tp_last_success_at = None\<rparr>"

text \<open>\<open>unwrap_or(0)\<close> on an optional time.\<close>

definition or_zero :: "u64 option \<Rightarrow> u64" where
  "or_zero t = (case t of None \<Rightarrow> 0 | Some v \<Rightarrow> v)"

definition freshness_at :: "tracked_peer_path \<Rightarrow> u64" where
  "freshness_at t =
    max (max (tp_announced_at t) (or_zero (tp_last_selected_at t))) (or_zero (tp_last_success_at t))"

definition path_state_default :: peer_path_state where
  "path_state_default = \<lparr>ps_current_endpoint = None, ps_endpoints = []\<rparr>"

text \<open>\<open>self.peers.entry(participant).or_default()\<close>, and writing the state back.\<close>

definition path_state :: "peer_path_book \<Rightarrow> string \<Rightarrow> peer_path_state" where
  "path_state b participant =
    (case hm_get (pb_peers b) participant of None \<Rightarrow> path_state_default | Some st \<Rightarrow> st)"

definition put_path_state :: "string \<Rightarrow> peer_path_state \<Rightarrow> peer_path_book \<Rightarrow> peer_path_book" where
  "put_path_state participant st b = b\<lparr>pb_peers := hm_insert participant st (pb_peers b)\<rparr>"

definition book_clear :: "peer_path_book \<Rightarrow> peer_path_book" where
  "book_clear b = b\<lparr>pb_peers := []\<rparr>"

definition book_new :: peer_path_book where
  "book_new = \<lparr>pb_peers = []\<rparr>"

section \<open>Endpoints\<close>

definition endpoint_host :: "string \<Rightarrow> string option" where
  "endpoint_host endpoint = map_option (\<lambda>addr. print_ip (sock_ip addr)) (parse_socket_addr endpoint)"

definition endpoint_is_local_only :: "string \<Rightarrow> bool" where
  "endpoint_is_local_only endpoint =
    (let host = trim_end_matches (CHR '']'') (trim_start_matches (CHR ''['') (trim
          (case rsplit_once (CHR '':'') endpoint of None \<Rightarrow> endpoint | Some (host, _) \<Rightarrow> host)))
     in case parse_ip host of
          Some (V4 ip) \<Rightarrow> is_private ip \<or> is_link_local ip \<or> is_loopback ip
            \<or> (v4_octet 0 ip = 100 \<and> 64 \<le> v4_octet 1 ip \<and> v4_octet 1 ip \<le> 127)
            \<or> (v4_octet 0 ip = 198 \<and> (v4_octet 1 ip = 18 \<or> v4_octet 1 ip = 19))
        | Some (V6 ip) \<Rightarrow> v6_is_loopback ip \<or> v6_is_unicast_link_local ip \<or> v6_is_unique_local ip
        | None \<Rightarrow> eq_ignore_ascii_case host ''localhost'')"

text \<open>
  The endpoints of an announcement, each once, under the first of the sources local, public,
  relay and legacy that names it.
\<close>

definition push_endpoint ::
  "string option \<Rightarrow> peer_path_source \<Rightarrow> (string \<times> peer_path_source) list
    \<Rightarrow> (string \<times> peer_path_source) list" where
  "push_endpoint endpoint source acc =
    (case endpoint of
       None \<Rightarrow> acc
     | Some e \<Rightarrow> if trim e = [] \<or> e \<in> fst ` set acc then acc else acc @ [(e, source)])"

definition announcement_endpoints :: "peer_announcement \<Rightarrow> (string \<times> peer_path_source) list" where
  "announcement_endpoints a =
    push_endpoint (Some (pa_endpoint a)) Legacy
      (push_endpoint (pa_relay_endpoint a) Relay
        (push_endpoint (pa_public_endpoint a) Public
          (push_endpoint (pa_local_endpoint a) Local [])))"

definition observed_endpoint_superseded_by_announcement ::
  "string \<Rightarrow> tracked_peer_path \<Rightarrow> (string \<times> peer_path_source) list \<Rightarrow> u64 \<Rightarrow> bool" where
  "observed_endpoint_superseded_by_announcement endpoint tracked announced_endpoints seen_at =
    (if tp_source tracked \<noteq> Observed \<or> endpoint_is_local_only endpoint then False
     else if (case tp_last_success_at tracked of None \<Rightarrow> False
          | Some success_at \<Rightarrow>
              saturating_sub seen_at success_at \<le> OBSERVED_PUBLIC_ENDPOINT_STICKY_SECS)
     then False
     else (case endpoint_host endpoint of
         None \<Rightarrow> False
       | Some observed_host \<Rightarrow>
           list_ex (\<lambda>(announced_endpoint, announced_source).
             announced_source \<noteq> Observed \<and> \<not> endpoint_is_local_only announced_endpoint
             \<and> endpoint \<noteq> announced_endpoint
             \<and> endpoint_host announced_endpoint = Some observed_host) announced_endpoints))"

definition path_success_still_applies :: "string \<Rightarrow> tracked_peer_path \<Rightarrow> bool \<Rightarrow> bool" where
  "path_success_still_applies endpoint tracked same_subnet_local =
    (if tp_last_success_at tracked = None then False
     else if \<not> endpoint_is_local_only endpoint then True
     else same_subnet_local)"

definition candidate_rank ::
  "string \<Rightarrow> tracked_peer_path \<Rightarrow> string list \<Rightarrow> string \<Rightarrow> u64 \<times> nat \<times> nat \<times> u64" where
  "candidate_rank endpoint tracked own_local_endpoints default_endpoint =
    (let same_subnet_local = endpoint_shares_private_ipv4_subnet endpoint own_local_endpoints;
         default_match = (endpoint = default_endpoint);
         last_success_at =
           (if path_success_still_applies endpoint tracked same_subnet_local
            then or_zero (tp_last_success_at tracked) else 0)
     in (last_success_at, source_rank (tp_source tracked) same_subnet_local,
         of_bool default_match, tp_announced_at tracked))"

section \<open>Operations of the book\<close>

text \<open>\<open>current_endpoint\<close> is reset when it is no longer tracked.\<close>

definition drop_untracked_current :: "bool \<times> peer_path_state \<Rightarrow> bool \<times> peer_path_state" where
  "drop_untracked_current cs = (case cs of (changed, st) \<Rightarrow>
    (case ps_current_endpoint st of
       Some e \<Rightarrow> if \<not> hm_contains (ps_endpoints st) e
                 then (True, st\<lparr>ps_current_endpoint := None\<rparr>) else (changed, st)
     | None \<Rightarrow> (changed, st)))"

text \<open>One announced endpoint merged into the tracked ones.\<close>

definition merge_announced ::
  "u64 \<Rightarrow> string \<times> peer_path_source \<Rightarrow> bool \<times> (string, tracked_peer_path) hmap
    \<Rightarrow> bool \<times> (string, tracked_peer_path) hmap" where
  "merge_announced seen_at es acc = (case (es, acc) of ((endpoint, source), (changed, eps)) \<Rightarrow>
    (let entry = (case hm_get eps endpoint of None \<Rightarrow> tracked_new source seen_at | Some t \<Rightarrow> t);
         merged_source = source_merge (tp_source entry) source;
         changed1 = (changed \<or> tp_source entry \<noteq> merged_source);
         entry1 = entry\<lparr>tp_source := merged_source\<rparr>;
         changed2 = (changed1 \<or> tp_announced_at entry1 < seen_at);
         entry2 = (if tp_announced_at entry1 < seen_at
                   then entry1\<lparr>tp_announced_at := seen_at\<rparr> else entry1)
     in (changed2, hm_insert endpoint entry2 eps)))"

definition refresh_from_announcement ::
  "string \<Rightarrow> peer_announcement \<Rightarrow> u64 \<Rightarrow> peer_path_book \<Rightarrow> bool \<times> peer_path_book" where
  "refresh_from_announcement participant a seen_at b =
    (let st = path_state b participant;
         announced = announcement_endpoints a;
         announced_relay = fst ` set (filter (\<lambda>(_, source). source = Relay) announced);
         before = length (ps_endpoints st);
         eps = hm_retain (\<lambda>endpoint tracked.
           (tp_source tracked \<noteq> Relay \<or> endpoint \<in> announced_relay)
           \<and> \<not> observed_endpoint_superseded_by_announcement endpoint tracked announced seen_at)
           (ps_endpoints st)
     in case drop_untracked_current (length eps \<noteq> before, st\<lparr>ps_endpoints := eps\<rparr>) of
          (changed, st1) \<Rightarrow>
            (case fold (merge_announced seen_at) announced (changed, ps_endpoints st1) of
               (changed', eps') \<Rightarrow>
                 (changed', put_path_state participant (st1\<lparr>ps_endpoints := eps'\<rparr>) b)))"

definition note_selected ::
  "string \<Rightarrow> string \<Rightarrow> u64 \<Rightarrow> peer_path_book \<Rightarrow> bool \<times> peer_path_book" where
  "note_selected participant endpoint selected_at b =
    (let st = path_state b participant;
         entry = (case hm_get (ps_endpoints st) endpoint of
           None \<Rightarrow> tracked_new Observed selected_at | Some t \<Rightarrow> t);
         changed1 = (tp_last_selected_at entry \<noteq> Some selected_at);
         entry1 = entry\<lparr>tp_last_selected_at := Some selected_at\<rparr>;
         changed2 = (changed1 \<or> ps_current_endpoint st \<noteq> Some endpoint)
     in (changed2, put_path_state participant
          \<lparr>ps_current_endpoint = Some endpoint,
           ps_endpoints = hm_insert endpoint entry1 (ps_endpoints st)\<rparr> b))"

definition note_success ::
  "string \<Rightarrow> string \<Rightarrow> u64 \<Rightarrow> peer_path_book \<Rightarrow> bool \<times> peer_path_book" where
  "note_success participant endpoint success_at b =
    (let st = path_state b participant;
         entry = (case hm_get (ps_endpoints st) endpoint of
           None \<Rightarrow> tracked_new Observed success_at | Some t \<Rightarrow> t)
     in if success_at \<le> or_zero (tp_last_success_at entry)
        then (False, put_path_state participant
               (st\<lparr>ps_endpoints := hm_insert endpoint entry (ps_endpoints st)\<rparr>) b)
        else (True, put_path_state participant
               (st\<lparr>ps_endpoints := hm_insert endpoint
                  (entry\<lparr>tp_last_success_at := Some success_at\<rparr>) (ps_endpoints st)\<rparr>) b))"

definition path_alive :: "u64 \<Rightarrow> tracked_peer_path \<Rightarrow> bool" where
  "path_alive cutoff t = (cutoff < freshness_at t)"

definition prune_endpoints ::
  "u64 \<Rightarrow> (string, tracked_peer_path) hmap \<Rightarrow> (string, tracked_peer_path) hmap" where
  "prune_endpoints cutoff eps = hm_retain (\<lambda>_ t. path_alive cutoff t) eps"

definition prune_path_state :: "u64 \<Rightarrow> peer_path_state \<Rightarrow> bool \<times> peer_path_state" where
  "prune_path_state cutoff st =
    (let eps = prune_endpoints cutoff (ps_endpoints st)
     in drop_untracked_current
          (length eps \<noteq> length (ps_endpoints st), st\<lparr>ps_endpoints := eps\<rparr>))"

definition book_prune_stale :: "u64 \<Rightarrow> u64 \<Rightarrow> peer_path_book \<Rightarrow> bool \<times> peer_path_book" where
  "book_prune_stale now stale_after_secs b =
    (if stale_after_secs = 0 then (False, b)
     else (let cutoff = saturating_sub now stale_after_secs;
               pruned = map (\<lambda>(p, st). (p, prune_path_state cutoff st)) (pb_peers b)
           in (list_ex (\<lambda>(_, changed, st). changed \<or> ps_endpoints st = []) pruned,
               b\<lparr>pb_peers := hm_retain (\<lambda>_ st. ps_endpoints st \<noteq> [])
                    (map (\<lambda>(p, _, st). (p, st)) pruned)\<rparr>)))"

definition retain_participants :: "string set \<Rightarrow> peer_path_book \<Rightarrow> peer_path_book" where
  "retain_participants participants b =
    b\<lparr>pb_peers := hm_retain (\<lambda>p _. p \<in> participants) (pb_peers b)\<rparr>"

definition remove_relay_paths_for_participant ::
  "string \<Rightarrow> peer_path_book \<Rightarrow> bool \<times> peer_path_book" where
  "remove_relay_paths_for_participant participant b =
    (case hm_get (pb_peers b) participant of
       None \<Rightarrow> (False, b)
     | Some st \<Rightarrow>
         (let eps = hm_retain (\<lambda>_ t. tp_source t \<noteq> Relay) (ps_endpoints st)
          in case drop_untracked_current
               (length eps \<noteq> length (ps_endpoints st), st\<lparr>ps_endpoints := eps\<rparr>) of
               (changed, st1) \<Rightarrow>
                 if ps_endpoints st1 = []
                 then (True, b\<lparr>pb_peers := hm_remove participant (pb_peers b)\<rparr>)
                 else (changed, put_path_state participant st1 b)))"

definition endpoint_has_recent_success_for_local_endpoints ::
  "peer_path_book \<Rightarrow> string \<Rightarrow> string \<Rightarrow> string list \<Rightarrow> u64 \<Rightarrow> u64 \<Rightarrow> bool" where
  "endpoint_has_recent_success_for_local_endpoints b participant endpoint own now stale_after_secs =
    (if stale_after_secs = 0 then False
     else (case Option.bind (hm_get (pb_peers b) participant)
                  (\<lambda>st. hm_get (ps_endpoints st) endpoint) of
         None \<Rightarrow> False
       | Some tracked \<Rightarrow>
           (if \<not> path_success_still_applies endpoint tracked
                  (endpoint_shares_private_ipv4_subnet endpoint own)
            then False
            else (case tp_last_success_at tracked of None \<Rightarrow> False
                | Some success_at \<Rightarrow> saturating_sub now success_at \<le> stale_after_secs))))"

text \<open>The two \<open>expect\<close>s of the selection are the left values of its result.\<close>

datatype select_panic = CurrentEndpointShouldExist | PreferredEndpointShouldExist

definition select_endpoint_for_local_endpoints ::
  "peer_path_book \<Rightarrow> string \<Rightarrow> peer_announcement \<Rightarrow> string list \<Rightarrow> u64 \<Rightarrow> u64
    \<Rightarrow> select_panic + string option" where
  "select_endpoint_for_local_endpoints b participant a own now retry_after_secs =
    (let default_endpoint = select_peer_endpoint_from_local_endpoints a own in
     case hm_get (pb_peers b) participant of
       None \<Rightarrow> Inr (Some default_endpoint)
     | Some st \<Rightarrow>
         if ps_endpoints st = [] then Inr (Some default_endpoint)
         else (case max_by_key (\<lambda>(e, t). candidate_rank e t own default_endpoint) (ps_endpoints st) of
           None \<Rightarrow> Inr None
         | Some (preferred, _) \<Rightarrow>
             (case (case ps_current_endpoint st of
                      Some e \<Rightarrow> if hm_contains (ps_endpoints st) e then Some e else None
                    | None \<Rightarrow> None) of
                None \<Rightarrow> Inr (Some preferred)
              | Some current_endpoint \<Rightarrow>
                  (case (hm_get (ps_endpoints st) current_endpoint,
                         hm_get (ps_endpoints st) preferred) of
                     (None, _) \<Rightarrow> Inl CurrentEndpointShouldExist
                   | (_, None) \<Rightarrow> Inl PreferredEndpointShouldExist
                   | (Some current, Some preferred_state) \<Rightarrow>
                       (let current_same = endpoint_shares_private_ipv4_subnet current_endpoint own;
                            preferred_same = endpoint_shares_private_ipv4_subnet preferred own
                        in if current_endpoint = preferred then Inr (Some preferred)
                           else if endpoint_is_local_only current_endpoint \<and> \<not> current_same
                           then Inr (Some preferred)
                           else
                            (let current_success_at =
                                   (if path_success_still_applies current_endpoint current current_same
                                    then or_zero (tp_last_success_at current) else 0);
                                 preferred_success_at =
                                   (if path_success_still_applies preferred preferred_state preferred_same
                                    then or_zero (tp_last_success_at preferred_state) else 0)
                             in if 0 < current_success_at
                                then (if current_success_at < preferred_success_at
                                      then Inr (Some preferred) else Inr (Some current_endpoint))
                                else if (case tp_last_selected_at current of None \<Rightarrow> True
                                    | Some selected_at \<Rightarrow>
                                        retry_after_secs \<le> saturating_sub now selected_at)
                                then Inr (Some preferred)
                                else Inr (Some current_endpoint)))))))"

definition select_endpoint ::
  "peer_path_book \<Rightarrow> string \<Rightarrow> peer_announcement \<Rightarrow> string option \<Rightarrow> u64 \<Rightarrow> u64
    \<Rightarrow> select_panic + string option" where
  "select_endpoint b participant a own_local_endpoint now retry_after_secs =
    select_endpoint_for_local_endpoints b participant a
      (case own_local_endpoint of None \<Rightarrow> [] | Some e \<Rightarrow> [e]) now retry_after_secs"

section \<open>The invariant of the book\<close>

text \<open>Endpoints and participants are keyed once, and a current endpoint is a tracked one.\<close>

definition path_state_inv :: "peer_path_state \<Rightarrow> bool" where
  "path_state_inv st \<longleftrightarrow> hm_wf (ps_endpoints st)
    \<and> (case ps_current_endpoint st of None \<Rightarrow> True | Some e \<Rightarrow> hm_contains (ps_endpoints st) e)"

definition book_inv :: "peer_path_book \<Rightarrow> bool" where
  "book_inv b \<longleftrightarrow> hm_wf (pb_peers b) \<and> list_all (\<lambda>(_, st). path_state_inv st) (pb_peers b)"

named_theorems path_intros \<open>preservation of the path book's invariant\<close>

lemma path_state_inv_default [path_intros]: "path_state_inv path_state_default"
  by (simp add: path_state_inv_def path_state_default_def)

lemma book_inv_get [path_intros]:
  "book_inv b \<Longrightarrow> hm_get (pb_peers b) p = Some st \<Longrightarrow> path_state_inv st"
  by (auto simp: book_inv_def list_all_iff dest: hm_get_in)

lemma path_state_ok [path_intros]: "book_inv b \<Longrightarrow> path_state_inv (path_state b p)"
  by (auto simp: path_state_def path_intros split: option.split)

lemma put_path_state_inv [path_intros]:
  "book_inv b \<Longrightarrow> path_state_inv st \<Longrightarrow> book_inv (put_path_state p st b)"
  by (auto simp: book_inv_def put_path_state_def hm_wf_intros hm_set_insert list_all_iff)

lemma drop_untracked_current_inv [path_intros]:
  "hm_wf (ps_endpoints st) \<Longrightarrow> path_state_inv (snd (drop_untracked_current (changed, st)))"
  by (auto simp: drop_untracked_current_def path_state_inv_def split: option.splits)

lemma drop_untracked_current_endpoints [simp]:
  "ps_endpoints (snd (drop_untracked_current cs)) = ps_endpoints (snd cs)"
  by (auto simp: drop_untracked_current_def split: option.splits prod.splits)

lemma drop_untracked_current_fst:
  "fst (drop_untracked_current (changed, st)) \<longleftrightarrow> changed \<or> snd (drop_untracked_current (changed, st)) \<noteq> st"
  by (cases st) (auto simp: drop_untracked_current_def split: option.splits)

lemma merge_announced_get:
  "hm_get (snd (merge_announced t (e, s) (c, eps))) = (hm_get eps)(e \<mapsto>
    (case hm_get eps e of
       None \<Rightarrow> tracked_new s t
     | Some x \<Rightarrow> x\<lparr>tp_source := max (tp_source x) s, tp_announced_at := max (tp_announced_at x) t\<rparr>))"
  by (auto simp: merge_announced_def hm_simps source_merge_def tracked_new_def Let_def max_def
      fun_eq_iff split: option.splits)

lemma merge_announced_wf: "hm_wf (snd acc) \<Longrightarrow> hm_wf (snd (merge_announced t es acc))"
  by (simp add: merge_announced_def Let_def hm_wf_intros split_def)

lemma merge_announced_contains:
  "hm_contains (snd (merge_announced t es acc)) e \<longleftrightarrow> e = fst es \<or> hm_contains (snd acc) e"
  by (simp add: merge_announced_def Let_def hm_simps split_def)

lemma fold_merge_announced_wf:
  "hm_wf (snd acc) \<Longrightarrow> hm_wf (snd (fold (merge_announced t) ess acc))"
  by (induction ess arbitrary: acc) (simp_all add: merge_announced_wf)

lemma fold_merge_announced_contains:
  "hm_contains (snd (fold (merge_announced t) ess acc)) e \<longleftrightarrow>
    e \<in> fst ` set ess \<or> hm_contains (snd acc) e"
  by (induction ess arbitrary: acc) (auto simp: merge_announced_contains)

text \<open>What merging a list of differently named endpoints leaves for each of them.\<close>

lemma fold_merge_announced_get:
  assumes "distinct (map fst ess)"
  shows "hm_get (snd (fold (merge_announced t) ess acc)) e =
    (case map_of ess e of
       None \<Rightarrow> hm_get (snd acc) e
     | Some s \<Rightarrow> (case hm_get (snd acc) e of
         None \<Rightarrow> Some (tracked_new s t)
       | Some x \<Rightarrow> Some (x\<lparr>tp_source := max (tp_source x) s,
                              tp_announced_at := max (tp_announced_at x) t\<rparr>)))"
  using assms
proof (induction ess arbitrary: acc)
  case Nil
  then show ?case by simp
next
  case (Cons es ess)
  obtain e' s where es: "es = (e', s)" by (cases es)
  have "map_of ess e' = None" using Cons.prems es by (simp add: map_of_eq_None_iff)
  then show ?case
    using Cons.IH [of "merge_announced t es acc"] Cons.prems es
      merge_announced_get [of t e' s "fst acc" "snd acc"]
    by (auto split: option.splits)
qed

lemma refresh_inv [path_intros]:
  assumes "book_inv b"
  shows "book_inv (snd (refresh_from_announcement p a t b))"
proof -
  define st where "st = path_state b p"
  define eps where "eps = hm_retain (\<lambda>endpoint tracked.
           (tp_source tracked \<noteq> Relay
             \<or> endpoint \<in> fst ` set (filter (\<lambda>(_, source). source = Relay) (announcement_endpoints a)))
           \<and> \<not> observed_endpoint_superseded_by_announcement endpoint tracked
                (announcement_endpoints a) t) (ps_endpoints st)"
  define cs where "cs = drop_untracked_current (length eps \<noteq> length (ps_endpoints st),
    st\<lparr>ps_endpoints := eps\<rparr>)"
  define r where "r = fold (merge_announced t) (announcement_endpoints a) (fst cs, ps_endpoints (snd cs))"
  have res: "snd (refresh_from_announcement p a t b)
      = put_path_state p ((snd cs)\<lparr>ps_endpoints := snd r\<rparr>) b"
    by (simp add: refresh_from_announcement_def Let_def st_def eps_def cs_def r_def split_def)
  have "path_state_inv st" using assms by (simp add: st_def path_intros)
  then have "hm_wf eps" by (simp add: eps_def path_state_inv_def hm_wf_intros)
  then have cs: "path_state_inv (snd cs)" by (simp add: cs_def path_intros)
  then have "path_state_inv ((snd cs)\<lparr>ps_endpoints := snd r\<rparr>)"
    by (auto simp: path_state_inv_def r_def fold_merge_announced_wf fold_merge_announced_contains
        split: option.splits)
  with assms show ?thesis by (simp add: res path_intros)
qed

lemma note_selected_inv [path_intros]:
  "book_inv b \<Longrightarrow> book_inv (snd (note_selected p e t b))"
  using path_state_ok [of b p]
  by (auto simp: note_selected_def Let_def path_state_inv_def hm_simps hm_wf_intros
      intro!: put_path_state_inv)

lemma note_success_inv [path_intros]:
  "book_inv b \<Longrightarrow> book_inv (snd (note_success p e t b))"
  using path_state_ok [of b p]
  by (auto simp: note_success_def Let_def path_state_inv_def hm_simps hm_wf_intros
      split: option.splits intro!: put_path_state_inv)

lemma prune_path_state_inv [path_intros]:
  "path_state_inv st \<Longrightarrow> path_state_inv (snd (prune_path_state cutoff st))"
  unfolding prune_path_state_def Let_def
  by (rule drop_untracked_current_inv) (simp add: path_state_inv_def prune_endpoints_def hm_wf_intros)

lemma book_prune_peers:
  "stale \<noteq> 0 \<Longrightarrow> pb_peers (snd (book_prune_stale now stale b)) =
    hm_retain (\<lambda>_ st. ps_endpoints st \<noteq> [])
      (hm_map_values (\<lambda>_ st. snd (prune_path_state (saturating_sub now stale) st)) (pb_peers b))"
  by (simp add: book_prune_stale_def Let_def hm_map_values_def comp_def split_def)

lemma book_prune_stale_inv [path_intros]:
  "book_inv b \<Longrightarrow> book_inv (snd (book_prune_stale now stale b))"
proof (cases "stale = 0")
  case False
  assume "book_inv b"
  then have "hm_wf (pb_peers b)" and "\<forall>(p, st) \<in> set (pb_peers b). path_state_inv st"
    by (simp_all add: book_inv_def list_all_iff)
  then show ?thesis
    unfolding book_inv_def book_prune_peers [OF False]
    by (auto simp: hm_wf_intros list_all_iff hm_set_retain hm_set_map_values path_intros)
qed (simp add: book_prune_stale_def)

lemma retain_participants_inv [path_intros]:
  "book_inv b \<Longrightarrow> book_inv (retain_participants ps b)"
  by (auto simp: book_inv_def retain_participants_def hm_wf_intros hm_set_retain list_all_iff)

lemma remove_relay_paths_inv [path_intros]:
  assumes b: "book_inv b"
  shows "book_inv (snd (remove_relay_paths_for_participant p b))"
proof (cases "hm_get (pb_peers b) p")
  case None
  with b show ?thesis by (simp add: remove_relay_paths_for_participant_def)
next
  case (Some st)
  define eps where "eps = hm_retain (\<lambda>_ t. tp_source t \<noteq> Relay) (ps_endpoints st)"
  define cs where "cs = drop_untracked_current (length eps \<noteq> length (ps_endpoints st),
    st\<lparr>ps_endpoints := eps\<rparr>)"
  have res: "snd (remove_relay_paths_for_participant p b) =
    (if ps_endpoints (snd cs) = [] then b\<lparr>pb_peers := hm_remove p (pb_peers b)\<rparr>
     else put_path_state p (snd cs) b)"
    using Some by (simp add: remove_relay_paths_for_participant_def Let_def eps_def cs_def split_def)
  have "path_state_inv st" using b Some by (rule book_inv_get)
  then have "hm_wf eps" by (simp add: eps_def path_state_inv_def hm_wf_intros)
  then have "path_state_inv (snd cs)" by (simp add: cs_def path_intros)
  moreover have "book_inv (b\<lparr>pb_peers := hm_remove p (pb_peers b)\<rparr>)"
    using b by (auto simp: book_inv_def hm_wf_intros list_all_iff hm_set_remove)
  ultimately show ?thesis using b by (simp add: res path_intros)
qed

datatype path_event =
    Clear
  | Refresh string peer_announcement u64
  | NoteSelected string string u64
  | NoteSuccess string string u64
  | PruneStale u64 u64
  | RetainParticipants "string set"
  | RemoveRelayPaths string

fun path_step :: "path_event \<Rightarrow> peer_path_book \<Rightarrow> peer_path_book" where
  "path_step Clear b = book_clear b"
| "path_step (Refresh p a t) b = snd (refresh_from_announcement p a t b)"
| "path_step (NoteSelected p e t) b = snd (note_selected p e t b)"
| "path_step (NoteSuccess p e t) b = snd (note_success p e t b)"
| "path_step (PruneStale now stale) b = snd (book_prune_stale now stale b)"
| "path_step (RetainParticipants ps) b = retain_participants ps b"
| "path_step (RemoveRelayPaths p) b = snd (remove_relay_paths_for_participant p b)"

lemma path_step_inv: "book_inv b \<Longrightarrow> book_inv (path_step ev b)"
  by (cases ev) (simp_all add: path_intros, simp add: book_clear_def book_inv_def)

interpretation path_run: stepped path_step book_inv
  by unfold_locales (rule path_step_inv)

section \<open>Properties\<close>

text \<open>
  After any sequence of announcements, selections, handshakes, prunings and removals a path
  book that started empty has one state per participant, one entry per endpoint, and a current
  endpoint only where it is tracked.
\<close>

lemma path_book_invariant: "book_inv (fold path_step evs book_new)"
  by (rule path_run.run_inv) (simp add: book_inv_def book_new_def)

text \<open>The success time a selection credits an endpoint with.\<close>

definition credited_success :: "string list \<Rightarrow> string \<Rightarrow> tracked_peer_path \<Rightarrow> u64" where
  "credited_success own e t =
    (if path_success_still_applies e t (endpoint_shares_private_ipv4_subnet e own)
     then or_zero (tp_last_success_at t) else 0)"

lemma candidate_rank_success:
  "candidate_rank e t own d \<le> candidate_rank e' t' own d \<Longrightarrow>
    credited_success own e t \<le> credited_success own e' t'"
  by (auto simp: candidate_rank_def credited_success_def Let_def less_eq_prod_def less_le split: if_splits)

lemma preferred_max:
  assumes "max_by_key (\<lambda>(e, t). candidate_rank e t own d) eps = Some (e, t)"
  shows "(e, t) \<in> set eps" and "(e', t') \<in> set eps \<Longrightarrow> candidate_rank e' t' own d \<le> candidate_rank e t own d"
  using max_by_key_Some [OF assms] by auto

text \<open>
  The selection on a tracked state, as a decision over its current endpoint and a preferred
  one of maximal rank: the two expectations of the code never fail.
\<close>

lemma select_endpoint_cases:
  fixes a :: peer_announcement and own :: "string list"
  assumes st: "hm_get (pb_peers b) p = Some st" and inv: "path_state_inv st" and ne: "ps_endpoints st \<noteq> []"
  defines "d \<equiv> select_peer_endpoint_from_local_endpoints a own"
  obtains
    (preferred) pe pt where "hm_get (ps_endpoints st) pe = Some pt"
      "\<forall>e t. hm_get (ps_endpoints st) e = Some t \<longrightarrow> candidate_rank e t own d \<le> candidate_rank pe pt own d"
      "\<forall>e t. hm_get (ps_endpoints st) e = Some t \<longrightarrow> credited_success own e t \<le> credited_success own pe pt"
      "select_endpoint_for_local_endpoints b p a own now retry = Inr (Some pe)"
  | (proven) ce ct where "ps_current_endpoint st = Some ce" "hm_get (ps_endpoints st) ce = Some ct"
      "select_endpoint_for_local_endpoints b p a own now retry = Inr (Some ce)"
      "0 < credited_success own ce ct"
      "\<forall>e t. hm_get (ps_endpoints st) e = Some t \<longrightarrow> credited_success own e t \<le> credited_success own ce ct"
  | (waiting) ce ct s where "ps_current_endpoint st = Some ce" "hm_get (ps_endpoints st) ce = Some ct"
      "select_endpoint_for_local_endpoints b p a own now retry = Inr (Some ce)"
      "credited_success own ce ct = 0"
      "tp_last_selected_at ct = Some s" "saturating_sub now s < retry"
proof -
  obtain pe pt where max: "max_by_key (\<lambda>(e, t). candidate_rank e t own d) (ps_endpoints st) = Some (pe, pt)"
    using ne max_by_key_None by (metis option.exhaust prod.exhaust)
  note pm = preferred_max [OF max]
  have wf: "hm_wf (ps_endpoints st)" using inv by (simp add: path_state_inv_def)
  have pe: "hm_get (ps_endpoints st) pe = Some pt" by (rule hm_in_get [OF wf pm(1)])
  have cur: "ps_current_endpoint st = Some ce \<Longrightarrow> \<exists>ct. hm_get (ps_endpoints st) ce = Some ct" for ce
    using inv by (simp add: path_state_inv_def hm_contains_iff)
  have unfold: "select_endpoint_for_local_endpoints b p a own now retry =
     (case ps_current_endpoint st of
        None \<Rightarrow> Inr (Some pe)
      | Some ce \<Rightarrow>
         (let ct = the (hm_get (ps_endpoints st) ce) in
          if ce = pe \<or> (endpoint_is_local_only ce \<and> \<not> endpoint_shares_private_ipv4_subnet ce own)
          then Inr (Some pe)
          else if 0 < credited_success own ce ct
          then (if credited_success own ce ct < credited_success own pe pt
                then Inr (Some pe) else Inr (Some ce))
          else if (case tp_last_selected_at ct of None \<Rightarrow> True | Some s \<Rightarrow> retry \<le> saturating_sub now s)
          then Inr (Some pe) else Inr (Some ce)))"
    using ne max pe cur
    by (auto simp: select_endpoint_for_local_endpoints_def st d_def [symmetric] Let_def
        hm_contains_iff credited_success_def split: option.splits)
  have rank: "\<forall>e t. hm_get (ps_endpoints st) e = Some t \<longrightarrow> candidate_rank e t own d \<le> candidate_rank pe pt own d"
    using pm(2) hm_get_in by fast
  then have cred: "\<forall>e t. hm_get (ps_endpoints st) e = Some t \<longrightarrow> credited_success own e t \<le> credited_success own pe pt"
    using candidate_rank_success by blast
  note pref = preferred [OF pe rank cred]
  show ?thesis
  proof (cases "ps_current_endpoint st")
    case None
    then show ?thesis by (intro pref) (simp add: unfold)
  next
    case (Some ce)
    obtain ct where ct: "hm_get (ps_endpoints st) ce = Some ct" using cur [OF Some] by blast
    note sel = unfold [unfolded Some option.case Let_def ct option.sel]
    show ?thesis
    proof (cases "0 < credited_success own ce ct \<and> credited_success own pe pt \<le> credited_success own ce ct")
      case True
      with cred have "\<forall>e t. hm_get (ps_endpoints st) e = Some t \<longrightarrow>
        credited_success own e t \<le> credited_success own ce ct" by (blast intro: order_trans)
      with True show ?thesis
        by (cases "select_endpoint_for_local_endpoints b p a own now retry = Inr (Some pe)")
          (blast intro: pref, rule proven [OF Some ct], use sel in \<open>auto split: if_splits\<close>)
    next
      case False
      show ?thesis
      proof (cases "credited_success own ce ct = 0 \<and>
          (\<exists>s. tp_last_selected_at ct = Some s \<and> saturating_sub now s < retry)")
        case True
        then show ?thesis
          by (cases "select_endpoint_for_local_endpoints b p a own now retry = Inr (Some pe)")
            (blast intro: pref, use sel in \<open>auto intro: waiting [OF Some ct] split: if_splits\<close>)
      next
        case no: False
        show ?thesis
          by (rule pref) (use sel False no in \<open>auto simp: word_gt_0 not_le not_less split: option.splits\<close>)
      qed
    qed
  qed
qed

text \<open>
  C11. Choosing a path never fails on a reachable book and always answers an endpoint: the
  peer's default endpoint when nothing is tracked, otherwise a tracked endpoint. The answer is
  never an endpoint with an older credited success than another tracked one, except that a
  current endpoint without any credited success is kept until the retry delay has passed since
  it was selected; and a success on a private endpoint is credited only on its subnet.
\<close>

theorem select_endpoint_best_path:
  assumes "b = fold path_step evs book_new"
  shows "\<exists>e. select_endpoint_for_local_endpoints b p a own now retry = Inr (Some e)
    \<and> (case hm_get (pb_peers b) p of
        None \<Rightarrow> e = select_peer_endpoint_from_local_endpoints a own
      | Some st \<Rightarrow>
         if ps_endpoints st = [] then e = select_peer_endpoint_from_local_endpoints a own
         else \<exists>t. hm_get (ps_endpoints st) e = Some t
           \<and> ((\<forall>e' t'. hm_get (ps_endpoints st) e' = Some t' \<longrightarrow>
                  credited_success own e' t' \<le> credited_success own e t)
              \<or> ps_current_endpoint st = Some e \<and> credited_success own e t = 0
                \<and> (\<exists>s. tp_last_selected_at t = Some s \<and> saturating_sub now s < retry)))"
proof (cases "hm_get (pb_peers b) p")
  case None
  then show ?thesis by (simp add: select_endpoint_for_local_endpoints_def Let_def)
next
  case (Some st)
  show ?thesis
  proof (cases "ps_endpoints st = []")
    case True
    with Some show ?thesis by (simp add: select_endpoint_for_local_endpoints_def Let_def)
  next
    case False
    have "book_inv b"
      unfolding assms by (rule path_run.run_inv) (simp add: book_inv_def book_new_def)
    then have inv: "path_state_inv st" using Some by (rule book_inv_get)
    show ?thesis
      by (rule select_endpoint_cases [OF Some inv False, where a = a and own = own and now = now
            and retry = retry])
        (use Some False in auto)
  qed
qed

definition sample_path_events :: "path_event list" where
  "sample_path_events =
    [Refresh ''p'' (sample_announcement ''n'' 100) 10, NoteSelected ''p'' ''203.0.113.20:51820'' 10,
     NoteSuccess ''p'' ''203.0.113.20:33063'' 12]"

lemma sample_path_book: "fold path_step sample_path_events book_new = \<lparr>pb_peers = [(''p'',
    \<lparr>ps_current_endpoint = Some ''203.0.113.20:51820'', ps_endpoints =
      [(''192.168.1.20:51820'', \<lparr>tp_source = Local, tp_announced_at = 10, tp_last_selected_at = None,
          tp_last_success_at = None\<rparr>),
       (''203.0.113.20:51820'', \<lparr>tp_source = Legacy, tp_announced_at = 10, tp_last_selected_at = Some 10,
          tp_last_success_at = None\<rparr>),
       (''203.0.113.20:33063'', \<lparr>tp_source = Observed, tp_announced_at = 12, tp_last_selected_at = None,
          tp_last_success_at = Some 12\<rparr>)]\<rparr>)]\<rparr>"
  by code_simp

lemma select_endpoint_best_path_witness:
  "(\<exists>e. select_endpoint_for_local_endpoints (fold path_step sample_path_events book_new) ''p''
      (sample_announcement ''n'' 100) [] 13 5 = Inr (Some e))
   \<and> select_endpoint_for_local_endpoints (fold path_step sample_path_events book_new) ''p''
      (sample_announcement ''n'' 100) [] 13 5 = Inr (Some ''203.0.113.20:51820'')
   \<and> select_endpoint_for_local_endpoints (fold path_step sample_path_events book_new) ''p''
      (sample_announcement ''n'' 100) [] 15 5 = Inr (Some ''203.0.113.20:33063'')"
proof (intro conjI)
  show "\<exists>e. select_endpoint_for_local_endpoints (fold path_step sample_path_events book_new) ''p''
      (sample_announcement ''n'' 100) [] 13 5 = Inr (Some e)"
    using select_endpoint_best_path [OF refl, of sample_path_events "''p''"
      "sample_announcement ''n'' 100" "[]" 13 5] by blast
qed (unfold sample_path_book, code_simp+)

section \<open>What a refresh, a pruning and a handshake leave\<close>

lemma push_endpoint_distinct:
  "distinct (map fst acc) \<Longrightarrow> distinct (map fst (push_endpoint e s acc))"
  by (auto simp: push_endpoint_def split: option.splits)

lemma announcement_endpoints_distinct: "distinct (map fst (announcement_endpoints a))"
  unfolding announcement_endpoints_def by (intro push_endpoint_distinct) simp

text \<open>The paths of a participant that survive an announcement, and what it makes of them.\<close>

definition kept_path ::
  "peer_path_book \<Rightarrow> string \<Rightarrow> peer_announcement \<Rightarrow> u64 \<Rightarrow> string \<Rightarrow> tracked_peer_path option" where
  "kept_path b p a t e =
    (case hm_get (ps_endpoints (path_state b p)) e of
       None \<Rightarrow> None
     | Some x \<Rightarrow>
         if (tp_source x = Relay \<longrightarrow> (e, Relay) \<in> set (announcement_endpoints a))
           \<and> \<not> observed_endpoint_superseded_by_announcement e x (announcement_endpoints a) t
         then Some x else None)"

definition refreshed_path ::
  "peer_path_book \<Rightarrow> string \<Rightarrow> peer_announcement \<Rightarrow> u64 \<Rightarrow> string \<Rightarrow> tracked_peer_path option" where
  "refreshed_path b p a t e =
    (case map_of (announcement_endpoints a) e of
       None \<Rightarrow> kept_path b p a t e
     | Some s \<Rightarrow> (case kept_path b p a t e of
         None \<Rightarrow> Some (tracked_new s t)
       | Some x \<Rightarrow> Some (x\<lparr>tp_source := max (tp_source x) s,
           tp_announced_at := max (tp_announced_at x) t\<rparr>)))"

lemma refresh_state:
  assumes "book_inv b"
  shows "\<exists>st. pb_peers (snd (refresh_from_announcement p a t b)) = hm_insert p st (pb_peers b)
    \<and> (\<forall>e. hm_get (ps_endpoints st) e = refreshed_path b p a t e)"
proof -
  define ann where "ann = announcement_endpoints a"
  let ?keep = "\<lambda>e x. (tp_source x \<noteq> Relay \<or> e \<in> fst ` set (filter (\<lambda>(_, source). source = Relay) ann))
    \<and> \<not> observed_endpoint_superseded_by_announcement e x ann t"
  define cs where "cs = drop_untracked_current
    (length (hm_retain ?keep (ps_endpoints (path_state b p))) \<noteq> length (ps_endpoints (path_state b p)),
     (path_state b p)\<lparr>ps_endpoints := hm_retain ?keep (ps_endpoints (path_state b p))\<rparr>)"
  define r where "r = fold (merge_announced t) ann (fst cs, ps_endpoints (snd cs))"
  have wf: "hm_wf (ps_endpoints (path_state b p))"
    using path_state_ok [OF assms] by (simp add: path_state_inv_def)
  have res: "pb_peers (snd (refresh_from_announcement p a t b))
      = hm_insert p ((snd cs)\<lparr>ps_endpoints := snd r\<rparr>) (pb_peers b)"
    by (simp add: refresh_from_announcement_def Let_def cs_def r_def split_def ann_def put_path_state_def)
  have relay: "e \<in> fst ` set (filter (\<lambda>(_, source). source = Relay) ann) \<longleftrightarrow> (e, Relay) \<in> set ann" for e
    by force
  have keep: "?keep e x \<longleftrightarrow> (tp_source x = Relay \<longrightarrow> (e, Relay) \<in> set ann)
      \<and> \<not> observed_endpoint_superseded_by_announcement e x ann t" for e x
    unfolding relay by blast
  have kept: "hm_get (ps_endpoints (snd cs)) e = kept_path b p a t e" for e
    unfolding cs_def drop_untracked_current_endpoints snd_conv keep kept_path_def
    by (simp add: hm_get_retain [OF wf] ann_def)
  have "hm_get (snd r) e = refreshed_path b p a t e" for e
    unfolding r_def ann_def fold_merge_announced_get [OF announcement_endpoints_distinct]
      snd_conv kept refreshed_path_def ..
  then show ?thesis using res by (intro exI [of _ "(snd cs)\<lparr>ps_endpoints := snd r\<rparr>"]) simp
qed

text \<open>
  Refreshing a participant from an announcement tracks every endpoint the announcement
  names, stamped at least with the time it was seen; keeps no path that is a relay path unless
  its endpoint is announced as a relay; keeps an endpoint the announcement does not name only
  unchanged, and only when it is not an observed public endpoint, without a recent success,
  whose host the announcement names with another public endpoint; and leaves the other
  participants alone.
\<close>

theorem refresh_tracks_announcement:
  fixes p :: string and a :: peer_announcement and t :: u64
  assumes "book_inv b"
  defines "b' \<equiv> snd (refresh_from_announcement p a t b)"
  shows "\<exists>st. hm_get (pb_peers b') p = Some st
    \<and> (\<forall>e s. (e, s) \<in> set (announcement_endpoints a) \<longrightarrow>
         (\<exists>x. hm_get (ps_endpoints st) e = Some x \<and> t \<le> tp_announced_at x \<and> s \<le> tp_source x))
    \<and> (\<forall>e x. hm_get (ps_endpoints st) e = Some x \<and> tp_source x = Relay \<longrightarrow>
         (e, Relay) \<in> set (announcement_endpoints a))
    \<and> (\<forall>e x. hm_get (ps_endpoints st) e = Some x \<and> e \<notin> fst ` set (announcement_endpoints a) \<longrightarrow>
         hm_get (ps_endpoints (path_state b p)) e = Some x
         \<and> \<not> observed_endpoint_superseded_by_announcement e x (announcement_endpoints a) t)
    \<and> (\<forall>q. q \<noteq> p \<longrightarrow> hm_get (pb_peers b') q = hm_get (pb_peers b) q)"
proof -
  obtain st where st: "pb_peers b' = hm_insert p st (pb_peers b)"
    and get: "\<And>e. hm_get (ps_endpoints st) e = refreshed_path b p a t e"
    unfolding b'_def using refresh_state [OF assms(1)] by blast
  note dis = announcement_endpoints_distinct [of a]
  have named: "\<exists>x. hm_get (ps_endpoints st) e = Some x \<and> t \<le> tp_announced_at x \<and> s \<le> tp_source x"
    if "(e, s) \<in> set (announcement_endpoints a)" for e s
    using that dis by (auto simp: get refreshed_path_def tracked_new_def split: option.splits)
  have relay: "(e, Relay) \<in> set (announcement_endpoints a)"
    if "hm_get (ps_endpoints st) e = Some x" "tp_source x = Relay" for e x
    using that dis
    by (auto simp: get refreshed_path_def kept_path_def tracked_new_def max_def
        split: option.splits if_splits dest: map_of_SomeD)
  have other: "hm_get (ps_endpoints (path_state b p)) e = Some x
      \<and> \<not> observed_endpoint_superseded_by_announcement e x (announcement_endpoints a) t"
    if "hm_get (ps_endpoints st) e = Some x" "e \<notin> fst ` set (announcement_endpoints a)" for e x
    using that(1) map_of_eq_None_iff [of "announcement_endpoints a" e] that(2)
    by (auto simp: get refreshed_path_def kept_path_def split: option.splits if_splits)
  show ?thesis
    using named relay other by (intro exI [of _ st]) (auto simp: st hm_simps)
qed

lemma refresh_tracks_announcement_witness:
  "\<exists>st x. hm_get (pb_peers (snd (refresh_from_announcement ''p'' (sample_announcement ''n'' 100) 10
      book_new))) ''p'' = Some st
    \<and> hm_get (ps_endpoints st) ''203.0.113.20:51820'' = Some x \<and> 10 \<le> tp_announced_at x"
proof -
  define a where "a = sample_announcement ''n'' 100"
  define e where "e = ''203.0.113.20:51820''"
  have named: "(e, Legacy) \<in> set (announcement_endpoints a)"
    unfolding a_def e_def by code_simp
  have "book_inv book_new" by (simp add: book_inv_def book_new_def)
  from refresh_tracks_announcement [OF this, where p = "''p''" and a = a and t = 10]
  show ?thesis
    unfolding a_def [symmetric] e_def [symmetric]
    by (elim exE conjE) (drule spec [of _ e], drule spec [of _ Legacy], use named in auto)
qed

interpretation path_prune: expiring_table path_alive prune_endpoints
  by unfold_locales (auto simp: prune_endpoints_def path_alive_def)

lemma prune_path_state_eq:
  "snd (prune_path_state cutoff st) =
    \<lparr>ps_current_endpoint = (case ps_current_endpoint st of None \<Rightarrow> None
       | Some e \<Rightarrow> if hm_contains (prune_endpoints cutoff (ps_endpoints st)) e then Some e else None),
     ps_endpoints = prune_endpoints cutoff (ps_endpoints st)\<rparr>"
  by (cases st) (simp add: prune_path_state_def Let_def drop_untracked_current_def split: option.split)

lemma prune_path_state_changed:
  "fst (prune_path_state cutoff st) \<longleftrightarrow> snd (prune_path_state cutoff st) \<noteq> st"
proof (cases "prune_endpoints cutoff (ps_endpoints st) = ps_endpoints st")
  case True
  then show ?thesis
    by (cases st) (simp add: prune_path_state_def Let_def drop_untracked_current_def split: option.split)
next
  case False
  then have "length (prune_endpoints cutoff (ps_endpoints st)) \<noteq> length (ps_endpoints st)"
    by (simp add: prune_endpoints_def hm_retain_same_length)
  then show ?thesis
    using False by (simp add: prune_path_state_def Let_def drop_untracked_current_fst)
      (metis drop_untracked_current_endpoints peer_path_state.select_convs(2)
        peer_path_state.surjective peer_path_state.update_convs(2) snd_conv)
qed

lemma prune_path_state_idem:
  "snd (prune_path_state cutoff (snd (prune_path_state cutoff st))) = snd (prune_path_state cutoff st)"
  by (auto simp: prune_path_state_eq path_prune.prune_idem split: option.split)

lemma book_prune_same:
  "snd (book_prune_stale now stale b) = b \<longleftrightarrow> stale = 0 \<or>
    (\<forall>(p, st) \<in> set (pb_peers b). ps_endpoints st \<noteq> []
      \<and> snd (prune_path_state (saturating_sub now stale) st) = st)"
proof (cases "stale = 0")
  case False
  have "snd (book_prune_stale now stale b) = b
      \<longleftrightarrow> pb_peers (snd (book_prune_stale now stale b)) = pb_peers b"
    using False by (cases b) (simp add: book_prune_stale_def Let_def)
  also have "\<dots> \<longleftrightarrow> (\<forall>x \<in> set (pb_peers b).
      (case (case x of (p, st) \<Rightarrow> (p, snd (prune_path_state (saturating_sub now stale) st))) of
         (_, st) \<Rightarrow> ps_endpoints st \<noteq> [])
      \<and> (case x of (p, st) \<Rightarrow> (p, snd (prune_path_state (saturating_sub now stale) st))) = x)"
    unfolding book_prune_peers [OF False] hm_retain_def hm_map_values_def
    by (subst filter_map_same) (rule refl)
  finally show ?thesis using False by (auto simp: split_def)
qed (simp add: book_prune_stale_def)

lemma book_prune_changed:
  "fst (book_prune_stale now stale b) \<longleftrightarrow> snd (book_prune_stale now stale b) \<noteq> b"
  unfolding book_prune_same
  by (auto simp: book_prune_stale_def Let_def list_ex_iff prune_path_state_changed split_def; metis)

text \<open>
  Pruning with a nonzero age keeps exactly the endpoints announced, selected or confirmed
  after the cutoff, drops the participants left without any, changes no endpoint it keeps, and
  is idempotent; with age zero it does nothing. It reports a change exactly when it made one.
\<close>

theorem prune_keeps_fresh_paths:
  fixes now stale :: u64
  assumes "book_inv b"
  defines "b' \<equiv> snd (book_prune_stale now stale b)"
  shows "(stale = 0 \<longrightarrow> b' = b)
    \<and> (stale \<noteq> 0 \<longrightarrow> (\<forall>p st'. hm_get (pb_peers b') p = Some st' \<longleftrightarrow>
        (\<exists>st. hm_get (pb_peers b) p = Some st \<and> ps_endpoints st' \<noteq> []
          \<and> ps_endpoints st' = filter (\<lambda>(_, x). saturating_sub now stale < freshness_at x) (ps_endpoints st)
          \<and> ps_current_endpoint st' = (case ps_current_endpoint st of
              None \<Rightarrow> None
            | Some e \<Rightarrow> if hm_contains (ps_endpoints st') e then Some e else None))))
    \<and> snd (book_prune_stale now stale b') = b'
    \<and> (fst (book_prune_stale now stale b) \<longleftrightarrow> b' \<noteq> b)"
proof -
  let ?prune = "\<lambda>st. snd (prune_path_state (saturating_sub now stale) st)"
  have get: "hm_get (pb_peers b') p = (case hm_get (pb_peers b) p of
      None \<Rightarrow> None | Some st \<Rightarrow> if ps_endpoints (?prune st) \<noteq> [] then Some (?prune st) else None)"
    if "stale \<noteq> 0" for p
    using assms(1)
    by (simp add: b'_def book_prune_peers [OF that] hm_get_retain hm_wf_map_values book_inv_def
        hm_get_map_values split: option.split)
  have "hm_get (pb_peers b') p = Some st' \<longleftrightarrow>
      (\<exists>st. hm_get (pb_peers b) p = Some st \<and> ps_endpoints st' \<noteq> [] \<and> st' = ?prune st)"
    if "stale \<noteq> 0" for p st'
    by (auto simp: get [OF that] split: option.splits)
  moreover have "st' = ?prune st \<longleftrightarrow>
      ps_endpoints st' = filter (\<lambda>(_, x). saturating_sub now stale < freshness_at x) (ps_endpoints st)
      \<and> ps_current_endpoint st' = (case ps_current_endpoint st of None \<Rightarrow> None
            | Some e \<Rightarrow> if hm_contains (ps_endpoints st') e then Some e else None)" for st st'
    unfolding prune_path_state_eq prune_endpoints_def hm_retain_def path_alive_def
    by (cases st') (auto split: option.splits)
  moreover have "snd (book_prune_stale now stale b') = b'"
    unfolding book_prune_same
    by (cases "stale = 0")
      (auto simp: b'_def book_prune_peers hm_set_retain hm_set_map_values prune_path_state_idem)
  ultimately show ?thesis
    using book_prune_changed [of now stale b]
    by (simp add: b'_def [symmetric]) (simp add: b'_def book_prune_stale_def)
qed

lemma prune_keeps_fresh_paths_witness:
  "hm_get (pb_peers (snd (book_prune_stale 400 30 (fold path_step sample_path_events book_new)))) ''p'' = None
   \<and> fst (book_prune_stale 400 30 (fold path_step sample_path_events book_new))"
proof -
  let ?b = "fold path_step sample_path_events book_new"
  have "book_inv ?b"
    by (rule path_run.run_inv) (simp add: book_inv_def book_new_def)
  from prune_keeps_fresh_paths [OF this, where now = 400 and stale = 30]
  have changed: "fst (book_prune_stale 400 30 ?b) \<longleftrightarrow> snd (book_prune_stale 400 30 ?b) \<noteq> ?b"
    by blast
  have "hm_get (pb_peers (snd (book_prune_stale 400 30 ?b))) ''p'' = None"
    and "hm_get (pb_peers ?b) ''p'' \<noteq> None" unfolding sample_path_book by code_simp+
  with changed show ?thesis by metis
qed

text \<open>A success is recorded, and reported, exactly when it is newer than the recorded one.\<close>

lemma note_success_fst:
  "fst (note_success p e t b) \<longleftrightarrow>
    (case hm_get (ps_endpoints (path_state b p)) e of
       None \<Rightarrow> 0 < t | Some x \<Rightarrow> or_zero (tp_last_success_at x) < t)"
  by (auto simp: note_success_def Let_def not_le tracked_new_def or_zero_def split: option.splits)

end
