(* ===== verification/Magic_Labels.thy ===== *)
theory Magic_Labels
  imports Rust_Str
begin

text \<open>
  \<open>crates/nostr-vpn-core/src/config_magic_dns.rs\<close>: the normal form of DNS labels and of the
  MagicDNS suffix, the identifiers and labels made unique within a set of used ones, and the
  default names derived from a public key or a host name. A \<open>HashSet\<close> of used names is a list
  of which only the membership counts. The SHA-256 digest is a parameter.
\<close>

section \<open>Label normal form\<close>

definition LEGACY_DEFAULT_NODE_NAME :: string where
  "LEGACY_DEFAULT_NODE_NAME = ''nostr-vpn-node''"

text \<open>
  The loop over the characters: \<open>prev\<close> tells that the last pushed character was a dash. A
  character of several bytes gives one dash, like each run of other characters.
\<close>

fun label_chars :: "bool \<Rightarrow> string \<Rightarrow> string" where
  "label_chars prev [] = []"
| "label_chars prev (c # cs) =
    (if is_ascii_alphanumeric c then ascii_lower c # label_chars False cs
     else if \<not> prev then CHR ''-'' # label_chars True cs
     else label_chars prev cs)"

definition normalize_magic_dns_label :: "string \<Rightarrow> string option" where
  "normalize_magic_dns_label value =
    (let label = trim_start_matches (CHR ''-'') (trim_end_matches (CHR ''-'') (label_chars False value))
     in if label = [] then None
        else (let label' = (if 63 < length label
                            then trim_end_matches (CHR ''-'') (take 63 label) else label)
              in if label' = [] then None else Some label'))"

definition normalize_magic_dns_suffix :: "string \<Rightarrow> string" where
  "normalize_magic_dns_suffix value =
    (let labels = filter (\<lambda>l. l \<noteq> [])
           (List.map_filter normalize_magic_dns_label
             (split_char (CHR ''.'') (trim_end_matches (CHR ''.'') (trim value))))
     in if labels = [] then ''nvpn'' else join ''.'' labels)"

definition default_magic_dns_suffix :: string where
  "default_magic_dns_suffix = ''nvpn''"

definition default_peer_aliases :: "(string, string) hmap" where
  "default_peer_aliases = []"

section \<open>Network entry identifiers\<close>

definition default_network_name :: "nat \<Rightarrow> string" where
  "default_network_name ordinal = ''Network '' @ dec ordinal"

definition default_network_entry_id :: "nat \<Rightarrow> string" where
  "default_network_entry_id ordinal = ''network-'' @ dec ordinal"

definition normalize_network_entry_id :: "string \<Rightarrow> nat \<Rightarrow> string" where
  "normalize_network_entry_id value ordinal =
    (case normalize_magic_dns_label value of
       Some l \<Rightarrow> l | None \<Rightarrow> default_network_entry_id ordinal)"

text \<open>The loop ends because the used names are finitely many and no two suffixes agree.\<close>

lemma suffix_inj: "base @ CHR ''-'' # dec m = base' @ CHR ''-'' # dec n \<Longrightarrow> m = n"
proof -
  have free: "CHR ''-'' \<notin> set (dec k)" for k
    using dec_chars [of "CHR ''-''" k] by (auto simp: byte_def)
  assume "base @ CHR ''-'' # dec m = base' @ CHR ''-'' # dec n"
  then have "rsplit_once (CHR ''-'') (base @ CHR ''-'' # dec m) = rsplit_once (CHR ''-'') (base' @ CHR ''-'' # dec n)"
    by simp
  then show "m = n" by (simp add: rsplit_once_append [OF free] dec_inj)
qed

function entry_id_loop :: "string \<Rightarrow> string list \<Rightarrow> nat \<Rightarrow> string" where
  "entry_id_loop base used n =
    (let candidate = base @ ''-'' @ dec n
     in if candidate \<in> set used then entry_id_loop base used (Suc n) else candidate)"
  by pat_completeness auto
termination
proof (relation "measure (\<lambda>(base, used, n).
    card {k. n \<le> k \<and> base @ ''-'' @ dec k \<in> set used})", goal_cases)
  case (2 base used n candidate)
  let ?A = "\<lambda>m. {k. m \<le> k \<and> base @ ''-'' @ dec k \<in> set used}"
  have "finite (?A n)"
  proof (rule finite_imageD)
    show "finite ((\<lambda>k. base @ ''-'' @ dec k) ` ?A n)"
      by (rule finite_subset [of _ "set used"]) auto
    show "inj_on (\<lambda>k. base @ ''-'' @ dec k) (?A n)"
      by (rule inj_onI) (simp add: suffix_inj)
  qed
  moreover have "n \<in> ?A n" "n \<notin> ?A (Suc n)" "?A (Suc n) \<subseteq> ?A n" using 2 by auto
  then have "?A (Suc n) \<subset> ?A n" by blast
  ultimately show ?case by (simp add: psubset_card_mono)
qed simp

declare entry_id_loop.simps [simp del]

definition uniquify_network_entry_id :: "string \<Rightarrow> string list \<Rightarrow> string \<times> string list" where
  "uniquify_network_entry_id candidate used =
    (if candidate \<notin> set used then (candidate, candidate # used)
     else (let next = entry_id_loop candidate used 2 in (next, next # used)))"

lemma entry_id_loop_fresh: "entry_id_loop base used n \<notin> set used"
  by (induction base used n rule: entry_id_loop.induct)
    (subst entry_id_loop.simps, simp add: Let_def)

interpretation entry_ids: fresh_namer uniquify_network_entry_id set "\<lambda>_ _. True"
  by unfold_locales (simp_all add: uniquify_network_entry_id_def Let_def entry_id_loop_fresh)

section \<open>Unique labels\<close>

definition label_candidate :: "string \<Rightarrow> nat \<Rightarrow> string" where
  "label_candidate base counter =
    (let sfx = ''-'' @ dec counter;
         max_base_len = 63 - length sfx;
         candidate_base = (if max_base_len < length base
           then trim_end_matches (CHR ''-'') (take max_base_len base) else base)
     in candidate_base @ sfx)"

function label_loop :: "string \<Rightarrow> string list \<Rightarrow> nat \<Rightarrow> string option" where
  "label_loop base used counter =
    (if counter < 10000 then
       (if label_candidate base counter \<notin> set used then Some (label_candidate base counter)
        else label_loop base used (Suc counter))
     else None)"
  by pat_completeness auto
termination
  by (relation "measure (\<lambda>(base, used, counter). 10000 - counter)") auto

declare label_loop.simps [simp del]

definition uniquify_magic_dns_label :: "string \<Rightarrow> string list \<Rightarrow> string \<times> string list" where
  "uniquify_magic_dns_label base0 used =
    (let base = (if base0 = [] then ''peer'' else base0)
     in if base \<notin> set used then (base, base # used)
        else (case label_loop base used 2 of
            Some candidate \<Rightarrow> (candidate, candidate # used)
          | None \<Rightarrow> (base, used)))"

lemma label_loop_Some:
  "label_loop base used counter = Some l \<Longrightarrow> l \<notin> set used \<and> (\<exists>c\<ge>counter. c < 10000 \<and> l = label_candidate base c)"
proof (induction base used counter rule: label_loop.induct)
  case (1 base used counter)
  from "1.prems" show ?case
    by (subst (asm) label_loop.simps) (auto split: if_splits dest: "1.IH" Suc_leD)
qed

lemma label_loop_None:
  "label_loop base used counter = None \<Longrightarrow> counter \<le> c \<Longrightarrow> c < 10000 \<Longrightarrow> label_candidate base c \<in> set used"
proof (induction base used counter rule: label_loop.induct)
  case (1 base used counter)
  from "1.prems"(2,3) have lt: "counter < 10000" by simp
  from "1.prems"(1) lt have in_used: "label_candidate base counter \<in> set used"
    and rest: "label_loop base used (Suc counter) = None"
    by (subst (asm) label_loop.simps, simp split: if_splits)+
  show ?case
  proof (cases "c = counter")
    case True
    with in_used show ?thesis by simp
  next
    case False
    with "1.prems" have "Suc counter \<le> c" by simp
    with in_used rest lt "1.prems"(3) show ?thesis by (intro "1.IH") simp_all
  qed
qed

lemma label_candidate_inj: "inj (label_candidate base)"
  by (rule injI) (auto simp: label_candidate_def Let_def dest: suffix_inj)

definition label_room :: "nat \<Rightarrow> string list \<Rightarrow> bool" where
  "label_room n used = (card (set used) + n \<le> 9998)"

lemma uniquify_label_fresh:
  assumes "label_room (Suc n) used"
  shows "fst (uniquify_magic_dns_label base used) \<notin> set used"
    and "snd (uniquify_magic_dns_label base used) = fst (uniquify_magic_dns_label base used) # used"
proof -
  define b where "b = (if base = [] then ''peer'' else base)"
  have "label_loop b used 2 \<noteq> None"
  proof
    assume "label_loop b used 2 = None"
    then have "label_candidate b ` {2..<10000} \<subseteq> set used"
      by (auto intro: label_loop_None)
    then have "card (label_candidate b ` {2..<10000}) \<le> card (set used)"
      by (rule card_mono [OF finite_set])
    moreover have "card (label_candidate b ` {2..<10000}) = card {2..<10000::nat}"
      by (rule card_image [OF inj_on_subset [OF label_candidate_inj]]) simp
    ultimately show False using assms by (simp add: label_room_def)
  qed
  then obtain l where "label_loop b used 2 = Some l" by blast
  with label_loop_Some [OF this]
  show "fst (uniquify_magic_dns_label base used) \<notin> set used"
    and "snd (uniquify_magic_dns_label base used) = fst (uniquify_magic_dns_label base used) # used"
    by (simp_all add: uniquify_magic_dns_label_def b_def [symmetric] Let_def)
qed

interpretation labels: fresh_namer uniquify_magic_dns_label set label_room
  by unfold_locales
    (auto simp: uniquify_label_fresh label_room_def card_insert_if)

section \<open>Default names\<close>

definition HASHTREE_ANIMAL_ALIASES :: "string list" where
  "HASHTREE_ANIMAL_ALIASES =
    [''aardvark'', ''aardwolf'', ''albatross'', ''alligator'', ''alpaca'', ''anaconda'',
     ''angelfish'', ''ant'', ''anteater'', ''antelope'', ''ape'', ''armadillo'', ''baboon'',
     ''badger'', ''barracuda'', ''bat'', ''bear'', ''beaver'', ''bee'', ''beetle'', ''bison'',
     ''blackbird'', ''boa'', ''boar'', ''bobcat'', ''bonobo'', ''butterfly'', ''buzzard'',
     ''camel'', ''capybara'', ''cardinal'', ''caribou'', ''carp'', ''cat'', ''catfish'',
     ''centipede'', ''chameleon'', ''cheetah'', ''chicken'', ''chimpanzee'', ''chinchilla'',
     ''chipmunk'', ''clam'', ''clownfish'', ''cobra'', ''cockroach'', ''condor'', ''cougar'',
     ''cow'', ''coyote'', ''crab'', ''crane'', ''crayfish'', ''cricket'', ''crocodile'', ''crow'',
     ''cuckoo'', ''deer'', ''dingo'', ''dolphin'', ''donkey'', ''dove'', ''dragonfly'', ''duck'',
     ''eagle'', ''earthworm'', ''echidna'', ''eel'', ''egret'', ''elephant'', ''elk'', ''emu'',
     ''falcon'', ''ferret'', ''finch'', ''firefly'', ''fish'', ''flamingo'', ''fox'', ''frog'',
     ''gazelle'', ''gecko'', ''gerbil'', ''giraffe'', ''goat'', ''goldfish'', ''goose'',
     ''gorilla'', ''grasshopper'', ''grouse'', ''guanaco'', ''gull'', ''hamster'', ''hare'',
     ''hawk'', ''hedgehog'', ''heron'', ''hippopotamus'', ''hornet'', ''horse'', ''hummingbird'',
     ''hyena'', ''ibis'', ''iguana'', ''impala'', ''jackal'', ''jaguar'', ''jellyfish'',
     ''kangaroo'', ''koala'', ''koi'', ''ladybug'', ''lemur'', ''leopard'', ''lion'', ''lizard'',
     ''llama'', ''lobster'', ''lynx'', ''macaw'', ''magpie'', ''manatee'', ''marten'', ''meerkat'',
     ''mink'', ''mole'', ''mongoose'', ''monkey'', ''moose'', ''mosquito'', ''moth'', ''mouse'',
     ''mule'', ''narwhal'', ''newt'', ''nightingale'', ''octopus'', ''opossum'', ''orangutan'',
     ''orca'', ''ostrich'', ''otter'', ''owl'', ''oyster'', ''panda'', ''panther'', ''parrot'',
     ''peacock'', ''pelican'', ''penguin'', ''pheasant'', ''pig'', ''pigeon'', ''piranha'',
     ''platypus'', ''porcupine'', ''porpoise'', ''puffin'', ''python'', ''quail'', ''rabbit'',
     ''raccoon'', ''ram'', ''rat'', ''raven'', ''reindeer'', ''rhino'', ''salamander'', ''salmon'',
     ''scorpion'', ''seahorse'', ''seal'', ''shark'', ''sheep'', ''skunk'', ''sloth'', ''snail'',
     ''snake'', ''sparrow'', ''spider'', ''squid'', ''squirrel'', ''starfish'', ''stork'',
     ''swan'', ''tapir'', ''termite'', ''tiger'', ''toad'', ''toucan'', ''trout'', ''turkey'',
     ''turtle'', ''viper'', ''vulture'', ''walrus'', ''wasp'', ''weasel'', ''whale'', ''wildcat'',
     ''wolf'', ''wombat'', ''woodpecker'', ''yak'', ''zebra'']"

lemma length_aliases [code_unfold]: "length HASHTREE_ANIMAL_ALIASES = 205"
  by (simp add: HASHTREE_ANIMAL_ALIASES_def)

text \<open>The search of the alias table from an index on, \<open>n\<close> entries left.\<close>

fun free_alias :: "nat \<Rightarrow> nat \<Rightarrow> string list \<Rightarrow> string option" where
  "free_alias 0 index used = None"
| "free_alias (Suc n) index used =
    (let candidate = HASHTREE_ANIMAL_ALIASES ! index
     in if candidate \<notin> set used then Some candidate
        else free_alias n ((index + 1) mod length HASHTREE_ANIMAL_ALIASES) used)"

definition default_magic_dns_label_for_pubkey ::
  "(string \<Rightarrow> string) \<Rightarrow> string \<Rightarrow> string list \<Rightarrow> string" where
  "default_magic_dns_label_for_pubkey sha256 pubkey_hex used_aliases =
    (let digest = sha256 pubkey_hex;
         index = (byte (digest ! 0) * 256 + byte (digest ! 1)) mod length HASHTREE_ANIMAL_ALIASES
     in case free_alias (length HASHTREE_ANIMAL_ALIASES) index used_aliases of
          Some candidate \<Rightarrow> candidate
        | None \<Rightarrow> ''peer-'' @ take_chars 12 pubkey_hex)"

definition default_node_name :: string where
  "default_node_name = LEGACY_DEFAULT_NODE_NAME"

definition default_node_name_for_pubkey :: "(string \<Rightarrow> string) \<Rightarrow> string \<Rightarrow> string" where
  "default_node_name_for_pubkey sha256 pubkey_hex =
    default_magic_dns_label_for_pubkey sha256 pubkey_hex []"

definition uses_default_node_name :: "(string \<Rightarrow> string) \<Rightarrow> string \<Rightarrow> string option \<Rightarrow> bool" where
  "uses_default_node_name sha256 value own_pubkey_hex =
    (let trimmed = trim value
     in trimmed = [] \<or> trimmed = LEGACY_DEFAULT_NODE_NAME
        \<or> (case own_pubkey_hex of None \<Rightarrow> False
           | Some pubkey_hex \<Rightarrow> trimmed = default_node_name_for_pubkey sha256 pubkey_hex))"

definition default_node_name_from_hostname :: "string \<Rightarrow> string option" where
  "default_node_name_from_hostname hostname =
    Option.bind (find (\<lambda>label. trim label \<noteq> [])
        (split_char (CHR ''.'') (trim_matches (CHR ''.'') (trim hostname)))) (\<lambda>first_label.
    Option.bind (normalize_magic_dns_label first_label) (\<lambda>normalized.
    if normalized = ''localhost'' then None else Some normalized))"

definition default_node_name_for_hostname_or_pubkey ::
  "(string \<Rightarrow> string) \<Rightarrow> string option \<Rightarrow> string \<Rightarrow> string" where
  "default_node_name_for_hostname_or_pubkey sha256 hostname pubkey_hex =
    (case Option.bind hostname default_node_name_from_hostname of
       Some name \<Rightarrow> name | None \<Rightarrow> default_node_name_for_pubkey sha256 pubkey_hex)"

section \<open>Normal forms\<close>

text \<open>A DNS label: 1 to 63 lower-case letters, digits and single inner dashes.\<close>

definition label_body :: "string \<Rightarrow> bool" where
  "label_body l \<longleftrightarrow>
    list_all (\<lambda>c. c = CHR ''-'' \<or> (is_ascii_alphanumeric c \<and> \<not> is_ascii_upper c)) l
    \<and> successively (\<lambda>a b. \<not> (a = CHR ''-'' \<and> b = CHR ''-'')) l"

definition dns_label :: "string \<Rightarrow> bool" where
  "dns_label l \<longleftrightarrow> l \<noteq> [] \<and> length l \<le> 63 \<and> label_body l \<and> hd l \<noteq> CHR ''-'' \<and> last l \<noteq> CHR ''-''"

lemma label_body_append: "label_body (x @ y) \<Longrightarrow> label_body x \<and> label_body y"
  by (auto simp: label_body_def successively_append_iff)

lemma not_alnum_dash: "\<not> is_ascii_alphanumeric (CHR ''-'')"
  by code_simp

lemma ascii_lower_alnum:
  "is_ascii_alphanumeric c \<Longrightarrow> is_ascii_alphanumeric (ascii_lower c) \<and> \<not> is_ascii_upper (ascii_lower c)"
  by (auto simp: is_ascii_alphanumeric_def is_ascii_lower_def is_ascii_upper_def is_ascii_digit_def
      byte_ascii_lower)

lemma label_chars_body:
  "label_body (label_chars prev s) \<and> (prev \<longrightarrow> label_chars prev s = [] \<or> hd (label_chars prev s) \<noteq> CHR ''-'')"
proof (induction prev s rule: label_chars.induct)
  case (2 prev c cs)
  show ?case
  proof (cases "is_ascii_alphanumeric c")
    case True
    note lc = ascii_lower_alnum [OF True]
    then have "ascii_lower c \<noteq> CHR ''-''" using not_alnum_dash by metis
    with True 2(1) lc show ?thesis
      by (cases "label_chars False cs") (auto simp: label_body_def)
  next
    case False
    with 2(2,3) show ?thesis
      by (cases "label_chars True cs") (auto simp: label_body_def)
  qed
qed (simp add: label_body_def)

lemma label_chars_fixed:
  "label_body l \<Longrightarrow> (prev \<longrightarrow> l = [] \<or> hd l \<noteq> CHR ''-'') \<Longrightarrow> label_chars prev l = l"
proof (induction prev l rule: label_chars.induct)
  case (2 prev c cs)
  from 2(4) have body: "label_body cs" using label_body_append [of "[c]" cs] by simp
  show ?case
  proof (cases "c = CHR ''-''")
    case True
    with 2(5) have "\<not> prev" by simp
    moreover have "cs = [] \<or> hd cs \<noteq> CHR ''-''"
      using 2(4) True by (cases cs) (auto simp: label_body_def)
    ultimately show ?thesis using 2(2) body True not_alnum_dash by simp
  next
    case False
    with 2(4) have c: "is_ascii_alphanumeric c" "\<not> is_ascii_upper c" by (auto simp: label_body_def)
    then have "ascii_lower c = c" by (simp add: ascii_lower_def)
    with 2(1) c body show ?thesis by simp
  qed
qed simp

text \<open>Cutting a label at a length and stripping the dashes at its end gives a label.\<close>

lemma dns_label_cut:
  assumes "label_body l" "hd l \<noteq> CHR ''-''" "l \<noteq> []" "0 < n" "n \<le> 63"
  shows "dns_label (trim_end_matches (CHR ''-'') (take n l))"
proof -
  let ?t = "trim_end_matches (CHR ''-'') (take n l)"
  obtain r where r: "take n l = ?t @ r" using trim_end_matches_parts by blast
  then have l: "l = ?t @ r @ drop n l" by (metis append.assoc append_take_drop_id)
  have ne: "?t \<noteq> []"
  proof
    assume "?t = []"
    then have "\<forall>x \<in> set (take n l). x = CHR ''-''"
      by (auto simp: trim_end_matches_def)
    moreover have "hd l \<in> set (take n l)" using assms(3,4) by (cases l; cases n) auto
    ultimately show False using assms(2) by simp
  qed
  have "length ?t \<le> n" using arg_cong [OF r, of length] by simp
  moreover have "hd ?t = hd l" using ne by (subst (2) l) simp
  moreover have "label_body ?t" using assms(1) l label_body_append by metis
  ultimately show ?thesis
    using ne trim_end_matches_last [OF ne] assms(2,5) by (simp add: dns_label_def)
qed

lemma normalize_label_dns: "normalize_magic_dns_label v = Some l \<Longrightarrow> dns_label l"
proof -
  assume some: "normalize_magic_dns_label v = Some l"
  define e where "e = trim_end_matches (CHR ''-'') (label_chars False v)"
  define m where "m = trim_start_matches (CHR ''-'') e"
  obtain r1 r2 where parts: "label_chars False v = e @ r2" "e = r1 @ m"
    using trim_end_matches_parts [of "label_chars False v"] trim_start_matches_parts [of e]
    unfolding e_def m_def by blast
  have "label_body m"
    using label_chars_body [of False v] parts label_body_append by metis
  moreover have ne: "m \<noteq> []" and l: "l = (if 63 < length m then trim_end_matches (CHR ''-'') (take 63 m) else m)"
    using some by (auto simp: normalize_magic_dns_label_def e_def [symmetric] m_def [symmetric] Let_def
        split: if_splits)
  moreover have "hd m \<noteq> CHR ''-''" using ne trim_start_matches_hd m_def by metis
  moreover have "last m \<noteq> CHR ''-''"
    using ne parts(2) trim_end_matches_last [of "CHR ''-''" "label_chars False v"] e_def
    by (metis Nil_is_append_conv last_appendR)
  ultimately show "dns_label l" using dns_label_cut [of m 63] by (auto simp: dns_label_def)
qed

lemma normalize_label_fixed: "dns_label l \<Longrightarrow> normalize_magic_dns_label l = Some l"
  by (simp add: normalize_magic_dns_label_def dns_label_def label_chars_fixed trim_end_matches_id
      trim_start_matches_id Let_def)

lemma label_chars_alnum:
  "list_ex is_ascii_alphanumeric (label_chars prev s) = list_ex is_ascii_alphanumeric s"
  by (induction prev s rule: label_chars.induct) (auto simp: ascii_lower_alnum not_alnum_dash)

lemma normalize_label_None:
  "normalize_magic_dns_label v = None \<longleftrightarrow> \<not> list_ex is_ascii_alphanumeric v"
proof -
  define e where "e = trim_end_matches (CHR ''-'') (label_chars False v)"
  define m where "m = trim_start_matches (CHR ''-'') e"
  have body: "label_body m"
    using label_chars_body [of False v] label_body_append
      trim_end_matches_parts [of "label_chars False v" "CHR ''-''"]
      trim_start_matches_parts [of e "CHR ''-''"]
    unfolding e_def m_def by metis
  have "normalize_magic_dns_label v = None \<longleftrightarrow> m = []"
  proof
    show "m = []" if "normalize_magic_dns_label v = None"
    proof (rule ccontr)
      assume m: "m \<noteq> []"
      then have "hd m \<noteq> CHR ''-''" using trim_start_matches_hd unfolding m_def by blast
      from dns_label_cut [OF body this m, of 63] have "trim_end_matches (CHR ''-'') (take 63 m) \<noteq> []"
        by (simp add: dns_label_def)
      with that m show False
        by (simp add: normalize_magic_dns_label_def e_def [symmetric] m_def [symmetric] Let_def
            split: if_splits)
    qed
  qed (simp add: normalize_magic_dns_label_def e_def [symmetric] m_def [symmetric])
  also have "\<dots> \<longleftrightarrow> e = []"
    using trim_end_matches_last [of "CHR ''-''" "label_chars False v"]
    unfolding m_def trim_start_matches_Nil e_def by (metis last_in_set empty_set insert_absorb
        insert_not_empty singletonD subset_iff subset_singletonD)
  also have "\<dots> \<longleftrightarrow> set (label_chars False v) \<subseteq> {CHR ''-''}"
    unfolding e_def by (rule trim_end_matches_Nil)
  also have "\<dots> \<longleftrightarrow> \<not> list_ex is_ascii_alphanumeric (label_chars False v)"
    using label_chars_body [of False v] not_alnum_dash
    by (auto simp: label_body_def list_all_iff list_ex_iff)
  finally show ?thesis by (simp add: label_chars_alnum)
qed

text \<open>
  The labels the normaliser produces are exactly the DNS labels of 1 to 63 lower-case
  letters, digits and single inner dashes, and those are exactly its fixed points, so
  normalising is idempotent; it rejects exactly the inputs without an ASCII letter or digit.
\<close>

theorem normalize_label_normal_form:
  "((\<exists>v. normalize_magic_dns_label v = Some l) \<longleftrightarrow> dns_label l)
   \<and> (normalize_magic_dns_label l = Some l \<longleftrightarrow> dns_label l)
   \<and> (normalize_magic_dns_label w = None \<longleftrightarrow> \<not> list_ex is_ascii_alphanumeric w)"
  using normalize_label_dns normalize_label_fixed normalize_label_None by blast

section \<open>Uniqueness\<close>

lemma dec_label_body: "label_body (dec n) \<and> hd (dec n) \<noteq> CHR ''-'' \<and> last (dec n) \<noteq> CHR ''-''"
proof -
  have digit: "c \<in> set (dec n) \<Longrightarrow> is_ascii_alphanumeric c \<and> \<not> is_ascii_upper c \<and> c \<noteq> CHR ''-''" for c
    using dec_chars [of c n]
    by (auto simp: is_ascii_alphanumeric_def is_ascii_digit_def is_ascii_upper_def byte_def)
  then have "list_all (\<lambda>c. c = CHR ''-'' \<or> is_ascii_alphanumeric c \<and> \<not> is_ascii_upper c) (dec n)"
    by (simp add: list_all_iff)
  moreover have "successively (\<lambda>a b. \<not> (a = CHR ''-'' \<and> b = CHR ''-'')) xs"
    if "CHR ''-'' \<notin> set xs" for xs
    using that by (induction xs rule: induct_list012) auto
  then have "successively (\<lambda>a b. \<not> (a = CHR ''-'' \<and> b = CHR ''-'')) (dec n)"
    using digit by blast
  ultimately have "label_body (dec n)" unfolding label_body_def ..
  then show ?thesis
    using digit hd_in_set [of "dec n"] last_in_set [of "dec n"] by auto
qed

lemma label_candidate_dns:
  assumes "dns_label base" "c < 10000"
  shows "dns_label (label_candidate base c)"
proof -
  have len: "length (dec c) \<le> 4"
    unfolding dec_def by (rule print_radix_length) (use assms(2) in auto)
  define n where "n = 63 - length (''-'' @ dec c)"
  define b where "b = (if n < length base then trim_end_matches (CHR ''-'') (take n base) else base)"
  have cand: "label_candidate base c = b @ CHR ''-'' # dec c"
    by (simp add: label_candidate_def b_def n_def Let_def)
  have n: "0 < n" "n \<le> 63" using len by (auto simp: n_def)
  have b: "dns_label b"
    using assms(1) dns_label_cut [OF _ _ _ n, of base] by (auto simp: b_def dns_label_def)
  have "length b \<le> n"
    using trim_end_matches_parts [of "take n base" "CHR ''-''"]
    by (auto simp: b_def) (metis length_append length_take le_add1 min.bounded_iff)
  then have "length b + 1 + length (dec c) \<le> 63" using len by (simp add: n_def)
  moreover have "label_body (b @ CHR ''-'' # dec c)"
    using b dec_label_body [of c]
    by (cases "dec c") (auto simp: dns_label_def label_body_def successively_append_iff)
  ultimately show ?thesis
    using b dec_label_body [of c] by (simp add: cand dns_label_def)
qed

text \<open>
  Handing out labels for any list of wanted ones, with at most 9998 labels in use or
  wanted: the labels given are pairwise different, differ from those in use, and stay DNS
  labels when the wanted ones are; a wanted label that is free is given as it is.
\<close>

theorem unique_labels:
  assumes "card (set used) + length bases \<le> 9998"
  shows "distinct (fst (labels.name_all bases used))
    \<and> set (fst (labels.name_all bases used)) \<inter> set used = {}
    \<and> length (fst (labels.name_all bases used)) = length bases
    \<and> (\<forall>b. dns_label b \<longrightarrow> dns_label (fst (uniquify_magic_dns_label b used)))
    \<and> (\<forall>b. b \<noteq> [] \<and> b \<notin> set used \<longrightarrow> fst (uniquify_magic_dns_label b used) = b)"
proof -
  have "dns_label (fst (uniquify_magic_dns_label b used))" if "dns_label b" for b
    using that label_candidate_dns [OF that] label_loop_Some [of b used 2]
    by (auto simp: uniquify_magic_dns_label_def Let_def dns_label_def [of "[]"] split: option.splits)
  moreover have "fst (uniquify_magic_dns_label b used) = b" if "b \<noteq> []" "b \<notin> set used" for b
    using that by (simp add: uniquify_magic_dns_label_def)
  ultimately show ?thesis
    using labels.name_all_fresh [of bases used] assms by (simp add: label_room_def)
qed

lemma unique_labels_witness:
  "fst (uniquify_magic_dns_label ''tiger'' [''tiger'', ''tiger-2'']) = ''tiger-3''
   \<and> distinct (fst (labels.name_all [''tiger'', ''tiger'', ''yak''] [''tiger'']))"
proof
  show "distinct (fst (labels.name_all [''tiger'', ''tiger'', ''yak''] [''tiger'']))"
    using unique_labels [of "[''tiger'']" "[''tiger'', ''tiger'', ''yak'']"] by simp
qed code_simp

lemma aliases_labels: "list_all dns_label HASHTREE_ANIMAL_ALIASES"
  by code_simp

lemma aliases_distinct: "distinct HASHTREE_ANIMAL_ALIASES"
proof -
  have "successively (<) HASHTREE_ANIMAL_ALIASES" by code_simp
  then have "sorted_wrt (<) HASHTREE_ANIMAL_ALIASES"
    by (simp only: successively_conv_sorted_wrt [OF transp_on_less])
  then show ?thesis by (simp add: strict_sorted_iff)
qed

text \<open>The search visits the whole table, so it finds an alias as long as one is free.\<close>

lemma free_alias_Some:
  "free_alias n index used = Some l \<Longrightarrow> index < length HASHTREE_ANIMAL_ALIASES \<Longrightarrow>
    l \<in> set HASHTREE_ANIMAL_ALIASES - set used"
proof (induction n index used rule: free_alias.induct)
  case (2 n index used)
  have "(index + 1) mod length HASHTREE_ANIMAL_ALIASES < length HASHTREE_ANIMAL_ALIASES"
    by (simp add: length_aliases)
  with 2 show ?case by (auto simp: Let_def split: if_splits)
qed simp

lemma free_alias_None:
  "free_alias n index used = None \<Longrightarrow> i < n \<Longrightarrow>
    HASHTREE_ANIMAL_ALIASES ! ((index + i) mod length HASHTREE_ANIMAL_ALIASES) \<in> set used
      \<or> \<not> index < length HASHTREE_ANIMAL_ALIASES"
proof (induction n index used arbitrary: i rule: free_alias.induct)
  case (2 n index used)
  let ?L = "length HASHTREE_ANIMAL_ALIASES"
  show ?case
  proof (cases i)
    case 0
    with 2(2) show ?thesis by (auto simp: Let_def split: if_splits)
  next
    case (Suc j)
    have "(index + 1) mod ?L < ?L" by (simp add: length_aliases)
    moreover have "((index + 1) mod ?L + j) mod ?L = (index + i) mod ?L"
      by (simp add: Suc mod_add_left_eq)
    ultimately show ?thesis
      using 2(1) [OF refl _, of j] 2(2,3) Suc by (auto simp: Let_def split: if_splits)
  qed
qed simp

lemma default_label_cases:
  "if set HASHTREE_ANIMAL_ALIASES \<subseteq> set used
   then default_magic_dns_label_for_pubkey sha256 pk used = ''peer-'' @ take_chars 12 pk
   else default_magic_dns_label_for_pubkey sha256 pk used \<in> set HASHTREE_ANIMAL_ALIASES - set used
     \<and> dns_label (default_magic_dns_label_for_pubkey sha256 pk used)"
proof -
  let ?L = "length HASHTREE_ANIMAL_ALIASES"
  define index where "index = (byte (sha256 pk ! 0) * 256 + byte (sha256 pk ! 1)) mod ?L"
  have lt: "index < ?L" by (simp add: index_def length_aliases)
  have res: "default_magic_dns_label_for_pubkey sha256 pk used =
    (case free_alias ?L index used of Some candidate \<Rightarrow> candidate | None \<Rightarrow> ''peer-'' @ take_chars 12 pk)"
    by (simp add: default_magic_dns_label_for_pubkey_def index_def Let_def)
  show ?thesis
  proof (cases "free_alias ?L index used")
    case None
    have "HASHTREE_ANIMAL_ALIASES ! k \<in> set used" if "k < ?L" for k
    proof -
      have "(index + (k + ?L - index) mod ?L) mod ?L = k"
        using that lt by (simp add: mod_add_right_eq)
      moreover have "(k + ?L - index) mod ?L < ?L" by (simp add: length_aliases)
      ultimately show ?thesis
        using free_alias_None [OF None, of "(k + ?L - index) mod ?L"] lt by auto
    qed
    then have "set HASHTREE_ANIMAL_ALIASES \<subseteq> set used" by (auto simp: in_set_conv_nth)
    with None show ?thesis by (simp add: res)
  next
    case (Some l)
    note l = free_alias_Some [OF this lt]
    moreover have "dns_label l" using l aliases_labels by (auto simp: list_all_iff)
    ultimately show ?thesis using Some by (auto simp: res)
  qed
qed

text \<open>
  The default label of a public key is a DNS label of the alias table that is not in use
  whenever some label of the table is free, and only otherwise the label made of the key.
\<close>

theorem default_label_fresh:
  "if set HASHTREE_ANIMAL_ALIASES \<subseteq> set used
   then default_magic_dns_label_for_pubkey sha256 pk used = ''peer-'' @ take_chars 12 pk
   else default_magic_dns_label_for_pubkey sha256 pk used \<in> set HASHTREE_ANIMAL_ALIASES - set used
     \<and> dns_label (default_magic_dns_label_for_pubkey sha256 pk used)"
  by (rule default_label_cases)

end
