(* ===== verification/Routes.thy ===== *)
theory Routes
  imports Key_Roster
begin

text \<open>
  \<open>crates/nostr-vpn-core/src/network_routes.rs\<close>: the tunnel address derived from the network
  and the node's key, the normal form of advertised routes, and the routes a node effectively
  advertises.
\<close>

unbundle bit_operations_syntax

section \<open>Tunnel addresses\<close>

definition derive_mesh_tunnel_ip :: "key_env \<Rightarrow> string \<Rightarrow> string \<Rightarrow> string option" where
  "derive_mesh_tunnel_ip E network_id0 own_pubkey_hex0 =
    (let network_id = trim (normalize_runtime_network_id network_id0);
         own_pubkey_hex = trim own_pubkey_hex0
     in if network_id = [] \<or> own_pubkey_hex = [] then None
        else (let digest = sha256 E (network_id @ newline @ own_pubkey_hex);
                  third_octet = byte (digest ! 0) mod 254 + 1;
                  fourth_octet = byte (digest ! 1) mod 254 + 1
              in Some (''10.44.'' @ dec third_octet @ ''.'' @ dec fourth_octet @ ''/32'')))"

section \<open>Routes\<close>

definition mask_ipv4 :: "ipv4_addr \<Rightarrow> nat \<Rightarrow> ipv4_addr" where
  "mask_ipv4 ip bits = ip AND (if bits = 0 then 0 else push_bit (32 - bits) (- 1))"

definition mask_ipv6 :: "ipv6_addr \<Rightarrow> nat \<Rightarrow> ipv6_addr" where
  "mask_ipv6 ip bits = ip AND (if bits = 0 then 0 else push_bit (128 - bits) (- 1))"

definition normalize_advertised_route :: "string \<Rightarrow> string option" where
  "normalize_advertised_route value0 =
    (let value = trim value0 in
     Option.bind (split_once (CHR ''/'') value) (\<lambda>(addr0, bits0).
     Option.bind (parse_ip (trim addr0)) (\<lambda>addr.
     Option.bind (parse_u8 (trim bits0)) (\<lambda>bits.
       let max_bits = (case addr of V4 _ \<Rightarrow> 32 | V6 _ \<Rightarrow> 128) in
       if max_bits < bits then None
       else (let network = (case addr of V4 ip \<Rightarrow> V4 (mask_ipv4 ip bits) | V6 ip \<Rightarrow> V6 (mask_ipv6 ip bits))
             in Some (print_ip network @ ''/'' @ dec bits))))))"

text \<open>The values of a list that succeed, each at its first occurrence.\<close>

fun first_occurrences :: "('a \<Rightarrow> 'b option) \<Rightarrow> 'a list \<Rightarrow> 'b list \<Rightarrow> 'b list" where
  "first_occurrences f [] acc = acc"
| "first_occurrences f (x # xs) acc =
    (case f x of
       None \<Rightarrow> first_occurrences f xs acc
     | Some y \<Rightarrow> first_occurrences f xs (if y \<in> set acc then acc else acc @ [y]))"

definition normalize_advertised_routes :: "string list \<Rightarrow> string list" where
  "normalize_advertised_routes routes = first_occurrences normalize_advertised_route routes []"

definition exit_node_default_routes :: "string list" where
  "exit_node_default_routes = [''0.0.0.0/0'', ''::/0'']"

definition is_exit_node_route :: "string \<Rightarrow> bool" where
  "is_exit_node_route route \<longleftrightarrow> route = ''0.0.0.0/0'' \<or> route = ''::/0''"

definition effective_advertised_routes :: "string list \<Rightarrow> bool \<Rightarrow> string list" where
  "effective_advertised_routes routes advertise_exit_node =
    (let effective = normalize_advertised_routes routes
     in if advertise_exit_node then first_occurrences Some exit_node_default_routes effective
        else effective)"

section \<open>Masks\<close>

lemma bit_mask_ipv4:
  "n \<noteq> 0 \<Longrightarrow> bit (mask_ipv4 x n) k \<longleftrightarrow> k < 32 \<and> 32 - n \<le> k \<and> bit x k"
  by (auto simp: mask_ipv4_def bit_simps dest: bit_imp_le_length)

text \<open>Two addresses are masked alike exactly when their prefixes of that length agree.\<close>

lemma mask_ipv4_prefix:
  "mask_ipv4 a n = mask_ipv4 b n \<longleftrightarrow> n = 0 \<or> drop_bit (32 - n) a = drop_bit (32 - n) b"
proof (cases "n = 0")
  case False
  have "mask_ipv4 a n = mask_ipv4 b n \<longleftrightarrow> (\<forall>k. k < 32 \<and> 32 - n \<le> k \<longrightarrow> bit a k = bit b k)"
    by (auto simp: bit_eq_iff bit_mask_ipv4 [OF False])
  also have "\<dots> \<longleftrightarrow> (\<forall>j. bit a (32 - n + j) = bit b (32 - n + j))"
  proof
    assume all: "\<forall>k. k < 32 \<and> 32 - n \<le> k \<longrightarrow> bit a k = bit b k"
    show "\<forall>j. bit a (32 - n + j) = bit b (32 - n + j)"
    proof
      fix j show "bit a (32 - n + j) = bit b (32 - n + j)"
        using all bit_imp_le_length [of a "32 - n + j"] bit_imp_le_length [of b "32 - n + j"] by auto
    qed
  next
    assume all: "\<forall>j. bit a (32 - n + j) = bit b (32 - n + j)"
    show "\<forall>k. k < 32 \<and> 32 - n \<le> k \<longrightarrow> bit a k = bit b k"
    proof (intro allI impI)
      fix k assume "k < 32 \<and> 32 - n \<le> k"
      then have "k = 32 - n + (k - (32 - n))" by simp
      with all show "bit a k = bit b k" by metis
    qed
  qed
  also have "\<dots> \<longleftrightarrow> drop_bit (32 - n) a = drop_bit (32 - n) b"
  proof -
    have "\<not> bit x (32 - n + j)" if "\<not> j < 32" for x :: ipv4_addr and j
      using that bit_imp_le_length [of x "32 - n + j"] by auto
    then show ?thesis by (simp add: bit_eq_iff bit_drop_bit_eq) metis
  qed
  finally show ?thesis using False by simp
qed (simp add: mask_ipv4_def)

lemma mask_ipv4_idem: "mask_ipv4 (mask_ipv4 a n) n = mask_ipv4 a n"
  by (simp add: mask_ipv4_def and.assoc)

section \<open>Properties\<close>

lemma first_occurrences_set:
  "set (first_occurrences f xs acc) = set acc \<union> {y. \<exists>x \<in> set xs. f x = Some y}"
  by (induction f xs acc rule: first_occurrences.induct) (auto split: option.splits)

lemma first_occurrences_distinct: "distinct acc \<Longrightarrow> distinct (first_occurrences f xs acc)"
  by (induction f xs acc rule: first_occurrences.induct) (auto split: option.splits)

lemma first_occurrences_append: "\<exists>ys. first_occurrences f xs acc = acc @ ys"
  by (induction f xs acc rule: first_occurrences.induct) (auto split: option.splits)

lemma first_occurrences_fixed:
  "distinct (acc @ xs) \<Longrightarrow> (\<forall>x \<in> set xs. f x = Some x) \<Longrightarrow> first_occurrences f xs acc = acc @ xs"
  by (induction f xs acc rule: first_occurrences.induct) auto

lemma normalize_v4_route:
  assumes "bits \<le> 32"
  shows "normalize_advertised_route (print_v4 ip @ CHR ''/'' # dec bits) = Some (print_v4 (mask_ipv4 ip bits) @ ''/'' @ dec bits)"
proof -
  have free: "ws_free (print_v4 ip @ CHR ''/'' # dec bits)"
    using print_v4_bytes dec_chars
    by (intro ws_freeI) (fastforce simp: byte_def)
  note free' = print_v4_ws_free [of ip]
  have slash: "CHR ''/'' \<notin> set (print_v4 ip)"
    using print_v4_chars [of "CHR ''/''" ip] not_digit_sep by auto
  have "parse_u8 (dec bits) = Some bits"
    using assms by (simp add: parse_u8_def parse_uint_dec)
  then show ?thesis
    using assms
    by (simp add: normalize_advertised_route_def trim_ws_free [OF free] split_once_append [OF slash]
        trim_ws_free [OF free'] parse_ip_print_v4 trim_ws_free [OF dec_ws_free])
qed


lemma normalize_v4_route_long:
  assumes "32 < bits"
  shows "normalize_advertised_route (print_v4 ip @ CHR ''/'' # dec bits) = None"
proof -
  have free: "ws_free (print_v4 ip @ CHR ''/'' # dec bits)"
    using print_v4_bytes dec_chars by (intro ws_freeI) (fastforce simp: byte_def)
  have slash: "CHR ''/'' \<notin> set (print_v4 ip)"
    using print_v4_chars [of "CHR ''/''" ip] not_digit_sep by auto
  have "parse_u8 (dec bits) = None \<or> parse_u8 (dec bits) = Some bits"
    by (simp add: parse_u8_def parse_uint_dec_if)
  then show ?thesis
    using assms
    by (auto simp: normalize_advertised_route_def trim_ws_free [OF free] split_once_append [OF slash]
        trim_ws_free [OF print_v4_ws_free] parse_ip_print_v4 trim_ws_free [OF dec_ws_free])
qed

lemma v4_route_inj:
  assumes "print_v4 a @ CHR ''/'' # dec n = print_v4 b @ CHR ''/'' # dec m"
  shows "a = b \<and> n = m"
proof -
  have slash: "CHR ''/'' \<notin> set (print_v4 ip)" for ip
    using print_v4_chars [of "CHR ''/''" ip] not_digit_sep by auto
  have "split_once (CHR ''/'') (print_v4 ip @ CHR ''/'' # dec k) = Some (print_v4 ip, dec k)" for ip k
    by (rule split_once_append [OF slash])
  then have "Some (print_v4 a, dec n) = Some (print_v4 b, dec m)" using assms by metis
  then have "print_v4 a = print_v4 b" "dec n = dec m" by simp_all
  then show ?thesis using parse_ip_print_v4 dec_inj by (metis ip_addr.inject(1) option.inject)
qed

text \<open>The usual notation of an IPv4 route.\<close>

definition v4_route :: "ipv4_addr \<Rightarrow> nat \<Rightarrow> string" where
  "v4_route ip n = print_v4 ip @ ''/'' @ dec n"

lemma normalize_v4_route': "n \<le> 32 \<Longrightarrow> normalize_advertised_route (v4_route ip n) = Some (v4_route (mask_ipv4 ip n) n)"
  using normalize_v4_route [of n ip] by (simp add: v4_route_def)

lemma v4_route_eq: "v4_route a n = v4_route b m \<longleftrightarrow> a = b \<and> n = m"
  using v4_route_inj [of a n b m] by (auto simp: v4_route_def)

text \<open>
  IPv4 routes have a normal form: an address and length printed in the usual way is
  normalised to its network address and that length, two such routes have one normal form
  exactly when their lengths and their prefixes of that length agree, and a normal form is
  normalised to itself; a length over 32 is rejected.
\<close>

theorem normalize_v4_route_normal_form:
  "(n \<le> 32 \<longrightarrow> normalize_advertised_route (v4_route a n) = Some (v4_route (mask_ipv4 a n) n)
      \<and> normalize_advertised_route (v4_route (mask_ipv4 a n) n) = Some (v4_route (mask_ipv4 a n) n))
   \<and> (m \<le> 32 \<and> n \<le> 32 \<longrightarrow>
      (normalize_advertised_route (v4_route a n) = normalize_advertised_route (v4_route b m)
        \<longleftrightarrow> m = n \<and> (n = 0 \<or> drop_bit (32 - n) a = drop_bit (32 - n) b)))
   \<and> (32 < n \<longrightarrow> normalize_advertised_route (v4_route a n) = None)"
proof (intro conjI impI)
  assume "m \<le> 32 \<and> n \<le> 32"
  then show "normalize_advertised_route (v4_route a n) = normalize_advertised_route (v4_route b m)
        \<longleftrightarrow> m = n \<and> (n = 0 \<or> drop_bit (32 - n) a = drop_bit (32 - n) b)"
    unfolding mask_ipv4_prefix [symmetric] by (auto simp: normalize_v4_route' v4_route_eq)
next
  show "normalize_advertised_route (v4_route a n) = None" if "32 < n"
    using normalize_v4_route_long [OF that] by (simp add: v4_route_def)
qed (simp_all add: normalize_v4_route' mask_ipv4_idem)

lemma normalize_v4_route_normal_form_witness:
  "normalize_advertised_route (v4_route (v4_of_octets 10 1 2 3) 16) = Some ''10.1.0.0/16''"
proof -
  have "v4_route (mask_ipv4 (v4_of_octets 10 1 2 3) 16) 16 = ''10.1.0.0/16''" by code_simp
  then show ?thesis
    using normalize_v4_route_normal_form [of 16 "v4_of_octets 10 1 2 3" 16 "v4_of_octets 10 1 9 9"] by simp
qed

lemma dec_10_44: "dec 10 = ''10''" "dec 44 = ''44''"
  by code_simp+

text \<open>
  The derived tunnel address is \<open>10.44.x.y/32\<close> with both octets between 1 and 254, so
  never a network or broadcast address of its /24, and it exists exactly when the network id
  and the key are not blank; the printed address parses back.
\<close>

theorem derive_mesh_tunnel_ip_shape:
  "case derive_mesh_tunnel_ip E network_id key of
      None \<Rightarrow> trim (normalize_runtime_network_id network_id) = [] \<or> trim key = []
    | Some route \<Rightarrow> trim (normalize_runtime_network_id network_id) \<noteq> [] \<and> trim key \<noteq> []
        \<and> (\<exists>x y. 1 \<le> x \<and> x \<le> 254 \<and> 1 \<le> y \<and> y \<le> 254
            \<and> route = print_v4 (v4_of_octets 10 44 x y) @ ''/32''
            \<and> parse_ipv4 (print_v4 (v4_of_octets 10 44 x y)) = Some (v4_of_octets 10 44 x y)
            \<and> normalize_advertised_route route = Some route)"
proof (cases "trim (normalize_runtime_network_id network_id) = [] \<or> trim key = []")
  case True
  then show ?thesis by (auto simp: derive_mesh_tunnel_ip_def Let_def)
next
  case False
  define d where "d = sha256 E (trim (normalize_runtime_network_id network_id) @ newline @ trim key)"
  define x where "x = byte (d ! 0) mod 254 + 1"
  define y where "y = byte (d ! 1) mod 254 + 1"
  have "byte (d ! 0) mod 254 < 254" "byte (d ! 1) mod 254 < 254" by simp_all
  then have xy: "1 \<le> x" "x \<le> 254" "1 \<le> y" "y \<le> 254" by (simp_all add: x_def y_def)
  define ip where "ip = v4_of_octets 10 44 x y"
  have print: "print_v4 ip = ''10.44.'' @ dec x @ ''.'' @ dec y"
    using xy dec_10_44 by (simp add: ip_def print_v4_def v4_octet_of_octets [of 10 44 x y, unfolded One_nat_def])
  have "mask_ipv4 ip 32 = ip" by (simp add: mask_ipv4_def)
  moreover have "dec 32 = ''32''" by code_simp
  ultimately have norm: "normalize_advertised_route (print_v4 ip @ ''/32'') = Some (print_v4 ip @ ''/32'')"
    using normalize_v4_route [of 32 ip] by simp
  have "derive_mesh_tunnel_ip E network_id key = Some (print_v4 ip @ ''/32'')"
    using False by (simp add: derive_mesh_tunnel_ip_def Let_def print d_def x_def y_def)
  then show ?thesis
    using False xy norm parse_ipv4_print [of ip] by (auto simp: ip_def)
qed

text \<open>
  The effective routes of a node have no repetitions; they are the normal forms of its
  configured routes, in order of first occurrence, followed, when it offers itself as an exit
  node, by those default routes not among them.
\<close>

theorem effective_routes_distinct:
  "distinct (effective_advertised_routes routes exit)
   \<and> set (effective_advertised_routes routes exit)
      = {r. \<exists>x \<in> set routes. normalize_advertised_route x = Some r}
        \<union> (if exit then set exit_node_default_routes else {})
   \<and> prefix (normalize_advertised_routes routes) (effective_advertised_routes routes exit)"
  using first_occurrences_append [of Some exit_node_default_routes "normalize_advertised_routes routes"]
  by (auto simp: effective_advertised_routes_def normalize_advertised_routes_def Let_def
      first_occurrences_set first_occurrences_distinct)

end
