(* ===== verification/Config.thy ===== *)
theory Config
  imports Key_Roster Magic_Labels Routes
begin

text \<open>
  \<open>crates/nostr-vpn-core/src/config.rs\<close>, first part: the configuration of a node, its queries,
  and \<open>ensure_defaults\<close>, which brings any configuration into its normal form. The random
  identities, the clock, the host name and the primary address, which an operation reads from
  the outside, are fields of \<open>host_env\<close>; an operation sees one reading of the clock.
\<close>

section \<open>Data\<close>

record host_env =
  h_identity :: "string \<times> string"
  h_keypair :: "string \<times> string"
  h_node_id :: string
  h_hostname :: "string option"
  h_now :: u64
  h_primary_ipv4 :: "ip_addr option"

record nostr_config =
  no_relays :: "string list"
  no_secret_key :: string
  no_public_key :: string

record nat_config =
  nat_enabled :: bool
  nat_stun_servers :: "string list"
  nat_reflectors :: "string list"
  nat_discovery_timeout_secs :: u64

record node_config =
  nd_id :: string
  nd_private_key :: string
  nd_public_key :: string
  nd_endpoint :: string
  nd_tunnel_ip :: string
  nd_listen_port :: u16
  nd_advertised_routes :: "string list"
  nd_advertise_exit_node :: bool

record network_config =
  nc_id :: string
  nc_name :: string
  nc_enabled :: bool
  nc_network_id :: string
  nc_participants :: "string list"
  nc_admins :: "string list"
  nc_listen_for_join_requests :: bool
  nc_invite_inviter :: string
  nc_outbound_join_request :: "pending_outbound_join_request option"
  nc_inbound_join_requests :: "pending_inbound_join_request list"
  nc_shared_roster_updated_at :: u64
  nc_shared_roster_signed_by :: string

record app_config =
  ac_networks :: "network_config list"
  ac_node_name :: string
  ac_use_public_relay_fallback :: bool
  ac_relay_for_others :: bool
  ac_provide_nat_assist :: bool
  ac_auto_disconnect_relays_when_mesh_ready :: bool
  ac_lan_discovery_enabled :: bool
  ac_launch_on_startup :: bool
  ac_autoconnect :: bool
  ac_exit_node :: string
  ac_close_to_tray_on_close :: bool
  ac_magic_dns_suffix :: string
  ac_peer_aliases :: "(string, string) hmap"
  ac_nat :: nat_config
  ac_nostr :: nostr_config
  ac_node :: node_config

text \<open>A network entry with everything but id, name and the enabled flag at its default.\<close>

definition new_network :: "string \<Rightarrow> string \<Rightarrow> bool \<Rightarrow> network_config" where
  "new_network entry_id name enabled =
    \<lparr>nc_id = entry_id, nc_name = name, nc_enabled = enabled, nc_network_id = default_network_id,
     nc_participants = [], nc_admins = [],
     nc_listen_for_join_requests = default_listen_for_join_requests, nc_invite_inviter = [],
     nc_outbound_join_request = None, nc_inbound_join_requests = [],
     nc_shared_roster_updated_at = 0, nc_shared_roster_signed_by = []\<rparr>"

definition nat_config_default :: nat_config where
  "nat_config_default =
    \<lparr>nat_enabled = default_nat_enabled, nat_stun_servers = default_nat_stun_servers,
     nat_reflectors = [], nat_discovery_timeout_secs = default_nat_discovery_timeout_secs\<rparr>"

definition nostr_config_default :: "host_env \<Rightarrow> nostr_config" where
  "nostr_config_default H =
    \<lparr>no_relays = default_relays, no_secret_key = fst (h_identity H), no_public_key = snd (h_identity H)\<rparr>"

definition node_config_default :: "host_env \<Rightarrow> node_config" where
  "node_config_default H =
    \<lparr>nd_id = h_node_id H, nd_private_key = fst (h_keypair H), nd_public_key = snd (h_keypair H),
     nd_endpoint = default_endpoint, nd_tunnel_ip = default_tunnel_ip,
     nd_listen_port = default_listen_port, nd_advertised_routes = [], nd_advertise_exit_node = False\<rparr>"

section \<open>Queries\<close>

definition own_nostr_pubkey_hex :: "key_env \<Rightarrow> app_config \<Rightarrow> string option" where
  "own_nostr_pubkey_hex E c =
    (case normalize_nostr_pubkey E (no_public_key (ac_nostr c)) of
       Some h \<Rightarrow> Some h
     | None \<Rightarrow> map_option fst (keys_parse E (no_secret_key (ac_nostr c))))"

text \<open>
  The index of the first enabled network, 0 when none is; indexing panics on an empty vector,
  which no configuration has after \<open>ensure_defaults\<close>.
\<close>

definition active_index :: "network_config list \<Rightarrow> nat" where
  "active_index ns =
    (let i = length (takeWhile (\<lambda>n. \<not> nc_enabled n) ns) in if i < length ns then i else 0)"

definition active_network :: "app_config \<Rightarrow> network_config" where
  "active_network c = ac_networks c ! active_index (ac_networks c)"

definition update_active_network :: "(network_config \<Rightarrow> network_config) \<Rightarrow> app_config \<Rightarrow> app_config" where
  "update_active_network f c =
    (let i = active_index (ac_networks c)
     in c\<lparr>ac_networks := (ac_networks c)[i := f (ac_networks c ! i)]\<rparr>)"

definition network_by_id :: "app_config \<Rightarrow> string \<Rightarrow> network_config option" where
  "network_by_id c network_id = find (\<lambda>n. nc_id n = network_id) (ac_networks c)"

text \<open>A mutation through \<open>network_by_id_mut\<close>.\<close>

definition update_network :: "string \<Rightarrow> (network_config \<Rightarrow> network_config) \<Rightarrow> app_config \<Rightarrow> app_config" where
  "update_network network_id f c =
    c\<lparr>ac_networks := update_first (\<lambda>n. nc_id n = network_id) f (ac_networks c)\<rparr>"

definition effective_network_id :: "app_config \<Rightarrow> string" where
  "effective_network_id c = normalize_runtime_network_id (nc_network_id (active_network c))"

record enabled_network_mesh =
  em_id :: string
  em_name :: string
  em_network_id :: string
  em_participants :: "string list"

definition enabled_network_meshes :: "app_config \<Rightarrow> enabled_network_mesh list" where
  "enabled_network_meshes c =
    (let n = active_network c
     in [\<lparr>em_id = nc_id n, em_name = nc_name n,
          em_network_id = normalize_runtime_network_id (nc_network_id n),
          em_participants = sort_dedup (nc_participants n)\<rparr>])"

definition participant_pubkeys_hex :: "app_config \<Rightarrow> string list" where
  "participant_pubkeys_hex c = sort_dedup (nc_participants (active_network c))"

definition all_participant_pubkeys_hex :: "app_config \<Rightarrow> string list" where
  "all_participant_pubkeys_hex c = sort_dedup (concat (map nc_participants (ac_networks c)))"

definition all_network_member_pubkeys_hex :: "app_config \<Rightarrow> string list" where
  "all_network_member_pubkeys_hex c =
    sort_dedup (concat (map (\<lambda>n. nc_participants n @ nc_admins n) (ac_networks c)))"

definition enabled_network_count :: "app_config \<Rightarrow> nat" where
  "enabled_network_count c = length (filter nc_enabled (ac_networks c))"

definition active_network_admin_pubkeys_hex :: "app_config \<Rightarrow> string list" where
  "active_network_admin_pubkeys_hex c = sort_dedup (nc_admins (active_network c))"

definition active_network_signal_pubkeys_hex :: "app_config \<Rightarrow> string list" where
  "active_network_signal_pubkeys_hex c =
    sort_dedup (nc_participants (active_network c) @ nc_admins (active_network c))"

definition mesh_members_pubkeys :: "key_env \<Rightarrow> app_config \<Rightarrow> string list" where
  "mesh_members_pubkeys E c =
    sort_dedup (participant_pubkeys_hex c
      @ (case own_nostr_pubkey_hex E c of Some own \<Rightarrow> [own] | None \<Rightarrow> []))"

definition join_requests_enabled :: "app_config \<Rightarrow> bool" where
  "join_requests_enabled c = list_ex nc_listen_for_join_requests (ac_networks c)"

definition app_effective_advertised_routes :: "app_config \<Rightarrow> string list" where
  "app_effective_advertised_routes c =
    effective_advertised_routes (nd_advertised_routes (ac_node c)) (nd_advertise_exit_node (ac_node c))"

section \<open>Normalisation steps\<close>

definition ensure_nostr_identity :: "key_env \<Rightarrow> host_env \<Rightarrow> app_config \<Rightarrow> app_config" where
  "ensure_nostr_identity E H c =
    (let nostr = ac_nostr c;
         fresh = c\<lparr>ac_nostr := nostr\<lparr>no_secret_key := fst (h_identity H), no_public_key := snd (h_identity H)\<rparr>\<rparr>
     in if trim (no_secret_key nostr) = [] then fresh
        else (case keys_parse E (no_secret_key nostr) of
            Some (_, public_key) \<Rightarrow>
              if trim (no_public_key nostr) = [] then c\<lparr>ac_nostr := nostr\<lparr>no_public_key := public_key\<rparr>\<rparr>
              else c
          | None \<Rightarrow> fresh))"

definition preferred_self_magic_dns_label :: "app_config \<Rightarrow> string option" where
  "preferred_self_magic_dns_label c = normalize_magic_dns_label (ac_node_name c)"

text \<open>The configured aliases under canonical keys.\<close>

definition normalized_aliases :: "key_env \<Rightarrow> (string, string) hmap \<Rightarrow> (string, string) hmap" where
  "normalized_aliases E aliases =
    fold (\<lambda>(participant, alias) acc.
      (case (normalize_npub_key E participant, normalize_magic_dns_label alias) of
         (Some participant_npub, Some label) \<Rightarrow> hm_insert participant_npub label acc
       | _ \<Rightarrow> acc)) aliases []"

text \<open>One member in the loop that gives every member its alias.\<close>

definition assign_alias ::
  "key_env \<Rightarrow> string \<Rightarrow> (string, string) hmap \<times> string list \<times> (string, string) hmap
    \<Rightarrow> (string, string) hmap \<times> string list \<times> (string, string) hmap" where
  "assign_alias E participant acc = (case acc of (normalized, used, final) \<Rightarrow>
    (let npub = npub_for_pubkey_hex E participant;
         preferred = (case hm_get normalized npub of
             Some alias \<Rightarrow> alias
           | None \<Rightarrow> default_magic_dns_label_for_pubkey (sha256 E) participant used)
     in case uniquify_magic_dns_label preferred used of
          (alias, used') \<Rightarrow> (hm_remove npub normalized, used', hm_insert npub alias final)))"

definition normalize_peer_aliases :: "key_env \<Rightarrow> app_config \<Rightarrow> app_config" where
  "normalize_peer_aliases E c =
    (let used = (case preferred_self_magic_dns_label c of Some alias \<Rightarrow> [alias] | None \<Rightarrow> [])
     in case fold (assign_alias E) (all_network_member_pubkeys_hex c)
               (normalized_aliases E (ac_peer_aliases c), used, []) of
          (_, _, final) \<Rightarrow> c\<lparr>ac_peer_aliases := final\<rparr>)"

definition normalize_selected_exit_node :: "app_config \<Rightarrow> app_config" where
  "normalize_selected_exit_node c =
    (if ac_exit_node c = [] then c
     else if ac_exit_node c \<in> set (active_network_signal_pubkeys_hex c) then c
     else c\<lparr>ac_exit_node := []\<rparr>)"

text \<open>Every enabled network after the first one is disabled.\<close>

fun disable_later :: "bool \<Rightarrow> network_config list \<Rightarrow> network_config list" where
  "disable_later found [] = []"
| "disable_later found (n # ns) =
    (if \<not> nc_enabled n then n # disable_later found ns
     else if \<not> found then n # disable_later True ns
     else n\<lparr>nc_enabled := False\<rparr> # disable_later found ns)"

text \<open>The first network is enabled when none is.\<close>

definition enable_first :: "network_config list \<Rightarrow> network_config list" where
  "enable_first ns =
    (if list_ex nc_enabled ns then ns
     else (case ns of [] \<Rightarrow> [] | n # ns' \<Rightarrow> n\<lparr>nc_enabled := True\<rparr> # ns'))"

definition ensure_single_active_network :: "app_config \<Rightarrow> app_config" where
  "ensure_single_active_network c = c\<lparr>ac_networks := enable_first (disable_later False (ac_networks c))\<rparr>"

definition derive_default_network_id :: "key_env \<Rightarrow> string option \<Rightarrow> network_config \<Rightarrow> network_config" where
  "derive_default_network_id E own n =
    (if \<not> uses_default_network_id (nc_network_id n) then n
     else (case own of
         None \<Rightarrow> n\<lparr>nc_network_id := default_network_id\<rparr>
       | Some own_pubkey \<Rightarrow>
           if nc_participants n = [] then n\<lparr>nc_network_id := default_network_id\<rparr>
           else n\<lparr>nc_network_id := derive_network_id_from_participants E
                    (sort_dedup (nc_participants n @ [own_pubkey]))\<rparr>))"

definition derive_default_network_ids :: "key_env \<Rightarrow> app_config \<Rightarrow> app_config" where
  "derive_default_network_ids E c =
    c\<lparr>ac_networks := map (derive_default_network_id E (own_nostr_pubkey_hex E c)) (ac_networks c)\<rparr>"

definition or_empty :: "string option \<Rightarrow> string" where
  "or_empty s = (case s of None \<Rightarrow> [] | Some v \<Rightarrow> v)"

text \<open>One network in the loop of \<open>ensure_defaults\<close>, with the entry ids used before it.\<close>

definition ensure_network ::
  "key_env \<Rightarrow> string option \<Rightarrow> nat \<Rightarrow> string list \<Rightarrow> network_config \<Rightarrow> network_config \<times> string list" where
  "ensure_network E own ordinal used_ids n =
    (let name = (if trim (nc_name n) = [] then default_network_name ordinal else trim (nc_name n));
         id1 = (if trim (nc_id n) = [] then default_network_entry_id ordinal
                else normalize_network_entry_id (nc_id n) ordinal)
     in case (if id1 \<notin> set used_ids then (id1, id1 # used_ids)
              else uniquify_network_entry_id id1 used_ids) of
       (id2, used_ids') \<Rightarrow>
         (let network_id = (if trim (nc_network_id n) = [] then default_network_id else nc_network_id n);
              inviter = or_empty (normalize_nostr_pubkey E (nc_invite_inviter n));
              participants = sort_dedup (List.map_filter (normalize_nostr_pubkey E) (nc_participants n));
              admins = normalize_network_admins E (nc_admins n) own inviter;
              signed_by = or_empty (normalize_nostr_pubkey E (nc_shared_roster_signed_by n))
          in (n\<lparr>nc_id := id2, nc_name := name, nc_network_id := network_id,
               nc_invite_inviter := inviter, nc_participants := participants, nc_admins := admins,
               nc_outbound_join_request := normalize_outbound_join_request E (nc_outbound_join_request n),
               nc_inbound_join_requests :=
                 normalize_inbound_join_requests E (nc_inbound_join_requests n) participants,
               nc_shared_roster_signed_by := signed_by,
               nc_shared_roster_updated_at :=
                 (if signed_by = [] then 0 else nc_shared_roster_updated_at n)\<rparr>, used_ids')))"

fun ensure_networks ::
  "key_env \<Rightarrow> string option \<Rightarrow> nat \<Rightarrow> string list \<Rightarrow> network_config list \<Rightarrow> network_config list" where
  "ensure_networks E own ordinal used_ids [] = []"
| "ensure_networks E own ordinal used_ids (n # ns) =
    (case ensure_network E own ordinal used_ids n of
       (n', used_ids') \<Rightarrow> n' # ensure_networks E own (Suc ordinal) used_ids' ns)"

text \<open>The name of the node: kept unless it is a default one.\<close>

definition ensure_node_name :: "key_env \<Rightarrow> host_env \<Rightarrow> app_config \<Rightarrow> app_config" where
  "ensure_node_name E H c =
    (let own = own_nostr_pubkey_hex E c
     in if uses_default_node_name (sha256 E) (ac_node_name c) own
        then c\<lparr>ac_node_name :=
          (case own of
             Some pubkey_hex \<Rightarrow> default_node_name_for_hostname_or_pubkey (sha256 E) (h_hostname H) pubkey_hex
           | None \<Rightarrow> (case Option.bind (h_hostname H) default_node_name_from_hostname of
               Some name \<Rightarrow> name | None \<Rightarrow> default_node_name))\<rparr>
        else c)"

text \<open>The node's own section.\<close>

definition ensure_node :: "host_env \<Rightarrow> node_config \<Rightarrow> node_config" where
  "ensure_node H nd =
    (let routes = normalize_advertised_routes (nd_advertised_routes nd);
         no_keys = (trim (nd_private_key nd) = [] \<or> trim (nd_public_key nd) = [])
     in nd\<lparr>nd_id := (if trim (nd_id nd) = [] then h_node_id H else nd_id nd),
          nd_endpoint := (if trim (nd_endpoint nd) = [] then default_endpoint else nd_endpoint nd),
          nd_tunnel_ip := (if trim (nd_tunnel_ip nd) = [] then default_tunnel_ip else nd_tunnel_ip nd),
          nd_listen_port := (if nd_listen_port nd = 0 then default_listen_port else nd_listen_port nd),
          nd_advertised_routes := filter (\<lambda>r. \<not> is_exit_node_route r) routes,
          nd_advertise_exit_node := (nd_advertise_exit_node nd \<or> list_ex is_exit_node_route routes),
          nd_private_key := (if no_keys then fst (h_keypair H) else nd_private_key nd),
          nd_public_key := (if no_keys then snd (h_keypair H) else nd_public_key nd)\<rparr>)"

text \<open>The exit node is a normalised key other than the node's own.\<close>

definition ensure_exit_node :: "key_env \<Rightarrow> app_config \<Rightarrow> app_config" where
  "ensure_exit_node E c =
    (let exit_node = or_empty (normalize_nostr_pubkey E (trim (ac_exit_node c)))
     in c\<lparr>ac_exit_node :=
          (case own_nostr_pubkey_hex E c of
             Some own \<Rightarrow> if exit_node = own then [] else exit_node
           | None \<Rightarrow> exit_node)\<rparr>)"

definition ensure_defaults :: "key_env \<Rightarrow> host_env \<Rightarrow> app_config \<Rightarrow> app_config" where
  "ensure_defaults E H c0 =
    (let c1 = (ensure_nostr_identity E H c0)\<lparr>ac_auto_disconnect_relays_when_mesh_ready := False\<rparr>;
         own = own_nostr_pubkey_hex E c1;
         c2 = ensure_node_name E H c1;
         c3 = c2\<lparr>ac_magic_dns_suffix := normalize_magic_dns_suffix (ac_magic_dns_suffix c2)\<rparr>;
         c4 = (if no_relays (ac_nostr c3) = []
               then c3\<lparr>ac_nostr := (ac_nostr c3)\<lparr>no_relays := default_relays\<rparr>\<rparr> else c3);
         c5 = c4\<lparr>ac_node := ensure_node H (ac_node c4)\<rparr>;
         c6 = ensure_exit_node E c5;
         c7 = (if ac_networks c6 = []
               then c6\<lparr>ac_networks := [new_network (default_network_entry_id 1) (default_network_name 1) True]\<rparr>
               else c6);
         c8 = c7\<lparr>ac_networks := ensure_networks E own 1 [] (ac_networks c7)\<rparr>
     in normalize_peer_aliases E (normalize_selected_exit_node
          (derive_default_network_ids E (ensure_single_active_network c8))))"

text \<open>\<open>AppConfig::default()\<close>: the literal, then \<open>ensure_defaults\<close>.\<close>

definition app_config_raw :: "host_env \<Rightarrow> app_config" where
  "app_config_raw H =
      \<lparr>ac_networks = [new_network (default_network_entry_id 1) (default_network_name 1) default_network_enabled],
       ac_node_name = default_node_name,
       ac_use_public_relay_fallback = default_use_public_relay_fallback,
       ac_relay_for_others = default_relay_for_others,
       ac_provide_nat_assist = default_provide_nat_assist,
       ac_auto_disconnect_relays_when_mesh_ready = False,
       ac_lan_discovery_enabled = default_lan_discovery_enabled,
       ac_launch_on_startup = default_launch_on_startup,
       ac_autoconnect = default_autoconnect,
       ac_exit_node = [],
       ac_close_to_tray_on_close = default_close_to_tray_on_close,
       ac_magic_dns_suffix = default_magic_dns_suffix,
       ac_peer_aliases = default_peer_aliases,
       ac_nat = nat_config_default,
       ac_nostr = nostr_config_default H,
       ac_node = node_config_default H\<rparr>"

definition app_config_default :: "key_env \<Rightarrow> host_env \<Rightarrow> app_config" where
  "app_config_default E H = ensure_defaults E H (app_config_raw H)"

text \<open>What \<open>save\<close> writes: the normal form with user-facing keys.\<close>

definition canonicalize_network :: "key_env \<Rightarrow> network_config \<Rightarrow> network_config" where
  "canonicalize_network E n =
    (let signed_by = or_empty (canonical_npub_key E (nc_shared_roster_signed_by n))
     in n\<lparr>nc_participants := sort_dedup (List.map_filter (canonical_npub_key E) (nc_participants n)),
          nc_admins := sort_dedup (List.map_filter (canonical_npub_key E) (nc_admins n)),
          nc_invite_inviter := or_empty (canonical_npub_key E (nc_invite_inviter n)),
          nc_outbound_join_request := canonicalize_outbound_join_request E (nc_outbound_join_request n),
          nc_inbound_join_requests := canonicalize_inbound_join_requests E (nc_inbound_join_requests n),
          nc_shared_roster_signed_by := signed_by,
          nc_shared_roster_updated_at := (if signed_by = [] then 0 else nc_shared_roster_updated_at n)\<rparr>)"

definition canonicalize_user_facing_pubkeys :: "key_env \<Rightarrow> app_config \<Rightarrow> app_config" where
  "canonicalize_user_facing_pubkeys E c =
    normalize_peer_aliases E
      (c\<lparr>ac_nostr := (ac_nostr c)\<lparr>no_public_key := or_empty (canonical_npub_key E (no_public_key (ac_nostr c)))\<rparr>,
         ac_exit_node := or_empty (canonical_npub_key E (ac_exit_node c)),
         ac_networks := map (canonicalize_network E) (ac_networks c)\<rparr>)"

definition config_to_save :: "key_env \<Rightarrow> host_env \<Rightarrow> app_config \<Rightarrow> app_config" where
  "config_to_save E H c = canonicalize_user_facing_pubkeys E (ensure_defaults E H c)"

text \<open>\<open>maybe_autoconfigure_node\<close> of \<open>config_defaults.rs\<close>.\<close>

definition maybe_autoconfigure_node :: "key_env \<Rightarrow> host_env \<Rightarrow> app_config \<Rightarrow> app_config" where
  "maybe_autoconfigure_node E H c0 =
    (let c = ensure_defaults E H c0;
         nd = ac_node c;
         nd1 = (case (needs_endpoint_autoconfig (nd_endpoint nd), h_primary_ipv4 H) of
             (True, Some ip) \<Rightarrow> nd\<lparr>nd_endpoint := print_ip ip @ '':'' @ dec (unat (nd_listen_port nd))\<rparr>
           | _ \<Rightarrow> nd);
         nd2 = (if needs_tunnel_ip_autoconfig (nd_tunnel_ip nd1)
                then (case own_nostr_pubkey_hex E c of
                    Some own \<Rightarrow> (case derive_mesh_tunnel_ip E (effective_network_id c) own of
                        Some tunnel_ip \<Rightarrow> nd1\<lparr>nd_tunnel_ip := tunnel_ip\<rparr> | None \<Rightarrow> nd1)
                  | None \<Rightarrow> nd1)
                else nd1)
     in c\<lparr>ac_node := nd2\<rparr>)"

end
