(* ===== verification/Endpoint_Tests.thy ===== *)
theory Endpoint_Tests
  imports Wg_Status Paths Config
begin

text \<open>
  \<open>crates/nostr-vpn-cli/src/main.rs\<close>: the tests on endpoints that the daemon applies when it plans
  tunnels and judges the endpoints WireGuard reports. They repeat tests of the core crate on
  their own terms.
\<close>

section \<open>Local endpoints\<close>

definition ipv4_is_local_only :: "ipv4_addr \<Rightarrow> bool" where
  "ipv4_is_local_only ip =
    (is_private ip \<or> is_link_local ip \<or> is_loopback ip
      \<or> (v4_octet 0 ip = 100 \<and> 64 \<le> v4_octet 1 ip \<and> v4_octet 1 ip \<le> 127)
      \<or> (v4_octet 0 ip = 198 \<and> (v4_octet 1 ip = 18 \<or> v4_octet 1 ip = 19)))"

definition endpoint_host_ip :: "string \<Rightarrow> ip_addr option" where
  "endpoint_host_ip endpoint =
    (let host = trim_end_matches (CHR '']'') (trim_start_matches (CHR ''['') (trim
          (case rsplit_once (CHR '':'') endpoint of None \<Rightarrow> endpoint | Some (host, _) \<Rightarrow> host)))
     in parse_ip host)"

definition daemon_endpoint_is_local_only :: "string \<Rightarrow> bool" where
  "daemon_endpoint_is_local_only endpoint =
    (case endpoint_host_ip endpoint of
       Some (V4 ip) \<Rightarrow> ipv4_is_local_only ip
     | Some (V6 ip) \<Rightarrow> v6_is_loopback ip \<or> v6_is_unicast_link_local ip \<or> v6_is_unique_local ip
     | None \<Rightarrow> eq_ignore_ascii_case endpoint ''localhost'')"

definition endpoints_share_local_only_ipv4_subnet :: "string \<Rightarrow> string \<Rightarrow> bool" where
  "endpoints_share_local_only_ipv4_subnet left right =
    (case parse_socket_addr left of
       None \<Rightarrow> False
     | Some left_addr \<Rightarrow>
         (case parse_socket_addr right of
            None \<Rightarrow> False
          | Some right_addr \<Rightarrow>
              (case (left_addr, right_addr) of
                 (SockV4 left_ip _, SockV4 right_ip _) \<Rightarrow>
                   ipv4_is_local_only left_ip \<and> ipv4_is_local_only right_ip
                   \<and> v4_octet 0 left_ip = v4_octet 0 right_ip
                   \<and> v4_octet 1 left_ip = v4_octet 1 right_ip
                   \<and> v4_octet 2 left_ip = v4_octet 2 right_ip
               | _ \<Rightarrow> False)))"

definition endpoint_can_advertise_public_override :: "string \<Rightarrow> string \<Rightarrow> bool" where
  "endpoint_can_advertise_public_override endpoint local_endpoint =
    (endpoint \<noteq> local_endpoint
      \<and> (\<not> daemon_endpoint_is_local_only endpoint
         \<or> \<not> endpoints_share_local_only_ipv4_subnet endpoint local_endpoint))"

definition peer_endpoint_requires_public_signal ::
  "app_config \<Rightarrow> peer_announcement \<Rightarrow> string \<Rightarrow> string list \<Rightarrow> bool" where
  "peer_endpoint_requires_public_signal app a selected_endpoint own_local_endpoints =
    (if \<not> nat_enabled (ac_nat app) then False
     else if non_blank (pa_public_endpoint a) \<noteq> None then False
     else if (case pa_local_endpoint a of None \<Rightarrow> False
        | Some local_endpoint \<Rightarrow> local_endpoint = selected_endpoint
            \<and> list_ex (endpoints_share_local_only_ipv4_subnet local_endpoint) own_local_endpoints)
     then False
     else daemon_endpoint_is_local_only selected_endpoint)"

definition select_local_signal_endpoint_for_peer ::
  "peer_announcement \<Rightarrow> string list \<Rightarrow> string option" where
  "select_local_signal_endpoint_for_peer a own_local_endpoints =
    (case (case non_blank (pa_local_endpoint a) of
             Some endpoint \<Rightarrow> Some endpoint
           | None \<Rightarrow> if daemon_endpoint_is_local_only (pa_endpoint a) then Some (pa_endpoint a) else None) of
       None \<Rightarrow> None
     | Some peer_local_endpoint \<Rightarrow>
         find (\<lambda>own. endpoints_share_local_only_ipv4_subnet own peer_local_endpoint) own_local_endpoints)"

section \<open>Endpoints that WireGuard reports\<close>

definition runtime_endpoint_is_same_subnet_translation_for_peer ::
  "string \<Rightarrow> peer_announcement \<Rightarrow> string list \<Rightarrow> bool" where
  "runtime_endpoint_is_same_subnet_translation_for_peer runtime_endpoint a own_local_endpoints =
    (if \<not> daemon_endpoint_is_local_only runtime_endpoint then False
     else if \<not> list_ex (endpoints_share_local_only_ipv4_subnet runtime_endpoint) own_local_endpoints then False
     else (case parse_socket_addr runtime_endpoint of
         None \<Rightarrow> False
       | Some runtime_addr \<Rightarrow>
           (case (case Option.bind (pa_public_endpoint a) parse_socket_addr of
                    Some addr \<Rightarrow> Some addr
                  | None \<Rightarrow> if daemon_endpoint_is_local_only (pa_endpoint a) then None
                      else parse_socket_addr (pa_endpoint a)) of
              None \<Rightarrow> False
            | Some public_addr \<Rightarrow> sock_port runtime_addr = sock_port public_addr)))"

definition runtime_endpoint_is_viable_for_peer ::
  "string \<Rightarrow> peer_announcement \<Rightarrow> string list \<Rightarrow> bool" where
  "runtime_endpoint_is_viable_for_peer runtime_endpoint a own_local_endpoints =
    (if \<not> daemon_endpoint_is_local_only runtime_endpoint then True
     else if pa_relay_endpoint a = Some runtime_endpoint then True
     else if pa_public_endpoint a = Some runtime_endpoint then True
     else if pa_endpoint a = runtime_endpoint
     then list_ex (endpoints_share_local_only_ipv4_subnet runtime_endpoint) own_local_endpoints
     else (case pa_local_endpoint a of None \<Rightarrow> False
       | Some local_endpoint \<Rightarrow> local_endpoint = runtime_endpoint
           \<and> list_ex (endpoints_share_local_only_ipv4_subnet local_endpoint) own_local_endpoints))"

definition runtime_endpoint_requires_refresh ::
  "string \<Rightarrow> string \<Rightarrow> peer_announcement \<Rightarrow> string list \<Rightarrow> bool" where
  "runtime_endpoint_requires_refresh runtime_endpoint planned_endpoint a own_local_endpoints =
    (runtime_endpoint \<noteq> planned_endpoint
      \<and> \<not> runtime_endpoint_is_same_subnet_translation_for_peer runtime_endpoint a own_local_endpoints
      \<and> \<not> runtime_endpoint_is_viable_for_peer runtime_endpoint a own_local_endpoints)"

type_synonym runtime_peers = "(string, wg_peer_status) hmap"

definition peer_runtime_lookup ::
  "(string \<Rightarrow> string option) \<Rightarrow> peer_announcement \<Rightarrow> runtime_peers option \<Rightarrow> wg_peer_status option" where
  "peer_runtime_lookup b64 a runtime_peers =
    (case key_b64_to_hex b64 (pa_public_key a) of
       None \<Rightarrow> None
     | Some pubkey_hex \<Rightarrow> Option.bind runtime_peers (\<lambda>peers. hm_get peers (to_ascii_lowercase pubkey_hex)))"

text \<open>The peers whose handshake is recent, by the clock's reading \<open>now\<close>.\<close>

definition has_recent_runtime_peer ::
  "(string \<Rightarrow> string option) \<Rightarrow> u64 \<Rightarrow> runtime_peers option \<Rightarrow> peer_announcement \<Rightarrow> bool" where
  "has_recent_runtime_peer b64 now runtime_peers a =
    (case peer_runtime_lookup b64 a runtime_peers of
       None \<Rightarrow> False | Some p \<Rightarrow> peer_has_recent_handshake now p)"

text \<open>One announcement in the loop that credits the endpoints of live tunnels.\<close>

definition record_runtime_path ::
  "(string \<Rightarrow> string option) \<Rightarrow> runtime_peers \<Rightarrow> string list \<Rightarrow> u64 \<Rightarrow> string \<times> peer_announcement
    \<Rightarrow> bool \<times> peer_path_book \<Rightarrow> bool \<times> peer_path_book" where
  "record_runtime_path b64 runtime_peers own_local_endpoints now entry acc =
    (case entry of (participant, a) \<Rightarrow>
      (case Option.bind (key_b64_to_hex b64 (pa_public_key a)) (hm_get runtime_peers) of
         None \<Rightarrow> acc
       | Some p \<Rightarrow>
           if \<not> has_handshake p then acc
           else (case wp_endpoint p of
               None \<Rightarrow> acc
             | Some endpoint \<Rightarrow>
                 if \<not> runtime_endpoint_is_viable_for_peer endpoint a own_local_endpoints then acc
                 else (case note_success participant endpoint
                        (case last_handshake_at now p of None \<Rightarrow> now | Some at \<Rightarrow> at) (snd acc) of
                     (changed, book) \<Rightarrow> (fst acc \<or> changed, book)))))"

definition record_successful_runtime_paths ::
  "(string \<Rightarrow> string option) \<Rightarrow> (string, peer_announcement) hmap \<Rightarrow> runtime_peers option \<Rightarrow> peer_path_book
    \<Rightarrow> string list \<Rightarrow> u64 \<Rightarrow> bool \<times> peer_path_book" where
  "record_successful_runtime_paths b64 announcements runtime_peers book own_local_endpoints now =
    (case runtime_peers of
       None \<Rightarrow> (False, book)
     | Some peers \<Rightarrow> fold (record_runtime_path b64 peers own_local_endpoints now) announcements (False, book))"

section \<open>The daemon's tests against the core's\<close>

lemma local_only_v4: "ipv4_is_local_only ip \<longleftrightarrow> is_private_ipv4 ip \<or> is_loopback ip"
  by (auto simp: ipv4_is_local_only_def is_private_ipv4_def)

text \<open>The text that both take for the host of an endpoint.\<close>

definition endpoint_host_text :: "string \<Rightarrow> string" where
  "endpoint_host_text endpoint =
    trim_end_matches (CHR '']'') (trim_start_matches (CHR ''['') (trim
      (case rsplit_once (CHR '':'') endpoint of None \<Rightarrow> endpoint | Some (host, _) \<Rightarrow> host)))"

text \<open>
  C23. The daemon's copies of the endpoint tests agree with those of the core crate, with two
  exceptions: an endpoint whose host is the name localhost counts as local for the core with any
  port, and for the daemon only when the whole endpoint is the name; and two loopback addresses
  share a subnet for the daemon only.
\<close>

theorem daemon_endpoint_tests_agree:
  "(if parse_ip (endpoint_host_text endpoint) = None
    then daemon_endpoint_is_local_only endpoint = eq_ignore_ascii_case endpoint ''localhost''
      \<and> endpoint_is_local_only endpoint = eq_ignore_ascii_case (endpoint_host_text endpoint) ''localhost''
    else daemon_endpoint_is_local_only endpoint = endpoint_is_local_only endpoint)
    \<and> (endpoints_share_local_only_ipv4_subnet left right \<longleftrightarrow>
        endpoints_share_private_ipv4_subnet left right
        \<or> (\<exists>l lp r rp. parse_socket_addr left = Some (SockV4 l lp) \<and> parse_socket_addr right = Some (SockV4 r rp)
            \<and> is_loopback l \<and> is_loopback r
            \<and> v4_octet 1 l = v4_octet 1 r \<and> v4_octet 2 l = v4_octet 2 r))"
proof
  show "if parse_ip (endpoint_host_text endpoint) = None
    then daemon_endpoint_is_local_only endpoint = eq_ignore_ascii_case endpoint ''localhost''
      \<and> endpoint_is_local_only endpoint = eq_ignore_ascii_case (endpoint_host_text endpoint) ''localhost''
    else daemon_endpoint_is_local_only endpoint = endpoint_is_local_only endpoint"
    by (cases "parse_ip (endpoint_host_text endpoint)")
      (simp_all add: daemon_endpoint_is_local_only_def endpoint_is_local_only_def endpoint_host_ip_def
        endpoint_host_text_def ipv4_is_local_only_def Let_def split: ip_addr.split)
next
  have "\<not> (is_private_ipv4 l \<and> is_loopback r \<and> v4_octet 0 l = v4_octet 0 r)" for l r
    by (auto simp: is_private_ipv4_def is_private_def is_link_local_def is_loopback_def)
  then have "(ipv4_is_local_only l \<and> ipv4_is_local_only r \<and> v4_octet 0 l = v4_octet 0 r
        \<and> v4_octet 1 l = v4_octet 1 r \<and> v4_octet 2 l = v4_octet 2 r)
    \<longleftrightarrow> (is_private_ipv4 l \<and> is_private_ipv4 r \<and> v4_octet 0 l = v4_octet 0 r
        \<and> v4_octet 1 l = v4_octet 1 r \<and> v4_octet 2 l = v4_octet 2 r)
      \<or> (is_loopback l \<and> is_loopback r \<and> v4_octet 1 l = v4_octet 1 r \<and> v4_octet 2 l = v4_octet 2 r)" for l r
    unfolding local_only_v4 by (metis is_loopback_def)
  then show "endpoints_share_local_only_ipv4_subnet left right \<longleftrightarrow>
        endpoints_share_private_ipv4_subnet left right
        \<or> (\<exists>l lp r rp. parse_socket_addr left = Some (SockV4 l lp) \<and> parse_socket_addr right = Some (SockV4 r rp)
            \<and> is_loopback l \<and> is_loopback r
            \<and> v4_octet 1 l = v4_octet 1 r \<and> v4_octet 2 l = v4_octet 2 r)"
    by (cases "parse_socket_addr left"; cases "parse_socket_addr right";
        cases "the (parse_socket_addr left)"; cases "the (parse_socket_addr right)")
      (simp_all add: endpoints_share_local_only_ipv4_subnet_def endpoints_share_private_ipv4_subnet_def)
qed

text \<open>The two copies do differ.\<close>

lemma localhost_with_port_differs:
  "endpoint_is_local_only ''localhost:51820'' \<and> \<not> daemon_endpoint_is_local_only ''localhost:51820''"
  by code_simp

end
