(* ===== verification/Signal_Endpoints.thy ===== *)
theory Signal_Endpoints
  imports Endpoint_Tests
begin

text \<open>
  \<open>crates/nostr-vpn-cli/src/main.rs\<close>: which endpoints the daemon announces for itself. The local ones
  come from the configuration and the interfaces, the public one from a port mapping, a reflector or a
  STUN server; discovery by a socket yields an endpoint or an error message, as an argument.
\<close>

definition str_contains :: "string \<Rightarrow> string \<Rightarrow> bool" where
  "str_contains needle s = sublist needle s"

definition is_resource_busy_message :: "string \<Rightarrow> bool" where
  "is_resource_busy_message message =
    (let lower = to_ascii_lowercase message
     in str_contains ''resource busy'' lower \<or> str_contains ''address already in use'' lower)"

definition public_endpoint_discovery_bind_conflict :: "string \<Rightarrow> bool" where
  "public_endpoint_discovery_bind_conflict message =
    (let lower = to_ascii_lowercase message
     in is_resource_busy_message message \<or> str_contains ''failed to bind udp stun socket'' lower
        \<or> str_contains ''failed to bind udp discovery socket'' lower)"

section \<open>Local endpoints\<close>

fun set_port :: "u16 \<Rightarrow> socket_addr \<Rightarrow> socket_addr" where
  "set_port port (SockV4 ip _) = SockV4 ip port"
| "set_port port (SockV6 ip _ scope) = SockV6 ip port scope"

definition endpoint_with_listen_port :: "string \<Rightarrow> u16 \<Rightarrow> string" where
  "endpoint_with_listen_port endpoint listen_port =
    (case parse_socket_addr endpoint of
       None \<Rightarrow> endpoint | Some parsed \<Rightarrow> print_socket_addr (set_port listen_port parsed))"

definition endpoint_prefers_runtime_local_ipv4 :: "string \<Rightarrow> bool" where
  "endpoint_prefers_runtime_local_ipv4 endpoint =
    (let value = trim endpoint
     in if value = [] then True
        else (let host = trim_end_matches (CHR '']'') (trim_start_matches (CHR ''['') (trim
                (case rsplit_once (CHR '':'') value of None \<Rightarrow> value | Some (host, _) \<Rightarrow> host)))
              in if eq_ignore_ascii_case host ''localhost'' then True
                 else (case parse_ip host of
                     Some (V4 ip) \<Rightarrow> ipv4_is_local_only ip
                   | Some (V6 ip) \<Rightarrow> v6_is_loopback ip \<or> ip = 0
                   | None \<Rightarrow> False)))"

definition runtime_local_signal_endpoint :: "string \<Rightarrow> u16 \<Rightarrow> ipv4_addr option \<Rightarrow> string" where
  "runtime_local_signal_endpoint endpoint listen_port detected_ipv4 =
    (case (if endpoint_prefers_runtime_local_ipv4 endpoint then detected_ipv4 else None) of
       Some ip \<Rightarrow> print_socket_addr (SockV4 ip listen_port)
     | None \<Rightarrow> endpoint_with_listen_port endpoint listen_port)"

definition cli_strip_cidr :: "string \<Rightarrow> string" where
  "cli_strip_cidr value = hd (split_char (CHR ''/'') value)"

definition runtime_signal_ipv4 :: "ipv4_addr option \<Rightarrow> string \<Rightarrow> ipv4_addr option" where
  "runtime_signal_ipv4 detected_ipv4 tunnel_ip =
    (case detected_ipv4 of
       None \<Rightarrow> None
     | Some ip \<Rightarrow> if Some ip \<noteq> parse_ipv4 (cli_strip_cidr tunnel_ip) then Some ip else None)"

definition local_signal_endpoint :: "ipv4_addr option \<Rightarrow> app_config \<Rightarrow> u16 \<Rightarrow> string" where
  "local_signal_endpoint detected_ipv4 app listen_port =
    runtime_local_signal_endpoint (nd_endpoint (ac_node app)) listen_port
      (runtime_signal_ipv4 detected_ipv4 (nd_tunnel_ip (ac_node app)))"

text \<open>A network interface, as the operating system lists it.\<close>

record network_interface =
  ni_is_up :: bool
  ni_is_loopback :: bool
  ni_is_tun :: bool
  ni_ipv4_addrs :: "ipv4_addr list"

definition interface_endpoints :: "network_interface list \<Rightarrow> u16 \<Rightarrow> string list" where
  "interface_endpoints interfaces listen_port =
    concat (map (\<lambda>interface.
        if \<not> ni_is_up interface \<or> ni_is_loopback interface \<or> ni_is_tun interface then []
        else map (\<lambda>ip. print_socket_addr (SockV4 ip listen_port))
          (filter (\<lambda>ip. \<not> (is_loopback ip \<or> ip = 0)) (ni_ipv4_addrs interface)))
      interfaces)"

definition push_unseen :: "'a \<Rightarrow> 'a list \<Rightarrow> 'a list" where
  "push_unseen x xs = (if x \<in> set xs then xs else xs @ [x])"

definition runtime_local_signal_endpoints ::
  "ipv4_addr option \<Rightarrow> network_interface list \<Rightarrow> app_config \<Rightarrow> u16 \<Rightarrow> string list" where
  "runtime_local_signal_endpoints detected_ipv4 interfaces app listen_port =
    fold push_unseen (interface_endpoints interfaces listen_port)
      [local_signal_endpoint detected_ipv4 app listen_port]"

section \<open>The public endpoint\<close>

record discovered_endpoint =
  dp_listen_port :: u16
  dp_endpoint :: string

definition discover_public_endpoint_with_bind_fallback ::
  "u16 \<Rightarrow> (u16 \<Rightarrow> string + string) \<Rightarrow> string + string" where
  "discover_public_endpoint_with_bind_fallback listen_port discover =
    (case discover listen_port of
       Inr endpoint \<Rightarrow> Inr endpoint
     | Inl error \<Rightarrow>
         if listen_port = 0 \<or> \<not> public_endpoint_discovery_bind_conflict error then Inl error
         else (case discover 0 of
             Inl error \<Rightarrow> Inl error
           | Inr endpoint \<Rightarrow> Inr (endpoint_with_listen_port endpoint listen_port)))"

text \<open>The loop over the reflectors: an endpoint, or whether one answered something invalid.\<close>

fun try_reflectors ::
  "(socket_addr \<Rightarrow> u16 \<Rightarrow> string + string) \<Rightarrow> u16 \<Rightarrow> bool \<Rightarrow> string list \<Rightarrow> bool \<Rightarrow> bool + string" where
  "try_reflectors probe listen_port has_existing [] saw_invalid = Inl saw_invalid"
| "try_reflectors probe listen_port has_existing (reflector # reflectors) saw_invalid =
    (case parse_socket_addr reflector of
       None \<Rightarrow> try_reflectors probe listen_port has_existing reflectors saw_invalid
     | Some addr \<Rightarrow>
         (case discover_public_endpoint_with_bind_fallback listen_port (probe addr) of
            Inr endpoint \<Rightarrow> Inr endpoint
          | Inl error \<Rightarrow> try_reflectors probe listen_port has_existing reflectors
              (saw_invalid \<or> has_existing \<and> starts_with ''invalid discovery response:'' error)))"

fun try_stun_servers :: "(string \<Rightarrow> u16 \<Rightarrow> string + string) \<Rightarrow> u16 \<Rightarrow> string list \<Rightarrow> string option" where
  "try_stun_servers probe listen_port [] = None"
| "try_stun_servers probe listen_port (server # servers) =
    (case discover_public_endpoint_with_bind_fallback listen_port (probe server) of
       Inr endpoint \<Rightarrow> Some endpoint
     | Inl _ \<Rightarrow> try_stun_servers probe listen_port servers)"

record discovery_env =
  de_reflector :: "socket_addr \<Rightarrow> u16 \<Rightarrow> string + string"
  de_stun :: "string \<Rightarrow> u16 \<Rightarrow> string + string"

definition discover_public_signal_endpoint ::
  "discovery_env \<Rightarrow> app_config \<Rightarrow> u16 \<Rightarrow> discovered_endpoint option \<Rightarrow> string option" where
  "discover_public_signal_endpoint D app listen_port existing =
    (if \<not> nat_enabled (ac_nat app) then None
     else (case try_reflectors (de_reflector D) listen_port (existing \<noteq> None) (nat_reflectors (ac_nat app)) False of
         Inr endpoint \<Rightarrow> Some endpoint
       | Inl saw_invalid \<Rightarrow>
           if existing \<noteq> None \<and> saw_invalid then None
           else try_stun_servers (de_stun D) listen_port (nat_stun_servers (ac_nat app))))"

definition fallback_public_signal_endpoint ::
  "discovered_endpoint option \<Rightarrow> u16 \<Rightarrow> discovered_endpoint option" where
  "fallback_public_signal_endpoint previous listen_port =
    (case previous of
       None \<Rightarrow> None
     | Some p \<Rightarrow>
         if dp_listen_port p \<noteq> listen_port then None
         else Some \<lparr>dp_listen_port = listen_port,
                    dp_endpoint = endpoint_with_listen_port (dp_endpoint p) listen_port\<rparr>)"

definition refresh_public_signal_endpoint ::
  "discovery_env \<Rightarrow> app_config \<Rightarrow> u16 \<Rightarrow> discovered_endpoint option \<Rightarrow> discovered_endpoint option" where
  "refresh_public_signal_endpoint D app listen_port previous =
    (case discover_public_signal_endpoint D app listen_port previous of
       Some endpoint \<Rightarrow> Some \<lparr>dp_listen_port = listen_port, dp_endpoint = endpoint\<rparr>
     | None \<Rightarrow> fallback_public_signal_endpoint previous listen_port)"

text \<open>The stored state gives the endpoint announced last and the listen port then, 0 when not stored.\<close>

definition restored_public_signal_endpoint_from_state ::
  "(string \<times> u16) option \<Rightarrow> u16 \<Rightarrow> discovered_endpoint option" where
  "restored_public_signal_endpoint_from_state state listen_port =
    (case state of
       None \<Rightarrow> None
     | Some (advertised_endpoint, state_listen_port) \<Rightarrow>
         (let endpoint = trim advertised_endpoint
          in if endpoint = [] \<or> daemon_endpoint_is_local_only endpoint then None
             else (let stored_listen_port = (if state_listen_port = 0 then listen_port else state_listen_port);
                       previous = \<lparr>dp_listen_port = stored_listen_port, dp_endpoint = endpoint\<rparr>
                   in if stored_listen_port = listen_port then Some previous
                      else fallback_public_signal_endpoint (Some previous) listen_port)))"

definition public_signal_endpoint_from_mapping :: "u16 \<Rightarrow> string \<Rightarrow> discovered_endpoint option" where
  "public_signal_endpoint_from_mapping listen_port endpoint =
    (if daemon_endpoint_is_local_only endpoint then None
     else Some \<lparr>dp_listen_port = listen_port, dp_endpoint = endpoint\<rparr>)"

definition sync_public_signal_endpoint_from_mapping_or_stun ::
  "discovery_env \<Rightarrow> app_config \<Rightarrow> u16 \<Rightarrow> string option \<Rightarrow> discovered_endpoint option \<Rightarrow> discovered_endpoint option" where
  "sync_public_signal_endpoint_from_mapping_or_stun D app listen_port mapped previous =
    (if \<not> nat_enabled (ac_nat app) then None
     else (case Option.bind mapped (public_signal_endpoint_from_mapping listen_port) of
         Some endpoint \<Rightarrow> Some endpoint
       | None \<Rightarrow> refresh_public_signal_endpoint D app listen_port previous))"

definition public_endpoint_for_listen_port :: "discovered_endpoint option \<Rightarrow> u16 \<Rightarrow> string option" where
  "public_endpoint_for_listen_port endpoint actual_listen_port =
    (case endpoint of
       None \<Rightarrow> None
     | Some e \<Rightarrow> if dp_listen_port e = actual_listen_port then Some (dp_endpoint e) else None)"

section \<open>The node's announcement\<close>

record relay_announcement_details =
  rd_relay_endpoint :: "string option"
  rd_relay_pubkey :: "string option"
  rd_relay_expires_at :: "u64 option"

definition build_explicit_peer_announcement_with_relay ::
  "u64 \<Rightarrow> string \<Rightarrow> string \<Rightarrow> string \<Rightarrow> string \<Rightarrow> string \<Rightarrow> string list \<Rightarrow> relay_announcement_details
    \<Rightarrow> peer_announcement" where
  "build_explicit_peer_announcement_with_relay now node_id public_key endpoint local_endpoint tunnel_ip
      advertised_routes relay =
    (let public_endpoint = (if endpoint_can_advertise_public_override endpoint local_endpoint
           then Some endpoint else None)
     in \<lparr>pa_node_id = node_id, pa_public_key = public_key,
         pa_endpoint = (if public_endpoint \<noteq> None then endpoint else local_endpoint),
         pa_local_endpoint = Some local_endpoint, pa_public_endpoint = public_endpoint,
         pa_relay_endpoint = rd_relay_endpoint relay, pa_relay_pubkey = rd_relay_pubkey relay,
         pa_relay_expires_at = rd_relay_expires_at relay, pa_tunnel_ip = tunnel_ip,
         pa_advertised_routes = advertised_routes, pa_timestamp = now\<rparr>)"

definition build_explicit_peer_announcement ::
  "u64 \<Rightarrow> string \<Rightarrow> string \<Rightarrow> string \<Rightarrow> string \<Rightarrow> string \<Rightarrow> string list \<Rightarrow> peer_announcement" where
  "build_explicit_peer_announcement now node_id public_key endpoint local_endpoint tunnel_ip advertised_routes =
    build_explicit_peer_announcement_with_relay now node_id public_key endpoint local_endpoint tunnel_ip
      advertised_routes \<lparr>rd_relay_endpoint = None, rd_relay_pubkey = None, rd_relay_expires_at = None\<rparr>"

definition or_blank :: "string option \<Rightarrow> string" where
  "or_blank v = (case v of None \<Rightarrow> [] | Some s \<Rightarrow> s)"

definition announcement_fingerprint :: "peer_announcement \<Rightarrow> string" where
  "announcement_fingerprint a = join ''|''
    [pa_node_id a, pa_public_key a, pa_endpoint a, or_blank (pa_local_endpoint a),
     or_blank (pa_public_endpoint a), or_blank (pa_relay_endpoint a), or_blank (pa_relay_pubkey a),
     dec (unat (unwrap_or_zero (pa_relay_expires_at a))), pa_tunnel_ip a, join '','' (pa_advertised_routes a)]"

text \<open>The book of what was last sent to each participant.\<close>

record outbound_announce_book =
  oa_fingerprints :: "(string, string) hmap"

definition announce_needs_send :: "outbound_announce_book \<Rightarrow> string \<Rightarrow> string \<Rightarrow> bool" where
  "announce_needs_send b participant fingerprint = (hm_get (oa_fingerprints b) participant \<noteq> Some fingerprint)"

definition announce_mark_sent :: "string \<Rightarrow> string \<Rightarrow> outbound_announce_book \<Rightarrow> outbound_announce_book" where
  "announce_mark_sent participant fingerprint b =
    b\<lparr>oa_fingerprints := hm_insert participant fingerprint (oa_fingerprints b)\<rparr>"

definition announce_forget :: "string \<Rightarrow> outbound_announce_book \<Rightarrow> outbound_announce_book" where
  "announce_forget participant b = b\<lparr>oa_fingerprints := hm_remove participant (oa_fingerprints b)\<rparr>"

definition announce_clear :: "outbound_announce_book \<Rightarrow> outbound_announce_book" where
  "announce_clear b = b\<lparr>oa_fingerprints := []\<rparr>"

definition announce_retain_participants :: "string set \<Rightarrow> outbound_announce_book \<Rightarrow> outbound_announce_book" where
  "announce_retain_participants participants b =
    b\<lparr>oa_fingerprints := hm_retain (\<lambda>p _. p \<in> participants) (oa_fingerprints b)\<rparr>"

section \<open>Facts\<close>

text \<open>
  After a restart on another listen port nothing is restored: the fallback asks for the port that
  the comparison before it has just excluded.
\<close>

lemma restored_only_same_port:
  "restored_public_signal_endpoint_from_state (Some (e, p)) listen_port = Some d \<Longrightarrow>
    (p = 0 \<or> p = listen_port) \<and> d = \<lparr>dp_listen_port = listen_port, dp_endpoint = trim e\<rparr>"
  by (auto simp: restored_public_signal_endpoint_from_state_def fallback_public_signal_endpoint_def Let_def
      split: if_splits)

lemma refreshed_port:
  "refresh_public_signal_endpoint D app listen_port previous = Some d \<Longrightarrow> dp_listen_port d = listen_port"
  by (auto simp: refresh_public_signal_endpoint_def fallback_public_signal_endpoint_def
      split: option.splits if_splits)

lemma nat_disabled_no_public:
  "\<not> nat_enabled (ac_nat app) \<Longrightarrow>
    sync_public_signal_endpoint_from_mapping_or_stun D app listen_port mapped previous = None"
  by (simp add: sync_public_signal_endpoint_from_mapping_or_stun_def)

end
