(* ===== verification/Config_Inv.thy ===== *)
theory Config_Inv
  imports Config
begin

text \<open>
  The invariants of a configuration and their proofs for \<open>ensure_defaults\<close>: networks with
  distinct ids, exactly one of them enabled, with normalised member lists; an exit node that is
  a member of the active network; and one alias for each member, all different.
\<close>

section \<open>Invariants\<close>

definition empty_or_key :: "key_env \<Rightarrow> string \<Rightarrow> bool" where
  "empty_or_key E k \<longleftrightarrow> k = [] \<or> normalize_nostr_pubkey E k = Some k"

definition network_ok :: "key_env \<Rightarrow> network_config \<Rightarrow> bool" where
  "network_ok E n \<longleftrightarrow>
    norm_keys E (nc_participants n) \<and> norm_keys E (nc_admins n)
    \<and> norm_inbound E [] (nc_inbound_join_requests n)
    \<and> empty_or_key E (nc_invite_inviter n) \<and> empty_or_key E (nc_shared_roster_signed_by n)
    \<and> (nc_shared_roster_signed_by n = [] \<longrightarrow> nc_shared_roster_updated_at n = 0)
    \<and> (case nc_outbound_join_request n of None \<Rightarrow> True
       | Some r \<Rightarrow> normalize_nostr_pubkey E (po_recipient r) = Some (po_recipient r))"

definition config_ok :: "key_env \<Rightarrow> app_config \<Rightarrow> bool" where
  "config_ok E c \<longleftrightarrow>
    length (filter nc_enabled (ac_networks c)) = 1
    \<and> distinct (map nc_id (ac_networks c))
    \<and> list_all (network_ok E) (ac_networks c)"

definition exit_ok :: "app_config \<Rightarrow> bool" where
  "exit_ok c \<longleftrightarrow> ac_exit_node c = [] \<or> ac_exit_node c \<in> set (active_network_signal_pubkeys_hex c)"

definition aliases_ok :: "key_env \<Rightarrow> app_config \<Rightarrow> bool" where
  "aliases_ok E c \<longleftrightarrow>
    hm_wf (ac_peer_aliases c)
    \<and> fst ` set (ac_peer_aliases c) = npub_for_pubkey_hex E ` set (all_network_member_pubkeys_hex c)
    \<and> distinct (map snd (ac_peer_aliases c))
    \<and> list_all (\<lambda>(_, l). dns_label l) (ac_peer_aliases c)
    \<and> (\<forall>l. preferred_self_magic_dns_label c = Some l \<longrightarrow> l \<notin> snd ` set (ac_peer_aliases c))"

lemma config_ok_ne: "config_ok E c \<Longrightarrow> ac_networks c \<noteq> []"
  by (auto simp: config_ok_def)

lemma active_index_less: "ns \<noteq> [] \<Longrightarrow> active_index ns < length ns"
  by (simp add: active_index_def Let_def)

lemma active_network_in: "ac_networks c \<noteq> [] \<Longrightarrow> active_network c \<in> set (ac_networks c)"
  by (simp add: active_network_def active_index_less)

lemma takeWhile_stops:
  "x \<in> set xs \<Longrightarrow> \<not> P x \<Longrightarrow>
    length (takeWhile P xs) < length xs \<and> \<not> P (xs ! length (takeWhile P xs))"
  by (induction xs) auto

text \<open>With one network enabled, the active network is that one.\<close>

lemma active_network_enabled:
  assumes "n \<in> set (ac_networks c)" "nc_enabled n"
  shows "nc_enabled (active_network c)"
  using assms takeWhile_stops [of n "ac_networks c" "\<lambda>n. \<not> nc_enabled n"]
  by (simp add: active_network_def active_index_def Let_def)

lemma config_ok_enabled: "config_ok E c \<Longrightarrow> nc_enabled (active_network c)"
proof -
  assume "config_ok E c"
  then have "filter nc_enabled (ac_networks c) \<noteq> []" by (auto simp: config_ok_def)
  then obtain n where "n \<in> set (ac_networks c)" "nc_enabled n" by (auto simp: filter_empty_conv)
  then show ?thesis by (rule active_network_enabled)
qed

lemma network_ok_enabled [simp]: "network_ok E (n\<lparr>nc_enabled := b\<rparr>) = network_ok E n"
  by (simp add: network_ok_def)

lemma network_ok_network_id [simp]: "network_ok E (n\<lparr>nc_network_id := i\<rparr>) = network_ok E n"
  by (simp add: network_ok_def)

lemma network_ok_name [simp]: "network_ok E (n\<lparr>nc_name := i\<rparr>) = network_ok E n"
  by (simp add: network_ok_def)

lemma network_ok_new [simp]: "network_ok E (new_network i name b)"
  by (simp add: network_ok_def new_network_def norm_inbound_def empty_or_key_def)

section \<open>The networks of \<open>ensure_defaults\<close>\<close>

lemma norm_inbound_weaken: "norm_inbound E ps rs \<Longrightarrow> norm_inbound E [] rs"
  by (auto simp: norm_inbound_def list_all_iff)

lemma or_empty_key: "key_laws E \<Longrightarrow> empty_or_key E (or_empty (normalize_nostr_pubkey E s))"
  by (auto simp: empty_or_key_def or_empty_def intro: normalize_fixed split: option.splits)

lemma normalize_outbound_ok:
  "key_laws E \<Longrightarrow> case normalize_outbound_join_request E r of None \<Rightarrow> True
    | Some r \<Rightarrow> normalize_nostr_pubkey E (po_recipient r) = Some (po_recipient r)"
  by (cases r) (auto simp: normalize_outbound_join_request_def map_option_case intro: normalize_fixed
      split: option.splits)

definition own_ok :: "key_env \<Rightarrow> string option \<Rightarrow> bool" where
  "own_ok E own \<longleftrightarrow> (\<forall>k. own = Some k \<longrightarrow> normalize_nostr_pubkey E k = Some k)"

lemma keys_parse_fixed:
  "key_laws E \<Longrightarrow> keys_parse E s = Some (h, u) \<Longrightarrow> normalize_nostr_pubkey E h = Some h"
  by (simp add: key_laws_def normalize_nostr_pubkey_def)

lemma own_nostr_ok: "key_laws E \<Longrightarrow> own_ok E (own_nostr_pubkey_hex E c)"
  by (auto simp: own_ok_def own_nostr_pubkey_hex_def intro: normalize_fixed keys_parse_fixed
      split: option.splits)

lemma ensure_network_spec:
  assumes "key_laws E" "own_ok E own"
  shows "network_ok E (fst (ensure_network E own k used n))"
    and "nc_id (fst (ensure_network E own k used n)) \<notin> set used"
    and "set (snd (ensure_network E own k used n))
      = insert (nc_id (fst (ensure_network E own k used n))) (set used)"
    and "nc_enabled (fst (ensure_network E own k used n)) = nc_enabled n"
    and "norm_inbound E (nc_participants (fst (ensure_network E own k used n)))
      (nc_inbound_join_requests (fst (ensure_network E own k used n)))"
    and "own \<noteq> None \<Longrightarrow> nc_admins (fst (ensure_network E own k used n)) \<noteq> []"
proof -
  define id1 where "id1 = (if trim (nc_id n) = [] then default_network_entry_id k
      else normalize_network_entry_id (nc_id n) k)"
  obtain i u where iu: "(if id1 \<notin> set used then (id1, id1 # used)
      else uniquify_network_entry_id id1 used) = (i, u)" by (metis surj_pair)
  have i: "i \<notin> set used" "set u = insert i (set used)"
    using iu entry_ids.uniquify_fresh [where used = used and base = id1] entry_ids.uniquify_used [where used = used and base = id1]
    by (auto split: if_splits)
  have admins: "norm_keys E (normalize_network_admins E (nc_admins n) own v)" for v
    by (rule normalize_admins_norm [OF assms(1)]) (use assms(2) in \<open>simp add: own_ok_def\<close>)
  have unfold: "ensure_network E own k used n =
    (fst (ensure_network E own k used n), u)" "nc_id (fst (ensure_network E own k used n)) = i"
    using iu by (simp_all add: ensure_network_def Let_def id1_def [symmetric])
  show "nc_id (fst (ensure_network E own k used n)) \<notin> set used"
    "set (snd (ensure_network E own k used n)) = insert (nc_id (fst (ensure_network E own k used n))) (set used)"
    using unfold i by (metis snd_conv)+
  show "network_ok E (fst (ensure_network E own k used n))"
    using iu assms(1) admins
    by (simp add: ensure_network_def Let_def id1_def [symmetric] network_ok_def norm_keys_map_filter
        or_empty_key normalize_outbound_ok norm_inbound_weaken [OF normalize_inbound_norm])
  show "nc_enabled (fst (ensure_network E own k used n)) = nc_enabled n"
    using iu by (simp add: ensure_network_def Let_def id1_def [symmetric])
  show "norm_inbound E (nc_participants (fst (ensure_network E own k used n)))
      (nc_inbound_join_requests (fst (ensure_network E own k used n)))"
    using iu assms(1) by (simp add: ensure_network_def Let_def id1_def [symmetric] normalize_inbound_norm)
  show "nc_admins (fst (ensure_network E own k used n)) \<noteq> []" if "own \<noteq> None"
    using iu that by (simp add: ensure_network_def Let_def id1_def [symmetric] normalize_admins_empty)
qed

text \<open>The properties a network keeps when its enabled flag and its mesh id change.\<close>

definition ensured :: "key_env \<Rightarrow> string option \<Rightarrow> network_config \<Rightarrow> bool" where
  "ensured E own n \<longleftrightarrow> network_ok E n \<and> norm_inbound E (nc_participants n) (nc_inbound_join_requests n)
    \<and> (own \<noteq> None \<longrightarrow> nc_admins n \<noteq> [])"

lemma ensure_networks_spec:
  assumes "key_laws E" "own_ok E own"
  shows "list_all (ensured E own) (ensure_networks E own k used ns)
    \<and> distinct (map nc_id (ensure_networks E own k used ns))
    \<and> nc_id ` set (ensure_networks E own k used ns) \<inter> set used = {}
    \<and> length (ensure_networks E own k used ns) = length ns"
proof (induction ns arbitrary: k used)
  case (Cons n ns)
  obtain n' u where nu: "ensure_network E own k used n = (n', u)" by (metis surj_pair)
  note sp = ensure_network_spec [OF assms, where k = k and used = used and n = n, unfolded nu fst_conv snd_conv]
  from Cons.IH [of "Suc k" u] sp nu show ?case by (auto simp: ensured_def)
qed simp

lemma disable_later_count:
  "length (filter nc_enabled (disable_later found ns)) =
    (if found then 0 else min 1 (length (filter nc_enabled ns)))"
  by (induction found ns rule: disable_later.induct) auto

lemma disable_later_list:
  "map nc_id (disable_later found ns) = map nc_id ns
    \<and> (list_all P ns \<longrightarrow> (\<forall>n b. P n \<longrightarrow> P (n\<lparr>nc_enabled := b\<rparr>)) \<longrightarrow> list_all P (disable_later found ns))"
  by (induction found ns rule: disable_later.induct) auto

lemma enable_first_count:
  "ns \<noteq> [] \<Longrightarrow> length (filter nc_enabled ns) \<le> 1 \<Longrightarrow> length (filter nc_enabled (enable_first ns)) = 1"
  by (cases ns) (auto simp: enable_first_def list_ex_iff filter_empty_conv le_Suc_eq)

lemma enable_first_list:
  "map nc_id (enable_first ns) = map nc_id ns
    \<and> (list_all P ns \<longrightarrow> (\<forall>n b. P n \<longrightarrow> P (n\<lparr>nc_enabled := b\<rparr>)) \<longrightarrow> list_all P (enable_first ns))"
  by (auto simp: enable_first_def split: list.split)

lemma derive_id_fields [simp]:
  "nc_id (derive_default_network_id E own n) = nc_id n"
  "nc_enabled (derive_default_network_id E own n) = nc_enabled n"
  "nc_participants (derive_default_network_id E own n) = nc_participants n"
  "nc_admins (derive_default_network_id E own n) = nc_admins n"
  "network_ok E (derive_default_network_id E own n) = network_ok E n"
  by (simp_all add: derive_default_network_id_def split: option.split)

lemma ensured_derive: "ensured E own n \<Longrightarrow> ensured E own (derive_default_network_id E own' n)"
  by (auto simp: ensured_def derive_default_network_id_def split: option.split)

lemma ensured_enabled: "ensured E own n \<Longrightarrow> ensured E own (n\<lparr>nc_enabled := b\<rparr>)"
  by (simp add: ensured_def)

lemma single_active_networks:
  fixes own' :: "string option"
  assumes "ns \<noteq> []" "list_all (ensured E own) ns" "distinct (map nc_id ns)"
  defines "ns' \<equiv> map (derive_default_network_id E own') (enable_first (disable_later False ns))"
  shows "length (filter nc_enabled ns') = 1" "distinct (map nc_id ns')" "list_all (ensured E own) ns'"
proof -
  have ne: "disable_later False ns \<noteq> []" using assms(1) by (cases ns) auto
  show "length (filter nc_enabled ns') = 1"
    using enable_first_count [OF ne] disable_later_count [of False ns]
    by (simp add: ns'_def filter_map comp_def)
  have "map nc_id ns' = map nc_id ns"
    using enable_first_list [of "disable_later False ns"] disable_later_list [of False ns]
    by (simp add: ns'_def comp_def)
  then show "distinct (map nc_id ns')" using assms(3) by simp
  have "list_all (ensured E own) (enable_first (disable_later False ns))"
    using enable_first_list [of "disable_later False ns" "ensured E own"]
      disable_later_list [of False ns "ensured E own"] assms(2) ensured_enabled by blast
  then show "list_all (ensured E own) ns'"
    by (auto simp: ns'_def list_all_iff ensured_derive)
qed

section \<open>Aliases\<close>

lemma take_chars_ascii: "list_all (\<lambda>c. byte c < 128) s \<Longrightarrow> take_chars n s = take n s"
  by (induction n s rule: take_chars.induct) (auto simp: is_continuation_def split: nat.split)

lemma peer_label_dns:
  assumes "hex_key h"
  shows "dns_label (''peer-'' @ take_chars 12 h)"
proof -
  have hex: "is_ascii_alphanumeric c \<and> \<not> is_ascii_upper c \<and> c \<noteq> CHR ''-'' \<and> byte c < 128"
    if "c \<in> set h" for c
    using that assms by (auto simp: hex_key_def list_all_iff is_ascii_alphanumeric_def is_ascii_lower_def
        is_ascii_digit_def is_ascii_upper_def byte_def)
  have take: "take_chars 12 h = take 12 h"
    using hex by (intro take_chars_ascii) (simp add: list_all_iff)
  let ?t = "take 12 h"
  have t: "is_ascii_alphanumeric c \<and> \<not> is_ascii_upper c \<and> c \<noteq> CHR ''-''" if "c \<in> set ?t" for c
    using hex in_set_takeD [OF that] by blast
  have ne: "?t \<noteq> []" using assms by (auto simp: hex_key_def)
  have nodash: "CHR ''-'' \<notin> set ?t" using t by blast
  have succ: "successively (\<lambda>a b. \<not> (a = CHR ''-'' \<and> b = CHR ''-'')) xs" if "CHR ''-'' \<notin> set xs" for xs
    using that by (induction xs rule: induct_list012) auto
  have peer: "label_body ''peer-''" by code_simp
  have body: "label_body ?t"
    unfolding label_body_def using t succ [OF nodash] by (simp add: list_all_iff)
  have "hd ?t \<noteq> CHR ''-''" "last ?t \<noteq> CHR ''-''"
    using ne nodash hd_in_set last_in_set by metis+
  moreover have "label_body (''peer-'' @ ?t)"
    using peer body \<open>hd ?t \<noteq> CHR ''-''\<close>
    unfolding label_body_def successively_append_iff by simp
  moreover have "length (''peer-'' @ ?t) \<le> 63" by simp
  ultimately show ?thesis
    using ne by (simp add: take dns_label_def)
qed

lemma default_label_dns: "hex_key h \<Longrightarrow> dns_label (default_magic_dns_label_for_pubkey sha h used)"
  using default_label_cases [of used sha h] peer_label_dns [of h] by (simp split: if_splits)

lemma uniquify_label_dns: "dns_label b \<Longrightarrow> dns_label (fst (uniquify_magic_dns_label b used))"
  using label_candidate_dns [of b] label_loop_Some [of b used 2]
  by (auto simp: uniquify_magic_dns_label_def Let_def dns_label_def [of "[]"] split: option.splits)

text \<open>The state of the loop: wanted labels, used labels, aliases given so far.\<close>

definition alias_state ::
  "string set \<Rightarrow> (string, string) hmap \<times> string list \<times> (string, string) hmap \<Rightarrow> bool" where
  "alias_state reserved acc = (case acc of (normalized, used, final) \<Rightarrow>
    list_all (\<lambda>(_, l). dns_label l) normalized \<and> list_all (\<lambda>(_, l). dns_label l) final
    \<and> hm_wf final \<and> distinct (map snd final)
    \<and> reserved \<subseteq> set used \<and> snd ` set final \<subseteq> set used \<and> reserved \<inter> snd ` set final = {})"

lemma hm_insert_new: "\<not> hm_contains m k \<Longrightarrow> hm_insert k v m = m @ [(k, v)]"
  by (induction m) (auto simp: hm_insert_def hm_contains_def split: if_splits)

lemma assign_alias_state:
  assumes st: "alias_state R (nm, used, fin)" and room: "label_room (Suc n) used"
    and new: "npub_for_pubkey_hex E p \<notin> fst ` set fin" and hex: "hex_key p"
  obtains nm' used' l where "assign_alias E p (nm, used, fin) = (nm', used', fin @ [(npub_for_pubkey_hex E p, l)])"
    and "alias_state R (nm', used', fin @ [(npub_for_pubkey_hex E p, l)])" and "label_room n used'"
proof -
  define preferred where "preferred = (case hm_get nm (npub_for_pubkey_hex E p) of
             Some alias \<Rightarrow> alias
           | None \<Rightarrow> default_magic_dns_label_for_pubkey (sha256 E) p used)"
  define l where "l = fst (uniquify_magic_dns_label preferred used)"
  have used': "snd (uniquify_magic_dns_label preferred used) = l # used" and fresh: "l \<notin> set used"
    using uniquify_label_fresh [OF room, of preferred] by (simp_all add: l_def)
  have "dns_label preferred"
    using st default_label_dns [OF hex]
    by (auto simp: preferred_def alias_state_def list_all_iff dest: hm_get_in split: option.split)
  then have dns: "dns_label l" unfolding l_def by (rule uniquify_label_dns)
  have pair: "uniquify_magic_dns_label preferred used = (l, l # used)"
    using used' by (metis l_def prod.collapse)
  have eq: "assign_alias E p (nm, used, fin)
      = (hm_remove (npub_for_pubkey_hex E p) nm, l # used, fin @ [(npub_for_pubkey_hex E p, l)])"
    using new pair
    by (simp add: assign_alias_def preferred_def [symmetric] Let_def hm_insert_new hm_contains_iff_in)
  have "alias_state R (hm_remove (npub_for_pubkey_hex E p) nm, l # used, fin @ [(npub_for_pubkey_hex E p, l)])"
    using st new dns fresh
    by (auto simp: alias_state_def list_all_iff hm_set_remove hm_wf_def)
  moreover have "label_room n (l # used)"
    using room fresh by (simp add: label_room_def)
  ultimately show ?thesis using that eq by blast
qed

lemma fold_assign_alias:
  assumes "alias_state R (nm, used, fin)" "label_room (length ps) used"
    and "distinct (map (npub_for_pubkey_hex E) ps)"
    and "npub_for_pubkey_hex E ` set ps \<inter> fst ` set fin = {}" and "\<forall>p \<in> set ps. hex_key p"
  shows "\<exists>nm' used' fin'. fold (assign_alias E) ps (nm, used, fin) = (nm', used', fin')
    \<and> alias_state R (nm', used', fin')
    \<and> map fst fin' = map fst fin @ map (npub_for_pubkey_hex E) ps"
  using assms
proof (induction ps arbitrary: nm used fin)
  case (Cons p ps)
  have "npub_for_pubkey_hex E p \<notin> fst ` set fin" "hex_key p" using Cons.prems(4,5) by auto
  from assign_alias_state [OF Cons.prems(1) Cons.prems(2) [unfolded length_Cons] this]
  obtain nm1 used1 l where step: "assign_alias E p (nm, used, fin)
      = (nm1, used1, fin @ [(npub_for_pubkey_hex E p, l)])"
    "alias_state R (nm1, used1, fin @ [(npub_for_pubkey_hex E p, l)])" "label_room (length ps) used1"
    by blast
  have dis: "distinct (map (npub_for_pubkey_hex E) ps)"
    "npub_for_pubkey_hex E ` set ps \<inter> fst ` set (fin @ [(npub_for_pubkey_hex E p, l)]) = {}"
    "\<forall>p \<in> set ps. hex_key p"
    using Cons.prems(3-5) by auto
  from Cons.IH [OF step(2,3) dis] step(1) show ?case by (auto simp del: alias_state_def)
qed simp

lemma normalized_aliases_dns: "list_all (\<lambda>(_, l). dns_label l) (normalized_aliases E al)"
proof -
  have "hm_wf acc \<and> list_all (\<lambda>(_, l). dns_label l) acc \<Longrightarrow>
    hm_wf (fold (\<lambda>(participant, alias) acc.
      (case (normalize_npub_key E participant, normalize_magic_dns_label alias) of
         (Some participant_npub, Some label) \<Rightarrow> hm_insert participant_npub label acc
       | _ \<Rightarrow> acc)) al acc)
    \<and> list_all (\<lambda>(_, l). dns_label l) (fold (\<lambda>(participant, alias) acc.
      (case (normalize_npub_key E participant, normalize_magic_dns_label alias) of
         (Some participant_npub, Some label) \<Rightarrow> hm_insert participant_npub label acc
       | _ \<Rightarrow> acc)) al acc)" for acc
  proof (induction al arbitrary: acc)
    case (Cons a al)
    show ?case
      unfolding fold_Cons o_apply
      by (rule Cons.IH)
        (use Cons.prems in \<open>auto simp: hm_wf_insert hm_set_insert list_all_iff
            intro: normalize_label_dns split: option.splits prod.splits\<close>)
  qed simp
  from this [of "[]"] show ?thesis by (simp add: normalized_aliases_def)
qed

lemma members_hex:
  assumes "key_laws E" "list_all (network_ok E) (ac_networks c)" "m \<in> set (all_network_member_pubkeys_hex c)"
  shows "normalize_nostr_pubkey E m = Some m" and "hex_key m"
proof -
  show m: "normalize_nostr_pubkey E m = Some m"
    using assms(2,3)
    by (fastforce simp: all_network_member_pubkeys_hex_def list_all_iff network_ok_def norm_keys_def)
  show "hex_key m" by (rule normalize_hex [OF assms(1) m])
qed

lemma normalize_peer_aliases_fields:
  "ac_networks (normalize_peer_aliases E c) = ac_networks c"
  "ac_exit_node (normalize_peer_aliases E c) = ac_exit_node c"
  "ac_nostr (normalize_peer_aliases E c) = ac_nostr c"
  "ac_node_name (normalize_peer_aliases E c) = ac_node_name c"
  "ac_node (normalize_peer_aliases E c) = ac_node c"
  by (simp_all add: normalize_peer_aliases_def Let_def split_def)

lemma normalize_peer_aliases_ok:
  assumes "key_laws E" "list_all (network_ok E) (ac_networks c)"
    and "length (all_network_member_pubkeys_hex c) < 9998"
  shows "aliases_ok E (normalize_peer_aliases E c)"
proof -
  define used where "used = (case preferred_self_magic_dns_label c of Some alias \<Rightarrow> [alias] | None \<Rightarrow> [])"
  let ?ms = "all_network_member_pubkeys_hex c"
  note mem = members_hex [OF assms(1,2)]
  have "inj_on (npub_for_pubkey_hex E) (set ?ms)"
    by (rule inj_onI) (metis npub_inj [OF assms(1)] mem(1))
  moreover have "distinct ?ms"
    using sorted_unique_sort_dedup unfolding all_network_member_pubkeys_hex_def sorted_unique_def by blast
  ultimately have dis: "distinct (map (npub_for_pubkey_hex E) ?ms)" by (simp add: distinct_map)
  have st: "alias_state (set used) (normalized_aliases E (ac_peer_aliases c), used, [])"
    using normalized_aliases_dns by (simp add: alias_state_def)
  have room: "label_room (length ?ms) used"
    using assms(3) by (cases "preferred_self_magic_dns_label c") (simp_all add: label_room_def used_def)
  obtain nm' used' fin' where fold: "fold (assign_alias E) ?ms (normalized_aliases E (ac_peer_aliases c), used, [])
      = (nm', used', fin')" and st': "alias_state (set used) (nm', used', fin')"
    and keys: "map fst fin' = map (npub_for_pubkey_hex E) ?ms"
    using fold_assign_alias [OF st room dis] mem(2) by auto
  have al: "ac_peer_aliases (normalize_peer_aliases E c) = fin'"
    using fold by (simp add: normalize_peer_aliases_def used_def [symmetric])
  have "fst ` set fin' = npub_for_pubkey_hex E ` set ?ms"
    using arg_cong [OF keys, of set] by simp
  moreover have "all_network_member_pubkeys_hex (normalize_peer_aliases E c) = ?ms"
    by (simp add: all_network_member_pubkeys_hex_def normalize_peer_aliases_fields)
  moreover have "l \<notin> snd ` set fin'"
    if "preferred_self_magic_dns_label (normalize_peer_aliases E c) = Some l" for l
  proof -
    have "set used = {l}"
      using that by (simp add: used_def preferred_self_magic_dns_label_def normalize_peer_aliases_fields)
    then show ?thesis using st' by (auto simp only: alias_state_def prod.case)
  qed
  ultimately show ?thesis
    using st' by (simp add: aliases_ok_def al alias_state_def)
qed

section \<open>The normal form\<close>

lemma normalize_exit_fields [simp]:
  "ac_networks (normalize_selected_exit_node c) = ac_networks c"
  "ac_nostr (normalize_selected_exit_node c) = ac_nostr c"
  "ac_node_name (normalize_selected_exit_node c) = ac_node_name c"
  "ac_node (normalize_selected_exit_node c) = ac_node c"
  "ac_peer_aliases (normalize_selected_exit_node c) = ac_peer_aliases c"
  by (simp_all add: normalize_selected_exit_node_def)

lemma active_network_cong: "ac_networks c = ac_networks d \<Longrightarrow> active_network c = active_network d"
  by (simp add: active_network_def)

lemma signal_pubkeys_cong:
  "ac_networks c = ac_networks d \<Longrightarrow>
    active_network_signal_pubkeys_hex c = active_network_signal_pubkeys_hex d"
  by (simp add: active_network_signal_pubkeys_hex_def active_network_cong [of c d])

lemma normalize_exit_ok: "exit_ok (normalize_selected_exit_node c)"
  using signal_pubkeys_cong [of "normalize_selected_exit_node c" c]
  by (auto simp: exit_ok_def normalize_selected_exit_node_def)

lemma normalize_exit_sub:
  "ac_exit_node (normalize_selected_exit_node c) = [] \<or>
   ac_exit_node (normalize_selected_exit_node c) = ac_exit_node c"
  by (simp add: normalize_selected_exit_node_def)

lemma exit_ok_aliases [simp]: "exit_ok (normalize_peer_aliases E c) = exit_ok c"
  using signal_pubkeys_cong [of "normalize_peer_aliases E c" c]
  by (simp add: exit_ok_def normalize_peer_aliases_fields)

lemma config_ok_cong: "ac_networks c = ac_networks d \<Longrightarrow> config_ok E c = config_ok E d"
  by (simp add: config_ok_def)

lemma config_ok_normalized [simp]:
  "config_ok E (normalize_peer_aliases E' c) = config_ok E c"
  "config_ok E (normalize_selected_exit_node c) = config_ok E c"
  by (rule config_ok_cong, simp add: normalize_peer_aliases_fields)+

lemma own_cong: "ac_nostr c = ac_nostr d \<Longrightarrow> own_nostr_pubkey_hex E c = own_nostr_pubkey_hex E d"
  by (simp add: own_nostr_pubkey_hex_def split: option.split)

lemma own_keys_cong:
  "no_public_key (ac_nostr c) = no_public_key (ac_nostr d) \<Longrightarrow>
    no_secret_key (ac_nostr c) = no_secret_key (ac_nostr d) \<Longrightarrow>
    own_nostr_pubkey_hex E c = own_nostr_pubkey_hex E d"
  by (simp add: own_nostr_pubkey_hex_def split: option.split)

text \<open>The keys generated for a fresh identity are understood by the key library.\<close>

definition host_laws :: "key_env \<Rightarrow> host_env \<Rightarrow> bool" where
  "host_laws E H \<longleftrightarrow> keys_parse E (fst (h_identity H)) \<noteq> None
    \<and> normalize_nostr_pubkey E (snd (h_identity H)) \<noteq> None"

lemma ensure_identity_own:
  assumes "host_laws E H"
  shows "own_nostr_pubkey_hex E (ensure_nostr_identity E H c) \<noteq> None"
  using assms
  by (auto simp: ensure_nostr_identity_def Let_def own_nostr_pubkey_hex_def host_laws_def
      split: option.splits)

text \<open>The steps of \<open>ensure_defaults\<close> up to the loop over the networks.\<close>

definition ensure_prefix :: "key_env \<Rightarrow> host_env \<Rightarrow> app_config \<Rightarrow> app_config" where
  "ensure_prefix E H c0 =
    (let c1 = (ensure_nostr_identity E H c0)\<lparr>ac_auto_disconnect_relays_when_mesh_ready := False\<rparr>;
         c2 = ensure_node_name E H c1;
         c3 = c2\<lparr>ac_magic_dns_suffix := normalize_magic_dns_suffix (ac_magic_dns_suffix c2)\<rparr>;
         c4 = (if no_relays (ac_nostr c3) = []
               then c3\<lparr>ac_nostr := (ac_nostr c3)\<lparr>no_relays := default_relays\<rparr>\<rparr> else c3);
         c5 = c4\<lparr>ac_node := ensure_node H (ac_node c4)\<rparr>;
         c6 = ensure_exit_node E c5
     in if ac_networks c6 = []
        then c6\<lparr>ac_networks := [new_network (default_network_entry_id 1) (default_network_name 1) True]\<rparr>
        else c6)"

lemma ensure_prefix_facts:
  fixes E :: key_env and H :: host_env and c0 :: app_config
  defines "c \<equiv> ensure_prefix E H c0"
  defines "own \<equiv> own_nostr_pubkey_hex E (ensure_nostr_identity E H c0)"
  shows "ac_networks c \<noteq> []" and "own_nostr_pubkey_hex E c = own"
    and "own \<noteq> None \<Longrightarrow> ac_exit_node c \<noteq> [] \<Longrightarrow> Some (ac_exit_node c) \<noteq> own"
    and "no_relays (ac_nostr c) \<noteq> []" and "nd_listen_port (ac_node c) \<noteq> 0"
    and "\<forall>r \<in> set (nd_advertised_routes (ac_node c)). \<not> is_exit_node_route r"
proof -
  define c2 where "c2 = ensure_node_name E H ((ensure_nostr_identity E H c0)
    \<lparr>ac_auto_disconnect_relays_when_mesh_ready := False\<rparr>)"
  define c3 where "c3 = c2\<lparr>ac_magic_dns_suffix := normalize_magic_dns_suffix (ac_magic_dns_suffix c2)\<rparr>"
  define c4 where "c4 = (if no_relays (ac_nostr c3) = []
               then c3\<lparr>ac_nostr := (ac_nostr c3)\<lparr>no_relays := default_relays\<rparr>\<rparr> else c3)"
  define c5 where "c5 = c4\<lparr>ac_node := ensure_node H (ac_node c4)\<rparr>"
  define c6 where "c6 = ensure_exit_node E c5"
  have c: "c = (if ac_networks c6 = []
        then c6\<lparr>ac_networks := [new_network (default_network_entry_id 1) (default_network_name 1) True]\<rparr>
        else c6)"
    by (simp only: c_def ensure_prefix_def Let_def c2_def c3_def c4_def c5_def c6_def)
  show "ac_networks c \<noteq> []" by (simp add: c)
  have "ac_nostr c2 = ac_nostr (ensure_nostr_identity E H c0)"
    by (simp add: c2_def ensure_node_name_def Let_def)
  then have "own_nostr_pubkey_hex E c2 = own" unfolding own_def by (rule own_cong)
  moreover have "own_nostr_pubkey_hex E c4 = own_nostr_pubkey_hex E c2"
    by (rule own_keys_cong) (simp_all add: c4_def c3_def)
  moreover have nostr: "ac_nostr c5 = ac_nostr c4" "ac_nostr c = ac_nostr c4" "ac_node c = ac_node c5"
    "ac_exit_node c = ac_exit_node c6"
    by (simp_all add: c c6_def ensure_exit_node_def c5_def Let_def)
  ultimately have own: "own_nostr_pubkey_hex E c5 = own" and "own_nostr_pubkey_hex E c = own"
    using own_cong by metis+
  then show "own_nostr_pubkey_hex E c = own" by simp
  show "Some (ac_exit_node c) \<noteq> own" if "own \<noteq> None" "ac_exit_node c \<noteq> []"
    using that by (auto simp: nostr(4) c6_def ensure_exit_node_def own Let_def split: if_splits)
  show "no_relays (ac_nostr c) \<noteq> []"
    by (simp add: nostr c4_def default_relays_def DEFAULT_RELAYS_def)
  show "nd_listen_port (ac_node c) \<noteq> 0"
    and "\<forall>r \<in> set (nd_advertised_routes (ac_node c)). \<not> is_exit_node_route r"
    by (simp_all add: nostr c5_def ensure_node_def Let_def default_listen_port_def)
qed

lemma ensure_defaults_prefix:
  "ensure_defaults E H c0 =
    (let c7 = ensure_prefix E H c0;
         own = own_nostr_pubkey_hex E (ensure_nostr_identity E H c0);
         c8 = c7\<lparr>ac_networks := ensure_networks E own 1 [] (ac_networks c7)\<rparr>
     in normalize_peer_aliases E (normalize_selected_exit_node
          (derive_default_network_ids E (ensure_single_active_network c8))))"
proof -
  have "own_nostr_pubkey_hex E ((ensure_nostr_identity E H c0)\<lparr>ac_auto_disconnect_relays_when_mesh_ready := False\<rparr>)
      = own_nostr_pubkey_hex E (ensure_nostr_identity E H c0)"
    by (rule own_cong) simp
  then show ?thesis by (simp only: ensure_defaults_def ensure_prefix_def Let_def)
qed

lemma ensure_defaults_facts:
  fixes E :: key_env and H :: host_env and c0 :: app_config
  assumes "key_laws E"
  defines "c \<equiv> ensure_defaults E H c0"
  defines "own \<equiv> own_nostr_pubkey_hex E (ensure_nostr_identity E H c0)"
  shows "config_ok E c" and "exit_ok c" and "own_nostr_pubkey_hex E c = own"
    and "list_all (ensured E own) (ac_networks c)"
    and "length (all_network_member_pubkeys_hex c) < 9998 \<Longrightarrow> aliases_ok E c"
    and "own \<noteq> None \<Longrightarrow> ac_exit_node c \<noteq> [] \<Longrightarrow> Some (ac_exit_node c) \<noteq> own"
    and "ac_node c = ac_node (ensure_prefix E H c0)" and "ac_nostr c = ac_nostr (ensure_prefix E H c0)"
proof -
  define c7 where "c7 = ensure_prefix E H c0"
  define ns where "ns = ensure_networks E own 1 [] (ac_networks c7)"
  define c10 where "c10 = derive_default_network_ids E (ensure_single_active_network (c7\<lparr>ac_networks := ns\<rparr>))"
  note pre = ensure_prefix_facts [where E = E and H = H and ?c0.0 = c0, folded c7_def own_def]
  have c: "c = normalize_peer_aliases E (normalize_selected_exit_node c10)"
    by (simp add: c_def ensure_defaults_prefix Let_def c10_def ns_def c7_def own_def)
  have own_ok: "own_ok E own" unfolding own_def by (rule own_nostr_ok [OF assms(1)])
  note sp = ensure_networks_spec [OF assms(1) own_ok, of 1 "[]" "ac_networks c7", folded ns_def]
  have ne: "ns \<noteq> []" using sp pre(1) by auto
  have nets: "ac_networks c10 = map (derive_default_network_id E (own_nostr_pubkey_hex E c10))
      (enable_first (disable_later False ns))"
  proof -
    have "own_nostr_pubkey_hex E c10 = own_nostr_pubkey_hex E (ensure_single_active_network (c7\<lparr>ac_networks := ns\<rparr>))"
      by (rule own_cong) (simp add: c10_def derive_default_network_ids_def)
    then show ?thesis
      by (simp add: c10_def derive_default_network_ids_def [of E "ensure_single_active_network _"])
        (simp add: ensure_single_active_network_def)
  qed
  note single = single_active_networks [OF ne, of E own "own_nostr_pubkey_hex E c10", folded nets]
  have ens: "list_all (ensured E own) (ac_networks c10)" using single(3) sp by blast
  have ok10: "config_ok E c10"
    using single(1,2) sp ens by (auto simp: config_ok_def list_all_iff ensured_def)
  have nets_c: "ac_networks c = ac_networks c10" by (simp add: c normalize_peer_aliases_fields)
  show "config_ok E c" using ok10 by (simp add: c)
  show "exit_ok c" by (simp add: c normalize_exit_ok)
  show "list_all (ensured E own) (ac_networks c)" using ens by (simp add: nets_c)
  have nostr: "ac_nostr c = ac_nostr c7" "ac_node c = ac_node c7"
    by (simp_all add: c normalize_peer_aliases_fields c10_def derive_default_network_ids_def
        ensure_single_active_network_def)
  then show "own_nostr_pubkey_hex E c = own" using pre(2) own_cong by metis
  show "ac_node c = ac_node (ensure_prefix E H c0)" "ac_nostr c = ac_nostr (ensure_prefix E H c0)"
    using nostr by (simp_all add: c7_def)
  show "aliases_ok E c" if "length (all_network_member_pubkeys_hex c) < 9998"
    unfolding c
  proof (rule normalize_peer_aliases_ok [OF assms(1)])
    show "list_all (network_ok E) (ac_networks (normalize_selected_exit_node c10))"
      using ok10 by (simp add: config_ok_def)
    show "length (all_network_member_pubkeys_hex (normalize_selected_exit_node c10)) < 9998"
      using that by (simp add: all_network_member_pubkeys_hex_def nets_c)
  qed
  have "ac_exit_node c10 = ac_exit_node c7"
    by (simp add: c10_def derive_default_network_ids_def ensure_single_active_network_def)
  then have "ac_exit_node c = [] \<or> ac_exit_node c = ac_exit_node c7"
    using normalize_exit_sub [of c10] by (simp add: c normalize_peer_aliases_fields)
  then show "Some (ac_exit_node c) \<noteq> own" if "own \<noteq> None" "ac_exit_node c \<noteq> []"
    using that pre(3) by metis
qed

text \<open>
  C6. \<open>ensure_defaults\<close> brings any configuration, however malformed, into normal form: exactly
  one network is enabled, the entry ids are distinct, every network's participants and admins
  are sorted, distinct, normalised keys, its pending join requests are sorted and come from
  non-participants, the exit node is empty or a member of the active network other than the
  node itself, a relay and a port are set, and the advertised routes hold no exit route. With
  a key library that understands fresh identities, the node has a key and every network an
  admin.
\<close>

theorem ensure_defaults_normal_form:
  fixes E :: key_env and H :: host_env and c0 :: app_config
  assumes "key_laws E"
  defines "c \<equiv> ensure_defaults E H c0"
  shows "enabled_network_count c = 1
    \<and> distinct (map nc_id (ac_networks c))
    \<and> (\<forall>n \<in> set (ac_networks c). norm_keys E (nc_participants n) \<and> norm_keys E (nc_admins n)
        \<and> norm_inbound E (nc_participants n) (nc_inbound_join_requests n))
    \<and> (ac_exit_node c = [] \<or> ac_exit_node c \<in> set (active_network_signal_pubkeys_hex c)
        \<and> (own_nostr_pubkey_hex E c \<noteq> None \<longrightarrow> own_nostr_pubkey_hex E c \<noteq> Some (ac_exit_node c)))
    \<and> no_relays (ac_nostr c) \<noteq> [] \<and> nd_listen_port (ac_node c) \<noteq> 0
    \<and> (\<forall>r \<in> set (nd_advertised_routes (ac_node c)). \<not> is_exit_node_route r)
    \<and> (host_laws E H \<longrightarrow> own_nostr_pubkey_hex E c \<noteq> None \<and> (\<forall>n \<in> set (ac_networks c). nc_admins n \<noteq> []))"
proof -
  note facts = ensure_defaults_facts [OF assms(1), where H = H and ?c0.0 = c0, folded c_def]
  note pre = ensure_prefix_facts [where E = E and H = H and ?c0.0 = c0]
  have ok: "list_all (network_ok E) (ac_networks c)" "enabled_network_count c = 1"
    "distinct (map nc_id (ac_networks c))"
    using facts(1) by (simp_all add: config_ok_def enabled_network_count_def)
  have "ac_exit_node c = [] \<or> ac_exit_node c \<in> set (active_network_signal_pubkeys_hex c)
        \<and> (own_nostr_pubkey_hex E c \<noteq> None \<longrightarrow> own_nostr_pubkey_hex E c \<noteq> Some (ac_exit_node c))"
    using facts(2,3,6) unfolding exit_ok_def by metis
  moreover have "no_relays (ac_nostr c) \<noteq> []" "nd_listen_port (ac_node c) \<noteq> 0"
    "\<forall>r \<in> set (nd_advertised_routes (ac_node c)). \<not> is_exit_node_route r"
    unfolding facts(7,8) by (fact pre(4) pre(5) pre(6))+
  moreover have "own_nostr_pubkey_hex E c \<noteq> None \<and> (\<forall>n \<in> set (ac_networks c). nc_admins n \<noteq> [])"
    if "host_laws E H"
    using facts(3,4) ensure_identity_own [OF that, of c0] by (simp add: ensured_def list_all_iff)
  ultimately show ?thesis
    using ok facts(4) by (auto simp: list_all_iff network_ok_def ensured_def)
qed

definition sample_host :: host_env where
  "sample_host =
    \<lparr>h_identity = (''aa11'', ''npub1aa11''), h_keypair = (''priv'', ''pub''), h_node_id = ''node-1'',
     h_hostname = Some ''Alice-Laptop.local'', h_now = 1000, h_primary_ipv4 = None\<rparr>"

text \<open>A configuration with two enabled networks, equal ids, and an unsorted member list.\<close>

definition sample_messy :: app_config where
  "sample_messy = (app_config_raw sample_host)
    \<lparr>ac_networks :=
       [(new_network ''home'' ''Home'' True)\<lparr>nc_participants := [''npub1cc33'', ''bb22'', ''junk!'', ''bb22'']\<rparr>,
        (new_network ''Home'' '' Lab '' True)\<lparr>nc_participants := [''dd44'']\<rparr>],
     ac_exit_node := ''npub1cc33''\<rparr>"

lemma ensure_defaults_normal_form_witness:
  "enabled_network_count (ensure_defaults sample_keys sample_host sample_messy) = 1
   \<and> (let c = ensure_defaults sample_keys sample_host sample_messy
      in (map nc_id (ac_networks c), map nc_participants (ac_networks c), ac_exit_node c))
     = ([''home'', ''home-2''], [[''bb22'', ''cc33''], [''dd44'']], ''cc33'')"
proof
  show "enabled_network_count (ensure_defaults sample_keys sample_host sample_messy) = 1"
    by (rule ensure_defaults_normal_form [OF sample_keys_laws, THEN conjunct1])
qed code_simp

text \<open>
  C8. After normalising the aliases of a configuration with fewer than 9998 members, every
  member of any network has exactly one alias, under the key's \<open>npub\<close> form; there are no
  others; all aliases are DNS labels, pairwise different, and different from the label of the
  node itself, so that a MagicDNS name never has two owners.
\<close>

theorem member_aliases_unique:
  assumes "key_laws E" and "\<forall>n \<in> set (ac_networks c). network_ok E n"
    and "length (all_network_member_pubkeys_hex c) < 9998"
  defines "aliases \<equiv> ac_peer_aliases (normalize_peer_aliases E c)"
  shows "distinct (map fst aliases)
    \<and> fst ` set aliases = npub_for_pubkey_hex E ` set (all_network_member_pubkeys_hex c)
    \<and> distinct (map snd aliases)
    \<and> (\<forall>(k, l) \<in> set aliases. dns_label l \<and> normalize_magic_dns_label (ac_node_name c) \<noteq> Some l)"
proof -
  have "list_all (network_ok E) (ac_networks c)" using assms(2) by (simp add: list_all_iff)
  from normalize_peer_aliases_ok [OF assms(1) this assms(3)]
  have ok: "hm_wf aliases" "distinct (map snd aliases)" "list_all (\<lambda>(_, l). dns_label l) aliases"
    "fst ` set aliases = npub_for_pubkey_hex E ` set (all_network_member_pubkeys_hex (normalize_peer_aliases E c))"
    "\<And>l. normalize_magic_dns_label (ac_node_name (normalize_peer_aliases E c)) = Some l \<Longrightarrow> l \<notin> snd ` set aliases"
    by (simp_all add: aliases_ok_def aliases_def preferred_self_magic_dns_label_def)
  have "all_network_member_pubkeys_hex (normalize_peer_aliases E c) = all_network_member_pubkeys_hex c"
    by (simp add: all_network_member_pubkeys_hex_def normalize_peer_aliases_fields)
  moreover have "dns_label l \<and> normalize_magic_dns_label (ac_node_name c) \<noteq> Some l"
    if "(k, l) \<in> set aliases" for k l
  proof -
    have "l \<in> snd ` set aliases" using that by force
    then show ?thesis using that ok(3,5) by (auto simp: list_all_iff normalize_peer_aliases_fields)
  qed
  ultimately show ?thesis using ok(1,2,4) by (auto simp: hm_wf_def)
qed

definition sample_config :: app_config where
  "sample_config = (app_config_raw sample_host)
    \<lparr>ac_networks := [(new_network ''home'' ''Home'' True)
       \<lparr>nc_participants := [''bb22'', ''cc33''], nc_admins := [''aa11'', ''bb22'']\<rparr>]\<rparr>"

lemma sample_config_ok: "config_ok sample_keys sample_config"
  by code_simp

lemma member_aliases_unique_witness:
  "distinct (map snd (ac_peer_aliases (normalize_peer_aliases sample_keys sample_config)))"
proof -
  have "\<forall>n \<in> set (ac_networks sample_config). network_ok sample_keys n"
    using sample_config_ok by (simp add: config_ok_def list_all_iff)
  moreover have "length (all_network_member_pubkeys_hex sample_config) < 9998" by code_simp
  ultimately show ?thesis
    by (rule member_aliases_unique [OF sample_keys_laws, THEN conjunct2, THEN conjunct2, THEN conjunct1])
qed

end
