(* ===== verification/Config_Ops.thy ===== *)
theory Config_Ops
  imports Config_Inv
begin

text \<open>
  \<open>crates/nostr-vpn-core/src/config.rs\<close>, second part: the operations on a configuration. An
  operation returns its \<open>Result\<close> and the configuration it leaves, also where it fails.
\<close>

section \<open>Results\<close>

datatype config_error =
    InvalidPubkey
  | NetworkNotFound
  | NetworkNameEmpty
  | OneNetworkRequired
  | OneActiveNetworkRequired
  | NetworkIdEmpty
  | LastAdmin
  | RosterInFuture
  | RosterWithoutAdmin
  | ParticipantNotConfigured
  | InvalidAlias
  | AliasNotPersisted

type_synonym 'a outcome = "(config_error + 'a) \<times> app_config"

text \<open>The \<open>?\<close> operator between statements.\<close>

definition and_then :: "'a outcome \<Rightarrow> ('a \<Rightarrow> app_config \<Rightarrow> 'b outcome) \<Rightarrow> 'b outcome" where
  "and_then r k = (case r of (Inl e, c) \<Rightarrow> (Inl e, c) | (Inr v, c) \<Rightarrow> k v c)"

lemma and_then_simps [simp]:
  "and_then (Inl e, c) k = (Inl e, c)" "and_then (Inr v, c) k = k v c"
  by (simp_all add: and_then_def)

section \<open>Local changes of a roster\<close>

definition MAX_SHARED_ROSTER_FUTURE_SECS :: u64 where
  "MAX_SHARED_ROSTER_FUTURE_SECS = 600"

definition next_shared_roster_updated_at :: "u64 \<Rightarrow> u64 \<Rightarrow> u64" where
  "next_shared_roster_updated_at now previous = max now (saturating_add previous 1)"

definition note_network_roster_local_change ::
  "key_env \<Rightarrow> u64 \<Rightarrow> string \<Rightarrow> app_config \<Rightarrow> unit outcome" where
  "note_network_roster_local_change E now network_id c =
    (case network_by_id c network_id of
       None \<Rightarrow> (Inl NetworkNotFound, c)
     | Some network \<Rightarrow>
         (case own_nostr_pubkey_hex E c of
            None \<Rightarrow> (Inr (), c)
          | Some own_pubkey \<Rightarrow>
              if own_pubkey \<notin> set (nc_admins network) then (Inr (), c)
              else (Inr (), update_network network_id
                (\<lambda>n. n\<lparr>nc_shared_roster_updated_at :=
                         next_shared_roster_updated_at now (nc_shared_roster_updated_at n),
                       nc_shared_roster_signed_by := own_pubkey\<rparr>) c)))"

definition note_active_network_roster_local_change ::
  "key_env \<Rightarrow> u64 \<Rightarrow> app_config \<Rightarrow> unit outcome" where
  "note_active_network_roster_local_change E now c =
    note_network_roster_local_change E now (nc_id (active_network c)) c"

section \<open>Networks\<close>

definition add_network :: "key_env \<Rightarrow> u64 \<Rightarrow> string \<Rightarrow> app_config \<Rightarrow> string \<times> app_config" where
  "add_network E now name0 c =
    (let ordinal = length (ac_networks c) + 1;
         entry_id = fst (uniquify_network_entry_id (default_network_entry_id ordinal)
                     (map nc_id (ac_networks c)));
         name = (if trim name0 = [] then default_network_name ordinal else trim name0);
         c1 = c\<lparr>ac_networks := ac_networks c @ [new_network entry_id name False]\<rparr>
     in (entry_id, snd (note_network_roster_local_change E now entry_id c1)))"

definition rename_network :: "key_env \<Rightarrow> u64 \<Rightarrow> string \<Rightarrow> string \<Rightarrow> app_config \<Rightarrow> unit outcome" where
  "rename_network E now network_id name c =
    (let normalized = trim name
     in if normalized = [] then (Inl NetworkNameEmpty, c)
        else if network_by_id c network_id = None then (Inl NetworkNotFound, c)
        else note_network_roster_local_change E now network_id
               (update_network network_id (\<lambda>n. n\<lparr>nc_name := normalized\<rparr>) c))"

definition remove_network :: "key_env \<Rightarrow> string \<Rightarrow> app_config \<Rightarrow> unit outcome" where
  "remove_network E network_id c =
    (if length (ac_networks c) \<le> 1 then (Inl OneNetworkRequired, c)
     else (let rest = filter (\<lambda>n. nc_id n \<noteq> network_id) (ac_networks c);
               c1 = c\<lparr>ac_networks := rest\<rparr>
           in if length rest = length (ac_networks c) then (Inl NetworkNotFound, c1)
              else (Inr (), normalize_peer_aliases E (normalize_selected_exit_node
                      (c1\<lparr>ac_networks := enable_first rest\<rparr>)))))"

definition network_position :: "string \<Rightarrow> network_config list \<Rightarrow> nat option" where
  "network_position network_id ns =
    (let i = length (takeWhile (\<lambda>n. nc_id n \<noteq> network_id) ns) in if i < length ns then Some i else None)"

definition set_network_enabled :: "string \<Rightarrow> bool \<Rightarrow> app_config \<Rightarrow> unit outcome" where
  "set_network_enabled network_id enabled c =
    (case network_position network_id (ac_networks c) of
       None \<Rightarrow> (Inl NetworkNotFound, c)
     | Some index \<Rightarrow>
         if enabled
         then (Inr (), c\<lparr>ac_networks := map (\<lambda>(i, n). n\<lparr>nc_enabled := (i = index)\<rparr>)
                 (enumerate 0 (ac_networks c))\<rparr>)
         else if nc_enabled (ac_networks c ! index) then (Inl OneActiveNetworkRequired, c)
         else (Inr (), c\<lparr>ac_networks := (ac_networks c)
                 [index := (ac_networks c ! index)\<lparr>nc_enabled := False\<rparr>]\<rparr>))"

definition set_network_join_requests_enabled :: "string \<Rightarrow> bool \<Rightarrow> app_config \<Rightarrow> unit outcome" where
  "set_network_join_requests_enabled network_id enabled c =
    (if network_by_id c network_id = None then (Inl NetworkNotFound, c)
     else (Inr (), update_network network_id (\<lambda>n. n\<lparr>nc_listen_for_join_requests := enabled\<rparr>) c))"

definition set_network_mesh_id :: "string \<Rightarrow> string \<Rightarrow> app_config \<Rightarrow> unit outcome" where
  "set_network_mesh_id network_id mesh_id c =
    (let normalized = normalize_runtime_network_id mesh_id
     in if normalized = [] then (Inl NetworkIdEmpty, c)
        else if network_by_id c network_id = None then (Inl NetworkNotFound, c)
        else (Inr (), update_network network_id (\<lambda>n. n\<lparr>nc_network_id := normalized\<rparr>) c))"

definition set_active_network_id :: "string \<Rightarrow> app_config \<Rightarrow> unit outcome" where
  "set_active_network_id network_id c = set_network_mesh_id (nc_id (active_network c)) network_id c"

section \<open>Join requests\<close>

text \<open>The request list of a network with a request recorded, and whether it changed.\<close>

definition record_request ::
  "string \<Rightarrow> string \<Rightarrow> u64 \<Rightarrow> pending_inbound_join_request list
    \<Rightarrow> bool \<times> pending_inbound_join_request list" where
  "record_request requester node_name requested_at requests =
    (case find (\<lambda>r. pi_requester r = requester) requests of
       Some existing \<Rightarrow>
         if pi_requested_at existing < requested_at \<or> pi_requester_node_name existing \<noteq> node_name
         then (True, update_first (\<lambda>r. pi_requester r = requester)
                (\<lambda>r. r\<lparr>pi_requested_at := max (pi_requested_at r) requested_at,
                       pi_requester_node_name := node_name\<rparr>) requests)
         else (False, requests)
     | None \<Rightarrow>
         (True, sort_key pi_requester (requests @
            [\<lparr>pi_requester = requester, pi_requester_node_name = node_name,
              pi_requested_at = requested_at\<rparr>])))"

definition record_inbound_join_request ::
  "key_env \<Rightarrow> string \<Rightarrow> string \<Rightarrow> string \<Rightarrow> u64 \<Rightarrow> app_config \<Rightarrow> string option outcome" where
  "record_inbound_join_request E network_id0 requester0 node_name requested_at c =
    (let network_id = normalize_runtime_network_id network_id0
     in if network_id = [] then (Inr None, c)
        else (case normalize_nostr_pubkey E requester0 of
            None \<Rightarrow> (Inl InvalidPubkey, c)
          | Some requester \<Rightarrow>
              (let wanted = (\<lambda>n. nc_listen_for_join_requests n
                     \<and> normalize_runtime_network_id (nc_network_id n) = network_id)
               in case find wanted (ac_networks c) of
                    None \<Rightarrow> (Inr None, c)
                  | Some network \<Rightarrow>
                      if requester \<in> set (nc_participants network) then (Inr None, c)
                      else (case record_request requester (trim node_name) requested_at
                                   (nc_inbound_join_requests network) of
                          (changed, requests) \<Rightarrow>
                            (Inr (if changed then Some (nc_name network) else None),
                             c\<lparr>ac_networks := update_first wanted
                                 (\<lambda>n. n\<lparr>nc_inbound_join_requests := requests\<rparr>) (ac_networks c)\<rparr>)))))"

section \<open>Members and admins\<close>

definition normalize_after :: "key_env \<Rightarrow> app_config \<Rightarrow> app_config" where
  "normalize_after E c = normalize_peer_aliases E (normalize_selected_exit_node c)"

definition add_participant_to_network ::
  "key_env \<Rightarrow> u64 \<Rightarrow> string \<Rightarrow> string \<Rightarrow> app_config \<Rightarrow> string outcome" where
  "add_participant_to_network E now network_id participant c =
    (case normalize_nostr_pubkey E participant of
       None \<Rightarrow> (Inl InvalidPubkey, c)
     | Some normalized \<Rightarrow>
         if network_by_id c network_id = None then (Inl NetworkNotFound, c)
         else and_then (note_network_roster_local_change E now network_id
                 (update_network network_id (\<lambda>n.
                    if normalized \<in> set (nc_participants n) then n
                    else n\<lparr>nc_participants := sort_dedup (nc_participants n @ [normalized])\<rparr>) c))
               (\<lambda>_ c1. (Inr normalized, normalize_after E c1)))"

text \<open>The inviter of a network after the key \<open>k\<close> has left its admins.\<close>

definition replace_inviter :: "string \<Rightarrow> network_config \<Rightarrow> network_config" where
  "replace_inviter k n =
    (if nc_invite_inviter n = k
     then n\<lparr>nc_invite_inviter := (case nc_admins n of [] \<Rightarrow> [] | a # _ \<Rightarrow> a)\<rparr> else n)"

definition remove_participant_from_network ::
  "key_env \<Rightarrow> u64 \<Rightarrow> string \<Rightarrow> string \<Rightarrow> app_config \<Rightarrow> unit outcome" where
  "remove_participant_from_network E now network_id participant c =
    (case normalize_nostr_pubkey E participant of
       None \<Rightarrow> (Inl InvalidPubkey, c)
     | Some normalized \<Rightarrow>
         (case network_by_id c network_id of
            None \<Rightarrow> (Inl NetworkNotFound, c)
          | Some network \<Rightarrow>
              if length (nc_admins network) = 1 \<and> normalized \<in> set (nc_admins network)
              then (Inl LastAdmin, c)
              else and_then (note_network_roster_local_change E now network_id
                      (update_network network_id (\<lambda>n. replace_inviter normalized
                         (n\<lparr>nc_participants := filter (\<lambda>p. p \<noteq> normalized) (nc_participants n),
                            nc_admins := filter (\<lambda>p. p \<noteq> normalized) (nc_admins n)\<rparr>)) c))
                    (\<lambda>_ c1. (Inr (), normalize_after E c1))))"

definition add_admin_to_network ::
  "key_env \<Rightarrow> u64 \<Rightarrow> string \<Rightarrow> string \<Rightarrow> app_config \<Rightarrow> string outcome" where
  "add_admin_to_network E now network_id admin c =
    (case normalize_nostr_pubkey E admin of
       None \<Rightarrow> (Inl InvalidPubkey, c)
     | Some normalized \<Rightarrow>
         if network_by_id c network_id = None then (Inl NetworkNotFound, c)
         else and_then (note_network_roster_local_change E now network_id
                 (update_network network_id (\<lambda>n.
                    let n1 = (if normalized \<in> set (nc_admins n) then n
                              else n\<lparr>nc_admins := sort_dedup (nc_admins n @ [normalized])\<rparr>)
                    in if nc_invite_inviter n1 = [] then n1\<lparr>nc_invite_inviter := normalized\<rparr> else n1) c))
               (\<lambda>_ c1. (Inr normalized, normalize_selected_exit_node c1)))"

definition remove_admin_from_network ::
  "key_env \<Rightarrow> u64 \<Rightarrow> string \<Rightarrow> string \<Rightarrow> app_config \<Rightarrow> unit outcome" where
  "remove_admin_from_network E now network_id admin c =
    (case normalize_nostr_pubkey E admin of
       None \<Rightarrow> (Inl InvalidPubkey, c)
     | Some normalized \<Rightarrow>
         (case network_by_id c network_id of
            None \<Rightarrow> (Inl NetworkNotFound, c)
          | Some network \<Rightarrow>
              if normalized \<notin> set (nc_admins network) then (Inr (), c)
              else if length (nc_admins network) \<le> 1 then (Inl LastAdmin, c)
              else and_then (note_network_roster_local_change E now network_id
                      (update_network network_id (\<lambda>n. replace_inviter normalized
                         (n\<lparr>nc_admins := filter (\<lambda>p. p \<noteq> normalized) (nc_admins n)\<rparr>)) c))
                    (\<lambda>_ c1. (Inr (), normalize_selected_exit_node c1))))"

definition network_admin_pubkeys_hex :: "app_config \<Rightarrow> string \<Rightarrow> config_error + string list" where
  "network_admin_pubkeys_hex c network_id =
    (case network_by_id c network_id of
       None \<Rightarrow> Inl NetworkNotFound | Some n \<Rightarrow> Inr (sort_dedup (nc_admins n)))"

definition network_signal_pubkeys_hex :: "app_config \<Rightarrow> string \<Rightarrow> config_error + string list" where
  "network_signal_pubkeys_hex c network_id =
    (case network_by_id c network_id of
       None \<Rightarrow> Inl NetworkNotFound | Some n \<Rightarrow> Inr (sort_dedup (nc_participants n @ nc_admins n)))"

definition is_network_admin :: "key_env \<Rightarrow> app_config \<Rightarrow> string \<Rightarrow> string \<Rightarrow> bool" where
  "is_network_admin E c network_id pubkey =
    (case normalize_nostr_pubkey E pubkey of
       None \<Rightarrow> False
     | Some normalized \<Rightarrow>
         (case network_by_id c network_id of None \<Rightarrow> False | Some n \<Rightarrow> normalized \<in> set (nc_admins n)))"

section \<open>Aliases and names\<close>

definition self_magic_dns_label :: "app_config \<Rightarrow> string option" where
  "self_magic_dns_label c =
    (case preferred_self_magic_dns_label c of
       None \<Rightarrow> None
     | Some preferred \<Rightarrow> Some (fst (uniquify_magic_dns_label preferred (map snd (ac_peer_aliases c)))))"

definition with_suffix :: "app_config \<Rightarrow> string \<Rightarrow> string" where
  "with_suffix c alias =
    (if ac_magic_dns_suffix c = [] then alias else alias @ ''.'' @ ac_magic_dns_suffix c)"

definition self_magic_dns_name :: "app_config \<Rightarrow> string option" where
  "self_magic_dns_name c = map_option (with_suffix c) (self_magic_dns_label c)"

definition peer_alias :: "key_env \<Rightarrow> app_config \<Rightarrow> string \<Rightarrow> string option" where
  "peer_alias E c participant =
    (case normalize_nostr_pubkey E participant of
       None \<Rightarrow> None
     | Some participant_hex \<Rightarrow> hm_get (ac_peer_aliases c) (npub_for_pubkey_hex E participant_hex))"

definition magic_dns_name_for_participant :: "key_env \<Rightarrow> app_config \<Rightarrow> string \<Rightarrow> string option" where
  "magic_dns_name_for_participant E c participant =
    map_option (with_suffix c) (peer_alias E c participant)"

definition set_peer_alias ::
  "key_env \<Rightarrow> u64 \<Rightarrow> string \<Rightarrow> string \<Rightarrow> app_config \<Rightarrow> string outcome" where
  "set_peer_alias E now participant alias0 c =
    (case normalize_nostr_pubkey E participant of
       None \<Rightarrow> (Inl InvalidPubkey, c)
     | Some member \<Rightarrow>
         (let affected = map nc_id (filter (\<lambda>n. member \<in> set (nc_participants n) \<or> member \<in> set (nc_admins n))
                (ac_networks c));
              finish = (\<lambda>c1. let c2 = fold (\<lambda>network_id c. snd (note_network_roster_local_change E now network_id c))
                    affected (normalize_peer_aliases E c1)
                in (case hm_get (ac_peer_aliases c2) (npub_for_pubkey_hex E member) of
                      Some alias \<Rightarrow> (Inr alias, c2) | None \<Rightarrow> (Inl AliasNotPersisted, c2)))
          in if member \<notin> set (all_network_member_pubkeys_hex c) then (Inl ParticipantNotConfigured, c)
             else if trim alias0 = []
             then finish (c\<lparr>ac_peer_aliases := hm_remove (npub_for_pubkey_hex E member) (ac_peer_aliases c)\<rparr>)
             else (case normalize_magic_dns_label (trim alias0) of
                 None \<Rightarrow> (Inl InvalidAlias, c)
               | Some alias \<Rightarrow>
                   finish (c\<lparr>ac_peer_aliases :=
                     hm_insert (npub_for_pubkey_hex E member) alias (ac_peer_aliases c)\<rparr>))))"

text \<open>\<open>lower\<close> stands for Unicode lower-casing.\<close>

definition resolve_magic_dns_query ::
  "key_env \<Rightarrow> (string \<Rightarrow> string) \<Rightarrow> app_config \<Rightarrow> string \<Rightarrow> string option" where
  "resolve_magic_dns_query E lower c query0 =
    (let query = lower (trim_end_matches (CHR ''.'') (trim query0));
         own_match = (case own_nostr_pubkey_hex E c of
             Some own \<Rightarrow>
               if self_magic_dns_label c = Some query \<or> self_magic_dns_name c = Some query
               then Some own else None
           | None \<Rightarrow> None);
         matches = (\<lambda>participant.
           (case hm_get (ac_peer_aliases c) (npub_for_pubkey_hex E participant) of
              None \<Rightarrow> False
            | Some alias \<Rightarrow> query = alias
                \<or> (ac_magic_dns_suffix c \<noteq> [] \<and> query = alias @ ''.'' @ ac_magic_dns_suffix c)))
     in if query = [] then None
        else (case own_match of
            Some own \<Rightarrow> Some own
          | None \<Rightarrow> find matches (participant_pubkeys_hex c)))"

section \<open>Operations keep the invariant\<close>

lemma list_ids_enabled:
  assumes "map nc_id ns' = map nc_id ns" "map nc_enabled ns' = map nc_enabled ns"
    and "list_all (network_ok E) ns'"
  shows "config_ok E (c\<lparr>ac_networks := ns\<rparr>) \<Longrightarrow> config_ok E (c\<lparr>ac_networks := ns'\<rparr>)"
proof -
  have "length (filter nc_enabled xs) = length (filter id (map nc_enabled xs))" for xs
    by (simp add: filter_map)
  then have "length (filter nc_enabled ns') = length (filter nc_enabled ns)"
    using assms(2) by metis
  with assms show "config_ok E (c\<lparr>ac_networks := ns\<rparr>) \<Longrightarrow> config_ok E (c\<lparr>ac_networks := ns'\<rparr>)"
    by (simp add: config_ok_def)
qed

text \<open>A mutation of the first match that keeps id, flag and well-formedness keeps the invariant.\<close>

lemma config_ok_update_first:
  assumes "config_ok E c"
    and "\<And>n. P n \<Longrightarrow> network_ok E n \<Longrightarrow>
      network_ok E (f n) \<and> nc_id (f n) = nc_id n \<and> nc_enabled (f n) = nc_enabled n"
  shows "config_ok E (c\<lparr>ac_networks := update_first P f (ac_networks c)\<rparr>)"
proof -
  have all: "list_all (network_ok E) (ac_networks c)" using assms(1) by (simp add: config_ok_def)
  have "list_all (network_ok E) ns \<Longrightarrow> list_all (network_ok E) (update_first P f ns)
      \<and> map nc_id (update_first P f ns) = map nc_id ns
      \<and> map nc_enabled (update_first P f ns) = map nc_enabled ns" for ns
    by (induction ns) (auto simp: assms(2))
  from this [OF all] show ?thesis
    using list_ids_enabled [of "update_first P f (ac_networks c)" "ac_networks c" E c] assms(1) by simp
qed

lemma config_ok_update_network:
  "config_ok E c \<Longrightarrow>
    (\<And>n. network_ok E n \<Longrightarrow> network_ok E (f n) \<and> nc_id (f n) = nc_id n \<and> nc_enabled (f n) = nc_enabled n) \<Longrightarrow>
    config_ok E (update_network i f c)"
  unfolding update_network_def by (rule config_ok_update_first)

lemma note_change_ok:
  "key_laws E \<Longrightarrow> config_ok E c \<Longrightarrow> config_ok E (snd (note_network_roster_local_change E now i c))"
  using own_nostr_ok [of E c]
  by (auto simp: note_network_roster_local_change_def own_ok_def
      intro!: config_ok_update_network split: option.split)
    (auto simp: network_ok_def empty_or_key_def dest: normalize_nonempty)

lemma note_change_Inr:
  "network_by_id c i \<noteq> None \<Longrightarrow> fst (note_network_roster_local_change E now i c) = Inr ()"
  by (auto simp: note_network_roster_local_change_def split: option.split)

lemma network_by_id_update:
  "(\<And>n. nc_id (f n) = nc_id n) \<Longrightarrow> network_by_id (update_network i f c) j = None \<longleftrightarrow> network_by_id c j = None"
proof -
  assume f: "\<And>n. nc_id (f n) = nc_id n"
  have "find (\<lambda>n. nc_id n = j) (update_first P f ns) = None \<longleftrightarrow> find (\<lambda>n. nc_id n = j) ns = None" for ns P
    by (induction ns) (auto simp: f)
  then show ?thesis by (simp add: network_by_id_def update_network_def)
qed

lemma add_network_ok:
  assumes "key_laws E" "config_ok E c"
  shows "config_ok E (snd (add_network E now name c))"
proof -
  define i where "i = fst (uniquify_network_entry_id (default_network_entry_id (length (ac_networks c) + 1))
      (map nc_id (ac_networks c)))"
  have fresh: "i \<notin> nc_id ` set (ac_networks c)"
    using entry_ids.uniquify_fresh [where used = "map nc_id (ac_networks c)"] by (simp add: i_def)
  have "config_ok E (c\<lparr>ac_networks := ac_networks c @ [new_network i nm False]\<rparr>)" for nm
    using assms(2) fresh by (auto simp: config_ok_def new_network_def [of i nm False, THEN arg_cong [of _ _ nc_id]]
        new_network_def)
      (simp add: network_ok_new [unfolded new_network_def])
  then show ?thesis
    using assms(1) by (simp add: add_network_def Let_def i_def [simplified, symmetric] note_change_ok)
qed

lemma rename_network_ok:
  "key_laws E \<Longrightarrow> config_ok E c \<Longrightarrow> config_ok E (snd (rename_network E now i name c))"
  by (auto simp: rename_network_def Let_def intro!: note_change_ok config_ok_update_network)

lemma filter_filter_length: "length (filter P (filter Q xs)) \<le> length (filter P xs)"
  by (induction xs) auto

lemma enable_first_ok:
  assumes "ns \<noteq> []" "list_all (network_ok E) ns" "distinct (map nc_id ns)"
    "length (filter nc_enabled ns) \<le> 1"
  shows "config_ok E (c\<lparr>ac_networks := enable_first ns\<rparr>)"
  using enable_first_count [OF assms(1,4)] enable_first_list [of ns "network_ok E"] assms(2,3)
  by (simp add: config_ok_def)

lemma remove_network_ok:
  assumes "config_ok E c"
  shows "config_ok E (snd (remove_network E i c))"
proof -
  define rest where "rest = filter (\<lambda>n. nc_id n \<noteq> i) (ac_networks c)"
  have all: "list_all (network_ok E) rest" "distinct (map nc_id rest)"
    using assms by (auto simp: rest_def config_ok_def list_all_iff distinct_map_filter)
  have cnt: "length (filter nc_enabled rest) \<le> 1"
    using assms filter_filter_length [of nc_enabled _ "ac_networks c"] by (auto simp: rest_def config_ok_def)
  have ne: "rest \<noteq> []" if "\<not> length (ac_networks c) \<le> 1"
  proof
    assume "rest = []"
    then have "nc_id ` set (ac_networks c) \<subseteq> {i}" by (auto simp: rest_def filter_empty_conv)
    then have "card (nc_id ` set (ac_networks c)) \<le> 1" by (metis card_mono card.empty card.insert
          finite.emptyI finite.insertI empty_iff One_nat_def)
    moreover have "card (set (map nc_id (ac_networks c))) = length (map nc_id (ac_networks c))"
      by (rule distinct_card) (use assms in \<open>simp add: config_ok_def\<close>)
    ultimately show False using that by simp
  qed
  show ?thesis
  proof (cases "length rest = length (ac_networks c)")
    case True
    then have "rest = ac_networks c"
      unfolding rest_def by (metis filter_id_conv length_filter_less nat_less_le)
    then show ?thesis using assms by (simp add: remove_network_def Let_def rest_def [symmetric])
  next
    case False
    then show ?thesis
      using assms enable_first_ok [OF ne all cnt, of c]
      by (simp add: remove_network_def Let_def rest_def [symmetric])
  qed
qed

lemma enumerate_enabled:
  "length (filter nc_enabled (map (\<lambda>(i, n). n\<lparr>nc_enabled := (i = index)\<rparr>) (enumerate k ns)))
    = (if k \<le> index \<and> index < k + length ns then 1 else 0)"
proof (induction ns arbitrary: k)
  case (Cons n ns)
  from Cons.IH [of "Suc k"] show ?case by (cases "k = index") (simp_all del: map_map)
qed simp

lemma enumerate_kept:
  "map nc_id (map (\<lambda>(i, n). n\<lparr>nc_enabled := (i = index)\<rparr>) (enumerate k ns)) = map nc_id ns
   \<and> (list_all (network_ok E) ns \<longrightarrow>
      list_all (network_ok E) (map (\<lambda>(i, n). n\<lparr>nc_enabled := (i = index)\<rparr>) (enumerate k ns)))"
  by (induction ns arbitrary: k) auto

lemma network_position_Some:
  "network_position i ns = Some k \<Longrightarrow> k < length ns \<and> nc_id (ns ! k) = i"
  using nth_length_takeWhile [of "\<lambda>n. nc_id n \<noteq> i" ns]
  by (auto simp: network_position_def Let_def split: if_splits)

lemma set_network_enabled_ok:
  assumes "config_ok E c"
  shows "config_ok E (snd (set_network_enabled i b c))"
proof (cases "network_position i (ac_networks c)")
  case None
  with assms show ?thesis by (simp add: set_network_enabled_def)
next
  case (Some k)
  note k = network_position_Some [OF Some]
  have same: "(ac_networks c ! k)\<lparr>nc_enabled := False\<rparr> = ac_networks c ! k"
    if "\<not> nc_enabled (ac_networks c ! k)"
    using that by (cases "ac_networks c ! k") simp
  show ?thesis
  proof (cases b)
    case True
    then show ?thesis
      using Some assms k enumerate_enabled [of k 0 "ac_networks c"] enumerate_kept [of k 0 "ac_networks c" E]
      by (simp add: set_network_enabled_def config_ok_def)
  next
    case False
    with Some assms same show ?thesis by (simp add: set_network_enabled_def same)
  qed
qed

lemma record_request_norm:
  assumes "norm_inbound E [] rs" "normalize_nostr_pubkey E k = Some k" "trim name = name"
  shows "norm_inbound E [] (snd (record_request k name t rs))"
proof (cases "find (\<lambda>r. pi_requester r = k) rs")
  case (Some r)
  let ?f = "\<lambda>r. r\<lparr>pi_requested_at := max (pi_requested_at r) t, pi_requester_node_name := name\<rparr>"
  have "map pi_requester (update_first (\<lambda>r. pi_requester r = k) ?f rs) = map pi_requester rs"
    by (rule map_update_first) simp
  then have "norm_inbound E [] (update_first (\<lambda>r. pi_requester r = k) ?f rs)"
    using assms by (auto simp: norm_inbound_def intro: list_all_update_first)
  with Some assms(1) show ?thesis by (simp add: record_request_def)
next
  case None
  then have new: "k \<notin> pi_requester ` set rs" by (auto simp: find_None_all)
  let ?r = "\<lparr>pi_requester = k, pi_requester_node_name = name, pi_requested_at = t\<rparr>"
  have "mset (map pi_requester (sort_key pi_requester (rs @ [?r]))) = mset (map pi_requester rs @ [k])"
    unfolding mset_map mset_sort by simp
  from mset_eq_imp_distinct_iff [OF this]
  have "distinct (map pi_requester (sort_key pi_requester (rs @ [?r])))"
    using assms(1) new by (auto simp: norm_inbound_def sorted_unique_def)
  moreover have "list_all P (sort_key pi_requester (rs @ [?r])) \<longleftrightarrow> list_all P rs \<and> P ?r" for P
    by (auto simp: list_all_iff)
  ultimately show ?thesis
    using assms None by (simp add: record_request_def norm_inbound_def sorted_unique_def)
qed

lemma record_inbound_ok:
  assumes "key_laws E" "config_ok E c"
  shows "config_ok E (snd (record_inbound_join_request E i r name t c))"
proof -
  have "norm_inbound E [] (snd (record_request k (trim name) t (nc_inbound_join_requests n)))"
    if "find P (ac_networks c) = Some n" "normalize_nostr_pubkey E r = Some k" for P n k
  proof (rule record_request_norm)
    have "n \<in> set (ac_networks c)" using find_Some_in [OF that(1)] by simp
    then show "norm_inbound E [] (nc_inbound_join_requests n)"
      using assms(2) by (auto simp: config_ok_def list_all_iff network_ok_def)
    show "normalize_nostr_pubkey E k = Some k" by (rule normalize_fixed [OF assms(1) that(2)])
  qed simp
  then show ?thesis
    using assms(2)
    by (auto simp: record_inbound_join_request_def Let_def split_def network_ok_def
        split: option.split intro!: config_ok_update_first)
qed

lemma set_join_requests_ok:
  "config_ok E c \<Longrightarrow> config_ok E (snd (set_network_join_requests_enabled i b c))"
  by (auto simp: set_network_join_requests_enabled_def network_ok_def intro!: config_ok_update_network)

lemma set_mesh_id_ok: "config_ok E c \<Longrightarrow> config_ok E (snd (set_network_mesh_id i m c))"
  by (auto simp: set_network_mesh_id_def Let_def intro!: config_ok_update_network)

lemma snd_and_then:
  "snd (and_then r k) = (case fst r of Inl _ \<Rightarrow> snd r | Inr v \<Rightarrow> snd (k v (snd r)))"
  by (cases r) (auto simp: and_then_def split: sum.split)

lemma config_ok_normalize_after [simp]: "config_ok E (normalize_after E' c) = config_ok E c"
  by (simp add: normalize_after_def)

lemma with_participant_ok:
  "network_ok E n \<Longrightarrow> normalize_nostr_pubkey E k = Some k \<Longrightarrow>
    network_ok E (if k \<in> set (nc_participants n) then n
      else n\<lparr>nc_participants := sort_dedup (nc_participants n @ [k])\<rparr>)"
  by (simp add: network_ok_def norm_keys_insert)

lemma with_admin_ok:
  "network_ok E n \<Longrightarrow> normalize_nostr_pubkey E k = Some k \<Longrightarrow>
    network_ok E (if k \<in> set (nc_admins n) then n else n\<lparr>nc_admins := sort_dedup (nc_admins n @ [k])\<rparr>)"
  by (simp add: network_ok_def norm_keys_insert)

lemma with_inviter_ok:
  "network_ok E n \<Longrightarrow> normalize_nostr_pubkey E k = Some k \<Longrightarrow> network_ok E (n\<lparr>nc_invite_inviter := k\<rparr>)"
  by (simp add: network_ok_def empty_or_key_def)

lemma add_participant_ok:
  assumes "key_laws E" "config_ok E c"
  shows "config_ok E (snd (add_participant_to_network E now i p c))"
proof (cases "normalize_nostr_pubkey E p")
  case (Some k)
  have "normalize_nostr_pubkey E k = Some k" by (rule normalize_fixed [OF assms(1) Some])
  then have "config_ok E (update_network i (\<lambda>n. if k \<in> set (nc_participants n) then n
      else n\<lparr>nc_participants := sort_dedup (nc_participants n @ [k])\<rparr>) c)"
    by (intro config_ok_update_network [OF assms(2)]) (simp add: with_participant_ok)
  from note_change_ok [OF assms(1) this, of now i] show ?thesis
    using Some assms(2) by (simp add: add_participant_to_network_def snd_and_then split: sum.split)
qed (simp add: add_participant_to_network_def assms)

lemma replace_inviter_ok:
  assumes "network_ok E n"
  shows "network_ok E (replace_inviter k n)"
proof -
  have "normalize_nostr_pubkey E a = Some a" if "nc_admins n = a # as" for a as
    using assms that by (simp add: network_ok_def norm_keys_def)
  with assms show ?thesis
    by (auto simp: replace_inviter_def network_ok_def empty_or_key_def split: list.split)
qed

lemma replace_inviter_fields [simp]:
  "nc_id (replace_inviter k n) = nc_id n" "nc_enabled (replace_inviter k n) = nc_enabled n"
  "nc_admins (replace_inviter k n) = nc_admins n" "nc_participants (replace_inviter k n) = nc_participants n"
  by (simp_all add: replace_inviter_def)

lemma network_ok_filter:
  "network_ok E n \<Longrightarrow> network_ok E (n\<lparr>nc_admins := filter P (nc_admins n)\<rparr>)"
  "network_ok E n \<Longrightarrow> network_ok E (n\<lparr>nc_participants := filter Q (nc_participants n), nc_admins := filter P (nc_admins n)\<rparr>)"
  by (simp_all add: network_ok_def norm_keys_filter)

lemma remove_participant_ok:
  "key_laws E \<Longrightarrow> config_ok E c \<Longrightarrow> config_ok E (snd (remove_participant_from_network E now i p c))"
  by (auto simp: remove_participant_from_network_def snd_and_then
      intro!: note_change_ok config_ok_update_network replace_inviter_ok network_ok_filter
      split: option.split sum.split)

lemma add_admin_ok:
  assumes "key_laws E" "config_ok E c"
  shows "config_ok E (snd (add_admin_to_network E now i p c))"
proof (cases "normalize_nostr_pubkey E p")
  case (Some k)
  have k: "normalize_nostr_pubkey E k = Some k" by (rule normalize_fixed [OF assms(1) Some])
  have "config_ok E (update_network i (\<lambda>n.
      let n1 = (if k \<in> set (nc_admins n) then n else n\<lparr>nc_admins := sort_dedup (nc_admins n @ [k])\<rparr>)
      in if nc_invite_inviter n1 = [] then n1\<lparr>nc_invite_inviter := k\<rparr> else n1) c)"
    by (rule config_ok_update_network [OF assms(2)])
      (use k in \<open>simp add: Let_def with_admin_ok with_inviter_ok\<close>)
  from note_change_ok [OF assms(1) this, of now i] show ?thesis
    using Some assms(2) by (simp add: add_admin_to_network_def snd_and_then split: sum.split)
qed (simp add: add_admin_to_network_def assms)

lemma remove_admin_ok:
  "key_laws E \<Longrightarrow> config_ok E c \<Longrightarrow> config_ok E (snd (remove_admin_from_network E now i p c))"
  by (auto simp: remove_admin_from_network_def snd_and_then
      intro!: note_change_ok config_ok_update_network replace_inviter_ok network_ok_filter
      split: option.split sum.split)

lemma fold_note_change_ok:
  "key_laws E \<Longrightarrow> config_ok E c \<Longrightarrow>
    config_ok E (fold (\<lambda>i c. snd (note_network_roster_local_change E now i c)) is c)"
  by (induction "is" arbitrary: c) (simp_all add: note_change_ok)

lemma config_ok_aliases [simp]: "config_ok E (c\<lparr>ac_peer_aliases := al\<rparr>) = config_ok E c"
  by (simp add: config_ok_def)

lemma set_peer_alias_ok:
  "key_laws E \<Longrightarrow> config_ok E c \<Longrightarrow> config_ok E (snd (set_peer_alias E now p alias c))"
  by (auto simp: set_peer_alias_def Let_def fold_note_change_ok split: option.split)

end
