(* ===== verification/Magic_Dns.thy ===== *)
theory Magic_Dns
  imports Config_Names Routes
begin

text \<open>
  \<open>crates/nostr-vpn-core/src/magic_dns.rs\<close>: the local DNS server for the names of a mesh, its records
  built from the configuration, and the scripts that point the system's resolver to it. Reading and
  writing DNS packets is the library's; a message is what it reads or writes.
\<close>

definition DNS_TTL_SECS :: u32 where "DNS_TTL_SECS = 30"

record magic_dns_resolver_config =
  mr_suffix :: string
  mr_nameserver :: ipv4_addr
  mr_port :: u16

section \<open>Messages\<close>

text \<open>A name is given by its UTF-8 form; of the record types only \<open>A\<close> matters here.\<close>

datatype record_type = TypeA | OtherType u16

record dns_query =
  dq_name :: string
  dq_type :: record_type

record dns_answer =
  da_name :: string
  da_ttl :: u32
  da_ip :: ipv4_addr

datatype response_code = NoError | NXDomain

record dns_request =
  dr_id :: u16
  dr_recursion_desired :: bool
  dr_queries :: "dns_query list"

record dns_response =
  ds_id :: u16
  ds_recursion_desired :: bool
  ds_recursion_available :: bool
  ds_authoritative :: bool
  ds_queries :: "dns_query list"
  ds_answers :: "dns_answer list"
  ds_code :: response_code

section \<open>The server\<close>

definition query_answer :: "(string, ipv4_addr) hmap \<Rightarrow> dns_query \<Rightarrow> dns_answer option" where
  "query_answer records query =
    (if dq_type query \<noteq> TypeA then None
     else let qname = trim_end_matches (CHR ''.'') (to_ascii_lowercase (dq_name query))
       in if qname = [] then None
          else (case hm_get records qname of
              None \<Rightarrow> None
            | Some ip \<Rightarrow> Some \<lparr>da_name = dq_name query, da_ttl = DNS_TTL_SECS, da_ip = ip\<rparr>))"

definition dns_response_for :: "dns_request \<Rightarrow> (string, ipv4_addr) hmap \<Rightarrow> dns_response" where
  "dns_response_for message records =
    (let answers = List.map_filter (query_answer records) (dr_queries message)
     in \<lparr>ds_id = dr_id message, ds_recursion_desired = dr_recursion_desired message,
         ds_recursion_available = False, ds_authoritative = True, ds_queries = dr_queries message,
         ds_answers = answers, ds_code = (if answers \<noteq> [] then NoError else NXDomain)\<rparr>)"

text \<open>\<open>read\<close> and \<open>emit\<close> are the library's reading and writing of packets, which may fail.\<close>

definition build_dns_response ::
  "('p \<Rightarrow> dns_request option) \<Rightarrow> (dns_response \<Rightarrow> 'p option) \<Rightarrow> 'p \<Rightarrow> (string, ipv4_addr) hmap \<Rightarrow> 'p option" where
  "build_dns_response read_message emit request records =
    (case read_message request of
       None \<Rightarrow> None | Some message \<Rightarrow> emit (dns_response_for message records))"

record magic_dns_server =
  md_records :: "(string, ipv4_addr) hmap"
  md_stopped :: bool

definition magic_dns_start :: "(string, ipv4_addr) hmap \<Rightarrow> magic_dns_server" where
  "magic_dns_start records = \<lparr>md_records = records, md_stopped = False\<rparr>"

definition magic_dns_update_records :: "(string, ipv4_addr) hmap \<Rightarrow> magic_dns_server \<Rightarrow> magic_dns_server" where
  "magic_dns_update_records records server = server\<lparr>md_records := records\<rparr>"

definition magic_dns_stop :: "magic_dns_server \<Rightarrow> magic_dns_server" where
  "magic_dns_stop server = server\<lparr>md_stopped := True\<rparr>"

text \<open>
  The loop of \<open>run_dns_loop\<close> over what the socket and the other threads do: a packet from a peer, a
  failed or timed out read, new records, or the stop flag. It yields the packets sent and to whom.
\<close>

datatype ('p, 'a) dns_event = PacketFrom 'a 'p | ReadFailed | RecordsUpdated "(string, ipv4_addr) hmap" | StopRequested

fun run_dns_loop ::
  "('p \<Rightarrow> dns_request option) \<Rightarrow> (dns_response \<Rightarrow> 'p option) \<Rightarrow> ('p, 'a) dns_event list \<Rightarrow> magic_dns_server
    \<Rightarrow> ('a \<times> 'p) list" where
  "run_dns_loop read_message emit [] server = []"
| "run_dns_loop read_message emit (PacketFrom peer request # es) server =
    (if md_stopped server then []
     else (case build_dns_response read_message emit request (md_records server) of
         None \<Rightarrow> run_dns_loop read_message emit es server
       | Some response \<Rightarrow> (peer, response) # run_dns_loop read_message emit es server))"
| "run_dns_loop read_message emit (ReadFailed # es) server = run_dns_loop read_message emit es server"
| "run_dns_loop read_message emit (RecordsUpdated records # es) server =
    run_dns_loop read_message emit es (magic_dns_update_records records server)"
| "run_dns_loop read_message emit (StopRequested # es) server =
    run_dns_loop read_message emit es (magic_dns_stop server)"

section \<open>The records\<close>

definition strip_cidr :: "string \<Rightarrow> string" where
  "strip_cidr value = hd (split_char (CHR ''/'') value)"

definition tunnel_ipv4 :: "key_env \<Rightarrow> string \<Rightarrow> string \<Rightarrow> ipv4_addr option" where
  "tunnel_ipv4 E network_id pubkey =
    (case derive_mesh_tunnel_ip E network_id pubkey of
       None \<Rightarrow> None | Some tunnel_ip \<Rightarrow> parse_ipv4 (strip_cidr tunnel_ip))"

definition insert_names ::
  "string \<Rightarrow> string \<Rightarrow> ipv4_addr \<Rightarrow> (string, ipv4_addr) hmap \<Rightarrow> (string, ipv4_addr) hmap" where
  "insert_names sfx alias0 ip records =
    (let alias = to_ascii_lowercase alias0; records1 = hm_insert alias ip records
     in if sfx = [] then records1 else hm_insert (alias @ ''.'' @ sfx) ip records1)"

definition add_participant_record ::
  "key_env \<Rightarrow> app_config \<Rightarrow> string \<Rightarrow> string \<Rightarrow> string \<Rightarrow> (string, ipv4_addr) hmap \<Rightarrow> (string, ipv4_addr) hmap" where
  "add_participant_record E c sfx network_id participant records =
    (case peer_alias E c participant of
       None \<Rightarrow> records
     | Some alias \<Rightarrow>
         (case tunnel_ipv4 E network_id participant of
            None \<Rightarrow> records | Some ip \<Rightarrow> insert_names sfx alias ip records))"

definition record_suffix :: "string \<Rightarrow> string" where
  "record_suffix sfx = to_ascii_lowercase (trim_matches (CHR ''.'') (trim sfx))"

definition build_magic_dns_records :: "key_env \<Rightarrow> app_config \<Rightarrow> (string, ipv4_addr) hmap" where
  "build_magic_dns_records E c =
    (let sfx = record_suffix (ac_magic_dns_suffix c);
         network_id = effective_network_id c;
         own = (case self_magic_dns_label c of
             None \<Rightarrow> []
           | Some alias \<Rightarrow>
               (case own_nostr_pubkey_hex E c of
                  None \<Rightarrow> []
                | Some own_pubkey_hex \<Rightarrow>
                    (case tunnel_ipv4 E network_id own_pubkey_hex of
                       None \<Rightarrow> [] | Some ip \<Rightarrow> insert_names sfx alias ip [])))
     in fold (add_participant_record E c sfx network_id) (participant_pubkeys_hex c) own)"

section \<open>The system's resolver\<close>

definition windows_nameserver :: "ipv4_addr \<Rightarrow> u16 \<Rightarrow> string option" where
  "windows_nameserver nameserver port = (if port \<noteq> 53 then None else Some (print_v4 nameserver))"

definition windows_nrpt_display_name :: "string \<Rightarrow> string" where
  "windows_nrpt_display_name sfx = ''nostr-vpn MagicDNS ('' @ sfx @ '')''"

definition windows_nrpt_comment :: "string \<Rightarrow> string" where
  "windows_nrpt_comment sfx = ''nostr-vpn split DNS for '' @ sfx"

definition quote_char :: char where "quote_char = CHR 0x27"

text \<open>A single-quoted PowerShell string: quotes inside are doubled.\<close>

definition windows_powershell_quote :: "string \<Rightarrow> string" where
  "windows_powershell_quote value =
    quote_char # concat (map (\<lambda>c. if c = quote_char then [quote_char, quote_char] else [c]) value) @ [quote_char]"

definition nrpt_match_lines :: string where
  "nrpt_match_lines =
    ''Get-DnsClientNrptRule -ErrorAction SilentlyContinue |'' @ newline
    @ ''  Where-Object {'' @ newline
    @ ''    $_.DisplayName -eq $displayName -or $_.Comment -eq $comment -or $_.Namespace -contains $namespace'' @ newline
    @ ''  } |'' @ newline
    @ ''  ForEach-Object {'' @ newline
    @ ''    $_ | Remove-DnsClientNrptRule -Force -ErrorAction SilentlyContinue | Out-Null'' @ newline
    @ ''  }'' @ newline"

definition windows_install_nrpt_script :: "string \<Rightarrow> ipv4_addr \<Rightarrow> u16 \<Rightarrow> string option" where
  "windows_install_nrpt_script sfx nameserver port =
    (let namespace = record_suffix sfx
     in case windows_nameserver nameserver port of
          None \<Rightarrow> None
        | Some name_servers \<Rightarrow> Some (
            ''$ErrorActionPreference = '' @ windows_powershell_quote ''Stop'' @ newline
            @ ''$namespace = '' @ windows_powershell_quote namespace @ newline
            @ ''$displayName = '' @ windows_powershell_quote (windows_nrpt_display_name namespace) @ newline
            @ ''$comment = '' @ windows_powershell_quote (windows_nrpt_comment namespace) @ newline
            @ ''$nameServers = '' @ windows_powershell_quote name_servers @ newline
            @ nrpt_match_lines
            @ ''Add-DnsClientNrptRule -Namespace $namespace -NameServers $nameServers -DisplayName $displayName ''
            @ ''-Comment $comment -ErrorAction Stop | Out-Null'' @ newline))"

definition windows_uninstall_nrpt_script :: "string \<Rightarrow> string" where
  "windows_uninstall_nrpt_script sfx =
    (let namespace = record_suffix sfx
     in ''$namespace = '' @ windows_powershell_quote namespace @ newline
        @ ''$displayName = '' @ windows_powershell_quote (windows_nrpt_display_name namespace) @ newline
        @ ''$comment = '' @ windows_powershell_quote (windows_nrpt_comment namespace) @ newline
        @ nrpt_match_lines)"

text \<open>
  On Linux: the calls of \<open>resolvectl\<close> in order, up to the first that fails; \<open>ok\<close> says which succeed.
\<close>

definition install_linux_resolver ::
  "(string list \<Rightarrow> bool) \<Rightarrow> string \<Rightarrow> ipv4_addr \<Rightarrow> u16 \<Rightarrow> bool \<times> string list list" where
  "install_linux_resolver ok sfx nameserver port =
    (let resolver = (if port = 53 then print_v4 nameserver
                     else print_v4 nameserver @ '':'' @ dec (unat port));
         dns = [''dns'', ''lo'', resolver]; domain = [''domain'', ''lo'', ''~'' @ sfx]
     in if \<not> ok dns then (False, [dns])
        else if \<not> ok domain then (False, [dns, domain])
        else (True, [dns, domain, [''flush-caches'']]))"

definition install_system_resolver_linux ::
  "(string list \<Rightarrow> bool) \<Rightarrow> magic_dns_resolver_config \<Rightarrow> bool \<times> string list list" where
  "install_system_resolver_linux ok config =
    (let sfx = record_suffix (mr_suffix config)
     in if sfx = [] then (True, [])
        else install_linux_resolver ok sfx (mr_nameserver config) (mr_port config))"

definition macos_resolver_body :: "ipv4_addr \<Rightarrow> u16 \<Rightarrow> string" where
  "macos_resolver_body nameserver port =
    ''nameserver '' @ print_v4 nameserver @ newline @ ''port '' @ dec (unat port) @ newline
    @ ''options timeout:1 attempts:1'' @ newline"

section \<open>What the records hold\<close>

lemma ascii_lower_dot [simp]: "ascii_lower c = CHR ''.'' \<longleftrightarrow> c = CHR ''.''"
proof -
  have dot: "d = CHR ''.'' \<longleftrightarrow> byte d = 46" for d using byte_inj [of d "CHR ''.''"] by (simp add: byte_def)
  show ?thesis by (auto simp: dot byte_ascii_lower is_ascii_upper_def)
qed

lemma lowercase_trim_dots:
  "trim_end_matches (CHR ''.'') (to_ascii_lowercase s) = to_ascii_lowercase (trim_end_matches (CHR ''.'') s)"
  by (simp add: trim_end_matches_def to_ascii_lowercase_def rev_map dropWhile_map comp_def)

lemma dns_label_chars:
  "dns_label l \<Longrightarrow> c \<in> set l \<Longrightarrow> c \<noteq> CHR ''.'' \<and> 33 \<le> byte c \<and> byte c < 128 \<and> ascii_lower c = c"
  using dns_label_no_dot [of l]
  by (auto simp: dns_label_def label_body_def list_all_iff ascii_lower_def is_ascii_alphanumeric_def
      is_ascii_lower_def is_ascii_upper_def is_ascii_digit_def byte_def dest!: bspec)

lemma dns_label_lower: "dns_label l \<Longrightarrow> to_ascii_lowercase l = l"
  unfolding to_ascii_lowercase_def by (rule map_idI) (simp add: dns_label_chars)

lemma get_insert_names:
  assumes "dns_label l" "ac_magic_dns_suffix c = sfx"
  shows "hm_get (insert_names sfx l ip m) q = (if q = l \<or> q = with_suffix c l then Some ip else hm_get m q)"
  using assms by (simp add: insert_names_def Let_def dns_label_lower with_suffix_def hm_simps)

text \<open>The participants' records, when at most one participant answers a name.\<close>

definition recorded :: "key_env \<Rightarrow> app_config \<Rightarrow> string \<Rightarrow> string \<Rightarrow> bool" where
  "recorded E c q p \<longleftrightarrow> answers E c q p \<and> tunnel_ipv4 E (effective_network_id c) p \<noteq> None"

lemma get_participant_records:
  assumes ok: "aliases_ok E c" and sfx: "ac_magic_dns_suffix c = sfx"
    and norm: "\<forall>p \<in> set ps. normalize_nostr_pubkey E p = Some p"
    and one: "\<forall>p \<in> set ps. \<forall>p' \<in> set ps. answers E c q p \<longrightarrow> answers E c q p' \<longrightarrow> p = p'"
  shows "hm_get (fold (add_participant_record E c sfx (effective_network_id c)) ps m) q =
    (case find (recorded E c q) ps of None \<Rightarrow> hm_get m q | Some p \<Rightarrow> tunnel_ipv4 E (effective_network_id c) p)"
  using norm one
proof (induction ps arbitrary: m)
  case (Cons p ps)
  have aka: "peer_alias E c p = hm_get (ac_peer_aliases c) (npub_for_pubkey_hex E p)"
    using Cons.prems by (simp add: peer_alias_def)
  have one_step: "hm_get (add_participant_record E c sfx (effective_network_id c) p m) q
    = (if recorded E c q p then tunnel_ipv4 E (effective_network_id c) p else hm_get m q)"
  proof (cases "hm_get (ac_peer_aliases c) (npub_for_pubkey_hex E p)")
    case (Some l)
    then have "dns_label l" using ok by (auto simp: aliases_ok_def list_all_iff dest!: hm_get_in)
    from get_insert_names [OF this sfx] Some show ?thesis
      by (cases "tunnel_ipv4 E (effective_network_id c) p")
        (simp_all add: add_participant_record_def aka recorded_def answers_def)
  qed (simp add: add_participant_record_def aka recorded_def answers_def)
  have same: "p' = p" if "find (recorded E c q) ps = Some p'" "recorded E c q p" for p'
    using that find_Some_in [OF that(1)] Cons.prems(2) by (simp add: recorded_def)
  have norm: "\<forall>p \<in> set ps. normalize_nostr_pubkey E p = Some p" using Cons.prems(1) by simp
  have one: "\<forall>p \<in> set ps. \<forall>p' \<in> set ps. answers E c q p \<longrightarrow> answers E c q p' \<longrightarrow> p = p'"
    using Cons.prems(2) by (simp only: list.set insert_iff) blast
  show ?case
  proof (cases "recorded E c q p")
    case True
    then show ?thesis unfolding fold_simps Cons.IH [OF norm one] one_step
      by (cases "find (recorded E c q) ps") (auto dest: same [OF _ True])
  next
    case False
    then show ?thesis unfolding fold_simps Cons.IH [OF norm one] one_step by simp
  qed
qed simp

text \<open>The suffix of a configuration in normal form is left as it is.\<close>

lemma join_dots:
  assumes "ls \<noteq> []" "list_all dns_label ls"
  shows "join ''.'' ls \<noteq> [] \<and> hd (join ''.'' ls) = hd (hd ls) \<and> last (join ''.'' ls) = last (last ls)
    \<and> set (join ''.'' ls) \<subseteq> insert (CHR ''.'') (\<Union>l \<in> set ls. set l)"
  using assms
proof (induction "''.''" ls rule: join.induct)
  case (3 w v vs)
  then have "w \<noteq> []" by (simp add: dns_label_def)
  with 3 show ?case by auto
qed (auto simp: dns_label_def)

lemma normal_suffix_labels:
  "\<exists>ls. ls \<noteq> [] \<and> list_all dns_label ls \<and> normalize_magic_dns_suffix v = join ''.'' ls"
proof -
  define ls where "ls = filter (\<lambda>l. l \<noteq> []) (List.map_filter normalize_magic_dns_label
    (split_char (CHR ''.'') (trim_end_matches (CHR ''.'') (trim v))))"
  have "list_all dns_label ls" by (auto simp: ls_def set_map_filter list_all_iff dest: normalize_label_dns)
  moreover have "dns_label ''nvpn''" by code_simp
  ultimately show ?thesis
    by (cases "ls = []") (auto simp: normalize_magic_dns_suffix_def Let_def ls_def [symmetric]
        intro: exI [of _ "[''nvpn'']"])
qed

lemma record_suffix_normal: "record_suffix (normalize_magic_dns_suffix v) = normalize_magic_dns_suffix v"
proof -
  obtain ls where ls: "ls \<noteq> []" "list_all dns_label ls" and v: "normalize_magic_dns_suffix v = join ''.'' ls"
    using normal_suffix_labels by blast
  define j where "j = join ''.'' ls"
  have "hd ls \<in> set ls" "last ls \<in> set ls" using ls(1) by simp_all
  with ls have lab: "dns_label (hd ls)" "dns_label (last ls)" by (simp_all add: list_all_iff)
  then have "hd (hd ls) \<in> set (hd ls)" "last (last ls) \<in> set (last ls)" by (simp_all add: dns_label_def)
  then have ends: "hd (hd ls) \<noteq> CHR ''.''" "last (last ls) \<noteq> CHR ''.''"
    using dns_label_no_dot lab by metis+
  have j: "j \<noteq> []" "hd j \<noteq> CHR ''.''" "last j \<noteq> CHR ''.''"
    and chars: "set j \<subseteq> insert (CHR ''.'') (\<Union>l \<in> set ls. set l)"
    using join_dots [OF ls] ends by (auto simp: j_def)
  have ok: "33 \<le> byte c \<and> byte c < 128 \<and> ascii_lower c = c" if "c \<in> set j" for c
  proof (cases "c = CHR ''.''")
    case True
    then show ?thesis by (simp add: byte_def)
  next
    case False
    with that chars obtain l where "l \<in> set ls" "c \<in> set l" by blast
    with ls(2) dns_label_chars show ?thesis by (auto simp: list_all_iff)
  qed
  have "trim j = j" by (rule trim_ws_free, rule ws_freeI) (use ok in blast)
  moreover have "trim_matches (CHR ''.'') j = j"
    using j trim_start_matches_id [of j "CHR ''.''"] trim_end_matches_id [of j "CHR ''.''"]
    by (simp add: trim_matches_def)
  moreover have "to_ascii_lowercase j = j" using ok by (auto simp: to_ascii_lowercase_def intro: map_idI)
  ultimately show ?thesis by (simp add: record_suffix_def v j_def)
qed

text \<open>The answer to one name, from the records of a configuration in normal form.\<close>

lemma records_agree:
  assumes "key_laws E" "aliases_ok E c" "config_ok E c" "own_nostr_pubkey_hex E c = Some own"
    and sfx: "ac_magic_dns_suffix c = normalize_magic_dns_suffix v"
    and q: "q = canonical_query to_ascii_lowercase name" "q \<noteq> []"
  shows "hm_get (build_magic_dns_records E c) q
    = Option.bind (resolve_magic_dns_query E to_ascii_lowercase c name) (tunnel_ipv4 E (effective_network_id c))"
proof -
  let ?ip = "tunnel_ipv4 E (effective_network_id c)" and ?ps = "participant_pubkeys_hex c"
  let ?own = "\<exists>l. self_magic_dns_label c = Some l \<and> (q = l \<or> q = with_suffix c l)"
  have suffix: "record_suffix (ac_magic_dns_suffix c) = ac_magic_dns_suffix c"
    by (simp add: sfx record_suffix_normal)
  have norm: "\<forall>p \<in> set ?ps. normalize_nostr_pubkey E p = Some p"
    using active_network_in [OF config_ok_ne [OF assms(3)]] assms(3)
    by (auto simp: participant_pubkeys_hex_def config_ok_def list_all_iff network_ok_def norm_keys_def)
  have one: "\<forall>p \<in> set ?ps. \<forall>p' \<in> set ?ps. answers E c q p \<longrightarrow> answers E c q p' \<longrightarrow> p = p'"
    using norm answers_unique [OF assms(1,2)] by blast
  have self: "self_magic_dns_label c = Some l \<Longrightarrow> dns_label l \<and> l \<notin> snd ` set (ac_peer_aliases c)" for l
    using self_label_preferred [OF assms(2)]
    by (cases "preferred_self_magic_dns_label c") (auto simp: self_magic_dns_label_def)
  have apart: "\<not> ?own" if "answers E c q p" for p
    using that answers_dns [OF assms(2) that] self names_disjoint by metis
  define own_records where "own_records = (case self_magic_dns_label c of None \<Rightarrow> [] | Some l \<Rightarrow>
    (case ?ip own of None \<Rightarrow> [] | Some ip \<Rightarrow> insert_names (ac_magic_dns_suffix c) l ip []))"
  have own: "hm_get own_records q = (if ?own then ?ip own else None)"
    using get_insert_names [OF conjunct1 [OF self] refl]
    by (auto simp: own_records_def hm_simps split: option.splits)
  have records: "hm_get (build_magic_dns_records E c) q
    = (case find (recorded E c q) ?ps of None \<Rightarrow> hm_get own_records q | Some p \<Rightarrow> ?ip p)"
    unfolding get_participant_records [OF assms(2) refl norm one, symmetric]
    by (simp add: build_magic_dns_records_def suffix own_records_def assms(4) Let_def cong: option.case_cong)
  have res: "resolve_magic_dns_query E to_ascii_lowercase c name = (if ?own then Some own else find (answers E c q) ?ps)"
    using q by (auto simp: resolve_unfold assms(4) self_magic_dns_name_def)
  show ?thesis
  proof (cases "find (answers E c q) ?ps")
    case None
    then have "find (recorded E c q) ?ps = None" by (auto simp: find_None_iff recorded_def)
    then have got: "hm_get (build_magic_dns_records E c) q = (if ?own then ?ip own else None)"
      by (simp only: records own option.case)
    show ?thesis by (cases ?own) (simp_all only: got res None if_True if_False Option.bind.simps)
  next
    case (Some p)
    then have p: "p \<in> set ?ps" "answers E c q p" using find_Some_in by fastforce+
    then have no: "\<not> ?own" by (intro apart)
    have "hm_get (build_magic_dns_records E c) q = ?ip p"
    proof (cases "?ip p")
      case None
      then have "find (recorded E c q) ?ps = None" using one p by (auto simp: find_None_iff recorded_def)
      with no None show ?thesis by (simp only: records own option.case if_False)
    next
      case (Some ip)
      then have "find (recorded E c q) ?ps = Some p"
        using one p by (intro find_unique) (auto simp: recorded_def)
      then show ?thesis by (simp only: records option.case)
    qed
    then show ?thesis by (simp only: res Some no if_False Option.bind.simps)
  qed
qed

text \<open>
  C22. The DNS server and the resolver of names agree: for a configuration in normal form, a packet
  that asks for the address of one name is answered, authoritatively, with the tunnel address of the
  member the name resolves to, the node itself included, and with a nonexistent domain when it
  resolves to nobody. A name is taken without regard to case and trailing dots; surrounding white
  space is the only difference.
\<close>

theorem dns_server_agrees_with_resolver:
  assumes "key_laws E" "aliases_ok E c" "config_ok E c" "own_nostr_pubkey_hex E c = Some own"
    and "ac_magic_dns_suffix c = normalize_magic_dns_suffix v"
    and read: "read_message packet = Some \<lparr>dr_id = i, dr_recursion_desired = d,
      dr_queries = [\<lparr>dq_name = name, dq_type = TypeA\<rparr>]\<rparr>"
    and "trim name = name"
  shows "build_dns_response read_message emit packet (build_magic_dns_records E c)
    = emit (case Option.bind (resolve_magic_dns_query E to_ascii_lowercase c name)
          (tunnel_ipv4 E (effective_network_id c)) of
        None \<Rightarrow> \<lparr>ds_id = i, ds_recursion_desired = d, ds_recursion_available = False, ds_authoritative = True,
          ds_queries = [\<lparr>dq_name = name, dq_type = TypeA\<rparr>], ds_answers = [], ds_code = NXDomain\<rparr>
      | Some ip \<Rightarrow> \<lparr>ds_id = i, ds_recursion_desired = d, ds_recursion_available = False, ds_authoritative = True,
          ds_queries = [\<lparr>dq_name = name, dq_type = TypeA\<rparr>],
          ds_answers = [\<lparr>da_name = name, da_ttl = 30, da_ip = ip\<rparr>], ds_code = NoError\<rparr>)"
proof -
  have q: "trim_end_matches (CHR ''.'') (to_ascii_lowercase name) = canonical_query to_ascii_lowercase name"
    by (simp add: canonical_query_def assms(7) lowercase_trim_dots)
  show ?thesis
  proof (cases "canonical_query to_ascii_lowercase name = []")
    case True
    then have "resolve_magic_dns_query E to_ascii_lowercase c name = None" by (simp add: resolve_unfold)
    with True show ?thesis
      by (simp add: build_dns_response_def read dns_response_for_def query_answer_def q List.map_filter_simps)
  next
    case False
    then show ?thesis
      using records_agree [OF assms(1-5) refl False]
      by (simp add: build_dns_response_def read dns_response_for_def query_answer_def q List.map_filter_simps
          DNS_TTL_SECS_def split: option.splits)
  qed
qed

text \<open>A packet library for the example: a packet is the request itself.\<close>

lemma dns_server_agrees_with_resolver_witness:
  "build_dns_response Some (\<lambda>r. Some (\<lparr>dr_id = ds_id r, dr_recursion_desired = ds_code r = NoError, dr_queries = []\<rparr>))
     \<lparr>dr_id = 7, dr_recursion_desired = True, dr_queries = [\<lparr>dq_name = ''Snail.nvpn.'', dq_type = TypeA\<rparr>]\<rparr>
     (build_magic_dns_records sample_keys (normalize_peer_aliases sample_keys sample_config))
   = Some \<lparr>dr_id = 7, dr_recursion_desired = True, dr_queries = []\<rparr>"
proof -
  let ?d = "normalize_peer_aliases sample_keys sample_config"
  have nets: "list_all (network_ok sample_keys) (ac_networks sample_config)"
    using sample_config_ok by (simp add: config_ok_def)
  have len: "length (all_network_member_pubkeys_hex sample_config) < 9998" by code_simp
  have ok: "aliases_ok sample_keys ?d" by (rule normalize_peer_aliases_ok [OF sample_keys_laws nets len])
  have cfg: "config_ok sample_keys ?d" using sample_config_ok by simp
  have own: "own_nostr_pubkey_hex sample_keys ?d = Some ''aa11''" unfolding sample_aliases by code_simp
  have sfx: "ac_magic_dns_suffix ?d = normalize_magic_dns_suffix ''nvpn''" unfolding sample_aliases by code_simp
  have res: "resolve_magic_dns_query sample_keys to_ascii_lowercase ?d ''Snail.nvpn.'' = Some ''bb22''" unfolding sample_aliases by code_simp
  have ip: "tunnel_ipv4 sample_keys (effective_network_id ?d) ''bb22'' \<noteq> None" unfolding sample_aliases by code_simp
  have trim: "trim ''Snail.nvpn.'' = ''Snail.nvpn.''" by code_simp
  show ?thesis
    using dns_server_agrees_with_resolver [OF sample_keys_laws ok cfg own sfx _ trim, where read_message = Some] res ip
    by auto
qed

end
