(* ===== verification/Presence.thy ===== *)
theory Presence
  imports Control
begin

text \<open>
  \<open>crates/nostr-vpn-core/src/presence.rs\<close>, with the signal payloads of \<open>signaling.rs\<close> it
  consumes: which participants are active, what was last announced by each, when each was last
  heard of and since when it is active.
\<close>

section \<open>Signals\<close>

record mesh_join_request =
  mj_network_id :: string
  mj_requester_node_name :: string

record network_roster =
  nr_network_name :: string
  nr_participants :: "string list"
  nr_admins :: "string list"
  nr_aliases :: "(string, string) hmap"
  nr_signed_at :: u64

datatype signal_payload =
    Hello
  | Announce peer_announcement
  | Roster network_roster
  | Disconnect string
  | JoinRequest u64 mesh_join_request

record signal_envelope =
  se_network_id :: string
  se_sender_pubkey :: string
  se_payload :: signal_payload

section \<open>The presence book\<close>

record peer_presence_book =
  pp_active :: "(string, peer_announcement) hmap"
  pp_known :: "(string, peer_announcement) hmap"
  pp_last_seen_at :: "(string, u64) hmap"
  pp_active_since_at :: "(string, u64) hmap"

definition presence_new :: peer_presence_book where
  "presence_new = \<lparr>pp_active = [], pp_known = [], pp_last_seen_at = [], pp_active_since_at = []\<rparr>"

text \<open>\<open>get(sender).is_none_or(|existing| existing.timestamp <= announcement.timestamp)\<close>\<close>

definition should_update :: "(string, peer_announcement) hmap \<Rightarrow> string \<Rightarrow> peer_announcement \<Rightarrow> bool" where
  "should_update m sender a =
    (case hm_get m sender of None \<Rightarrow> True | Some existing \<Rightarrow> pa_timestamp existing \<le> pa_timestamp a)"

definition apply_signal ::
  "string \<Rightarrow> signal_payload \<Rightarrow> u64 \<Rightarrow> peer_presence_book \<Rightarrow> bool \<times> peer_presence_book" where
  "apply_signal sender payload seen_at b0 =
    (let b = b0\<lparr>pp_last_seen_at := hm_insert sender seen_at (pp_last_seen_at b0)\<rparr> in
     case payload of
       Hello \<Rightarrow> (False, b)
     | Announce a \<Rightarrow>
         (let was_active = hm_contains (pp_active b) sender;
              b1 = (if should_update (pp_known b) sender a
                    then b\<lparr>pp_known := hm_insert sender a (pp_known b)\<rparr> else b)
          in if should_update (pp_active b1) sender a
             then (let b2 = (if \<not> was_active
                             then b1\<lparr>pp_active_since_at :=
                               hm_insert sender seen_at (pp_active_since_at b1)\<rparr>
                             else b1)
                   in (True, b2\<lparr>pp_active := hm_insert sender a (pp_active b2)\<rparr>))
             else (False, b1))
     | Disconnect _ \<Rightarrow>
         (let active_removed = hm_contains (pp_active b) sender;
              known_removed = hm_contains (pp_known b) sender
          in (active_removed \<or> known_removed,
              b\<lparr>pp_active := hm_remove sender (pp_active b),
                pp_active_since_at := hm_remove sender (pp_active_since_at b),
                pp_known := hm_remove sender (pp_known b)\<rparr>))
     | Roster _ \<Rightarrow> (False, b)
     | JoinRequest _ _ \<Rightarrow> (False, b))"

definition announcement_for :: "peer_presence_book \<Rightarrow> string \<Rightarrow> peer_announcement option" where
  "announcement_for b sender =
    (case hm_get (pp_active b) sender of
       Some a \<Rightarrow> Some a | None \<Rightarrow> hm_get (pp_known b) sender)"

definition restore_known ::
  "string \<Rightarrow> peer_announcement \<Rightarrow> u64 option \<Rightarrow> peer_presence_book \<Rightarrow> peer_presence_book" where
  "restore_known sender a last_seen_at b =
    (let b1 = b\<lparr>pp_known := hm_insert sender a (pp_known b)\<rparr>
     in case last_seen_at of None \<Rightarrow> b1
        | Some t \<Rightarrow> b1\<lparr>pp_last_seen_at := hm_insert sender t (pp_last_seen_at b1)\<rparr>)"

definition presence_last_seen_at :: "peer_presence_book \<Rightarrow> string \<Rightarrow> u64 option" where
  "presence_last_seen_at b sender = hm_get (pp_last_seen_at b) sender"

definition presence_active_since_at :: "peer_presence_book \<Rightarrow> string \<Rightarrow> u64 option" where
  "presence_active_since_at b sender = hm_get (pp_active_since_at b) sender"

definition seen_after :: "u64 \<Rightarrow> peer_presence_book \<Rightarrow> string \<Rightarrow> bool" where
  "seen_after cutoff b sender =
    (case hm_get (pp_last_seen_at b) sender of None \<Rightarrow> False | Some last_seen \<Rightarrow> cutoff < last_seen)"

definition presence_prune_stale ::
  "u64 \<Rightarrow> u64 \<Rightarrow> peer_presence_book \<Rightarrow> string list \<times> peer_presence_book" where
  "presence_prune_stale now stale_after_secs b =
    (if stale_after_secs = 0 then ([], b)
     else (let cutoff = saturating_sub now stale_after_secs;
               removed = map fst (filter (\<lambda>(sender, _). \<not> seen_after cutoff b sender) (pp_active b))
           in (sort removed,
               b\<lparr>pp_active := hm_retain (\<lambda>sender _. seen_after cutoff b sender) (pp_active b),
                 pp_active_since_at := fold hm_remove removed (pp_active_since_at b)\<rparr>)))"

definition presence_retain_participants ::
  "string set \<Rightarrow> peer_presence_book \<Rightarrow> peer_presence_book" where
  "presence_retain_participants participants b =
    b\<lparr>pp_active := hm_retain (\<lambda>p _. p \<in> participants) (pp_active b),
      pp_known := hm_retain (\<lambda>p _. p \<in> participants) (pp_known b),
      pp_last_seen_at := hm_retain (\<lambda>p _. p \<in> participants) (pp_last_seen_at b),
      pp_active_since_at := hm_retain (\<lambda>p _. p \<in> participants) (pp_active_since_at b)\<rparr>"

section \<open>Invariant\<close>

text \<open>
  Exactly the active participants have an activation time, and each of them is known and was
  seen.
\<close>

definition presence_inv :: "peer_presence_book \<Rightarrow> bool" where
  "presence_inv b \<longleftrightarrow>
    hm_wf (pp_active b) \<and> hm_wf (pp_known b) \<and> hm_wf (pp_last_seen_at b) \<and> hm_wf (pp_active_since_at b)
    \<and> (\<forall>k. hm_contains (pp_active_since_at b) k \<longleftrightarrow> hm_contains (pp_active b) k)
    \<and> (\<forall>k. hm_contains (pp_active b) k \<longrightarrow> hm_contains (pp_known b) k \<and> hm_contains (pp_last_seen_at b) k)"

lemma apply_signal_inv: "presence_inv b \<Longrightarrow> presence_inv (snd (apply_signal s p t b))"
  by (cases p)
    (auto simp: presence_inv_def apply_signal_def Let_def should_update_def hm_wf_intros hm_simps
      hm_contains_iff split: option.splits)

lemma restore_known_inv: "presence_inv b \<Longrightarrow> presence_inv (restore_known s a t b)"
  by (auto simp: presence_inv_def restore_known_def Let_def hm_wf_intros hm_simps split: option.splits)

lemma fold_hm_remove:
  "hm_wf m \<Longrightarrow> hm_wf (fold hm_remove ks m)
    \<and> (\<forall>k. hm_get (fold hm_remove ks m) k = (if k \<in> set ks then None else hm_get m k))"
proof (induction ks arbitrary: m)
  case (Cons j ks)
  from Cons.IH [OF hm_wf_remove [OF Cons.prems], of j] show ?case by (simp add: hm_simps)
qed simp

lemma presence_inactive:
  "presence_inv b \<Longrightarrow> \<not> hm_contains (pp_active b) k \<Longrightarrow> hm_get (pp_active_since_at b) k = None"
  unfolding presence_inv_def hm_contains_get by blast

lemma presence_prune_get:
  fixes now :: u64 and k :: string
  assumes "presence_inv b" and "stale \<noteq> 0"
  defines "b' \<equiv> snd (presence_prune_stale now stale b)"
  shows "hm_get (pp_active b') k = (if seen_after (saturating_sub now stale) b k then hm_get (pp_active b) k else None)"
    and "hm_get (pp_active_since_at b') k =
      (if seen_after (saturating_sub now stale) b k then hm_get (pp_active_since_at b) k else None)"
    and "pp_known b' = pp_known b" and "pp_last_seen_at b' = pp_last_seen_at b"
    and "hm_wf (pp_active b')" and "hm_wf (pp_active_since_at b')"
proof -
  let ?c = "saturating_sub now stale"
  let ?r = "map fst (filter (\<lambda>(sender, _). \<not> seen_after ?c b sender) (pp_active b))"
  have b': "b' = b\<lparr>pp_active := hm_retain (\<lambda>sender _. seen_after ?c b sender) (pp_active b),
                 pp_active_since_at := fold hm_remove ?r (pp_active_since_at b)\<rparr>"
    using assms(2) by (simp add: b'_def presence_prune_stale_def Let_def)
  from assms(1) have wf: "hm_wf (pp_active b)" "hm_wf (pp_active_since_at b)"
    by (simp_all add: presence_inv_def)
  note since = presence_inactive [OF assms(1), of k]
  show "hm_get (pp_active b') k = (if seen_after ?c b k then hm_get (pp_active b) k else None)"
    by (simp add: b' hm_get_retain [OF wf(1)] split: option.splits)
  have mem: "k \<in> set ?r \<longleftrightarrow> hm_contains (pp_active b) k \<and> \<not> seen_after ?c b k"
    by (simp add: hm_contains_iff_in) force
  show "hm_get (pp_active_since_at b') k = (if seen_after ?c b k then hm_get (pp_active_since_at b) k else None)"
    using fold_hm_remove [OF wf(2), of ?r] mem since by (auto simp: b')
  show "pp_known b' = pp_known b" "pp_last_seen_at b' = pp_last_seen_at b" by (simp_all add: b')
  show "hm_wf (pp_active b')" "hm_wf (pp_active_since_at b')"
    using wf fold_hm_remove [OF wf(2), of ?r] by (simp_all add: b' hm_wf_intros)
qed

lemma presence_prune_inv:
  assumes "presence_inv b"
  shows "presence_inv (snd (presence_prune_stale now stale b))"
proof (cases "stale = 0")
  case True
  with assms show ?thesis by (simp add: presence_prune_stale_def)
next
  case False
  note get = presence_prune_get [OF assms False, of now]
  have "hm_get (pp_active b) k = Some v \<Longrightarrow> \<exists>w. hm_get (pp_active_since_at b) k = Some w"
    "hm_get (pp_active_since_at b) k = Some w \<Longrightarrow> \<exists>v. hm_get (pp_active b) k = Some v"
    "hm_get (pp_active b) k = Some v \<Longrightarrow> \<exists>w. hm_get (pp_known b) k = Some w"
    "hm_get (pp_active b) k = Some v \<Longrightarrow> \<exists>w. hm_get (pp_last_seen_at b) k = Some w" for k v w
    using assms unfolding presence_inv_def hm_contains_iff by blast+
  then show ?thesis
    using assms get(5,6) by (auto simp: presence_inv_def hm_contains_iff get(1-4))
qed

lemma presence_retain_inv: "presence_inv b \<Longrightarrow> presence_inv (presence_retain_participants ps b)"
  by (simp add: presence_inv_def presence_retain_participants_def hm_wf_intros hm_contains_retain)

datatype presence_event =
    Signal string signal_payload u64
  | RestoreKnown string peer_announcement "u64 option"
  | PresencePrune u64 u64
  | PresenceRetain "string set"

fun presence_step :: "presence_event \<Rightarrow> peer_presence_book \<Rightarrow> peer_presence_book" where
  "presence_step (Signal s p t) b = snd (apply_signal s p t b)"
| "presence_step (RestoreKnown s a t) b = restore_known s a t b"
| "presence_step (PresencePrune now stale) b = snd (presence_prune_stale now stale b)"
| "presence_step (PresenceRetain ps) b = presence_retain_participants ps b"

interpretation presence_run: stepped presence_step presence_inv
proof
  show "presence_inv b \<Longrightarrow> presence_inv (presence_step e b)" for b e
    by (cases e) (simp_all add: apply_signal_inv restore_known_inv presence_prune_inv presence_retain_inv)
qed

lemma presence_new_inv: "presence_inv presence_new"
  by (simp add: presence_inv_def presence_new_def hm_simps)

text \<open>
  In every reachable presence book exactly the active participants have an activation time,
  every active participant is known, and was seen.
\<close>

lemma presence_invariant:
  "let b = fold presence_step evs presence_new in
    {k. hm_contains (pp_active_since_at b) k} = {k. hm_contains (pp_active b) k}
    \<and> {k. hm_contains (pp_active b) k} \<subseteq> {k. hm_contains (pp_known b) k}
    \<and> {k. hm_contains (pp_active b) k} \<subseteq> {k. hm_contains (pp_last_seen_at b) k}"
  using presence_run.run_inv [OF presence_new_inv, of evs]
  unfolding Let_def presence_inv_def by blast

section \<open>Announcements and staleness\<close>

definition apply_announcement ::
  "string \<times> peer_announcement \<times> u64 \<Rightarrow> peer_presence_book \<Rightarrow> peer_presence_book" where
  "apply_announcement i b = (case i of (sender, a, t) \<Rightarrow> snd (apply_signal sender (Announce a) t b))"

interpretation act: newest_book "\<lambda>b. hm_get (pp_active b)" apply_announcement fst "\<lambda>i. fst (snd i)"
    pa_timestamp
  by unfold_locales
    (auto simp: apply_announcement_def apply_signal_def Let_def should_update_def hm_simps fun_eq_iff
      split: option.splits)

interpretation knw: newest_book "\<lambda>b. hm_get (pp_known b)" apply_announcement fst "\<lambda>i. fst (snd i)"
    pa_timestamp
  by unfold_locales
    (auto simp: apply_announcement_def apply_signal_def Let_def should_update_def hm_simps fun_eq_iff
      split: option.splits)

text \<open>
  Announcements arriving in any order leave every sender active with its newest time
  stamp; a sender's active announcement is one it sent or had before; and a Disconnect removes
  the sender from the active and from the known peers, whatever it announced.
\<close>

theorem presence_newest_announcement:
  assumes "(s, a, t) \<in> set items" and "set items = set items'"
  shows "(\<exists>e. hm_get (pp_active (fold apply_announcement items b)) s = Some e
      \<and> pa_timestamp a \<le> pa_timestamp e
      \<and> (hm_get (pp_active b) s = Some e \<or> (\<exists>t'. (s, e, t') \<in> set items)))
    \<and> map_option pa_timestamp (hm_get (pp_active (fold apply_announcement items b)) k)
      = map_option pa_timestamp (hm_get (pp_active (fold apply_announcement items' b)) k)
    \<and> announcement_for (snd (apply_signal s (Disconnect n) t' (fold apply_announcement items b))) s = None"
proof (intro conjI)
  obtain e where e: "hm_get (pp_active (fold apply_announcement items b)) s = Some e"
    "pa_timestamp a \<le> pa_timestamp e"
    using act.puts_stamp_ge [OF assms(1), of b] by auto
  from act.puts_source [OF e(1)] have "hm_get (pp_active b) s = Some e \<or> (\<exists>t'. (s, e, t') \<in> set items)"
    by auto
  with e show "\<exists>e. hm_get (pp_active (fold apply_announcement items b)) s = Some e
      \<and> pa_timestamp a \<le> pa_timestamp e
      \<and> (hm_get (pp_active b) s = Some e \<or> (\<exists>t'. (s, e, t') \<in> set items))" by blast
next
  show "map_option pa_timestamp (hm_get (pp_active (fold apply_announcement items b)) k)
      = map_option pa_timestamp (hm_get (pp_active (fold apply_announcement items' b)) k)"
    by (rule act.puts_stamp_order [OF assms(2)])
next
  show "announcement_for (snd (apply_signal s (Disconnect n) t' (fold apply_announcement items b))) s = None"
    by (simp add: announcement_for_def apply_signal_def Let_def hm_simps)
qed

lemma presence_newest_announcement_witness:
  "\<exists>e. hm_get (pp_active (fold apply_announcement
      [(''p'', sample_announcement ''n'' 3, 10), (''p'', sample_announcement ''n'' 2, 11)] presence_new)) ''p'' = Some e
    \<and> 3 \<le> pa_timestamp e"
proof -
  let ?items = "[(''p'', sample_announcement ''n'' 3, 10), (''p'', sample_announcement ''n'' 2, 11)]"
  have "(''p'', sample_announcement ''n'' 3, 10) \<in> set ?items" by simp
  from presence_newest_announcement [OF this refl, of presence_new]
  show ?thesis by (auto simp: sample_announcement_def)
qed

text \<open>
  Pruning presence with a nonzero age deactivates exactly the active participants not seen
  after the cutoff, names each of them once and in order in its result, and forgets neither the
  known announcements nor the times of last contact.
\<close>

theorem presence_prune_exact:
  fixes now :: u64
  assumes "presence_inv b" and "stale \<noteq> 0"
  defines "r \<equiv> presence_prune_stale now stale b"
  shows "sorted_unique (fst r)
    \<and> set (fst r) = {k. hm_contains (pp_active b) k \<and> \<not> seen_after (saturating_sub now stale) b k}
    \<and> hm_get (pp_active (snd r)) = (hm_get (pp_active b)) |` (- set (fst r))
    \<and> hm_get (pp_active_since_at (snd r)) = (hm_get (pp_active_since_at b)) |` (- set (fst r))
    \<and> pp_known (snd r) = pp_known b \<and> pp_last_seen_at (snd r) = pp_last_seen_at b"
proof -
  let ?c = "saturating_sub now stale"
  note get = presence_prune_get [OF assms(1,2), where now = now]
  have wf: "hm_wf (pp_active b)" using assms(1) by (simp add: presence_inv_def)
  have fst: "fst r = sort (map fst (filter (\<lambda>(sender, _). \<not> seen_after ?c b sender) (pp_active b)))"
    using assms(2) by (simp add: r_def presence_prune_stale_def Let_def)
  have su: "sorted_unique (fst r)"
    using wf by (simp add: fst sorted_unique_def hm_wf_def distinct_map_filter)
  have set: "set (fst r) = {k. hm_contains (pp_active b) k \<and> \<not> seen_after ?c b k}"
    by (force simp: fst hm_contains_iff_in)
  have none: "hm_get (pp_active b) k = None \<and> hm_get (pp_active_since_at b) k = None"
    if "\<not> hm_contains (pp_active b) k" for k
    using that presence_inactive [OF assms(1)] by (simp add: hm_contains_get)
  have "hm_get (pp_active (snd r)) k = (hm_get (pp_active b) |` (- set (fst r))) k" for k
    using none [of k] by (simp add: r_def [symmetric] get(1) [folded r_def] set restrict_map_def)
  moreover have "hm_get (pp_active_since_at (snd r)) k = (hm_get (pp_active_since_at b) |` (- set (fst r))) k" for k
    using none [of k] by (simp add: get(2) [folded r_def] set restrict_map_def)
  ultimately show ?thesis
    using su set get(3,4) by (simp add: r_def fun_eq_iff)
qed

lemma presence_prune_exact_witness:
  "let b = snd (apply_signal ''p'' (Announce (sample_announcement ''n'' 3)) 10 presence_new)
   in set (fst (presence_prune_stale 60 20 b)) = {''p''} \<and> pp_known (snd (presence_prune_stale 60 20 b)) = pp_known b"
proof -
  define b where "b = snd (apply_signal ''p'' (Announce (sample_announcement ''n'' 3)) 10 presence_new)"
  have "presence_inv b" unfolding b_def by (rule apply_signal_inv [OF presence_new_inv])
  from presence_prune_exact [OF this, of 20 60]
  have "pp_known (snd (presence_prune_stale 60 20 b)) = pp_known b" by simp
  moreover have "fst (presence_prune_stale 60 20 b) = [''p'']" unfolding b_def by code_simp
  ultimately show ?thesis by (simp add: b_def Let_def)
qed

end
