(* ===== verification/Tunnel_Plan.thy ===== *)
theory Tunnel_Plan
  imports Signal_Endpoints Magic_Dns Presence
begin

text \<open>
  \<open>crates/nostr-vpn-cli/src/main.rs\<close>: from the announcements of the participants to the peers the tunnel is
  configured with: which routes go to whom, which endpoint each peer is dialled at, and what
  follows from a plan (route targets, heartbeats, NAT punches, fingerprints).
\<close>

datatype target_os = Linux | Macos | Windows | OtherOs

definition MIN_PEER_SIGNAL_TIMEOUT_SECS :: u64 where "MIN_PEER_SIGNAL_TIMEOUT_SECS = 20"
definition PEER_SIGNAL_TIMEOUT_MULTIPLIER :: u64 where "PEER_SIGNAL_TIMEOUT_MULTIPLIER = 3"
definition MIN_PEER_PATH_CACHE_TIMEOUT_SECS :: u64 where "MIN_PEER_PATH_CACHE_TIMEOUT_SECS = 60"
definition PEER_PATH_CACHE_TIMEOUT_MULTIPLIER :: u64 where "PEER_PATH_CACHE_TIMEOUT_MULTIPLIER = 3"
definition PEER_PATH_RETRY_AFTER_SECS :: u64 where "PEER_PATH_RETRY_AFTER_SECS = 5"
definition MIN_PERSISTED_PEER_CACHE_TIMEOUT_SECS :: u64 where "MIN_PERSISTED_PEER_CACHE_TIMEOUT_SECS = 600"
definition PERSISTED_PEER_CACHE_TIMEOUT_MULTIPLIER :: u64 where "PERSISTED_PEER_CACHE_TIMEOUT_MULTIPLIER = 30"
definition MIN_PERSISTED_PATH_CACHE_TIMEOUT_SECS :: u64 where "MIN_PERSISTED_PATH_CACHE_TIMEOUT_SECS = 1800"
definition PERSISTED_PATH_CACHE_TIMEOUT_MULTIPLIER :: u64 where "PERSISTED_PATH_CACHE_TIMEOUT_MULTIPLIER = 90"

text \<open>The configured participants other than the node itself.\<close>

definition other_participants :: "app_config \<Rightarrow> string option \<Rightarrow> string list" where
  "other_participants app own_pubkey = filter (\<lambda>p. Some p \<noteq> own_pubkey) (participant_pubkeys_hex app)"

type_synonym announcements = "(string, peer_announcement) hmap"

section \<open>Routes\<close>

definition parse_exit_node_arg :: "key_env \<Rightarrow> string \<Rightarrow> string option option" where
  "parse_exit_node_arg E value =
    (let v = trim value
     in if v = [] \<or> to_ascii_lowercase v \<in> {''off'', ''none'', ''disable'', ''disabled'', ''clear''}
        then Some None
        else map_option Some (normalize_nostr_pubkey E v))"

fun parse_route_list :: "string list \<Rightarrow> string list \<Rightarrow> string + string list" where
  "parse_route_list [] routes = Inr routes"
| "parse_route_list (raw # raws) routes =
    (if trim raw = [] then parse_route_list raws routes
     else (case normalize_advertised_route (trim raw) of
         None \<Rightarrow> Inl (trim raw)
       | Some route \<Rightarrow> parse_route_list raws (if route \<in> set routes then routes else routes @ [route])))"

definition parse_advertised_routes_arg :: "string \<Rightarrow> string + string list" where
  "parse_advertised_routes_arg value =
    (if trim value = [] then Inr [] else parse_route_list (split_char (CHR '','') (trim value)) [])"

definition cli_is_exit_node_route :: "string \<Rightarrow> bool" where
  "cli_is_exit_node_route route \<longleftrightarrow> route = ''0.0.0.0/0'' \<or> route = ''::/0''"

fun platform_supports_exit_node_client :: "target_os \<Rightarrow> bool" where
  "platform_supports_exit_node_client OtherOs = False"
| "platform_supports_exit_node_client _ = True"

definition route_is_host_route :: "string \<Rightarrow> bool" where
  "route_is_host_route route =
    (case split_once (CHR ''/'') route of
       None \<Rightarrow> True
     | Some (host, bits) \<Rightarrow>
         (case parse_u8 bits of
            None \<Rightarrow> False
          | Some bits \<Rightarrow>
              (case parse_ip host of
                 Some (V4 _) \<Rightarrow> bits = 32
               | Some (V6 _) \<Rightarrow> bits = 128
               | None \<Rightarrow> False)))"

definition route_targets_require_endpoint_bypass :: "string list \<Rightarrow> bool" where
  "route_targets_require_endpoint_bypass route_targets = list_ex (\<lambda>r. \<not> route_is_host_route r) route_targets"

definition withhold_macos_default_route :: "string list \<Rightarrow> bool \<times> string list" where
  "withhold_macos_default_route route_targets =
    (if ''0.0.0.0/0'' \<in> set route_targets then (True, filter (\<lambda>r. r \<noteq> ''0.0.0.0/0'') route_targets)
     else (False, route_targets))"

definition ipv4_route :: "string \<Rightarrow> string option" where
  "ipv4_route route0 =
    (case normalize_advertised_route route0 of
       None \<Rightarrow> None
     | Some route \<Rightarrow> if parse_ipv4 (cli_strip_cidr route) = None then None else Some route)"

definition normalized_peer_ipv4_routes :: "peer_announcement \<Rightarrow> string list" where
  "normalized_peer_ipv4_routes a = first_occurrences ipv4_route (pa_advertised_routes a) []"

definition selected_exit_node_participant ::
  "target_os \<Rightarrow> app_config \<Rightarrow> string option \<Rightarrow> announcements \<Rightarrow> string option" where
  "selected_exit_node_participant os app own_pubkey announcements =
    (if \<not> platform_supports_exit_node_client os then None
     else if ac_exit_node app = [] \<or> Some (ac_exit_node app) = own_pubkey then None
     else (case hm_get announcements (ac_exit_node app) of
         None \<Rightarrow> None
       | Some a \<Rightarrow> if ''0.0.0.0/0'' \<in> set (normalized_peer_ipv4_routes a)
                   then Some (ac_exit_node app) else None))"

text \<open>\<open>entry().or_insert\<close>: the first participant who announces a route keeps it.\<close>

definition claim_route :: "string option \<Rightarrow> string \<Rightarrow> string \<Rightarrow> (string, string) hmap \<Rightarrow> (string, string) hmap" where
  "claim_route selected_exit_node participant route owners =
    (if cli_is_exit_node_route route \<and> selected_exit_node \<noteq> Some participant then owners
     else if hm_contains owners route then owners
     else hm_insert route participant owners)"

definition claim_routes ::
  "string option \<Rightarrow> announcements \<Rightarrow> string \<Rightarrow> (string, string) hmap \<Rightarrow> (string, string) hmap" where
  "claim_routes selected_exit_node announcements participant owners =
    (case hm_get announcements participant of
       None \<Rightarrow> owners
     | Some a \<Rightarrow> fold (claim_route selected_exit_node participant) (normalized_peer_ipv4_routes a) owners)"

definition route_owners ::
  "target_os \<Rightarrow> app_config \<Rightarrow> string option \<Rightarrow> announcements \<Rightarrow> (string, string) hmap" where
  "route_owners os app own_pubkey announcements =
    fold (claim_routes (selected_exit_node_participant os app own_pubkey announcements) announcements)
      (other_participants app own_pubkey) []"

definition push_route :: "string \<times> string \<Rightarrow> (string, string list) hmap \<Rightarrow> (string, string list) hmap" where
  "push_route rp assignments = (case rp of (route, participant) \<Rightarrow>
    hm_insert participant
      ((case hm_get assignments participant of None \<Rightarrow> [] | Some routes \<Rightarrow> routes) @ [route]) assignments)"

definition advertised_route_assignments ::
  "target_os \<Rightarrow> app_config \<Rightarrow> string option \<Rightarrow> announcements \<Rightarrow> (string, string list) hmap" where
  "advertised_route_assignments os app own_pubkey announcements =
    hm_map_values (\<lambda>_. sort_dedup) (fold push_route (route_owners os app own_pubkey announcements) [])"

definition assigned_routes :: "(string, string list) hmap \<Rightarrow> string \<Rightarrow> string list" where
  "assigned_routes assignments participant =
    (case hm_get assignments participant of None \<Rightarrow> [] | Some routes \<Rightarrow> routes)"

section \<open>The plan\<close>

record tunnel_peer =
  tu_pubkey_hex :: string
  tu_endpoint :: string
  tu_allowed_ips :: "string list"

record planned_tunnel_peer =
  pl_participant :: string
  pl_endpoint :: string
  pl_peer :: tunnel_peer

datatype plan_error =
    InvalidPeerEndpoint string
  | InvalidPeerKey string
  | SelectPanic select_panic

definition tunnel_peer_from_endpoint ::
  "(string \<Rightarrow> string option) \<Rightarrow> peer_announcement \<Rightarrow> string \<Rightarrow> string list \<Rightarrow> plan_error + tunnel_peer" where
  "tunnel_peer_from_endpoint b64 a endpoint0 routed_ips =
    (case parse_socket_addr endpoint0 of
       None \<Rightarrow> Inl (InvalidPeerEndpoint endpoint0)
     | Some endpoint \<Rightarrow>
         (case key_b64_to_hex b64 (pa_public_key a) of
            None \<Rightarrow> Inl (InvalidPeerKey (pa_public_key a))
          | Some pubkey_hex \<Rightarrow> Inr \<lparr>tu_pubkey_hex = pubkey_hex, tu_endpoint = print_socket_addr endpoint,
              tu_allowed_ips = fold push_unseen routed_ips [cli_strip_cidr (pa_tunnel_ip a) @ ''/32'']\<rparr>))"

definition choose_endpoint ::
  "peer_path_book \<Rightarrow> string \<Rightarrow> peer_announcement \<Rightarrow> string list \<Rightarrow> u64 \<Rightarrow> select_panic + string" where
  "choose_endpoint book participant a own_local_endpoints now =
    (case select_endpoint_for_local_endpoints book participant a own_local_endpoints now PEER_PATH_RETRY_AFTER_SECS of
       Inl panic \<Rightarrow> Inl panic
     | Inr (Some endpoint) \<Rightarrow> Inr endpoint
     | Inr None \<Rightarrow> Inr (select_peer_endpoint_from_local_endpoints a own_local_endpoints))"

record plan_input =
  pi_b64 :: "string \<Rightarrow> string option"
  pi_app :: app_config
  pi_announcements :: announcements
  pi_routes :: "(string, string list) hmap"
  pi_own_local_endpoints :: "string list"
  pi_now :: u64

text \<open>The loop over the participants; it stops at the first error with the book as it is then.\<close>

fun plan_peers ::
  "plan_input \<Rightarrow> string list \<Rightarrow> planned_tunnel_peer list \<Rightarrow> peer_path_book
    \<Rightarrow> (plan_error + planned_tunnel_peer list) \<times> peer_path_book" where
  "plan_peers I [] peers book = (Inr peers, book)"
| "plan_peers I (participant # participants) peers book =
    (case hm_get (pi_announcements I) participant of
       None \<Rightarrow> plan_peers I participants peers book
     | Some announcement \<Rightarrow>
         (let a = without_expired_relay announcement (pi_now I);
              book = snd (refresh_from_announcement participant a (pi_now I) book)
          in (case choose_endpoint book participant a (pi_own_local_endpoints I) (pi_now I) of
                Inl panic \<Rightarrow> (Inl (SelectPanic panic), book)
              | Inr selected \<Rightarrow>
                  if peer_endpoint_requires_public_signal (pi_app I) a selected (pi_own_local_endpoints I)
                  then plan_peers I participants peers book
                  else (case tunnel_peer_from_endpoint (pi_b64 I) a selected
                          (assigned_routes (pi_routes I) participant) of
                      Inl error \<Rightarrow> (Inl error, book)
                    | Inr peer \<Rightarrow> plan_peers I participants
                        (peers @ [\<lparr>pl_participant = participant, pl_endpoint = selected, pl_peer = peer\<rparr>]) book))))"

definition planned_tunnel_peers_for_local_endpoints ::
  "target_os \<Rightarrow> (string \<Rightarrow> string option) \<Rightarrow> app_config \<Rightarrow> string option \<Rightarrow> announcements \<Rightarrow> peer_path_book
    \<Rightarrow> string list \<Rightarrow> u64 \<Rightarrow> (plan_error + planned_tunnel_peer list) \<times> peer_path_book" where
  "planned_tunnel_peers_for_local_endpoints os b64 app own_pubkey announcements book own_local_endpoints now =
    (let others = other_participants app own_pubkey;
         I = \<lparr>pi_b64 = b64, pi_app = app, pi_announcements = announcements,
              pi_routes = advertised_route_assignments os app own_pubkey announcements,
              pi_own_local_endpoints = own_local_endpoints, pi_now = now\<rparr>
     in (case plan_peers I others [] (retain_participants (set others) book) of
           (Inl error, book) \<Rightarrow> (Inl error, book)
         | (Inr peers, book) \<Rightarrow> (Inr (sort_key (tu_pubkey_hex \<circ> pl_peer) peers), book)))"

section \<open>What runs beside the tunnel\<close>

text \<open>The order of socket addresses: by version, address, port and scope.\<close>

fun sock_order :: "socket_addr \<Rightarrow> nat \<times> nat \<times> nat \<times> nat" where
  "sock_order (SockV4 ip port) = (0, unat ip, unat port, 0)"
| "sock_order (SockV6 ip port scope) = (1, unat ip, unat port, unat scope)"

lemma sock_order_inj: "sock_order a = sock_order b \<longleftrightarrow> a = b"
  by (cases a; cases b) (simp_all add: word_unat_eq_iff)

instantiation socket_addr :: linorder
begin

definition less_eq_socket_addr :: "socket_addr \<Rightarrow> socket_addr \<Rightarrow> bool" where
  "less_eq_socket_addr a b \<longleftrightarrow> sock_order a \<le> sock_order b"

definition less_socket_addr :: "socket_addr \<Rightarrow> socket_addr \<Rightarrow> bool" where
  "less_socket_addr a b \<longleftrightarrow> sock_order a < sock_order b"

instance
  by standard (auto simp: less_eq_socket_addr_def less_socket_addr_def sock_order_inj
      intro: order_trans simp del: sock_order.simps)

end

definition mesh_has_recent_handshake_peer ::
  "(string \<Rightarrow> string option) \<Rightarrow> u64 \<Rightarrow> app_config \<Rightarrow> string option \<Rightarrow> announcements
    \<Rightarrow> runtime_peers option \<Rightarrow> bool" where
  "mesh_has_recent_handshake_peer b64 now app own_pubkey announcements runtime_peers =
    list_ex (\<lambda>p. case hm_get announcements p of
        None \<Rightarrow> False | Some a \<Rightarrow> has_recent_runtime_peer b64 now runtime_peers a)
      (other_participants app own_pubkey)"

definition nat_punch_target ::
  "plan_input \<Rightarrow> runtime_peers option \<Rightarrow> bool \<Rightarrow> peer_path_book \<Rightarrow> string
    \<Rightarrow> select_panic + socket_addr option" where
  "nat_punch_target I runtime_peers mesh_recent book participant =
    (case hm_get (pi_announcements I) participant of
       None \<Rightarrow> Inr None
     | Some announcement \<Rightarrow>
         (let a = without_expired_relay announcement (pi_now I)
          in if has_recent_runtime_peer (pi_b64 I) (pi_now I) runtime_peers announcement then Inr None
             else if mesh_recent \<and> assigned_routes (pi_routes I) participant = [] then Inr None
             else (case choose_endpoint book participant a (pi_own_local_endpoints I) (pi_now I) of
                 Inl panic \<Rightarrow> Inl panic
               | Inr selected \<Rightarrow>
                   if peer_endpoint_requires_public_signal (pi_app I) a selected (pi_own_local_endpoints I)
                   then Inr None
                   else if list_ex (endpoints_share_local_only_ipv4_subnet selected) (pi_own_local_endpoints I)
                   then Inr None
                   else Inr (parse_socket_addr selected))))"

fun collect_targets :: "('a \<Rightarrow> 'e + 't option) \<Rightarrow> 'a list \<Rightarrow> 'e + 't list" where
  "collect_targets f [] = Inr []"
| "collect_targets f (x # xs) =
    (case f x of
       Inl e \<Rightarrow> Inl e
     | Inr t \<Rightarrow> (case collect_targets f xs of
         Inl e \<Rightarrow> Inl e
       | Inr ts \<Rightarrow> Inr (case t of None \<Rightarrow> ts | Some v \<Rightarrow> v # ts)))"

definition pending_nat_punch_targets_for_local_endpoints ::
  "target_os \<Rightarrow> (string \<Rightarrow> string option) \<Rightarrow> app_config \<Rightarrow> string option \<Rightarrow> announcements \<Rightarrow> peer_path_book
    \<Rightarrow> runtime_peers option \<Rightarrow> string list \<Rightarrow> u64 \<Rightarrow> select_panic + socket_addr list" where
  "pending_nat_punch_targets_for_local_endpoints os b64 app own_pubkey announcements book runtime_peers
      own_local_endpoints now =
    (let I = \<lparr>pi_b64 = b64, pi_app = app, pi_announcements = announcements,
              pi_routes = advertised_route_assignments os app own_pubkey announcements,
              pi_own_local_endpoints = own_local_endpoints, pi_now = now\<rparr>;
         mesh_recent = mesh_has_recent_handshake_peer b64 now app own_pubkey announcements runtime_peers
     in (case collect_targets (nat_punch_target I runtime_peers mesh_recent book) (other_participants app own_pubkey) of
           Inl panic \<Rightarrow> Inl panic | Inr targets \<Rightarrow> Inr (sort_dedup targets)))"

definition nat_punch_fingerprint :: "socket_addr list \<Rightarrow> u16 \<Rightarrow> string option" where
  "nat_punch_fingerprint targets listen_port =
    (if targets = [] then None
     else Some (dec (unat listen_port) @ ''|'' @ join '';'' (map print_socket_addr targets)))"

definition pending_tunnel_heartbeat_ips ::
  "(string \<Rightarrow> string option) \<Rightarrow> u64 \<Rightarrow> app_config \<Rightarrow> string option \<Rightarrow> announcements
    \<Rightarrow> runtime_peers option \<Rightarrow> ipv4_addr list" where
  "pending_tunnel_heartbeat_ips b64 now app own_pubkey announcements runtime_peers =
    sort_dedup (List.map_filter (\<lambda>p. case hm_get announcements p of
        None \<Rightarrow> None
      | Some a \<Rightarrow> if has_recent_runtime_peer b64 now runtime_peers a then None
                  else parse_ipv4 (cli_strip_cidr (pa_tunnel_ip a)))
      (other_participants app own_pubkey))"

definition add_runtime_record ::
  "key_env \<Rightarrow> app_config \<Rightarrow> announcements \<Rightarrow> string \<Rightarrow> (string, ipv4_addr) hmap \<Rightarrow> (string, ipv4_addr) hmap" where
  "add_runtime_record E app announcements participant records =
    (case peer_alias E app participant of
       None \<Rightarrow> records
     | Some alias \<Rightarrow>
         (case Option.bind (hm_get announcements participant) (\<lambda>a. parse_ipv4 (cli_strip_cidr (pa_tunnel_ip a))) of
            None \<Rightarrow> records
          | Some ip \<Rightarrow> insert_names (record_suffix (ac_magic_dns_suffix app)) alias ip records))"

definition build_runtime_magic_dns_records ::
  "key_env \<Rightarrow> app_config \<Rightarrow> announcements \<Rightarrow> (string, ipv4_addr) hmap" where
  "build_runtime_magic_dns_records E app announcements =
    fold (add_runtime_record E app announcements) (participant_pubkeys_hex app) (build_magic_dns_records E app)"

section \<open>Route targets\<close>

definition route_targets_for_tunnel_peers :: "tunnel_peer list \<Rightarrow> string list" where
  "route_targets_for_tunnel_peers peers = sort_dedup (concat (map tu_allowed_ips peers))"

definition runtime_peer_endpoints_require_refresh ::
  "planned_tunnel_peer list \<Rightarrow> announcements \<Rightarrow> runtime_peers option \<Rightarrow> string list \<Rightarrow> bool" where
  "runtime_peer_endpoints_require_refresh planned_peers announcements runtime_peers own_local_endpoints =
    (case runtime_peers of
       None \<Rightarrow> False
     | Some peers \<Rightarrow> list_ex (\<lambda>planned.
         (case hm_get announcements (pl_participant planned) of
            None \<Rightarrow> False
          | Some a \<Rightarrow>
              (case hm_get peers (tu_pubkey_hex (pl_peer planned)) of
                 None \<Rightarrow> False
               | Some p \<Rightarrow>
                   (case wp_endpoint p of
                      None \<Rightarrow> False
                    | Some runtime_endpoint \<Rightarrow>
                        (\<not> has_handshake p \<and> \<not> daemon_endpoint_is_local_only runtime_endpoint
                           \<and> runtime_endpoint \<noteq> pl_endpoint planned)
                        \<or> runtime_endpoint_requires_refresh runtime_endpoint (pl_endpoint planned) a
                            own_local_endpoints)))) planned_peers)"

text \<open>
  Whether the default route may point into the tunnel, on macOS. \<open>own_local_endpoints\<close> are those for
  the configured port.
\<close>

definition selected_exit_node_ready_for_default_route ::
  "target_os \<Rightarrow> app_config \<Rightarrow> string option \<Rightarrow> announcements \<Rightarrow> planned_tunnel_peer list \<Rightarrow> peer_path_book
    \<Rightarrow> runtime_peers option \<Rightarrow> string list \<Rightarrow> u64 \<Rightarrow> bool" where
  "selected_exit_node_ready_for_default_route os app own_pubkey announcements planned_peers book
      runtime_peers own_local_endpoints now =
    (case selected_exit_node_participant os app own_pubkey announcements of
       None \<Rightarrow> False
     | Some participant \<Rightarrow>
    (case hm_get announcements participant of
       None \<Rightarrow> False
     | Some a \<Rightarrow>
    (case find (\<lambda>planned. pl_participant planned = participant) planned_peers of
       None \<Rightarrow> False
     | Some planned \<Rightarrow>
         if pa_relay_endpoint a = Some (pl_endpoint planned)
            \<and> (case pa_relay_expires_at a of None \<Rightarrow> True | Some expires_at \<Rightarrow> now < expires_at)
         then True
         else (let recent_success = endpoint_has_recent_success_for_local_endpoints book participant
                     (pl_endpoint planned) own_local_endpoints now PEER_ONLINE_GRACE_SECS
               in (case Option.bind runtime_peers (\<lambda>peers. hm_get peers (tu_pubkey_hex (pl_peer planned))) of
                     None \<Rightarrow> recent_success
                   | Some p \<Rightarrow>
                       if recent_success then True
                       else peer_has_recent_handshake now p
                         \<and> (case wp_endpoint p of
                              None \<Rightarrow> False
                            | Some runtime_endpoint \<Rightarrow>
                                \<not> runtime_endpoint_requires_refresh runtime_endpoint (pl_endpoint planned) a
                                    own_local_endpoints))))))"

definition route_targets_for_planned_tunnel_peers ::
  "target_os \<Rightarrow> app_config \<Rightarrow> string option \<Rightarrow> announcements \<Rightarrow> planned_tunnel_peer list \<Rightarrow> peer_path_book
    \<Rightarrow> runtime_peers option \<Rightarrow> string list \<Rightarrow> u64 \<Rightarrow> string list" where
  "route_targets_for_planned_tunnel_peers os app own_pubkey announcements planned_peers book runtime_peers
      own_local_endpoints now =
    (let route_targets = route_targets_for_tunnel_peers (map pl_peer planned_peers)
     in if os \<noteq> Macos then route_targets
        else if \<not> selected_exit_node_ready_for_default_route os app own_pubkey announcements planned_peers
            book runtime_peers own_local_endpoints now
        then filter (\<lambda>r. r \<noteq> ''0.0.0.0/0'') route_targets
        else if ''0.0.0.0/0'' \<in> set route_targets then route_targets
        else sort (route_targets @ [''0.0.0.0/0'']))"

section \<open>Addresses, time-outs and fingerprints\<close>

definition local_interface_address_for_tunnel :: "string \<Rightarrow> string" where
  "local_interface_address_for_tunnel tunnel_ip0 =
    (let tunnel_ip = trim tunnel_ip0
     in if tunnel_ip = [] then []
        else if CHR ''/'' \<in> set tunnel_ip then tunnel_ip
        else cli_strip_cidr tunnel_ip @ ''/32'')"

definition saturating_mul :: "u64 \<Rightarrow> u64 \<Rightarrow> u64" where
  "saturating_mul a b = (if unat a * unat b < 2 ^ 64 then a * b else - 1)"

definition peer_signal_timeout_secs :: "u64 \<Rightarrow> u64" where
  "peer_signal_timeout_secs announce_interval_secs =
    max (saturating_mul (max announce_interval_secs 5) PEER_SIGNAL_TIMEOUT_MULTIPLIER) MIN_PEER_SIGNAL_TIMEOUT_SECS"

definition peer_path_cache_timeout_secs :: "u64 \<Rightarrow> u64" where
  "peer_path_cache_timeout_secs announce_interval_secs =
    max (saturating_mul (peer_signal_timeout_secs announce_interval_secs) PEER_PATH_CACHE_TIMEOUT_MULTIPLIER)
      MIN_PEER_PATH_CACHE_TIMEOUT_SECS"

definition persisted_peer_cache_timeout_secs :: "u64 \<Rightarrow> u64" where
  "persisted_peer_cache_timeout_secs announce_interval_secs =
    max (saturating_mul (max announce_interval_secs 5) PERSISTED_PEER_CACHE_TIMEOUT_MULTIPLIER)
      MIN_PERSISTED_PEER_CACHE_TIMEOUT_SECS"

definition persisted_path_cache_timeout_secs :: "u64 \<Rightarrow> u64" where
  "persisted_path_cache_timeout_secs announce_interval_secs =
    max (saturating_mul (max announce_interval_secs 5) PERSISTED_PATH_CACHE_TIMEOUT_MULTIPLIER)
      MIN_PERSISTED_PATH_CACHE_TIMEOUT_SECS"

definition presence_peer_count :: "app_config \<Rightarrow> string option \<Rightarrow> announcements \<Rightarrow> nat" where
  "presence_peer_count app own_pubkey announcements =
    length (filter (hm_contains announcements) (other_participants app own_pubkey))"

definition tunnel_fingerprint ::
  "string \<Rightarrow> string \<Rightarrow> u16 \<Rightarrow> string \<Rightarrow> tunnel_peer list \<Rightarrow> string" where
  "tunnel_fingerprint iface private_key listen_port local_address peers =
    (let peer_entries = sort (map (\<lambda>p. join ''|'' [tu_pubkey_hex p, tu_endpoint p, join '','' (tu_allowed_ips p)]) peers)
     in join ''|'' [iface, private_key, dec (unat listen_port), local_address, join '';'' peer_entries])"

definition tunnel_runtime_fingerprint :: "string \<Rightarrow> string list \<Rightarrow> string" where
  "tunnel_runtime_fingerprint base route_targets = base @ ''|routes='' @ join '','' (sort route_targets)"

section \<open>The state of a peer's transport\<close>

record daemon_peer_transport_state =
  dt_reachable :: bool
  dt_last_handshake_at :: "u64 option"
  dt_error :: "string option"

definition peer_transport_state ::
  "(string \<Rightarrow> string option) \<Rightarrow> u64 \<Rightarrow> peer_announcement option \<Rightarrow> bool \<Rightarrow> wg_peer_status option \<Rightarrow> u64
    \<Rightarrow> daemon_peer_transport_state" where
  "peer_transport_state b64 clock announcement signal_active runtime_peer now =
    (case announcement of
       None \<Rightarrow> \<lparr>dt_reachable = False, dt_last_handshake_at = None, dt_error = Some ''no signal yet''\<rparr>
     | Some a \<Rightarrow>
         (let reachable = (case runtime_peer of None \<Rightarrow> False | Some p \<Rightarrow> peer_has_recent_handshake clock p);
              error = (if key_b64_to_hex b64 (pa_public_key a) = None then Some ''invalid peer key''
                       else if \<not> signal_active \<and> \<not> reachable then Some ''signal stale''
                       else if runtime_peer = None then Some ''peer not in tunnel runtime''
                       else if \<not> reachable then Some ''awaiting handshake''
                       else None)
          in \<lparr>dt_reachable = reachable,
              dt_last_handshake_at = Option.bind runtime_peer (last_handshake_at now), dt_error = error\<rparr>))"

definition connected_peer_count_for_runtime ::
  "(string \<Rightarrow> string option) \<Rightarrow> u64 \<Rightarrow> app_config \<Rightarrow> string option \<Rightarrow> peer_presence_book
    \<Rightarrow> runtime_peers option \<Rightarrow> nat" where
  "connected_peer_count_for_runtime b64 now app own_pubkey presence runtime_peers =
    length (filter (has_recent_runtime_peer b64 now runtime_peers)
      (List.map_filter (announcement_for presence) (other_participants app own_pubkey)))"

datatype relay_conn_action = KeepConnected | ReconnectWhenDue

definition relay_connection_action :: "bool \<Rightarrow> relay_conn_action" where
  "relay_connection_action relay_connected = (if relay_connected then KeepConnected else ReconnectWhenDue)"

definition daemon_session_active :: "bool \<Rightarrow> nat \<Rightarrow> bool" where
  "daemon_session_active session_enabled expected_peers \<longleftrightarrow> session_enabled \<and> 0 < expected_peers"

definition relay_session_active :: "bool \<Rightarrow> nat \<Rightarrow> bool \<Rightarrow> bool" where
  "relay_session_active session_enabled expected_peers join_requests_active \<longleftrightarrow>
    daemon_session_active session_enabled expected_peers \<or> join_requests_active"

definition daemon_session_idle_status :: "bool \<Rightarrow> nat \<Rightarrow> bool \<Rightarrow> string" where
  "daemon_session_idle_status session_enabled expected_peers join_requests_active =
    (if session_enabled \<and> expected_peers = 0 then ''Waiting for participants''
     else if join_requests_active then ''Listening for join requests''
     else ''Paused'')"

end
