(* ===== verification/Config_Roster.thy ===== *)
theory Config_Roster
  imports Config_Ops
begin

text \<open>
  \<open>crates/nostr-vpn-core/src/config.rs\<close>, third part: the shared roster a node publishes and the
  admin-signed roster it applies, and the properties of all the operations together.
\<close>

section \<open>Shared rosters\<close>

record shared_network_roster_data =
  sr_id :: string
  sr_network_id :: string
  sr_name :: string
  sr_participants :: "string list"
  sr_admins :: "string list"
  sr_aliases :: "(string, string) hmap"
  sr_updated_at :: u64
  sr_signed_by :: string

definition shared_network_roster ::
  "key_env \<Rightarrow> app_config \<Rightarrow> string \<Rightarrow> config_error + shared_network_roster_data" where
  "shared_network_roster E c network_id =
    (case network_by_id c network_id of
       None \<Rightarrow> Inl NetworkNotFound
     | Some n \<Rightarrow>
         (let own = own_nostr_pubkey_hex E c;
              participants = sort_dedup (nc_participants n @ (case own of Some k \<Rightarrow> [k] | None \<Rightarrow> []));
              admins = sort_dedup (nc_admins n);
              alias_keys = sort_dedup (participants @ admins);
              aliases = List.map_filter (\<lambda>member.
                map_option (\<lambda>alias. (member, alias))
                  (if own = Some member then self_magic_dns_label c else peer_alias E c member)) alias_keys
          in Inr \<lparr>sr_id = nc_id n, sr_network_id = normalize_runtime_network_id (nc_network_id n),
               sr_name = nc_name n, sr_participants = participants, sr_admins = admins,
               sr_aliases = aliases, sr_updated_at = nc_shared_roster_updated_at n,
               sr_signed_by = nc_shared_roster_signed_by n\<rparr>))"

text \<open>The network a roster leaves, given its normalised participants and admins.\<close>

definition roster_network ::
  "key_env \<Rightarrow> string \<Rightarrow> string list \<Rightarrow> string list \<Rightarrow> u64 \<Rightarrow> string \<Rightarrow> network_config \<Rightarrow> network_config" where
  "roster_network E network_name participants admins signed_at signed_by n =
    n\<lparr>nc_participants := participants, nc_admins := admins,
      nc_name := (if trim network_name \<noteq> [] then trim network_name else nc_name n),
      nc_invite_inviter := (if nc_invite_inviter n \<notin> set admins then signed_by else nc_invite_inviter n),
      nc_shared_roster_updated_at := signed_at,
      nc_shared_roster_signed_by := signed_by,
      nc_outbound_join_request := normalize_outbound_join_request E (nc_outbound_join_request n),
      nc_inbound_join_requests :=
        normalize_inbound_join_requests E (nc_inbound_join_requests n) participants\<rparr>"

text \<open>The aliases of a roster, taken for its members other than the node itself.\<close>

definition take_alias ::
  "key_env \<Rightarrow> string option \<Rightarrow> string set \<Rightarrow> string \<times> string
    \<Rightarrow> (string, string) hmap \<Rightarrow> (string, string) hmap" where
  "take_alias E own allowed_members pa acc = (case pa of (participant, alias) \<Rightarrow>
    (case normalize_nostr_pubkey E participant of
       None \<Rightarrow> acc
     | Some normalized_participant \<Rightarrow>
         if Some normalized_participant = own then acc
         else if normalized_participant \<notin> allowed_members then acc
         else (case normalize_magic_dns_label alias of
             None \<Rightarrow> acc
           | Some normalized_alias \<Rightarrow>
               hm_insert (npub_for_pubkey_hex E normalized_participant) normalized_alias acc)))"

definition apply_admin_signed_shared_roster ::
  "key_env \<Rightarrow> u64 \<Rightarrow> string \<Rightarrow> string \<Rightarrow> string list \<Rightarrow> string list \<Rightarrow> (string, string) hmap \<Rightarrow> u64 \<Rightarrow> string
    \<Rightarrow> app_config \<Rightarrow> bool outcome" where
  "apply_admin_signed_shared_roster E now network_id0 network_name participants0 admins0 aliases
      signed_at signed_by0 c =
    (let network_id = normalize_runtime_network_id network_id0
     in if network_id = [] then (Inr False, c)
        else (case normalize_nostr_pubkey E signed_by0 of
            None \<Rightarrow> (Inl InvalidPubkey, c)
          | Some signed_by \<Rightarrow>
              (let own = own_nostr_pubkey_hex E c;
                   matches = (\<lambda>n. normalize_runtime_network_id (nc_network_id n) = network_id)
               in if saturating_add now MAX_SHARED_ROSTER_FUTURE_SECS < signed_at then (Inl RosterInFuture, c)
                  else (case find matches (ac_networks c) of
                      None \<Rightarrow> (Inr False, c)
                    | Some network \<Rightarrow>
                        if signed_by \<notin> set (nc_admins network) then (Inr False, c)
                        else if signed_at \<le> nc_shared_roster_updated_at network then (Inr False, c)
                        else (case normalize_shared_roster_participants E participants0 own of
                            None \<Rightarrow> (Inl InvalidPubkey, c)
                          | Some participants \<Rightarrow>
                              (let admins = normalize_network_admins E admins0 own (nc_invite_inviter network)
                               in if admins = [] then (Inl RosterWithoutAdmin, c)
                                  else (let c1 = c\<lparr>ac_networks := update_first matches
                                              (roster_network E network_name participants admins signed_at signed_by)
                                              (ac_networks c)\<rparr>;
                                            c2 = c1\<lparr>ac_peer_aliases := fold
                                              (take_alias E own (set (sort_dedup (participants @ admins))))
                                              aliases (ac_peer_aliases c1)\<rparr>
                                        in (Inr True, normalize_after E c2))))))))"

section \<open>The invariant\<close>

lemma roster_network_ok:
  assumes "key_laws E" "network_ok E n" "norm_keys E ps" "norm_keys E ads" "normalize_nostr_pubkey E k = Some k"
  shows "network_ok E (roster_network E nm ps ads t k n)"
  using assms normalize_nonempty [OF assms(1,5)] norm_inbound_weaken [OF normalize_inbound_norm [OF assms(1)]]
  by (auto simp: roster_network_def network_ok_def empty_or_key_def normalize_outbound_ok)

lemma roster_network_fields [simp]:
  "nc_id (roster_network E nm ps ads t k n) = nc_id n"
  "nc_enabled (roster_network E nm ps ads t k n) = nc_enabled n"
  "nc_network_id (roster_network E nm ps ads t k n) = nc_network_id n"
  by (simp_all add: roster_network_def)

text \<open>When a roster is applied, and what it leaves.\<close>

lemma apply_roster_True:
  assumes "fst (apply_admin_signed_shared_roster E now i nm ps ads al t k c) = Inr True"
  obtains signer n ps' ads' where
    "normalize_nostr_pubkey E k = Some signer" "t \<le> saturating_add now MAX_SHARED_ROSTER_FUTURE_SECS"
    "find (\<lambda>n. normalize_runtime_network_id (nc_network_id n) = normalize_runtime_network_id i) (ac_networks c) = Some n"
    "signer \<in> set (nc_admins n)" "nc_shared_roster_updated_at n < t"
    "normalize_shared_roster_participants E ps (own_nostr_pubkey_hex E c) = Some ps'"
    "normalize_network_admins E ads (own_nostr_pubkey_hex E c) (nc_invite_inviter n) = ads'" "ads' \<noteq> []"
    "ac_networks (snd (apply_admin_signed_shared_roster E now i nm ps ads al t k c)) =
      update_first (\<lambda>n. normalize_runtime_network_id (nc_network_id n) = normalize_runtime_network_id i)
        (roster_network E nm ps' ads' t signer) (ac_networks c)"
    "exit_ok (snd (apply_admin_signed_shared_roster E now i nm ps ads al t k c))"
proof -
  let ?m = "\<lambda>n. normalize_runtime_network_id (nc_network_id n) = normalize_runtime_network_id i"
  obtain signer n ps' where f:
    "normalize_runtime_network_id i \<noteq> []"
    "normalize_nostr_pubkey E k = Some signer" "\<not> saturating_add now MAX_SHARED_ROSTER_FUTURE_SECS < t"
    "find ?m (ac_networks c) = Some n"
    "signer \<in> set (nc_admins n)" "\<not> t \<le> nc_shared_roster_updated_at n"
    "normalize_shared_roster_participants E ps (own_nostr_pubkey_hex E c) = Some ps'"
    "normalize_network_admins E ads (own_nostr_pubkey_hex E c) (nc_invite_inviter n) \<noteq> []"
    using assms
    by (auto simp: apply_admin_signed_shared_roster_def Let_def split: option.splits if_splits)
  define ads' where "ads' = normalize_network_admins E ads (own_nostr_pubkey_hex E c) (nc_invite_inviter n)"
  define al' where "al' = fold (take_alias E (own_nostr_pubkey_hex E c) (set (sort_dedup (ps' @ ads')))) al
     (ac_peer_aliases c)"
  have res: "snd (apply_admin_signed_shared_roster E now i nm ps ads al t k c) =
    normalize_after E (c\<lparr>ac_networks := update_first ?m (roster_network E nm ps' ads' t signer) (ac_networks c),
      ac_peer_aliases := al'\<rparr>)"
    using f by (simp add: apply_admin_signed_shared_roster_def Let_def ads'_def al'_def)
  show ?thesis
    using f
    by (intro that [of signer n ps' ads'])
      (simp_all add: res ads'_def normalize_after_def normalize_peer_aliases_fields normalize_exit_ok not_less not_le)
qed

lemma apply_roster_same:
  "fst (apply_admin_signed_shared_roster E now i nm ps ads al t k c) \<noteq> Inr True \<Longrightarrow>
    snd (apply_admin_signed_shared_roster E now i nm ps ads al t k c) = c"
  by (auto simp: apply_admin_signed_shared_roster_def Let_def split: option.splits if_splits)

lemma apply_roster_ok:
  assumes "key_laws E" "config_ok E c"
  shows "config_ok E (snd (apply_admin_signed_shared_roster E now i nm ps ads al t k c))"
proof (cases "fst (apply_admin_signed_shared_roster E now i nm ps ads al t k c) = Inr True")
  case True
  then obtain signer n ps' ads' where r:
    "normalize_nostr_pubkey E k = Some signer"
    and "t \<le> saturating_add now MAX_SHARED_ROSTER_FUTURE_SECS"
    and "find (\<lambda>n. normalize_runtime_network_id (nc_network_id n) = normalize_runtime_network_id i) (ac_networks c) = Some n"
    and "signer \<in> set (nc_admins n)" and "nc_shared_roster_updated_at n < t"
    and rp: "normalize_shared_roster_participants E ps (own_nostr_pubkey_hex E c) = Some ps'"
    and ra: "normalize_network_admins E ads (own_nostr_pubkey_hex E c) (nc_invite_inviter n) = ads'"
    and "ads' \<noteq> []"
    and rn: "ac_networks (snd (apply_admin_signed_shared_roster E now i nm ps ads al t k c)) =
      update_first (\<lambda>n. normalize_runtime_network_id (nc_network_id n) = normalize_runtime_network_id i)
        (roster_network E nm ps' ads' t signer) (ac_networks c)"
    and "exit_ok (snd (apply_admin_signed_shared_roster E now i nm ps ads al t k c))"
    by (rule apply_roster_True)
  have "norm_keys E ps'" by (rule normalize_roster_participants_norm(1) [OF assms(1) rp])
  moreover have "norm_keys E ads'"
    unfolding ra [symmetric]
    by (rule normalize_admins_norm [OF assms(1)]) (use own_nostr_ok [OF assms(1)] in \<open>simp add: own_ok_def\<close>)
  moreover have "normalize_nostr_pubkey E signer = Some signer" by (rule normalize_fixed [OF assms(1) r])
  ultimately have "config_ok E (c\<lparr>ac_networks := update_first
      (\<lambda>n. normalize_runtime_network_id (nc_network_id n) = normalize_runtime_network_id i)
        (roster_network E nm ps' ads' t signer) (ac_networks c)\<rparr>)"
    using assms by (intro config_ok_update_first) (simp_all add: roster_network_ok)
  then show ?thesis by (simp add: config_ok_def rn)
qed (simp add: apply_roster_same assms)

section \<open>Every sequence of operations\<close>

datatype config_event =
    AddNetwork u64 string
  | RenameNetwork u64 string string
  | RemoveNetwork string
  | SetNetworkEnabled string bool
  | SetJoinRequestsEnabled string bool
  | SetMeshId string string
  | SetActiveNetworkId string
  | RecordJoinRequest string string string u64
  | AddParticipant u64 string string
  | RemoveParticipant u64 string string
  | AddAdmin u64 string string
  | RemoveAdmin u64 string string
  | SetPeerAlias u64 string string
  | NoteRosterChange u64
  | ApplyRoster u64 string string "string list" "string list" "(string, string) hmap" u64 string
  | EnsureDefaults host_env

fun config_step :: "key_env \<Rightarrow> config_event \<Rightarrow> app_config \<Rightarrow> app_config" where
  "config_step E (AddNetwork now name) c = snd (add_network E now name c)"
| "config_step E (RenameNetwork now i name) c = snd (rename_network E now i name c)"
| "config_step E (RemoveNetwork i) c = snd (remove_network E i c)"
| "config_step E (SetNetworkEnabled i b) c = snd (set_network_enabled i b c)"
| "config_step E (SetJoinRequestsEnabled i b) c = snd (set_network_join_requests_enabled i b c)"
| "config_step E (SetMeshId i m) c = snd (set_network_mesh_id i m c)"
| "config_step E (SetActiveNetworkId m) c = snd (set_active_network_id m c)"
| "config_step E (RecordJoinRequest i r name t) c = snd (record_inbound_join_request E i r name t c)"
| "config_step E (AddParticipant now i p) c = snd (add_participant_to_network E now i p c)"
| "config_step E (RemoveParticipant now i p) c = snd (remove_participant_from_network E now i p c)"
| "config_step E (AddAdmin now i p) c = snd (add_admin_to_network E now i p c)"
| "config_step E (RemoveAdmin now i p) c = snd (remove_admin_from_network E now i p c)"
| "config_step E (SetPeerAlias now p alias) c = snd (set_peer_alias E now p alias c)"
| "config_step E (NoteRosterChange now) c = snd (note_active_network_roster_local_change E now c)"
| "config_step E (ApplyRoster now i nm ps ads al t k) c =
    snd (apply_admin_signed_shared_roster E now i nm ps ads al t k c)"
| "config_step E (EnsureDefaults H) c = ensure_defaults E H c"

lemma config_step_ok: "key_laws E \<Longrightarrow> config_ok E c \<Longrightarrow> config_ok E (config_step E ev c)"
  by (cases ev)
    (simp_all add: add_network_ok rename_network_ok remove_network_ok set_network_enabled_ok
      set_join_requests_ok set_mesh_id_ok record_inbound_ok add_participant_ok remove_participant_ok
      add_admin_ok remove_admin_ok set_peer_alias_ok apply_roster_ok ensure_defaults_facts(1)
      set_active_network_id_def note_active_network_roster_local_change_def note_change_ok)

text \<open>The invariant that the code keeps in the presence of the laws of the key library.\<close>

definition config_inv :: "key_env \<Rightarrow> app_config \<Rightarrow> bool" where
  "config_inv E c \<longleftrightarrow> (key_laws E \<longrightarrow> config_ok E c)"

interpretation config_run: stepped "config_step E" "config_inv E" for E
  by unfold_locales (auto simp: config_inv_def config_step_ok)

text \<open>
  C5. From a configuration that was brought into normal form, no sequence of operations,
  failing ones included, ever leaves a configuration without exactly one active network,
  with two networks of one id, or with a network whose member lists are unsorted, repeat a
  member or hold something that is not a normalised key; the network found active is enabled.
\<close>

theorem config_operations_invariant:
  fixes E :: key_env and H :: host_env and c0 :: app_config and evs :: "config_event list"
  assumes "key_laws E"
  defines "c \<equiv> fold (config_step E) evs (ensure_defaults E H c0)"
  shows "enabled_network_count c = 1 \<and> distinct (map nc_id (ac_networks c))
    \<and> nc_enabled (active_network c) \<and> active_network c \<in> set (ac_networks c)
    \<and> (\<forall>n \<in> set (ac_networks c). norm_keys E (nc_participants n) \<and> norm_keys E (nc_admins n))"
proof -
  have "config_inv E (ensure_defaults E H c0)"
    by (simp add: config_inv_def ensure_defaults_facts(1) [OF assms(1)])
  from config_run.run_inv [OF this, of evs] have ok: "config_ok E c"
    by (simp add: config_inv_def assms(1) c_def)
  then show ?thesis
    using config_ok_enabled [OF ok] active_network_in [OF config_ok_ne [OF ok]]
    by (auto simp: config_ok_def enabled_network_count_def list_all_iff network_ok_def)
qed


lemma config_operations_invariant_witness:
  "enabled_network_count (fold (config_step sample_keys)
      [AddNetwork 5 ''Lab'', SetNetworkEnabled ''network-2'' True, RemoveNetwork ''home'']
      (ensure_defaults sample_keys sample_host sample_config)) = 1"
  by (rule config_operations_invariant [OF sample_keys_laws, THEN conjunct1])

section \<open>Admin-signed rosters\<close>

lemma update_first_nth:
  "find P xs = Some x \<Longrightarrow> \<exists>i < length xs. xs ! i = x \<and> update_first P f xs = xs[i := f x] \<and> (\<forall>j<i. \<not> P (xs ! j))"
proof (induction xs)
  case (Cons y ys)
  show ?case
  proof (cases "P y")
    case True
    with Cons.prems show ?thesis by (intro exI [of _ 0]) simp
  next
    case False
    with Cons obtain i where "i < length ys" "ys ! i = x" "update_first P f ys = ys[i := f x]"
      "\<forall>j<i. \<not> P (ys ! j)" by auto
    with False show ?thesis by (intro exI [of _ "Suc i"]) (auto simp: less_Suc_eq_0_disj)
  qed
qed simp




section \<open>Admins and roster times\<close>

text \<open>What no operation takes from a network: its last admin, and its roster time.\<close>

definition kept :: "network_config \<Rightarrow> network_config \<Rightarrow> bool" where
  "kept n n' \<longleftrightarrow> (nc_admins n \<noteq> [] \<longrightarrow> nc_admins n' \<noteq> [])
    \<and> nc_shared_roster_updated_at n \<le> nc_shared_roster_updated_at n'"

definition history :: "string set \<Rightarrow> app_config \<Rightarrow> app_config \<Rightarrow> bool" where
  "history J c c' \<longleftrightarrow> (\<forall>j \<in> J. \<forall>n. network_by_id c j = Some n \<longrightarrow>
     (\<exists>n'. network_by_id c' j = Some n' \<and> kept n n'))"

lemma kept_refl [simp]: "kept n n"
  by (simp add: kept_def)

lemma kept_trans: "kept a b \<Longrightarrow> kept b d \<Longrightarrow> kept a d"
  by (auto simp: kept_def)

lemma history_refl [simp]: "history J c c"
  by (simp add: history_def)

lemma history_trans: "history J a b \<Longrightarrow> history J b d \<Longrightarrow> history J a d"
  unfolding history_def by (meson kept_trans)

lemma history_networks: "ac_networks c' = ac_networks d \<Longrightarrow> history J c c' \<longleftrightarrow> history J c d"
  by (simp add: history_def network_by_id_def)

lemma history_normalized [simp]:
  "history J c (normalize_peer_aliases E d) = history J c d"
  "history J c (normalize_selected_exit_node d) = history J c d"
  "history J c (normalize_after E d) = history J c d"
  by (rule history_networks, simp add: normalize_peer_aliases_fields normalize_after_def)+

lemma history_update_first:
  assumes "find P (ac_networks c) = Some m" "nc_id (f m) = nc_id m" "kept m (f m)"
  shows "history J c (c\<lparr>ac_networks := update_first P f (ac_networks c)\<rparr>)"
proof -
  have "find P ns = Some m \<Longrightarrow> find (\<lambda>n. nc_id n = j) ns = Some n \<Longrightarrow>
      \<exists>n'. find (\<lambda>n. nc_id n = j) (update_first P f ns) = Some n' \<and> kept n n'" for ns j n
  proof (induction ns)
    case (Cons x ns)
    then show ?case using assms(2,3) by (cases "P x"; cases "nc_id x = j") auto
  qed simp
  then show ?thesis using assms(1) by (simp add: history_def network_by_id_def)
qed

lemma history_update_network:
  assumes "\<And>m. network_by_id c i = Some m \<Longrightarrow> nc_id (f m) = nc_id m \<and> kept m (f m)"
  shows "history J c (update_network i f c)"
proof (cases "network_by_id c i")
  case None
  then show ?thesis
    by (simp add: update_network_def network_by_id_def update_first_none)
next
  case (Some m)
  with assms [OF this] show ?thesis
    unfolding update_network_def network_by_id_def by (intro history_update_first) auto
qed

lemma next_updated_ge: "p \<le> next_shared_roster_updated_at now p"
  by (simp add: next_shared_roster_updated_at_def le_max_iff_disj)

lemma history_note: "history J c (snd (note_network_roster_local_change E now i c))"
  by (auto simp: note_network_roster_local_change_def kept_def next_updated_ge
      intro!: history_update_network split: option.split)

lemma history_note_after:
  "history J c d \<Longrightarrow> history J c (snd (note_network_roster_local_change E now i d))"
  using history_trans history_note by blast

lemma history_and_then:
  assumes "history J c (snd r)" "\<And>v d. history J c d \<Longrightarrow> history J c (snd (k v d))"
  shows "history J c (snd (and_then r k))"
  using assms by (simp add: snd_and_then split: sum.split)

lemma history_map:
  assumes "map nc_id ns' = map nc_id (ac_networks c)" "list_all2 kept (ac_networks c) ns'"
  shows "history J c (c\<lparr>ac_networks := ns'\<rparr>)"
proof -
  have "list_all2 kept ns ns' \<Longrightarrow> map nc_id ns' = map nc_id ns \<Longrightarrow> find (\<lambda>n. nc_id n = j) ns = Some n \<Longrightarrow>
      \<exists>n'. find (\<lambda>n. nc_id n = j) ns' = Some n' \<and> kept n n'" for ns ns' j n
    by (induction ns ns' rule: list_all2_induct) (auto split: if_splits)
  with assms show ?thesis by (simp add: history_def network_by_id_def)
qed

lemma history_enabled: "history J c (snd (set_network_enabled i b c))"
proof (cases "network_position i (ac_networks c)")
  case (Some k)
  note k = conjunct1 [OF network_position_Some [OF Some]]
  have "list_all2 kept ns (map (\<lambda>(i, n). n\<lparr>nc_enabled := (i = k)\<rparr>) (enumerate m ns))" for m ns
    by (induction ns arbitrary: m) (simp_all add: kept_def)
  then have "history J c (c\<lparr>ac_networks := map (\<lambda>(i, n). n\<lparr>nc_enabled := (i = k)\<rparr>) (enumerate 0 (ac_networks c))\<rparr>)"
    using enumerate_kept [of k 0 "ac_networks c"] by (intro history_map) auto
  moreover have "history J c (c\<lparr>ac_networks := (ac_networks c)[k := (ac_networks c ! k)\<lparr>nc_enabled := False\<rparr>]\<rparr>)"
  proof (rule history_map)
    show "map nc_id ((ac_networks c)[k := (ac_networks c ! k)\<lparr>nc_enabled := False\<rparr>]) = map nc_id (ac_networks c)"
      using k by (simp add: map_update) (metis list_update_id nth_map)
    show "list_all2 kept (ac_networks c) ((ac_networks c)[k := (ac_networks c ! k)\<lparr>nc_enabled := False\<rparr>])"
      using k by (simp add: list_all2_conv_all_nth nth_list_update) (simp add: kept_def)
  qed
  ultimately show ?thesis using Some by (simp add: set_network_enabled_def)
qed (simp add: set_network_enabled_def)

lemma find_append_Some: "find P xs = Some x \<Longrightarrow> find P (xs @ ys) = Some x"
  by (induction xs) auto

lemma history_add: "history J c (snd (add_network E now name c))"
proof -
  have "history J c (c\<lparr>ac_networks := ac_networks c @ ns\<rparr>)" for ns
    by (auto simp: history_def network_by_id_def find_append_Some)
  then show ?thesis by (simp add: add_network_def Let_def history_note_after)
qed

lemma find_filter_other: "j \<noteq> i \<Longrightarrow>
    find (\<lambda>n. nc_id n = j) (filter (\<lambda>n. nc_id n \<noteq> i) ns) = find (\<lambda>n. nc_id n = j) ns"
  by (induction ns) auto

lemma history_remove_network: "i \<notin> J \<Longrightarrow> history J c (snd (remove_network E i c))"
proof -
  assume i: "i \<notin> J"
  let ?rest = "filter (\<lambda>n. nc_id n \<noteq> i) (ac_networks c)"
  have rest: "history J c (c\<lparr>ac_networks := ?rest\<rparr>)"
  proof -
    have "find (\<lambda>n. nc_id n = j) ?rest = find (\<lambda>n. nc_id n = j) (ac_networks c)" if "j \<in> J" for j
      using that i by (intro find_filter_other) auto
    then show ?thesis by (simp add: history_def network_by_id_def)
  qed
  have first: "list_all2 kept ns (enable_first ns)" for ns
    by (cases ns) (auto simp: enable_first_def kept_def list_all2_refl)
  have "history J (c\<lparr>ac_networks := ?rest\<rparr>) ((c\<lparr>ac_networks := ?rest\<rparr>)\<lparr>ac_networks := enable_first ?rest\<rparr>)"
    by (rule history_map) (use enable_first_list [of ?rest] first in auto)
  with rest have "history J c (c\<lparr>ac_networks := enable_first ?rest\<rparr>)"
    using history_trans by fastforce
  with rest show ?thesis by (simp add: remove_network_def Let_def)
qed

lemma distinct_filter_ne: "distinct xs \<Longrightarrow> \<not> (length xs = 1 \<and> x \<in> set xs) \<Longrightarrow> xs \<noteq> [] \<Longrightarrow> filter (\<lambda>y. y \<noteq> x) xs \<noteq> []"
  by (cases xs; cases "tl xs") (auto simp: filter_empty_conv)

lemma history_remove_participant:
  assumes "config_ok E c"
  shows "history J c (snd (remove_participant_from_network E now i p c))"
proof -
  have dis: "distinct (nc_admins n)" if "network_by_id c i = Some n" for n
  proof -
    have "n \<in> set (ac_networks c)" using that find_Some_in by (fastforce simp: network_by_id_def)
    then show ?thesis
      using assms by (auto simp: config_ok_def list_all_iff network_ok_def norm_keys_def sorted_unique_def)
  qed
  have "history J c (update_network i (\<lambda>n. replace_inviter k
      (n\<lparr>nc_participants := filter (\<lambda>p. p \<noteq> k) (nc_participants n),
         nc_admins := filter (\<lambda>p. p \<noteq> k) (nc_admins n)\<rparr>)) c)"
    if "network_by_id c i = Some n" "\<not> (length (nc_admins n) = 1 \<and> k \<in> set (nc_admins n))" for n k
    using that distinct_filter_ne [OF dis [OF that(1)] that(2)]
    by (intro history_update_network) (auto simp: kept_def replace_inviter_def)
  then show ?thesis
    by (auto simp: remove_participant_from_network_def split: option.split
        intro!: history_and_then history_note_after)
qed

lemma history_remove_admin:
  assumes "config_ok E c"
  shows "history J c (snd (remove_admin_from_network E now i p c))"
proof -
  have dis: "distinct (nc_admins n)" if "network_by_id c i = Some n" for n
  proof -
    have "n \<in> set (ac_networks c)" using that find_Some_in by (fastforce simp: network_by_id_def)
    then show ?thesis
      using assms by (auto simp: config_ok_def list_all_iff network_ok_def norm_keys_def sorted_unique_def)
  qed
  have "history J c (update_network i (\<lambda>n. replace_inviter k
      (n\<lparr>nc_admins := filter (\<lambda>p. p \<noteq> k) (nc_admins n)\<rparr>)) c)"
    if "network_by_id c i = Some n" "\<not> length (nc_admins n) \<le> 1" for n k
    using that distinct_filter_ne [OF dis [OF that(1)], of k]
    by (intro history_update_network) (auto simp: kept_def replace_inviter_def)
  then show ?thesis
    by (auto simp: remove_admin_from_network_def split: option.split
        intro!: history_and_then history_note_after)
qed

lemma sort_dedup_append_ne [simp]: "sort_dedup (xs @ [x]) \<noteq> []"
  by simp

lemma history_add_participant: "history J c (snd (add_participant_to_network E now i p c))"
  by (auto simp: add_participant_to_network_def kept_def split: option.split
      intro!: history_and_then history_note_after history_update_network)

lemma history_add_admin: "history J c (snd (add_admin_to_network E now i p c))"
  by (auto simp: add_admin_to_network_def kept_def Let_def split: option.split
      intro!: history_and_then history_note_after history_update_network)

lemma history_rename: "history J c (snd (rename_network E now i name c))"
  by (auto simp: rename_network_def Let_def kept_def intro!: history_note_after history_update_network)

lemma history_join_enabled: "history J c (snd (set_network_join_requests_enabled i b c))"
  by (auto simp: set_network_join_requests_enabled_def kept_def intro!: history_update_network)

lemma history_mesh_id: "history J c (snd (set_network_mesh_id i m c))"
  by (auto simp: set_network_mesh_id_def Let_def kept_def intro!: history_update_network)

lemma history_record: "history J c (snd (record_inbound_join_request E i r name t c))"
  by (auto simp: record_inbound_join_request_def Let_def kept_def split_def split: option.split
      intro!: history_update_first)

lemma history_fold_note:
  "history J c d \<Longrightarrow> history J c (fold (\<lambda>i c. snd (note_network_roster_local_change E now i c)) is d)"
  by (induction "is" arbitrary: d) (simp_all add: history_note_after)

lemma history_set_alias: "history J c (snd (set_peer_alias E now p alias c))"
proof -
  have "history J c (normalize_peer_aliases E (c\<lparr>ac_peer_aliases := al\<rparr>))" for al
    unfolding history_normalized using history_networks [of "c\<lparr>ac_peer_aliases := al\<rparr>" c] by simp
  then show ?thesis
    by (auto simp: set_peer_alias_def Let_def history_fold_note split: option.split)
qed

lemma history_apply: "history J c (snd (apply_admin_signed_shared_roster E now i nm ps ads al t k c))"
proof (cases "fst (apply_admin_signed_shared_roster E now i nm ps ads al t k c) = Inr True")
  case True
  then show ?thesis
  proof (rule apply_roster_True)
    fix signer n ps' ads'
    let ?m = "\<lambda>n. normalize_runtime_network_id (nc_network_id n) = normalize_runtime_network_id i"
    let ?f = "roster_network E nm ps' ads' t signer"
    assume n: "find ?m (ac_networks c) = Some n" "nc_shared_roster_updated_at n < t" "ads' \<noteq> []"
      and nets: "ac_networks (snd (apply_admin_signed_shared_roster E now i nm ps ads al t k c)) =
        update_first ?m ?f (ac_networks c)"
    have "history J c (c\<lparr>ac_networks := update_first ?m ?f (ac_networks c)\<rparr>)"
      using n by (intro history_update_first [OF n(1)]) (auto simp: kept_def roster_network_def)
    then show ?thesis by (subst history_networks [where d = "c\<lparr>ac_networks := update_first ?m ?f (ac_networks c)\<rparr>"])
        (simp_all add: nets)
  qed
qed (simp add: apply_roster_same)

text \<open>The events that remove network \<open>j\<close> or rename it.\<close>

fun forgets :: "string \<Rightarrow> config_event \<Rightarrow> bool" where
  "forgets j (RemoveNetwork i) = (i = j)"
| "forgets j (EnsureDefaults H) = True"
| "forgets j _ = False"

lemma history_step: "config_ok E c \<Longrightarrow> \<not> forgets j ev \<Longrightarrow> history {j} c (config_step E ev c)"
  by (cases ev)
    (auto simp: history_add history_rename history_remove_network history_enabled history_join_enabled
      history_mesh_id history_record history_add_participant history_remove_participant history_add_admin
      history_remove_admin history_set_alias history_note history_apply set_active_network_id_def
      note_active_network_roster_local_change_def)



end
