(* ===== verification/Nostr_Event.thy ===== *)
theory Nostr_Event
  imports Rust_Str
begin

text \<open>
  What \<open>signaling.rs\<close>, \<open>service_signaling.rs\<close> and \<open>join_requests.rs\<close> of
  \<open>crates/nostr-vpn-core/src\<close> share: signed events and their tags, the Nostr library behind the
  clients as a record of parameters, the loop that forwards received events, and sending one
  private event.
\<close>

section \<open>Events\<close>

definition NOSTR_KIND_NOSTR_VPN :: u16 where "NOSTR_KIND_NOSTR_VPN = 25050"
definition SIGNAL_EXPIRATION_SECS :: u64 where "SIGNAL_EXPIRATION_SECS = 300"
definition SIGNAL_PRIVATE_LOOKBACK_SECS :: u64 where "SIGNAL_PRIVATE_LOOKBACK_SECS = 120"

record nostr_event =
  ev_kind :: u16
  ev_pubkey :: string
  ev_created_at :: u64
  ev_tags :: "string list list"
  ev_content :: string

definition first_tag_value :: "nostr_event \<Rightarrow> string \<Rightarrow> string option" where
  "first_tag_value event tag_name =
    (case find (\<lambda>values. 2 \<le> length values \<and> values ! 0 = tag_name) (ev_tags event) of
       None \<Rightarrow> None | Some values \<Rightarrow> Some (values ! 1))"

definition tag_contains_value :: "nostr_event \<Rightarrow> string \<Rightarrow> string \<Rightarrow> bool" where
  "tag_contains_value event tag_name expected =
    list_ex (\<lambda>values. 2 \<le> length values \<and> values ! 0 = tag_name \<and> values ! 1 = expected) (ev_tags event)"

lemma first_tag_contains: "first_tag_value event t = Some v \<Longrightarrow> tag_contains_value event t v"
  by (auto simp: first_tag_value_def tag_contains_value_def list_ex_iff dest: find_Some_in
      split: option.splits)

section \<open>The Nostr library\<close>

text \<open>
  What a client calls with its own key pair: the hexadecimal form of its public key;
  \<open>PublicKey::from_hex\<close>, as the parsed key's hexadecimal form; \<open>nip44::encrypt\<close> for a recipient and
  \<open>nip44::decrypt\<close> of an author's content; the text of an expiration tag, that many seconds after
  now; the time that many seconds before now; signing an event from its kind, content, tags and
  time of creation; and the answer of the relays to an event, after those sent before.
\<close>

datatype send_outcome = Stored | RejectedByAll | SendFailed

record nostr_lib =
  nl_pubkey :: string
  nl_from_hex :: "string \<Rightarrow> string option"
  nl_encrypt :: "string \<Rightarrow> string \<Rightarrow> string option"
  nl_decrypt :: "string \<Rightarrow> string \<Rightarrow> string option"
  nl_expiration :: "u64 \<Rightarrow> u64 \<Rightarrow> string"
  nl_before :: "u64 \<Rightarrow> u64 \<Rightarrow> u64"
  nl_sign :: "u16 \<Rightarrow> string \<Rightarrow> string list list \<Rightarrow> u64 \<Rightarrow> nostr_event option"
  nl_send :: "nostr_event list \<Rightarrow> nostr_event \<Rightarrow> send_outcome"

text \<open>Documented behaviour: a signed event carries what was signed, under the signer's key.\<close>

definition sign_law :: "nostr_lib \<Rightarrow> bool" where
  "sign_law L \<longleftrightarrow> (\<forall>kind content tags now e. nl_sign L kind content tags now = Some e \<longrightarrow>
     e = \<lparr>ev_kind = kind, ev_pubkey = nl_pubkey L, ev_created_at = now, ev_tags = tags,
          ev_content = content\<rparr>)"

text \<open>Documented behaviour of NIP-44: the recipient reads what the author encrypted for it.\<close>

definition nip44_law :: "nostr_lib \<Rightarrow> nostr_lib \<Rightarrow> bool" where
  "nip44_law A B \<longleftrightarrow> (\<forall>text content. nl_encrypt A (nl_pubkey B) text = Some content \<longrightarrow>
     nl_decrypt B (nl_pubkey A) content = Some text)"

text \<open>JSON of one type, by \<open>serde_json\<close>: writing it and reading it back.\<close>

record 'a json_codec =
  to_json :: "'a \<Rightarrow> string option"
  from_json :: "string \<Rightarrow> 'a option"

definition codec_law :: "'a json_codec \<Rightarrow> bool" where
  "codec_law J \<longleftrightarrow> (\<forall>x s. to_json J x = Some s \<longrightarrow> from_json J s = Some x)"

lemma sign_lawD: "sign_law L \<Longrightarrow> nl_sign L k c t now = Some e \<Longrightarrow>
    e = \<lparr>ev_kind = k, ev_pubkey = nl_pubkey L, ev_created_at = now, ev_tags = t, ev_content = c\<rparr>"
  by (simp add: sign_law_def)

lemma nip44_lawD: "nip44_law A B \<Longrightarrow> nl_encrypt A (nl_pubkey B) x = Some c \<Longrightarrow>
    nl_decrypt B (nl_pubkey A) c = Some x"
  by (simp add: nip44_law_def)

lemma codec_lawD: "codec_law J \<Longrightarrow> to_json J x = Some s \<Longrightarrow> from_json J s = Some x"
  by (simp add: codec_law_def)

section \<open>Subscriptions and received events\<close>

text \<open>A subscription: kind, authors, one single-letter tag with its values, and a start time.\<close>

record event_filter =
  ef_kind :: u16
  ef_authors :: "string list option"
  ef_tag :: "string \<times> string list"
  ef_since :: u64

datatype ('e) notification = EventNotice 'e | OtherNotice | LaggedNotice | ClosedNotice

text \<open>
  The loop of \<open>start_event_forwarder\<close>: what one event puts into the channel is \<open>f\<close>; other notices
  and a lagging receiver are skipped, and the loop ends when the library closes the stream.
\<close>

fun forward_loop :: "('e \<Rightarrow> 'm list) \<Rightarrow> 'e notification list \<Rightarrow> 'm list" where
  "forward_loop f [] = []"
| "forward_loop f (EventNotice e # ns) = f e @ forward_loop f ns"
| "forward_loop f (OtherNotice # ns) = forward_loop f ns"
| "forward_loop f (LaggedNotice # ns) = forward_loop f ns"
| "forward_loop f (ClosedNotice # ns) = []"

text \<open>\<open>recv\<close>: the first message the channel yields, skipping reports of lag; none once it is closed.\<close>

datatype 'm received = Received 'm | ReceiverLagged | ReceiverClosed

fun recv_loop :: "'m received list \<Rightarrow> 'm option" where
  "recv_loop [] = None"
| "recv_loop (Received m # rs) = Some m"
| "recv_loop (ReceiverLagged # rs) = recv_loop rs"
| "recv_loop (ReceiverClosed # rs) = None"

lemma forward_loop_from:
  "m \<in> set (forward_loop f ns) \<Longrightarrow> \<exists>e. EventNotice e \<in> set ns \<and> m \<in> set (f e)"
  by (induction f ns rule: forward_loop.induct) auto

lemma forward_loop_all:
  "ClosedNotice \<notin> set ns \<Longrightarrow> EventNotice e \<in> set ns \<Longrightarrow> m \<in> set (f e) \<Longrightarrow> m \<in> set (forward_loop f ns)"
  by (induction f ns rule: forward_loop.induct) auto

section \<open>Connecting and sending\<close>

datatype connect_error = AddRelayFailed string | SubscribeFailed

text \<open>
  The body of \<open>connect\<close>: every relay is added, then the subscription is made. The arguments say
  which relay addresses the library takes and whether it takes the subscription.
\<close>

definition connect_relays ::
  "(string \<Rightarrow> bool) \<Rightarrow> (event_filter list \<Rightarrow> bool) \<Rightarrow> string list \<Rightarrow> event_filter list
    \<Rightarrow> connect_error + event_filter list" where
  "connect_relays add_relay subscribe relays filters =
    (case find (\<lambda>relay. \<not> add_relay relay) relays of
       Some relay \<Rightarrow> Inl (AddRelayFailed relay)
     | None \<Rightarrow> if subscribe filters then Inr filters else Inl SubscribeFailed)"

datatype publish_error =
    NotConnected | NoRecipients | InvalidRecipient | NotSerializable | EncryptFailed | SignFailed
  | RejectedByRelays | PublishFailed | InvalidJoinRequest | RelayNotAdded

text \<open>
  One private event: the content is encrypted for the recipient, signed with the tags and sent;
  the outbox grows by the event that went out.
\<close>

definition send_private ::
  "nostr_lib \<Rightarrow> u64 \<Rightarrow> string \<Rightarrow> string list list \<Rightarrow> string \<Rightarrow> nostr_event list
    \<Rightarrow> (publish_error + send_outcome) \<times> nostr_event list" where
  "send_private L now recipient tags content outbox =
    (case nl_encrypt L recipient content of
       None \<Rightarrow> (Inl EncryptFailed, outbox)
     | Some encrypted \<Rightarrow>
         (case nl_sign L NOSTR_KIND_NOSTR_VPN encrypted tags now of
            None \<Rightarrow> (Inl SignFailed, outbox)
          | Some event \<Rightarrow> (Inr (nl_send L outbox event), outbox @ [event])))"

text \<open>The result of a message that consists of one event.\<close>

definition single_result :: "publish_error + send_outcome \<Rightarrow> publish_error + unit" where
  "single_result r = (case r of
      Inl error \<Rightarrow> Inl error
    | Inr Stored \<Rightarrow> Inr ()
    | Inr RejectedByAll \<Rightarrow> Inl RejectedByRelays
    | Inr SendFailed \<Rightarrow> Inl PublishFailed)"

lemma single_result_ok [simp]: "single_result r = Inr () \<longleftrightarrow> r = Inr Stored"
  by (auto simp: single_result_def split: sum.splits send_outcome.splits)

lemma send_private_sent:
  assumes "sign_law L" "send_private L now recipient tags content outbox = (Inr outcome, outbox')"
  obtains encrypted event where "nl_encrypt L recipient content = Some encrypted"
    "event = \<lparr>ev_kind = NOSTR_KIND_NOSTR_VPN, ev_pubkey = nl_pubkey L, ev_created_at = now,
      ev_tags = tags, ev_content = encrypted\<rparr>"
    "outbox' = outbox @ [event]" "nl_send L outbox event = outcome"
  using assms by (auto simp: send_private_def dest!: sign_lawD split: option.splits)

lemma send_private_log:
  "send_private L now recipient tags content outbox = (r, outbox') \<Longrightarrow> \<exists>more. outbox' = outbox @ more"
  by (auto simp: send_private_def split: option.splits)

end
