(* ===== verification/Join_Requests.thy ===== *)
theory Join_Requests
  imports Presence Key_Roster Nostr_Event
begin

text \<open>
  \<open>crates/nostr-vpn-core/src/join_requests.rs\<close>: how a device asks to join a mesh. The request is
  normalised, wrapped with a version, encrypted for the inviter and published; the inviter's
  listener decodes the events addressed to it.
\<close>

definition JOIN_REQUEST_PROTOCOL_VERSION :: u8 where "JOIN_REQUEST_PROTOCOL_VERSION = 1"
definition JOIN_REQUEST_EXPIRATION_SECS :: u64 where "JOIN_REQUEST_EXPIRATION_SECS = 7 * 24 * 60 * 60"
definition JOIN_REQUEST_LOOKBACK_SECS :: u64 where
  "JOIN_REQUEST_LOOKBACK_SECS = JOIN_REQUEST_EXPIRATION_SECS"
definition JOIN_REQUEST_IDENTIFIER_PREFIX :: string where
  "JOIN_REQUEST_IDENTIFIER_PREFIX = ''join-request:''"

record received_join_request =
  rj_sender_pubkey :: string
  rj_requested_at :: u64
  rj_request :: mesh_join_request

record join_request_envelope =
  je_v :: u8
  je_network_id :: string
  je_requester_node_name :: string

definition normalize_join_request :: "mesh_join_request \<Rightarrow> mesh_join_request option" where
  "normalize_join_request request =
    (let network_id = normalize_runtime_network_id (mj_network_id request)
     in if network_id = [] then None
        else Some \<lparr>mj_network_id = network_id,
                   mj_requester_node_name = trim (mj_requester_node_name request)\<rparr>)"

definition encode_join_request :: "mesh_join_request \<Rightarrow> join_request_envelope option" where
  "encode_join_request request0 =
    (case normalize_join_request request0 of
       None \<Rightarrow> None
     | Some request \<Rightarrow> Some \<lparr>je_v = JOIN_REQUEST_PROTOCOL_VERSION, je_network_id = mj_network_id request,
         je_requester_node_name = mj_requester_node_name request\<rparr>)"

definition decode_join_request :: "join_request_envelope \<Rightarrow> mesh_join_request option" where
  "decode_join_request envelope =
    (if je_v envelope \<noteq> JOIN_REQUEST_PROTOCOL_VERSION then None
     else normalize_join_request \<lparr>mj_network_id = je_network_id envelope,
       mj_requester_node_name = je_requester_node_name envelope\<rparr>)"

definition join_request_identifier :: "string \<Rightarrow> string" where
  "join_request_identifier recipient = JOIN_REQUEST_IDENTIFIER_PREFIX @ recipient"

definition is_join_request_event :: "nostr_event \<Rightarrow> bool" where
  "is_join_request_event event \<longleftrightarrow> ev_kind event = NOSTR_KIND_NOSTR_VPN"

definition is_join_request_event_for_recipient :: "nostr_event \<Rightarrow> string \<Rightarrow> bool" where
  "is_join_request_event_for_recipient event own_pubkey =
    (if \<not> is_join_request_event event then False
     else if ev_pubkey event = own_pubkey then False
     else if (case first_tag_value event ''d'' of
         None \<Rightarrow> True | Some value \<Rightarrow> \<not> starts_with JOIN_REQUEST_IDENTIFIER_PREFIX value) then False
     else tag_contains_value event ''p'' own_pubkey)"

definition decode_received_join_request_plaintext ::
  "join_request_envelope json_codec \<Rightarrow> nostr_event \<Rightarrow> string \<Rightarrow> string
    \<Rightarrow> received_join_request option" where
  "decode_received_join_request_plaintext J event own_pubkey plaintext =
    (if \<not> is_join_request_event_for_recipient event own_pubkey then None
     else (case from_json J plaintext of
         None \<Rightarrow> None
       | Some envelope \<Rightarrow>
           (case decode_join_request envelope of
              None \<Rightarrow> None
            | Some request \<Rightarrow> Some \<lparr>rj_sender_pubkey = ev_pubkey event,
                rj_requested_at = ev_created_at event, rj_request = request\<rparr>)))"

definition decode_received_join_request_event ::
  "nostr_lib \<Rightarrow> join_request_envelope json_codec \<Rightarrow> nostr_event \<Rightarrow> string
    \<Rightarrow> received_join_request option" where
  "decode_received_join_request_event L J event own_pubkey =
    (if \<not> is_join_request_event_for_recipient event own_pubkey then None
     else (case nl_decrypt L (ev_pubkey event) (ev_content event) of
         None \<Rightarrow> None
       | Some plaintext \<Rightarrow> decode_received_join_request_plaintext J event own_pubkey plaintext))"

section \<open>The listener\<close>

record join_request_listener =
  jl_own_pubkey :: string
  jl_connected :: bool

definition listener_new :: "nostr_lib \<Rightarrow> join_request_listener" where
  "listener_new L = \<lparr>jl_own_pubkey = nl_pubkey L, jl_connected = False\<rparr>"

definition listener_connect ::
  "nostr_lib \<Rightarrow> u64 \<Rightarrow> (string \<Rightarrow> bool) \<Rightarrow> (event_filter list \<Rightarrow> bool) \<Rightarrow> string list
    \<Rightarrow> join_request_listener \<Rightarrow> (connect_error + unit) \<times> join_request_listener" where
  "listener_connect L now add_relay subscribe relays listener =
    (if jl_connected listener then (Inr (), listener)
     else (case connect_relays add_relay subscribe relays
         [\<lparr>ef_kind = NOSTR_KIND_NOSTR_VPN, ef_authors = None, ef_tag = (''p'', [jl_own_pubkey listener]),
           ef_since = nl_before L now JOIN_REQUEST_LOOKBACK_SECS\<rparr>] of
        Inl error \<Rightarrow> (Inl error, listener)
      | Inr _ \<Rightarrow> (Inr (), listener\<lparr>jl_connected := True\<rparr>)))"

definition listener_disconnect :: "join_request_listener \<Rightarrow> join_request_listener" where
  "listener_disconnect listener = listener\<lparr>jl_connected := False\<rparr>"

definition listener_forward ::
  "nostr_lib \<Rightarrow> join_request_envelope json_codec \<Rightarrow> join_request_listener
    \<Rightarrow> nostr_event notification list \<Rightarrow> received_join_request list" where
  "listener_forward L J listener = forward_loop (\<lambda>event.
    case decode_received_join_request_event L J event (jl_own_pubkey listener) of
      None \<Rightarrow> [] | Some request \<Rightarrow> [request])"

section \<open>Publishing\<close>

text \<open>
  \<open>add_relay\<close> says which addresses the library takes. The recipient's parsed key, as the key
  library prints it, goes through \<open>PublicKey::from_hex\<close> again.
\<close>

definition publish_join_request ::
  "key_env \<Rightarrow> nostr_lib \<Rightarrow> join_request_envelope json_codec \<Rightarrow> u64 \<Rightarrow> (string \<Rightarrow> bool) \<Rightarrow> string list
    \<Rightarrow> string \<Rightarrow> mesh_join_request \<Rightarrow> nostr_event list
    \<Rightarrow> (publish_error + unit) \<times> nostr_event list" where
  "publish_join_request E L J now add_relay relays recipient0 request0 outbox =
    (case normalize_join_request request0 of
       None \<Rightarrow> (Inl InvalidJoinRequest, outbox)
     | Some request \<Rightarrow>
         (case normalize_nostr_pubkey E recipient0 of
            None \<Rightarrow> (Inl InvalidRecipient, outbox)
          | Some recipient \<Rightarrow>
              (case nl_from_hex L recipient of
                 None \<Rightarrow> (Inl InvalidRecipient, outbox)
               | Some recipient_pubkey \<Rightarrow>
                   (case encode_join_request request of
                      None \<Rightarrow> (Inl InvalidJoinRequest, outbox)
                    | Some envelope \<Rightarrow>
                        (case to_json J envelope of
                           None \<Rightarrow> (Inl NotSerializable, outbox)
                         | Some content \<Rightarrow>
                             (case nl_encrypt L recipient_pubkey content of
                                None \<Rightarrow> (Inl EncryptFailed, outbox)
                              | Some encrypted \<Rightarrow>
                                  (case nl_sign L NOSTR_KIND_NOSTR_VPN encrypted
                                      [[''d'', join_request_identifier recipient], [''p'', recipient_pubkey],
                                       [''expiration'', nl_expiration L now JOIN_REQUEST_EXPIRATION_SECS]] now of
                                     None \<Rightarrow> (Inl SignFailed, outbox)
                                   | Some event \<Rightarrow>
                                       if list_ex (\<lambda>relay. \<not> add_relay relay) relays then (Inl RelayNotAdded, outbox)
                                       else (single_result (Inr (nl_send L outbox event)), outbox @ [event]))))))))"

text \<open>
  The network id is normalised three times on the way: before publishing, when the envelope is
  made and when it is read. One normalisation strips one legacy prefix.
\<close>

definition delivered_request :: "mesh_join_request \<Rightarrow> mesh_join_request option" where
  "delivered_request request =
    Option.bind (Option.bind (normalize_join_request request) normalize_join_request) normalize_join_request"

lemma normalize_join_request_stable:
  assumes "normalize_runtime_network_id (mj_network_id r) = mj_network_id r"
    "mj_network_id r \<noteq> []" "trim (mj_requester_node_name r) = mj_requester_node_name r"
  shows "normalize_join_request r = Some r"
  using assms by (simp add: normalize_join_request_def)

lemma delivered_request_stable:
  assumes "normalize_join_request request = Some r"
    and "normalize_runtime_network_id (mj_network_id r) = mj_network_id r"
  shows "delivered_request request = Some r"
proof -
  have "normalize_join_request r = Some r"
    using assms by (intro normalize_join_request_stable)
      (auto simp: normalize_join_request_def Let_def split: if_splits)
  then show ?thesis using assms by (simp add: delivered_request_def)
qed

lemma decode_encode_join_request:
  "Option.bind (encode_join_request r) decode_join_request
    = Option.bind (normalize_join_request r) normalize_join_request"
  by (cases "normalize_join_request r"; cases "the (normalize_join_request r)")
    (simp_all add: encode_join_request_def decode_join_request_def)

text \<open>What a successful call sent.\<close>

lemma publish_join_request_sent:
  assumes laws: "sign_law L"
    and ok: "publish_join_request E L J now add_relay relays recipient0 request0 outbox = (Inr (), outbox')"
  obtains request recipient recipient_pubkey envelope content encrypted event
  where "normalize_join_request request0 = Some request"
    and "normalize_nostr_pubkey E recipient0 = Some recipient"
    and "nl_from_hex L recipient = Some recipient_pubkey"
    and "encode_join_request request = Some envelope" "to_json J envelope = Some content"
    and "nl_encrypt L recipient_pubkey content = Some encrypted"
    and "event = \<lparr>ev_kind = NOSTR_KIND_NOSTR_VPN, ev_pubkey = nl_pubkey L, ev_created_at = now,
      ev_tags = [[''d'', join_request_identifier recipient], [''p'', recipient_pubkey],
        [''expiration'', nl_expiration L now JOIN_REQUEST_EXPIRATION_SECS]], ev_content = encrypted\<rparr>"
    and "outbox' = outbox @ [event]" "nl_send L outbox event = Stored"
  using ok
  by (auto simp: publish_join_request_def dest!: sign_lawD [OF laws] split: option.splits if_splits)

lemma starts_with_join_prefix [simp]:
  "starts_with JOIN_REQUEST_IDENTIFIER_PREFIX (join_request_identifier recipient)"
  by (simp add: starts_with_def join_request_identifier_def)

end
