(* ===== verification/Signaling.thy ===== *)
theory Signaling
  imports Join_Requests
begin

text \<open>
  \<open>crates/nostr-vpn-core/src/signaling.rs\<close>: the client through which the members of the meshes
  exchange hellos, announcements, rosters and disconnects. A hello is public and carries a tag;
  every other payload travels in an envelope that is encrypted for one recipient. A \<open>HashSet\<close> is a
  list here, whose order stands for the unspecified order of its iteration.
\<close>

definition SIGNAL_HELLO_TAG :: string where "SIGNAL_HELLO_TAG = ''hello''"
definition SIGNAL_HELLO_LOOKBACK_SECS :: u64 where "SIGNAL_HELLO_LOOKBACK_SECS = 60"
definition SIGNAL_HELLO_IDENTIFIER :: string where "SIGNAL_HELLO_IDENTIFIER = ''hello''"

section \<open>The networks of a client\<close>

record signaling_network =
  sn_network_id :: string
  sn_participants :: "string list"

record configured_network =
  cn_network_id :: string
  cn_participants :: "string list"

datatype signaling_error = EmptyNetworkId | InvalidParticipant | NoNetwork

definition normalize_participants :: "key_env \<Rightarrow> string list \<Rightarrow> string list option" where
  "normalize_participants E participants =
    map_option (\<lambda>normalized. fold List.insert normalized [])
      (collect_results (normalize_nostr_pubkey E) participants)"

fun add_signaling_networks ::
  "key_env \<Rightarrow> signaling_network list \<Rightarrow> configured_network list
    \<Rightarrow> signaling_error + configured_network list" where
  "add_signaling_networks E [] normalized = Inr normalized"
| "add_signaling_networks E (network # networks) normalized =
    (let network_id = trim (sn_network_id network)
     in if network_id = [] then Inl EmptyNetworkId
        else (case normalize_participants E (sn_participants network) of
            None \<Rightarrow> Inl InvalidParticipant
          | Some participants \<Rightarrow>
              add_signaling_networks E networks
                (if list_ex (\<lambda>existing. cn_network_id existing = network_id) normalized
                 then update_first (\<lambda>existing. cn_network_id existing = network_id)
                   (\<lambda>existing. existing\<lparr>cn_participants :=
                      fold List.insert participants (cn_participants existing)\<rparr>) normalized
                 else normalized @ [\<lparr>cn_network_id = network_id, cn_participants = participants\<rparr>])))"

definition normalize_signaling_networks ::
  "key_env \<Rightarrow> signaling_network list \<Rightarrow> signaling_error + configured_network list" where
  "normalize_signaling_networks E networks =
    (case add_signaling_networks E networks [] of
       Inl error \<Rightarrow> Inl error
     | Inr normalized \<Rightarrow> if normalized = [] then Inl NoNetwork else Inr normalized)"

record signaling_client =
  sc_default_network_id :: string
  sc_network_ids :: "string list"
  sc_own_pubkey :: string
  sc_networks :: "configured_network list"
  sc_participant_pubkeys :: "string list"
  sc_connected :: bool

definition new_with_keys_and_networks ::
  "key_env \<Rightarrow> nostr_lib \<Rightarrow> signaling_network list \<Rightarrow> signaling_error + signaling_client" where
  "new_with_keys_and_networks E L networks0 =
    (case normalize_signaling_networks E networks0 of
       Inl error \<Rightarrow> Inl error
     | Inr networks \<Rightarrow>
         (case networks of
            [] \<Rightarrow> Inl NoNetwork
          | first_network # _ \<Rightarrow> Inr
              \<lparr>sc_default_network_id = cn_network_id first_network,
               sc_network_ids = fold List.insert (map cn_network_id networks) [],
               sc_own_pubkey = nl_pubkey L,
               sc_networks = networks,
               sc_participant_pubkeys = fold List.insert (concat (map cn_participants networks)) [],
               sc_connected = False\<rparr>))"

definition new_with_keys ::
  "key_env \<Rightarrow> nostr_lib \<Rightarrow> string \<Rightarrow> string list \<Rightarrow> signaling_error + signaling_client" where
  "new_with_keys E L network_id participants =
    new_with_keys_and_networks E L [\<lparr>sn_network_id = network_id, sn_participants = participants\<rparr>]"

definition signal_filters :: "nostr_lib \<Rightarrow> u64 \<Rightarrow> signaling_client \<Rightarrow> event_filter list" where
  "signal_filters L now client =
    (let hello_authors = List.map_filter (nl_from_hex L)
           (filter (\<lambda>participant. participant \<noteq> sc_own_pubkey client) (sc_participant_pubkeys client))
     in \<lparr>ef_kind = NOSTR_KIND_NOSTR_VPN, ef_authors = None, ef_tag = (''p'', [sc_own_pubkey client]),
          ef_since = nl_before L now SIGNAL_PRIVATE_LOOKBACK_SECS\<rparr>
        # (if hello_authors = [] then []
           else [\<lparr>ef_kind = NOSTR_KIND_NOSTR_VPN, ef_authors = Some hello_authors,
                  ef_tag = (''l'', [SIGNAL_HELLO_TAG]),
                  ef_since = nl_before L now SIGNAL_HELLO_LOOKBACK_SECS\<rparr>]))"

definition signaling_connect ::
  "nostr_lib \<Rightarrow> u64 \<Rightarrow> (string \<Rightarrow> bool) \<Rightarrow> (event_filter list \<Rightarrow> bool) \<Rightarrow> string list
    \<Rightarrow> signaling_client \<Rightarrow> (connect_error + unit) \<times> signaling_client" where
  "signaling_connect L now add_relay subscribe relays client =
    (case connect_relays add_relay subscribe relays (signal_filters L now client) of
       Inl error \<Rightarrow> (Inl error, client)
     | Inr _ \<Rightarrow> (Inr (), client\<lparr>sc_connected := True\<rparr>))"

definition signaling_disconnect :: "signaling_client \<Rightarrow> signaling_client" where
  "signaling_disconnect client = client\<lparr>sc_connected := False\<rparr>"

section \<open>Publishing\<close>

definition private_signal_identifier :: "string \<Rightarrow> string \<Rightarrow> string" where
  "private_signal_identifier network_id recipient = ''private:'' @ network_id @ '':'' @ recipient"

definition publish_hello ::
  "nostr_lib \<Rightarrow> u64 \<Rightarrow> signaling_client \<Rightarrow> nostr_event list
    \<Rightarrow> (publish_error + unit) \<times> nostr_event list" where
  "publish_hello L now client outbox =
    (if \<not> sc_connected client then (Inl NotConnected, outbox)
     else (case nl_sign L NOSTR_KIND_NOSTR_VPN []
          [[''d'', SIGNAL_HELLO_IDENTIFIER], [''l'', SIGNAL_HELLO_TAG],
           [''expiration'', nl_expiration L now SIGNAL_EXPIRATION_SECS]] now of
         None \<Rightarrow> (Inl SignFailed, outbox)
       | Some event \<Rightarrow> (single_result (Inr (nl_send L outbox event)), outbox @ [event])))"

text \<open>The loop over the recipients in one network, with those delivered to so far.\<close>

fun send_to_recipients ::
  "nostr_lib \<Rightarrow> u64 \<Rightarrow> string \<Rightarrow> string \<Rightarrow> string list \<Rightarrow> string list \<Rightarrow> nostr_event list
    \<Rightarrow> (publish_error + string list) \<times> nostr_event list" where
  "send_to_recipients L now network_id content [] delivered outbox =
    (if delivered = [] then Inl RejectedByRelays else Inr delivered, outbox)"
| "send_to_recipients L now network_id content (recipient # recipients) delivered outbox =
    (case nl_from_hex L recipient of
       None \<Rightarrow> (Inl InvalidRecipient, outbox)
     | Some recipient_pubkey \<Rightarrow>
         (case send_private L now recipient_pubkey
             [[''d'', private_signal_identifier network_id recipient], [''p'', recipient_pubkey],
              [''expiration'', nl_expiration L now SIGNAL_EXPIRATION_SECS]] content outbox of
            (Inl error, outbox') \<Rightarrow> (Inl error, outbox')
          | (Inr Stored, outbox') \<Rightarrow>
              send_to_recipients L now network_id content recipients (List.insert recipient delivered) outbox'
          | (Inr RejectedByAll, outbox') \<Rightarrow>
              send_to_recipients L now network_id content recipients delivered outbox'
          | (Inr SendFailed, outbox') \<Rightarrow> (Inl PublishFailed, outbox')))"

definition publish_private_to_network ::
  "nostr_lib \<Rightarrow> signal_envelope json_codec \<Rightarrow> u64 \<Rightarrow> signaling_client \<Rightarrow> signal_payload \<Rightarrow> string
    \<Rightarrow> string list \<Rightarrow> nostr_event list \<Rightarrow> (publish_error + string list) \<times> nostr_event list" where
  "publish_private_to_network L J now client payload network_id recipients outbox =
    (case to_json J \<lparr>se_network_id = network_id, se_sender_pubkey = sc_own_pubkey client,
        se_payload = payload\<rparr> of
       None \<Rightarrow> (Inl NotSerializable, outbox)
     | Some content \<Rightarrow> send_to_recipients L now network_id content recipients [] outbox)"

text \<open>
  The loop over the networks: those delivered to, the first error, and what went out. The answer
  is a success when everybody was delivered to in some network.
\<close>

fun send_to_networks ::
  "nostr_lib \<Rightarrow> signal_envelope json_codec \<Rightarrow> u64 \<Rightarrow> signaling_client \<Rightarrow> signal_payload \<Rightarrow> string list
    \<Rightarrow> configured_network list \<Rightarrow> string list \<times> publish_error option \<times> nostr_event list
    \<Rightarrow> string list \<times> publish_error option \<times> nostr_event list" where
  "send_to_networks L J now client payload recipients [] acc = acc"
| "send_to_networks L J now client payload recipients (network # networks) (delivered, first_error, outbox) =
    (let network_recipients = filter (\<lambda>p. p \<in> set (cn_participants network)) recipients
     in if network_recipients = []
        then send_to_networks L J now client payload recipients networks (delivered, first_error, outbox)
        else (case publish_private_to_network L J now client payload (cn_network_id network)
             network_recipients outbox of
           (Inr sent, outbox') \<Rightarrow> send_to_networks L J now client payload recipients networks
             (fold List.insert sent delivered, first_error, outbox')
         | (Inl error, outbox') \<Rightarrow> send_to_networks L J now client payload recipients networks
             (delivered, if first_error = None then Some error else first_error, outbox')))"

definition publish_private_to ::
  "nostr_lib \<Rightarrow> signal_envelope json_codec \<Rightarrow> u64 \<Rightarrow> signaling_client \<Rightarrow> signal_payload \<Rightarrow> string list
    \<Rightarrow> nostr_event list \<Rightarrow> (publish_error + unit) \<times> nostr_event list" where
  "publish_private_to L J now client payload recipients0 outbox =
    (let recipients = remdups (filter (\<lambda>p. p \<noteq> sc_own_pubkey client
           \<and> p \<in> set (sc_participant_pubkeys client)) recipients0)
     in if recipients = [] then (Inl NoRecipients, outbox)
        else (case send_to_networks L J now client payload recipients (sc_networks client)
            ([], None, outbox) of
          (delivered, first_error, outbox') \<Rightarrow>
            (if set delivered = set recipients then Inr ()
             else (case first_error of Some error \<Rightarrow> Inl error | None \<Rightarrow> Inl RejectedByRelays), outbox')))"

definition publish_signal_to ::
  "nostr_lib \<Rightarrow> signal_envelope json_codec \<Rightarrow> u64 \<Rightarrow> signaling_client \<Rightarrow> signal_payload \<Rightarrow> string list
    \<Rightarrow> nostr_event list \<Rightarrow> (publish_error + unit) \<times> nostr_event list" where
  "publish_signal_to L J now client payload recipients outbox =
    (if payload = Hello then publish_hello L now client outbox
     else if \<not> sc_connected client then (Inl NotConnected, outbox)
     else publish_private_to L J now client payload recipients outbox)"

definition publish_signal ::
  "nostr_lib \<Rightarrow> signal_envelope json_codec \<Rightarrow> u64 \<Rightarrow> signaling_client \<Rightarrow> signal_payload
    \<Rightarrow> nostr_event list \<Rightarrow> (publish_error + unit) \<times> nostr_event list" where
  "publish_signal L J now client payload outbox =
    (if payload = Hello then publish_hello L now client outbox
     else if \<not> sc_connected client then (Inl NotConnected, outbox)
     else (let recipients = filter (\<lambda>p. p \<noteq> sc_own_pubkey client) (sc_participant_pubkeys client)
       in if recipients = [] then (Inl NoRecipients, outbox)
          else publish_private_to L J now client payload recipients outbox))"

section \<open>Receiving\<close>

definition forward_hello :: "signaling_client \<Rightarrow> string \<Rightarrow> signal_envelope list" where
  "forward_hello client sender_pubkey =
    (if sender_pubkey = sc_own_pubkey client then []
     else if sc_participant_pubkeys client \<noteq> [] \<and> sender_pubkey \<notin> set (sc_participant_pubkeys client) then []
     else (let matched_network_ids = map cn_network_id (filter (\<lambda>network. cn_participants network = []
              \<or> sender_pubkey \<in> set (cn_participants network)) (sc_networks client))
       in if matched_network_ids = []
          then [\<lparr>se_network_id = sc_default_network_id client, se_sender_pubkey = sender_pubkey,
                 se_payload = Hello\<rparr>]
          else map (\<lambda>network_id. \<lparr>se_network_id = network_id, se_sender_pubkey = sender_pubkey,
                 se_payload = Hello\<rparr>) matched_network_ids))"

text \<open>The checks on a decoded envelope.\<close>

definition accept_envelope :: "signaling_client \<Rightarrow> string \<Rightarrow> signal_envelope \<Rightarrow> bool" where
  "accept_envelope client author envelope =
    (if se_network_id envelope \<notin> set (sc_network_ids client) then False
     else (case find (\<lambda>network. cn_network_id network = se_network_id envelope) (sc_networks client) of
         None \<Rightarrow> False
       | Some network \<Rightarrow>
           if se_sender_pubkey envelope = sc_own_pubkey client then False
           else if se_sender_pubkey envelope \<noteq> author then False
           else if cn_participants network \<noteq> [] \<and> se_sender_pubkey envelope \<notin> set (cn_participants network)
           then False
           else \<not> (sc_participant_pubkeys client \<noteq> []
             \<and> se_sender_pubkey envelope \<notin> set (sc_participant_pubkeys client))))"

definition forward_signal_event ::
  "nostr_lib \<Rightarrow> signal_envelope json_codec \<Rightarrow> join_request_envelope json_codec \<Rightarrow> signaling_client
    \<Rightarrow> nostr_event \<Rightarrow> signal_envelope list" where
  "forward_signal_event L J JR client event =
    (if ev_kind event \<noteq> NOSTR_KIND_NOSTR_VPN then []
     else if first_tag_value event ''l'' = Some SIGNAL_HELLO_TAG then forward_hello client (ev_pubkey event)
     else if ev_pubkey event = sc_own_pubkey client then []
     else if first_tag_value event ''p'' \<noteq> Some (sc_own_pubkey client) then []
     else (case nl_decrypt L (ev_pubkey event) (ev_content event) of
         None \<Rightarrow> []
       | Some plaintext \<Rightarrow>
           (case from_json J plaintext of
              None \<Rightarrow>
                (case decode_received_join_request_plaintext JR event (sc_own_pubkey client) plaintext of
                   None \<Rightarrow> []
                 | Some request \<Rightarrow>
                     [\<lparr>se_network_id = mj_network_id (rj_request request),
                       se_sender_pubkey = rj_sender_pubkey request,
                       se_payload = JoinRequest (rj_requested_at request) (rj_request request)\<rparr>])
            | Some envelope \<Rightarrow>
                if accept_envelope client (ev_pubkey event) envelope then [envelope] else [])))"

definition signaling_forward ::
  "nostr_lib \<Rightarrow> signal_envelope json_codec \<Rightarrow> join_request_envelope json_codec \<Rightarrow> signaling_client
    \<Rightarrow> nostr_event notification list \<Rightarrow> signal_envelope list" where
  "signaling_forward L J JR client = forward_loop (forward_signal_event L J JR client)"

end
