(* ===== verification/Network_Invite.thy ===== *)
theory Network_Invite
  imports Tunnel_Plan Config_Roster Signaling
begin

text \<open>
  \<open>crates/nostr-vpn-cli/src/network_signaling.rs\<close>: the invite to a network (its code, its parsing and
  what it makes of a configuration), the edits of the active network's roster and its publication, the
  announcement of the command line and the collection of peers. The configuration file, the base64 and
  JSON libraries and the messages received are arguments.
\<close>

section \<open>Invites\<close>

definition NETWORK_INVITE_PREFIX :: string where "NETWORK_INVITE_PREFIX = ''nvpn://invite/''"
definition NETWORK_INVITE_VERSION :: u8 where "NETWORK_INVITE_VERSION = 3"

record network_invite =
  ni_v :: u8
  ni_network_name :: string
  ni_network_id :: string
  ni_inviter_npub :: string
  ni_inviter_node_name :: string
  ni_admins :: "string list"
  ni_participants :: "string list"
  ni_relays :: "string list"

datatype invite_error =
    InviteEmpty
  | InviteJson
  | InvitePayload
  | InvitePayloadJson
  | UnsupportedVersion u8
  | InviteNetworkIdEmpty
  | InvitePubkey
  | InviteWithoutAdmin
  | InvalidInviteRelay string
  | InviteNotSerializable
  | InviteConfig config_error

text \<open>The codecs of an invite: unpadded URL-safe base64 and JSON.\<close>

record invite_codec =
  iv_encode :: "string \<Rightarrow> string"
  iv_decode :: "string \<Rightarrow> string option"
  iv_json :: "network_invite json_codec"

definition normalized_invite_pubkeys :: "key_env \<Rightarrow> string list \<Rightarrow> string list option" where
  "normalized_invite_pubkeys E pubkeys =
    map_option sort_dedup (collect_results (normalize_nostr_pubkey E) pubkeys)"

definition is_valid_relay_url :: "string \<Rightarrow> bool" where
  "is_valid_relay_url value =
    (let trimmed = trim value in starts_with ''wss://'' trimmed \<or> starts_with ''ws://'' trimmed)"

fun add_invite_relays :: "string list \<Rightarrow> string list \<Rightarrow> invite_error + string list" where
  "add_invite_relays [] normalized = Inr normalized"
| "add_invite_relays (relay0 # relays) normalized =
    (let relay = trim relay0
     in if relay = [] then add_invite_relays relays normalized
        else if \<not> is_valid_relay_url relay then Inl (InvalidInviteRelay relay)
        else add_invite_relays relays (if relay \<in> set normalized then normalized else normalized @ [relay]))"

definition normalized_invite_relays :: "string list \<Rightarrow> invite_error + string list" where
  "normalized_invite_relays relays = add_invite_relays relays []"

definition read_invite :: "invite_codec \<Rightarrow> string \<Rightarrow> invite_error + network_invite" where
  "read_invite I trimmed =
    (if starts_with ''{'' trimmed
     then (case from_json (iv_json I) trimmed of None \<Rightarrow> Inl InviteJson | Some invite \<Rightarrow> Inr invite)
     else (let payload = (case strip_prefix NETWORK_INVITE_PREFIX trimmed of
                 Some payload \<Rightarrow> payload | None \<Rightarrow> trimmed)
           in (case iv_decode I payload of
                 None \<Rightarrow> Inl InvitePayload
               | Some decoded \<Rightarrow>
                   (case from_json (iv_json I) decoded of
                      None \<Rightarrow> Inl InvitePayloadJson | Some invite \<Rightarrow> Inr invite))))"

text \<open>The inviter and the admins: an inviter that is named joins the admins, else the first admin invites.\<close>

definition invite_inviter_admins ::
  "key_env \<Rightarrow> string \<Rightarrow> string list \<Rightarrow> invite_error + string \<times> string list" where
  "invite_inviter_admins E inviter_npub admins =
    (if trim inviter_npub \<noteq> []
     then (case normalize_nostr_pubkey E inviter_npub of
         None \<Rightarrow> Inl InvitePubkey
       | Some inviter \<Rightarrow> Inr (inviter, if inviter \<in> set admins then admins else admins @ [inviter]))
     else (case admins of [] \<Rightarrow> Inl InviteWithoutAdmin | admin # _ \<Rightarrow> Inr (admin, admins)))"

text \<open>
  The checks on an invite that was read. The branch for admins that are still empty after the inviter
  joined them is never taken and adds nothing to an invite.
\<close>

definition normalize_invite :: "key_env \<Rightarrow> network_invite \<Rightarrow> invite_error + network_invite" where
  "normalize_invite E invite =
    (if ni_v invite \<noteq> 1 \<and> ni_v invite \<noteq> 2 \<and> ni_v invite \<noteq> NETWORK_INVITE_VERSION
     then Inl (UnsupportedVersion (ni_v invite))
     else if trim (ni_network_id invite) = [] then Inl InviteNetworkIdEmpty
     else (case normalized_invite_pubkeys E (ni_admins invite) of
         None \<Rightarrow> Inl InvitePubkey
       | Some admins \<Rightarrow>
           (case invite_inviter_admins E (ni_inviter_npub invite) admins of
              Inl error \<Rightarrow> Inl error
            | Inr (inviter, admins) \<Rightarrow>
                (case normalized_invite_pubkeys E (ni_participants invite) of
                   None \<Rightarrow> Inl InvitePubkey
                 | Some participants \<Rightarrow>
                     (case normalized_invite_relays (ni_relays invite) of
                        Inl error \<Rightarrow> Inl error
                      | Inr relays \<Rightarrow> Inr \<lparr>ni_v = ni_v invite,
                          ni_network_name = trim (ni_network_name invite),
                          ni_network_id = trim (ni_network_id invite),
                          ni_inviter_npub = inviter,
                          ni_inviter_node_name = trim (ni_inviter_node_name invite),
                          ni_admins = (if admins = [] then [inviter] else admins),
                          ni_participants = (if participants = [] \<and> ni_v invite < NETWORK_INVITE_VERSION
                             then [inviter] else participants),
                          ni_relays = relays\<rparr>)))))"

definition parse_network_invite ::
  "key_env \<Rightarrow> invite_codec \<Rightarrow> string \<Rightarrow> invite_error + network_invite" where
  "parse_network_invite E I value =
    (let trimmed = trim value
     in if trimmed = [] then Inl InviteEmpty
        else (case read_invite I trimmed of
            Inl error \<Rightarrow> Inl error
          | Inr invite \<Rightarrow> normalize_invite E invite))"

definition to_npub :: "key_env \<Rightarrow> string \<Rightarrow> string" where
  "to_npub E pubkey_hex = (case npub_of_hex E pubkey_hex of Some npub \<Rightarrow> npub | None \<Rightarrow> pubkey_hex)"

definition active_network_invite_code ::
  "key_env \<Rightarrow> invite_codec \<Rightarrow> app_config \<Rightarrow> invite_error + string" where
  "active_network_invite_code E I config =
    (case shared_network_roster E config (nc_id (active_network config)) of
       Inl error \<Rightarrow> Inl (InviteConfig error)
     | Inr roster \<Rightarrow>
         if sr_admins roster = [] then Inl InviteWithoutAdmin
         else (case normalized_invite_relays (no_relays (ac_nostr config)) of
             Inl error \<Rightarrow> Inl error
           | Inr relays \<Rightarrow>
               (case to_json (iv_json I) \<lparr>ni_v = NETWORK_INVITE_VERSION, ni_network_name = [],
                      ni_network_id = sr_network_id roster, ni_inviter_npub = [], ni_inviter_node_name = [],
                      ni_admins = map (to_npub E) (sr_admins roster), ni_participants = [], ni_relays = relays\<rparr> of
                  None \<Rightarrow> Inl InviteNotSerializable
                | Some json \<Rightarrow> Inr (NETWORK_INVITE_PREFIX @ iv_encode I json))))"

section \<open>Accepting an invite\<close>

definition network_should_adopt_invite :: "network_config \<Rightarrow> bool" where
  "network_should_adopt_invite network =
    (let trimmed = trim (nc_name network)
     in nc_participants network = [] \<and> (trimmed = [] \<or> starts_with ''Network '' trimmed))"

text \<open>The network an invite is for: the one with its mesh id, the active one if it is unused, or a new one.\<close>

definition invite_target ::
  "key_env \<Rightarrow> u64 \<Rightarrow> network_invite \<Rightarrow> app_config \<Rightarrow> (string \<times> bool) outcome" where
  "invite_target E now invite config =
    (case find (\<lambda>network. normalize_runtime_network_id (nc_network_id network)
          = normalize_runtime_network_id (ni_network_id invite)) (ac_networks config) of
       Some existing \<Rightarrow> (Inr (nc_id existing, False), config)
     | None \<Rightarrow>
         if network_should_adopt_invite (active_network config)
         then (Inr (nc_id (active_network config), True), config)
         else (case add_network E now (ni_network_name invite) config of
             (network_id, config) \<Rightarrow>
               and_then (set_network_enabled network_id True config)
                 (\<lambda>_ config. (Inr (network_id, True), config))))"

definition invite_membership ::
  "string option \<Rightarrow> bool \<Rightarrow> string list \<Rightarrow> string list \<Rightarrow> string \<Rightarrow> network_config \<Rightarrow> network_config" where
  "invite_membership own_pubkey reset_membership participants admins inviter n0 =
    (let n1 = (if reset_membership
           then n0\<lparr>nc_participants := [], nc_admins := [], nc_shared_roster_updated_at := 0,
             nc_shared_roster_signed_by := []\<rparr> else n0);
         participants = sort_dedup (nc_participants n1 @ filter (\<lambda>p. own_pubkey \<noteq> Some p) participants);
         admins = nc_admins n1 @ admins;
         admins = sort_dedup (if inviter \<in> set admins then admins else admins @ [inviter])
     in n1\<lparr>nc_participants := participants, nc_admins := admins,
           nc_invite_inviter := (if inviter \<in> set admins then inviter
             else (case admins of [] \<Rightarrow> [] | admin # _ \<Rightarrow> admin)),
           nc_outbound_join_request := (case nc_outbound_join_request n1 of
               None \<Rightarrow> None
             | Some request \<Rightarrow> if po_recipient request \<in> set admins then Some request else None)\<rparr>)"

definition invite_relays :: "string list \<Rightarrow> string list \<Rightarrow> string list" where
  "invite_relays relays existing =
    fold (\<lambda>relay existing. if relay \<in> set existing then existing else existing @ [relay]) relays existing"

definition invite_inviter :: "network_invite \<Rightarrow> string option" where
  "invite_inviter invite =
    (if trim (ni_inviter_npub invite) = []
     then (case ni_admins invite of [] \<Rightarrow> None | admin # _ \<Rightarrow> Some admin)
     else Some (ni_inviter_npub invite))"

text \<open>What is done once the keys are read and the network is chosen.\<close>

definition join_invited_network ::
  "key_env \<Rightarrow> u64 \<Rightarrow> network_invite \<Rightarrow> string \<Rightarrow> string option \<Rightarrow> string list \<Rightarrow> string list
    \<Rightarrow> string \<times> bool \<Rightarrow> app_config \<Rightarrow> unit outcome" where
  "join_invited_network E now invite inviter own_pubkey admins participants target config =
    (case target of (target_id, reset_membership) \<Rightarrow>
      (let before = network_by_id config target_id;
           should_adopt_name = (case before of None \<Rightarrow> False | Some n \<Rightarrow> network_should_adopt_invite n);
           inviter_configured = (case before of None \<Rightarrow> False
              | Some n \<Rightarrow> inviter \<in> set (nc_participants n) \<or> inviter \<in> set (nc_admins n))
       in and_then (set_network_enabled target_id True config) (\<lambda>_ config.
          and_then (set_network_mesh_id target_id (ni_network_id invite) config) (\<lambda>_ config.
            (let config = update_network target_id
                   (invite_membership own_pubkey reset_membership participants admins inviter) config;
                 config = (if \<not> inviter_configured \<and> trim (ni_inviter_node_name invite) \<noteq> []
                   then snd (set_peer_alias E now inviter (ni_inviter_node_name invite) config) else config);
                 config = (if should_adopt_name \<and> trim (ni_network_name invite) \<noteq> []
                   then update_network target_id (\<lambda>n. n\<lparr>nc_name := trim (ni_network_name invite)\<rparr>) config
                   else config)
             in (Inr (), config\<lparr>ac_nostr := (ac_nostr config)\<lparr>no_relays :=
                   invite_relays (ni_relays invite) (no_relays (ac_nostr config))\<rparr>\<rparr>))))))"

definition apply_network_invite_to_active_network ::
  "key_env \<Rightarrow> u64 \<Rightarrow> network_invite \<Rightarrow> app_config \<Rightarrow> (invite_error + unit) \<times> app_config" where
  "apply_network_invite_to_active_network E now invite config =
    (case invite_inviter invite of
       None \<Rightarrow> (Inl InviteWithoutAdmin, config)
     | Some inviter0 \<Rightarrow>
         (case (normalize_nostr_pubkey E inviter0, collect_results (normalize_nostr_pubkey E) (ni_admins invite),
                collect_results (normalize_nostr_pubkey E) (ni_participants invite)) of
            (Some inviter, Some admins, Some participants) \<Rightarrow>
              (case and_then (invite_target E now invite config)
                  (join_invited_network E now invite inviter (own_nostr_pubkey_hex E config) admins participants) of
                 (Inl error, config) \<Rightarrow> (Inl (InviteConfig error), config)
               | (Inr _, config) \<Rightarrow> (Inr (), config))
          | _ \<Rightarrow> (Inl InvitePubkey, config)))"

section \<open>Edits of the roster\<close>

datatype roster_edit_action = EditAddParticipant | EditRemoveParticipant | EditAddAdmin | EditRemoveAdmin

definition roster_edit ::
  "key_env \<Rightarrow> u64 \<Rightarrow> roster_edit_action \<Rightarrow> string \<Rightarrow> string \<Rightarrow> app_config \<Rightarrow> string outcome" where
  "roster_edit E now action network_id participant app =
    (case action of
       EditAddParticipant \<Rightarrow> add_participant_to_network E now network_id participant app
     | EditRemoveParticipant \<Rightarrow>
         (case normalize_nostr_pubkey E participant of
            None \<Rightarrow> (Inl InvalidPubkey, app)
          | Some normalized \<Rightarrow> and_then (remove_participant_from_network E now network_id participant app)
              (\<lambda>_ app. (Inr normalized, app)))
     | EditAddAdmin \<Rightarrow> add_admin_to_network E now network_id participant app
     | EditRemoveAdmin \<Rightarrow>
         (case normalize_nostr_pubkey E participant of
            None \<Rightarrow> (Inl InvalidPubkey, app)
          | Some normalized \<Rightarrow> and_then (remove_admin_from_network E now network_id participant app)
              (\<lambda>_ app. (Inr normalized, app))))"

fun roster_edits ::
  "key_env \<Rightarrow> u64 \<Rightarrow> roster_edit_action \<Rightarrow> string \<Rightarrow> string list \<Rightarrow> string list \<Rightarrow> app_config \<Rightarrow> string list outcome" where
  "roster_edits E now action network_id [] changed app = (Inr changed, app)"
| "roster_edits E now action network_id (participant # participants) changed app =
    and_then (roster_edit E now action network_id participant app)
      (\<lambda>normalized. roster_edits E now action network_id participants (changed @ [normalized]))"

text \<open>
  The keys that changed and the configuration that is saved; when an edit fails nothing is saved.
\<close>

definition update_active_network_roster ::
  "key_env \<Rightarrow> host_env \<Rightarrow> string option \<Rightarrow> roster_edit_action \<Rightarrow> string list \<Rightarrow> app_config
    \<Rightarrow> config_error + string list \<times> app_config" where
  "update_active_network_roster E H network_id action participants app =
    (case and_then (case network_id of None \<Rightarrow> (Inr (), app) | Some mesh_id \<Rightarrow> set_active_network_id mesh_id app)
        (\<lambda>_ app. roster_edits E (h_now H) action (nc_id (active_network app)) participants [] app) of
       (Inl error, _) \<Rightarrow> Inl error
     | (Inr changed, app) \<Rightarrow> Inr (changed, maybe_autoconfigure_node E H (ensure_defaults E H app)))"

section \<open>Publishing the roster\<close>

text \<open>Who is sent the roster; \<open>recipients\<close> restricts it, and members outside the network are dropped.\<close>

definition roster_recipients :: "app_config \<Rightarrow> string \<Rightarrow> string list option \<Rightarrow> string list" where
  "roster_recipients app own_pubkey recipients =
    (let allowed = active_network_signal_pubkeys_hex app
     in sort_dedup (filter (\<lambda>recipient. recipient \<noteq> own_pubkey)
          (case recipients of
             None \<Rightarrow> allowed
           | Some recipients \<Rightarrow> filter (\<lambda>recipient. recipient \<in> set allowed) recipients)))"

definition roster_payload :: "u64 \<Rightarrow> shared_network_roster_data \<Rightarrow> signal_payload" where
  "roster_payload now roster = Roster
    \<lparr>nr_network_name = sr_name roster, nr_participants = sr_participants roster, nr_admins = sr_admins roster,
     nr_aliases = sr_aliases roster,
     nr_signed_at = (if 0 < sr_updated_at roster then sr_updated_at roster else now)\<rparr>"

datatype roster_publish_error = RosterConfig config_error | RosterPublish publish_error

definition publish_active_network_roster ::
  "key_env \<Rightarrow> nostr_lib \<Rightarrow> signal_envelope json_codec \<Rightarrow> u64 \<Rightarrow> signaling_client \<Rightarrow> app_config
    \<Rightarrow> string list option \<Rightarrow> nostr_event list \<Rightarrow> (roster_publish_error + nat) \<times> nostr_event list" where
  "publish_active_network_roster E L J now client app recipients outbox =
    (let network = active_network app
     in (case own_nostr_pubkey_hex E app of
           None \<Rightarrow> (Inr 0, outbox)
         | Some own_pubkey \<Rightarrow>
             if \<not> is_network_admin E app (nc_id network) own_pubkey then (Inr 0, outbox)
             else (case shared_network_roster E app (nc_id network) of
                 Inl error \<Rightarrow> (Inl (RosterConfig error), outbox)
               | Inr roster \<Rightarrow>
                   (let recipients = roster_recipients app own_pubkey recipients
                    in if recipients = [] then (Inr 0, outbox)
                       else (case publish_signal_to L J now client (roster_payload now roster) recipients outbox of
                           (Inl error, outbox) \<Rightarrow> (Inl (RosterPublish error), outbox)
                         | (Inr _, outbox) \<Rightarrow> (Inr (length recipients), outbox))))))"

section \<open>Announcing and discovering\<close>

fun runtime_effective_advertised_routes :: "target_os \<Rightarrow> app_config \<Rightarrow> string list" where
  "runtime_effective_advertised_routes Macos app =
    filter (\<lambda>route. route \<noteq> ''::/0'') (app_effective_advertised_routes app)"
| "runtime_effective_advertised_routes OtherOs app =
    filter (\<lambda>route. route \<noteq> ''0.0.0.0/0'' \<and> route \<noteq> ''::/0'') (app_effective_advertised_routes app)"
| "runtime_effective_advertised_routes _ app = app_effective_advertised_routes app"

definition signaling_networks_for_app :: "app_config \<Rightarrow> signaling_network list" where
  "signaling_networks_for_app app =
    (let networks = map (\<lambda>network. \<lparr>sn_network_id = em_network_id network,
           sn_participants = (case network_signal_pubkeys_hex app (em_id network) of
               Inl _ \<Rightarrow> em_participants network | Inr participants \<Rightarrow> participants)\<rparr>)
           (enabled_network_meshes app)
     in if networks = []
        then [\<lparr>sn_network_id = effective_network_id app, sn_participants = active_network_signal_pubkeys_hex app\<rparr>]
        else networks)"

record announce_request =
  aq_node_id :: "string option"
  aq_endpoint :: "string option"
  aq_tunnel_ip :: "string option"
  aq_public_key :: "string option"

definition or_else :: "'a option \<Rightarrow> 'a \<Rightarrow> 'a" where
  "or_else v d = (case v of Some x \<Rightarrow> x | None \<Rightarrow> d)"

text \<open>The announcement the command line publishes.\<close>

definition requested_announcement ::
  "target_os \<Rightarrow> ipv4_addr option \<Rightarrow> u64 \<Rightarrow> announce_request \<Rightarrow> app_config \<Rightarrow> peer_announcement" where
  "requested_announcement os detected_ipv4 now request app =
    (let node = ac_node app;
         endpoint = or_else (aq_endpoint request) (nd_endpoint node);
         listen_port = (case parse_socket_addr endpoint of
             Some addr \<Rightarrow> sock_port addr | None \<Rightarrow> nd_listen_port node);
         local_endpoint = (if daemon_endpoint_is_local_only endpoint then endpoint
           else local_signal_endpoint detected_ipv4 app listen_port)
     in build_explicit_peer_announcement now (or_else (aq_node_id request) (nd_id node))
          (or_else (aq_public_key request) (nd_public_key node)) endpoint local_endpoint
          (or_else (aq_tunnel_ip request) (nd_tunnel_ip node)) (runtime_effective_advertised_routes os app))"

text \<open>One message while the command line collects peers, and the peers it shows.\<close>

fun collect_peer :: "signal_payload \<Rightarrow> (string, peer_announcement) hmap \<Rightarrow> (string, peer_announcement) hmap" where
  "collect_peer (Announce a) peers =
    (if (case hm_get peers (pa_node_id a) of
           None \<Rightarrow> True | Some existing \<Rightarrow> pa_timestamp existing \<le> pa_timestamp a)
     then hm_insert (pa_node_id a) a peers else peers)"
| "collect_peer (Disconnect node_id) peers = hm_remove node_id peers"
| "collect_peer _ peers = peers"

definition discover_peers :: "u64 \<Rightarrow> signal_payload list \<Rightarrow> peer_announcement list" where
  "discover_peers discover_secs messages =
    (if discover_secs = 0 then []
     else sort_key pa_node_id (map snd (fold collect_peer messages [])))"

end
