(* ===== verification/Signaling_Safety.thy ===== *)
theory Signaling_Safety
  imports Signaling
begin

text \<open>
  What the signaling client promises: the shape of a client, who the delivered envelopes come
  from, and that what one member publishes another one receives.
\<close>

section \<open>The shape of a client\<close>

definition client_inv :: "signaling_client \<Rightarrow> bool" where
  "client_inv c \<longleftrightarrow> sc_networks c \<noteq> [] \<and> distinct (map cn_network_id (sc_networks c))
    \<and> set (sc_network_ids c) = cn_network_id ` set (sc_networks c)
    \<and> set (sc_participant_pubkeys c) = (\<Union>n \<in> set (sc_networks c). set (cn_participants n))"

lemma set_fold_list_insert [simp]: "set (fold List.insert xs ys) = set xs \<union> set ys"
  by (induction xs arbitrary: ys) auto

lemma add_signaling_networks_distinct:
  "add_signaling_networks E ns acc = Inr res \<Longrightarrow> distinct (map cn_network_id acc) \<Longrightarrow>
    distinct (map cn_network_id res)"
proof (induction E ns acc rule: add_signaling_networks.induct)
  case (2 E n ns acc)
  let ?same = "\<lambda>existing. cn_network_id existing = trim (sn_network_id n)"
  have keep: "map cn_network_id (update_first ?same
      (\<lambda>existing. existing\<lparr>cn_participants := f existing\<rparr>) acc) = map cn_network_id acc" for f
    by (rule map_update_first) simp
  from 2 show ?case
    by (fastforce simp: keep list_ex_iff Let_def image_iff split: if_splits option.splits)
qed simp

lemma new_client_inv:
  "new_with_keys_and_networks E L ns = Inr c \<Longrightarrow>
    client_inv c \<and> sc_own_pubkey c = nl_pubkey L \<and> \<not> sc_connected c"
  by (auto simp: new_with_keys_and_networks_def normalize_signaling_networks_def client_inv_def
      dest!: add_signaling_networks_distinct split: sum.splits if_splits list.splits)

lemma client_inv_find:
  "client_inv c \<Longrightarrow> m \<in> set (sc_networks c) \<Longrightarrow>
    find (\<lambda>n. cn_network_id n = cn_network_id m) (sc_networks c) = Some m"
  by (cases "find (\<lambda>n. cn_network_id n = cn_network_id m) (sc_networks c)")
    (auto simp: client_inv_def find_None_all distinct_map inj_on_def dest!: find_Some_in)

lemma client_inv_hello_match:
  assumes "client_inv c" "sc_participant_pubkeys c = [] \<or> p \<in> set (sc_participant_pubkeys c)"
  shows "\<exists>n \<in> set (sc_networks c). cn_participants n = [] \<or> p \<in> set (cn_participants n)"
proof (cases "sc_participant_pubkeys c = []")
  case True
  then show ?thesis using assms(1) by (cases "sc_networks c") (auto simp: client_inv_def)
qed (use assms in \<open>auto simp: client_inv_def\<close>)

section \<open>Who an envelope comes from\<close>

definition speaks_for :: "signaling_client \<Rightarrow> string \<Rightarrow> string \<Rightarrow> bool" where
  "speaks_for c network_id sender \<longleftrightarrow>
    (\<exists>n \<in> set (sc_networks c). cn_network_id n = network_id
      \<and> (cn_participants n = [] \<or> sender \<in> set (cn_participants n)))"

lemma forward_hello_member:
  "client_inv c \<Longrightarrow> env \<in> set (forward_hello c sender) \<Longrightarrow>
    se_payload env = Hello \<and> se_sender_pubkey env = sender \<and> sender \<noteq> sc_own_pubkey c
    \<and> speaks_for c (se_network_id env) sender"
  using client_inv_hello_match [of c sender]
  by (fastforce simp: forward_hello_def speaks_for_def filter_empty_conv Let_def split: if_splits)

lemma accept_envelope_member:
  "accept_envelope c author env \<Longrightarrow>
    se_sender_pubkey env = author \<and> author \<noteq> sc_own_pubkey c \<and> speaks_for c (se_network_id env) author"
  by (auto simp: accept_envelope_def speaks_for_def dest!: find_Some_in split: if_splits option.splits)

lemma decode_join_plaintext:
  "decode_received_join_request_plaintext JR event own plaintext = Some request \<Longrightarrow>
    rj_sender_pubkey request = ev_pubkey event \<and> rj_requested_at request = ev_created_at event
    \<and> ev_pubkey event \<noteq> own"
  by (auto simp: decode_received_join_request_plaintext_def is_join_request_event_for_recipient_def
      split: if_splits option.splits)

lemma forward_signal_event_cases:
  assumes inv: "client_inv c" and env: "env \<in> set (forward_signal_event L J JR c event)"
  obtains (hello) "ev_kind event = NOSTR_KIND_NOSTR_VPN"
      "first_tag_value event ''l'' = Some SIGNAL_HELLO_TAG" "env \<in> set (forward_hello c (ev_pubkey event))"
    | (envelope) plaintext where "ev_kind event = NOSTR_KIND_NOSTR_VPN"
      "nl_decrypt L (ev_pubkey event) (ev_content event) = Some plaintext"
      "from_json J plaintext = Some env" "first_tag_value event ''p'' = Some (sc_own_pubkey c)"
      "accept_envelope c (ev_pubkey event) env"
    | (join) plaintext request where "ev_kind event = NOSTR_KIND_NOSTR_VPN"
      "nl_decrypt L (ev_pubkey event) (ev_content event) = Some plaintext"
      "first_tag_value event ''p'' = Some (sc_own_pubkey c)"
      "decode_received_join_request_plaintext JR event (sc_own_pubkey c) plaintext = Some request"
      "env = \<lparr>se_network_id = mj_network_id (rj_request request),
        se_sender_pubkey = ev_pubkey event, se_payload = JoinRequest (ev_created_at event) (rj_request request)\<rparr>"
proof (cases "first_tag_value event ''l'' = Some SIGNAL_HELLO_TAG")
  case True
  with env show thesis by (intro hello) (simp_all add: forward_signal_event_def split: if_splits)
next
  case False
  with env have kind: "ev_kind event = NOSTR_KIND_NOSTR_VPN" "first_tag_value event ''p'' = Some (sc_own_pubkey c)"
    by (simp_all add: forward_signal_event_def split: if_splits)
  with False env obtain plaintext where plain: "nl_decrypt L (ev_pubkey event) (ev_content event) = Some plaintext"
    by (cases "nl_decrypt L (ev_pubkey event) (ev_content event)") (simp_all add: forward_signal_event_def split: if_splits)
  show thesis
  proof (cases "from_json J plaintext")
    case (Some e)
    with env False kind plain have "e = env" "accept_envelope c (ev_pubkey event) env"
      by (simp_all add: forward_signal_event_def split: if_splits)
    with Some show thesis by (intro envelope [OF kind(1) plain _ kind(2)]) simp_all
  next
    case None
    with env False kind plain obtain request where
      request: "decode_received_join_request_plaintext JR event (sc_own_pubkey c) plaintext = Some request"
      and "env = \<lparr>se_network_id = mj_network_id (rj_request request), se_sender_pubkey = rj_sender_pubkey request,
        se_payload = JoinRequest (rj_requested_at request) (rj_request request)\<rparr>"
      by (cases "decode_received_join_request_plaintext JR event (sc_own_pubkey c) plaintext")
        (simp_all add: forward_signal_event_def split: if_splits)
    with decode_join_plaintext [OF request] show thesis
      by (intro join [OF kind(1) plain kind(2) request]) simp
  qed
qed

text \<open>A library for the examples: a content names its recipient, and relays take every event.\<close>

definition sample_lib :: "string \<Rightarrow> nostr_lib" where
  "sample_lib own =
    \<lparr>nl_pubkey = own, nl_from_hex = (\<lambda>h. if hex_key h then Some h else None),
     nl_encrypt = (\<lambda>recipient text. Some (recipient @ text)),
     nl_decrypt = (\<lambda>author content. strip_prefix own content),
     nl_expiration = (\<lambda>now secs. ''soon''), nl_before = saturating_sub,
     nl_sign = (\<lambda>kind content tags now. Some \<lparr>ev_kind = kind, ev_pubkey = own, ev_created_at = now,
       ev_tags = tags, ev_content = content\<rparr>),
     nl_send = (\<lambda>outbox event. Stored)\<rparr>"

text \<open>A codec that knows one value.\<close>

definition one_codec :: "'a \<Rightarrow> string \<Rightarrow> 'a json_codec" where
  "one_codec x s = \<lparr>to_json = (\<lambda>y. if y = x then Some s else None),
     from_json = (\<lambda>t. if t = s then Some x else None)\<rparr>"

lemma sample_lib_sign [simp]: "sign_law (sample_lib own)"
  by (simp add: sign_law_def sample_lib_def)

lemma sample_lib_nip44 [simp]: "nip44_law (sample_lib a) (sample_lib b)"
  by (simp add: nip44_law_def sample_lib_def)

lemma one_codec_law [simp]: "codec_law (one_codec x s)"
  by (simp add: codec_law_def one_codec_def)


section \<open>A message on its way\<close>

text \<open>Some event that went out between two states of the log is the message to this recipient.\<close>

definition mailed ::
  "nostr_lib \<Rightarrow> u64 \<Rightarrow> string \<Rightarrow> string \<Rightarrow> string \<Rightarrow> nostr_event list \<Rightarrow> nostr_event list \<Rightarrow> bool" where
  "mailed L now network_id content recipient outbox outbox' \<longleftrightarrow>
    (\<exists>pre event post key encrypted. outbox' = outbox @ pre @ event # post
      \<and> nl_from_hex L recipient = Some key \<and> nl_encrypt L key content = Some encrypted
      \<and> event = \<lparr>ev_kind = NOSTR_KIND_NOSTR_VPN, ev_pubkey = nl_pubkey L, ev_created_at = now,
          ev_tags = [[''d'', private_signal_identifier network_id recipient], [''p'', key],
            [''expiration'', nl_expiration L now SIGNAL_EXPIRATION_SECS]], ev_content = encrypted\<rparr>
      \<and> nl_send L (outbox @ pre) event = Stored)"

lemma mailed_more: "mailed L now i content r outbox outbox' \<Longrightarrow> mailed L now i content r outbox (outbox' @ ys)"
  unfolding mailed_def by (metis append.assoc append_Cons)

lemma mailed_earlier:
  "mailed L now i content r (outbox @ ys) outbox' \<Longrightarrow> mailed L now i content r outbox outbox'"
  unfolding mailed_def by (metis append.assoc)

lemma send_to_recipients_grows:
  "send_to_recipients L now i content rs delivered outbox = (res, outbox') \<Longrightarrow> \<exists>ys. outbox' = outbox @ ys"
  by (induction rs arbitrary: delivered outbox)
    (force split: option.splits sum.splits send_outcome.splits prod.splits dest!: send_private_log)+

lemma send_to_recipients_mailed:
  assumes "sign_law L"
  shows "send_to_recipients L now i content rs delivered outbox = (Inr sent, outbox') \<Longrightarrow> r \<in> set sent \<Longrightarrow>
    r \<in> set delivered \<or> mailed L now i content r outbox outbox'"
proof (induction rs arbitrary: delivered outbox)
  case Nil
  then show ?case by (auto split: if_splits)
next
  case (Cons x rs)
  let ?tags = "\<lambda>key. [[''d'', private_signal_identifier i x], [''p'', key],
    [''expiration'', nl_expiration L now SIGNAL_EXPIRATION_SECS]]"
  from Cons.prems(1) obtain key outcome mid where key: "nl_from_hex L x = Some key"
    and one: "send_private L now key (?tags key) content outbox = (Inr outcome, mid)"
    and rest: "send_to_recipients L now i content rs
      (if outcome = Stored then List.insert x delivered else delivered) mid = (Inr sent, outbox')"
    by (auto split: option.splits sum.splits prod.splits send_outcome.splits)
  from send_private_sent [OF assms one] obtain encrypted event where e: "nl_encrypt L key content = Some encrypted"
    "event = \<lparr>ev_kind = NOSTR_KIND_NOSTR_VPN, ev_pubkey = nl_pubkey L, ev_created_at = now,
      ev_tags = ?tags key, ev_content = encrypted\<rparr>" "mid = outbox @ [event]" "nl_send L outbox event = outcome"
    by blast
  from send_to_recipients_grows [OF rest] obtain ys where out: "outbox' = mid @ ys" by blast
  have mine: "mailed L now i content x outbox outbox'" if "outcome = Stored"
    unfolding mailed_def out using key e that
    by (intro exI [of _ "[]"] exI [of _ event] exI [of _ ys] exI [of _ key] exI [of _ encrypted]) simp
  from Cons.IH [OF rest Cons.prems(2)] show ?case
    using mine mailed_earlier [of L now i content r outbox "[event]" outbox'] e(3)
    by (auto split: if_splits)
qed

lemma send_to_recipients_subset:
  "send_to_recipients L now i content rs delivered outbox = (Inr sent, outbox') \<Longrightarrow> r \<in> set sent \<Longrightarrow>
    r \<in> set delivered \<or> r \<in> set rs"
  by (induction rs arbitrary: delivered outbox)
    (fastforce split: if_splits option.splits sum.splits send_outcome.splits prod.splits)+

text \<open>The same for the loop over the networks.\<close>

definition reached ::
  "nostr_lib \<Rightarrow> signal_envelope json_codec \<Rightarrow> u64 \<Rightarrow> string \<Rightarrow> signal_payload \<Rightarrow> string
    \<Rightarrow> nostr_event list \<Rightarrow> nostr_event list \<Rightarrow> configured_network \<Rightarrow> bool" where
  "reached L J now own payload r outbox outbox' n \<longleftrightarrow> r \<in> set (cn_participants n) \<and>
    (\<exists>content. to_json J \<lparr>se_network_id = cn_network_id n, se_sender_pubkey = own, se_payload = payload\<rparr>
        = Some content \<and> mailed L now (cn_network_id n) content r outbox outbox')"

lemma reached_more: "reached L J now own p r outbox outbox' n \<Longrightarrow> reached L J now own p r outbox (outbox' @ ys) n"
  by (auto simp: reached_def intro: mailed_more)

lemma reached_earlier:
  "reached L J now own p r (outbox @ ys) outbox' n \<Longrightarrow> reached L J now own p r outbox outbox' n"
  by (auto simp: reached_def intro: mailed_earlier)

lemma publish_network_reached:
  assumes "sign_law L"
    "publish_private_to_network L J now c payload (cn_network_id n) rs outbox = (Inr sent, outbox')"
    "set rs \<subseteq> set (cn_participants n)" "r \<in> set sent"
  shows "reached L J now (sc_own_pubkey c) payload r outbox outbox' n"
  using assms send_to_recipients_mailed [OF assms(1)] send_to_recipients_subset
  by (fastforce simp: publish_private_to_network_def reached_def split: option.splits)

lemma publish_network_grows:
  "publish_private_to_network L J now c payload i rs outbox = (res, outbox') \<Longrightarrow> \<exists>ys. outbox' = outbox @ ys"
  using send_to_recipients_grows by (fastforce simp: publish_private_to_network_def split: option.splits)

lemma send_to_networks_reached:
  assumes "sign_law L"
  shows "send_to_networks L J now c payload rs ns (delivered, first_error, outbox) = (sent, err, outbox') \<Longrightarrow>
    (\<exists>ys. outbox' = outbox @ ys) \<and>
    (\<forall>r \<in> set sent. r \<in> set delivered
      \<or> (\<exists>n \<in> set ns. reached L J now (sc_own_pubkey c) payload r outbox outbox' n))"
proof (induction ns arbitrary: delivered first_error outbox)
  case (Cons n ns)
  let ?rs = "filter (\<lambda>p. p \<in> set (cn_participants n)) rs"
  show ?case
  proof (cases "?rs = []")
    case True
    with Cons.prems have "send_to_networks L J now c payload rs ns (delivered, first_error, outbox)
      = (sent, err, outbox')" by (simp add: Let_def del: send_to_networks.simps(1))
    from Cons.IH [OF this] show ?thesis by auto
  next
    case False
    obtain res mid where pub: "publish_private_to_network L J now c payload (cn_network_id n) ?rs outbox = (res, mid)"
      by fastforce
    from publish_network_grows [OF pub] obtain ys where mid: "mid = outbox @ ys" by blast
    define d' where "d' = (case res of Inr sent \<Rightarrow> fold List.insert sent delivered | Inl _ \<Rightarrow> delivered)"
    obtain err' where rest: "send_to_networks L J now c payload rs ns (d', err', mid) = (sent, err, outbox')"
      using Cons.prems False pub
      by (auto simp only: send_to_networks.simps Let_def if_False d'_def sum.case prod.case split: sum.splits)
    note ih = Cons.IH [OF rest]
    then obtain zs where out: "outbox' = mid @ zs" by blast
    have "r \<in> set delivered \<or> reached L J now (sc_own_pubkey c) payload r outbox outbox' n" if "r \<in> set d'" for r
      using that publish_network_reached [OF assms, of J now c payload n ?rs outbox _ mid] pub
      by (cases res) (auto simp: d'_def out intro!: reached_more)
    moreover have "reached L J now (sc_own_pubkey c) payload r outbox outbox' m"
      if "reached L J now (sc_own_pubkey c) payload r mid outbox' m" for r m
      using that unfolding mid by (rule reached_earlier)
    ultimately show ?thesis using ih out mid by fastforce
  qed
qed simp

text \<open>What a successful call of \<open>publish_to\<close> did.\<close>

lemma publish_signal_to_reached:
  assumes "sign_law L" "client_inv c" "payload \<noteq> Hello"
    and ok: "publish_signal_to L J now c payload recipients outbox = (Inr (), outbox')"
    and r: "r \<in> set recipients" "r \<noteq> sc_own_pubkey c" "r \<in> set (sc_participant_pubkeys c)"
  shows "\<exists>n \<in> set (sc_networks c). reached L J now (sc_own_pubkey c) payload r outbox outbox' n"
proof -
  let ?rs = "remdups (filter (\<lambda>p. p \<noteq> sc_own_pubkey c \<and> p \<in> set (sc_participant_pubkeys c)) recipients)"
  from ok assms(3) obtain delivered err where
    run: "send_to_networks L J now c payload ?rs (sc_networks c) ([], None, outbox) = (delivered, err, outbox')"
    and "set delivered = set ?rs"
    by (auto simp: publish_signal_to_def publish_private_to_def Let_def
        split: if_splits prod.splits option.splits)
  with r have "r \<in> set delivered" by auto
  with send_to_networks_reached [OF assms(1) run] show ?thesis by auto
qed

text \<open>A reached member that knows the sender takes the message.\<close>

lemma reached_accepted:
  assumes laws: "nip44_law A B" "codec_law J"
    and key: "nl_from_hex A (nl_pubkey B) = Some (nl_pubkey B)" "nl_pubkey A \<noteq> nl_pubkey B"
    and cb: "client_inv cb" "sc_own_pubkey cb = nl_pubkey B"
    and known: "m \<in> set (sc_networks cb)" "cn_network_id m = cn_network_id n"
      "nl_pubkey A \<in> set (cn_participants m)"
    and r: "reached A J now (nl_pubkey A) payload (nl_pubkey B) outbox outbox' n"
  shows "\<exists>pre event post. outbox' = outbox @ pre @ event # post \<and> nl_send A (outbox @ pre) event = Stored
    \<and> forward_signal_event B J JR cb event
      = [\<lparr>se_network_id = cn_network_id n, se_sender_pubkey = nl_pubkey A, se_payload = payload\<rparr>]"
proof -
  let ?env = "\<lparr>se_network_id = cn_network_id n, se_sender_pubkey = nl_pubkey A, se_payload = payload\<rparr>"
  from r key(1) obtain content pre event post encrypted where
    json: "to_json J ?env = Some content"
    and enc: "nl_encrypt A (nl_pubkey B) content = Some encrypted"
    and event: "event = \<lparr>ev_kind = NOSTR_KIND_NOSTR_VPN, ev_pubkey = nl_pubkey A, ev_created_at = now,
      ev_tags = [[''d'', private_signal_identifier (cn_network_id n) (nl_pubkey B)], [''p'', nl_pubkey B],
        [''expiration'', nl_expiration A now SIGNAL_EXPIRATION_SECS]], ev_content = encrypted\<rparr>"
    and out: "outbox' = outbox @ pre @ event # post" "nl_send A (outbox @ pre) event = Stored"
    by (auto simp: reached_def mailed_def)
  have "accept_envelope cb (nl_pubkey A) ?env"
    using client_inv_find [OF cb(1) known(1)] known cb key(2) imageI [OF known(1), of cn_network_id]
    by (auto simp: accept_envelope_def client_inv_def)
  moreover have "from_json J content = Some ?env" by (rule codec_lawD [OF laws(2) json])
  moreover have "nl_decrypt B (nl_pubkey A) encrypted = Some content" by (rule nip44_lawD [OF laws(1) enc])
  ultimately have "forward_signal_event B J JR cb event = [?env]"
    using key(2) cb(2) by (simp add: forward_signal_event_def event first_tag_value_def)
  with out show ?thesis by blast
qed

text \<open>
  C15. What one member publishes to another arrives: when \<open>publish_to\<close> reports success for a payload
  other than a hello, then for a recipient that is one of the sender's participants the relays took
  an event, sent by this call, from which the recipient's client delivers exactly one message: the
  payload, from the sender's key, in a network they share. The recipient must have the sender as a
  participant of every network in which the sender has the recipient.
\<close>

theorem published_signal_received:
  assumes laws: "sign_law A" "nip44_law A B" "codec_law J"
    and key: "nl_from_hex A (nl_pubkey B) = Some (nl_pubkey B)" "nl_pubkey A \<noteq> nl_pubkey B"
    and clients: "new_with_keys_and_networks EA A nsA = Inr ca" "new_with_keys_and_networks EB B nsB = Inr cb"
    and known: "\<And>n. n \<in> set (sc_networks ca) \<Longrightarrow> nl_pubkey B \<in> set (cn_participants n) \<Longrightarrow>
      \<exists>m \<in> set (sc_networks cb). cn_network_id m = cn_network_id n \<and> nl_pubkey A \<in> set (cn_participants m)"
    and publish: "publish_signal_to A J now (ca\<lparr>sc_connected := True\<rparr>) payload recipients outbox = (Inr (), outbox')"
      "payload \<noteq> Hello" "nl_pubkey B \<in> set recipients" "nl_pubkey B \<in> set (sc_participant_pubkeys ca)"
  shows "\<exists>network \<in> set (sc_networks ca). \<exists>pre event post.
    outbox' = outbox @ pre @ event # post \<and> nl_send A (outbox @ pre) event = Stored
    \<and> forward_signal_event B J JR (cb\<lparr>sc_connected := True\<rparr>) event
      = [\<lparr>se_network_id = cn_network_id network, se_sender_pubkey = nl_pubkey A, se_payload = payload\<rparr>]"
proof -
  let ?ca = "ca\<lparr>sc_connected := True\<rparr>" and ?cb = "cb\<lparr>sc_connected := True\<rparr>"
  have a: "client_inv ?ca" "sc_own_pubkey ?ca = nl_pubkey A" and b: "client_inv ?cb" "sc_own_pubkey ?cb = nl_pubkey B"
    using new_client_inv [OF clients(1)] new_client_inv [OF clients(2)] by (auto simp: client_inv_def)
  from publish_signal_to_reached [OF laws(1) a(1) publish(2,1,3)] publish(4) key(2) a(2)
  obtain n where n: "n \<in> set (sc_networks ca)" "reached A J now (nl_pubkey A) payload (nl_pubkey B) outbox outbox' n"
    by auto
  with known obtain m where "m \<in> set (sc_networks ?cb)" "cn_network_id m = cn_network_id n"
    "nl_pubkey A \<in> set (cn_participants m)" by (auto simp: reached_def)
  from reached_accepted [OF laws(2,3) key b this n(2)] n(1) show ?thesis by blast
qed

text \<open>Two members of one mesh, for the examples.\<close>

definition sample_client :: "string \<Rightarrow> string \<Rightarrow> signaling_client" where
  "sample_client own peer =
    \<lparr>sc_default_network_id = ''home'', sc_network_ids = [''home''], sc_own_pubkey = own,
     sc_networks = [\<lparr>cn_network_id = ''home'', cn_participants = [peer]\<rparr>],
     sc_participant_pubkeys = [peer], sc_connected = False\<rparr>"

definition sample_codec :: "signal_envelope json_codec" where
  "sample_codec = one_codec \<lparr>se_network_id = ''home'', se_sender_pubkey = ''aa11'',
     se_payload = Disconnect ''node''\<rparr> ''{}''"

definition sample_networks :: "string \<Rightarrow> signaling_network list" where
  "sample_networks peer = [\<lparr>sn_network_id = '' home '', sn_participants = [peer]\<rparr>]"

definition sample_join_codec :: "join_request_envelope json_codec" where
  "sample_join_codec = one_codec \<lparr>je_v = 1, je_network_id = ''home'', je_requester_node_name = ''phone''\<rparr> ''join''"

lemma sample_codec_laws: "codec_law sample_codec" "codec_law sample_join_codec"
  by (simp_all add: sample_codec_def sample_join_codec_def)

lemma sample_lib_key: "nl_pubkey (sample_lib own) = own" "nl_from_hex (sample_lib own) ''bb22'' = Some ''bb22''"
  by (simp_all add: sample_lib_def hex_key_def is_ascii_digit_def byte_def)

lemmas sample_exchange_defs = sample_lib_def sample_codec_def sample_join_codec_def one_codec_def sample_client_def
  accept_envelope_def forward_signal_event_def first_tag_value_def strip_prefix_def

lemma sample_client_new:
  "new_with_keys_and_networks sample_keys (sample_lib ''aa11'') (sample_networks ''bb22'')
     = Inr (sample_client ''aa11'' ''bb22'')"
  "new_with_keys_and_networks sample_keys (sample_lib ''bb22'') (sample_networks ''aa11'')
     = Inr (sample_client ''bb22'' ''aa11'')"
  by code_simp+


lemma published_signal_received_witness:
  "\<exists>event. snd (publish_signal_to (sample_lib ''aa11'') sample_codec 7
      ((sample_client ''aa11'' ''bb22'')\<lparr>sc_connected := True\<rparr>) (Disconnect ''node'') [''bb22''] []) = [event]
    \<and> forward_signal_event (sample_lib ''bb22'') sample_codec sample_join_codec
        ((sample_client ''bb22'' ''aa11'')\<lparr>sc_connected := True\<rparr>) event
      = [\<lparr>se_network_id = ''home'', se_sender_pubkey = ''aa11'', se_payload = Disconnect ''node''\<rparr>]"
proof -
  define event where "event = \<lparr>ev_kind = NOSTR_KIND_NOSTR_VPN, ev_pubkey = ''aa11'', ev_created_at = 7,
    ev_tags = [[''d'', private_signal_identifier ''home'' ''bb22''], [''p'', ''bb22''], [''expiration'', ''soon'']],
    ev_content = ''bb22{}''\<rparr>"
  have sent: "publish_signal_to (sample_lib ''aa11'') sample_codec 7
      ((sample_client ''aa11'' ''bb22'')\<lparr>sc_connected := True\<rparr>) (Disconnect ''node'') [''bb22''] []
    = (Inr (), [event])"
    by (simp add: publish_signal_to_def publish_private_to_def publish_private_to_network_def send_private_def
        event_def sample_exchange_defs hex_key_def is_ascii_digit_def byte_def)
  from published_signal_received [OF sample_lib_sign sample_lib_nip44 sample_codec_laws(1) _ _ sample_client_new
      _ sent, where JR = sample_join_codec]
  show ?thesis
    by (simp add: sent sample_lib_key) (force simp: sample_client_def Cons_eq_append_conv)
qed

text \<open>
  C16. A join request that was published reaches the inviter: the relays took one event, and both the
  join request listener and the signaling client of the recipient decode it, as a request from the
  sender's key at the time of the event. What they read is the request normalised three times; when
  the normal form of its network id is stable, that is the request normalised once. When the id
  is nothing but legacy prefixes the call can succeed and the recipient still drop the event.
\<close>

theorem join_request_reaches_inviter:
  assumes laws: "sign_law A" "nip44_law A B" "codec_law JR"
    and key: "normalize_nostr_pubkey E recipient = Some (nl_pubkey B)"
      "nl_from_hex A (nl_pubkey B) = Some (nl_pubkey B)" "nl_pubkey A \<noteq> nl_pubkey B"
    and no_envelope: "\<forall>x t. to_json JR x = Some t \<longrightarrow> from_json J t = None"
    and client: "new_with_keys_and_networks EB B networks = Inr cb"
    and publish: "publish_join_request E A JR now add_relay relays recipient request outbox = (Inr (), outbox')"
  shows "\<exists>event. outbox' = outbox @ [event] \<and> nl_send A outbox event = Stored
    \<and> listener_forward B JR (listener_new B) [EventNotice event]
      = (case delivered_request request of None \<Rightarrow> []
         | Some r \<Rightarrow> [\<lparr>rj_sender_pubkey = nl_pubkey A, rj_requested_at = now, rj_request = r\<rparr>])
    \<and> forward_signal_event B J JR cb event
      = (case delivered_request request of None \<Rightarrow> []
         | Some r \<Rightarrow> [\<lparr>se_network_id = mj_network_id r, se_sender_pubkey = nl_pubkey A,
             se_payload = JoinRequest now r\<rparr>])
    \<and> (let i = normalize_runtime_network_id (mj_network_id request) in
         normalize_runtime_network_id i = i \<longrightarrow> delivered_request request = normalize_join_request request
           \<and> delivered_request request \<noteq> None)"
proof -
  from publish_join_request_sent [OF laws(1) publish] obtain r rc rp envelope content encrypted event where
    r: "normalize_join_request request = Some r"
    and rc: "normalize_nostr_pubkey E recipient = Some rc" "nl_from_hex A rc = Some rp"
    and envelope: "encode_join_request r = Some envelope"
    and json: "to_json JR envelope = Some content" and enc: "nl_encrypt A rp content = Some encrypted"
    and event0: "event = \<lparr>ev_kind = NOSTR_KIND_NOSTR_VPN, ev_pubkey = nl_pubkey A, ev_created_at = now,
      ev_tags = [[''d'', join_request_identifier rc], [''p'', rp],
        [''expiration'', nl_expiration A now JOIN_REQUEST_EXPIRATION_SECS]], ev_content = encrypted\<rparr>"
    and sent: "outbox' = outbox @ [event]" "nl_send A outbox event = Stored" by blast
  have rcB: "rc = nl_pubkey B" "rp = nl_pubkey B" using rc key by auto
  note enc = enc [unfolded rcB] and event = event0 [unfolded rcB]
  have dec: "nl_decrypt B (nl_pubkey A) encrypted = Some content" by (rule nip44_lawD [OF laws(2) enc])
  have for_us: "is_join_request_event_for_recipient event (nl_pubkey B)"
    using key(3) by (simp add: is_join_request_event_for_recipient_def is_join_request_event_def event
        first_tag_value_def tag_contains_value_def)
  have "decode_join_request envelope = delivered_request request"
    using decode_encode_join_request [of r] r envelope by (simp add: delivered_request_def)
  then have plain: "decode_received_join_request_plaintext JR event (nl_pubkey B) content
    = map_option (\<lambda>r. \<lparr>rj_sender_pubkey = nl_pubkey A, rj_requested_at = now, rj_request = r\<rparr>)
        (delivered_request request)"
    using for_us codec_lawD [OF laws(3) json]
    by (simp add: decode_received_join_request_plaintext_def event split: option.split)
  have listener: "listener_forward B JR (listener_new B) [EventNotice event]
      = (case delivered_request request of None \<Rightarrow> []
         | Some r \<Rightarrow> [\<lparr>rj_sender_pubkey = nl_pubkey A, rj_requested_at = now, rj_request = r\<rparr>])"
    using for_us dec plain
    by (simp add: listener_forward_def listener_new_def decode_received_join_request_event_def event
        split: option.split)
  have "first_tag_value event ''p'' = Some (nl_pubkey B)" "first_tag_value event ''l'' = None"
    by (simp_all add: event first_tag_value_def)
  then have signal: "forward_signal_event B J JR cb event
      = (case delivered_request request of None \<Rightarrow> []
         | Some r \<Rightarrow> [\<lparr>se_network_id = mj_network_id r, se_sender_pubkey = nl_pubkey A,
             se_payload = JoinRequest now r\<rparr>])"
    using no_envelope json dec plain key(3) new_client_inv [OF client]
    by (simp add: forward_signal_event_def event split: option.split)
  have "mj_network_id r = normalize_runtime_network_id (mj_network_id request)"
    using r by (auto simp: normalize_join_request_def Let_def split: if_splits)
  with delivered_request_stable [OF r] r sent listener signal show ?thesis
    by (intro exI [of _ event]) (auto simp: Let_def)
qed

text \<open>
  The example also shows the third normalisation at work: a network id with nested legacy
  prefixes arrives as another id.
\<close>

lemma join_request_reaches_inviter_witness:
  "\<exists>event. snd (publish_join_request sample_keys (sample_lib ''aa11'') sample_join_codec 7 (\<lambda>_. True) [''wss://r'']
      ''npub1bb22'' \<lparr>mj_network_id = ''nostr-vpn:home'', mj_requester_node_name = ''phone ''\<rparr> []) = [event]
    \<and> listener_forward (sample_lib ''bb22'') sample_join_codec (listener_new (sample_lib ''bb22'')) [EventNotice event]
      = [\<lparr>rj_sender_pubkey = ''aa11'', rj_requested_at = 7,
          rj_request = \<lparr>mj_network_id = ''home'', mj_requester_node_name = ''phone''\<rparr>\<rparr>]
    \<and> delivered_request \<lparr>mj_network_id = ''nostr-vpn:nostr-vpn:nostr-vpn:home'', mj_requester_node_name = []\<rparr>
      = Some \<lparr>mj_network_id = ''home'', mj_requester_node_name = []\<rparr>"
proof -
  let ?request = "\<lparr>mj_network_id = ''nostr-vpn:home'', mj_requester_node_name = ''phone ''\<rparr>"
  let ?publish = "publish_join_request sample_keys (sample_lib ''aa11'') sample_join_codec 7 (\<lambda>_. True) [''wss://r'']
      ''npub1bb22'' ?request []"
  have ok: "fst ?publish = Inr ()" by code_simp
  have once: "delivered_request ?request = Some \<lparr>mj_network_id = ''home'', mj_requester_node_name = ''phone''\<rparr>"
    and thrice: "delivered_request \<lparr>mj_network_id = ''nostr-vpn:nostr-vpn:nostr-vpn:home'', mj_requester_node_name = []\<rparr>
      = Some \<lparr>mj_network_id = ''home'', mj_requester_node_name = []\<rparr>" by code_simp+
  have npub: "normalize_nostr_pubkey sample_keys ''npub1bb22'' = Some (nl_pubkey (sample_lib ''bb22''))" by code_simp
  have other: "\<forall>x t. to_json sample_join_codec x = Some t \<longrightarrow> from_json sample_codec t = None"
    by (auto simp: sample_codec_def sample_join_codec_def one_codec_def split: if_splits)
  from ok have run: "?publish = (Inr (), snd ?publish)" by (simp add: prod_eq_iff)
  from join_request_reaches_inviter [OF sample_lib_sign sample_lib_nip44 sample_codec_laws(2) npub _ _ other
      sample_client_new(2) run]
  show ?thesis
    using thrice by (auto simp: once sample_lib_key)
qed

end
