(* ===== verification/Network_Invite_Safety.thy ===== *)
theory Network_Invite_Safety
  imports Network_Invite Signaling_Safety
begin

text \<open>
  What an invite does: the code a network hands out reads back as its admins and its mesh id, accepting
  an invite makes its network the active one with the inviter among its admins, and an invite that is
  refused leaves the configuration as it was, unless its network id is a bare legacy prefix.
\<close>

section \<open>Looking up networks\<close>

lemma network_by_id_in: "network_by_id c i = Some n \<Longrightarrow> n \<in> set (ac_networks c) \<and> nc_id n = i"
  by (auto simp: network_by_id_def dest: find_Some_in)

lemma network_by_id_distinct:
  assumes "distinct (map nc_id (ac_networks c))" "n \<in> set (ac_networks c)"
  shows "network_by_id c (nc_id n) = Some n"
proof (cases "network_by_id c (nc_id n)")
  case None
  with assms(2) show ?thesis by (auto simp: network_by_id_def find_None_iff)
next
  case (Some m)
  from network_by_id_in [OF this] assms have "m = n" by (auto simp: distinct_map inj_on_def)
  with Some show ?thesis by simp
qed

lemma active_by_id:
  assumes "config_ok E c"
  shows "network_by_id c (nc_id (active_network c)) = Some (active_network c)"
  using assms active_network_in [OF config_ok_ne [OF assms]] network_by_id_distinct
  by (simp add: config_ok_def)

lemma enabled_is_active:
  assumes ok: "config_ok E c" and n: "network_by_id c i = Some n" "nc_enabled n"
  shows "active_network c = n"
proof -
  have a: "active_network c \<in> set (filter nc_enabled (ac_networks c))"
    using active_network_in [OF config_ok_ne [OF ok]] config_ok_enabled [OF ok] by simp
  have "n \<in> set (filter nc_enabled (ac_networks c))"
    using network_by_id_in [OF n(1)] n(2) by simp
  moreover obtain m where "filter nc_enabled (ac_networks c) = [m]"
    using ok by (auto simp: config_ok_def length_Suc_conv)
  ultimately show ?thesis using a by simp
qed

lemma find_update_first_same:
  "(\<And>n. nc_id (f n) = nc_id n) \<Longrightarrow>
    find (\<lambda>n. nc_id n = i) (update_first (\<lambda>n. nc_id n = i) f ns) = map_option f (find (\<lambda>n. nc_id n = i) ns)"
  by (induction ns) auto

lemma network_by_id_update_same:
  "(\<And>n. nc_id (f n) = nc_id n) \<Longrightarrow> network_by_id (update_network i f c) i = map_option f (network_by_id c i)"
  by (simp add: network_by_id_def update_network_def find_update_first_same)

lemma find_enumerated:
  "find (\<lambda>n. nc_id n = i) (map (\<lambda>(j, n). n\<lparr>nc_enabled := (j = k + length (takeWhile (\<lambda>n. nc_id n \<noteq> i) ns))\<rparr>)
      (enumerate k ns)) = map_option (\<lambda>n. n\<lparr>nc_enabled := True\<rparr>) (find (\<lambda>n. nc_id n = i) ns)"
proof (induction ns arbitrary: k)
  case (Cons n ns)
  show ?case
  proof (cases "nc_id n = i")
    case False
    with Cons.IH [of "Suc k"] show ?thesis by simp
  qed simp
qed simp

lemma set_enabled_Some:
  assumes "network_by_id c i = Some n"
  obtains c' where "set_network_enabled i True c = (Inr (), c')"
    and "network_by_id c' i = Some (n\<lparr>nc_enabled := True\<rparr>)"
proof -
  let ?k = "length (takeWhile (\<lambda>n. nc_id n \<noteq> i) (ac_networks c))"
  have "?k < length (ac_networks c)"
    using network_by_id_in [OF assms] takeWhile_stops [of n "ac_networks c" "\<lambda>n. nc_id n \<noteq> i"] by simp
  then have pos: "network_position i (ac_networks c) = Some ?k" by (simp add: network_position_def)
  let ?ns = "map (\<lambda>(j, n). n\<lparr>nc_enabled := (j = ?k)\<rparr>) (enumerate 0 (ac_networks c))"
  show ?thesis
  proof (rule that [of "c\<lparr>ac_networks := ?ns\<rparr>"])
    show "set_network_enabled i True c = (Inr (), c\<lparr>ac_networks := ?ns\<rparr>)"
      by (simp only: set_network_enabled_def pos option.case if_True)
    show "network_by_id (c\<lparr>ac_networks := ?ns\<rparr>) i = Some (n\<lparr>nc_enabled := True\<rparr>)"
      using assms find_enumerated [of i 0 "ac_networks c"] by (simp add: network_by_id_def del: enumerate_map_upt)
  qed
qed

section \<open>What a change of the alias leaves of a network\<close>

text \<open>The same network but for the mark of the last change of its roster.\<close>

definition same_members :: "network_config \<Rightarrow> network_config \<Rightarrow> bool" where
  "same_members n n' \<longleftrightarrow> (\<exists>t k. n' = n\<lparr>nc_shared_roster_updated_at := t, nc_shared_roster_signed_by := k\<rparr>)"

lemma same_members_refl: "same_members n n"
  by (cases n) (auto simp: same_members_def)

lemma same_members_trans: "same_members a b \<Longrightarrow> same_members b d \<Longrightarrow> same_members a d"
  unfolding same_members_def by (elim exE) (simp, blast)

lemma same_members_fields:
  assumes "same_members n n'"
  shows "nc_network_id n' = nc_network_id n" "nc_admins n' = nc_admins n"
    "nc_participants n' = nc_participants n" "nc_invite_inviter n' = nc_invite_inviter n" "nc_enabled n' = nc_enabled n"
  using assms by (auto simp: same_members_def)

lemma find_update_other:
  "i \<noteq> j \<Longrightarrow> (\<And>n. nc_id (f n) = nc_id n) \<Longrightarrow>
    find (\<lambda>n. nc_id n = i) (update_first (\<lambda>n. nc_id n = j) f ns) = find (\<lambda>n. nc_id n = i) ns"
  by (induction ns) auto

lemma note_change_members:
  assumes "network_by_id c i = Some n"
  shows "\<exists>n'. network_by_id (snd (note_network_roster_local_change E now j c)) i = Some n' \<and> same_members n n'"
proof -
  have "network_by_id (update_network j (\<lambda>n. n\<lparr>nc_shared_roster_updated_at :=
        next_shared_roster_updated_at now (nc_shared_roster_updated_at n), nc_shared_roster_signed_by := k\<rparr>) c) i
      = (if i = j then map_option (\<lambda>n. n\<lparr>nc_shared_roster_updated_at :=
        next_shared_roster_updated_at now (nc_shared_roster_updated_at n), nc_shared_roster_signed_by := k\<rparr>)
          (network_by_id c i) else network_by_id c i)" for k
    by (simp add: network_by_id_def update_network_def find_update_first_same find_update_other)
  with assms show ?thesis
    by (auto simp: note_network_roster_local_change_def same_members_refl split: option.split)
      (auto simp: same_members_def)
qed

lemma fold_note_members:
  "network_by_id c i = Some n \<Longrightarrow>
    \<exists>n'. network_by_id (fold (\<lambda>j c. snd (note_network_roster_local_change E now j c)) js c) i = Some n'
      \<and> same_members n n'"
proof (induction js arbitrary: c n)
  case (Cons j js)
  from note_change_members [OF Cons.prems] obtain m
    where m: "network_by_id (snd (note_network_roster_local_change E now j c)) i = Some m" "same_members n m" by blast
  from Cons.IH [OF this(1)] obtain n' where
    "network_by_id (fold (\<lambda>j c. snd (note_network_roster_local_change E now j c)) js
      (snd (note_network_roster_local_change E now j c))) i = Some n'" "same_members m n'" by blast
  with same_members_trans [OF m(2)] show ?case by simp
qed (simp add: same_members_refl)

lemma network_by_id_cong: "ac_networks c = ac_networks c' \<Longrightarrow> network_by_id c i = network_by_id c' i"
  by (simp add: network_by_id_def)

lemma set_peer_alias_members:
  assumes "network_by_id c i = Some n"
  shows "\<exists>n'. network_by_id (snd (set_peer_alias E now p alias c)) i = Some n' \<and> same_members n n'"
proof -
  have "network_by_id (normalize_peer_aliases E (c\<lparr>ac_peer_aliases := al\<rparr>)) i = Some n" for al
    using assms network_by_id_cong [of "normalize_peer_aliases E (c\<lparr>ac_peer_aliases := al\<rparr>)" c]
    by (simp add: normalize_peer_aliases_fields)
  note folded = fold_note_members [OF this]
  have "snd (set_peer_alias E now p alias c) = c \<or> (\<exists>js al. snd (set_peer_alias E now p alias c)
      = fold (\<lambda>j c. snd (note_network_roster_local_change E now j c)) js
          (normalize_peer_aliases E (c\<lparr>ac_peer_aliases := al\<rparr>)))"
    by (auto simp: set_peer_alias_def Let_def split: option.split)
  then show ?thesis
  proof
    assume "snd (set_peer_alias E now p alias c) = c"
    with assms same_members_refl show ?thesis by auto
  qed (use folded in auto)
qed

section \<open>Joining\<close>

lemma membership_ok:
  assumes "key_laws E" and n: "network_ok E n"
    and keys: "\<forall>k \<in> set admins. normalize_nostr_pubkey E k = Some k" "\<forall>k \<in> set participants. normalize_nostr_pubkey E k = Some k"
      "normalize_nostr_pubkey E inviter = Some inviter"
  shows "network_ok E (invite_membership own reset participants admins inviter n)"
proof -
  have "inviter \<in> set (sort_dedup (if inviter \<in> set a then a else a @ [inviter]))" for a by simp
  then show ?thesis
    using n keys by (cases reset) (simp_all add: invite_membership_def Let_def network_ok_def norm_keys_def empty_or_key_def
      list_all_iff ball_Un split: option.split if_splits)
qed

lemma membership_fields:
  "nc_id (invite_membership own reset participants admins inviter n) = nc_id n"
  "nc_enabled (invite_membership own reset participants admins inviter n) = nc_enabled n"
  "nc_network_id (invite_membership own reset participants admins inviter n) = nc_network_id n"
  "nc_invite_inviter (invite_membership own reset participants admins inviter n) = inviter"
  "set (nc_admins (invite_membership own reset participants admins inviter n)) =
    insert inviter (set admins) \<union> (if reset then {} else set (nc_admins n))"
  "set (nc_participants (invite_membership own reset participants admins inviter n)) =
    {p \<in> set participants. own \<noteq> Some p} \<union> (if reset then {} else set (nc_participants n))"
  by (auto simp: invite_membership_def Let_def)

lemma add_network_shape:
  assumes "add_network E now name c = (i, c')"
  shows "\<exists>nm. c' = snd (note_network_roster_local_change E now i
      (c\<lparr>ac_networks := ac_networks c @ [new_network i nm False]\<rparr>))"
  using assms unfolding add_network_def Let_def prod.inject
  by (elim conjE) (rule exI, erule subst, erule subst, rule refl)

lemma added_network_found:
  assumes "add_network E now name c = (i, c')"
  obtains n where "network_by_id c' i = Some n"
proof -
  obtain nm where c': "c' = snd (note_network_roster_local_change E now i
      (c\<lparr>ac_networks := ac_networks c @ [new_network i nm False]\<rparr>))"
    using add_network_shape [OF assms] by (rule exE)
  obtain n where "network_by_id (c\<lparr>ac_networks := ac_networks c @ [new_network i nm False]\<rparr>) i = Some n"
    by (cases "network_by_id (c\<lparr>ac_networks := ac_networks c @ [new_network i nm False]\<rparr>) i")
      (auto simp: network_by_id_def find_None_iff new_network_def)
  from note_change_members [OF this] show ?thesis using that unfolding c' by auto
qed

definition same_mesh :: "network_invite \<Rightarrow> network_config \<Rightarrow> bool" where
  "same_mesh invite m \<longleftrightarrow>
    normalize_runtime_network_id (nc_network_id m) = normalize_runtime_network_id (ni_network_id invite)"

definition target_found :: "key_env \<Rightarrow> network_invite \<Rightarrow> app_config \<Rightarrow> string \<Rightarrow> bool \<Rightarrow> app_config \<Rightarrow> bool" where
  "target_found E invite c tid reset c1 \<longleftrightarrow>
    config_ok E c1 \<and> network_by_id c1 tid \<noteq> None \<and> (reset \<longleftrightarrow> (\<forall>m \<in> set (ac_networks c). \<not> same_mesh invite m))"

text \<open>The target exists in a sound configuration; it starts anew when no network has the mesh id.\<close>

lemma invite_target_eq:
  "invite_target E now invite config =
    (case find (same_mesh invite) (ac_networks config) of
       Some existing \<Rightarrow> (Inr (nc_id existing, False), config)
     | None \<Rightarrow>
         if network_should_adopt_invite (active_network config)
         then (Inr (nc_id (active_network config), True), config)
         else (case add_network E now (ni_network_name invite) config of
             (network_id, config) \<Rightarrow>
               and_then (set_network_enabled network_id True config)
                 (\<lambda>_ config. (Inr (network_id, True), config))))"
proof -
  have "(\<lambda>network. normalize_runtime_network_id (nc_network_id network)
      = normalize_runtime_network_id (ni_network_id invite)) = same_mesh invite"
    by (simp add: same_mesh_def fun_eq_iff)
  then show ?thesis by (simp only: invite_target_def)
qed

lemma invite_target_ok:
  assumes E: "key_laws E" and ok: "config_ok E c"
  shows "\<exists>tid reset c1. invite_target E now invite c = (Inr (tid, reset), c1) \<and> target_found E invite c tid reset c1"
proof (cases "find (same_mesh invite) (ac_networks c)")
  case (Some m)
  from find_Some_in [OF this] have m: "m \<in> set (ac_networks c)" "same_mesh invite m" by simp_all
  have "network_by_id c (nc_id m) = Some m"
    using ok m(1) network_by_id_distinct by (simp add: config_ok_def)
  with ok m have "target_found E invite c (nc_id m) False c" by (auto simp: target_found_def)
  with Some show ?thesis by (auto simp: invite_target_eq)
next
  case None
  then have fresh: "\<forall>m \<in> set (ac_networks c). \<not> same_mesh invite m" by (simp add: find_None_all)
  show ?thesis
  proof (cases "network_should_adopt_invite (active_network c)")
    case True
    have "target_found E invite c (nc_id (active_network c)) True c"
      using ok fresh active_by_id [OF ok] by (simp add: target_found_def)
    with True None show ?thesis by (auto simp: invite_target_eq)
  next
    case False
    obtain i c0 where add: "add_network E now (ni_network_name invite) c = (i, c0)" by (metis prod.exhaust)
    have c0: "config_ok E c0" using add_network_ok [OF E ok, of now "ni_network_name invite"] add by simp
    obtain n where n: "network_by_id c0 i = Some n" using added_network_found [OF add] .
    obtain c2 where enabled: "set_network_enabled i True c0 = (Inr (), c2)"
        "network_by_id c2 i = Some (n\<lparr>nc_enabled := True\<rparr>)"
      using set_enabled_Some [OF n] .
    have "config_ok E c2" using set_network_enabled_ok [OF c0, of i True] enabled(1) by simp
    then have "target_found E invite c i True c2" using fresh enabled(2) by (simp add: target_found_def)
    with None False add enabled(1) show ?thesis by (auto simp: invite_target_eq)
  qed
qed

text \<open>Joining the network that was found.\<close>

lemma join_ok:
  assumes E: "key_laws E" and found: "target_found E invite c tid reset c1"
    and mesh: "normalize_runtime_network_id (ni_network_id invite) \<noteq> []"
    and keys: "\<forall>k \<in> set admins. normalize_nostr_pubkey E k = Some k" "\<forall>k \<in> set participants. normalize_nostr_pubkey E k = Some k"
      "normalize_nostr_pubkey E inviter = Some inviter"
  shows "\<exists>c2 n n1. join_invited_network E now invite inviter own admins participants (tid, reset) c1 = (Inr (), c2)
    \<and> config_ok E c2 \<and> network_by_id c1 tid = Some n \<and> active_network c2 = n1
    \<and> nc_network_id n1 = normalize_runtime_network_id (ni_network_id invite) \<and> nc_invite_inviter n1 = inviter
    \<and> set (nc_admins n1) = insert inviter (set admins) \<union> (if reset then {} else set (nc_admins n))
    \<and> set (nc_participants n1) = {p \<in> set participants. own \<noteq> Some p} \<union> (if reset then {} else set (nc_participants n))"
proof -
  from found obtain n where ok: "config_ok E c1" and n: "network_by_id c1 tid = Some n"
    by (auto simp: target_found_def)
  obtain c2 where e: "set_network_enabled tid True c1 = (Inr (), c2)"
      and n2: "network_by_id c2 tid = Some (n\<lparr>nc_enabled := True\<rparr>)"
    using set_enabled_Some [OF n] .
  have ok2: "config_ok E c2" using set_network_enabled_ok [OF ok, of tid True] e by simp
  let ?mesh = "normalize_runtime_network_id (ni_network_id invite)"
  define c3 where "c3 = update_network tid (\<lambda>n. n\<lparr>nc_network_id := ?mesh\<rparr>) c2"
  have m: "set_network_mesh_id tid (ni_network_id invite) c2 = (Inr (), c3)"
    using mesh n2 by (simp add: set_network_mesh_id_def c3_def Let_def)
  have ok3: "config_ok E c3" using set_mesh_id_ok [OF ok2, of tid "ni_network_id invite"] m by simp
  define n3 where "n3 = n\<lparr>nc_enabled := True, nc_network_id := ?mesh\<rparr>"
  have n3: "network_by_id c3 tid = Some n3"
    by (simp add: c3_def n3_def network_by_id_update_same n2)
  let ?join = "invite_membership own reset participants admins inviter"
  define c4 where "c4 = update_network tid ?join c3"
  have ok4: "config_ok E c4" unfolding c4_def
    by (rule config_ok_update_network [OF ok3]) (simp add: membership_fields membership_ok [OF E _ keys])
  have n4: "network_by_id c4 tid = Some (?join n3)"
    by (simp add: c4_def network_by_id_update_same membership_fields n3)
  define c5 where "c5 b = (if b then snd (set_peer_alias E now inviter (ni_inviter_node_name invite) c4) else c4)" for b
  have ok5: "config_ok E (c5 b)" for b using ok4 set_peer_alias_ok [OF E ok4] by (simp add: c5_def)
  have n5: "\<exists>n5. network_by_id (c5 b) tid = Some n5 \<and> same_members (?join n3) n5" for b
    using n4 set_peer_alias_members [OF n4] same_members_refl by (simp add: c5_def)
  let ?rename = "\<lambda>n. n\<lparr>nc_name := trim (ni_network_name invite)\<rparr>"
  define c6 where "c6 b b' = (if b' then update_network tid ?rename (c5 b) else c5 b)" for b b'
  have ok6: "config_ok E (c6 b b')" for b b'
    using ok5 by (auto simp: c6_def network_ok_def intro!: config_ok_update_network)
  have n6: "\<exists>n6. network_by_id (c6 b b') tid = Some n6 \<and> nc_enabled n6
      \<and> nc_network_id n6 = ?mesh \<and> nc_invite_inviter n6 = inviter
      \<and> nc_admins n6 = nc_admins (?join n3) \<and> nc_participants n6 = nc_participants (?join n3)" for b b'
  proof -
    obtain n5 where n5: "network_by_id (c5 b) tid = Some n5" "same_members (?join n3) n5"
      using n5 [of b] by blast
    then show ?thesis using same_members_fields [OF n5(2)]
      by (simp add: c6_def network_by_id_update_same membership_fields n3_def)
  qed
  define c7 where "c7 b b' no = c6 b b'\<lparr>ac_nostr := no\<rparr>" for b b' no
  have ok7: "config_ok E (c7 b b' no)" for b b' no using ok6 [of b b'] by (simp add: c7_def config_ok_def)
  have n7: "network_by_id (c7 b b' no) tid = network_by_id (c6 b b') tid" for b b' no
    by (simp add: c7_def network_by_id_def)
  have "\<exists>b b' no. join_invited_network E now invite inviter own admins participants (tid, reset) c1
      = (Inr (), c7 b b' no)"
    unfolding join_invited_network_def Let_def prod.case e m and_then_simps c4_def [symmetric] c5_def [symmetric]
      c6_def [symmetric] c7_def [symmetric] by blast
  then obtain b b' no where run: "join_invited_network E now invite inviter own admins participants (tid, reset) c1
      = (Inr (), c7 b b' no)" by blast
  obtain n6 where n6: "network_by_id (c7 b b' no) tid = Some n6" "nc_enabled n6"
      "nc_network_id n6 = ?mesh" "nc_invite_inviter n6 = inviter"
      "nc_admins n6 = nc_admins (?join n3)" "nc_participants n6 = nc_participants (?join n3)"
    using n6 [of b b'] by (auto simp: n7)
  have "active_network (c7 b b' no) = n6" by (rule enabled_is_active [OF ok7 n6(1,2)])
  then show ?thesis
    using run ok7 n n6 by (simp add: membership_fields n3_def)
qed

lemma collect_results_Some:
  "collect_results f xs = Some ys \<Longrightarrow> length ys = length xs \<and> set ys = {y. \<exists>x \<in> set xs. f x = Some y}"
  by (induction xs arbitrary: ys) (auto split: option.splits)

lemma collect_normalized:
  "key_laws E \<Longrightarrow> collect_results (normalize_nostr_pubkey E) xs = Some ys \<Longrightarrow>
    \<forall>k \<in> set ys. normalize_nostr_pubkey E k = Some k"
  using collect_results_set normalize_fixed by fastforce

lemma join_blank:
  "normalize_runtime_network_id (ni_network_id invite) = [] \<Longrightarrow>
    \<exists>error c'. join_invited_network E now invite inviter own admins participants target c = (Inl error, c')"
  by (auto simp: join_invited_network_def set_network_mesh_id_def Let_def and_then_def split: prod.splits sum.splits)

text \<open>The configuration \<open>c2\<close> after an invite was accepted in \<open>c\<close>.\<close>

definition accepted :: "key_env \<Rightarrow> app_config \<Rightarrow> network_invite \<Rightarrow> app_config \<Rightarrow> string \<Rightarrow> string list \<Rightarrow> string list \<Rightarrow> bool" where
  "accepted E c invite c2 inviter admins participants \<longleftrightarrow>
    config_ok E c2
    \<and> nc_network_id (active_network c2) = normalize_runtime_network_id (ni_network_id invite)
    \<and> nc_invite_inviter (active_network c2) = inviter
    \<and> insert inviter (set admins) \<subseteq> set (nc_admins (active_network c2))
    \<and> {p \<in> set participants. own_nostr_pubkey_hex E c \<noteq> Some p} \<subseteq> set (nc_participants (active_network c2))
    \<and> ((\<forall>m \<in> set (ac_networks c). \<not> same_mesh invite m) \<longrightarrow>
         set (nc_admins (active_network c2)) = insert inviter (set admins)
         \<and> set (nc_participants (active_network c2)) = {p \<in> set participants. own_nostr_pubkey_hex E c \<noteq> Some p})"

lemma apply_invite_accepted:
  assumes E: "key_laws E" and ok: "config_ok E c"
    and mesh: "normalize_runtime_network_id (ni_network_id invite) \<noteq> []"
    and keys: "invite_inviter invite = Some inviter0" "normalize_nostr_pubkey E inviter0 = Some inviter"
      "collect_results (normalize_nostr_pubkey E) (ni_admins invite) = Some admins"
      "collect_results (normalize_nostr_pubkey E) (ni_participants invite) = Some participants"
  obtains c2 where "apply_network_invite_to_active_network E now invite c = (Inr (), c2)"
    and "accepted E c invite c2 inviter admins participants"
proof -
  note norm = collect_normalized [OF E keys(3)] collect_normalized [OF E keys(4)] normalize_fixed [OF E keys(2)]
  obtain tid reset c1 where target: "invite_target E now invite c = (Inr (tid, reset), c1)"
      and found: "target_found E invite c tid reset c1"
    using invite_target_ok [OF E ok] by blast
  obtain c2 n n1 where joined:
    "join_invited_network E now invite inviter (own_nostr_pubkey_hex E c) admins participants (tid, reset) c1 = (Inr (), c2)
    \<and> config_ok E c2 \<and> network_by_id c1 tid = Some n \<and> active_network c2 = n1
    \<and> nc_network_id n1 = normalize_runtime_network_id (ni_network_id invite) \<and> nc_invite_inviter n1 = inviter
    \<and> set (nc_admins n1) = insert inviter (set admins) \<union> (if reset then {} else set (nc_admins n))
    \<and> set (nc_participants n1) = {p \<in> set participants. own_nostr_pubkey_hex E c \<noteq> Some p}
        \<union> (if reset then {} else set (nc_participants n))"
    using join_ok [OF E found mesh norm, of now "own_nostr_pubkey_hex E c"] by (elim exE)
  have "apply_network_invite_to_active_network E now invite c = (Inr (), c2)"
    using joined by (simp add: apply_network_invite_to_active_network_def keys target)
  moreover have "(\<forall>m \<in> set (ac_networks c). \<not> same_mesh invite m) \<longleftrightarrow> reset"
    using found by (simp add: target_found_def)
  then have "accepted E c invite c2 inviter admins participants"
    using joined by (auto simp: accepted_def)
  ultimately show ?thesis by (rule that)
qed

text \<open>An invite whose network id is not blank is accepted exactly when its keys can be read.\<close>

lemma apply_invite_cases:
  assumes E: "key_laws E" and ok: "config_ok E c"
    and mesh: "normalize_runtime_network_id (ni_network_id invite) \<noteq> []"
  obtains error where "apply_network_invite_to_active_network E now invite c = (Inl error, c)"
    | c2 inviter admins participants where "apply_network_invite_to_active_network E now invite c = (Inr (), c2)"
      "accepted E c invite c2 inviter admins participants"
      "collect_results (normalize_nostr_pubkey E) (ni_admins invite) = Some admins"
proof (cases "\<exists>inviter0 inviter admins participants. invite_inviter invite = Some inviter0
        \<and> normalize_nostr_pubkey E inviter0 = Some inviter
        \<and> collect_results (normalize_nostr_pubkey E) (ni_admins invite) = Some admins
        \<and> collect_results (normalize_nostr_pubkey E) (ni_participants invite) = Some participants")
  case False
  then have "\<exists>error. apply_network_invite_to_active_network E now invite c = (Inl error, c)"
    by (auto simp: apply_network_invite_to_active_network_def split: option.split)
  then show ?thesis using that(1) by blast
next
  case True
  then obtain inviter0 inviter admins participants where keys: "invite_inviter invite = Some inviter0"
      "normalize_nostr_pubkey E inviter0 = Some inviter"
      "collect_results (normalize_nostr_pubkey E) (ni_admins invite) = Some admins"
      "collect_results (normalize_nostr_pubkey E) (ni_participants invite) = Some participants" by blast
  show ?thesis by (rule apply_invite_accepted [OF E ok mesh keys, of now]) (rule that(2) [OF _ _ keys(3)])
qed


text \<open>The error after the fact, on a fresh node.\<close>

definition sample_invite :: "string \<Rightarrow> network_invite" where
  "sample_invite network_id = \<lparr>ni_v = 3, ni_network_name = [], ni_network_id = network_id, ni_inviter_npub = [],
    ni_inviter_node_name = [], ni_admins = [''npub1bb22''], ni_participants = [], ni_relays = []\<rparr>"

lemma blank_invite_leaves_network:
  "fst (apply_network_invite_to_active_network sample_keys 7 (sample_invite ''nostr-vpn:'') sample_config)
      = Inl (InviteConfig NetworkIdEmpty)
   \<and> map nc_enabled (ac_networks (snd (apply_network_invite_to_active_network sample_keys 7
        (sample_invite ''nostr-vpn:'') sample_config))) = [False, True]"
  by code_simp


section \<open>The code of an invite\<close>

text \<open>Documented behaviour of the base64 codec: it is inverted by its decoder and writes no white space.\<close>

definition text_law :: "invite_codec \<Rightarrow> bool" where
  "text_law I \<longleftrightarrow> (\<forall>s. iv_decode I (iv_encode I s) = Some s \<and> ws_free (iv_encode I s))"

definition relay_ok :: "string \<Rightarrow> bool" where
  "relay_ok r \<longleftrightarrow> trim r = r \<and> r \<noteq> [] \<and> is_valid_relay_url r"

lemma add_invite_relays_ok:
  "add_invite_relays rs acc = Inr out \<Longrightarrow> distinct acc \<Longrightarrow> list_all relay_ok acc \<Longrightarrow> distinct out \<and> list_all relay_ok out"
  by (induction rs acc rule: add_invite_relays.induct)
    (auto simp: Let_def relay_ok_def split: if_splits)

lemma add_invite_relays_fixed:
  "distinct (acc @ rs) \<Longrightarrow> list_all relay_ok rs \<Longrightarrow> add_invite_relays rs acc = Inr (acc @ rs)"
  by (induction rs arbitrary: acc) (auto simp: Let_def relay_ok_def)

lemma invite_relays_fixed:
  "normalized_invite_relays rs = Inr out \<Longrightarrow> normalized_invite_relays out = Inr out"
  using add_invite_relays_ok [of rs "[]" out] add_invite_relays_fixed [of "[]" out]
  by (simp add: normalized_invite_relays_def)

lemma collect_npubs:
  assumes "key_laws E" "norm_keys E ks"
  shows "normalized_invite_pubkeys E (map (to_npub E) ks) = Some ks"
proof -
  have "to_npub E = npub_for_pubkey_hex E" by (simp add: to_npub_def npub_for_pubkey_hex_def fun_eq_iff)
  then have "collect_results (normalize_nostr_pubkey E) (map (to_npub E) ks') = Some ks'" if "set ks' \<subseteq> set ks" for ks'
    using that assms npub_facts(1) [OF assms(1)]
    by (induction ks') (auto simp: norm_keys_def list_all_iff)
  then show ?thesis using assms(2) by (simp add: normalized_invite_pubkeys_def norm_keys_def sort_dedup_id)
qed

lemma trim_shortens: "length (trim s) \<le> length s"
proof -
  have "length (trim_start s) \<le> length s"
  proof (induction s rule: trim_start.induct)
    case (1 s)
    then show ?case by (subst trim_start.simps) (auto intro: order_trans)
  qed
  moreover obtain t where "trim_start s = trim_end (trim_start s) @ t" using trim_end_prefix by blast
  then have "length (trim_end (trim_start s)) \<le> length (trim_start s)" by (metis le_add1 length_append)
  ultimately show ?thesis by (simp add: trim_def)
qed

lemma normal_id_trimmed:
  assumes "normalize_runtime_network_id x = x"
  shows "trim x = x"
proof (cases "strip_prefix LEGACY_NETWORK_ID_COMPAT_PREFIX (trim x)")
  case None
  with assms show ?thesis by (simp add: normalize_runtime_network_id_def)
next
  case (Some rest)
  with assms have "trim x = LEGACY_NETWORK_ID_COMPAT_PREFIX @ x"
    by (simp add: normalize_runtime_network_id_def strip_prefix_Some)
  moreover have "length (trim x) \<le> length x"
    by (rule trim_shortens)
  ultimately show ?thesis by (simp add: LEGACY_NETWORK_ID_COMPAT_PREFIX_def)
qed

text \<open>The invite that the code of an active network reads back as.\<close>

lemma invite_code_parses:
  assumes E: "key_laws E" and ok: "config_ok E c" and laws: "codec_law (iv_json I)" "text_law I"
    and code: "active_network_invite_code E I c = Inr code"
    and mesh: "normalize_runtime_network_id (effective_network_id c) = effective_network_id c" "effective_network_id c \<noteq> []"
  shows "\<exists>relays admin admins. nc_admins (active_network c) = admin # admins
    \<and> parse_network_invite E I code = Inr \<lparr>ni_v = NETWORK_INVITE_VERSION, ni_network_name = [],
        ni_network_id = effective_network_id c, ni_inviter_npub = admin, ni_inviter_node_name = [],
        ni_admins = admin # admins, ni_participants = [], ni_relays = relays\<rparr>"
proof -
  let ?n = "active_network c"
  have n: "norm_keys E (nc_admins ?n)"
    using ok active_network_in [OF config_ok_ne [OF ok]] by (auto simp: config_ok_def list_all_iff network_ok_def)
  then have sorted: "sort_dedup (nc_admins ?n) = nc_admins ?n" by (simp add: norm_keys_def sort_dedup_id)
  from code obtain relays json where
    ne: "nc_admins ?n \<noteq> []" and relays: "normalized_invite_relays (no_relays (ac_nostr c)) = Inr relays"
    and json: "to_json (iv_json I) \<lparr>ni_v = NETWORK_INVITE_VERSION, ni_network_name = [],
        ni_network_id = effective_network_id c, ni_inviter_npub = [], ni_inviter_node_name = [],
        ni_admins = map (to_npub E) (nc_admins ?n), ni_participants = [], ni_relays = relays\<rparr> = Some json"
    and "code = NETWORK_INVITE_PREFIX @ iv_encode I json"
    by (auto simp: active_network_invite_code_def shared_network_roster_def active_by_id [OF ok] Let_def sorted
        effective_network_id_def split: if_splits sum.splits option.splits)
  moreover have "ws_free (NETWORK_INVITE_PREFIX @ iv_encode I json)"
    using laws(2) by (auto simp: text_law_def ws_free_def NETWORK_INVITE_PREFIX_def byte_def)
  moreover have "\<not> starts_with ''{'' (NETWORK_INVITE_PREFIX @ s)" for s
    by (simp add: starts_with_def NETWORK_INVITE_PREFIX_def)
  moreover have "NETWORK_INVITE_PREFIX @ s \<noteq> []" for s by (simp add: NETWORK_INVITE_PREFIX_def)
  ultimately have code: "trim code = code" "read_invite I code = Inr \<lparr>ni_v = NETWORK_INVITE_VERSION, ni_network_name = [],
        ni_network_id = effective_network_id c, ni_inviter_npub = [], ni_inviter_node_name = [],
        ni_admins = map (to_npub E) (nc_admins ?n), ni_participants = [], ni_relays = relays\<rparr>" "code \<noteq> []"
    using laws by (simp_all add: trim_ws_free read_invite_def text_law_def codec_lawD [OF laws(1)] del: append_is_Nil_conv)
  obtain admin admins where admins: "nc_admins ?n = admin # admins" using ne by (cases "nc_admins ?n") auto
  have "normalized_invite_pubkeys E (map (to_npub E) (admin # admins)) = Some (admin # admins)"
    using collect_npubs [OF E n] admins by simp
  moreover have "normalized_invite_pubkeys E [] = Some []" by (simp add: normalized_invite_pubkeys_def)
  moreover note normal_id_trimmed [OF mesh(1)] invite_relays_fixed [OF relays]
  ultimately have "parse_network_invite E I code = Inr \<lparr>ni_v = NETWORK_INVITE_VERSION, ni_network_name = [],
        ni_network_id = effective_network_id c, ni_inviter_npub = admin, ni_inviter_node_name = [],
        ni_admins = admin # admins, ni_participants = [], ni_relays = relays\<rparr>"
    using mesh(2) code admins
    by (simp add: parse_network_invite_def normalize_invite_def invite_inviter_admins_def NETWORK_INVITE_VERSION_def
        del: list.map)
  with admins show ?thesis by blast
qed

text \<open>
  C32. The way of an invite from one node to another. The code a node hands out for its active network is
  read by every node, and accepting it succeeds: the active network of the other node then has the same
  mesh id, takes every admin of the inviting node's network as an admin and the first of them as its
  inviter; a node that had no network of that mesh has exactly these admins and no participant yet, so
  it applies the rosters these admins sign and no others. The mesh id is one that normalisation keeps.
\<close>

theorem invite_code_joins_mesh:
  assumes E: "key_laws E" and ok: "config_ok E c" "config_ok E d" and laws: "codec_law (iv_json I)" "text_law I"
    and code: "active_network_invite_code E I c = Inr code"
    and mesh: "normalize_runtime_network_id (effective_network_id c) = effective_network_id c" "effective_network_id c \<noteq> []"
  shows "\<exists>invite d'. parse_network_invite E I code = Inr invite
    \<and> apply_network_invite_to_active_network E now invite d = (Inr (), d')
    \<and> config_ok E d' \<and> effective_network_id d' = effective_network_id c
    \<and> set (nc_admins (active_network c)) \<subseteq> set (nc_admins (active_network d'))
    \<and> nc_invite_inviter (active_network d') = hd (nc_admins (active_network c))
    \<and> ((\<forall>m \<in> set (ac_networks d). normalize_runtime_network_id (nc_network_id m) \<noteq> effective_network_id c) \<longrightarrow>
        nc_admins (active_network d') = nc_admins (active_network c) \<and> nc_participants (active_network d') = [])"
proof -
  from invite_code_parses [OF E ok(1) laws code mesh] obtain relays admin admins
    where admins: "nc_admins (active_network c) = admin # admins"
      and parse: "parse_network_invite E I code = Inr \<lparr>ni_v = NETWORK_INVITE_VERSION, ni_network_name = [],
        ni_network_id = effective_network_id c, ni_inviter_npub = admin, ni_inviter_node_name = [],
        ni_admins = admin # admins, ni_participants = [], ni_relays = relays\<rparr>" (is "_ = Inr ?invite") by blast
  have norm: "norm_keys E (nc_admins (active_network x))" if "config_ok E x" for x
    using that active_network_in [OF config_ok_ne [OF that]] by (auto simp: config_ok_def list_all_iff network_ok_def)
  have keys: "normalize_nostr_pubkey E k = Some k" if "k \<in> set (admin # admins)" for k
    using norm [OF ok(1)] admins that by (auto simp: norm_keys_def list_all_iff)
  have "admin \<noteq> []" "ws_free admin"
    using keys [of admin] normalize_nonempty [OF E] normalize_hex [OF E] hex_key_ws_free by (auto simp: ws_free_def)
  then have inviter: "invite_inviter ?invite = Some admin" by (simp add: invite_inviter_def trim_ws_free)
  have "collect_results (normalize_nostr_pubkey E) ks = Some ks" if "set ks \<subseteq> set (admin # admins)" for ks
    using that keys by (induction ks) auto
  from this [of "admin # admins"]
  have admins_read: "collect_results (normalize_nostr_pubkey E) (ni_admins ?invite) = Some (admin # admins)"
    by simp
  have others_read: "collect_results (normalize_nostr_pubkey E) (ni_participants ?invite) = Some []" by simp
  have "normalize_runtime_network_id (ni_network_id ?invite) \<noteq> []" using mesh by simp
  from apply_invite_accepted [OF E ok(2) this inviter _ admins_read others_read, of admin now] keys [of admin]
  obtain d' where applied: "apply_network_invite_to_active_network E now ?invite d = (Inr (), d')"
      and accepted: "accepted E d ?invite d' admin (admin # admins) []"
    by (metis list.set_intros(1))
  have "nc_admins (active_network d') = nc_admins (active_network c)"
    if "set (nc_admins (active_network d')) = set (admin # admins)"
    using that norm [OF ok(1)] norm [of d'] accepted admins
    by (auto simp: accepted_def norm_keys_def intro: sorted_unique_eqI)
  then show ?thesis
    using parse applied accepted mesh admins
    by (auto simp: accepted_def same_mesh_def effective_network_id_def)
qed

text \<open>A codec for the examples: two letters for every byte.\<close>

fun letters_of :: "string \<Rightarrow> string" where
  "letters_of [] = []"
| "letters_of (c # cs) = byte_char (65 + byte c div 16) # byte_char (65 + byte c mod 16) # letters_of cs"

fun of_letters :: "string \<Rightarrow> string option" where
  "of_letters [] = Some []"
| "of_letters (a # b # cs) = map_option ((#) (byte_char ((byte a - 65) * 16 + (byte b - 65)))) (of_letters cs)"
| "of_letters _ = None"

definition sample_invite_codec :: "network_invite \<Rightarrow> invite_codec" where
  "sample_invite_codec invite = \<lparr>iv_encode = letters_of, iv_decode = of_letters, iv_json = one_codec invite ''invite''\<rparr>"

lemma sample_invite_laws: "codec_law (iv_json (sample_invite_codec invite))" "text_law (sample_invite_codec invite)"
proof -
  have byte: "byte c div 16 < 16" "byte c mod 16 < 16" for c using byte_less [of c] by linarith+
  then have char: "65 + byte c div 16 < 256" "65 + byte c mod 16 < 256" for c using byte [of c] by linarith+
  have "of_letters (letters_of s) = Some s" for s
    by (induction s) (simp_all add: char)
  moreover have "65 + byte c div 16 < 128" "65 + byte c mod 16 < 128" for c using byte [of c] by linarith+
  then have "ws_free (letters_of s)" for s
    by (induction s) (simp_all add: ws_free_def char)
  ultimately show "text_law (sample_invite_codec invite)" by (simp add: text_law_def sample_invite_codec_def)
  show "codec_law (iv_json (sample_invite_codec invite))" by (simp add: sample_invite_codec_def)
qed

definition sample_home_invite :: network_invite where
  "sample_home_invite = \<lparr>ni_v = 3, ni_network_name = [], ni_network_id = default_network_id, ni_inviter_npub = [],
    ni_inviter_node_name = [], ni_admins = [''npub1aa11'', ''npub1bb22''], ni_participants = [],
    ni_relays = DEFAULT_RELAYS\<rparr>"

definition sample_guest :: app_config where
  "sample_guest = (app_config_raw sample_host)
    \<lparr>ac_networks := [(new_network ''n1'' ''Network 1'' True)\<lparr>nc_network_id := ''0123456789abcdef'', nc_admins := [''dd44'']\<rparr>]\<rparr>"

theorem invite_code_joins_mesh_witness:
  "\<exists>code invite d'. active_network_invite_code sample_keys (sample_invite_codec sample_home_invite) sample_config = Inr code
    \<and> parse_network_invite sample_keys (sample_invite_codec sample_home_invite) code = Inr invite
    \<and> apply_network_invite_to_active_network sample_keys 7 invite sample_guest = (Inr (), d')
    \<and> nc_admins (active_network d') = [''aa11'', ''bb22'']"
proof -
  let ?I = "sample_invite_codec sample_home_invite"
  have ok: "config_ok sample_keys sample_guest" by code_simp
  have mesh: "normalize_runtime_network_id (effective_network_id sample_config) = effective_network_id sample_config"
    "effective_network_id sample_config \<noteq> []" by code_simp+
  have fresh: "\<forall>m \<in> set (ac_networks sample_guest).
      normalize_runtime_network_id (nc_network_id m) \<noteq> effective_network_id sample_config" by code_simp
  have admins: "nc_admins (active_network sample_config) = [''aa11'', ''bb22'']" by code_simp
  have code: "active_network_invite_code sample_keys ?I sample_config = Inr (NETWORK_INVITE_PREFIX @ letters_of ''invite'')"
    by code_simp
  from invite_code_joins_mesh [OF sample_keys_laws sample_config_ok ok sample_invite_laws code mesh, of 7] fresh admins code
  show ?thesis by metis
qed

section \<open>Who is sent a roster, and which peers are shown\<close>

lemma roster_recipients_members:
  "r \<in> set (roster_recipients app own recipients) \<Longrightarrow>
    r \<noteq> own \<and> r \<in> set (active_network_signal_pubkeys_hex app)"
  by (auto simp: roster_recipients_def Let_def split: option.splits)

text \<open>The collection of peers is the directory of newest announcements.\<close>

fun directory_signal :: "signal_payload \<Rightarrow> peer_directory \<Rightarrow> peer_directory" where
  "directory_signal (Announce a) d = directory_apply a d"
| "directory_signal (Disconnect node_id) d = snd (directory_remove node_id d)"
| "directory_signal _ d = d"

lemma discover_peers_directory:
  "0 < discover_secs \<Longrightarrow>
    discover_peers discover_secs messages = directory_all (fold directory_signal messages peer_directory_new)"
proof -
  have step: "collect_peer m (pd_peers d) = pd_peers (directory_signal m d)" for m d
    by (cases m) (auto simp: directory_apply_def directory_remove_def not_le[symmetric] split: option.split)
  have "fold collect_peer messages (pd_peers d) = pd_peers (fold directory_signal messages d)" for d
    by (induction messages arbitrary: d) (simp_all add: step)
  from this [of peer_directory_new] show "0 < discover_secs \<Longrightarrow> ?thesis"
    by (auto simp: discover_peers_def directory_all_def peer_directory_new_def)
qed

end
