(* ===== verification/Rust_Float.thy ===== *)
theory Rust_Float
  imports Complex_Main Rust_Base
begin

text \<open>
  The non-negative \<open>f64\<close> values the program computes with, as rationals: every operation
  rounds its exact result to 53 significant bits, ties to even. The values that occur lie
  between \<open>1e-9\<close> and \<open>2 ^ 128\<close>, so neither subnormal numbers nor overflow occur.
  \<open>Duration\<close> and \<open>Instant\<close> are nanosecond counts.
\<close>

section \<open>Rounding\<close>

fun bit_length :: "nat \<Rightarrow> nat" where
  "bit_length n = (if n = 0 then 0 else Suc (bit_length (n div 2)))"

declare bit_length.simps [simp del]

text \<open>The exponent of the leading bit of a positive rational.\<close>

definition lead_exponent :: "rat \<Rightarrow> int" where
  "lead_exponent x =
    (if 1 \<le> x then int (bit_length (nat \<lfloor>x\<rfloor>)) - 1
     else - int (bit_length (nat \<lceil>1 / x\<rceil> - 1)))"

definition pow2 :: "int \<Rightarrow> rat" where
  "pow2 e = (if 0 \<le> e then 2 ^ nat e else 1 / 2 ^ nat (- e))"

definition round_half_even :: "rat \<Rightarrow> int" where
  "round_half_even q =
    (let f = \<lfloor>q\<rfloor>; d = q - of_int f
     in if d < 1 / 2 then f else if 1 / 2 < d then f + 1 else if even f then f else f + 1)"

definition f64_round :: "rat \<Rightarrow> rat" where
  "f64_round x =
    (if x \<le> 0 then 0
     else let ulp = pow2 (lead_exponent x - 52) in of_int (round_half_even (x / ulp)) * ulp)"

text \<open>\<open>as_secs_f64\<close> of a duration: whole seconds plus the nanoseconds below one.\<close>

definition as_secs_f64 :: "nat \<Rightarrow> rat" where
  "as_secs_f64 d = f64_round
    (f64_round (of_nat (d div 10 ^ 9)) + f64_round (of_nat (d mod 10 ^ 9) / 10 ^ 9))"

text \<open>\<open>n as f64\<close>, and the saturating \<open>x as u64\<close>.\<close>

definition u64_as_f64 :: "u64 \<Rightarrow> rat" where
  "u64_as_f64 n = f64_round (of_nat (unat n))"

definition f64_as_u64 :: "rat \<Rightarrow> u64" where
  "f64_as_u64 x = (if 2 ^ 64 - 1 \<le> \<lfloor>x\<rfloor> then - 1 else of_int \<lfloor>x\<rfloor>)"

section \<open>Errors of rounding\<close>

lemma pow2_pos [simp]: "0 < pow2 e"
  by (simp add: pow2_def)

lemma pow2_minus: "pow2 (e - int k) = pow2 e / 2 ^ k"
proof (cases "0 \<le> e")
  case e: True
  show ?thesis
  proof (cases "int k \<le> e")
    case True
    then have "nat e = nat (e - int k) + k" by simp
    with e True show ?thesis by (simp add: pow2_def power_add)
  next
    case False
    then have "k = nat e + nat (- (e - int k))" using e by simp
    then have "(2::rat) ^ k = 2 ^ nat e * 2 ^ nat (- (e - int k))" by (metis power_add)
    with e False show ?thesis by (simp add: pow2_def)
  qed
next
  case False
  then have "nat (- (e - int k)) = nat (- e) + k" by simp
  with False show ?thesis by (simp add: pow2_def power_add)
qed

lemma bit_length_le: "0 < n \<Longrightarrow> 2 ^ (bit_length n - 1) \<le> n"
proof (induction n rule: bit_length.induct)
  case (1 n)
  show ?case
  proof (cases "n div 2 = 0")
    case True
    then have "bit_length n = 1" using 1(2) by (subst bit_length.simps) (simp add: bit_length.simps [of 0])
    with 1(2) show ?thesis by simp
  next
    case False
    have "0 < bit_length (n div 2)" using False by (subst bit_length.simps) simp
    moreover have "bit_length n = Suc (bit_length (n div 2))" using 1(2) by (subst bit_length.simps) simp
    ultimately have "2 ^ (bit_length n - 1) = 2 * 2 ^ (bit_length (n div 2) - 1)"
      by (cases "bit_length (n div 2)") simp_all
    also have "\<dots> \<le> 2 * (n div 2)" using 1(1) 1(2) False by simp
    finally show ?thesis by simp
  qed
qed

lemma bit_length_less: "n < 2 ^ bit_length n"
proof (induction n rule: bit_length.induct)
  case (1 n)
  show ?case
  proof (cases "n = 0")
    case False
    then have "n div 2 < 2 ^ bit_length (n div 2)" using 1 by simp
    moreover have "bit_length n = Suc (bit_length (n div 2))" using False by (subst bit_length.simps) simp
    ultimately show ?thesis by simp
  qed simp
qed

lemma int_Suc_pred: "1 < c \<Longrightarrow> c = int (Suc (nat c - 1))"
  by simp

lemma lead_exponent_le:
  assumes "0 < x"
  shows "pow2 (lead_exponent x) \<le> x"
proof (cases "1 \<le> x")
  case True
  let ?n = "nat \<lfloor>x\<rfloor>"
  have n: "0 < ?n" using True by simp
  have "0 < bit_length ?n" using n by (subst bit_length.simps) simp
  then have "lead_exponent x = int (bit_length ?n - 1)" using True by (simp add: lead_exponent_def)
  then have "pow2 (lead_exponent x) = of_nat (2 ^ (bit_length ?n - 1))" by (simp add: pow2_def)
  also have "\<dots> \<le> of_nat ?n" using bit_length_le [OF n] by (simp only: of_nat_le_iff)
  also have "\<dots> \<le> x" using True by simp
  finally show ?thesis .
next
  case False
  let ?m = "nat \<lceil>1 / x\<rceil> - 1"
  have x1: "1 < 1 / x" using assms False by simp
  have "1 / x \<le> of_int \<lceil>1 / x\<rceil>" by (rule le_of_int_ceiling)
  also have "\<lceil>1 / x\<rceil> = int (Suc ?m)" by (rule int_Suc_pred) (use x1 in simp)
  also have "of_int (int (Suc ?m)) = (of_nat (Suc ?m) :: rat)" by (rule of_int_of_nat_eq)
  also have "\<dots> \<le> of_nat (2 ^ bit_length ?m)"
    using bit_length_less [of ?m] by (simp only: of_nat_le_iff Suc_le_eq)
  finally have "1 / x \<le> 2 ^ bit_length ?m" by simp
  then have "1 / 2 ^ bit_length ?m \<le> x" using assms by (simp add: field_simps)
  moreover have "pow2 (lead_exponent x) = 1 / 2 ^ bit_length ?m"
    using False by (simp add: lead_exponent_def pow2_def)
  ultimately show ?thesis by simp
qed

lemma round_half_even_error: "\<bar>of_int (round_half_even q) - q\<bar> \<le> 1 / 2"
proof -
  define d where "d = q - of_int \<lfloor>q\<rfloor>"
  have d: "0 \<le> d" "d < 1" unfolding d_def by linarith+
  have "of_int (round_half_even q) - q = - d \<and> d \<le> 1 / 2 \<or> of_int (round_half_even q) - q = 1 - d \<and> 1 / 2 \<le> d"
    by (auto simp: round_half_even_def Let_def d_def [symmetric]) (simp_all add: d_def)
  then show ?thesis using d by (auto simp: abs_if)
qed

text \<open>The relative error of one operation is at most \<open>2 ^ -53\<close>.\<close>

lemma f64_round_le:
  assumes "0 \<le> x"
  shows "f64_round x \<le> x * (1 + 1 / 2 ^ 53)"
proof (cases "x = 0")
  case False
  then have x: "0 < x" using assms by simp
  let ?u = "pow2 (lead_exponent x - 52)"
  have "of_int (round_half_even (x / ?u)) \<le> x / ?u + 1 / 2"
    using round_half_even_error [of "x / ?u"] by linarith
  then have "f64_round x \<le> (x / ?u + 1 / 2) * ?u"
    using x by (simp add: f64_round_def Let_def mult_right_mono)
  also have "\<dots> = x + ?u / 2"
    using pow2_pos [of "lead_exponent x - 52", THEN less_imp_neq] by (simp add: field_simps)
  also have "?u = pow2 (lead_exponent x) / 2 ^ 52" using pow2_minus [of _ 52] by simp
  also have "\<dots> \<le> x / 2 ^ 52" using lead_exponent_le [OF x] by (simp add: divide_right_mono)
  finally show ?thesis by (simp add: field_simps)
qed (simp add: f64_round_def)

lemma f64_round_pos:
  assumes "0 < x"
  shows "0 < f64_round x"
proof -
  let ?u = "pow2 (lead_exponent x - 52)"
  have "?u \<le> x / 2 ^ 52"
    using lead_exponent_le [OF assms] pow2_minus [of "lead_exponent x" 52] by (simp add: divide_right_mono)
  also have "\<dots> \<le> x" using assms by simp
  finally have "1 \<le> x / ?u" using pow2_pos [of "lead_exponent x - 52"] by (simp add: field_simps)
  moreover from this have "0 < of_int (round_half_even (x / ?u)) + (0::rat)"
    using round_half_even_error [of "x / ?u"] by linarith
  ultimately show ?thesis using assms by (simp add: f64_round_def Let_def)
qed

lemma f64_round_nonneg [simp]: "0 \<le> f64_round x"
  using f64_round_pos [of x] by (cases "0 < x") (simp_all add: f64_round_def)

lemma f64_round_0 [simp]: "f64_round 0 = 0"
  by (simp add: f64_round_def)

end
