(* ===== verification/Relay_Runtime.thy ===== *)
theory Relay_Runtime
  imports Net_Addr Rust_Float
begin

text \<open>
  The UDP relay's bookkeeping: the messages and snapshots of
  \<open>crates/nostr-vpn-core/src/relay.rs\<close> and the runtime state of
  \<open>crates/nostr-vpn-relay/src/bin/nvpn_udp_relay/relay_runtime.rs\<close> (session table, byte
  counters, rate samples, the forwarding budget of a session, the NAT assistant's counters, and
  the state rebuilt from a snapshot). Times of the clock are \<open>u64\<close> seconds, an \<open>Instant\<close> is a
  count of nanoseconds. Reading and writing the state file is not modelled.
\<close>

section \<open>Messages and snapshots\<close>

record relay_allocation_request =
  rq_request_id :: string
  rq_network_id :: string
  rq_target_pubkey :: string
  rq_requested_at :: u64

record relay_allocation_granted =
  rg_request_id :: string
  rg_network_id :: string
  rg_relay_pubkey :: string
  rg_requester_ingress_endpoint :: string
  rg_target_ingress_endpoint :: string
  rg_expires_at :: u64

record relay_probe_request =
  bq_request_id :: string
  bq_requested_at :: u64

record relay_probe_granted =
  bg_request_id :: string
  bg_relay_pubkey :: string
  bg_requester_ingress_endpoint :: string
  bg_target_ingress_endpoint :: string
  bg_expires_at :: u64

datatype relay_allocation_reject_reason =
    OverCapacity
  | TooManySessionsForRequester
  | ByteLimitExceeded
  | RateLimited
  | InvalidRequest

record relay_allocation_rejected =
  rr_request_id :: string
  rr_network_id :: string
  rr_relay_pubkey :: string
  rr_reason :: relay_allocation_reject_reason
  rr_retry_after_secs :: "u64 option"

record relay_probe_rejected =
  br_request_id :: string
  br_relay_pubkey :: string
  br_reason :: relay_allocation_reject_reason
  br_retry_after_secs :: "u64 option"

record relay_operator_session_state =
  os_request_id :: string
  os_network_id :: string
  os_requester_pubkey :: string
  os_target_pubkey :: string
  os_requester_ingress_endpoint :: string
  os_target_ingress_endpoint :: string
  os_started_at :: u64
  os_expires_at :: u64
  os_bytes_from_requester :: u64
  os_bytes_from_target :: u64

record relay_operator_state =
  ro_updated_at :: u64
  ro_relay_pubkey :: string
  ro_advertised_endpoint :: string
  ro_total_sessions_served :: u64
  ro_total_forwarded_bytes :: u64
  ro_current_forward_bps :: u64
  ro_unique_peer_count :: nat
  ro_known_peer_pubkeys :: "string list"
  ro_active_sessions :: "relay_operator_session_state list"

record nat_assist_operator_state =
  no_updated_at :: u64
  no_advertised_endpoint :: string
  no_total_discovery_requests :: u64
  no_total_punch_requests :: u64
  no_current_request_bps :: u64
  no_unique_client_count :: nat

record service_operator_state =
  so_updated_at :: u64
  so_operator_pubkey :: string
  so_relay :: "relay_operator_state option"
  so_nat_assist :: "nat_assist_operator_state option"

section \<open>The relay's runtime state\<close>

record relay_service_limits =
  rl_max_active_sessions :: nat
  rl_max_sessions_per_requester :: nat
  rl_max_bytes_per_session :: u64
  rl_max_forward_bps :: "u64 option"

text \<open>The set of known peers is kept as a list without repetitions.\<close>

record relay_runtime_state =
  rt_relay_pubkey :: string
  rt_advertised_endpoint :: string
  rt_total_sessions_served :: u64
  rt_total_forwarded_bytes :: u64
  rt_current_forward_bps :: u64
  rt_last_rate_sample_at :: u64
  rt_last_rate_sample_bytes :: u64
  rt_known_peer_pubkeys :: "string list"
  rt_active_sessions :: "(string, relay_operator_session_state) hmap"

definition relay_runtime_state_default :: relay_runtime_state where
  "relay_runtime_state_default =
    \<lparr>rt_relay_pubkey = [], rt_advertised_endpoint = [], rt_total_sessions_served = 0,
     rt_total_forwarded_bytes = 0, rt_current_forward_bps = 0, rt_last_rate_sample_at = 0,
     rt_last_rate_sample_bytes = 0, rt_known_peer_pubkeys = [], rt_active_sessions = []\<rparr>"

definition live_session :: "u64 \<Rightarrow> relay_operator_session_state \<Rightarrow> bool" where
  "live_session now session = (now < os_expires_at session)"

definition prune_sessions ::
  "u64 \<Rightarrow> (string, relay_operator_session_state) hmap \<Rightarrow> (string, relay_operator_session_state) hmap" where
  "prune_sessions now m = hm_retain (\<lambda>_ session. live_session now session) m"

definition prune_expired_sessions :: "u64 \<Rightarrow> relay_runtime_state \<Rightarrow> relay_runtime_state" where
  "prune_expired_sessions now s = s\<lparr>rt_active_sessions := prune_sessions now (rt_active_sessions s)\<rparr>"

definition sessions_of :: "string \<Rightarrow> (string, relay_operator_session_state) hmap \<Rightarrow> nat" where
  "sessions_of requester m = length (filter (\<lambda>(_, session). os_requester_pubkey session = requester) m)"

definition allocation_rejection_for_requester ::
  "string \<Rightarrow> u64 \<Rightarrow> relay_service_limits \<Rightarrow> relay_runtime_state
    \<Rightarrow> (relay_allocation_reject_reason \<times> u64 option) option \<times> relay_runtime_state" where
  "allocation_rejection_for_requester requester now limits s0 =
    (let s = prune_expired_sessions now s0
     in (if rl_max_active_sessions limits \<le> length (rt_active_sessions s)
         then Some (OverCapacity, Some 30)
         else if rl_max_sessions_per_requester limits \<le> sessions_of requester (rt_active_sessions s)
         then Some (TooManySessionsForRequester, Some 60)
         else None, s))"

definition set_insert :: "'a \<Rightarrow> 'a list \<Rightarrow> 'a list" where
  "set_insert x xs = (if x \<in> set xs then xs else xs @ [x])"

text \<open>\<open>now\<close> is the clock's reading during the call.\<close>

definition note_session_started ::
  "u64 \<Rightarrow> relay_operator_session_state \<Rightarrow> relay_runtime_state \<Rightarrow> relay_runtime_state" where
  "note_session_started now session s0 =
    (let s = prune_expired_sessions now s0
     in s\<lparr>rt_total_sessions_served := saturating_add (rt_total_sessions_served s) 1,
          rt_known_peer_pubkeys := set_insert (os_target_pubkey session)
            (set_insert (os_requester_pubkey session) (rt_known_peer_pubkeys s)),
          rt_active_sessions := hm_insert (os_request_id session) session (rt_active_sessions s)\<rparr>)"

definition note_forwarded_bytes ::
  "string \<Rightarrow> bool \<Rightarrow> u64 \<Rightarrow> relay_runtime_state \<Rightarrow> relay_runtime_state" where
  "note_forwarded_bytes request_id requester_leg bytes s0 =
    (let s = s0\<lparr>rt_total_forwarded_bytes := saturating_add (rt_total_forwarded_bytes s0) bytes\<rparr>
     in (case hm_get (rt_active_sessions s) request_id of
           None \<Rightarrow> s
         | Some session \<Rightarrow>
             s\<lparr>rt_active_sessions := hm_insert request_id
               (if requester_leg
                then session\<lparr>os_bytes_from_requester := saturating_add (os_bytes_from_requester session) bytes\<rparr>
                else session\<lparr>os_bytes_from_target := saturating_add (os_bytes_from_target session) bytes\<rparr>)
               (rt_active_sessions s)\<rparr>))"

text \<open>The rate over the time since the last sample; the first sample only records its time.\<close>

definition relay_sample_rate :: "u64 \<Rightarrow> relay_runtime_state \<Rightarrow> relay_runtime_state" where
  "relay_sample_rate now s =
    (let elapsed = saturating_sub now (rt_last_rate_sample_at s)
     in if 0 < elapsed
        then s\<lparr>rt_current_forward_bps :=
                 saturating_sub (rt_total_forwarded_bytes s) (rt_last_rate_sample_bytes s) div elapsed,
               rt_last_rate_sample_at := now,
               rt_last_rate_sample_bytes := rt_total_forwarded_bytes s\<rparr>
        else if rt_last_rate_sample_at s = 0
        then s\<lparr>rt_last_rate_sample_at := now, rt_last_rate_sample_bytes := rt_total_forwarded_bytes s\<rparr>
        else s)"

definition relay_snapshot :: "u64 \<Rightarrow> relay_runtime_state \<Rightarrow> relay_operator_state \<times> relay_runtime_state" where
  "relay_snapshot now s0 =
    (let s = relay_sample_rate now (prune_expired_sessions now s0)
     in (\<lparr>ro_updated_at = now, ro_relay_pubkey = rt_relay_pubkey s,
          ro_advertised_endpoint = rt_advertised_endpoint s,
          ro_total_sessions_served = rt_total_sessions_served s,
          ro_total_forwarded_bytes = rt_total_forwarded_bytes s,
          ro_current_forward_bps = rt_current_forward_bps s,
          ro_unique_peer_count = length (rt_known_peer_pubkeys s),
          ro_known_peer_pubkeys = sort (rt_known_peer_pubkeys s),
          ro_active_sessions = sort_key (\<lambda>session. (os_started_at session, os_request_id session))
            (map snd (rt_active_sessions s))\<rparr>, s))"

section \<open>The forwarding budget of a session\<close>

record forward_window =
  fw_last_refill :: nat
  fw_available_bytes :: u64

record session_forwarding_state =
  sf_forward_window :: "forward_window option"
  sf_total_forwarded_bytes :: u64
  sf_closed :: bool

definition session_forwarding_state_default :: session_forwarding_state where
  "session_forwarding_state_default =
    \<lparr>sf_forward_window = None, sf_total_forwarded_bytes = 0, sf_closed = False\<rparr>"

text \<open>\<open>(elapsed * max_forward_bps as f64) as u64\<close> for \<open>d\<close> nanoseconds.\<close>

definition refill_bytes :: "nat \<Rightarrow> u64 \<Rightarrow> u64" where
  "refill_bytes d max_forward_bps = f64_as_u64 (f64_round (as_secs_f64 d * u64_as_f64 max_forward_bps))"

definition refill_window :: "nat \<Rightarrow> u64 \<Rightarrow> u64 \<Rightarrow> forward_window \<Rightarrow> forward_window" where
  "refill_window now max_forward_bps burst w =
    (let elapsed = now - fw_last_refill w
     in if 0 < as_secs_f64 elapsed
        then w\<lparr>fw_available_bytes :=
                 min (saturating_add (fw_available_bytes w) (refill_bytes elapsed max_forward_bps)) burst,
               fw_last_refill := now\<rparr>
        else w)"

definition allow_forward ::
  "relay_service_limits \<Rightarrow> nat \<Rightarrow> u64 \<Rightarrow> session_forwarding_state
    \<Rightarrow> (relay_allocation_reject_reason + unit) \<times> session_forwarding_state" where
  "allow_forward limits now bytes s =
    (if sf_closed s then (Inl ByteLimitExceeded, s)
     else if rl_max_bytes_per_session limits < saturating_add (sf_total_forwarded_bytes s) bytes
     then (Inl ByteLimitExceeded, s\<lparr>sf_closed := True\<rparr>)
     else let charged = saturating_add (sf_total_forwarded_bytes s) bytes in
       (case rl_max_forward_bps limits of
          None \<Rightarrow> (Inr (), s\<lparr>sf_total_forwarded_bytes := charged\<rparr>)
        | Some max_forward_bps \<Rightarrow>
            (let burst = max max_forward_bps bytes;
                 w0 = (case sf_forward_window s of
                     None \<Rightarrow> \<lparr>fw_last_refill = now, fw_available_bytes = burst\<rparr> | Some w \<Rightarrow> w);
                 w = refill_window now max_forward_bps burst w0
             in if fw_available_bytes w < bytes
                then (Inl RateLimited, s\<lparr>sf_forward_window := Some w\<rparr>)
                else (Inr (), s\<lparr>sf_forward_window :=
                          Some (w\<lparr>fw_available_bytes := saturating_sub (fw_available_bytes w) bytes\<rparr>),
                        sf_total_forwarded_bytes := charged\<rparr>))))"

section \<open>The NAT assistant's counters\<close>

record nat_assist_runtime_state =
  na_advertised_endpoint :: string
  na_total_discovery_requests :: u64
  na_total_punch_requests :: u64
  na_current_request_bps :: u64
  na_last_rate_sample_at :: u64
  na_last_rate_sample_requests :: u64
  na_known_clients :: "string list"

definition nat_assist_runtime_state_default :: nat_assist_runtime_state where
  "nat_assist_runtime_state_default =
    \<lparr>na_advertised_endpoint = [], na_total_discovery_requests = 0, na_total_punch_requests = 0,
     na_current_request_bps = 0, na_last_rate_sample_at = 0, na_last_rate_sample_requests = 0,
     na_known_clients = []\<rparr>"

definition note_discovery_request :: "socket_addr \<Rightarrow> nat_assist_runtime_state \<Rightarrow> nat_assist_runtime_state" where
  "note_discovery_request src s =
    s\<lparr>na_total_discovery_requests := saturating_add (na_total_discovery_requests s) 1,
      na_known_clients := set_insert (print_ip (sock_ip src)) (na_known_clients s)\<rparr>"

definition note_punch_request :: "socket_addr \<Rightarrow> nat_assist_runtime_state \<Rightarrow> nat_assist_runtime_state" where
  "note_punch_request src s =
    s\<lparr>na_total_punch_requests := saturating_add (na_total_punch_requests s) 1,
      na_known_clients := set_insert (print_ip (sock_ip src)) (na_known_clients s)\<rparr>"

definition nat_assist_snapshot ::
  "u64 \<Rightarrow> nat_assist_runtime_state \<Rightarrow> nat_assist_operator_state \<times> nat_assist_runtime_state" where
  "nat_assist_snapshot now s0 =
    (let total_requests = saturating_add (na_total_discovery_requests s0) (na_total_punch_requests s0);
         elapsed = saturating_sub now (na_last_rate_sample_at s0);
         s = (if 0 < elapsed
              then s0\<lparr>na_current_request_bps :=
                        saturating_sub total_requests (na_last_rate_sample_requests s0) div elapsed,
                      na_last_rate_sample_at := now, na_last_rate_sample_requests := total_requests\<rparr>
              else if na_last_rate_sample_at s0 = 0
              then s0\<lparr>na_last_rate_sample_at := now, na_last_rate_sample_requests := total_requests\<rparr>
              else s0)
     in (\<lparr>no_updated_at = now, no_advertised_endpoint = na_advertised_endpoint s,
          no_total_discovery_requests = na_total_discovery_requests s,
          no_total_punch_requests = na_total_punch_requests s,
          no_current_request_bps = na_current_request_bps s,
          no_unique_client_count = length (na_known_clients s)\<rparr>, s))"

section \<open>The service's runtime state\<close>

record service_runtime_state =
  sv_operator_pubkey :: string
  sv_relay :: "relay_runtime_state option"
  sv_nat_assist :: "nat_assist_runtime_state option"

definition service_note_session_started ::
  "u64 \<Rightarrow> relay_operator_session_state \<Rightarrow> service_runtime_state \<Rightarrow> service_runtime_state" where
  "service_note_session_started now session s =
    s\<lparr>sv_relay := map_option (note_session_started now session) (sv_relay s)\<rparr>"

definition service_note_forwarded_bytes ::
  "string \<Rightarrow> bool \<Rightarrow> u64 \<Rightarrow> service_runtime_state \<Rightarrow> service_runtime_state" where
  "service_note_forwarded_bytes request_id requester_leg bytes s =
    s\<lparr>sv_relay := map_option (note_forwarded_bytes request_id requester_leg bytes) (sv_relay s)\<rparr>"

definition service_note_discovery_request :: "socket_addr \<Rightarrow> service_runtime_state \<Rightarrow> service_runtime_state" where
  "service_note_discovery_request src s =
    s\<lparr>sv_nat_assist := map_option (note_discovery_request src) (sv_nat_assist s)\<rparr>"

definition service_note_punch_request :: "socket_addr \<Rightarrow> service_runtime_state \<Rightarrow> service_runtime_state" where
  "service_note_punch_request src s =
    s\<lparr>sv_nat_assist := map_option (note_punch_request src) (sv_nat_assist s)\<rparr>"

definition service_snapshot ::
  "u64 \<Rightarrow> service_runtime_state \<Rightarrow> service_operator_state \<times> service_runtime_state" where
  "service_snapshot now s =
    (let relay = map_option (relay_snapshot now) (sv_relay s);
         nat_assist = map_option (nat_assist_snapshot now) (sv_nat_assist s)
     in (\<lparr>so_updated_at = now, so_operator_pubkey = sv_operator_pubkey s,
          so_relay = map_option fst relay, so_nat_assist = map_option fst nat_assist\<rparr>,
         s\<lparr>sv_relay := map_option snd relay, sv_nat_assist := map_option snd nat_assist\<rparr>))"

section \<open>The state after a restart\<close>

text \<open>Collecting into a set: every peer once.\<close>

definition relay_runtime_state_from_snapshot ::
  "relay_operator_state \<Rightarrow> string \<Rightarrow> string \<Rightarrow> u64 \<Rightarrow> relay_runtime_state" where
  "relay_runtime_state_from_snapshot snapshot relay_pubkey advertised_endpoint now =
    \<lparr>rt_relay_pubkey = relay_pubkey, rt_advertised_endpoint = advertised_endpoint,
     rt_total_sessions_served = ro_total_sessions_served snapshot,
     rt_total_forwarded_bytes = ro_total_forwarded_bytes snapshot,
     rt_current_forward_bps = 0, rt_last_rate_sample_at = now,
     rt_last_rate_sample_bytes = ro_total_forwarded_bytes snapshot,
     rt_known_peer_pubkeys = remdups (ro_known_peer_pubkeys snapshot),
     rt_active_sessions = []\<rparr>"

definition nat_assist_runtime_state_from_snapshot ::
  "nat_assist_operator_state \<Rightarrow> string \<Rightarrow> u64 \<Rightarrow> nat_assist_runtime_state" where
  "nat_assist_runtime_state_from_snapshot snapshot advertised_endpoint now =
    \<lparr>na_advertised_endpoint = advertised_endpoint,
     na_total_discovery_requests = no_total_discovery_requests snapshot,
     na_total_punch_requests = no_total_punch_requests snapshot,
     na_current_request_bps = 0, na_last_rate_sample_at = now,
     na_last_rate_sample_requests =
       saturating_add (no_total_discovery_requests snapshot) (no_total_punch_requests snapshot),
     na_known_clients = []\<rparr>"

definition fresh_relay_state :: "string \<Rightarrow> u64 \<Rightarrow> string \<Rightarrow> relay_runtime_state" where
  "fresh_relay_state operator_pubkey now advertised_endpoint =
    relay_runtime_state_default\<lparr>rt_relay_pubkey := operator_pubkey,
      rt_advertised_endpoint := advertised_endpoint, rt_last_rate_sample_at := now\<rparr>"

definition fresh_nat_assist_state :: "u64 \<Rightarrow> string \<Rightarrow> nat_assist_runtime_state" where
  "fresh_nat_assist_state now advertised_endpoint =
    nat_assist_runtime_state_default\<lparr>na_advertised_endpoint := advertised_endpoint,
      na_last_rate_sample_at := now\<rparr>"

text \<open>
  \<open>file\<close> is what the state file holds: \<open>None\<close> when it cannot be read, otherwise its contents
  parsed as a service snapshot and as the relay snapshot of older versions, each \<open>None\<close> where
  that parse fails.
\<close>

definition load_runtime_state ::
  "(service_operator_state option \<times> relay_operator_state option) option \<Rightarrow> u64 \<Rightarrow> string
    \<Rightarrow> string option \<Rightarrow> string option \<Rightarrow> service_runtime_state" where
  "load_runtime_state file now operator_pubkey relay_endpoint nat_assist_endpoint =
    (let fresh_relay = fresh_relay_state operator_pubkey now;
         fresh_nat = fresh_nat_assist_state now;
         legacy = (\<lambda>raw. case raw of
             Some snapshot \<Rightarrow>
               \<lparr>sv_operator_pubkey = operator_pubkey,
                sv_relay = map_option (\<lambda>endpoint.
                  relay_runtime_state_from_snapshot snapshot operator_pubkey endpoint now) relay_endpoint,
                sv_nat_assist = map_option fresh_nat nat_assist_endpoint\<rparr>
           | None \<Rightarrow>
               \<lparr>sv_operator_pubkey = operator_pubkey, sv_relay = map_option fresh_relay relay_endpoint,
                sv_nat_assist = map_option fresh_nat nat_assist_endpoint\<rparr>)
     in (case file of
           None \<Rightarrow>
             \<lparr>sv_operator_pubkey = operator_pubkey, sv_relay = map_option fresh_relay relay_endpoint,
              sv_nat_assist = map_option fresh_nat nat_assist_endpoint\<rparr>
         | Some (Some snapshot, raw) \<Rightarrow>
             if so_relay snapshot \<noteq> None \<or> so_nat_assist snapshot \<noteq> None
               \<or> trim (so_operator_pubkey snapshot) \<noteq> []
             then \<lparr>sv_operator_pubkey = operator_pubkey,
                   sv_relay = map_option (\<lambda>endpoint. case so_relay snapshot of
                       None \<Rightarrow> fresh_relay endpoint
                     | Some relay \<Rightarrow> relay_runtime_state_from_snapshot relay operator_pubkey endpoint now)
                     relay_endpoint,
                   sv_nat_assist = map_option (\<lambda>endpoint. case so_nat_assist snapshot of
                       None \<Rightarrow> fresh_nat endpoint
                     | Some nat_assist \<Rightarrow> nat_assist_runtime_state_from_snapshot nat_assist endpoint now)
                     nat_assist_endpoint\<rparr>
             else legacy raw
         | Some (None, raw) \<Rightarrow> legacy raw))"

end
