(* ===== verification/Service_Signaling.thy ===== *)
theory Service_Signaling
  imports Relay_Runtime Nostr_Event
begin

text \<open>
  \<open>crates/nostr-vpn-core/src/service_signaling.rs\<close>: the client through which a relay service and
  its users exchange private messages, and which received events are accepted as such a message.
\<close>

datatype service_payload =
    RelayAllocationRequest relay_allocation_request
  | RelayAllocationGranted relay_allocation_granted
  | RelayAllocationRejected relay_allocation_rejected
  | RelayProbeRequest relay_probe_request
  | RelayProbeGranted relay_probe_granted
  | RelayProbeRejected relay_probe_rejected

record service_envelope =
  sx_sender_pubkey :: string
  sx_payload :: service_payload

record relay_service_client =
  rc_own_pubkey :: string
  rc_connected :: bool

text \<open>\<open>from_secret_key\<close>: the key pair is that of the library record.\<close>

definition service_client_new :: "nostr_lib \<Rightarrow> relay_service_client" where
  "service_client_new L = \<lparr>rc_own_pubkey = nl_pubkey L, rc_connected = False\<rparr>"

definition service_filters :: "nostr_lib \<Rightarrow> u64 \<Rightarrow> relay_service_client \<Rightarrow> event_filter list" where
  "service_filters L now client =
    [\<lparr>ef_kind = NOSTR_KIND_NOSTR_VPN, ef_authors = None, ef_tag = (''p'', [rc_own_pubkey client]),
      ef_since = nl_before L now SIGNAL_PRIVATE_LOOKBACK_SECS\<rparr>]"

definition service_connect ::
  "nostr_lib \<Rightarrow> u64 \<Rightarrow> (string \<Rightarrow> bool) \<Rightarrow> (event_filter list \<Rightarrow> bool) \<Rightarrow> string list
    \<Rightarrow> relay_service_client \<Rightarrow> (connect_error + unit) \<times> relay_service_client" where
  "service_connect L now add_relay subscribe relays client =
    (case connect_relays add_relay subscribe relays (service_filters L now client) of
       Inl error \<Rightarrow> (Inl error, client)
     | Inr _ \<Rightarrow> (Inr (), client\<lparr>rc_connected := True\<rparr>))"

definition service_disconnect :: "relay_service_client \<Rightarrow> relay_service_client" where
  "service_disconnect client = client\<lparr>rc_connected := False\<rparr>"

definition publish_to ::
  "nostr_lib \<Rightarrow> service_envelope json_codec \<Rightarrow> u64 \<Rightarrow> relay_service_client \<Rightarrow> service_payload \<Rightarrow> string
    \<Rightarrow> nostr_event list \<Rightarrow> (publish_error + unit) \<times> nostr_event list" where
  "publish_to L J now client payload recipient outbox =
    (if \<not> rc_connected client then (Inl NotConnected, outbox)
     else (case nl_from_hex L recipient of
         None \<Rightarrow> (Inl InvalidRecipient, outbox)
       | Some recipient_pubkey \<Rightarrow>
           (case to_json J \<lparr>sx_sender_pubkey = rc_own_pubkey client, sx_payload = payload\<rparr> of
              None \<Rightarrow> (Inl NotSerializable, outbox)
            | Some content \<Rightarrow>
                (case send_private L now recipient_pubkey
                    [[''p'', recipient_pubkey], [''expiration'', nl_expiration L now SIGNAL_EXPIRATION_SECS]]
                    content outbox of
                   (r, outbox') \<Rightarrow> (single_result r, outbox')))))"

text \<open>What the event forwarder passes on of one event.\<close>

definition accept_service_event ::
  "nostr_lib \<Rightarrow> service_envelope json_codec \<Rightarrow> relay_service_client \<Rightarrow> nostr_event
    \<Rightarrow> service_envelope option" where
  "accept_service_event L J client event =
    (if ev_kind event \<noteq> NOSTR_KIND_NOSTR_VPN \<or> ev_pubkey event = rc_own_pubkey client then None
     else (case first_tag_value event ''p'' of
         None \<Rightarrow> None
       | Some recipient \<Rightarrow>
           if recipient \<noteq> rc_own_pubkey client then None
           else (case nl_decrypt L (ev_pubkey event) (ev_content event) of
               None \<Rightarrow> None
             | Some plaintext \<Rightarrow>
                 (case from_json J plaintext of
                    None \<Rightarrow> None
                  | Some envelope \<Rightarrow>
                      if sx_sender_pubkey envelope \<noteq> ev_pubkey event then None else Some envelope))))"

definition service_forward ::
  "nostr_lib \<Rightarrow> service_envelope json_codec \<Rightarrow> relay_service_client \<Rightarrow> nostr_event notification list
    \<Rightarrow> service_envelope list" where
  "service_forward L J client =
    forward_loop (\<lambda>event. case accept_service_event L J client event of None \<Rightarrow> [] | Some e \<Rightarrow> [e])"

text \<open>
  A message is only ever taken for one from a sender whose key signed the event that carries
  it, when it is addressed to this service in the first \<open>p\<close> tag, was not sent by the service
  itself, and is what decrypting under the author's key and parsing give.
\<close>

lemma service_sender_authentic:
  "accept_service_event L J client event = Some envelope \<longleftrightarrow>
    ev_kind event = NOSTR_KIND_NOSTR_VPN \<and> ev_pubkey event \<noteq> rc_own_pubkey client
    \<and> first_tag_value event ''p'' = Some (rc_own_pubkey client)
    \<and> sx_sender_pubkey envelope = ev_pubkey event
    \<and> Option.bind (nl_decrypt L (ev_pubkey event) (ev_content event)) (from_json J) = Some envelope"
  by (auto simp: accept_service_event_def split: option.splits if_splits)

text \<open>A message that was published is accepted by its recipient as the sender's.\<close>

lemma service_message_round_trip:
  assumes laws: "sign_law A" "nip44_law A B" "codec_law J"
    and key: "nl_from_hex A (nl_pubkey B) = Some (nl_pubkey B)" "nl_pubkey A \<noteq> nl_pubkey B"
    and sent: "publish_to A J now (client\<lparr>rc_own_pubkey := nl_pubkey A\<rparr>) payload (nl_pubkey B) outbox = (Inr (), outbox')"
  shows "\<exists>event. outbox' = outbox @ [event] \<and> nl_send A outbox event = Stored
    \<and> accept_service_event B J (service_client_new B) event
        = Some \<lparr>sx_sender_pubkey = nl_pubkey A, sx_payload = payload\<rparr>"
proof -
  let ?envelope = "\<lparr>sx_sender_pubkey = nl_pubkey A, sx_payload = payload\<rparr>"
  let ?tags = "[[''p'', nl_pubkey B], [''expiration'', nl_expiration A now SIGNAL_EXPIRATION_SECS]]"
  from sent key obtain content where json: "to_json J ?envelope = Some content"
    and mail: "send_private A now (nl_pubkey B) ?tags content outbox = (Inr Stored, outbox')"
    by (auto simp: publish_to_def split: option.splits if_splits prod.splits)
  from send_private_sent [OF laws(1) mail] obtain encrypted event
    where "nl_encrypt A (nl_pubkey B) content = Some encrypted"
      and event: "event = \<lparr>ev_kind = NOSTR_KIND_NOSTR_VPN, ev_pubkey = nl_pubkey A, ev_created_at = now,
        ev_tags = ?tags, ev_content = encrypted\<rparr>"
      and "outbox' = outbox @ [event]" "nl_send A outbox event = Stored" by blast
  moreover from this(1) have "nl_decrypt B (nl_pubkey A) encrypted = Some content"
    by (rule nip44_lawD [OF laws(2)])
  moreover have "from_json J content = Some ?envelope" by (rule codec_lawD [OF laws(3) json])
  ultimately show ?thesis using key
    by (auto simp: accept_service_event_def service_client_new_def first_tag_value_def)
qed

end
