(* ===== verification/Node_Record.thy ===== *)
theory Node_Record
  imports Rust_Str Rust_Base
begin

text \<open>
  \<open>crates/nostr-vpn-core/src/node_record.rs\<close>: the public record a service node publishes and
  the collection of the records found. Signing, sending and receiving events is the Nostr
  library's; an event found is its author, its kind and the record its content parses to.
\<close>

definition NOSTR_KIND_NOSTR_VPN_NODE_RECORD :: u16 where
  "NOSTR_KIND_NOSTR_VPN_NODE_RECORD = 30078"

definition NODE_RECORD_D_TAG :: string where "NODE_RECORD_D_TAG = ''nostr-vpn:node''"
definition NODE_RECORD_RELAY_TAG :: string where "NODE_RECORD_RELAY_TAG = ''nostr-vpn-relay''"
definition NODE_RECORD_NAT_ASSIST_TAG :: string where "NODE_RECORD_NAT_ASSIST_TAG = ''nostr-vpn-nat-assist''"
definition NODE_RECORD_EXIT_TAG :: string where "NODE_RECORD_EXIT_TAG = ''nostr-vpn-exit''"

datatype node_record_mode = ModePrivate | ModePublicPeer | ModePublicService

datatype node_service_kind = KindRelay | KindNatAssist | KindExit

fun discovery_tag :: "node_service_kind \<Rightarrow> string" where
  "discovery_tag KindRelay = NODE_RECORD_RELAY_TAG"
| "discovery_tag KindNatAssist = NODE_RECORD_NAT_ASSIST_TAG"
| "discovery_tag KindExit = NODE_RECORD_EXIT_TAG"

record node_service =
  ns_kind :: node_service_kind
  ns_endpoint :: string
  ns_protocol :: "string option"
  ns_price_hint_msats :: "u64 option"

record node_record =
  nr_mode :: node_record_mode
  nr_services :: "node_service list"
  nr_updated_at :: u64
  nr_expires_at :: u64

definition discovery_tags :: "node_record \<Rightarrow> string list" where
  "discovery_tags r = sort_dedup (map (\<lambda>service. discovery_tag (ns_kind service)) (nr_services r))"

definition has_service :: "node_record \<Rightarrow> node_service_kind \<Rightarrow> bool" where
  "has_service r kind = list_ex (\<lambda>service. ns_kind service = kind) (nr_services r)"

text \<open>The tags of a published record: its identifier, its expiration and one per service kind.\<close>

datatype node_record_tag = Identifier string | Expiration u64 | TopicTag string

definition node_record_tags :: "node_record \<Rightarrow> node_record_tag list" where
  "node_record_tags r = Identifier NODE_RECORD_D_TAG # Expiration (nr_expires_at r) # map TopicTag (discovery_tags r)"

text \<open>One event while discovering: \<open>now\<close> is the clock when it arrives.\<close>

record node_record_event =
  ne_kind :: u16
  ne_pubkey :: string
  ne_record :: "node_record option"

definition collect_node_record ::
  "u64 \<Rightarrow> node_record_event \<Rightarrow> (string, node_record) hmap \<Rightarrow> (string, node_record) hmap" where
  "collect_node_record now event out =
    (if ne_kind event \<noteq> NOSTR_KIND_NOSTR_VPN_NODE_RECORD then out
     else (case ne_record event of
         None \<Rightarrow> out
       | Some r \<Rightarrow> if nr_expires_at r \<le> now then out else hm_insert (ne_pubkey event) r out))"

definition discover_node_records ::
  "(u64 \<times> node_record_event) list \<Rightarrow> (string, node_record) hmap" where
  "discover_node_records events = fold (\<lambda>(now, event). collect_node_record now event) events []"

lemma discovery_tag_inj: "discovery_tag a = discovery_tag b \<Longrightarrow> a = b"
  by (cases a; cases b)
    (simp_all add: NODE_RECORD_RELAY_TAG_def NODE_RECORD_NAT_ASSIST_TAG_def NODE_RECORD_EXIT_TAG_def)

lemma discovery_tags_has_service: "discovery_tag kind \<in> set (discovery_tags r) \<longleftrightarrow> has_service r kind"
  by (auto simp: discovery_tags_def has_service_def list_ex_iff dest: discovery_tag_inj)

end
