(* ===== verification/Relay_Fallback.thy ===== *)
theory Relay_Fallback
  imports Tunnel_Plan Service_Signaling Node_Record
begin

text \<open>
  The daemon's fall-back to public relays: \<open>crates/nostr-vpn-cli/src/relay_runtime.rs\<close> (sessions granted
  by relays, sessions standing by, failure cool-downs, the book of relay providers) and the part of
  \<open>main.rs\<close> that probes providers, requests sessions and takes grants and rejections. Times are \<open>u64\<close>
  seconds; the two unchecked additions wrap, as in a release build. What sockets receive, which node
  records are found and whether messages can be published are arguments.
\<close>

section \<open>State\<close>

definition RELAY_REQUEST_RETRY_AFTER_SECS :: u64 where "RELAY_REQUEST_RETRY_AFTER_SECS = 30"
definition RELAY_REQUEST_TIMEOUT_SECS :: u64 where "RELAY_REQUEST_TIMEOUT_SECS = 120"
definition RELAY_SESSION_VERIFY_TIMEOUT_SECS :: u64 where "RELAY_SESSION_VERIFY_TIMEOUT_SECS = 8"
definition RELAY_FAILED_RETRY_AFTER_SECS :: u64 where "RELAY_FAILED_RETRY_AFTER_SECS = 60"
definition RELAY_PROVIDER_FAILURE_MAX_COOLDOWN_SECS :: u64 where "RELAY_PROVIDER_FAILURE_MAX_COOLDOWN_SECS = 900"
definition RELAY_PROVIDER_PROBE_RETRY_AFTER_SECS :: u64 where "RELAY_PROVIDER_PROBE_RETRY_AFTER_SECS = 60"
definition MAX_PARALLEL_RELAY_PROVIDER_PROBES :: nat where "MAX_PARALLEL_RELAY_PROVIDER_PROBES = 2"
definition MAX_PARALLEL_RELAY_REQUESTS_PER_PARTICIPANT :: nat where
  "MAX_PARALLEL_RELAY_REQUESTS_PER_PARTICIPANT = 3"

record active_relay_session =
  as_relay_pubkey :: string
  as_local_ingress_endpoint :: string
  as_advertised_ingress_endpoint :: string
  as_granted_at :: u64
  as_verified_at :: "u64 option"
  as_expires_at :: u64

record pending_relay_request =
  pq_participant :: string
  pq_relay_pubkey :: string
  pq_requested_at :: u64

record relay_provider_verification =
  rp_verified_at :: "u64 option"
  rp_failure_cooldown_until :: "u64 option"
  rp_last_failure_at :: "u64 option"
  rp_last_probe_attempt_at :: "u64 option"
  rp_consecutive_failures :: u32

definition relay_provider_default :: relay_provider_verification where
  "relay_provider_default = \<lparr>rp_verified_at = None, rp_failure_cooldown_until = None,
     rp_last_failure_at = None, rp_last_probe_attempt_at = None, rp_consecutive_failures = 0\<rparr>"

type_synonym relay_sessions = "(string, active_relay_session) hmap"
type_synonym standby_sessions = "(string, active_relay_session list) hmap"
type_synonym failure_cooldowns = "(string, u64) hmap"
type_synonym provider_book = "(string, relay_provider_verification) hmap"
type_synonym pending_requests = "(string, pending_relay_request) hmap"

section \<open>Sessions\<close>

definition relay_session_is_active :: "active_relay_session \<Rightarrow> u64 \<Rightarrow> bool" where
  "relay_session_is_active session now \<longleftrightarrow>
    now < as_expires_at session \<and> trim (as_local_ingress_endpoint session) \<noteq> []
    \<and> trim (as_advertised_ingress_endpoint session) \<noteq> []"

definition relay_session_is_verified :: "active_relay_session \<Rightarrow> bool" where
  "relay_session_is_verified session \<longleftrightarrow> as_verified_at session \<noteq> None"

definition relay_session_verification_timed_out :: "active_relay_session \<Rightarrow> u64 \<Rightarrow> bool" where
  "relay_session_verification_timed_out session now \<longleftrightarrow>
    \<not> relay_session_is_verified session
    \<and> RELAY_SESSION_VERIFY_TIMEOUT_SECS \<le> saturating_sub now (as_granted_at session)"

definition prune_active_relay_sessions :: "relay_sessions \<Rightarrow> u64 \<Rightarrow> bool \<times> relay_sessions" where
  "prune_active_relay_sessions sessions now =
    (let kept = hm_retain (\<lambda>_ session. relay_session_is_active session now) sessions
     in (length kept \<noteq> length sessions, kept))"

definition prune_pending_relay_requests :: "pending_requests \<Rightarrow> u64 \<Rightarrow> bool \<times> pending_requests" where
  "prune_pending_relay_requests requests now =
    (let kept = hm_retain (\<lambda>_ r. saturating_sub now (pq_requested_at r) < RELAY_REQUEST_TIMEOUT_SECS) requests
     in (length kept \<noteq> length requests, kept))"

definition prune_standby_relay_sessions :: "standby_sessions \<Rightarrow> u64 \<Rightarrow> bool \<times> standby_sessions" where
  "prune_standby_relay_sessions standby now =
    (let kept = hm_retain (\<lambda>_ sessions. sessions \<noteq> [])
           (hm_map_values (\<lambda>_. filter (\<lambda>session. relay_session_is_active session now)) standby)
     in (length kept \<noteq> length standby, kept))"

definition active_relay_session_from_grant :: "relay_allocation_granted \<Rightarrow> u64 \<Rightarrow> active_relay_session" where
  "active_relay_session_from_grant granted granted_at =
    \<lparr>as_relay_pubkey = rg_relay_pubkey granted,
     as_local_ingress_endpoint = rg_requester_ingress_endpoint granted,
     as_advertised_ingress_endpoint = rg_target_ingress_endpoint granted,
     as_granted_at = granted_at, as_verified_at = None, as_expires_at = rg_expires_at granted\<rparr>"

definition relay_sessions_match :: "active_relay_session \<Rightarrow> active_relay_session \<Rightarrow> bool" where
  "relay_sessions_match left right \<longleftrightarrow>
    as_relay_pubkey left = as_relay_pubkey right
    \<and> as_local_ingress_endpoint left = as_local_ingress_endpoint right
    \<and> as_advertised_ingress_endpoint left = as_advertised_ingress_endpoint right"

text \<open>The entry is created even when the session is not queued; it then has a match, so it is not empty.\<close>

definition queue_standby_relay_session ::
  "standby_sessions \<Rightarrow> string \<Rightarrow> active_relay_session \<Rightarrow> bool \<times> standby_sessions" where
  "queue_standby_relay_session standby participant session =
    (let sessions = (case hm_get standby participant of None \<Rightarrow> [] | Some sessions \<Rightarrow> sessions)
     in if list_ex (\<lambda>existing. relay_sessions_match existing session) sessions
        then (False, hm_insert participant sessions standby)
        else (True, hm_insert participant (sessions @ [session]) standby))"

section \<open>Failures\<close>

definition relay_failure_key :: "string \<Rightarrow> string \<Rightarrow> string" where
  "relay_failure_key participant relay_pubkey = participant @ '':'' @ relay_pubkey"

definition relay_is_in_failure_cooldown :: "failure_cooldowns \<Rightarrow> string \<Rightarrow> string \<Rightarrow> u64 \<Rightarrow> bool" where
  "relay_is_in_failure_cooldown failures participant relay_pubkey now =
    (case hm_get failures (relay_failure_key participant relay_pubkey) of
       None \<Rightarrow> False | Some cooldown_until \<Rightarrow> now < cooldown_until)"

definition note_failed_relay :: "failure_cooldowns \<Rightarrow> string \<Rightarrow> string \<Rightarrow> u64 \<Rightarrow> failure_cooldowns" where
  "note_failed_relay failures participant relay_pubkey now =
    hm_insert (relay_failure_key participant relay_pubkey) (now + RELAY_FAILED_RETRY_AFTER_SECS) failures"

definition prune_relay_failure_cooldowns :: "failure_cooldowns \<Rightarrow> u64 \<Rightarrow> bool \<times> failure_cooldowns" where
  "prune_relay_failure_cooldowns failures now =
    (let kept = hm_retain (\<lambda>_ cooldown_until. now < cooldown_until) failures
     in (length kept \<noteq> length failures, kept))"

text \<open>The first session standing by that is active and whose relay has not failed for the participant.\<close>

definition standby_usable :: "failure_cooldowns \<Rightarrow> string \<Rightarrow> u64 \<Rightarrow> active_relay_session \<Rightarrow> bool" where
  "standby_usable failures participant now session \<longleftrightarrow>
    relay_session_is_active session now
    \<and> \<not> relay_is_in_failure_cooldown failures participant (as_relay_pubkey session) now"

fun take_first :: "('a \<Rightarrow> bool) \<Rightarrow> 'a list \<Rightarrow> ('a \<times> 'a list) option" where
  "take_first P [] = None"
| "take_first P (x # xs) =
    (if P x then Some (x, xs) else map_option (\<lambda>(y, ys). (y, x # ys)) (take_first P xs))"

definition pop_next_standby_relay_session ::
  "standby_sessions \<Rightarrow> failure_cooldowns \<Rightarrow> string \<Rightarrow> u64 \<Rightarrow> active_relay_session option \<times> standby_sessions" where
  "pop_next_standby_relay_session standby failures participant now =
    (case hm_get standby participant of
       None \<Rightarrow> (None, standby)
     | Some sessions \<Rightarrow>
         (case take_first (standby_usable failures participant now) sessions of
            None \<Rightarrow> (None, standby)
          | Some (session, rest) \<Rightarrow>
              (Some (session\<lparr>as_granted_at := now, as_verified_at := None\<rparr>),
               if rest = [] then hm_remove participant standby else hm_insert participant rest standby)))"

section \<open>Providers\<close>

definition provider_entry :: "provider_book \<Rightarrow> string \<Rightarrow> relay_provider_verification" where
  "provider_entry providers relay_pubkey =
    (case hm_get providers relay_pubkey of None \<Rightarrow> relay_provider_default | Some v \<Rightarrow> v)"

definition cooling :: "relay_provider_verification \<Rightarrow> u64 \<Rightarrow> bool" where
  "cooling v now = (case rp_failure_cooldown_until v of None \<Rightarrow> False | Some cooldown_until \<Rightarrow> now < cooldown_until)"

definition relay_provider_in_failure_cooldown :: "provider_book \<Rightarrow> string \<Rightarrow> u64 \<Rightarrow> bool" where
  "relay_provider_in_failure_cooldown providers relay_pubkey now =
    (case hm_get providers relay_pubkey of None \<Rightarrow> False | Some v \<Rightarrow> cooling v now)"

definition note_verified_relay_provider :: "provider_book \<Rightarrow> string \<Rightarrow> u64 \<Rightarrow> provider_book" where
  "note_verified_relay_provider providers relay_pubkey now =
    hm_insert relay_pubkey ((provider_entry providers relay_pubkey)
      \<lparr>rp_verified_at := Some now, rp_failure_cooldown_until := None, rp_last_failure_at := None,
       rp_last_probe_attempt_at := Some now, rp_consecutive_failures := 0\<rparr>) providers"

definition note_relay_provider_probe_attempt :: "provider_book \<Rightarrow> string \<Rightarrow> u64 \<Rightarrow> provider_book" where
  "note_relay_provider_probe_attempt providers relay_pubkey now =
    hm_insert relay_pubkey ((provider_entry providers relay_pubkey)
      \<lparr>rp_last_probe_attempt_at := Some now\<rparr>) providers"

text \<open>How long a provider rests after a failure: the base time doubles four times at most.\<close>

definition failure_cooldown :: "u32 \<Rightarrow> u64 option \<Rightarrow> u64" where
  "failure_cooldown consecutive_failures retry_after_secs =
    (let base = max (case retry_after_secs of None \<Rightarrow> RELAY_FAILED_RETRY_AFTER_SECS | Some secs \<Rightarrow> secs) 1;
         multiplier_shift = min (saturating_sub consecutive_failures 1) 4;
         multiplier = push_bit (unat multiplier_shift) 1
     in min (saturating_mul base multiplier) RELAY_PROVIDER_FAILURE_MAX_COOLDOWN_SECS)"

definition note_failed_relay_provider ::
  "provider_book \<Rightarrow> string \<Rightarrow> u64 \<Rightarrow> u64 option \<Rightarrow> provider_book" where
  "note_failed_relay_provider providers relay_pubkey now retry_after_secs =
    (let v = provider_entry providers relay_pubkey;
         failures = saturating_add (rp_consecutive_failures v) 1
     in hm_insert relay_pubkey (v
      \<lparr>rp_last_failure_at := Some now, rp_last_probe_attempt_at := Some now,
       rp_consecutive_failures := failures,
       rp_failure_cooldown_until := Some (now + failure_cooldown failures retry_after_secs)\<rparr>) providers)"

definition relay_provider_probe_due :: "provider_book \<Rightarrow> string \<Rightarrow> u64 \<Rightarrow> bool" where
  "relay_provider_probe_due providers relay_pubkey now =
    (case hm_get providers relay_pubkey of
       None \<Rightarrow> True
     | Some v \<Rightarrow>
         if rp_verified_at v \<noteq> None then False
         else if cooling v now then False
         else (case rp_last_probe_attempt_at v of
             None \<Rightarrow> True
           | Some last_probe_at \<Rightarrow>
               RELAY_PROVIDER_PROBE_RETRY_AFTER_SECS \<le> saturating_sub now last_probe_at))"

definition thaw :: "u64 \<Rightarrow> relay_provider_verification \<Rightarrow> relay_provider_verification" where
  "thaw now v =
    (case rp_failure_cooldown_until v of
       None \<Rightarrow> v
     | Some cooldown_until \<Rightarrow> if cooldown_until \<le> now then v\<lparr>rp_failure_cooldown_until := None\<rparr> else v)"

definition prune_relay_provider_verifications :: "provider_book \<Rightarrow> u64 \<Rightarrow> bool \<times> provider_book" where
  "prune_relay_provider_verifications providers now =
    (let kept = hm_retain (\<lambda>_ v. rp_verified_at v \<noteq> None \<or> rp_failure_cooldown_until v \<noteq> None
             \<or> rp_last_failure_at v \<noteq> None \<or> rp_last_probe_attempt_at v \<noteq> None)
           (hm_map_values (\<lambda>_. thaw now) providers)
     in (length kept \<noteq> length providers, kept))"

text \<open>\<open>std::cmp::Reverse\<close>: the order turned round.\<close>

datatype reversed = Reverse (reversed_value: u64)

instantiation reversed :: linorder
begin

definition less_eq_reversed :: "reversed \<Rightarrow> reversed \<Rightarrow> bool" where
  "less_eq_reversed a b \<longleftrightarrow> reversed_value b \<le> reversed_value a"

definition less_reversed :: "reversed \<Rightarrow> reversed \<Rightarrow> bool" where
  "less_reversed a b \<longleftrightarrow> reversed_value b < reversed_value a"

instance
  by standard (auto simp: less_eq_reversed_def less_reversed_def reversed.expand)

end

definition relay_provider_sort_key :: "provider_book \<Rightarrow> string \<Rightarrow> u64 \<Rightarrow> u8 \<times> reversed \<times> u64" where
  "relay_provider_sort_key providers relay_pubkey now =
    (case hm_get providers relay_pubkey of
       None \<Rightarrow> (1, Reverse 0, 0)
     | Some v \<Rightarrow>
         if cooling v now then (2, Reverse 0, unwrap_or_zero (rp_last_failure_at v))
         else (case rp_verified_at v of
             Some verified_at \<Rightarrow> (0, Reverse verified_at, unwrap_or_zero (rp_last_failure_at v))
           | None \<Rightarrow> (1, Reverse 0, unwrap_or_zero (rp_last_failure_at v))))"

section \<open>Reconciliation\<close>

record relay_fallback =
  rf_sessions :: relay_sessions
  rf_standby :: standby_sessions
  rf_failures :: failure_cooldowns
  rf_providers :: provider_book
  rf_pending :: pending_requests

definition relay_fallback_new :: relay_fallback where
  "relay_fallback_new = \<lparr>rf_sessions = [], rf_standby = [], rf_failures = [], rf_providers = [], rf_pending = []\<rparr>"

definition runtime_peer_verifies_relay_session ::
  "(string \<Rightarrow> string option) \<Rightarrow> string \<Rightarrow> peer_presence_book \<Rightarrow> runtime_peers option
    \<Rightarrow> active_relay_session \<Rightarrow> u64 \<Rightarrow> u64 option" where
  "runtime_peer_verifies_relay_session b64 participant presence runtime_peers session now =
    (case announcement_for presence participant of
       None \<Rightarrow> None
     | Some announcement \<Rightarrow>
         (case peer_runtime_lookup b64 announcement runtime_peers of
            None \<Rightarrow> None
          | Some runtime_peer \<Rightarrow>
              if wp_endpoint runtime_peer \<noteq> Some (as_local_ingress_endpoint session) then None
              else (case last_handshake_at now runtime_peer of
                  None \<Rightarrow> None
                | Some handshake_at \<Rightarrow>
                    if as_granted_at session \<le> handshake_at then Some handshake_at else None)))"

definition forget_requests :: "string \<Rightarrow> pending_requests \<Rightarrow> pending_requests" where
  "forget_requests participant = hm_retain (\<lambda>_ request. pq_participant request \<noteq> participant)"

text \<open>The session of a participant ends: \<open>pending\<close> says what becomes of the requests when none stands by.\<close>

definition end_session ::
  "(relay_fallback \<Rightarrow> relay_fallback) \<Rightarrow> string \<Rightarrow> u64 \<Rightarrow> relay_fallback \<Rightarrow> relay_fallback" where
  "end_session when_none participant now s =
    (let s = s\<lparr>rf_sessions := hm_remove participant (rf_sessions s)\<rparr>
     in (case pop_next_standby_relay_session (rf_standby s) (rf_failures s) participant now of
           (Some session, standby) \<Rightarrow>
             s\<lparr>rf_standby := standby, rf_sessions := hm_insert participant session (rf_sessions s)\<rparr>
         | (None, standby) \<Rightarrow> when_none (s\<lparr>rf_standby := standby\<rparr>)))"

definition session_expired :: "string \<Rightarrow> u64 \<Rightarrow> relay_fallback \<Rightarrow> relay_fallback" where
  "session_expired participant now s =
    end_session (\<lambda>s. s\<lparr>rf_pending := forget_requests participant (rf_pending s)\<rparr>) participant now s"

definition session_unverified :: "string \<Rightarrow> active_relay_session \<Rightarrow> u64 \<Rightarrow> relay_fallback \<Rightarrow> relay_fallback" where
  "session_unverified participant session now s =
    end_session id participant now
      (s\<lparr>rf_failures := note_failed_relay (rf_failures s) participant (as_relay_pubkey session) now,
         rf_providers := note_failed_relay_provider (rf_providers s) (as_relay_pubkey session) now None,
         rf_pending := forget_requests participant (rf_pending s)\<rparr>)"

definition session_verified ::
  "string \<Rightarrow> active_relay_session \<Rightarrow> u64 \<Rightarrow> relay_fallback \<Rightarrow> relay_fallback" where
  "session_verified participant session verified_at s =
    s\<lparr>rf_providers := note_verified_relay_provider (rf_providers s) (as_relay_pubkey session) verified_at,
      rf_sessions :=
        (if as_verified_at session = None
         then hm_insert participant (session\<lparr>as_verified_at := Some verified_at\<rparr>) (rf_sessions s)
         else rf_sessions s)\<rparr>"

text \<open>One participant of the loop: \<open>verifies\<close> is the runtime's verification of a session.\<close>

definition reconcile_participant ::
  "(string \<Rightarrow> active_relay_session \<Rightarrow> u64 option) \<Rightarrow> u64 \<Rightarrow> string
    \<Rightarrow> relay_fallback \<times> string list \<Rightarrow> relay_fallback \<times> string list" where
  "reconcile_participant verifies now participant acc =
    (case acc of (s, changed) \<Rightarrow>
      (case hm_get (rf_sessions s) participant of
         None \<Rightarrow> (s, changed)
       | Some session \<Rightarrow>
           if \<not> relay_session_is_active session now
           then (session_expired participant now s, changed @ [participant])
           else (case verifies participant session of
               Some verified_at \<Rightarrow> (session_verified participant session verified_at s, changed)
             | None \<Rightarrow>
                 if \<not> relay_session_verification_timed_out session now then (s, changed)
                 else (session_unverified participant session now s, changed @ [participant]))))"

definition reconcile_active_relay_sessions ::
  "(string \<Rightarrow> string option) \<Rightarrow> peer_presence_book \<Rightarrow> runtime_peers option \<Rightarrow> u64
    \<Rightarrow> relay_fallback \<Rightarrow> string list \<times> relay_fallback" where
  "reconcile_active_relay_sessions b64 presence runtime_peers now s =
    (case fold (reconcile_participant
             (\<lambda>participant session.
               runtime_peer_verifies_relay_session b64 participant presence runtime_peers session now) now)
           (map fst (rf_sessions s)) (s, []) of
       (s, changed) \<Rightarrow> (sort_dedup changed, s))"

section \<open>What the tunnel is told of relayed peers\<close>

definition effective_peer_announcement_for_runtime ::
  "peer_announcement \<Rightarrow> active_relay_session option \<Rightarrow> u64 \<Rightarrow> peer_announcement" where
  "effective_peer_announcement_for_runtime announcement relay_session now =
    (let a = without_expired_relay announcement now
     in (case relay_session of
           None \<Rightarrow> a
         | Some session \<Rightarrow>
             if relay_session_is_active session now
             then with_relay a (Some (as_local_ingress_endpoint session)) (Some (as_relay_pubkey session))
               (Some (as_expires_at session))
             else a))"

definition effective_peer_announcements_for_runtime ::
  "announcements \<Rightarrow> relay_sessions \<Rightarrow> u64 \<Rightarrow> announcements" where
  "effective_peer_announcements_for_runtime peer_announcements sessions now =
    hm_map_values (\<lambda>participant a. effective_peer_announcement_for_runtime a (hm_get sessions participant) now)
      peer_announcements"

section \<open>Requests\<close>

definition participant_has_pending_relay_request :: "pending_requests \<Rightarrow> string \<Rightarrow> u64 \<Rightarrow> bool" where
  "participant_has_pending_relay_request pending participant now =
    list_ex (\<lambda>(_, request). pq_participant request = participant
        \<and> saturating_sub now (pq_requested_at request) < RELAY_REQUEST_RETRY_AFTER_SECS) pending"

text \<open>Whether a participant should be reached through a relay.\<close>

definition needs_relay ::
  "(string \<Rightarrow> string option) \<Rightarrow> string option \<Rightarrow> peer_presence_book \<Rightarrow> runtime_peers option \<Rightarrow> u64
    \<Rightarrow> relay_fallback \<Rightarrow> string \<Rightarrow> bool" where
  "needs_relay b64 own_pubkey presence runtime_peers now s participant =
    (Some participant \<noteq> own_pubkey
     \<and> (case announcement_for presence participant of
          None \<Rightarrow> False
        | Some announcement \<Rightarrow>
            (case hm_get (rf_sessions s) participant of
               None \<Rightarrow> True | Some session \<Rightarrow> \<not> relay_session_is_active session now)
            \<and> \<not> participant_has_pending_relay_request (rf_pending s) participant now
            \<and> \<not> has_recent_runtime_peer b64 now runtime_peers announcement))"

definition participants_needing_relay ::
  "(string \<Rightarrow> string option) \<Rightarrow> app_config \<Rightarrow> string option \<Rightarrow> peer_presence_book \<Rightarrow> runtime_peers option
    \<Rightarrow> u64 \<Rightarrow> relay_fallback \<Rightarrow> string list" where
  "participants_needing_relay b64 app own_pubkey presence runtime_peers now s =
    filter (needs_relay b64 own_pubkey presence runtime_peers now s) (participant_pubkeys_hex app)"

section \<open>Probing a provider\<close>

datatype probe_outcome = ProbeVerified | ProbeRejected "u64 option" | ProbeFailed

text \<open>
  What the two sockets of a probe do: binding and the three sends succeed or fail, and each side
  receives a datagram with its source, or nothing in time.
\<close>

record probe_net =
  bn_bind :: bool
  bn_send :: "nat \<Rightarrow> bool"
  bn_requester_receives :: "(string \<times> socket_addr) option"
  bn_target_receives :: "(string \<times> socket_addr) option"

definition probe_nonce :: "string \<Rightarrow> socket_addr \<Rightarrow> socket_addr \<Rightarrow> string" where
  "probe_nonce direction to via = ''nvpn-relay-probe-'' @ direction @ '':'' @ print_socket_addr to @ '':'' @ print_socket_addr via"

text \<open>The receive buffer holds 512 bytes; the rest of a datagram is lost.\<close>

definition received_as :: "(string \<times> socket_addr) option \<Rightarrow> string \<Rightarrow> socket_addr \<Rightarrow> bool" where
  "received_as datagram nonce ingress =
    (case datagram of None \<Rightarrow> False | Some (bytes, src) \<Rightarrow> src = ingress \<and> take 512 bytes = nonce)"

definition probe_relay_provider_datapath :: "probe_net \<Rightarrow> string \<Rightarrow> string \<Rightarrow> bool" where
  "probe_relay_provider_datapath net requester_ingress_endpoint target_ingress_endpoint =
    (case (parse_socket_addr requester_ingress_endpoint, parse_socket_addr target_ingress_endpoint) of
       (Some requester_ingress, Some target_ingress) \<Rightarrow>
         bn_bind net \<and> bn_send net 0 \<and> bn_send net 1
         \<and> received_as (bn_requester_receives net) (probe_nonce ''b-to-a'' requester_ingress target_ingress) requester_ingress
         \<and> bn_send net 2
         \<and> received_as (bn_target_receives net) (probe_nonce ''a-to-b'' target_ingress requester_ingress) target_ingress
     | _ \<Rightarrow> False)"

text \<open>The messages that arrive before the deadline, in order; when they end the probe has failed.\<close>

fun await_probe :: "probe_net \<Rightarrow> string \<Rightarrow> string \<Rightarrow> service_envelope list \<Rightarrow> probe_outcome" where
  "await_probe net request_id relay_pubkey [] = ProbeFailed"
| "await_probe net request_id relay_pubkey (message # messages) =
    (case sx_payload message of
       RelayProbeGranted granted \<Rightarrow>
         if bg_request_id granted = request_id \<and> bg_relay_pubkey granted = relay_pubkey
         then (if probe_relay_provider_datapath net (bg_requester_ingress_endpoint granted)
                 (bg_target_ingress_endpoint granted) then ProbeVerified else ProbeFailed)
         else await_probe net request_id relay_pubkey messages
     | RelayProbeRejected rejected \<Rightarrow>
         if br_request_id rejected = request_id \<and> br_relay_pubkey rejected = relay_pubkey
         then ProbeRejected (br_retry_after_secs rejected)
         else await_probe net request_id relay_pubkey messages
     | _ \<Rightarrow> await_probe net request_id relay_pubkey messages)"

text \<open>
  What happens to the probe of one relay: whether its client connects, whether the request is
  published, the messages received in time and the sockets. \<open>None\<close> is the error result.
\<close>

record probe_env =
  be_connects :: bool
  be_publishes :: "service_payload \<Rightarrow> string \<Rightarrow> bool"
  be_messages :: "service_envelope list"
  be_net :: probe_net

definition probe_relay_provider :: "probe_env \<Rightarrow> string \<Rightarrow> u64 \<Rightarrow> probe_outcome option" where
  "probe_relay_provider env relay_pubkey now =
    (let request_id = ''probe:'' @ relay_pubkey @ '':'' @ dec (unat now);
         request = \<lparr>bq_request_id = request_id, bq_requested_at = now\<rparr>
     in if \<not> be_connects env then None
        else if \<not> be_publishes env (RelayProbeRequest request) relay_pubkey then None
        else Some (await_probe (be_net env) request_id relay_pubkey (be_messages env)))"

definition note_probe :: "probe_outcome option \<Rightarrow> string \<Rightarrow> u64 \<Rightarrow> provider_book \<Rightarrow> provider_book" where
  "note_probe outcome relay_pubkey now providers =
    (let providers = note_relay_provider_probe_attempt providers relay_pubkey now
     in (case outcome of
           Some ProbeVerified \<Rightarrow> note_verified_relay_provider providers relay_pubkey now
         | Some (ProbeRejected retry_after_secs) \<Rightarrow>
             note_failed_relay_provider providers relay_pubkey now retry_after_secs
         | Some ProbeFailed \<Rightarrow>
             note_failed_relay_provider providers relay_pubkey now (Some RELAY_PROVIDER_PROBE_RETRY_AFTER_SECS)
         | None \<Rightarrow>
             note_failed_relay_provider providers relay_pubkey now (Some RELAY_PROVIDER_PROBE_RETRY_AFTER_SECS)))"

definition proactively_probe_relay_providers ::
  "(string \<Rightarrow> probe_env) \<Rightarrow> string list \<Rightarrow> u64 \<Rightarrow> provider_book \<Rightarrow> nat \<times> provider_book" where
  "proactively_probe_relay_providers env relay_pubkeys now providers =
    (let candidates = take MAX_PARALLEL_RELAY_PROVIDER_PROBES
           (filter (\<lambda>relay_pubkey. relay_provider_probe_due providers relay_pubkey now) relay_pubkeys)
     in fold (\<lambda>relay_pubkey (probed, providers).
            (probed + 1, note_probe (probe_relay_provider (env relay_pubkey) relay_pubkey now) relay_pubkey now providers))
          candidates (0, providers))"

section \<open>Asking for sessions\<close>

definition discover_relay_operator_pubkeys ::
  "(string, node_record) hmap option \<Rightarrow> provider_book \<Rightarrow> u64 \<Rightarrow> string list option" where
  "discover_relay_operator_pubkeys discovered providers now =
    map_option (\<lambda>records. remdups_adj (sort_key (\<lambda>pubkey. relay_provider_sort_key providers pubkey now)
        (filter (\<lambda>pubkey. \<not> relay_provider_in_failure_cooldown providers pubkey now)
          (map fst (filter (\<lambda>(_, record). has_service record KindRelay) records))))) discovered"

definition relay_candidates_for_participant ::
  "string list \<Rightarrow> string \<Rightarrow> string option \<Rightarrow> failure_cooldowns \<Rightarrow> provider_book \<Rightarrow> u64 \<Rightarrow> string list" where
  "relay_candidates_for_participant relay_pubkeys participant own_pubkey failures providers now =
    take MAX_PARALLEL_RELAY_REQUESTS_PER_PARTICIPANT
      (sort_key (\<lambda>candidate. relay_provider_sort_key providers candidate now)
        (filter (\<lambda>candidate. \<not> relay_provider_in_failure_cooldown providers candidate now)
          (filter (\<lambda>candidate. \<not> relay_is_in_failure_cooldown failures participant candidate now)
            (filter (\<lambda>candidate. candidate \<noteq> participant \<and> Some candidate \<noteq> own_pubkey) relay_pubkeys))))"

definition allocation_request_id :: "string \<Rightarrow> string \<Rightarrow> string \<Rightarrow> u64 \<Rightarrow> string" where
  "allocation_request_id network_id participant relay_pubkey now =
    network_id @ '':'' @ participant @ '':'' @ relay_pubkey @ '':'' @ dec (unat now)"

text \<open>The requests for the pairs of participant and relay in order, up to the first that is not published.\<close>

fun request_allocations ::
  "(service_payload \<Rightarrow> string \<Rightarrow> bool) \<Rightarrow> string \<Rightarrow> u64 \<Rightarrow> (string \<times> string) list \<Rightarrow> nat \<Rightarrow> pending_requests
    \<Rightarrow> nat option \<times> pending_requests" where
  "request_allocations publishes network_id now [] requested pending = (Some requested, pending)"
| "request_allocations publishes network_id now ((participant, relay_pubkey) # pairs) requested pending =
    (let request_id = allocation_request_id network_id participant relay_pubkey now;
         request = \<lparr>rq_request_id = request_id, rq_network_id = network_id,
           rq_target_pubkey = participant, rq_requested_at = now\<rparr>
     in if \<not> publishes (RelayAllocationRequest request) relay_pubkey then (None, pending)
        else request_allocations publishes network_id now pairs (requested + 1)
          (hm_insert request_id \<lparr>pq_participant = participant, pq_relay_pubkey = relay_pubkey,
             pq_requested_at = now\<rparr> pending))"

record fallback_env =
  fe_b64 :: "string \<Rightarrow> string option"
  fe_app :: app_config
  fe_own_pubkey :: "string option"
  fe_presence :: peer_presence_book
  fe_runtime_peers :: "runtime_peers option"
  fe_discovered :: "(string, node_record) hmap option"
  fe_probe :: "string \<Rightarrow> probe_env"
  fe_publishes :: "service_payload \<Rightarrow> string \<Rightarrow> bool"

text \<open>\<open>None\<close> is the error result: discovery failed or a request was not published.\<close>

definition maybe_request_public_relay_fallback ::
  "fallback_env \<Rightarrow> u64 \<Rightarrow> relay_fallback \<Rightarrow> nat option \<times> relay_fallback" where
  "maybe_request_public_relay_fallback E now s =
    (let participants = participants_needing_relay (fe_b64 E) (fe_app E) (fe_own_pubkey E) (fe_presence E)
           (fe_runtime_peers E) now s
     in if participants = [] then (Some 0, s)
        else (case discover_relay_operator_pubkeys (fe_discovered E) (rf_providers s) now of
            None \<Rightarrow> (None, s)
          | Some found \<Rightarrow>
              if found = [] then (Some 0, s)
              else (let s = s\<lparr>rf_providers :=
                          snd (proactively_probe_relay_providers (fe_probe E) found now (rf_providers s))\<rparr>;
                        relay_pubkeys = remdups_adj (sort_key (\<lambda>pubkey. relay_provider_sort_key (rf_providers s) pubkey now)
                          (filter (\<lambda>pubkey. \<not> relay_provider_in_failure_cooldown (rf_providers s) pubkey now) found))
                    in if relay_pubkeys = [] then (Some 0, s)
                       else (case request_allocations (fe_publishes E) (effective_network_id (fe_app E)) now
                           (concat (map (\<lambda>participant. map (Pair participant)
                              (relay_candidates_for_participant relay_pubkeys participant (fe_own_pubkey E)
                                (rf_failures s) (rf_providers s) now)) participants)) 0 (rf_pending s) of
                           (requested, pending) \<Rightarrow> (requested, s\<lparr>rf_pending := pending\<rparr>)))))"

section \<open>Answers\<close>

datatype relay_grant_action = Activated string | QueuedStandby string | Ignored

definition accept_relay_allocation_grant ::
  "relay_allocation_granted \<Rightarrow> u64 \<Rightarrow> relay_fallback \<Rightarrow> relay_grant_action \<times> relay_fallback" where
  "accept_relay_allocation_grant granted now s0 =
    (if rg_expires_at granted \<le> now then (Ignored, s0)
     else (case hm_get (rf_pending s0) (rg_request_id granted) of
         None \<Rightarrow> (Ignored, s0)
       | Some pending \<Rightarrow>
           (let s = s0\<lparr>rf_pending := hm_remove (rg_request_id granted) (rf_pending s0)\<rparr>;
                participant = pq_participant pending;
                session = active_relay_session_from_grant granted now
            in if pq_relay_pubkey pending \<noteq> rg_relay_pubkey granted then (Ignored, s)
               else if relay_is_in_failure_cooldown (rf_failures s) participant (pq_relay_pubkey pending) now
               then (Ignored, s)
               else if (case hm_get (rf_sessions s) participant of
                   None \<Rightarrow> False | Some existing \<Rightarrow> relay_session_is_active existing now)
               then (case queue_standby_relay_session (rf_standby s) participant session of
                   (queued, standby) \<Rightarrow>
                     (if queued then QueuedStandby participant else Ignored, s\<lparr>rf_standby := standby\<rparr>))
               else (Activated participant,
                     s\<lparr>rf_sessions := hm_insert participant session (rf_sessions s)\<rparr>))))"

definition accept_relay_allocation_rejection ::
  "relay_allocation_rejected \<Rightarrow> u64 \<Rightarrow> relay_fallback \<Rightarrow> string option \<times> relay_fallback" where
  "accept_relay_allocation_rejection rejected now s0 =
    (case hm_get (rf_pending s0) (rr_request_id rejected) of
       None \<Rightarrow> (None, s0)
     | Some pending \<Rightarrow>
         (let s = s0\<lparr>rf_pending := hm_remove (rr_request_id rejected) (rf_pending s0)\<rparr>
          in if pq_relay_pubkey pending \<noteq> rr_relay_pubkey rejected then (None, s)
             else (Some (pq_participant pending),
               s\<lparr>rf_failures := note_failed_relay (rf_failures s) (pq_participant pending) (pq_relay_pubkey pending) now,
                 rf_providers := note_failed_relay_provider (rf_providers s) (pq_relay_pubkey pending) now
                   (rr_retry_after_secs rejected)\<rparr>)))"

text \<open>A peer that says hello is announced to again, whatever was sent before.\<close>

definition maybe_reset_targeted_announce_cache_for_hello ::
  "outbound_announce_book \<Rightarrow> string \<Rightarrow> signal_payload \<Rightarrow> outbound_announce_book" where
  "maybe_reset_targeted_announce_cache_for_hello book sender_pubkey payload =
    (if payload = Hello then announce_forget sender_pubkey book else book)"

text \<open>
  One message of the relay service, as the daemon's loop takes it: the participant to whom the tunnel
  and a new announcement are due, if any. The sender of the message is not looked at.
\<close>

definition handle_service_message ::
  "service_envelope \<Rightarrow> u64 \<Rightarrow> relay_fallback \<times> outbound_announce_book
    \<Rightarrow> string option \<times> relay_fallback \<times> outbound_announce_book" where
  "handle_service_message message now state =
    (case state of (s, outbound) \<Rightarrow>
      (case sx_payload message of
         RelayAllocationGranted granted \<Rightarrow>
           (case accept_relay_allocation_grant granted now s of
              (Activated participant, s) \<Rightarrow> (Some participant, s, announce_forget participant outbound)
            | (_, s) \<Rightarrow> (None, s, outbound))
       | RelayAllocationRejected rejected \<Rightarrow>
           (case accept_relay_allocation_rejection rejected now s of
              (Some participant, s) \<Rightarrow> (None, s, announce_forget participant outbound)
            | (None, s) \<Rightarrow> (None, s, outbound))
       | _ \<Rightarrow> (None, s, outbound)))"

text \<open>The housekeeping of every announcement interval: sessions, standing by, cool-downs, providers, requests.\<close>

definition fallback_prune :: "u64 \<Rightarrow> relay_fallback \<Rightarrow> bool \<times> relay_fallback" where
  "fallback_prune now s =
    (let (c1, sessions) = prune_active_relay_sessions (rf_sessions s) now;
         (c2, standby) = prune_standby_relay_sessions (rf_standby s) now;
         (c3, failures) = prune_relay_failure_cooldowns (rf_failures s) now;
         (c4, providers) = prune_relay_provider_verifications (rf_providers s) now
     in (c1 \<or> c2 \<or> c3 \<or> c4,
         s\<lparr>rf_sessions := sessions, rf_standby := standby, rf_failures := failures, rf_providers := providers,
           rf_pending := snd (prune_pending_relay_requests (rf_pending s) now)\<rparr>))"

end
