(* ===== verification/Relay_Fallback_Safety.thy ===== *)
theory Relay_Fallback_Safety
  imports Relay_Fallback
begin

text \<open>
  What the fall-back to relays guarantees: what reconciliation leaves of the sessions, who may
  carry a session, how long a failing provider rests, and which providers are never probed again.
\<close>

section \<open>Failures\<close>

lemma cooldown_after_failure:
  assumes "now < now + RELAY_FAILED_RETRY_AFTER_SECS"
  shows "relay_is_in_failure_cooldown (note_failed_relay failures p r now) p r now"
    and "relay_is_in_failure_cooldown failures q r' now
      \<Longrightarrow> relay_is_in_failure_cooldown (note_failed_relay failures p r now) q r' now"
  using assms by (auto simp: relay_is_in_failure_cooldown_def note_failed_relay_def hm_simps)

lemma take_first_Some: "take_first P xs = Some (y, ys) \<Longrightarrow> y \<in> set xs \<and> P y \<and> subseq ys xs"
  by (induction xs arbitrary: ys) (auto split: if_splits)

lemma take_first_None: "take_first P xs = None \<longleftrightarrow> (\<forall>x \<in> set xs. \<not> P x)"
  by (induction xs) (auto split: if_splits)

abbreviation standby_of :: "relay_fallback \<Rightarrow> string \<Rightarrow> active_relay_session list" where
  "standby_of s p \<equiv> (case hm_get (rf_standby s) p of None \<Rightarrow> [] | Some sessions \<Rightarrow> sessions)"

text \<open>What popping does for the participant, and that it leaves the others alone.\<close>

lemma pop_standby:
  assumes "pop_next_standby_relay_session standby failures p now = (popped, standby')"
  shows "q \<noteq> p \<Longrightarrow> hm_get standby' q = hm_get standby q"
    and "popped = Some z \<Longrightarrow> \<exists>sessions y. hm_get standby p = Some sessions \<and> y \<in> set sessions
      \<and> standby_usable failures p now y \<and> z = y\<lparr>as_granted_at := now, as_verified_at := None\<rparr>"
    and "popped = None \<Longrightarrow> standby' = standby \<and>
      (case hm_get standby p of None \<Rightarrow> True | Some sessions \<Rightarrow> \<forall>y \<in> set sessions. \<not> standby_usable failures p now y)"
  using assms
  by (auto simp: pop_next_standby_relay_session_def hm_simps take_first_None dest: take_first_Some
      split: option.splits)

section \<open>Reconciliation\<close>

definition ended :: "(string \<Rightarrow> active_relay_session \<Rightarrow> u64 option) \<Rightarrow> u64 \<Rightarrow> string \<Rightarrow> active_relay_session \<Rightarrow> bool" where
  "ended verifies now p x \<longleftrightarrow> \<not> relay_session_is_active x now
    \<or> verifies p x = None \<and> relay_session_verification_timed_out x now"

definition verified_by :: "active_relay_session \<Rightarrow> u64 option \<Rightarrow> active_relay_session" where
  "verified_by x t = (if as_verified_at x = None then x\<lparr>as_verified_at := t\<rparr> else x)"

text \<open>
  What may follow a session \<open>x\<close> that ended: a session that stood by, with its clock set to now, whose
  relay is not in cool-down for the participant and is not the one that just failed; nothing only if
  no session standing by is usable.
\<close>

definition replaced ::
  "u64 \<Rightarrow> string \<Rightarrow> active_relay_session \<Rightarrow> relay_fallback \<Rightarrow> relay_fallback \<Rightarrow> bool" where
  "replaced now p x s s' \<longleftrightarrow>
    (case hm_get (rf_sessions s') p of
       None \<Rightarrow> \<forall>y \<in> set (standby_of s p). \<not> standby_usable (rf_failures s') p now y
     | Some z \<Rightarrow> \<exists>y \<in> set (standby_of s p). z = y\<lparr>as_granted_at := now, as_verified_at := None\<rparr>
         \<and> standby_usable (rf_failures s) p now y
         \<and> (relay_session_is_active x now \<longrightarrow> as_relay_pubkey y \<noteq> as_relay_pubkey x))
    \<and> (relay_session_is_active x now \<longrightarrow> relay_is_in_failure_cooldown (rf_failures s') p (as_relay_pubkey x) now)"

definition settled ::
  "(string \<Rightarrow> active_relay_session \<Rightarrow> u64 option) \<Rightarrow> u64 \<Rightarrow> string \<Rightarrow> relay_fallback \<Rightarrow> relay_fallback \<Rightarrow> bool" where
  "settled verifies now p s s' \<longleftrightarrow>
    (case hm_get (rf_sessions s) p of
       None \<Rightarrow> hm_get (rf_sessions s') p = None
     | Some x \<Rightarrow>
         if ended verifies now p x then replaced now p x s s'
         else hm_get (rf_sessions s') p = Some (verified_by x (verifies p x)))"

definition cools_more :: "u64 \<Rightarrow> relay_fallback \<Rightarrow> relay_fallback \<Rightarrow> bool" where
  "cools_more now s s' \<longleftrightarrow> (\<forall>q r. relay_is_in_failure_cooldown (rf_failures s) q r now
      \<longrightarrow> relay_is_in_failure_cooldown (rf_failures s') q r now)"

lemma cools_more_usable:
  "cools_more now s s' \<Longrightarrow> standby_usable (rf_failures s') p now y \<Longrightarrow> standby_usable (rf_failures s) p now y"
  by (auto simp: cools_more_def standby_usable_def)

lemma end_session_facts:
  assumes keeps: "\<And>s. rf_sessions (f s) = rf_sessions s \<and> rf_standby (f s) = rf_standby s \<and> rf_failures (f s) = rf_failures s"
  shows "rf_failures (end_session f p now s) = rf_failures s"
    and "q \<noteq> p \<Longrightarrow> hm_get (rf_sessions (end_session f p now s)) q = hm_get (rf_sessions s) q"
    and "q \<noteq> p \<Longrightarrow> hm_get (rf_standby (end_session f p now s)) q = hm_get (rf_standby s) q"
    and "case hm_get (rf_sessions (end_session f p now s)) p of
       None \<Rightarrow> \<forall>y \<in> set (standby_of s p). \<not> standby_usable (rf_failures s) p now y
     | Some z \<Rightarrow> \<exists>y \<in> set (standby_of s p). z = y\<lparr>as_granted_at := now, as_verified_at := None\<rparr>
         \<and> standby_usable (rf_failures s) p now y"
proof -
  obtain popped standby' where pop:
    "pop_next_standby_relay_session (rf_standby s) (rf_failures s) p now = (popped, standby')"
    by (metis prod.exhaust)
  note pops = pop_standby [OF pop]
  show "rf_failures (end_session f p now s) = rf_failures s"
    using keeps by (simp add: end_session_def Let_def pop split: option.splits)
  show "q \<noteq> p \<Longrightarrow> hm_get (rf_sessions (end_session f p now s)) q = hm_get (rf_sessions s) q"
    using keeps by (simp add: end_session_def Let_def pop hm_simps split: option.splits)
  show "q \<noteq> p \<Longrightarrow> hm_get (rf_standby (end_session f p now s)) q = hm_get (rf_standby s) q"
    using keeps pops(1) by (simp add: end_session_def Let_def pop split: option.splits)
  show "case hm_get (rf_sessions (end_session f p now s)) p of
       None \<Rightarrow> \<forall>y \<in> set (standby_of s p). \<not> standby_usable (rf_failures s) p now y
     | Some z \<Rightarrow> \<exists>y \<in> set (standby_of s p). z = y\<lparr>as_granted_at := now, as_verified_at := None\<rparr>
         \<and> standby_usable (rf_failures s) p now y"
  proof (cases popped)
    case None
    then show ?thesis using keeps pops(3)
      by (auto simp: end_session_def Let_def pop hm_simps split: option.splits)
  next
    case (Some z)
    then show ?thesis using pops(2) [OF Some]
      by (auto simp: end_session_def Let_def pop hm_simps)
  qed
qed

abbreviation reconcile_state where
  "reconcile_state verifies now p s \<equiv> fst (reconcile_participant verifies now p (s, []))"

lemma reconcile_participant_split:
  "reconcile_participant verifies now p (s, changed) =
    (reconcile_state verifies now p s,
     changed @ (case hm_get (rf_sessions s) p of
       None \<Rightarrow> [] | Some x \<Rightarrow> if ended verifies now p x then [p] else []))"
  by (auto simp: reconcile_participant_def ended_def split: option.splits)

lemma forget_keeps:
  "rf_sessions (s\<lparr>rf_pending := v\<rparr>) = rf_sessions s \<and> rf_standby (s\<lparr>rf_pending := v\<rparr>) = rf_standby s
    \<and> rf_failures (s\<lparr>rf_pending := v\<rparr>) = rf_failures s"
  by simp

lemmas end_plain = end_session_facts [where f = id, simplified]
lemmas end_forgetting = end_session_facts
  [where f = "\<lambda>s. s\<lparr>rf_pending := forget_requests q (rf_pending s)\<rparr>" for q, simplified]

lemma reconcile_other:
  assumes "q \<noteq> p"
  shows "hm_get (rf_sessions (reconcile_state verifies now p s)) q = hm_get (rf_sessions s) q"
    and "hm_get (rf_standby (reconcile_state verifies now p s)) q = hm_get (rf_standby s) q"
  using assms
  by (auto simp: reconcile_participant_def session_expired_def session_unverified_def session_verified_def
      end_plain end_forgetting hm_simps split: option.splits)

lemma reconcile_cools_more:
  assumes "now < now + RELAY_FAILED_RETRY_AFTER_SECS"
  shows "cools_more now s (reconcile_state verifies now p s)"
  using cooldown_after_failure(2) [OF assms]
  by (auto simp: cools_more_def reconcile_participant_def session_expired_def session_unverified_def
      session_verified_def end_plain(1) end_forgetting(1) split: option.splits)

lemma reconcile_settles:
  assumes time: "now < now + RELAY_FAILED_RETRY_AFTER_SECS"
  shows "settled verifies now p s (reconcile_state verifies now p s)"
proof (cases "hm_get (rf_sessions s) p")
  case None
  then show ?thesis by (simp add: settled_def reconcile_participant_def)
next
  case (Some x)
  consider (expired) "\<not> relay_session_is_active x now"
    | (verified) t where "relay_session_is_active x now" "verifies p x = Some t"
    | (waiting) "relay_session_is_active x now" "verifies p x = None" "\<not> relay_session_verification_timed_out x now"
    | (failed) "relay_session_is_active x now" "verifies p x = None" "relay_session_verification_timed_out x now"
    by blast
  then show ?thesis
  proof cases
    case expired
    with Some have "reconcile_state verifies now p s = session_expired p now s"
      by (simp add: reconcile_participant_def)
    with expired Some show ?thesis
      using end_session_facts(4) [where f = "\<lambda>s. s\<lparr>rf_pending := forget_requests p (rf_pending s)\<rparr>" and p = p
          and now = now and s = s, simplified]
      by (auto simp: settled_def ended_def replaced_def session_expired_def end_forgetting(1) split: option.splits)
  next
    case verified
    with Some show ?thesis
      by (auto simp: settled_def ended_def reconcile_participant_def session_verified_def verified_by_def hm_simps)
  next
    case waiting
    with Some show ?thesis
      by (cases x) (auto simp: settled_def ended_def reconcile_participant_def verified_by_def)
  next
    case failed
    let ?s = "s\<lparr>rf_failures := note_failed_relay (rf_failures s) p (as_relay_pubkey x) now,
       rf_providers := note_failed_relay_provider (rf_providers s) (as_relay_pubkey x) now None,
       rf_pending := forget_requests p (rf_pending s)\<rparr>"
    from failed Some have eq: "reconcile_state verifies now p s = end_session id p now ?s"
      by (simp add: reconcile_participant_def session_unverified_def)
    have cool: "relay_is_in_failure_cooldown (rf_failures ?s) p (as_relay_pubkey x) now"
      using cooldown_after_failure(1) [OF time] by simp
    have more: "cools_more now s ?s"
      using cooldown_after_failure(2) [OF time] by (simp add: cools_more_def)
    have usable: "standby_usable (rf_failures s) p now y \<and> as_relay_pubkey y \<noteq> as_relay_pubkey x"
      if "standby_usable (rf_failures ?s) p now y" for y
      using that cool cools_more_usable [OF more that] by (auto simp: standby_usable_def)
    have "ended verifies now p x" using failed by (simp add: ended_def)
    moreover have "replaced now p x s (end_session id p now ?s)"
      using end_plain(4) [where p = p and now = now and s = ?s] cool usable
      unfolding replaced_def end_plain(1) by (fastforce split: option.splits)
    ultimately show ?thesis using Some by (simp add: settled_def eq)
  qed
qed

text \<open>Later steps, of other participants, do not unsettle a participant.\<close>

lemma replaced_later:
  assumes "replaced now p x s s1" and more: "cools_more now s1 s2"
    and same: "hm_get (rf_sessions s2) p = hm_get (rf_sessions s1) p"
  shows "replaced now p x s s2"
proof (cases "hm_get (rf_sessions s1) p")
  case None
  with assms cools_more_usable [OF more] show ?thesis
    by (simp add: replaced_def) (metis cools_more_def)
next
  case (Some z)
  with assms show ?thesis by (simp add: replaced_def cools_more_def)
qed

lemma replaced_earlier:
  assumes "replaced now p x s1 s2" and more: "cools_more now s s1"
    and same: "hm_get (rf_standby s1) p = hm_get (rf_standby s) p"
  shows "replaced now p x s s2"
proof (cases "hm_get (rf_sessions s2) p")
  case None
  with assms show ?thesis by (simp add: replaced_def)
next
  case (Some z)
  with assms cools_more_usable [OF more] show ?thesis
    by (simp add: replaced_def) metis
qed

lemma settled_later:
  assumes "settled verifies now p s s1" "cools_more now s1 s2"
    and "hm_get (rf_sessions s2) p = hm_get (rf_sessions s1) p"
  shows "settled verifies now p s s2"
  using assms replaced_later [OF _ assms(2,3)]
  by (simp add: settled_def split: option.splits if_splits)

lemma settled_earlier:
  assumes "settled verifies now p s1 s2" "cools_more now s s1"
    and "hm_get (rf_sessions s1) p = hm_get (rf_sessions s) p" "hm_get (rf_standby s1) p = hm_get (rf_standby s) p"
  shows "settled verifies now p s s2"
  using assms replaced_earlier [OF _ assms(2,4)]
  by (simp add: settled_def split: option.splits if_splits)

lemma reconcile_fold:
  assumes time: "now < now + RELAY_FAILED_RETRY_AFTER_SECS" and "distinct ps"
    and "fold (reconcile_participant verifies now) ps (s, changed) = (s', changed')"
  shows "cools_more now s s'
    \<and> (\<forall>q. q \<notin> set ps \<longrightarrow> hm_get (rf_sessions s') q = hm_get (rf_sessions s) q
         \<and> hm_get (rf_standby s') q = hm_get (rf_standby s) q)
    \<and> (\<forall>p \<in> set ps. settled verifies now p s s')
    \<and> set changed' = set changed \<union> {p \<in> set ps. \<exists>x. hm_get (rf_sessions s) p = Some x \<and> ended verifies now p x}"
  using assms(2,3)
proof (induction ps arbitrary: s changed)
  case Nil
  then show ?case by (simp add: cools_more_def)
next
  case (Cons p ps)
  define s1 where "s1 = reconcile_state verifies now p s"
  define c1 where "c1 = changed @ (case hm_get (rf_sessions s) p of
       None \<Rightarrow> [] | Some x \<Rightarrow> if ended verifies now p x then [p] else [])"
  from Cons.prems have rest: "fold (reconcile_participant verifies now) ps (s1, c1) = (s', changed')"
    by (simp only: fold.simps comp_apply reconcile_participant_split [of verifies now p s changed] s1_def c1_def)
  have p: "p \<notin> set ps" "distinct ps" using Cons.prems by simp_all
  note IH = Cons.IH [OF p(2) rest]
  have other: "hm_get (rf_sessions s1) q = hm_get (rf_sessions s) q \<and> hm_get (rf_standby s1) q = hm_get (rf_standby s) q"
    if "q \<noteq> p" for q using reconcile_other [OF that] by (simp add: s1_def)
  have more: "cools_more now s s1" unfolding s1_def by (rule reconcile_cools_more [OF time])
  have "settled verifies now p s s'"
    using IH p by (intro settled_later [OF reconcile_settles [OF time, of verifies p s]]) (simp_all flip: s1_def)
  moreover have "settled verifies now q s s'" if "q \<in> set ps" for q
    using IH that p other [of q] by (intro settled_earlier [OF _ more]) auto
  moreover have "cools_more now s s'" using IH more by (simp add: cools_more_def)
  moreover have "set changed' = set changed \<union> {q \<in> set (p # ps). \<exists>x. hm_get (rf_sessions s) q = Some x \<and> ended verifies now q x}"
  proof -
    have "{q \<in> set ps. \<exists>x. hm_get (rf_sessions s1) q = Some x \<and> ended verifies now q x}
      = {q \<in> set ps. \<exists>x. hm_get (rf_sessions s) q = Some x \<and> ended verifies now q x}"
      using other p(1) by metis
    with IH show ?thesis by (auto simp: c1_def split: option.splits if_splits)
  qed
  ultimately show ?case using IH other by simp
qed

lemma reconcile_settled:
  assumes wf: "hm_wf (rf_sessions s)" and time: "now < now + RELAY_FAILED_RETRY_AFTER_SECS"
    and run: "reconcile_active_relay_sessions b64 presence runtime_peers now s = (changed, s')"
    and verifies: "verifies = (\<lambda>p x. runtime_peer_verifies_relay_session b64 p presence runtime_peers x now)"
  shows "settled verifies now p s s'"
    and "sorted_unique changed
      \<and> set changed = {p. \<exists>x. hm_get (rf_sessions s) p = Some x \<and> ended verifies now p x}"
proof -
  obtain c' where fold_eq: "fold (reconcile_participant verifies now) (map fst (rf_sessions s)) (s, []) = (s', c')"
    and changed: "changed = sort_dedup c'"
    using run by (auto simp: reconcile_active_relay_sessions_def verifies split: prod.splits)
  have dom: "p \<in> set (map fst (rf_sessions s)) \<longleftrightarrow> (\<exists>x. hm_get (rf_sessions s) p = Some x)" for p
    by (simp add: hm_contains_iff_in [symmetric] hm_contains_iff)
  note facts = reconcile_fold [OF time _ fold_eq, OF wf [unfolded hm_wf_def]]
  show "settled verifies now p s s'"
  proof (cases "hm_get (rf_sessions s) p")
    case None
    with facts dom [of p] show ?thesis by (simp add: settled_def)
  next
    case (Some x)
    with facts dom [of p] show ?thesis by blast
  qed
  show "sorted_unique changed
      \<and> set changed = {p. \<exists>x. hm_get (rf_sessions s) p = Some x \<and> ended verifies now p x}"
    using facts dom by (auto simp: changed)
qed

lemma settled_session_live:
  assumes "settled verifies now p s s'" and "hm_get (rf_sessions s') p = Some z"
  shows "relay_session_is_active z now \<and> \<not> relay_session_verification_timed_out z now"
proof (cases "hm_get (rf_sessions s) p")
  case None
  with assms show ?thesis by (simp add: settled_def)
next
  case (Some x)
  show ?thesis
  proof (cases "ended verifies now p x")
    case True
    with assms Some obtain y where "z = y\<lparr>as_granted_at := now, as_verified_at := None\<rparr>"
        "standby_usable (rf_failures s) p now y"
      by (auto simp: settled_def replaced_def)
    then show ?thesis
      by (simp add: standby_usable_def relay_session_is_active_def relay_session_verification_timed_out_def
          relay_session_is_verified_def RELAY_SESSION_VERIFY_TIMEOUT_SECS_def)
  next
    case False
    with assms Some have "z = verified_by x (verifies p x)" by (simp add: settled_def)
    with False show ?thesis
      by (auto simp: ended_def verified_by_def relay_session_is_active_def relay_session_verification_timed_out_def
          relay_session_is_verified_def)
  qed
qed

text \<open>
  C29. What the periodic reconciliation of relay sessions leaves. A session ends when it has expired or
  when it was not verified within eight seconds; it counts as verified only by a WireGuard handshake
  through its own ingress since it was granted. The participants returned are exactly those whose
  session ended, in order and once each. Every other session stays, marked verified if it now is. A
  session that ended is followed by one that stood by for this participant, with its clock set to now,
  that is active and whose relay neither failed before nor just now; by none only when no session
  standing by is usable. A relay whose session was not verified is in cool-down for the participant.
  Afterwards every session is active and verified or granted within eight seconds.
\<close>

theorem reconcile_leaves_live_sessions:
  assumes wf: "hm_wf (rf_sessions s)" and time: "now < now + RELAY_FAILED_RETRY_AFTER_SECS"
    and run: "reconcile_active_relay_sessions b64 presence runtime_peers now s = (changed, s')"
    and verifies: "verifies = (\<lambda>p x. runtime_peer_verifies_relay_session b64 p presence runtime_peers x now)"
  shows "(\<forall>p. settled verifies now p s s')
    \<and> sorted_unique changed
    \<and> set changed = {p. \<exists>x. hm_get (rf_sessions s) p = Some x \<and> ended verifies now p x}
    \<and> (\<forall>p z. hm_get (rf_sessions s') p = Some z \<longrightarrow>
        relay_session_is_active z now \<and> \<not> relay_session_verification_timed_out z now)"
  using reconcile_settled [OF assms] settled_session_live by blast

text \<open>
  An example: a session that was never verified gives way to the one standing by, and one that
  expired with nothing standing by is gone.
\<close>

definition sample_session :: "string \<Rightarrow> u64 \<Rightarrow> u64 \<Rightarrow> active_relay_session" where
  "sample_session relay granted_at expires_at = \<lparr>as_relay_pubkey = relay, as_local_ingress_endpoint = ''9.9.9.9:1'',
    as_advertised_ingress_endpoint = ''9.9.9.9:2'', as_granted_at = granted_at, as_verified_at = None,
    as_expires_at = expires_at\<rparr>"

definition sample_fallback :: relay_fallback where
  "sample_fallback = relay_fallback_new
    \<lparr>rf_sessions := [(''p'', sample_session ''r1'' 900 2000), (''q'', sample_session ''r1'' 900 1000)],
     rf_standby := [(''p'', [sample_session ''r1'' 900 1500, sample_session ''r2'' 900 1500])]\<rparr>"

lemma sample_reconciled:
  "reconcile_active_relay_sessions (\<lambda>_. None) presence_new None 1000 sample_fallback = ([''p'', ''q''],
    \<lparr>rf_sessions = [(''p'', sample_session ''r2'' 1000 1500)],
     rf_standby = [(''p'', [sample_session ''r1'' 900 1500])],
     rf_failures = [(''p:r1'', 1060)],
     rf_providers = [(''r1'', \<lparr>rp_verified_at = None, rp_failure_cooldown_until = Some 1060,
       rp_last_failure_at = Some 1000, rp_last_probe_attempt_at = Some 1000, rp_consecutive_failures = 1\<rparr>)],
     rf_pending = []\<rparr>)"
  by code_simp

theorem reconcile_leaves_live_sessions_witness:
  "fst (reconcile_active_relay_sessions (\<lambda>_. None) presence_new None 1000 sample_fallback) = [''p'', ''q'']
   \<and> settled (\<lambda>p x. runtime_peer_verifies_relay_session (\<lambda>_. None) p presence_new None x 1000) 1000 ''p''
       sample_fallback (snd (reconcile_active_relay_sessions (\<lambda>_. None) presence_new None 1000 sample_fallback))
   \<and> hm_get (rf_sessions (snd (reconcile_active_relay_sessions (\<lambda>_. None) presence_new None 1000 sample_fallback))) ''p''
       = Some (sample_session ''r2'' 1000 1500)"
proof -
  have eval: "fst (reconcile_active_relay_sessions (\<lambda>_. None) presence_new None 1000 sample_fallback) = [''p'', ''q'']"
      "hm_get (rf_sessions (snd (reconcile_active_relay_sessions (\<lambda>_. None) presence_new None 1000 sample_fallback))) ''p''
       = Some (sample_session ''r2'' 1000 1500)"
    unfolding sample_reconciled by code_simp+
  have "hm_wf (rf_sessions sample_fallback)" "(1000::u64) < 1000 + RELAY_FAILED_RETRY_AFTER_SECS"
    by code_simp+
  from reconcile_leaves_live_sessions [OF this surjective_pairing refl] eval show ?thesis by blast
qed

end
