(* ===== verification/Relay_Fallback_Inv.thy ===== *)
theory Relay_Fallback_Inv
  imports Relay_Fallback_Safety
begin

text \<open>
  The runs of the fall-back to relays: every event of the daemon's loop that touches its state, the
  invariant they keep, how long a provider rests after failing, and that a provider which was
  verified once is not probed again.
\<close>

section \<open>Every entry of a map\<close>

definition hm_all :: "('k \<Rightarrow> 'v \<Rightarrow> bool) \<Rightarrow> ('k, 'v) hmap \<Rightarrow> bool" where
  "hm_all P m \<longleftrightarrow> (\<forall>(k, v) \<in> set m. P k v)"

named_theorems hm_all_intros \<open>what holds of every entry after a hash map operation\<close>

lemma hm_all_get: "hm_all P m \<Longrightarrow> hm_get m k = Some v \<Longrightarrow> P k v"
  by (auto simp: hm_all_def dest!: hm_get_in)

lemma hm_all_Nil [hm_all_intros]: "hm_all P []"
  by (simp add: hm_all_def)

lemma hm_all_insert [hm_all_intros]: "hm_wf m \<Longrightarrow> hm_all P m \<Longrightarrow> P k v \<Longrightarrow> hm_all P (hm_insert k v m)"
  by (auto simp: hm_all_def hm_set_insert)

lemma hm_all_remove [hm_all_intros]: "hm_all P m \<Longrightarrow> hm_all P (hm_remove k m)"
  by (auto simp: hm_all_def hm_set_remove)

lemma hm_all_retain [hm_all_intros]: "hm_all P m \<Longrightarrow> hm_all P (hm_retain Q m)"
  by (auto simp: hm_all_def hm_set_retain)

section \<open>Runs\<close>

datatype fallback_event =
    Reconcile "string \<Rightarrow> string option" peer_presence_book "runtime_peers option" u64
  | AskRelays fallback_env u64
  | ServiceMessage service_envelope u64
  | AnnounceTick u64

text \<open>The state after an event, for a node whose own key is \<open>own\<close>.\<close>

fun fallback_step :: "string option \<Rightarrow> fallback_event \<Rightarrow> relay_fallback \<Rightarrow> relay_fallback" where
  "fallback_step own (Reconcile b64 presence runtime_peers now) s =
    snd (reconcile_active_relay_sessions b64 presence runtime_peers now s)"
| "fallback_step own (AskRelays E now) s =
    snd (maybe_request_public_relay_fallback (E\<lparr>fe_own_pubkey := own\<rparr>) now s)"
| "fallback_step own (ServiceMessage message now) s =
    fst (snd (handle_service_message message now (s, \<lparr>oa_fingerprints = []\<rparr>)))"
| "fallback_step own (AnnounceTick now) s = snd (fallback_prune now s)"

definition third_party :: "string option \<Rightarrow> string \<Rightarrow> string \<Rightarrow> bool" where
  "third_party own participant relay \<longleftrightarrow> relay \<noteq> participant \<and> Some relay \<noteq> own"

definition session_identity :: "active_relay_session \<Rightarrow> string \<times> string \<times> string" where
  "session_identity x = (as_relay_pubkey x, as_local_ingress_endpoint x, as_advertised_ingress_endpoint x)"

definition standby_ok :: "string option \<Rightarrow> string \<Rightarrow> active_relay_session list \<Rightarrow> bool" where
  "standby_ok own p xs \<longleftrightarrow> xs \<noteq> [] \<and> distinct (map session_identity xs)
    \<and> list_all (\<lambda>x. third_party own p (as_relay_pubkey x)) xs"

definition fallback_inv :: "string option \<Rightarrow> relay_fallback \<Rightarrow> bool" where
  "fallback_inv own s \<longleftrightarrow>
    hm_wf (rf_sessions s) \<and> hm_all (\<lambda>p x. third_party own p (as_relay_pubkey x)) (rf_sessions s)
    \<and> hm_wf (rf_standby s) \<and> hm_all (standby_ok own) (rf_standby s)
    \<and> hm_wf (rf_pending s) \<and> hm_all (\<lambda>_ r. third_party own (pq_participant r) (pq_relay_pubkey r)) (rf_pending s)"

lemma fallback_invD:
  assumes "fallback_inv own s"
  shows "hm_wf (rf_sessions s)" "hm_wf (rf_standby s)" "hm_wf (rf_pending s)"
    and "hm_all (\<lambda>p x. third_party own p (as_relay_pubkey x)) (rf_sessions s)"
    and "hm_all (standby_ok own) (rf_standby s)"
    and "hm_all (\<lambda>_ r. third_party own (pq_participant r) (pq_relay_pubkey r)) (rf_pending s)"
  using assms by (simp_all add: fallback_inv_def)

lemma fallback_inv_new: "fallback_inv own relay_fallback_new"
  by (simp add: fallback_inv_def relay_fallback_new_def hm_all_intros)

lemma fallback_inv_cong:
  "rf_sessions s' = rf_sessions s \<Longrightarrow> rf_standby s' = rf_standby s \<Longrightarrow> rf_pending s' = rf_pending s
    \<Longrightarrow> fallback_inv own s' = fallback_inv own s"
  by (simp add: fallback_inv_def)

section \<open>The invariant\<close>

lemma standby_ok_rest:
  assumes "standby_ok own p xs" and "take_first P xs = Some (y, ys)"
  shows "ys \<noteq> [] \<Longrightarrow> standby_ok own p ys" and "third_party own p (as_relay_pubkey y)"
proof -
  from take_first_Some [OF assms(2)] have y: "y \<in> set xs" and sub: "subseq ys xs" by simp_all
  then have "subseq (map session_identity ys) (map session_identity xs)" by (simp add: subseq_map)
  moreover have "set ys \<subseteq> set xs" using sub by (auto elim: list_emb_set)
  ultimately show "ys \<noteq> [] \<Longrightarrow> standby_ok own p ys"
    using assms(1) by (auto simp: standby_ok_def list_all_iff subseq_conv_nths intro: distinct_nthsI)
  show "third_party own p (as_relay_pubkey y)"
    using assms(1) y by (simp add: standby_ok_def list_all_iff)
qed

lemma pop_standby_inv:
  assumes wf: "hm_wf standby" and ok: "hm_all (standby_ok own) standby"
    and pop: "pop_next_standby_relay_session standby failures p now = (popped, standby')"
  shows "hm_wf standby'" and "hm_all (standby_ok own) standby'"
    and "popped = Some z \<Longrightarrow> third_party own p (as_relay_pubkey z)"
  using assms standby_ok_rest [OF hm_all_get [OF ok]]
  by (auto simp: pop_next_standby_relay_session_def hm_wf_intros hm_all_intros
      split: option.splits prod.splits if_splits)

lemma end_session_inv:
  assumes inv: "fallback_inv own s" and f: "\<And>s. fallback_inv own s \<Longrightarrow> fallback_inv own (f s)"
  shows "fallback_inv own (end_session f p now s)"
proof -
  note i = fallback_invD [OF inv]
  obtain popped standby' where pop:
    "pop_next_standby_relay_session (rf_standby s) (rf_failures s) p now = (popped, standby')"
    by (metis prod.exhaust)
  note pops = pop_standby_inv [OF i(2,5) pop]
  show ?thesis
  proof (cases popped)
    case None
    have "fallback_inv own (s\<lparr>rf_sessions := hm_remove p (rf_sessions s), rf_standby := standby'\<rparr>)"
      using i pops by (simp add: fallback_inv_def hm_wf_intros hm_all_intros)
    from f [OF this] show ?thesis by (simp add: end_session_def Let_def pop None)
  next
    case (Some z)
    then show ?thesis using i pops
      by (simp add: end_session_def Let_def pop fallback_inv_def hm_wf_intros hm_all_intros)
  qed
qed

lemma reconcile_participant_inv:
  assumes "fallback_inv own s"
  shows "fallback_inv own (fst (reconcile_participant verifies now p (s, changed)))"
proof -
  note i = fallback_invD [OF assms]
  have forget: "fallback_inv own (t\<lparr>rf_pending := forget_requests p (rf_pending t)\<rparr>)" if "fallback_inv own t" for t
    using fallback_invD [OF that] by (simp add: fallback_inv_def forget_requests_def hm_wf_intros hm_all_intros)
  show ?thesis
  proof (cases "hm_get (rf_sessions s) p")
    case None
    then show ?thesis using assms by (simp add: reconcile_participant_def)
  next
    case (Some x)
    have "fallback_inv own (session_expired p now s)"
      unfolding session_expired_def by (rule end_session_inv [OF assms forget])
    moreover have "fallback_inv own (session_unverified p x now s)"
      unfolding session_unverified_def
      by (rule end_session_inv) (use forget [OF assms] in \<open>simp_all add: fallback_inv_def\<close>)
    moreover have "fallback_inv own (session_verified p x t s)" for t
      using i hm_all_get [OF i(4) Some]
      by (simp add: session_verified_def fallback_inv_def hm_wf_intros hm_all_intros)
    ultimately show ?thesis using Some assms
      by (simp add: reconcile_participant_def split: option.splits)
  qed
qed

lemma reconcile_inv:
  assumes "fallback_inv own s"
  shows "fallback_inv own (snd (reconcile_active_relay_sessions b64 presence runtime_peers now s))"
proof -
  have "fallback_inv own (fst (fold (reconcile_participant verifies now) ps (s, changed)))" for verifies ps changed
    using assms
  proof (induction ps arbitrary: s changed)
    case (Cons p ps)
    obtain s1 c1 where step: "reconcile_participant verifies now p (s, changed) = (s1, c1)" by (metis prod.exhaust)
    with reconcile_participant_inv [OF Cons.prems, of verifies now p changed] have "fallback_inv own s1" by simp
    from Cons.IH [OF this] show ?case by (simp add: step)
  qed simp
  then show ?thesis
    by (simp add: reconcile_active_relay_sessions_def split_beta)
qed

lemma candidate_third_party:
  "r \<in> set (relay_candidates_for_participant rs p own failures providers now) \<Longrightarrow> third_party own p r"
  unfolding relay_candidates_for_participant_def third_party_def by (drule in_set_takeD) auto

lemma request_allocations_inv:
  assumes "hm_wf pending" "hm_all (\<lambda>_ r. third_party own (pq_participant r) (pq_relay_pubkey r)) pending"
    and "\<forall>(p, r) \<in> set pairs. third_party own p r"
  shows "hm_wf (snd (request_allocations publishes network_id now pairs n pending))
    \<and> hm_all (\<lambda>_ r. third_party own (pq_participant r) (pq_relay_pubkey r))
        (snd (request_allocations publishes network_id now pairs n pending))"
  using assms
  by (induction publishes network_id now pairs n pending rule: request_allocations.induct)
    (simp_all add: Let_def hm_wf_intros hm_all_intros)

lemma ask_inv:
  assumes inv: "fallback_inv own s" and own: "fe_own_pubkey E = own \<or> own = None"
  shows "fallback_inv own (snd (maybe_request_public_relay_fallback E now s))"
proof -
  note i = fallback_invD [OF inv]
  have pairs: "\<forall>(p, r) \<in> set (concat (map (\<lambda>p. map (Pair p)
      (relay_candidates_for_participant rs p (fe_own_pubkey E) failures providers now)) ps)). third_party own p r"
    for rs failures providers ps
    using own by (auto dest: candidate_third_party simp: third_party_def)
  note requested = request_allocations_inv [OF i(3,6) pairs]
  show ?thesis
    using inv i requested
    by (simp add: maybe_request_public_relay_fallback_def Let_def fallback_inv_def split_beta split: option.splits)
qed

lemma grant_inv:
  assumes inv: "fallback_inv own s"
  shows "fallback_inv own (snd (accept_relay_allocation_grant granted now s))"
proof (cases "hm_get (rf_pending s) (rg_request_id granted)")
  case None
  then show ?thesis using inv by (simp add: accept_relay_allocation_grant_def)
next
  case (Some pending)
  note i = fallback_invD [OF inv]
  let ?x = "active_relay_session_from_grant granted now" and ?p = "pq_participant pending"
  from hm_all_get [OF i(6) Some]
  have relay: "pq_relay_pubkey pending = rg_relay_pubkey granted \<Longrightarrow> third_party own ?p (as_relay_pubkey ?x)"
    by (simp add: active_relay_session_from_grant_def)
  obtain queued standby' where queue: "queue_standby_relay_session (rf_standby s) ?p ?x = (queued, standby')"
    by (metis prod.exhaust)
  have identity: "relay_sessions_match a b \<longleftrightarrow> session_identity a = session_identity b" for a b
    by (simp add: relay_sessions_match_def session_identity_def)
  have "hm_wf standby' \<and> hm_all (standby_ok own) standby'"
    if "pq_relay_pubkey pending = rg_relay_pubkey granted"
    using queue i(2,5) relay [OF that] hm_all_get [OF i(5), of ?p]
    by (auto simp: queue_standby_relay_session_def Let_def standby_ok_def identity list_ex_iff
        intro!: hm_wf_insert hm_all_insert split: option.splits if_splits) blast
  then show ?thesis using Some i relay inv
    by (simp add: accept_relay_allocation_grant_def Let_def queue fallback_inv_def hm_wf_intros hm_all_intros)
qed

lemma rejection_inv:
  "fallback_inv own s \<Longrightarrow> fallback_inv own (snd (accept_relay_allocation_rejection rejected now s))"
  by (auto simp: accept_relay_allocation_rejection_def Let_def fallback_inv_def hm_wf_intros hm_all_intros
      split: option.splits)

lemma message_state:
  "fst (snd (handle_service_message message now (s, outbound))) =
    (case sx_payload message of
       RelayAllocationGranted granted \<Rightarrow> snd (accept_relay_allocation_grant granted now s)
     | RelayAllocationRejected rejected \<Rightarrow> snd (accept_relay_allocation_rejection rejected now s)
     | _ \<Rightarrow> s)"
  by (simp add: handle_service_message_def split: service_payload.split prod.split relay_grant_action.split option.split)

lemma prune_standby_ok:
  assumes "hm_wf standby" "hm_all (standby_ok own) standby"
  shows "hm_wf (snd (prune_standby_relay_sessions standby now))"
    and "hm_all (standby_ok own) (snd (prune_standby_relay_sessions standby now))"
  using assms
  by (auto simp: prune_standby_relay_sessions_def Let_def hm_wf_intros hm_all_def hm_set_retain hm_set_map_values
      standby_ok_def list_all_iff distinct_map_filter)

lemma fallback_step_inv:
  assumes inv: "fallback_inv own s"
  shows "fallback_inv own (fallback_step own e s)"
proof (cases e)
  case (Reconcile b64 presence runtime_peers now)
  then show ?thesis using reconcile_inv [OF inv] by simp
next
  case (AskRelays E now)
  then show ?thesis using ask_inv [OF inv] by simp
next
  case (ServiceMessage message now)
  then show ?thesis using inv grant_inv rejection_inv
    by (simp add: message_state split: service_payload.split)
next
  case (AnnounceTick now)
  note i = fallback_invD [OF inv]
  have "snd (fallback_prune now s) = s
    \<lparr>rf_sessions := snd (prune_active_relay_sessions (rf_sessions s) now),
     rf_standby := snd (prune_standby_relay_sessions (rf_standby s) now),
     rf_failures := snd (prune_relay_failure_cooldowns (rf_failures s) now),
     rf_providers := snd (prune_relay_provider_verifications (rf_providers s) now),
     rf_pending := snd (prune_pending_relay_requests (rf_pending s) now)\<rparr>"
    by (simp add: fallback_prune_def split_beta)
  then show ?thesis using AnnounceTick i prune_standby_ok [OF i(2,5)]
    by (simp add: fallback_inv_def prune_active_relay_sessions_def prune_pending_relay_requests_def Let_def
        hm_wf_intros hm_all_intros)
qed

interpretation fallback_run: stepped "fallback_step own" "fallback_inv own" for own
  by unfold_locales (rule fallback_step_inv)

text \<open>
  C30. Whatever the relays, the peers and the operator's other messages do, a node never lets a peer's
  traffic be carried by that peer or by itself: every requested, active and waiting session of a
  participant is with a third party. At most one session per participant is active, and no two sessions
  standing by for a participant have the same relay and endpoints, nor is an empty list kept.
\<close>

theorem sessions_are_with_third_parties:
  "fallback_inv own (fold (fallback_step own) events relay_fallback_new)"
  by (rule fallback_run.run_inv [OF fallback_inv_new])

section \<open>How long a failing provider rests\<close>

lemma failure_cooldown_nat:
  "unat (failure_cooldown c retry) =
    min 900 (max 1 (case retry of None \<Rightarrow> 60 | Some secs \<Rightarrow> unat secs) * 2 ^ min (unat c - 1) 4)"
proof -
  define base where "base = max (case retry of None \<Rightarrow> RELAY_FAILED_RETRY_AFTER_SECS | Some secs \<Rightarrow> secs) 1"
  define shift where "shift = unat (min (saturating_sub c 1) 4)"
  have base: "unat base = max 1 (case retry of None \<Rightarrow> 60 | Some secs \<Rightarrow> unat secs)"
    by (simp add: base_def RELAY_FAILED_RETRY_AFTER_SECS_def max_def word_le_nat_alt split: option.split)
  have shift: "shift = min (unat c - 1) 4"
    by (simp add: shift_def min_def word_le_nat_alt sat_simps)
  then have "shift \<le> 4" by simp
  then have "shift = 0 \<or> shift = 1 \<or> shift = 2 \<or> shift = 3 \<or> shift = 4" by linarith
  then have mult: "unat (push_bit shift 1 :: u64) = 2 ^ shift"
    by (elim disjE) (simp_all add: push_bit_eq_mult)
  have "unat (saturating_mul base (push_bit shift 1)) = min (2 ^ 64 - 1) (unat base * 2 ^ shift)"
    using mult by (auto simp: saturating_mul_def unat_mult_lem [THEN iffD1] unsigned_minus_1_eq_mask mask_eq_exp_minus_1)
  then have "unat (failure_cooldown c retry) = min 900 (unat base * 2 ^ shift)"
    unfolding failure_cooldown_def Let_def RELAY_PROVIDER_FAILURE_MAX_COOLDOWN_SECS_def
      base_def [symmetric] shift_def [symmetric]
    by (auto simp: min_def word_le_nat_alt)
  then show ?thesis by (simp only: base shift)
qed

definition fail_provider :: "string \<Rightarrow> u64 \<Rightarrow> provider_book \<Rightarrow> provider_book" where
  "fail_provider r now providers = note_failed_relay_provider providers r now None"

lemma failures_counted:
  assumes "length ts < 2 ^ 32"
  shows "hm_get (fold (fail_provider r) ts []) r =
    (if ts = [] then None
     else Some \<lparr>rp_verified_at = None,
       rp_failure_cooldown_until = Some (last ts + failure_cooldown (of_nat (length ts)) None),
       rp_last_failure_at = Some (last ts), rp_last_probe_attempt_at = Some (last ts),
       rp_consecutive_failures = of_nat (length ts)\<rparr>)"
  using assms
proof (induction ts rule: rev_induct)
  case Nil
  then show ?case by (simp add: hm_simps)
next
  case (snoc t ts)
  have n: "Suc (length ts) < 2 ^ 32" using snoc.prems by simp
  have u: "unat (of_nat m :: u32) = m" if "m < 2 ^ 32" for m
    using that by (simp add: unsigned_of_nat take_bit_nat_eq_self)
  have "saturating_add (of_nat (length ts)) 1 = (of_nat (Suc (length ts)) :: u32)"
    using n u [of "length ts"] u [of "Suc (length ts)"]
    by (intro word_unat_eq_iff [THEN iffD2]) (simp add: sat_simps del: of_nat_Suc)
  moreover have "saturating_add (0::u32) 1 = 1" by (simp add: saturating_add_def)
  ultimately show ?case using snoc
    by (simp add: fail_provider_def note_failed_relay_provider_def provider_entry_def relay_provider_default_def
        hm_simps Let_def)
qed

text \<open>
  A relay provider that keeps failing is left alone for 60 seconds after the first failure in a row,
  120 after the second, then 240, 480 and from the fifth on for 900, counted from the last failure, and
  is not probed while it rests. Whatever time a rejecting relay asks for, and whatever the count, a
  provider rests for at least a second and at most a quarter of an hour.
\<close>

lemma failing_provider_rests:
  assumes "ts \<noteq> []" "length ts < 2 ^ 32"
  shows "\<exists>v. hm_get (fold (fail_provider r) ts []) r = Some v
      \<and> rp_failure_cooldown_until v = Some (last ts + of_nat (min 900 (60 * 2 ^ min (length ts - 1) 4)))
      \<and> (\<forall>now. cooling v now \<longrightarrow> \<not> relay_provider_probe_due (fold (fail_provider r) ts []) r now)
      \<and> 1 \<le> failure_cooldown c retry \<and> failure_cooldown c retry \<le> 900"
proof -
  have "failure_cooldown (of_nat (length ts)) None = of_nat (min 900 (60 * 2 ^ min (length ts - 1) 4))"
    using assms(2) failure_cooldown_nat [of "of_nat (length ts)" None]
    by (intro word_unat_eq_iff [THEN iffD2])
      (simp add: unsigned_of_nat take_bit_nat_eq_self min_less_iff_disj)
  moreover have "1 \<le> failure_cooldown c retry \<and> failure_cooldown c retry \<le> 900"
    using failure_cooldown_nat [of c retry] by (simp add: word_le_nat_alt)
  ultimately show ?thesis using assms
    by (simp add: failures_counted relay_provider_probe_due_def)
qed

theorem failing_provider_rests_witness:
  "\<exists>v. hm_get (fold (fail_provider ''r'') [100, 200, 300] []) ''r'' = Some v
     \<and> rp_failure_cooldown_until v = Some 540"
  using failing_provider_rests [of "[100, 200, 300]" "''r''" 7 "Some 100000"] by auto

section \<open>Verified once\<close>

definition once_verified :: "provider_book \<Rightarrow> string set" where
  "once_verified providers = {r. \<exists>v. hm_get providers r = Some v \<and> rp_verified_at v \<noteq> None}"

lemma once_verified_not_due: "r \<in> once_verified providers \<Longrightarrow> \<not> relay_provider_probe_due providers r now"
  by (auto simp: once_verified_def relay_provider_probe_due_def)

definition keeps_verified :: "provider_book \<Rightarrow> provider_book \<Rightarrow> bool" where
  "keeps_verified P P' \<longleftrightarrow> (hm_wf P \<longrightarrow> hm_wf P' \<and> once_verified P \<subseteq> once_verified P')"

named_theorems keeps_intros \<open>operations that keep verified providers verified\<close>

lemma keeps_refl [keeps_intros]: "keeps_verified P P"
  by (simp add: keeps_verified_def)

lemma keeps_trans: "keeps_verified P P' \<Longrightarrow> keeps_verified P' P'' \<Longrightarrow> keeps_verified P P''"
  by (auto simp: keeps_verified_def)

lemma notes_keep_verified [keeps_intros]:
  "keeps_verified P (note_verified_relay_provider P r now)"
  "keeps_verified P (note_failed_relay_provider P r now retry)"
  "keeps_verified P (note_relay_provider_probe_attempt P r now)"
  by (auto simp: keeps_verified_def once_verified_def note_verified_relay_provider_def
      note_failed_relay_provider_def note_relay_provider_probe_attempt_def provider_entry_def Let_def hm_simps
      hm_wf_intros)

lemma prune_keeps_verified [keeps_intros]: "keeps_verified P (snd (prune_relay_provider_verifications P now))"
proof -
  have thaw: "rp_verified_at (thaw now v) = rp_verified_at v" for v
    by (simp add: thaw_def split: option.split)
  show ?thesis
    by (auto simp: keeps_verified_def once_verified_def prune_relay_provider_verifications_def Let_def hm_simps
        hm_wf_intros thaw)
qed

lemma end_session_providers:
  "(\<And>s. rf_providers (f s) = rf_providers s) \<Longrightarrow> rf_providers (end_session f p now s) = rf_providers s"
  by (simp add: end_session_def Let_def split: prod.split option.split)

lemma reconcile_participant_keeps:
  "keeps_verified (rf_providers s) (rf_providers (fst (reconcile_participant verifies now p (s, changed))))"
  by (auto simp: reconcile_participant_def session_expired_def session_unverified_def session_verified_def
      end_session_providers keeps_intros split: option.split)

lemma reconcile_keeps:
  "keeps_verified (rf_providers s) (rf_providers (fst (fold (reconcile_participant verifies now) ps (s, changed))))"
proof (induction ps arbitrary: s changed)
  case (Cons p ps)
  obtain s1 c1 where step: "reconcile_participant verifies now p (s, changed) = (s1, c1)" by (metis prod.exhaust)
  with reconcile_participant_keeps [of s verifies now p changed]
  have "keeps_verified (rf_providers s) (rf_providers s1)" by simp
  from keeps_trans [OF this Cons.IH] show ?case by (simp add: step)
qed (simp add: keeps_refl)

lemma note_probe_keeps: "keeps_verified P (note_probe outcome r now P)"
  by (auto simp: note_probe_def Let_def intro: keeps_trans notes_keep_verified
      split: option.split probe_outcome.split)

lemma probes_keep:
  "keeps_verified P (snd (fold (\<lambda>r (n, P).
      (n + (1::nat), note_probe (probe_relay_provider (env r) r now) r now P)) candidates (n, P)))"
  by (induction candidates arbitrary: n P) (auto intro: keeps_refl keeps_trans [OF note_probe_keeps])

lemma probing_keeps: "keeps_verified P (snd (proactively_probe_relay_providers env rs now P))"
  using probes_keep by (simp add: proactively_probe_relay_providers_def Let_def)

lemma fallback_step_keeps: "keeps_verified (rf_providers s) (rf_providers (fallback_step own e s))"
proof (cases e)
  case (Reconcile b64 presence runtime_peers now)
  then show ?thesis using reconcile_keeps
    by (simp add: reconcile_active_relay_sessions_def split_beta)
next
  case (AskRelays E now)
  then show ?thesis
    by (simp add: maybe_request_public_relay_fallback_def Let_def split_beta keeps_refl probing_keeps split: option.split)
next
  case (ServiceMessage message now)
  then show ?thesis
    by (auto simp: message_state accept_relay_allocation_grant_def accept_relay_allocation_rejection_def Let_def
        keeps_intros split: service_payload.split option.split prod.split)
next
  case (AnnounceTick now)
  then show ?thesis
    by (simp add: fallback_prune_def split_beta prune_keeps_verified)
qed

interpretation verified_run: stepped_mono "fallback_step own" "\<lambda>s. hm_wf (rf_providers s)"
  "\<lambda>s. once_verified (rf_providers s)" for own
  using fallback_step_keeps by unfold_locales (simp_all add: keeps_verified_def)


definition sample_provider_run :: relay_fallback where
  "sample_provider_run = relay_fallback_new\<lparr>rf_providers := note_verified_relay_provider [] ''r'' 100\<rparr>"


section \<open>Two weaknesses\<close>

text \<open>Nothing depends on who sent a message of the relay service: whoever knows a pending request's id can grant it.\<close>

lemma message_sender_not_checked:
  "handle_service_message (message\<lparr>sx_sender_pubkey := anyone\<rparr>) now state = handle_service_message message now state"
  by (simp add: handle_service_message_def)

text \<open>
  Expired sessions are also dropped by the announcement interval. Reconciliation, which would put the
  session standing by in its place, then finds nothing to reconcile.
\<close>

lemma pruned_session_is_not_replaced:
  assumes "hm_wf (rf_sessions s)" and "hm_get (rf_sessions s) p = Some x" and "\<not> relay_session_is_active x now"
    and "later < later + RELAY_FAILED_RETRY_AFTER_SECS"
  shows "hm_get (rf_sessions (fallback_step own (Reconcile b64 presence runtime_peers later)
    (fallback_step own (AnnounceTick now) s))) p = None"
proof -
  let ?s = "fallback_step own (AnnounceTick now) s"
  have wf: "hm_wf (rf_sessions ?s)" and gone: "hm_get (rf_sessions ?s) p = None"
    using assms(1-3) by (simp_all add: fallback_prune_def split_beta prune_active_relay_sessions_def Let_def
        hm_wf_intros hm_simps)
  from reconcile_settled(1) [OF wf assms(4) surjective_pairing refl, of b64 presence runtime_peers p] gone
  show ?thesis by (simp add: settled_def)
qed

end
