(* ===== verification/Host_Actions.thy ===== *)
theory Host_Actions
  imports Net_Addr
begin

text \<open>
  What the daemon does to its host: programs, files, tunnel devices and the WireGuard control
  socket. A host answers each command depending on the commands before it; an action runs on the
  commands so far, the newest first, and fails or yields a value.
\<close>

datatype os_command =
    Run "string list"
  | ReadFile string
  | WriteFile string string
  | OpenDevice string
  | CloseDevice
  | WaitForSocket string
  | FindUdpPort
  | Uapi string string

type_synonym trace = "os_command list"

text \<open>A program's exit status, none when a signal ended it, and what it printed.\<close>

record run_output =
  ro_code :: "int option"
  ro_stdout :: string
  ro_stderr :: string

record host =
  ho_run :: "trace \<Rightarrow> string list \<Rightarrow> string + run_output"
  ho_read :: "trace \<Rightarrow> string \<Rightarrow> string + string"
  ho_write :: "trace \<Rightarrow> string \<Rightarrow> string \<Rightarrow> string + unit"
  ho_open :: "trace \<Rightarrow> string \<Rightarrow> string + unit"
  ho_wait :: "trace \<Rightarrow> string \<Rightarrow> string + unit"
  ho_port :: "trace \<Rightarrow> string + u16"
  ho_uapi :: "trace \<Rightarrow> string \<Rightarrow> string \<Rightarrow> string + string"

datatype host_error =
    Io string
  | CommandFailed "string list" string string
  | NoDefaultRoute string
  | NoBypassRoute ipv4_addr
  | UapiFailed string
  | MissingUapiSocket
  | DeviceFailed string string
  | DevicesBusy string "string list"
  | NoDevice string
  | NoListenPort "host_error option"
  | BadPrivateKey

type_synonym 'a action = "trace \<Rightarrow> (host_error + 'a) \<times> trace"

definition act_return :: "'a \<Rightarrow> 'a action" where
  "act_return x t = (Inr x, t)"

definition act_fail :: "host_error \<Rightarrow> 'a action" where
  "act_fail e t = (Inl e, t)"

definition act_bind :: "'a action \<Rightarrow> ('a \<Rightarrow> 'b action) \<Rightarrow> 'b action" where
  "act_bind m f t = (case m t of (Inl e, t') \<Rightarrow> (Inl e, t') | (Inr x, t') \<Rightarrow> f x t')"

text \<open>An action whose failure is a value, and one whose failure is only logged.\<close>

definition act_try :: "'a action \<Rightarrow> (host_error + 'a) action" where
  "act_try m t = (case m t of (r, t') \<Rightarrow> (Inr r, t'))"

definition act_log :: "'a action \<Rightarrow> trace \<Rightarrow> trace" where
  "act_log m t = snd (m t)"

fun act_each :: "('a \<Rightarrow> unit action) \<Rightarrow> 'a list \<Rightarrow> unit action" where
  "act_each f [] = act_return ()"
| "act_each f (x # xs) = act_bind (f x) (\<lambda>_. act_each f xs)"

named_theorems act_simps \<open>running actions\<close>

lemma act_return_simp [act_simps]: "act_return x t = (Inr x, t)"
  by (simp add: act_return_def)

lemma act_fail_simp [act_simps]: "act_fail e t = (Inl e, t)"
  by (simp add: act_fail_def)

lemma act_bind_Inr [act_simps]: "m t = (Inr x, t') \<Longrightarrow> act_bind m f t = f x t'"
  by (simp add: act_bind_def)

lemma act_bind_Inl [act_simps]: "m t = (Inl e, t') \<Longrightarrow> act_bind m f t = (Inl e, t')"
  by (simp add: act_bind_def)

section \<open>Programs and files\<close>

definition act_io :: "(trace \<Rightarrow> string + 'a) \<Rightarrow> os_command \<Rightarrow> 'a action" where
  "act_io reply c t = ((case reply t of Inl e \<Rightarrow> Inl (Io e) | Inr v \<Rightarrow> Inr v), c # t)"

definition run_program :: "host \<Rightarrow> string list \<Rightarrow> run_output action" where
  "run_program H args = act_io (\<lambda>t. ho_run H t args) (Run args)"

definition command_stdout_checked :: "host \<Rightarrow> string list \<Rightarrow> string action" where
  "command_stdout_checked H args = act_bind (run_program H args) (\<lambda>out.
    if ro_code out \<noteq> Some 0 then act_fail (CommandFailed args (ro_stdout out) (ro_stderr out))
    else act_return (ro_stdout out))"

definition run_checked :: "host \<Rightarrow> string list \<Rightarrow> unit action" where
  "run_checked H args = act_bind (run_program H args) (\<lambda>out.
    if ro_code out \<noteq> Some 0 then act_fail (CommandFailed args (ro_stdout out) (ro_stderr out))
    else act_return ())"

section \<open>What an action may add to the trace\<close>

text \<open>\<open>adds P m\<close>: every command the action adds satisfies \<open>P\<close>, whether it fails or not.\<close>

definition adds :: "(os_command \<Rightarrow> bool) \<Rightarrow> 'a action \<Rightarrow> bool" where
  "adds P m \<longleftrightarrow> (\<forall>t. \<exists>new. snd (m t) = new @ t \<and> list_all P new)"

named_theorems adds_intros \<open>bounds on what actions add\<close>

lemma adds_return [adds_intros]: "adds P (act_return x)"
  by (simp add: adds_def act_return_def)

lemma adds_fail [adds_intros]: "adds P (act_fail e)"
  by (simp add: adds_def act_fail_def)

lemma adds_bind [adds_intros]:
  assumes "adds P m" "\<And>x. adds P (f x)"
  shows "adds P (act_bind m f)"
proof (unfold adds_def, rule allI)
  fix t
  obtain r t' where m: "m t = (r, t')" by (cases "m t")
  obtain new where new: "t' = new @ t" "list_all P new"
    using assms(1) m by (metis adds_def snd_conv)
  show "\<exists>new. snd (act_bind m f t) = new @ t \<and> list_all P new"
  proof (cases r)
    case (Inl e)
    with m new show ?thesis by (simp add: act_bind_def)
  next
    case (Inr x)
    obtain new' where "snd (f x t') = new' @ t'" "list_all P new'"
      using assms(2) [of x] by (auto simp: adds_def)
    with m new Inr show ?thesis
      by (intro exI [of _ "new' @ new"]) (simp add: act_bind_def)
  qed
qed

lemma adds_try [adds_intros]: "adds P m \<Longrightarrow> adds P (act_try m)"
  by (simp add: adds_def act_try_def split_def)

lemma adds_if [adds_intros]: "adds P m \<Longrightarrow> adds P m' \<Longrightarrow> adds P (if b then m else m')"
  by simp

lemma adds_io [adds_intros]: "P c \<Longrightarrow> adds P (act_io reply c)"
  by (simp add: adds_def act_io_def)

lemma adds_run [adds_intros]: "P (Run args) \<Longrightarrow> adds P (run_program H args)"
  by (simp add: run_program_def adds_intros)

lemma adds_stdout [adds_intros]: "P (Run args) \<Longrightarrow> adds P (command_stdout_checked H args)"
  by (simp add: command_stdout_checked_def adds_intros)

lemma adds_checked [adds_intros]: "P (Run args) \<Longrightarrow> adds P (run_checked H args)"
  by (simp add: run_checked_def adds_intros)

lemma adds_each [adds_intros]: "(\<And>x. adds P (f x)) \<Longrightarrow> adds P (act_each f xs)"
  by (induction xs) (simp_all add: adds_intros)

lemma adds_log: "adds P m \<Longrightarrow> \<exists>new. act_log m t = new @ t \<and> list_all P new"
  by (simp add: adds_def act_log_def)

end
