(* ===== verification/Linux_Routing.thy ===== *)
theory Linux_Routing
  imports Host_Actions Tunnel_Plan
begin

text \<open>
  \<open>crates/nostr-vpn-cli/src/platform_routing.rs\<close>, its parts for Linux: reading the output of \<open>ip route\<close>, the
  addresses that must bypass the tunnel, and the routes, forwarding switches and firewall rules.
\<close>

section \<open>The output of \<open>ip route\<close>\<close>

text \<open>\<open>split_whitespace\<close>: the words between white space.\<close>

fun first_word :: "string \<Rightarrow> string" where
  "first_word [] = []"
| "first_word (c # cs) = (if ws_len (c # cs) \<noteq> 0 then [] else c # first_word cs)"

lemma first_word_pos: "s \<noteq> [] \<Longrightarrow> ws_len s = 0 \<Longrightarrow> 0 < length (first_word s)"
  by (cases s) auto

lemma length_trim_start: "length (trim_start s) \<le> length s"
proof (induction s rule: trim_start.induct)
  case (1 s)
  then show ?case by (subst trim_start.simps) (auto intro: order_trans)
qed

function split_whitespace :: "string \<Rightarrow> string list" where
  "split_whitespace s =
    (let rest = trim_start s; word = first_word rest
     in if rest = [] then [] else word # split_whitespace (drop (length word) rest))"
  by pat_completeness auto
termination
proof (relation "measure length")
  fix s rest word
  assume "rest = trim_start s" "word = first_word rest" "rest \<noteq> []"
  then have "0 < length (trim_start s)" "0 < length word"
    using first_word_pos [of rest] trim_start_no_ws [of s] by auto
  then show "(drop (length word) rest, s) \<in> measure length"
    using \<open>rest = trim_start s\<close> length_trim_start [of s] by (simp del: length_greater_0_conv)
qed simp

declare split_whitespace.simps [simp del]

fun word_after :: "string \<Rightarrow> string list \<Rightarrow> string option" where
  "word_after key (a # b # ws) = (if a = key then Some b else word_after key (b # ws))"
| "word_after key _ = None"

fun find_map :: "('a \<Rightarrow> 'b option) \<Rightarrow> 'a list \<Rightarrow> 'b option" where
  "find_map f [] = None"
| "find_map f (x # xs) = (case f x of None \<Rightarrow> find_map f xs | Some y \<Rightarrow> Some y)"

definition linux_default_route_device_from_output :: "string \<Rightarrow> string option" where
  "linux_default_route_device_from_output out =
    find_map (\<lambda>line. word_after ''dev'' (split_whitespace line)) (str_lines out)"

record linux_route_get_spec =
  lr_gateway :: "string option"
  lr_dev :: string
  lr_src :: "string option"

record route_words =
  rw_via :: "string option"
  rw_dev :: "string option"
  rw_src :: "string option"

definition route_word :: "string \<Rightarrow> string option \<Rightarrow> route_words \<Rightarrow> route_words" where
  "route_word key v w =
    (if key = ''via'' then w\<lparr>rw_via := v\<rparr> else if key = ''dev'' then w\<lparr>rw_dev := v\<rparr> else w\<lparr>rw_src := v\<rparr>)"

definition route_key :: "string \<Rightarrow> bool" where
  "route_key t \<longleftrightarrow> t \<in> {''via'', ''dev'', ''src''}"

fun read_route_words :: "string list \<Rightarrow> route_words \<Rightarrow> route_words" where
  "read_route_words [] w = w"
| "read_route_words [t] w = (if route_key t then route_word t None w else w)"
| "read_route_words (t # u # ts) w =
    (if route_key t then read_route_words ts (route_word t (Some u) w) else read_route_words (u # ts) w)"

definition first_line :: "string \<Rightarrow> string option" where
  "first_line out = map_option trim (find (\<lambda>line. trim line \<noteq> []) (str_lines out))"

definition linux_route_get_spec_from_output :: "string \<Rightarrow> linux_route_get_spec option" where
  "linux_route_get_spec_from_output out =
    (case first_line out of
       None \<Rightarrow> None
     | Some line \<Rightarrow>
         (let w = read_route_words (split_whitespace line) \<lparr>rw_via = None, rw_dev = None, rw_src = None\<rparr>
          in (case rw_dev w of
                None \<Rightarrow> None
              | Some dev \<Rightarrow> Some \<lparr>lr_gateway = rw_via w, lr_dev = dev, lr_src = rw_src w\<rparr>)))"

record linux_default_route_spec =
  ld_line :: string
  ld_dev :: string

definition linux_default_route_from_output :: "string \<Rightarrow> linux_default_route_spec option" where
  "linux_default_route_from_output out =
    (case first_line out of
       None \<Rightarrow> None
     | Some line \<Rightarrow> map_option (\<lambda>dev. \<lparr>ld_line = line, ld_dev = dev\<rparr>)
         (linux_default_route_device_from_output line))"

definition linux_default_route_for_family :: "host \<Rightarrow> string \<Rightarrow> string \<Rightarrow> linux_default_route_spec action" where
  "linux_default_route_for_family H family_flag family_label =
    act_bind (command_stdout_checked H [''ip'', family_flag, ''route'', ''show'', ''default'']) (\<lambda>out.
      case linux_default_route_from_output out of
        None \<Rightarrow> act_fail (NoDefaultRoute family_label) | Some spec \<Rightarrow> act_return spec)"

definition linux_default_route :: "host \<Rightarrow> linux_default_route_spec action" where
  "linux_default_route H = linux_default_route_for_family H ''-4'' ''IPv4''"

definition linux_default_ipv6_route :: "host \<Rightarrow> linux_default_route_spec action" where
  "linux_default_ipv6_route H = linux_default_route_for_family H ''-6'' ''IPv6''"

definition restore_linux_default_route :: "host \<Rightarrow> string \<Rightarrow> unit action" where
  "restore_linux_default_route H route =
    run_checked H ([''ip'', ''-4'', ''route'', ''replace''] @ split_whitespace route)"

definition flush_linux_route_cache :: "host \<Rightarrow> unit action" where
  "flush_linux_route_cache H = run_checked H [''ip'', ''-4'', ''route'', ''flush'', ''cache'']"

section \<open>Addresses that bypass the tunnel\<close>

definition split_host_port :: "string \<Rightarrow> u16 \<Rightarrow> (string \<times> u16) option" where
  "split_host_port authority0 default_port =
    (let authority = trim authority0
     in if authority = [] then None
        else (case strip_prefix ''['' authority of
            Some rest \<Rightarrow>
              (case split_once (CHR '']'') rest of
                 None \<Rightarrow> None
               | Some (host, after_host) \<Rightarrow>
                   Some (host, (case Option.bind (strip_prefix '':'' after_host) parse_u16 of
                     None \<Rightarrow> default_port | Some port \<Rightarrow> of_nat port)))
          | None \<Rightarrow>
              (case rsplit_once (CHR '':'') authority of
                 None \<Rightarrow> Some (authority, default_port)
               | Some (host, port) \<Rightarrow>
                   (case parse_u16 port of
                      Some p \<Rightarrow>
                        if CHR '':'' \<notin> set host \<and> host \<noteq> [] then Some (host, of_nat p)
                        else Some (authority, default_port)
                    | None \<Rightarrow> Some (authority, default_port)))))"

fun split_once_at :: "string \<Rightarrow> string \<Rightarrow> (string \<times> string) option" where
  "split_once_at pat [] = (if pat = [] then Some ([], []) else None)"
| "split_once_at pat (c # cs) =
    (if prefix pat (c # cs) then Some ([], drop (length pat) (c # cs))
     else map_option (\<lambda>(l, r). (c # l, r)) (split_once_at pat cs))"

definition relay_host_port :: "string \<Rightarrow> (string \<times> u16) option" where
  "relay_host_port relay0 =
    (let relay = trim relay0
     in if relay = [] then None
        else (case (case split_once_at ''://'' relay of None \<Rightarrow> ([], relay) | Some sr \<Rightarrow> sr) of (scheme, remainder) \<Rightarrow>
          split_host_port (hd (split_char (CHR ''/'') remainder))
            (if scheme = ''wss'' \<or> scheme = ''https'' then 443 else 80)))"

definition stun_host_port :: "string \<Rightarrow> (string \<times> u16) option" where
  "stun_host_port server0 =
    (let server = trim server0
     in if server = [] then None
        else split_host_port
          (case strip_prefix ''stun://'' server of
             Some a \<Rightarrow> a
           | None \<Rightarrow> (case strip_prefix ''stun:'' server of Some a \<Rightarrow> a | None \<Rightarrow> server)) 3478)"

text \<open>\<open>resolve\<close> is the system's name resolution, with no address for a name it cannot resolve.\<close>

type_synonym resolver = "string \<Rightarrow> u16 \<Rightarrow> ip_addr list"

definition v4_of :: "ip_addr \<Rightarrow> ipv4_addr option" where
  "v4_of ip = (case ip of V4 a \<Rightarrow> Some a | V6 _ \<Rightarrow> None)"

definition host_ipv4s :: "resolver \<Rightarrow> string \<times> u16 \<Rightarrow> ipv4_addr list" where
  "host_ipv4s resolve hp = (case hp of (host, port) \<Rightarrow>
    (case parse_ipv4 host of
       Some ip \<Rightarrow> [ip]
     | None \<Rightarrow> if parse_ip host \<noteq> None then [] else List.map_filter v4_of (resolve host port)))"

definition relay_ipv4_hosts :: "resolver \<Rightarrow> string \<Rightarrow> ipv4_addr list" where
  "relay_ipv4_hosts resolve relay =
    (case relay_host_port relay of None \<Rightarrow> [] | Some hp \<Rightarrow> host_ipv4s resolve hp)"

definition relay_bypass_ipv4_hosts :: "resolver \<Rightarrow> app_config \<Rightarrow> ipv4_addr list" where
  "relay_bypass_ipv4_hosts resolve app =
    sort_dedup (concat (map (relay_ipv4_hosts resolve) (no_relays (ac_nostr app))))"

definition stun_ipv4_hosts :: "resolver \<Rightarrow> app_config \<Rightarrow> ipv4_addr list" where
  "stun_ipv4_hosts resolve app =
    sort_dedup (concat (map (host_ipv4s resolve) (List.map_filter stun_host_port (nat_stun_servers (ac_nat app)))))"

definition reflector_ipv4_hosts :: "app_config \<Rightarrow> ipv4_addr list" where
  "reflector_ipv4_hosts app =
    sort_dedup (List.map_filter (v4_of \<circ> sock_ip)
      (List.map_filter parse_socket_addr (nat_reflectors (ac_nat app))))"

record routed_interface = network_interface +
  ri_gateway_ipv4 :: "ipv4_addr list option"
  ri_dns_servers :: "ip_addr list"

definition management_ipv4_hosts_from_interfaces :: "routed_interface list \<Rightarrow> ipv4_addr list" where
  "management_ipv4_hosts_from_interfaces interfaces =
    sort_dedup (concat (map (\<lambda>i. (case ri_gateway_ipv4 i of None \<Rightarrow> [] | Some ips \<Rightarrow> ips)
        @ List.map_filter v4_of (ri_dns_servers i))
      (filter (\<lambda>i. ni_is_up i \<and> \<not> ni_is_loopback i \<and> \<not> ni_is_tun i) interfaces)))"

definition control_plane_bypass_ipv4_hosts_from_interfaces ::
  "resolver \<Rightarrow> app_config \<Rightarrow> routed_interface list \<Rightarrow> ipv4_addr list" where
  "control_plane_bypass_ipv4_hosts_from_interfaces resolve app interfaces =
    sort_dedup (relay_bypass_ipv4_hosts resolve app @ stun_ipv4_hosts resolve app
      @ reflector_ipv4_hosts app @ management_ipv4_hosts_from_interfaces interfaces)"

record linux_endpoint_bypass_route =
  lb_target :: string
  lb_gateway :: "string option"
  lb_dev :: string
  lb_src :: "string option"

definition bypass_spec :: "string \<Rightarrow> string option \<Rightarrow> string \<Rightarrow> linux_route_get_spec option" where
  "bypass_spec tunnel_iface original_default_route out =
    (let usable = (\<lambda>line. Option.bind (linux_route_get_spec_from_output line)
           (\<lambda>spec. if lr_dev spec = tunnel_iface then None else Some spec))
     in (case usable out of
           Some spec \<Rightarrow> Some spec
         | None \<Rightarrow> Option.bind original_default_route usable))"

fun bypass_routes_for ::
  "host \<Rightarrow> string \<Rightarrow> string option \<Rightarrow> ipv4_addr list \<Rightarrow> linux_endpoint_bypass_route list
    \<Rightarrow> linux_endpoint_bypass_route list action" where
  "bypass_routes_for H tunnel_iface original_default_route [] routes = act_return routes"
| "bypass_routes_for H tunnel_iface original_default_route (host # hosts) routes =
    act_bind (command_stdout_checked H [''ip'', ''-4'', ''route'', ''get'', print_v4 host]) (\<lambda>out.
      case bypass_spec tunnel_iface original_default_route out of
        None \<Rightarrow> act_fail (NoBypassRoute host)
      | Some spec \<Rightarrow> bypass_routes_for H tunnel_iface original_default_route hosts
          (routes @ [\<lparr>lb_target = print_v4 host @ ''/32'', lb_gateway = lr_gateway spec,
                      lb_dev = lr_dev spec, lb_src = lr_src spec\<rparr>]))"

definition linux_bypass_route_specs ::
  "host \<Rightarrow> ipv4_addr list \<Rightarrow> tunnel_peer list \<Rightarrow> string \<Rightarrow> string option
    \<Rightarrow> linux_endpoint_bypass_route list action" where
  "linux_bypass_route_specs H control_plane_hosts peers tunnel_iface original_default_route =
    bypass_routes_for H tunnel_iface original_default_route
      (sort_dedup (List.map_filter (\<lambda>p. Option.bind (endpoint_host_ip (tu_endpoint p)) v4_of) peers
        @ control_plane_hosts)) []"

definition apply_linux_endpoint_bypass_route :: "host \<Rightarrow> linux_endpoint_bypass_route \<Rightarrow> unit action" where
  "apply_linux_endpoint_bypass_route H route =
    run_checked H ([''ip'', ''-4'', ''route'', ''replace'', lb_target route]
      @ (case lb_gateway route of None \<Rightarrow> [] | Some gateway \<Rightarrow> [''via'', gateway])
      @ [''dev'', lb_dev route]
      @ (case lb_src route of None \<Rightarrow> [] | Some src \<Rightarrow> [''src'', src]))"

definition delete_linux_endpoint_bypass_route :: "host \<Rightarrow> string \<Rightarrow> unit action" where
  "delete_linux_endpoint_bypass_route H target = run_checked H [''ip'', ''-4'', ''route'', ''del'', target]"

section \<open>Forwarding and the firewall\<close>

datatype ip_family = FamilyV4 | FamilyV6

fun linux_ip_forward_path :: "ip_family \<Rightarrow> string" where
  "linux_ip_forward_path FamilyV4 = ''/proc/sys/net/ipv4/ip_forward''"
| "linux_ip_forward_path FamilyV6 = ''/proc/sys/net/ipv6/conf/all/forwarding''"

definition read_linux_ip_forward :: "host \<Rightarrow> ip_family \<Rightarrow> bool action" where
  "read_linux_ip_forward H family =
    act_bind (act_io (\<lambda>t. ho_read H t (linux_ip_forward_path family)) (ReadFile (linux_ip_forward_path family)))
      (\<lambda>text. act_return (trim text = ''1''))"

definition write_linux_ip_forward :: "host \<Rightarrow> ip_family \<Rightarrow> bool \<Rightarrow> unit action" where
  "write_linux_ip_forward H family enabled =
    (let path = linux_ip_forward_path family; text = (if enabled then ''1'' else ''0'')
     in act_io (\<lambda>t. ho_write H t path text) (WriteFile path text))"

definition linux_exit_node_source_cidr :: "string \<Rightarrow> string option" where
  "linux_exit_node_source_cidr tunnel_ip =
    (case parse_ipv4 (cli_strip_cidr tunnel_ip) of
       None \<Rightarrow> None
     | Some ip \<Rightarrow>
         if v4_octet 0 ip = 10 \<and> v4_octet 1 ip = 44 then Some ''10.44.0.0/16''
         else Some (dec (v4_octet 0 ip) @ ''.'' @ dec (v4_octet 1 ip) @ ''.'' @ dec (v4_octet 2 ip) @ ''.0/24''))"

record default_route_families =
  df_ipv4 :: bool
  df_ipv6 :: bool

definition linux_exit_node_default_route_families :: "string list \<Rightarrow> default_route_families" where
  "linux_exit_node_default_route_families routes =
    \<lparr>df_ipv4 = ''0.0.0.0/0'' \<in> set routes, df_ipv6 = ''::/0'' \<in> set routes\<rparr>"

fun linux_exit_node_firewall_binary :: "ip_family \<Rightarrow> string" where
  "linux_exit_node_firewall_binary FamilyV4 = ''iptables''"
| "linux_exit_node_firewall_binary FamilyV6 = ''ip6tables''"

definition linux_exit_node_forward_in_rule :: "string \<Rightarrow> ip_family \<Rightarrow> string list" where
  "linux_exit_node_forward_in_rule iface family =
    [''FORWARD'', ''-i'', iface, ''-m'', ''comment'', ''--comment'',
     (case family of FamilyV4 \<Rightarrow> ''nvpn-exit-forward-in'' | FamilyV6 \<Rightarrow> ''nvpn-exit6-forward-in''), ''-j'', ''ACCEPT'']"

definition linux_exit_node_forward_out_rule :: "string \<Rightarrow> ip_family \<Rightarrow> string list" where
  "linux_exit_node_forward_out_rule iface family =
    [''FORWARD'', ''-o'', iface, ''-m'', ''conntrack'', ''--ctstate'', ''RELATED,ESTABLISHED'',
     ''-m'', ''comment'', ''--comment'',
     (case family of FamilyV4 \<Rightarrow> ''nvpn-exit-forward-out'' | FamilyV6 \<Rightarrow> ''nvpn-exit6-forward-out''), ''-j'', ''ACCEPT'']"

definition linux_exit_node_ipv4_masquerade_rule :: "string \<Rightarrow> string \<Rightarrow> string list" where
  "linux_exit_node_ipv4_masquerade_rule outbound_iface tunnel_source_cidr =
    [''POSTROUTING'', ''-o'', outbound_iface, ''-s'', tunnel_source_cidr, ''-m'', ''comment'', ''--comment'',
     ''nvpn-exit-masq'', ''-j'', ''MASQUERADE'']"

definition iptables_command :: "ip_family \<Rightarrow> string option \<Rightarrow> string \<Rightarrow> string list \<Rightarrow> string list" where
  "iptables_command family table flag rule =
    linux_exit_node_firewall_binary family # (case table of None \<Rightarrow> [] | Some t \<Rightarrow> [''-t'', t]) @ flag # rule"

definition linux_iptables_rule_exists :: "host \<Rightarrow> ip_family \<Rightarrow> string option \<Rightarrow> string list \<Rightarrow> bool action" where
  "linux_iptables_rule_exists H family table rule =
    (let args = iptables_command family table ''-C'' rule
     in act_bind (run_program H args) (\<lambda>out.
          if ro_code out = Some 0 then act_return True
          else if ro_code out = Some 1 then act_return False
          else act_fail (CommandFailed args (ro_stdout out) (ro_stderr out))))"

definition linux_iptables_ensure_rule :: "host \<Rightarrow> ip_family \<Rightarrow> string option \<Rightarrow> string list \<Rightarrow> unit action" where
  "linux_iptables_ensure_rule H family table rule =
    act_bind (linux_iptables_rule_exists H family table rule) (\<lambda>rule_exists.
      if rule_exists then act_return () else run_checked H (iptables_command family table ''-A'' rule))"

definition linux_iptables_delete_rule :: "host \<Rightarrow> ip_family \<Rightarrow> string option \<Rightarrow> string list \<Rightarrow> unit action" where
  "linux_iptables_delete_rule H family table rule =
    act_bind (linux_iptables_rule_exists H family table rule) (\<lambda>rule_exists.
      if \<not> rule_exists then act_return () else run_checked H (iptables_command family table ''-D'' rule))"

section \<open>The interface and its routes\<close>

definition linux_ipv4_route_source :: "string \<Rightarrow> string option" where
  "linux_ipv4_route_source address = map_option print_v4 (parse_ipv4 (cli_strip_cidr address))"

definition linux_route_target_is_ipv4 :: "string \<Rightarrow> bool" where
  "linux_route_target_is_ipv4 target \<longleftrightarrow> parse_ipv4 (cli_strip_cidr target) \<noteq> None"

text \<open>The status of deleting the old default route is ignored.\<close>

definition delete_default_first :: "host \<Rightarrow> string \<Rightarrow> unit action" where
  "delete_default_first H target =
    (if target = ''0.0.0.0/0''
     then act_bind (act_try (run_program H [''ip'', ''-4'', ''route'', ''del'', ''default''])) (\<lambda>_. act_return ())
     else if target = ''::/0''
     then act_bind (act_try (run_program H [''ip'', ''-6'', ''route'', ''del'', ''default''])) (\<lambda>_. act_return ())
     else act_return ())"

definition install_route :: "host \<Rightarrow> string \<Rightarrow> string option \<Rightarrow> string \<Rightarrow> unit action" where
  "install_route H iface ipv4_route_source target =
    act_bind (delete_default_first H target) (\<lambda>_.
      run_checked H ([''ip'', ''route'', ''replace'', target, ''dev'', iface]
        @ (case ipv4_route_source of
             Some source \<Rightarrow> if linux_route_target_is_ipv4 target then [''src'', source] else []
           | None \<Rightarrow> [])))"

definition apply_local_interface_network :: "host \<Rightarrow> string \<Rightarrow> string \<Rightarrow> string list \<Rightarrow> unit action" where
  "apply_local_interface_network H iface address route_targets =
    act_bind (run_checked H [''ip'', ''address'', ''replace'', address, ''dev'', iface]) (\<lambda>_.
    act_bind (run_checked H [''ip'', ''link'', ''set'', ''mtu'', ''1380'', ''up'', ''dev'', iface]) (\<lambda>_.
      act_each (install_route H iface (linux_ipv4_route_source address)) route_targets))"

end
