(* ===== verification/Linux_Tunnel.thy ===== *)
theory Linux_Tunnel
  imports Linux_Routing
begin

text \<open>
  \<open>CliTunnelRuntime\<close> of \<open>crates/nostr-vpn-cli/src/main.rs\<close> on Linux: starting the device, configuring it
  through the WireGuard control socket, its routes and bypass routes, the forwarding of an exit
  node, and stopping. An operation yields the runtime it leaves and the commands so far.
\<close>

record exit_node_runtime =
  en_ipv4_outbound_iface :: "string option"
  en_ipv6_outbound_iface :: "string option"
  en_ipv4_tunnel_source_cidr :: "string option"
  en_ipv4_forward_was_enabled :: "bool option"
  en_ipv6_forward_was_enabled :: "bool option"

definition exit_node_runtime_default :: exit_node_runtime where
  "exit_node_runtime_default =
    \<lparr>en_ipv4_outbound_iface = None, en_ipv6_outbound_iface = None, en_ipv4_tunnel_source_cidr = None,
     en_ipv4_forward_was_enabled = None, en_ipv6_forward_was_enabled = None\<rparr>"

record tunnel_runtime =
  tr_iface :: string
  tr_handle :: bool
  tr_uapi_socket_path :: "string option"
  tr_last_fingerprint :: "string option"
  tr_active_listen_port :: "u16 option"
  tr_endpoint_bypass_routes :: "string list"
  tr_exit_node :: exit_node_runtime
  tr_original_default_route :: "string option"

definition tunnel_runtime_new :: "string \<Rightarrow> tunnel_runtime" where
  "tunnel_runtime_new iface =
    \<lparr>tr_iface = iface, tr_handle = False, tr_uapi_socket_path = None, tr_last_fingerprint = None,
     tr_active_listen_port = None, tr_endpoint_bypass_routes = [],
     tr_exit_node = exit_node_runtime_default, tr_original_default_route = None\<rparr>"

type_synonym rt_step = "tunnel_runtime \<times> trace"

definition runtime_listen_port :: "tunnel_runtime \<Rightarrow> u16 \<Rightarrow> u16" where
  "runtime_listen_port rt configured = (case tr_active_listen_port rt of None \<Rightarrow> configured | Some p \<Rightarrow> p)"

definition is_running :: "tunnel_runtime \<Rightarrow> bool" where
  "is_running rt = tr_handle rt"

definition owns_interface :: "tunnel_runtime \<Rightarrow> string \<Rightarrow> bool" where
  "owns_interface rt iface = (tr_iface rt = iface)"

section \<open>The device and its control socket\<close>

definition utun_interface_candidates :: "string \<Rightarrow> string list" where
  "utun_interface_candidates preferred =
    (case strip_prefix ''utun'' preferred of
       None \<Rightarrow> [preferred]
     | Some number \<Rightarrow>
         if number = [] \<or> \<not> list_all is_ascii_digit number then [preferred]
         else (case parse_u16 number of
             None \<Rightarrow> [preferred]
           | Some base \<Rightarrow> map (\<lambda>offset. ''utun'' @ dec (min (base + offset) 65535)) [0..<16]))"

definition uapi_socket :: "string \<Rightarrow> string" where
  "uapi_socket iface = ''/var/run/wireguard/'' @ iface @ ''.sock''"

text \<open>The loop over the candidates: the one that opened, with its socket, or the error.\<close>

fun open_device :: "host \<Rightarrow> string \<Rightarrow> string list \<Rightarrow> string list \<Rightarrow> string action" where
  "open_device H preferred_iface [] busy =
    act_fail (if busy \<noteq> [] then DevicesBusy preferred_iface busy else NoDevice preferred_iface)"
| "open_device H preferred_iface (candidate # candidates) busy =
    act_bind (act_try (act_io (\<lambda>t. ho_open H t candidate) (OpenDevice candidate))) (\<lambda>r.
      case r of
        Inl (Io error_text) \<Rightarrow>
          if is_resource_busy_message error_text
          then open_device H preferred_iface candidates (busy @ [candidate])
          else act_fail (DeviceFailed candidate error_text)
      | Inl e \<Rightarrow> act_fail e
      | Inr _ \<Rightarrow>
          act_bind (act_try (act_io (\<lambda>t. ho_wait H t (uapi_socket candidate)) (WaitForSocket (uapi_socket candidate))))
            (\<lambda>w. case w of
                Inl e \<Rightarrow> act_bind (act_io (\<lambda>_. Inr ()) CloseDevice) (\<lambda>_. act_fail e)
              | Inr _ \<Rightarrow> act_return candidate))"

definition ensure_started :: "host \<Rightarrow> rt_step \<Rightarrow> (host_error + unit) \<times> rt_step" where
  "ensure_started H s = (case s of (rt, t) \<Rightarrow>
    (if tr_handle rt then (Inr (), rt, t)
     else (case open_device H (tr_iface rt) (utun_interface_candidates (tr_iface rt)) [] t of
         (Inl e, t') \<Rightarrow> (Inl e, rt, t')
       | (Inr actual_iface, t') \<Rightarrow>
           (Inr (), rt\<lparr>tr_iface := actual_iface, tr_handle := True,
                       tr_uapi_socket_path := Some (uapi_socket actual_iface)\<rparr>, t'))))"

definition newline1 :: string where "newline1 = [CHR 0x0A]"

definition uapi_call :: "host \<Rightarrow> string \<Rightarrow> string \<Rightarrow> string action" where
  "uapi_call H socket_path request =
    act_bind (act_io (\<lambda>t. ho_uapi H t socket_path request) (Uapi socket_path request)) (\<lambda>response.
      if \<not> str_contains ''errno=0'' response then act_fail (UapiFailed response) else act_return response)"

definition set_request :: "string \<Rightarrow> string" where
  "set_request body = ''set=1'' @ newline1 @ body @ newline1 @ newline1"

definition wg_set :: "host \<Rightarrow> string \<Rightarrow> string \<Rightarrow> unit action" where
  "wg_set H socket_path body = act_bind (uapi_call H socket_path (set_request body)) (\<lambda>_. act_return ())"

definition wg_get :: "host \<Rightarrow> string \<Rightarrow> string action" where
  "wg_get H socket_path = uapi_call H socket_path (''get=1'' @ newline1 @ newline1)"

text \<open>The text of an error of the control socket.\<close>

definition uapi_error_text :: "host_error \<Rightarrow> string" where
  "uapi_error_text e =
    (case e of Io text \<Rightarrow> text | UapiFailed response \<Rightarrow> ''uapi set failed: '' @ trim response | _ \<Rightarrow> [])"

definition is_uapi_addr_in_use_error :: "string \<Rightarrow> bool" where
  "is_uapi_addr_in_use_error message =
    (let lower = to_ascii_lowercase message
     in str_contains ''errno=48'' lower \<or> str_contains ''errno=98'' lower \<or> str_contains ''address in use'' lower)"

definition runtime_peer_status :: "host \<Rightarrow> (string \<Rightarrow> string) \<Rightarrow> tunnel_runtime \<Rightarrow> runtime_peers action" where
  "runtime_peer_status H lower rt =
    (case tr_uapi_socket_path rt of
       None \<Rightarrow> act_fail MissingUapiSocket
     | Some socket \<Rightarrow> act_bind (wg_get H socket) (\<lambda>response. act_return (parse_wg_peer_status lower response)))"

section \<open>The original default route and the bypass routes\<close>

definition capture_linux_original_default_route :: "host \<Rightarrow> rt_step \<Rightarrow> rt_step" where
  "capture_linux_original_default_route H s = (case s of (rt, t) \<Rightarrow>
    (if tr_original_default_route rt \<noteq> None then (rt, t)
     else (case linux_default_route H t of
         (Inl _, t') \<Rightarrow> (rt, t')
       | (Inr route, t') \<Rightarrow>
           (if ld_dev route \<noteq> tr_iface rt then rt\<lparr>tr_original_default_route := Some (ld_line route)\<rparr> else rt, t'))))"

definition restore_linux_original_default_route :: "host \<Rightarrow> rt_step \<Rightarrow> rt_step" where
  "restore_linux_original_default_route H s = (case s of (rt, t) \<Rightarrow>
    (case tr_original_default_route rt of
       None \<Rightarrow> (rt, t)
     | Some route \<Rightarrow>
         (case restore_linux_default_route H route t of
            (Inl _, t') \<Rightarrow> (rt, t')
          | (Inr _, t') \<Rightarrow> (rt\<lparr>tr_original_default_route := None\<rparr>, t'))))"

definition reconcile_linux_endpoint_bypass_routes ::
  "host \<Rightarrow> linux_endpoint_bypass_route list \<Rightarrow> rt_step \<Rightarrow> rt_step" where
  "reconcile_linux_endpoint_bypass_routes H routes s = (case s of (rt, t) \<Rightarrow>
    (let desired = map lb_target routes;
         stale = filter (\<lambda>r. r \<notin> set desired) (tr_endpoint_bypass_routes rt);
         t1 = fold (\<lambda>r. act_log (delete_linux_endpoint_bypass_route H r)) stale t;
         t2 = fold (\<lambda>r. act_log (apply_linux_endpoint_bypass_route H r)) routes t1
     in (rt\<lparr>tr_endpoint_bypass_routes := sort_dedup desired\<rparr>, t2)))"

section \<open>Forwarding for others\<close>

definition drop_v4_rules :: "host \<Rightarrow> string \<Rightarrow> exit_node_runtime \<Rightarrow> trace \<Rightarrow> trace" where
  "drop_v4_rules H iface x t =
    (case (en_ipv4_outbound_iface x, en_ipv4_tunnel_source_cidr x) of
       (Some outbound_iface, Some tunnel_source_cidr) \<Rightarrow>
         act_log (linux_iptables_delete_rule H FamilyV4 None (linux_exit_node_forward_in_rule iface FamilyV4))
        (act_log (linux_iptables_delete_rule H FamilyV4 None (linux_exit_node_forward_out_rule iface FamilyV4))
        (act_log (linux_iptables_delete_rule H FamilyV4 (Some ''nat'')
           (linux_exit_node_ipv4_masquerade_rule outbound_iface tunnel_source_cidr)) t))
     | _ \<Rightarrow> t)"

definition drop_v6_rules :: "host \<Rightarrow> string \<Rightarrow> exit_node_runtime \<Rightarrow> trace \<Rightarrow> trace" where
  "drop_v6_rules H iface x t =
    (if en_ipv6_outbound_iface x \<noteq> None
     then act_log (linux_iptables_delete_rule H FamilyV6 None (linux_exit_node_forward_in_rule iface FamilyV6))
         (act_log (linux_iptables_delete_rule H FamilyV6 None (linux_exit_node_forward_out_rule iface FamilyV6)) t)
     else t)"

definition restore_forwarding :: "host \<Rightarrow> ip_family \<Rightarrow> bool option \<Rightarrow> trace \<Rightarrow> trace" where
  "restore_forwarding H family was_enabled t =
    (if was_enabled = Some False then act_log (write_linux_ip_forward H family False) t else t)"

definition exit_forwarding_cleanup :: "host \<Rightarrow> rt_step \<Rightarrow> rt_step" where
  "exit_forwarding_cleanup H s = (case s of (rt, t) \<Rightarrow>
    (let x = tr_exit_node rt;
         t1 = drop_v4_rules H (tr_iface rt) x t;
         t2 = drop_v6_rules H (tr_iface rt) x t1;
         t3 = restore_forwarding H FamilyV4 (en_ipv4_forward_was_enabled x) t2;
         t4 = restore_forwarding H FamilyV6 (en_ipv6_forward_was_enabled x) t3
     in (rt\<lparr>tr_exit_node := exit_node_runtime_default\<rparr>, t4)))"

text \<open>What the host's forwarding should be: none when the exit node must be given up.\<close>

record exit_wanted =
  ew_ipv6 :: bool
  ew_source_cidr :: "string option"
  ew_ipv4_outbound :: "string option"
  ew_ipv6_outbound :: "string option"

definition exit_wanted_for :: "host \<Rightarrow> app_config \<Rightarrow> trace \<Rightarrow> exit_wanted option \<times> trace" where
  "exit_wanted_for H app t =
    (let families = linux_exit_node_default_route_families (app_effective_advertised_routes app)
     in if \<not> df_ipv4 families \<and> \<not> df_ipv6 families then (None, t)
        else if df_ipv4 families \<and> linux_exit_node_source_cidr (nd_tunnel_ip (ac_node app)) = None then (None, t)
        else (case (if df_ipv4 families then (case linux_default_route H t of
                      (Inl _, t') \<Rightarrow> (None, t') | (Inr route, t') \<Rightarrow> (Some (Some (ld_dev route)), t'))
                    else (Some None, t)) of
            (None, t1) \<Rightarrow> (None, t1)
          | (Some ipv4_outbound, t1) \<Rightarrow>
              (case (if df_ipv6 families then (case linux_default_ipv6_route H t1 of
                      (Inl _, t') \<Rightarrow> (None, t') | (Inr route, t') \<Rightarrow> (Some (ld_dev route), t'))
                    else (None, t1)) of
                 (ipv6_outbound, t2) \<Rightarrow>
                   (if \<not> df_ipv4 families \<and> ipv6_outbound = None then (None, t2)
                    else (Some \<lparr>ew_ipv6 = (ipv6_outbound \<noteq> None),
                       ew_source_cidr = (if df_ipv4 families
                         then linux_exit_node_source_cidr (nd_tunnel_ip (ac_node app)) else None),
                       ew_ipv4_outbound = ipv4_outbound, ew_ipv6_outbound = ipv6_outbound\<rparr>, t2)))))"

text \<open>Turning IPv4 forwarding on: whether it went well.\<close>

definition enable_v4_forwarding :: "host \<Rightarrow> rt_step \<Rightarrow> bool \<times> rt_step" where
  "enable_v4_forwarding H s = (case s of (rt, t) \<Rightarrow>
    (case read_linux_ip_forward H FamilyV4 t of
       (Inl _, t1) \<Rightarrow> (False, rt, t1)
     | (Inr previous, t1) \<Rightarrow>
         (let rt1 = rt\<lparr>tr_exit_node := (tr_exit_node rt)\<lparr>en_ipv4_forward_was_enabled := Some previous\<rparr>\<rparr>
          in if previous then (True, rt1, t1)
             else (case write_linux_ip_forward H FamilyV4 True t1 of
                 (Inl _, t2) \<Rightarrow> (False, rt1, t2) | (Inr _, t2) \<Rightarrow> (True, rt1, t2)))))"

definition forget_v6 :: "tunnel_runtime \<Rightarrow> tunnel_runtime" where
  "forget_v6 rt = rt\<lparr>tr_exit_node := (tr_exit_node rt)
    \<lparr>en_ipv6_forward_was_enabled := None, en_ipv6_outbound_iface := None\<rparr>\<rparr>"

text \<open>Turning IPv6 forwarding on: whether IPv6 is still wanted.\<close>

definition enable_v6_forwarding :: "host \<Rightarrow> rt_step \<Rightarrow> bool \<times> rt_step" where
  "enable_v6_forwarding H s = (case s of (rt, t) \<Rightarrow>
    (case read_linux_ip_forward H FamilyV6 t of
       (Inl _, t1) \<Rightarrow> (False, forget_v6 rt, t1)
     | (Inr previous, t1) \<Rightarrow>
         (let rt1 = rt\<lparr>tr_exit_node := (tr_exit_node rt)\<lparr>en_ipv6_forward_was_enabled := Some previous\<rparr>\<rparr>
          in if previous then (True, rt1, t1)
             else (case write_linux_ip_forward H FamilyV6 True t1 of
                 (Inl _, t2) \<Rightarrow> (False, forget_v6 rt1, t2) | (Inr _, t2) \<Rightarrow> (True, rt1, t2)))))"

definition v4_firewall :: "host \<Rightarrow> string \<Rightarrow> string \<Rightarrow> string \<Rightarrow> unit action" where
  "v4_firewall H iface outbound_iface tunnel_source_cidr =
    act_bind (linux_iptables_ensure_rule H FamilyV4 None (linux_exit_node_forward_in_rule iface FamilyV4)) (\<lambda>_.
    act_bind (linux_iptables_ensure_rule H FamilyV4 None (linux_exit_node_forward_out_rule iface FamilyV4)) (\<lambda>_.
      linux_iptables_ensure_rule H FamilyV4 (Some ''nat'')
        (linux_exit_node_ipv4_masquerade_rule outbound_iface tunnel_source_cidr)))"

definition v6_firewall :: "host \<Rightarrow> string \<Rightarrow> unit action" where
  "v6_firewall H iface =
    act_bind (linux_iptables_ensure_rule H FamilyV6 None (linux_exit_node_forward_in_rule iface FamilyV6)) (\<lambda>_.
      linux_iptables_ensure_rule H FamilyV6 None (linux_exit_node_forward_out_rule iface FamilyV6))"

definition install_exit_rules :: "host \<Rightarrow> exit_wanted \<Rightarrow> bool \<Rightarrow> rt_step \<Rightarrow> rt_step" where
  "install_exit_rules H w ipv6 s = (case s of (rt, t) \<Rightarrow>
    (case (case (ew_ipv4_outbound w, ew_source_cidr w) of
             (Some outbound_iface, Some tunnel_source_cidr) \<Rightarrow>
               v4_firewall H (tr_iface rt) outbound_iface tunnel_source_cidr t
           | _ \<Rightarrow> (Inr (), t)) of
       (Inl _, t1) \<Rightarrow> exit_forwarding_cleanup H (rt, t1)
     | (Inr _, t1) \<Rightarrow>
         (if ipv6 then (case v6_firewall H (tr_iface rt) t1 of
              (Inl _, t2) \<Rightarrow> (forget_v6 rt, t2) | (Inr _, t2) \<Rightarrow> (rt, t2))
          else (rt, t1))))"

definition set_up_exit :: "host \<Rightarrow> exit_wanted \<Rightarrow> rt_step \<Rightarrow> rt_step" where
  "set_up_exit H w s = (case exit_forwarding_cleanup H s of (rt0, t0) \<Rightarrow>
    (let s1 = (rt0\<lparr>tr_exit_node := (tr_exit_node rt0)
              \<lparr>en_ipv4_outbound_iface := ew_ipv4_outbound w, en_ipv6_outbound_iface := ew_ipv6_outbound w,
               en_ipv4_tunnel_source_cidr := ew_source_cidr w\<rparr>\<rparr>, t0)
     in (case (if ew_source_cidr w \<noteq> None then enable_v4_forwarding H s1 else (True, s1)) of
           (False, s2) \<Rightarrow> exit_forwarding_cleanup H s2
         | (True, s2) \<Rightarrow>
             (case (if ew_ipv6 w then enable_v6_forwarding H s2 else (False, s2)) of
                (ipv6, s3) \<Rightarrow> install_exit_rules H w ipv6 s3))))"

definition reconcile_linux_exit_node_forwarding :: "host \<Rightarrow> app_config \<Rightarrow> rt_step \<Rightarrow> rt_step" where
  "reconcile_linux_exit_node_forwarding H app s = (case s of (rt, t) \<Rightarrow>
    (case exit_wanted_for H app t of
       (None, t1) \<Rightarrow> exit_forwarding_cleanup H (rt, t1)
     | (Some w, t1) \<Rightarrow>
         (if en_ipv4_outbound_iface (tr_exit_node rt) = ew_ipv4_outbound w
             \<and> en_ipv6_outbound_iface (tr_exit_node rt) = ew_ipv6_outbound w
             \<and> en_ipv4_tunnel_source_cidr (tr_exit_node rt) = ew_source_cidr w
          then (rt, t1) else set_up_exit H w (rt, t1))))"

section \<open>Stopping\<close>

definition stop_tunnel :: "host \<Rightarrow> rt_step \<Rightarrow> rt_step" where
  "stop_tunnel H s =
    (case restore_linux_original_default_route H
        (exit_forwarding_cleanup H (reconcile_linux_endpoint_bypass_routes H [] s)) of (rt, t) \<Rightarrow>
      (let t1 = act_log (flush_linux_route_cache H) t;
           t2 = (if tr_handle rt then CloseDevice # t1 else t1)
       in (rt\<lparr>tr_handle := False, tr_uapi_socket_path := None, tr_last_fingerprint := None,
              tr_active_listen_port := None\<rparr>, t2)))"

section \<open>Applying a plan\<close>

definition PRIMARY_LISTEN_PORT_RETRY_ATTEMPTS :: nat where "PRIMARY_LISTEN_PORT_RETRY_ATTEMPTS = 40"

definition can_reuse_active_listen_port :: "bool \<Rightarrow> bool \<Rightarrow> u16 option \<Rightarrow> u16 \<Rightarrow> bool" where
  "can_reuse_active_listen_port handle_running config_applied active_listen_port requested_listen_port \<longleftrightarrow>
    handle_running \<and> config_applied \<and> active_listen_port = Some requested_listen_port"

definition listen_port_body :: "string \<Rightarrow> u16 \<Rightarrow> string" where
  "listen_port_body private_key_hex listen_port =
    ''private_key='' @ private_key_hex @ newline1 @ ''listen_port='' @ dec (unat listen_port)"

text \<open>One port: taken, or in use with the conflict; any other error stops.\<close>

definition try_listen_port ::
  "host \<Rightarrow> string \<Rightarrow> string \<Rightarrow> tunnel_runtime \<Rightarrow> u16 \<Rightarrow> host_error option action" where
  "try_listen_port H socket private_key_hex rt listen_port =
    (if can_reuse_active_listen_port (tr_handle rt) (tr_last_fingerprint rt \<noteq> None)
        (tr_active_listen_port rt) listen_port
     then act_return None
     else act_bind (act_try (wg_set H socket (listen_port_body private_key_hex listen_port))) (\<lambda>r.
       case r of
         Inr _ \<Rightarrow> act_return None
       | Inl error \<Rightarrow>
           if is_uapi_addr_in_use_error (uapi_error_text error) then act_return (Some error) else act_fail error))"

text \<open>The port that was taken, or the last conflict.\<close>

fun try_primary_port ::
  "host \<Rightarrow> string \<Rightarrow> string \<Rightarrow> tunnel_runtime \<Rightarrow> u16 \<Rightarrow> nat \<Rightarrow> host_error option
    \<Rightarrow> (host_error option + u16) action" where
  "try_primary_port H socket key rt port 0 conflict = act_return (Inl conflict)"
| "try_primary_port H socket key rt port (Suc n) conflict =
    act_bind (try_listen_port H socket key rt port) (\<lambda>r.
      case r of
        None \<Rightarrow> act_return (Inr port)
      | Some error \<Rightarrow> try_primary_port H socket key rt port n (Some error))"

fun try_fallback_ports ::
  "host \<Rightarrow> string \<Rightarrow> string \<Rightarrow> tunnel_runtime \<Rightarrow> u16 \<Rightarrow> u16 set \<Rightarrow> u16 list \<Rightarrow> host_error option
    \<Rightarrow> (host_error option + u16) action" where
  "try_fallback_ports H socket key rt primary attempted [] conflict = act_return (Inl conflict)"
| "try_fallback_ports H socket key rt primary attempted (port # ports) conflict =
    (if port \<in> attempted \<or> port = primary
     then try_fallback_ports H socket key rt primary (insert port attempted) ports conflict
     else act_bind (try_listen_port H socket key rt port) (\<lambda>r.
       case r of
         None \<Rightarrow> act_return (Inr port)
       | Some error \<Rightarrow> try_fallback_ports H socket key rt primary (insert port attempted) ports (Some error)))"

fun find_free_ports :: "host \<Rightarrow> nat \<Rightarrow> u16 list action" where
  "find_free_ports H 0 = act_return []"
| "find_free_ports H (Suc n) =
    act_bind (act_try (act_io (\<lambda>t. ho_port H t) FindUdpPort)) (\<lambda>r.
    act_bind (find_free_ports H n) (\<lambda>ports.
      act_return (case r of Inl _ \<Rightarrow> ports | Inr port \<Rightarrow> port # ports)))"

definition choose_listen_port :: "host \<Rightarrow> string \<Rightarrow> string \<Rightarrow> tunnel_runtime \<Rightarrow> u16 \<Rightarrow> u16 action" where
  "choose_listen_port H socket key rt primary =
    act_bind (find_free_ports H 16) (\<lambda>candidate_ports.
    act_bind (try_primary_port H socket key rt primary PRIMARY_LISTEN_PORT_RETRY_ATTEMPTS None) (\<lambda>r.
      case r of
        Inr port \<Rightarrow> act_return port
      | Inl conflict \<Rightarrow>
          act_bind (try_fallback_ports H socket key rt primary {} candidate_ports conflict) (\<lambda>r'.
            case r' of Inr port \<Rightarrow> act_return port | Inl c \<Rightarrow> act_fail (NoListenPort c))))"

definition peer_body :: "tunnel_peer \<Rightarrow> string" where
  "peer_body peer =
    ''public_key='' @ tu_pubkey_hex peer @ newline1 @ ''endpoint='' @ tu_endpoint peer @ newline1
      @ ''replace_allowed_ips=true''
      @ concat (map (\<lambda>ip. newline1 @ ''allowed_ip='' @ ip) (tu_allowed_ips peer))
      @ newline1 @ ''persistent_keepalive_interval=5''"

text \<open>What the operation sees of the node: decoders, interfaces and the control plane's addresses.\<close>

record node_view =
  nv_b64 :: "string \<Rightarrow> string option"
  nv_lower :: "string \<Rightarrow> string"
  nv_detected_ipv4 :: "ipv4_addr option"
  nv_interfaces :: "network_interface list"
  nv_control_plane_hosts :: "ipv4_addr list"

datatype apply_error = PlanFailed plan_error | HostFailed host_error

text \<open>A plan on its way to the device.\<close>

record apply_input =
  ai_app :: app_config
  ai_planned :: "planned_tunnel_peer list"
  ai_local_address :: string
  ai_route_targets :: "string list"
  ai_bypass :: "linux_endpoint_bypass_route list"
  ai_now :: u64

definition planned_tunnel_peers_of :: "apply_input \<Rightarrow> tunnel_peer list" where
  "planned_tunnel_peers_of A = map pl_peer (ai_planned A)"

text \<open>The bypass routes a plan needs, with the original default route noted or restored first.\<close>

definition prepare_routes ::
  "host \<Rightarrow> node_view \<Rightarrow> string list \<Rightarrow> tunnel_peer list \<Rightarrow> rt_step
    \<Rightarrow> (host_error + linux_endpoint_bypass_route list) \<times> rt_step" where
  "prepare_routes H V route_targets peers s =
    (case (if ''0.0.0.0/0'' \<in> set route_targets then capture_linux_original_default_route H s
           else restore_linux_original_default_route H s) of (rt, t) \<Rightarrow>
      (if route_targets_require_endpoint_bypass route_targets
       then (case linux_bypass_route_specs H (nv_control_plane_hosts V) peers (tr_iface rt)
               (tr_original_default_route rt) t of (r, t') \<Rightarrow> (r, rt, t'))
       else (Inr [], rt, t)))"

text \<open>The device and its peers: a listening port, then every peer anew.\<close>

definition configure_device :: "host \<Rightarrow> node_view \<Rightarrow> apply_input \<Rightarrow> rt_step \<Rightarrow> (host_error + unit) \<times> rt_step" where
  "configure_device H V A s = (case ensure_started H s of
     (Inl e, s1) \<Rightarrow> (Inl e, s1)
   | (Inr _, rt, t) \<Rightarrow>
       (case tr_uapi_socket_path rt of
          None \<Rightarrow> (Inl MissingUapiSocket, rt, t)
        | Some socket \<Rightarrow>
       (case key_b64_to_hex (nv_b64 V) (nd_private_key (ac_node (ai_app A))) of
          None \<Rightarrow> (Inl BadPrivateKey, rt, t)
        | Some private_key_hex \<Rightarrow>
       (case choose_listen_port H socket private_key_hex rt
            (runtime_listen_port rt (nd_listen_port (ac_node (ai_app A)))) t of
          (Inl e, t1) \<Rightarrow> (Inl e, rt, t1)
        | (Inr port, t1) \<Rightarrow>
            (let rt1 = rt\<lparr>tr_active_listen_port := Some port\<rparr>
             in (case act_bind (wg_set H socket ''replace_peers=true'') (\<lambda>_.
                   act_each (\<lambda>peer. wg_set H socket (peer_body peer)) (planned_tunnel_peers_of A)) t1 of
                   (r, t2) \<Rightarrow> (r, rt1, t2)))))))"

definition note_planned :: "planned_tunnel_peer list \<Rightarrow> u64 \<Rightarrow> peer_path_book \<Rightarrow> peer_path_book" where
  "note_planned planned now book =
    fold (\<lambda>p b. snd (note_selected (pl_participant p) (pl_endpoint p) now b)) planned book"

definition apply_plan ::
  "host \<Rightarrow> node_view \<Rightarrow> apply_input \<Rightarrow> peer_path_book \<Rightarrow> rt_step
    \<Rightarrow> (host_error + unit) \<times> peer_path_book \<times> rt_step" where
  "apply_plan H V A book s = (case configure_device H V A s of
     (Inl e, s1) \<Rightarrow> (Inl e, book, s1)
   | (Inr _, s1) \<Rightarrow>
       (case reconcile_linux_endpoint_bypass_routes H (ai_bypass A) s1 of (rt, t) \<Rightarrow>
         (case apply_local_interface_network H (tr_iface rt) (ai_local_address A) (ai_route_targets A) t of
            (Inl e, t1) \<Rightarrow> (Inl e, book, rt, t1)
          | (Inr _, t1) \<Rightarrow>
              (case reconcile_linux_exit_node_forwarding H (ai_app A)
                  (rt, act_log (flush_linux_route_cache H) t1) of (rt1, t2) \<Rightarrow>
                (let applied_fingerprint = tunnel_fingerprint (tr_iface rt1) (nd_private_key (ac_node (ai_app A)))
                       (runtime_listen_port rt1 (nd_listen_port (ac_node (ai_app A)))) (ai_local_address A)
                       (planned_tunnel_peers_of A)
                 in (Inr (), note_planned (ai_planned A) (ai_now A) book,
                     rt1\<lparr>tr_last_fingerprint :=
                       Some (tunnel_runtime_fingerprint applied_fingerprint (ai_route_targets A))\<rparr>, t2))))))"

definition plan_is_current :: "tunnel_runtime \<Rightarrow> string \<Rightarrow> bool \<Rightarrow> bool" where
  "plan_is_current rt runtime_fingerprint needs_endpoint_refresh \<longleftrightarrow>
    tr_last_fingerprint rt = Some runtime_fingerprint \<and> is_running rt \<and> \<not> needs_endpoint_refresh"

text \<open>\<open>apply\<close>: nothing is done when the fingerprint is that of the last success and no endpoint moved.\<close>

definition apply_tunnel ::
  "host \<Rightarrow> node_view \<Rightarrow> app_config \<Rightarrow> string option \<Rightarrow> announcements \<Rightarrow> u64 \<Rightarrow> peer_path_book \<Rightarrow> rt_step
    \<Rightarrow> (apply_error + unit) \<times> peer_path_book \<times> rt_step" where
  "apply_tunnel H V app own_pubkey announcements now book0 s = (case s of (rt, t0) \<Rightarrow>
    (let listen_port = runtime_listen_port rt (nd_listen_port (ac_node app));
         own_local_endpoints = runtime_local_signal_endpoints (nv_detected_ipv4 V) (nv_interfaces V) app listen_port
     in (case runtime_peer_status H (nv_lower V) rt t0 of (status, t) \<Rightarrow>
    (let runtime_peers = (case status of Inl _ \<Rightarrow> None | Inr peers \<Rightarrow> Some peers);
         book1 = snd (record_successful_runtime_paths (nv_b64 V) announcements runtime_peers book0
                   own_local_endpoints now)
     in (case planned_tunnel_peers_for_local_endpoints Linux (nv_b64 V) app own_pubkey announcements book1
            own_local_endpoints now of
           (Inl e, book) \<Rightarrow> (Inl (PlanFailed e), book, rt, t)
         | (Inr planned, book) \<Rightarrow>
             if planned = [] then (Inr (), book, stop_tunnel H (rt, t))
             else (let peers = map pl_peer planned;
                       local_address = local_interface_address_for_tunnel (nd_tunnel_ip (ac_node app));
                       fingerprint = tunnel_fingerprint (tr_iface rt) (nd_private_key (ac_node app)) listen_port
                         local_address peers;
                       needs_endpoint_refresh = runtime_peer_endpoints_require_refresh planned announcements
                         runtime_peers own_local_endpoints;
                       route_targets = route_targets_for_planned_tunnel_peers Linux app own_pubkey announcements
                         planned book runtime_peers own_local_endpoints now
                   in (case prepare_routes H V route_targets peers (rt, t) of
                         (Inl e, s1) \<Rightarrow> (Inl (HostFailed e), book, s1)
                       | (Inr bypass, rt1, t1) \<Rightarrow>
                           if plan_is_current rt1 (tunnel_runtime_fingerprint fingerprint route_targets) needs_endpoint_refresh
                           then (Inr (), book, rt1, t1)
                           else (case apply_plan H V \<lparr>ai_app = app, ai_planned = planned,
                                   ai_local_address = local_address, ai_route_targets = route_targets,
                                   ai_bypass = bypass, ai_now = now\<rparr> book (rt1, t1) of
                               (Inl e, book', s2) \<Rightarrow> (Inl (HostFailed e), book', s2)
                             | (Inr _, book', s2) \<Rightarrow> (Inr (), book', s2)))))))))"

end
