(* ===== verification/Tunnel_Plan_Safety.thy ===== *)
theory Tunnel_Plan_Safety
  imports Tunnel_Plan
begin

text \<open>
  What the tunnel's plan guarantees: every route has one owner, the default route goes to the
  selected exit node only, and the plan is made peer by peer, failing as a whole when one peer fails.
\<close>

section \<open>Owners of routes\<close>

text \<open>A participant offers a route when it announces it, a default route only as the selected exit node.\<close>

definition offers :: "string option \<Rightarrow> announcements \<Rightarrow> string \<Rightarrow> string \<Rightarrow> bool" where
  "offers selected announcements route participant =
    (case hm_get announcements participant of
       None \<Rightarrow> False
     | Some a \<Rightarrow> route \<in> set (normalized_peer_ipv4_routes a)
         \<and> (cli_is_exit_node_route route \<longrightarrow> selected = Some participant))"

lemma claim_route_get:
  "hm_get (fold (claim_route sel p) rs m) r =
    (case hm_get m r of
       Some owner \<Rightarrow> Some owner
     | None \<Rightarrow> if r \<in> set rs \<and> (cli_is_exit_node_route r \<longrightarrow> sel = Some p) then Some p else None)"
  by (induction rs arbitrary: m) (auto simp: claim_route_def hm_contains_get hm_simps split: option.split)

lemma claim_routes_get:
  "hm_get (claim_routes sel ann p m) r =
    (case hm_get m r of Some owner \<Rightarrow> Some owner | None \<Rightarrow> if offers sel ann r p then Some p else None)"
  by (auto simp: claim_routes_def offers_def claim_route_get split: option.split)

lemma fold_claim_routes_get:
  "hm_get (fold (claim_routes sel ann) ps m) r =
    (case hm_get m r of Some owner \<Rightarrow> Some owner | None \<Rightarrow> find (offers sel ann r) ps)"
  by (induction ps arbitrary: m) (simp_all add: claim_routes_get split: option.split)

lemma claim_route_wf: "hm_wf m \<Longrightarrow> hm_wf (fold (claim_route sel p) rs m)"
  by (induction rs arbitrary: m) (simp_all add: claim_route_def hm_wf_intros)

lemma fold_claim_routes_wf: "hm_wf m \<Longrightarrow> hm_wf (fold (claim_routes sel ann) ps m)"
  by (induction ps arbitrary: m) (simp_all add: claim_routes_def claim_route_wf split: option.split)

lemma route_owners_in:
  "(r, p) \<in> set (route_owners os app own ann) \<longleftrightarrow>
    find (offers (selected_exit_node_participant os app own ann) ann r) (other_participants app own) = Some p"
  (is "_ \<longleftrightarrow> ?f = Some p")
proof -
  have wf: "hm_wf (route_owners os app own ann)" by (simp add: route_owners_def fold_claim_routes_wf)
  have "hm_get (route_owners os app own ann) r = ?f"
    by (simp add: route_owners_def fold_claim_routes_get hm_simps)
  with wf show ?thesis by (metis hm_get_in hm_in_get)
qed

lemma fold_push_route:
  "(case hm_get (fold push_route owners m) p of None \<Rightarrow> [] | Some rs \<Rightarrow> rs)
    = (case hm_get m p of None \<Rightarrow> [] | Some rs \<Rightarrow> rs) @ map fst (filter (\<lambda>(r, q). q = p) owners)"
  by (induction owners arbitrary: m) (auto simp: push_route_def hm_simps split: option.split)

lemma assigned_routes_eq:
  "assigned_routes (advertised_route_assignments os app own ann) p =
    sort_dedup (map fst (filter (\<lambda>(r, q). q = p) (route_owners os app own ann)))"
  using fold_push_route [of "route_owners os app own ann" "[]" p]
  by (auto simp: assigned_routes_def advertised_route_assignments_def hm_simps sort_dedup_def split: option.splits)

lemma assigned_in:
  "r \<in> set (assigned_routes (advertised_route_assignments os app own ann) p) \<longleftrightarrow>
    find (offers (selected_exit_node_participant os app own ann) ann r) (other_participants app own) = Some p"
proof -
  have "r \<in> set (assigned_routes (advertised_route_assignments os app own ann) p)
      \<longleftrightarrow> (r, p) \<in> set (route_owners os app own ann)"
    by (force simp: assigned_routes_eq)
  then show ?thesis by (simp add: route_owners_in)
qed

text \<open>
  C26. Every announced IPv4 route is assigned to exactly one peer: the first configured participant,
  in the order of the public keys, who offers it, where a default route is offered by the
  selected exit node only. So no two peers get the same route, no peer gets one it did not announce,
  no offered route is lost, and the routes of a peer come sorted and once each.
\<close>

theorem routes_have_one_owner:
  "set (assigned_routes (advertised_route_assignments os app own ann) p)
      = {r. find (offers (selected_exit_node_participant os app own ann) ann r)
            (other_participants app own) = Some p}
   \<and> sorted_unique (assigned_routes (advertised_route_assignments os app own ann) p)"
proof
  show "set (assigned_routes (advertised_route_assignments os app own ann) p)
      = {r. find (offers (selected_exit_node_participant os app own ann) ann r)
            (other_participants app own) = Some p}"
    by (simp add: set_eq_iff assigned_in)
qed (simp add: assigned_routes_eq)

lemma assigned_route_offered:
  assumes "r \<in> set (assigned_routes (advertised_route_assignments os app own ann) p)"
  shows "offers (selected_exit_node_participant os app own ann) ann r p" "p \<in> set (other_participants app own)"
  using assms by (auto simp: assigned_in dest: find_Some_in)

section \<open>A plan is made peer by peer\<close>

text \<open>What one participant adds to a plan, from the book as it was before the loop.\<close>

definition peer_plan ::
  "plan_input \<Rightarrow> peer_path_book \<Rightarrow> string \<Rightarrow> plan_error + planned_tunnel_peer option" where
  "peer_plan I book participant =
    (case hm_get (pi_announcements I) participant of
       None \<Rightarrow> Inr None
     | Some announcement \<Rightarrow>
         (let a = without_expired_relay announcement (pi_now I);
              refreshed = snd (refresh_from_announcement participant a (pi_now I) book)
          in (case choose_endpoint refreshed participant a (pi_own_local_endpoints I) (pi_now I) of
                Inl panic \<Rightarrow> Inl (SelectPanic panic)
              | Inr selected \<Rightarrow>
                  if peer_endpoint_requires_public_signal (pi_app I) a selected (pi_own_local_endpoints I)
                  then Inr None
                  else (case tunnel_peer_from_endpoint (pi_b64 I) a selected
                          (assigned_routes (pi_routes I) participant) of
                      Inl error \<Rightarrow> Inl error
                    | Inr peer \<Rightarrow>
                        Inr (Some \<lparr>pl_participant = participant, pl_endpoint = selected, pl_peer = peer\<rparr>)))))"

lemma path_state_local: "hm_get (pb_peers b) p = hm_get (pb_peers b') p \<Longrightarrow> path_state b p = path_state b' p"
  by (simp add: path_state_def)

lemma refresh_put:
  "\<exists>st. \<forall>b. path_state b p = s \<longrightarrow> snd (refresh_from_announcement p a t b) = put_path_state p st b"
  by (simp add: refresh_from_announcement_def Let_def split_def) blast

lemma refresh_get_other:
  "q \<noteq> p \<Longrightarrow> hm_get (pb_peers (snd (refresh_from_announcement p a t b))) q = hm_get (pb_peers b) q"
  using refresh_put [of p "path_state b p" a t] by (auto simp: put_path_state_def hm_simps)

lemma refresh_get_local:
  assumes "hm_get (pb_peers b) p = hm_get (pb_peers b') p"
  shows "hm_get (pb_peers (snd (refresh_from_announcement p a t b))) p
    = hm_get (pb_peers (snd (refresh_from_announcement p a t b'))) p"
  using refresh_put [of p "path_state b p" a t] path_state_local [OF assms]
  by (auto simp: put_path_state_def hm_simps)

lemma choose_endpoint_local:
  "hm_get (pb_peers b) p = hm_get (pb_peers b') p \<Longrightarrow> choose_endpoint b p a own now = choose_endpoint b' p a own now"
  by (simp add: choose_endpoint_def select_endpoint_for_local_endpoints_def Let_def)

lemma peer_plan_local:
  assumes "hm_get (pb_peers b) p = hm_get (pb_peers b') p"
  shows "peer_plan I b p = peer_plan I b' p"
  unfolding peer_plan_def Let_def
  by (simp cong: option.case_cong add: choose_endpoint_local [OF refresh_get_local [OF assms]])

lemma plan_peers_step:
  "plan_peers I (p # ps) acc b =
    (let b' = (case hm_get (pi_announcements I) p of
         None \<Rightarrow> b
       | Some ann \<Rightarrow> snd (refresh_from_announcement p (without_expired_relay ann (pi_now I)) (pi_now I) b))
     in (case peer_plan I b p of
           Inl e \<Rightarrow> (Inl e, b')
         | Inr None \<Rightarrow> plan_peers I ps acc b'
         | Inr (Some peer) \<Rightarrow> plan_peers I ps (acc @ [peer]) b'))"
  by (simp add: peer_plan_def Let_def split: option.split sum.split)

lemma plan_peers_eq:
  assumes "distinct ps" "\<And>p. p \<in> set ps \<Longrightarrow> hm_get (pb_peers b) p = hm_get (pb_peers b0) p"
  shows "fst (plan_peers I ps acc b) =
    (case collect_targets (peer_plan I b0) ps of Inl e \<Rightarrow> Inl e | Inr peers \<Rightarrow> Inr (acc @ peers))"
  using assms
proof (induction ps arbitrary: acc b)
  case (Cons p ps)
  let ?b = "case hm_get (pi_announcements I) p of
         None \<Rightarrow> b
       | Some ann \<Rightarrow> snd (refresh_from_announcement p (without_expired_relay ann (pi_now I)) (pi_now I) b)"
  have "hm_get (pb_peers ?b) q = hm_get (pb_peers b0) q" if "q \<in> set ps" for q
  proof -
    have "q \<noteq> p" using that Cons.prems(1) by auto
    then show ?thesis using that Cons.prems(2) by (simp add: refresh_get_other split: option.split)
  qed
  note IH = Cons.IH [of ?b, OF _ this]
  have "peer_plan I b p = peer_plan I b0 p" using Cons.prems(2) [of p] by (intro peer_plan_local) simp
  then show ?case
    using IH Cons.prems(1) unfolding plan_peers_step
    by (auto simp: Let_def split: sum.split option.split)
qed simp

lemma choose_endpoint_answers:
  assumes "book_inv b"
  shows "\<exists>e. choose_endpoint b p a own now = Inr e"
proof (cases "hm_get (pb_peers b) p")
  case None
  then show ?thesis by (simp add: choose_endpoint_def select_endpoint_for_local_endpoints_def Let_def)
next
  case (Some st)
  show ?thesis
  proof (cases "ps_endpoints st = []")
    case True
    with Some show ?thesis by (simp add: choose_endpoint_def select_endpoint_for_local_endpoints_def Let_def)
  next
    case False
    show ?thesis
      by (rule select_endpoint_cases [OF Some book_inv_get [OF assms Some] False, where a = a and own = own
            and now = now and retry = PEER_PATH_RETRY_AFTER_SECS]) (simp_all add: choose_endpoint_def)
  qed
qed

lemma peer_plan_no_panic:
  assumes "book_inv b"
  shows "peer_plan I b p \<noteq> Inl (SelectPanic panic)"
proof -
  have "\<exists>e. choose_endpoint (snd (refresh_from_announcement p a t b)) p a own now = Inr e" for a own now t
    by (rule choose_endpoint_answers [OF refresh_inv [OF assms]])
  then show ?thesis
    by (auto simp: peer_plan_def tunnel_peer_from_endpoint_def Let_def split: option.splits sum.splits if_splits)
      (metis Inl_Inr_False)
qed

lemma collect_targets_Inl:
  "(\<exists>e. collect_targets f xs = Inl e) \<longleftrightarrow> (\<exists>x \<in> set xs. \<exists>e. f x = Inl e)"
  by (induction xs) (auto split: sum.splits option.splits)

lemma collect_targets_Inl_in: "collect_targets f xs = Inl e \<Longrightarrow> \<exists>x \<in> set xs. f x = Inl e"
  by (induction xs) (auto split: sum.splits option.splits)

lemma collect_targets_Inr_in: "collect_targets f xs = Inr ts \<Longrightarrow> set ts = {t. \<exists>x \<in> set xs. f x = Inr (Some t)}"
  by (induction xs arbitrary: ts) (auto split: sum.splits option.splits)


text \<open>The inputs of a plan as the code gathers them.\<close>

definition plan_input_for ::
  "target_os \<Rightarrow> (string \<Rightarrow> string option) \<Rightarrow> app_config \<Rightarrow> string option \<Rightarrow> announcements
    \<Rightarrow> string list \<Rightarrow> u64 \<Rightarrow> plan_input" where
  "plan_input_for os b64 app own_pubkey announcements own_local_endpoints now =
    \<lparr>pi_b64 = b64, pi_app = app, pi_announcements = announcements,
     pi_routes = advertised_route_assignments os app own_pubkey announcements,
     pi_own_local_endpoints = own_local_endpoints, pi_now = now\<rparr>"

lemma other_participants_distinct: "distinct (other_participants app own)"
  by (metis other_participants_def participant_pubkeys_hex_def sorted_unique_def sorted_unique_filter
      sorted_unique_sort_dedup)

lemma planned_eq:
  "fst (planned_tunnel_peers_for_local_endpoints os b64 app own ann book own_local now) =
    (case collect_targets (peer_plan (plan_input_for os b64 app own ann own_local now)
          (retain_participants (set (other_participants app own)) book)) (other_participants app own) of
       Inl error \<Rightarrow> Inl error
     | Inr peers \<Rightarrow> Inr (sort_key (tu_pubkey_hex \<circ> pl_peer) peers))"
  using plan_peers_eq [OF other_participants_distinct [of app own] refl, where
        I = "plan_input_for os b64 app own ann own_local now"
      and b = "retain_participants (set (other_participants app own)) book" and acc = "[]"]
  by (auto simp: planned_tunnel_peers_for_local_endpoints_def plan_input_for_def Let_def
      split: sum.splits prod.splits)

text \<open>
  C25. The tunnel is planned peer by peer, each from its own announcement and its own tracked
  paths, and all or nothing: planning fails exactly when some configured participant's plan fails,
  with such an error, and never with a failed expectation on a reachable book. So one announcement with
  a bad key or an endpoint that does not parse leaves the node without a plan for everybody. Otherwise
  the plan holds exactly the peers of the participants that have one, in the order of their keys.
\<close>

theorem plan_is_all_or_nothing:
  assumes "book = fold path_step evs book_new"
  shows "case fst (planned_tunnel_peers_for_local_endpoints os b64 app own ann book own_local now) of
      Inl error \<Rightarrow> (\<exists>p \<in> set (other_participants app own).
        peer_plan (plan_input_for os b64 app own ann own_local now)
          (retain_participants (set (other_participants app own)) book) p = Inl error)
        \<and> (\<forall>panic. error \<noteq> SelectPanic panic)
    | Inr peers \<Rightarrow> (\<forall>p \<in> set (other_participants app own). \<exists>planned.
        peer_plan (plan_input_for os b64 app own ann own_local now)
          (retain_participants (set (other_participants app own)) book) p = Inr planned)
        \<and> set peers = {planned. \<exists>p \<in> set (other_participants app own).
             peer_plan (plan_input_for os b64 app own ann own_local now)
               (retain_participants (set (other_participants app own)) book) p = Inr (Some planned)}
        \<and> sorted (map (tu_pubkey_hex \<circ> pl_peer) peers)"
proof -
  let ?ps = "other_participants app own"
  let ?plan = "peer_plan (plan_input_for os b64 app own ann own_local now) (retain_participants (set ?ps) book)"
  have inv: "book_inv (retain_participants (set ?ps) book)"
    unfolding assms by (intro retain_participants_inv path_run.run_inv) (simp add: book_inv_def book_new_def)
  show ?thesis
  proof (cases "collect_targets ?plan ?ps")
    case (Inl error)
    with collect_targets_Inl_in [OF Inl] show ?thesis
      by (auto simp: planned_eq peer_plan_no_panic [OF inv])
  next
    case (Inr peers)
    then have "\<forall>p \<in> set ?ps. \<exists>planned. ?plan p = Inr planned"
      using collect_targets_Inl [of ?plan ?ps] by (metis Inr_Inl_False sumE)
    with Inr show ?thesis
      by (simp add: planned_eq collect_targets_Inr_in [OF Inr])
  qed
qed

lemma peer_plan_allowed_ips:
  assumes "peer_plan I b p = Inr (Some planned)"
  shows "pl_participant planned = p \<and>
    (\<exists>a. hm_get (pi_announcements I) p = Some a \<and> set (tu_allowed_ips (pl_peer planned))
      = insert (cli_strip_cidr (pa_tunnel_ip a) @ ''/32'') (set (assigned_routes (pi_routes I) p)))"
proof -
  have fold_push: "set (fold push_unseen xs ys) = set ys \<union> set xs" for xs ys :: "string list"
    by (induction xs arbitrary: ys) (auto simp: push_unseen_def)
  have tunnel_ip: "pa_tunnel_ip (without_expired_relay a t) = pa_tunnel_ip a" for a t
    by (simp add: without_expired_relay_def)
  from assms show ?thesis
    by (auto simp: peer_plan_def tunnel_peer_from_endpoint_def Let_def fold_push tunnel_ip
        split: option.splits sum.splits if_splits)
qed


section \<open>What a peer may send through the tunnel\<close>

lemma offers_in: "offers sel ann r p \<Longrightarrow> \<exists>a. hm_get ann p = Some a \<and> r \<in> set (normalized_peer_ipv4_routes a)"
  by (auto simp: offers_def split: option.splits)

lemma planned_peer:
  assumes "fst (planned_tunnel_peers_for_local_endpoints os b64 app own ann book own_local now) = Inr peers"
    and "planned \<in> set peers"
  shows "pl_participant planned \<in> set (other_participants app own)"
    and "\<exists>a. hm_get ann (pl_participant planned) = Some a \<and> set (tu_allowed_ips (pl_peer planned))
      = insert (cli_strip_cidr (pa_tunnel_ip a) @ ''/32'')
          (set (assigned_routes (advertised_route_assignments os app own ann) (pl_participant planned)))"
proof -
  let ?I = "plan_input_for os b64 app own ann own_local now"
  obtain p b where p: "p \<in> set (other_participants app own)" "peer_plan ?I b p = Inr (Some planned)"
    using assms by (auto simp: planned_eq collect_targets_Inr_in split: sum.splits)
  from peer_plan_allowed_ips [OF p(2)] p(1)
  show "pl_participant planned \<in> set (other_participants app own)"
    and "\<exists>a. hm_get ann (pl_participant planned) = Some a \<and> set (tu_allowed_ips (pl_peer planned))
      = insert (cli_strip_cidr (pa_tunnel_ip a) @ ''/32'')
          (set (assigned_routes (advertised_route_assignments os app own ann) (pl_participant planned)))"
    by (auto simp: plan_input_for_def)
qed

lemma host_route_not_default: "x @ ''/32'' \<noteq> ''0.0.0.0/0''"
proof
  assume "x @ ''/32'' = ''0.0.0.0/0''"
  then have "last (x @ ''/32'') = last ''0.0.0.0/0''" by (rule arg_cong)
  then show False by simp
qed

text \<open>
  C24. A planned peer may use its announced tunnel address, which nobody checks, and the routes it
  announced and owns; the default route is used by no peer but the selected exit node, who announced
  it. Two planned peers share an address range only when it is the tunnel address one of them
  announced.
\<close>

theorem allowed_ips_are_owned:
  assumes plan: "fst (planned_tunnel_peers_for_local_endpoints os b64 app own ann book own_local now) = Inr peers"
    and planned: "planned \<in> set peers" and r: "r \<in> set (tu_allowed_ips (pl_peer planned))"
  shows "\<exists>a. hm_get ann (pl_participant planned) = Some a
    \<and> (r = cli_strip_cidr (pa_tunnel_ip a) @ ''/32'' \<or> r \<in> set (normalized_peer_ipv4_routes a))
    \<and> (r = ''0.0.0.0/0'' \<longrightarrow>
        selected_exit_node_participant os app own ann = Some (pl_participant planned)
        \<and> pl_participant planned = ac_exit_node app \<and> own \<noteq> Some (ac_exit_node app))
    \<and> (\<forall>planned' \<in> set peers. pl_participant planned' \<noteq> pl_participant planned
        \<longrightarrow> r \<in> set (tu_allowed_ips (pl_peer planned'))
        \<longrightarrow> (\<exists>q a'. q \<in> {pl_participant planned, pl_participant planned'} \<and> hm_get ann q = Some a'
              \<and> r = cli_strip_cidr (pa_tunnel_ip a') @ ''/32''))"
proof -
  let ?assigned = "\<lambda>p. set (assigned_routes (advertised_route_assignments os app own ann) p)"
  obtain a where a: "hm_get ann (pl_participant planned) = Some a"
      "set (tu_allowed_ips (pl_peer planned))
        = insert (cli_strip_cidr (pa_tunnel_ip a) @ ''/32'') (?assigned (pl_participant planned))"
    using planned_peer(2) [OF plan planned] by blast
  have routes: "r = cli_strip_cidr (pa_tunnel_ip a) @ ''/32'' \<or> r \<in> set (normalized_peer_ipv4_routes a)"
    using r a offers_in [OF assigned_route_offered(1)] by fastforce
  have default: "selected_exit_node_participant os app own ann = Some (pl_participant planned)
      \<and> pl_participant planned = ac_exit_node app \<and> own \<noteq> Some (ac_exit_node app)" if "r = ''0.0.0.0/0''"
  proof -
    have "r \<in> ?assigned (pl_participant planned)"
      using r a(2) that host_route_not_default [of "cli_strip_cidr (pa_tunnel_ip a)"] by auto
    from assigned_route_offered(1) [OF this]
    have sel: "selected_exit_node_participant os app own ann = Some (pl_participant planned)"
      by (simp add: offers_def cli_is_exit_node_route_def that split: option.splits)
    then show ?thesis
      by (auto simp: selected_exit_node_participant_def split: if_splits option.splits)
  qed
  have shared: "\<exists>q a'. q \<in> {pl_participant planned, pl_participant planned'} \<and> hm_get ann q = Some a'
      \<and> r = cli_strip_cidr (pa_tunnel_ip a') @ ''/32''"
    if p': "planned' \<in> set peers" "pl_participant planned' \<noteq> pl_participant planned"
      "r \<in> set (tu_allowed_ips (pl_peer planned'))" for planned'
  proof -
    obtain a' where a': "hm_get ann (pl_participant planned') = Some a'"
        "set (tu_allowed_ips (pl_peer planned'))
          = insert (cli_strip_cidr (pa_tunnel_ip a') @ ''/32'') (?assigned (pl_participant planned'))"
      using planned_peer(2) [OF plan p'(1)] by blast
    have "\<not> (r \<in> ?assigned (pl_participant planned) \<and> r \<in> ?assigned (pl_participant planned'))"
      using p'(2) by (auto simp: assigned_in)
    then show ?thesis using r p'(3) a a' by auto
  qed
  show ?thesis
    by (rule exI [of _ a]) (use a(1) routes default shared in blast)
qed

section \<open>Plans of a small mesh\<close>

definition sample_b64 :: "string \<Rightarrow> string option" where
  "sample_b64 s = (if s = [] then None else Some (replicate 31 (CHR ''k'') @ [last s]))"

definition sample_peer :: "string \<Rightarrow> string list \<Rightarrow> peer_announcement" where
  "sample_peer key routes =
    (sample_announcement ''n'' 100)\<lparr>pa_public_key := key, pa_advertised_routes := routes\<rparr>"

text \<open>Both peers announce the same route, a default route and the same tunnel address.\<close>

definition sample_mesh :: announcements where
  "sample_mesh = [(''bb22'', sample_peer ''K2'' [''10.9.0.0/16'', ''0.0.0.0/0'']),
                  (''cc33'', sample_peer ''K3'' [''10.9.1.7/16'', ''0.0.0.0/0''])]"

definition sample_plan :: "announcements \<Rightarrow> (plan_error + planned_tunnel_peer list) \<times> peer_path_book" where
  "sample_plan ann = planned_tunnel_peers_for_local_endpoints Linux sample_b64
    (sample_config\<lparr>ac_exit_node := ''cc33''\<rparr>) (Some ''aa11'') ann book_new [] 20"

definition sample_planned :: "string \<Rightarrow> char \<Rightarrow> string list \<Rightarrow> planned_tunnel_peer" where
  "sample_planned p k ips = \<lparr>pl_participant = p, pl_endpoint = ''203.0.113.20:51820'',
     pl_peer = \<lparr>tu_pubkey_hex = hex_encode (replicate 31 (CHR ''k'') @ [k]), tu_endpoint = ''203.0.113.20:51820'',
       tu_allowed_ips = ips\<rparr>\<rparr>"

text \<open>The announced tunnel address of one peer is the other one's as well: both are configured with it.\<close>

lemma sample_plan_peers:
  "fst (sample_plan sample_mesh) = Inr
    [sample_planned ''bb22'' (CHR ''2'') [''10.44.0.2/32'', ''10.9.0.0/16''],
     sample_planned ''cc33'' (CHR ''3'') [''10.44.0.2/32'', ''0.0.0.0/0'']]"
  by code_simp

text \<open>A default route in the plan is the exit node's, and an address used by both was announced.\<close>

lemma allowed_ips_are_owned_witness:
  "selected_exit_node_participant Linux (sample_config\<lparr>ac_exit_node := ''cc33''\<rparr>) (Some ''aa11'') sample_mesh
      = Some ''cc33''"
proof -
  have "\<exists>a. hm_get sample_mesh ''cc33'' = Some a
    \<and> (''0.0.0.0/0'' = cli_strip_cidr (pa_tunnel_ip a) @ ''/32'' \<or> ''0.0.0.0/0'' \<in> set (normalized_peer_ipv4_routes a))
    \<and> (''0.0.0.0/0'' = ''0.0.0.0/0'' \<longrightarrow>
        selected_exit_node_participant Linux (sample_config\<lparr>ac_exit_node := ''cc33''\<rparr>) (Some ''aa11'') sample_mesh
          = Some ''cc33'')"
    using allowed_ips_are_owned [OF sample_plan_peers [unfolded sample_plan_def], of
        "sample_planned ''cc33'' (CHR ''3'') [''10.44.0.2/32'', ''0.0.0.0/0'']" "''0.0.0.0/0''"]
    by (fastforce simp: sample_planned_def)
  then show ?thesis by blast
qed

text \<open>A key that cannot be decoded leaves the mesh without a plan.\<close>

lemma plan_is_all_or_nothing_witness:
  "fst (sample_plan ((''bb22'', sample_peer [] []) # sample_mesh)) = Inl (InvalidPeerKey [])
   \<and> (\<exists>p \<in> {''bb22'', ''cc33''}. peer_plan
        (plan_input_for Linux sample_b64 (sample_config\<lparr>ac_exit_node := ''cc33''\<rparr>) (Some ''aa11'')
          ((''bb22'', sample_peer [] []) # sample_mesh) [] 20)
        (retain_participants {''bb22'', ''cc33''} book_new) p = Inl (InvalidPeerKey []))"
proof -
  have others: "other_participants (sample_config\<lparr>ac_exit_node := ''cc33''\<rparr>) (Some ''aa11'') = [''bb22'', ''cc33'']"
    by code_simp
  have bad: "fst (sample_plan ((''bb22'', sample_peer [] []) # sample_mesh)) = Inl (InvalidPeerKey [])"
    by code_simp
  show ?thesis
    using plan_is_all_or_nothing [where book = book_new and evs = "[]" and os = Linux and ?b64.0 = sample_b64
        and app = "sample_config\<lparr>ac_exit_node := ''cc33''\<rparr>" and own = "Some ''aa11''"
        and ann = "(''bb22'', sample_peer [] []) # sample_mesh" and own_local = "[]" and now = 20]
    unfolding bad [unfolded sample_plan_def] others by (simp add: bad)
qed

end
