(* ===== verification/Linux_Tunnel_Safety.thy ===== *)
theory Linux_Tunnel_Safety
  imports Linux_Tunnel Tunnel_Plan_Safety
begin

text \<open>
  What applying and stopping a tunnel guarantees on Linux: the peers the device is told of, what a
  failed application leaves behind, and that forwarding turned on for others is turned off again.
\<close>

section \<open>Forwarding\<close>

fun last_written :: "string \<Rightarrow> trace \<Rightarrow> string option" where
  "last_written path [] = None"
| "last_written path (c # t) =
    (case c of WriteFile p text \<Rightarrow> if p = path then Some text else last_written path t
     | _ \<Rightarrow> last_written path t)"

definition v4_path :: string where "v4_path = linux_ip_forward_path FamilyV4"

text \<open>Commands that do not touch the IPv4 switch.\<close>

definition leaves_v4 :: "os_command \<Rightarrow> bool" where
  "leaves_v4 c \<longleftrightarrow> (\<forall>text. c \<noteq> WriteFile v4_path text)"

lemma leaves_v4_simps [simp]:
  "leaves_v4 (Run args)" "leaves_v4 (ReadFile p)" "leaves_v4 (OpenDevice d)" "leaves_v4 CloseDevice"
  "leaves_v4 (WaitForSocket p)" "leaves_v4 FindUdpPort" "leaves_v4 (Uapi p r)"
  "leaves_v4 (WriteFile p text) \<longleftrightarrow> p \<noteq> v4_path"
  by (simp_all add: leaves_v4_def)

lemma last_written_leaves: "list_all leaves_v4 new \<Longrightarrow> last_written v4_path (new @ t) = last_written v4_path t"
  by (induction new) (auto simp: leaves_v4_def split: os_command.split)

lemma last_written_adds: "adds leaves_v4 m \<Longrightarrow> last_written v4_path (snd (m t)) = last_written v4_path t"
  by (metis adds_def last_written_leaves)

lemma last_written_log: "adds leaves_v4 m \<Longrightarrow> last_written v4_path (act_log m t) = last_written v4_path t"
  by (simp add: act_log_def last_written_adds)

lemma last_written_fold_log:
  "(\<And>x. adds leaves_v4 (f x)) \<Longrightarrow> last_written v4_path (fold (\<lambda>x. act_log (f x)) xs t) = last_written v4_path t"
  by (induction xs arbitrary: t) (simp_all add: last_written_log)

lemmas routing_action_defs =
  linux_default_route_def linux_default_ipv6_route_def linux_default_route_for_family_def
  restore_linux_default_route_def flush_linux_route_cache_def apply_linux_endpoint_bypass_route_def
  delete_linux_endpoint_bypass_route_def read_linux_ip_forward_def linux_iptables_rule_exists_def
  linux_iptables_ensure_rule_def linux_iptables_delete_rule_def v4_firewall_def v6_firewall_def

lemma adds_case_option [adds_intros]:
  "adds P m \<Longrightarrow> (\<And>x. adds P (f x)) \<Longrightarrow> adds P (case v of None \<Rightarrow> m | Some x \<Rightarrow> f x)"
  by (cases v) simp_all

lemma adds_case_sum [adds_intros]:
  "(\<And>e. adds P (m e)) \<Longrightarrow> (\<And>x. adds P (f x)) \<Longrightarrow> adds P (case v of Inl e \<Rightarrow> m e | Inr x \<Rightarrow> f x)"
  by (cases v) simp_all

lemma routing_leaves_v4 [simp]:
  "adds leaves_v4 (linux_default_route H)" "adds leaves_v4 (linux_default_ipv6_route H)"
  "adds leaves_v4 (restore_linux_default_route H r)" "adds leaves_v4 (flush_linux_route_cache H)"
  "adds leaves_v4 (apply_linux_endpoint_bypass_route H b)" "adds leaves_v4 (delete_linux_endpoint_bypass_route H r)"
  "adds leaves_v4 (read_linux_ip_forward H family)"
  "adds leaves_v4 (linux_iptables_ensure_rule H family table rule)"
  "adds leaves_v4 (linux_iptables_delete_rule H family table rule)"
  "adds leaves_v4 (v4_firewall H iface o' cidr)" "adds leaves_v4 (v6_firewall H iface)"
  unfolding routing_action_defs Let_def by (intro adds_intros; simp)+

lemma write_v6_leaves_v4 [simp]: "adds leaves_v4 (write_linux_ip_forward H FamilyV6 b)"
  unfolding write_linux_ip_forward_def Let_def
  by (intro adds_intros) (simp add: v4_path_def)

lemma write_v4_last [simp]:
  "last_written v4_path (snd (write_linux_ip_forward H FamilyV4 b t)) = Some (if b then ''1'' else ''0'')"
  by (simp add: write_linux_ip_forward_def Let_def act_io_def v4_path_def)

text \<open>The runtime remembers to turn IPv4 forwarding off whenever it was the last to turn it on.\<close>

definition v4_owed :: "rt_step \<Rightarrow> bool" where
  "v4_owed s \<longleftrightarrow> (last_written v4_path (snd s) = Some ''1''
    \<longrightarrow> en_ipv4_forward_was_enabled (tr_exit_node (fst s)) = Some False)"

definition v4_off :: "rt_step \<Rightarrow> bool" where
  "v4_off s \<longleftrightarrow> last_written v4_path (snd s) \<noteq> Some ''1''"

lemma v4_off_owed: "v4_off s \<Longrightarrow> v4_owed s"
  by (simp add: v4_off_def v4_owed_def)

lemma cleanup_v4_off:
  assumes "v4_owed s"
  shows "v4_off (exit_forwarding_cleanup H s)"
proof -
  obtain rt t where s: "s = (rt, t)" by (cases s)
  have rules: "last_written v4_path (drop_v4_rules H i x t) = last_written v4_path t"
    "last_written v4_path (drop_v6_rules H i x t) = last_written v4_path t"
    "last_written v4_path (restore_forwarding H FamilyV6 w t) = last_written v4_path t" for i x w t
    by (simp_all add: drop_v4_rules_def drop_v6_rules_def restore_forwarding_def last_written_log
        split: option.split)
  show ?thesis
    using assms by (auto simp: s exit_forwarding_cleanup_def Let_def v4_off_def v4_owed_def rules
        restore_forwarding_def [of H FamilyV4] act_log_def)
qed

lemma enable_v4_owed:
  assumes "v4_off s"
  shows "v4_owed (snd (enable_v4_forwarding H s))"
proof -
  obtain rt t where s: "s = (rt, t)" by (cases s)
  obtain r t1 where read: "read_linux_ip_forward H FamilyV4 t = (r, t1)" by fastforce
  have t1: "last_written v4_path t1 \<noteq> Some ''1''"
    using last_written_adds [of "read_linux_ip_forward H FamilyV4" t] assms by (simp add: read s v4_off_def)
  obtain r' t2 where wr: "write_linux_ip_forward H FamilyV4 True t1 = (r', t2)" by fastforce
  show ?thesis
    using t1 by (cases r; cases r') (simp_all add: s enable_v4_forwarding_def read wr v4_owed_def Let_def)
qed

lemma v6_keeps_v4:
  "last_written v4_path (snd (snd (enable_v6_forwarding H s))) = last_written v4_path (snd s)
   \<and> en_ipv4_forward_was_enabled (tr_exit_node (fst (snd (enable_v6_forwarding H s))))
     = en_ipv4_forward_was_enabled (tr_exit_node (fst s))"
proof -
  obtain rt t where s: "s = (rt, t)" by (cases s)
  obtain r t1 where read: "read_linux_ip_forward H FamilyV6 t = (r, t1)" by fastforce
  obtain r' t2 where wr: "write_linux_ip_forward H FamilyV6 True t1 = (r', t2)" by fastforce
  have "last_written v4_path t1 = last_written v4_path t" "last_written v4_path t2 = last_written v4_path t1"
    using last_written_adds [of "read_linux_ip_forward H FamilyV6" t]
      last_written_adds [of "write_linux_ip_forward H FamilyV6 True" t1] by (simp_all add: read wr)
  then show ?thesis
    by (cases r; cases r') (simp_all add: s enable_v6_forwarding_def read wr Let_def forget_v6_def)
qed

lemma install_rules_owed:
  assumes "v4_owed s"
  shows "v4_owed (install_exit_rules H w ipv6 s)"
proof -
  obtain rt t where s: "s = (rt, t)" by (cases s)
  define rules where "rules = (case (ew_ipv4_outbound w, ew_source_cidr w) of
      (Some outbound_iface, Some tunnel_source_cidr) \<Rightarrow>
        v4_firewall H (tr_iface rt) outbound_iface tunnel_source_cidr t
    | _ \<Rightarrow> (Inr (), t))"
  have rules: "last_written v4_path (snd rules) = last_written v4_path t"
    by (simp add: rules_def last_written_adds split: option.split)
  obtain r t1 where r: "rules = (r, t1)" by (cases rules)
  obtain r' t2 where v6: "v6_firewall H (tr_iface rt) t1 = (r', t2)" by fastforce
  have t2: "last_written v4_path t2 = last_written v4_path t1"
    using last_written_adds [of "v6_firewall H (tr_iface rt)" t1] by (simp add: v6)
  have owed: "v4_owed (rt, t1)" using assms rules by (simp add: v4_owed_def s r)
  show ?thesis
  proof (cases r)
    case (Inl e)
    then show ?thesis
      using v4_off_owed [OF cleanup_v4_off [OF owed], of H] r
      unfolding install_exit_rules_def s prod.case [of _ rt t] rules_def [symmetric] by simp
  next
    case (Inr u)
    then show ?thesis
      using owed t2 r v6
      unfolding install_exit_rules_def s prod.case [of _ rt t] rules_def [symmetric]
      by (cases r') (simp_all add: v4_owed_def forget_v6_def)
  qed
qed

lemma set_up_exit_owed:
  assumes "v4_owed s"
  shows "v4_owed (set_up_exit H w s)"
proof -
  obtain rt0 t0 where clean: "exit_forwarding_cleanup H s = (rt0, t0)" by fastforce
  define s1 where "s1 = (rt0\<lparr>tr_exit_node := (tr_exit_node rt0)
              \<lparr>en_ipv4_outbound_iface := ew_ipv4_outbound w, en_ipv6_outbound_iface := ew_ipv6_outbound w,
               en_ipv4_tunnel_source_cidr := ew_source_cidr w\<rparr>\<rparr>, t0)"
  have off: "v4_off s1" using cleanup_v4_off [OF assms, of H] by (simp add: clean s1_def v4_off_def)
  obtain ok s2 where v4: "(if ew_source_cidr w \<noteq> None then enable_v4_forwarding H s1 else (True, s1)) = (ok, s2)"
    by (metis prod.exhaust)
  have owed2: "v4_owed s2"
    using v4 enable_v4_owed [OF off, of H] v4_off_owed [OF off] by (auto split: if_splits)
  obtain ipv6 s3 where v6: "(if ew_ipv6 w then enable_v6_forwarding H s2 else (False, s2)) = (ipv6, s3)"
    by (metis prod.exhaust)
  have owed3: "v4_owed s3"
    using v6 owed2 v6_keeps_v4 [of H s2] by (auto simp: v4_owed_def split: if_splits)
  show ?thesis
    using cleanup_v4_off [OF owed2, of H] install_rules_owed [OF owed3, of H w ipv6]
    unfolding set_up_exit_def clean prod.case Let_def s1_def [symmetric] v4
    by (cases ok) (simp_all add: v6 v4_off_owed)
qed

lemma exit_wanted_leaves_v4: "last_written v4_path (snd (exit_wanted_for H app t)) = last_written v4_path t"
proof -
  have v4: "last_written v4_path t' = last_written v4_path t" if "linux_default_route H t = (r, t')" for r t t'
    using that last_written_adds [of "linux_default_route H" t] by simp
  have v6: "last_written v4_path t' = last_written v4_path t" if "linux_default_ipv6_route H t = (r, t')" for r t t'
    using that last_written_adds [of "linux_default_ipv6_route H" t] by simp
  obtain r1 t1 where r1: "linux_default_route H t = (r1, t1)" by fastforce
  obtain r2 t2 where r2: "linux_default_ipv6_route H t = (r2, t2)" by fastforce
  obtain r3 t3 where r3: "linux_default_ipv6_route H t1 = (r3, t3)" by fastforce
  show ?thesis
    using v4 [OF r1] v6 [OF r2] v6 [OF r3] by (simp add: exit_wanted_for_def Let_def r1 r2 r3 split: sum.split)
qed

lemma reconcile_exit_owed:
  assumes "v4_owed s"
  shows "v4_owed (reconcile_linux_exit_node_forwarding H app s)"
proof -
  obtain rt t where s: "s = (rt, t)" by (cases s)
  obtain w t1 where w: "exit_wanted_for H app t = (w, t1)" by fastforce
  have "v4_owed (rt, t1)"
    using assms exit_wanted_leaves_v4 [of H app t] by (simp add: w s v4_owed_def)
  then show ?thesis
    using cleanup_v4_off [of "(rt, t1)" H] set_up_exit_owed [of "(rt, t1)" H]
    by (cases w) (simp_all add: s reconcile_linux_exit_node_forwarding_def w v4_off_owed)
qed


text \<open>An operation that only adds harmless commands and keeps the exit node's state keeps the debt as it is.\<close>

lemma owed_same:
  "v4_owed (rt, t) \<Longrightarrow> tr_exit_node rt' = tr_exit_node rt \<Longrightarrow> last_written v4_path t' = last_written v4_path t
    \<Longrightarrow> v4_owed (rt', t')"
  by (simp add: v4_owed_def)

lemma bypass_same:
  "last_written v4_path (snd (reconcile_linux_endpoint_bypass_routes H routes s)) = last_written v4_path (snd s)
   \<and> tr_exit_node (fst (reconcile_linux_endpoint_bypass_routes H routes s)) = tr_exit_node (fst s)"
  by (cases s) (simp add: reconcile_linux_endpoint_bypass_routes_def Let_def last_written_fold_log)

lemma restore_route_same:
  "last_written v4_path (snd (restore_linux_original_default_route H s)) = last_written v4_path (snd s)
   \<and> tr_exit_node (fst (restore_linux_original_default_route H s)) = tr_exit_node (fst s)"
proof (cases s)
  case (Pair rt t)
  show ?thesis
  proof (cases "tr_original_default_route rt")
    case (Some route)
    obtain r t' where r: "restore_linux_default_route H route t = (r, t')" by fastforce
    have "last_written v4_path t' = last_written v4_path t"
      using last_written_adds [of "restore_linux_default_route H route" t] by (simp add: r)
    then show ?thesis
      by (cases r) (simp_all add: restore_linux_original_default_route_def Pair Some r)
  qed (simp add: restore_linux_original_default_route_def Pair)
qed

lemma capture_route_same:
  "last_written v4_path (snd (capture_linux_original_default_route H s)) = last_written v4_path (snd s)
   \<and> tr_exit_node (fst (capture_linux_original_default_route H s)) = tr_exit_node (fst s)"
proof (cases s)
  case (Pair rt t)
  obtain r t' where r: "linux_default_route H t = (r, t')" by fastforce
  have "last_written v4_path t' = last_written v4_path t"
    using last_written_adds [of "linux_default_route H" t] by (simp add: r)
  then show ?thesis
    by (cases r) (simp_all add: capture_linux_original_default_route_def Pair r)
qed

lemma stop_v4_off:
  assumes "v4_owed s"
  shows "v4_off (stop_tunnel H s)"
proof -
  have "v4_owed (reconcile_linux_endpoint_bypass_routes H [] s)"
    using assms bypass_same [of H "[]" s] by (simp add: v4_owed_def)
  then have off: "v4_off (restore_linux_original_default_route H
      (exit_forwarding_cleanup H (reconcile_linux_endpoint_bypass_routes H [] s)))"
    using cleanup_v4_off restore_route_same by (metis v4_off_def)
  obtain rt t where "restore_linux_original_default_route H
      (exit_forwarding_cleanup H (reconcile_linux_endpoint_bypass_routes H [] s)) = (rt, t)" by fastforce
  with off show ?thesis
    by (simp add: stop_tunnel_def Let_def v4_off_def last_written_log)
qed

lemma bypass_routes_leave_v4 [adds_intros]: "adds leaves_v4 (bypass_routes_for H i d hosts routes)"
  by (induction hosts arbitrary: routes) (simp_all add: adds_intros)

lemma uapi_leaves_v4 [adds_intros]: "adds leaves_v4 (uapi_call H socket request)" "adds leaves_v4 (wg_set H socket body)"
  unfolding wg_set_def uapi_call_def by (intro adds_intros; simp)+

lemma device_leaves_v4 [adds_intros]: "adds leaves_v4 (open_device H i cs busy)"
  by (induction cs arbitrary: busy)
    (auto simp: adds_intros split: sum.split host_error.split intro!: adds_intros)

lemma ports_leave_v4 [adds_intros]: "adds leaves_v4 (choose_listen_port H socket key rt primary)"
proof -
  have one: "adds leaves_v4 (try_listen_port H socket key rt port)" for port
    unfolding try_listen_port_def by (intro adds_intros)
  have "adds leaves_v4 (find_free_ports H n)" for n
    by (induction n) (simp_all add: adds_intros)
  moreover have "adds leaves_v4 (try_primary_port H socket key rt port n c)" for port n c
    by (induction n arbitrary: c) (simp_all add: adds_intros one)
  moreover have "adds leaves_v4 (try_fallback_ports H socket key rt primary tried ports c)" for tried ports c
    by (induction ports arbitrary: tried c) (simp_all add: adds_intros one)
  ultimately show ?thesis
    unfolding choose_listen_port_def by (intro adds_intros)
qed

lemma network_leaves_v4 [adds_intros]: "adds leaves_v4 (apply_local_interface_network H i a targets)"
  unfolding apply_local_interface_network_def install_route_def delete_default_first_def
  by (intro adds_intros; simp)

lemma prepare_same:
  assumes "prepare_routes H V targets peers s = (r, s')"
  shows "last_written v4_path (snd s') = last_written v4_path (snd s) \<and> tr_exit_node (fst s') = tr_exit_node (fst s)"
proof -
  have specs: "last_written v4_path t' = last_written v4_path t"
    if "linux_bypass_route_specs H hosts peers i d t = (x, t')" for hosts peers i d t x t'
    using that last_written_adds [of "linux_bypass_route_specs H hosts peers i d" t]
    by (simp add: linux_bypass_route_specs_def adds_intros)
  obtain rt t where step: "(if ''0.0.0.0/0'' \<in> set targets then capture_linux_original_default_route H s
      else restore_linux_original_default_route H s) = (rt, t)" by (metis prod.exhaust)
  then have "last_written v4_path t = last_written v4_path (snd s) \<and> tr_exit_node rt = tr_exit_node (fst s)"
    using capture_route_same [of H s] restore_route_same [of H s] by (simp split: if_splits)
  then show ?thesis
    using assms specs unfolding prepare_routes_def step by (auto split: prod.splits if_splits)
qed

lemma configure_same:
  assumes "configure_device H V A s = (r, s')"
  shows "last_written v4_path (snd s') = last_written v4_path (snd s) \<and> tr_exit_node (fst s') = tr_exit_node (fst s)"
proof -
  have start: "last_written v4_path (snd s2) = last_written v4_path t \<and> tr_exit_node (fst s2) = tr_exit_node rt"
    if "ensure_started H (rt, t) = (x, s2)" for rt t x s2
    using that last_written_adds [OF device_leaves_v4, of H _ _ _ t]
    by (auto simp: ensure_started_def split: if_splits prod.splits sum.splits) (metis snd_conv)+
  have port: "last_written v4_path t' = last_written v4_path t"
    if "choose_listen_port H socket key rt p t = (x, t')" for socket key rt p t x t'
    using that last_written_adds [OF ports_leave_v4, of H socket key rt p t] by simp
  have peers: "last_written v4_path t' = last_written v4_path t"
    if "act_bind (wg_set H socket b) (\<lambda>_. act_each (\<lambda>peer. wg_set H socket (peer_body peer)) ps) t = (x, t')"
    for socket b ps t x t'
    using that last_written_adds [of "act_bind (wg_set H socket b)
      (\<lambda>_. act_each (\<lambda>peer. wg_set H socket (peer_body peer)) ps)" t] by (simp add: adds_intros)
  show ?thesis
    using assms by (cases s)
      (auto simp: configure_device_def Let_def split: sum.splits prod.splits option.splits
        dest!: start port peers)
qed

lemma apply_plan_owed:
  assumes owed: "v4_owed s"
  shows "v4_owed (snd (snd (apply_plan H V A book s)))"
proof -
  obtain r s1 where conf: "configure_device H V A s = (r, s1)" by (metis prod.exhaust)
  have s1: "v4_owed s1" using owed configure_same [OF conf] by (simp add: v4_owed_def)
  show ?thesis
  proof (cases r)
    case (Inl e)
    with s1 show ?thesis by (simp add: apply_plan_def conf)
  next
    case (Inr u)
    obtain rt t where b: "reconcile_linux_endpoint_bypass_routes H (ai_bypass A) s1 = (rt, t)" by fastforce
    have bt: "v4_owed (rt, t)" using s1 bypass_same [of H "ai_bypass A" s1] by (simp add: b v4_owed_def)
    obtain r' t1 where n: "apply_local_interface_network H (tr_iface rt) (ai_local_address A) (ai_route_targets A) t
        = (r', t1)" by fastforce
    have "last_written v4_path t1 = last_written v4_path t"
      using last_written_adds [OF network_leaves_v4] n by (metis snd_conv)
    then have t1: "v4_owed (rt, t1)" and "v4_owed (rt, act_log (flush_linux_route_cache H) t1)"
      using bt by (simp_all add: v4_owed_def last_written_log)
    then have reconciled: "v4_owed (reconcile_linux_exit_node_forwarding H (ai_app A)
        (rt, act_log (flush_linux_route_cache H) t1))"
      by (simp add: reconcile_exit_owed)
    obtain rt2 t2 where "reconcile_linux_exit_node_forwarding H (ai_app A)
        (rt, act_log (flush_linux_route_cache H) t1) = (rt2, t2)" by fastforce
    with t1 reconciled show ?thesis
      by (cases r') (simp_all add: apply_plan_def conf Inr b n Let_def v4_owed_def)
  qed
qed

lemma apply_tunnel_owed:
  assumes owed: "v4_owed s"
  shows "v4_owed (snd (snd (apply_tunnel H V app own ann now book s)))"
proof -
  obtain rt t0 where s: "s = (rt, t0)" by (cases s)
  obtain status t where status: "runtime_peer_status H (nv_lower V) rt t0 = (status, t)" by fastforce
  have "adds leaves_v4 (runtime_peer_status H (nv_lower V) rt)"
    unfolding runtime_peer_status_def wg_get_def by (intro adds_intros)
  from last_written_adds [OF this, of t0] have st: "v4_owed (rt, t)"
    using owed by (simp add: status s v4_owed_def)
  have prep: "v4_owed s1" if "prepare_routes H V targets peers (rt, t) = (x, s1)" for targets peers x s1
    using prepare_same [OF that] st by (simp add: v4_owed_def)
  have plan: "v4_owed s2" if "apply_plan H V A b s1 = (x, b', s2)" "v4_owed s1" for A b s1 x b' s2
    using apply_plan_owed [OF that(2), of H V A b] that(1) by simp
  define own_local where "own_local = runtime_local_signal_endpoints (nv_detected_ipv4 V) (nv_interfaces V) app
    (runtime_listen_port rt (nd_listen_port (ac_node app)))"
  define peers where "peers = (case status of Inl _ \<Rightarrow> None | Inr peers \<Rightarrow> Some peers)"
  define book1 where "book1 = snd (record_successful_runtime_paths (nv_b64 V) ann peers book own_local now)"
  obtain r book2 where r: "planned_tunnel_peers_for_local_endpoints Linux (nv_b64 V) app own ann book1 own_local now
      = (r, book2)" by (metis prod.exhaust)
  note unfold = apply_tunnel_def s prod.case Let_def status own_local_def [symmetric] peers_def [symmetric]
    book1_def [symmetric] r
  show ?thesis
  proof (cases r)
    case (Inl e)
    with st show ?thesis unfolding unfold by simp
  next
    case (Inr planned)
    show ?thesis
    proof (cases "planned = []")
      case True
      with st Inr stop_v4_off [OF st, of H] show ?thesis unfolding unfold by (simp add: v4_off_owed)
    next
      case False
      define targets where "targets = route_targets_for_planned_tunnel_peers Linux app own ann planned book2 peers
        own_local now"
      obtain x rt1 t1 where x: "prepare_routes H V targets (map pl_peer planned) (rt, t) = (x, rt1, t1)"
        by (metis prod.exhaust)
      have one: "v4_owed (rt1, t1)" by (rule prep [OF x])
      have rest: "v4_owed (snd (snd (case apply_plan H V A book2 (rt1, t1) of
            (Inl e, book', s2) \<Rightarrow> (Inl (HostFailed e), book', s2)
          | (Inr _, book', s2) \<Rightarrow> (Inr (), book', s2))))" for A
        using plan [OF _ one, of A book2] by (simp split: prod.split sum.split)
      show ?thesis
        unfolding unfold Inr sum.case if_not_P [OF False] targets_def [symmetric] x
        using one rest by (cases x) (simp_all only: sum.case snd_conv split: if_split, blast)
    qed
  qed
qed

datatype tunnel_event =
    ApplyTunnel node_view app_config "string option" announcements u64 peer_path_book
  | StopTunnel

text \<open>The host may answer differently at every operation: it knows the commands so far.\<close>

fun tunnel_step :: "host \<Rightarrow> tunnel_event \<Rightarrow> rt_step \<Rightarrow> rt_step" where
  "tunnel_step H (ApplyTunnel V app own ann now book) s = snd (snd (apply_tunnel H V app own ann now book s))"
| "tunnel_step H StopTunnel s = stop_tunnel H s"

text \<open>
  Whatever the host answers and whatever fails on the way, an exit node on Linux that switched
  IPv4 forwarding on remembers that it was off before, until it switched it off again; so stopping the
  tunnel never leaves forwarding on that the daemon was the last to switch on.
\<close>

lemma ipv4_forwarding_is_given_back:
  assumes "s = fold (tunnel_step H) events (tunnel_runtime_new iface, [])"
  shows "(last_written v4_path (snd s) = Some ''1''
      \<longrightarrow> en_ipv4_forward_was_enabled (tr_exit_node (fst s)) = Some False)
    \<and> last_written v4_path (snd (stop_tunnel H s)) \<noteq> Some ''1''"
proof -
  have "v4_owed (fold (tunnel_step H) events s0)" if "v4_owed s0" for s0
    using that
  proof (induction events arbitrary: s0)
    case (Cons event events)
    have "v4_owed (tunnel_step H event s0)"
      using Cons.prems stop_v4_off [of s0 H] by (cases event) (simp_all add: apply_tunnel_owed v4_off_owed)
    then show ?case using Cons.IH by simp
  qed simp
  moreover have "v4_owed (tunnel_runtime_new iface, [])" by (simp add: v4_owed_def)
  ultimately have owed: "v4_owed s" using assms by simp
  with stop_v4_off [OF owed, of H] show ?thesis by (simp add: v4_owed_def v4_off_def)
qed


text \<open>A host on which everything works, with forwarding off, and one without usable \<open>ip6tables\<close>.\<close>

definition sample_linux :: host where
  "sample_linux =
    \<lparr>ho_run = (\<lambda>t args. Inr \<lparr>ro_code = Some 0, ro_stdout = ''default via 192.0.2.1 dev eth0'', ro_stderr = []\<rparr>),
     ho_read = (\<lambda>t path. Inr ''0''), ho_write = (\<lambda>t path text. Inr ()), ho_open = (\<lambda>t iface. Inr ()),
     ho_wait = (\<lambda>t path. Inr ()), ho_port = (\<lambda>t. Inr 40000), ho_uapi = (\<lambda>t path request. Inr ''errno=0'')\<rparr>"

definition sample_no_ip6tables :: host where
  "sample_no_ip6tables = sample_linux\<lparr>ho_run := (\<lambda>t args. Inr
    \<lparr>ro_code = Some (if hd args = ''ip6tables'' then 3 else 0), ro_stdout = ''default via 192.0.2.1 dev eth0'',
     ro_stderr = []\<rparr>)\<rparr>"

definition sample_exit_config :: app_config where
  "sample_exit_config = sample_config\<lparr>ac_node := (ac_node sample_config)
    \<lparr>nd_tunnel_ip := ''10.44.0.1/32'', nd_private_key := ''K'', nd_advertise_exit_node := True\<rparr>\<rparr>"

text \<open>
  IPv6 has no such guarantee: when its firewall rules cannot be installed, what forwarding was before
  is forgotten, and stopping leaves it on.
\<close>

lemma ipv6_forwarding_left_on:
  "last_written (linux_ip_forward_path FamilyV6) (snd (stop_tunnel sample_no_ip6tables
     (reconcile_linux_exit_node_forwarding sample_no_ip6tables sample_exit_config (tunnel_runtime_new ''utun9'', []))))
   = Some ''1''"
  by code_simp

definition sample_view :: node_view where
  "sample_view = \<lparr>nv_b64 = sample_b64, nv_lower = id, nv_detected_ipv4 = None, nv_interfaces = [],
     nv_control_plane_hosts = []\<rparr>"

definition sample_apply :: tunnel_event where
  "sample_apply = ApplyTunnel sample_view sample_exit_config (Some ''aa11'')
    [(''bb22'', sample_peer ''K2'' [])] 20 book_new"

text \<open>Forwarding is indeed switched on for this configuration.\<close>

lemma sample_exit_forwards:
  "last_written v4_path (snd (reconcile_linux_exit_node_forwarding sample_linux sample_exit_config
     (tunnel_runtime_new ''utun9'', []))) = Some ''1''"
  by code_simp

lemma ipv4_forwarding_is_given_back_witness:
  "last_written v4_path (snd (stop_tunnel sample_linux
      (fold (tunnel_step sample_linux) [sample_apply, sample_apply] (tunnel_runtime_new ''utun9'', [])))) \<noteq> Some ''1''"
  by (rule ipv4_forwarding_is_given_back [OF refl, THEN conjunct2])

end
