(* ===== verification/Linux_Device.thy ===== *)
theory Linux_Device
  imports Linux_Tunnel_Safety
begin

text \<open>
  What the WireGuard device is told over its control socket when a plan is applied: on success every
  planned peer and no other, on failure a part of them while the runtime still claims the plan before.
\<close>

section \<open>The requests of a trace\<close>

definition uapi_of :: "os_command \<Rightarrow> (string \<times> string) option" where
  "uapi_of c = (case c of Uapi socket request \<Rightarrow> Some (socket, request) | _ \<Rightarrow> None)"

lemma uapi_of_simps [simp]:
  "uapi_of (Uapi socket request) = Some (socket, request)"
  "uapi_of (Run args) = None" "uapi_of (ReadFile p) = None" "uapi_of (WriteFile p x) = None"
  "uapi_of (OpenDevice d) = None" "uapi_of CloseDevice = None" "uapi_of (WaitForSocket p) = None"
  "uapi_of FindUdpPort = None"
  by (simp_all add: uapi_of_def)

definition uapi_log :: "trace \<Rightarrow> (string \<times> string) list" where
  "uapi_log t = List.map_filter uapi_of (rev t)"

lemma uapi_log_Cons [simp]:
  "uapi_log (c # t) = uapi_log t @ (case uapi_of c of None \<Rightarrow> [] | Some x \<Rightarrow> [x])"
  by (simp add: uapi_log_def map_filter_def split: option.split)

text \<open>Actions that make no request.\<close>

abbreviation no_request :: "os_command \<Rightarrow> bool" where
  "no_request c \<equiv> uapi_of c = None"

lemma uapi_log_append: "list_all no_request new \<Longrightarrow> uapi_log (new @ t) = uapi_log t"
  by (induction new) simp_all

lemma uapi_log_adds: "adds no_request m \<Longrightarrow> uapi_log (snd (m t)) = uapi_log t"
  by (metis adds_def uapi_log_append)

lemma uapi_log_log: "adds no_request m \<Longrightarrow> uapi_log (act_log m t) = uapi_log t"
  by (simp add: act_log_def uapi_log_adds)

lemma uapi_log_fold_log:
  "(\<And>x. adds no_request (f x)) \<Longrightarrow> uapi_log (fold (\<lambda>x. act_log (f x)) xs t) = uapi_log t"
  by (induction xs arbitrary: t) (simp_all add: uapi_log_log)

lemma routing_no_request [simp]:
  "adds no_request (linux_default_route H)" "adds no_request (linux_default_ipv6_route H)"
  "adds no_request (flush_linux_route_cache H)"
  "adds no_request (apply_linux_endpoint_bypass_route H b)" "adds no_request (delete_linux_endpoint_bypass_route H r)"
  "adds no_request (read_linux_ip_forward H family)" "adds no_request (write_linux_ip_forward H family on)"
  "adds no_request (linux_iptables_ensure_rule H family table rule)"
  "adds no_request (linux_iptables_delete_rule H family table rule)"
  "adds no_request (v4_firewall H iface o' cidr)" "adds no_request (v6_firewall H iface)"
  unfolding routing_action_defs write_linux_ip_forward_def Let_def by (intro adds_intros; simp)+

lemma network_no_request: "adds no_request (apply_local_interface_network H i a targets)"
  unfolding apply_local_interface_network_def install_route_def delete_default_first_def
  by (intro adds_intros; simp)

lemma cleanup_no_request: "uapi_log (snd (exit_forwarding_cleanup H s)) = uapi_log (snd s)"
  by (cases s) (simp add: exit_forwarding_cleanup_def Let_def drop_v4_rules_def drop_v6_rules_def
      restore_forwarding_def uapi_log_log split: option.split)

lemma enable_no_request:
  "uapi_log (snd (snd (enable_v4_forwarding H s))) = uapi_log (snd s)"
  "uapi_log (snd (snd (enable_v6_forwarding H s))) = uapi_log (snd s)"
proof -
  obtain rt t where s: "s = (rt, t)" by (cases s)
  have rd: "uapi_log t' = uapi_log t" if "read_linux_ip_forward H family t = (r, t')" for family r t t'
    using that uapi_log_adds [of "read_linux_ip_forward H family" t] by simp
  have wr: "uapi_log t' = uapi_log t" if "write_linux_ip_forward H family on t = (r, t')" for family on r t t'
    using that uapi_log_adds [of "write_linux_ip_forward H family on" t] by simp
  show "uapi_log (snd (snd (enable_v4_forwarding H s))) = uapi_log (snd s)"
    by (auto simp: s enable_v4_forwarding_def Let_def split: prod.splits sum.splits dest!: rd wr)
  show "uapi_log (snd (snd (enable_v6_forwarding H s))) = uapi_log (snd s)"
    by (auto simp: s enable_v6_forwarding_def Let_def split: prod.splits sum.splits dest!: rd wr)
qed

lemma install_no_request: "uapi_log (snd (install_exit_rules H w ipv6 s)) = uapi_log (snd s)"
proof -
  obtain rt t where s: "s = (rt, t)" by (cases s)
  have v4: "uapi_log t' = uapi_log t" if "v4_firewall H i f c t = (r, t')" for i f c r t t'
    using that uapi_log_adds [of "v4_firewall H i f c" t] by simp
  have v6: "uapi_log t' = uapi_log t" if "v6_firewall H i t = (r, t')" for i r t t'
    using that uapi_log_adds [of "v6_firewall H i" t] by simp
  show ?thesis
    by (auto simp: s install_exit_rules_def cleanup_no_request
        split: prod.splits sum.splits option.splits dest!: v4 v6)
qed

lemma set_up_no_request: "uapi_log (snd (set_up_exit H w s)) = uapi_log (snd s)"
proof -
  obtain rt0 t0 where clean: "exit_forwarding_cleanup H s = (rt0, t0)" by fastforce
  then have t0: "uapi_log t0 = uapi_log (snd s)" using cleanup_no_request [of H s] by simp
  define s1 where "s1 = (rt0\<lparr>tr_exit_node := (tr_exit_node rt0)
              \<lparr>en_ipv4_outbound_iface := ew_ipv4_outbound w, en_ipv6_outbound_iface := ew_ipv6_outbound w,
               en_ipv4_tunnel_source_cidr := ew_source_cidr w\<rparr>\<rparr>, t0)"
  obtain ok s2 where v4: "(if ew_source_cidr w \<noteq> None then enable_v4_forwarding H s1 else (True, s1)) = (ok, s2)"
    by (metis prod.exhaust)
  obtain ipv6 s3 where v6: "(if ew_ipv6 w then enable_v6_forwarding H s2 else (False, s2)) = (ipv6, s3)"
    by (metis prod.exhaust)
  have "uapi_log (snd s2) = uapi_log t0" "uapi_log (snd s3) = uapi_log (snd s2)"
    using v4 v6 enable_no_request(1) [of H s1] enable_no_request(2) [of H s2]
    by (auto simp: s1_def split: if_splits)
  then show ?thesis
    unfolding set_up_exit_def clean prod.case Let_def s1_def [symmetric] v4
    by (cases ok) (simp_all add: v6 t0 cleanup_no_request install_no_request)
qed

lemma exit_wanted_no_request: "uapi_log (snd (exit_wanted_for H app t)) = uapi_log t"
proof -
  have "uapi_log t' = uapi_log t" if "linux_default_route H t = (r, t')" for r t t'
    using that uapi_log_adds [of "linux_default_route H" t] by simp
  moreover have "uapi_log t' = uapi_log t" if "linux_default_ipv6_route H t = (r, t')" for r t t'
    using that uapi_log_adds [of "linux_default_ipv6_route H" t] by simp
  ultimately show ?thesis
    by (auto simp: exit_wanted_for_def Let_def split: sum.splits prod.splits option.splits if_splits)
qed

lemma reconcile_no_request: "uapi_log (snd (reconcile_linux_exit_node_forwarding H app s)) = uapi_log (snd s)"
proof -
  obtain rt t where s: "s = (rt, t)" by (cases s)
  obtain w t1 where w: "exit_wanted_for H app t = (w, t1)" by fastforce
  have "uapi_log t1 = uapi_log t" using exit_wanted_no_request [of H app t] by (simp add: w)
  then show ?thesis
    by (cases w) (simp_all add: s reconcile_linux_exit_node_forwarding_def w cleanup_no_request set_up_no_request)
qed

section \<open>Requests to the device\<close>

lemma wg_set_log: "uapi_log (snd (wg_set H socket body t)) = uapi_log t @ [(socket, set_request body)]"
  by (simp add: wg_set_def uapi_call_def act_bind_def act_io_def act_fail_def act_return_def split: sum.split)

lemma each_wg_set_log:
  assumes "act_each (\<lambda>x. wg_set H socket (f x)) xs t = (r, t')"
  shows "\<exists>ys. prefix ys xs \<and> uapi_log t' = uapi_log t @ map (\<lambda>x. (socket, set_request (f x))) ys
    \<and> (r = Inr () \<longrightarrow> ys = xs)"
  using assms
proof (induction xs arbitrary: t)
  case (Cons x xs)
  obtain r1 t1 where one: "wg_set H socket (f x) t = (r1, t1)" by fastforce
  have t1: "uapi_log t1 = uapi_log t @ [(socket, set_request (f x))]"
    using wg_set_log [of H socket "f x" t] by (simp add: one)
  show ?case
  proof (cases r1)
    case (Inl e)
    with Cons.prems t1 one show ?thesis
      by (intro exI [of _ "[x]"]) (auto simp: act_simps)
  next
    case (Inr u)
    then have "act_each (\<lambda>x. wg_set H socket (f x)) xs t1 = (r, t')"
      using Cons.prems one by (simp add: act_simps)
    from Cons.IH [OF this] obtain ys where "prefix ys xs"
      "uapi_log t' = uapi_log t1 @ map (\<lambda>x. (socket, set_request (f x))) ys" "r = Inr () \<longrightarrow> ys = xs" by blast
    with t1 show ?thesis by (intro exI [of _ "x # ys"]) simp
  qed
qed (simp add: act_simps)

lemma peers_log:
  assumes "act_bind (wg_set H socket ''replace_peers=true'')
      (\<lambda>_. act_each (\<lambda>peer. wg_set H socket (peer_body peer)) peers) t = (r, t')"
  shows "\<exists>told. prefix told peers \<and> uapi_log t' = uapi_log t @ (socket, set_request ''replace_peers=true'')
      # map (\<lambda>peer. (socket, set_request (peer_body peer))) told \<and> (r = Inr () \<longrightarrow> told = peers)"
proof -
  obtain r1 t1 where one: "wg_set H socket ''replace_peers=true'' t = (r1, t1)" by fastforce
  have t1: "uapi_log t1 = uapi_log t @ [(socket, set_request ''replace_peers=true'')]"
    using wg_set_log [of H socket "''replace_peers=true''" t] by (simp add: one)
  show ?thesis
  proof (cases r1)
    case (Inl e)
    with assms t1 one show ?thesis by (intro exI [of _ "[]"]) (auto simp: act_simps)
  next
    case (Inr u)
    then have "act_each (\<lambda>peer. wg_set H socket (peer_body peer)) peers t1 = (r, t')"
      using assms one by (simp add: act_simps)
    from each_wg_set_log [OF this] t1 show ?thesis by auto
  qed
qed

text \<open>Finding a port makes no other request than setting the key and a port.\<close>

definition port_requests :: "string \<Rightarrow> string \<Rightarrow> u16 list \<Rightarrow> (string \<times> string) list" where
  "port_requests socket key ports = map (\<lambda>p. (socket, set_request (listen_port_body key p))) ports"

definition tries_ports :: "string \<Rightarrow> string \<Rightarrow> 'a action \<Rightarrow> bool" where
  "tries_ports socket key m \<longleftrightarrow> (\<forall>t. \<exists>ports. uapi_log (snd (m t)) = uapi_log t @ port_requests socket key ports)"

lemma tries_none: "adds no_request m \<Longrightarrow> tries_ports socket key m"
  unfolding tries_ports_def port_requests_def by (metis append_Nil2 list.map(1) uapi_log_adds)

lemma tries_bind:
  assumes "tries_ports socket key m" "\<And>x. tries_ports socket key (f x)"
  shows "tries_ports socket key (act_bind m f)"
proof (unfold tries_ports_def, rule allI)
  fix t
  obtain r t1 where m: "m t = (r, t1)" by fastforce
  obtain ps where ps: "uapi_log t1 = uapi_log t @ port_requests socket key ps"
    using assms(1) m by (metis snd_conv tries_ports_def)
  show "\<exists>ports. uapi_log (snd (act_bind m f t)) = uapi_log t @ port_requests socket key ports"
  proof (cases r)
    case (Inl e)
    with m ps show ?thesis by (auto simp: act_simps)
  next
    case (Inr x)
    obtain qs where "uapi_log (snd (f x t1)) = uapi_log t1 @ port_requests socket key qs"
      using assms(2) [of x] by (auto simp: tries_ports_def)
    with m ps Inr show ?thesis
      by (intro exI [of _ "ps @ qs"]) (simp add: act_simps port_requests_def)
  qed
qed

lemma tries_return: "tries_ports socket key (act_return x)" and tries_fail: "tries_ports socket key (act_fail e)"
  by (simp_all add: tries_none adds_intros)

lemma tries_option:
  "tries_ports socket key m \<Longrightarrow> (\<And>x. tries_ports socket key (f x)) \<Longrightarrow>
    tries_ports socket key (case v of None \<Rightarrow> m | Some x \<Rightarrow> f x)"
  by (cases v) simp_all

lemma tries_sum:
  "(\<And>e. tries_ports socket key (m e)) \<Longrightarrow> (\<And>x. tries_ports socket key (f x)) \<Longrightarrow>
    tries_ports socket key (case v of Inl e \<Rightarrow> m e | Inr x \<Rightarrow> f x)"
  by (cases v) simp_all

lemma tries_if: "tries_ports socket key m \<Longrightarrow> tries_ports socket key m' \<Longrightarrow> tries_ports socket key (if c then m else m')"
  by simp

lemmas tries_intros = tries_return tries_fail tries_option tries_sum tries_if tries_bind

lemma tries_listen_port: "tries_ports socket key (try_listen_port H socket key rt port)"
proof -
  have "tries_ports socket key (act_try (wg_set H socket (listen_port_body key port)))"
    unfolding tries_ports_def port_requests_def
    by (intro allI exI [of _ "[port]"]) (simp add: act_try_def wg_set_log split_def)
  then show ?thesis
    unfolding try_listen_port_def by (intro tries_intros)
qed

lemma tries_choose: "tries_ports socket key (choose_listen_port H socket key rt primary)"
proof -
  have free: "adds no_request (find_free_ports H n)" for n
    by (induction n) (simp_all add: adds_intros)
  have primary: "tries_ports socket key (try_primary_port H socket key rt port n c)" for port n c
  proof (induction n arbitrary: c)
    case 0
    show ?case by (simp add: tries_return)
  next
    case (Suc n)
    show ?case unfolding try_primary_port.simps by (intro tries_intros tries_listen_port Suc.IH)
  qed
  have fallback: "tries_ports socket key (try_fallback_ports H socket key rt primary tried ports c)" for tried ports c
  proof (induction ports arbitrary: tried c)
    case Nil
    show ?case by (simp add: tries_return)
  next
    case (Cons p ports)
    show ?case unfolding try_fallback_ports.simps by (intro tries_intros tries_listen_port Cons.IH)
  qed
  show ?thesis
    unfolding choose_listen_port_def by (intro tries_intros tries_none [OF free] primary fallback)
qed

section \<open>Applying a plan\<close>

definition peer_requests :: "string \<Rightarrow> tunnel_peer list \<Rightarrow> (string \<times> string) list" where
  "peer_requests socket peers =
    (socket, set_request ''replace_peers=true'') # map (\<lambda>peer. (socket, set_request (peer_body peer))) peers"

lemma ensure_started_log:
  assumes "ensure_started H (rt, t) = (r, rt', t')"
  shows "uapi_log t' = uapi_log t" and "r = Inr () \<Longrightarrow> tr_handle rt'"
proof -
  have "adds no_request (open_device H i cs busy)" for i cs busy
    by (induction cs arbitrary: busy)
      (auto simp: adds_intros split: sum.split host_error.split intro!: adds_intros)
  then have device: "uapi_log t2 = uapi_log t1" if "open_device H i cs busy t1 = (x, t2)" for i cs busy t1 x t2
    using that uapi_log_adds [of "open_device H i cs busy" t1] by simp
  show "uapi_log t' = uapi_log t" and "r = Inr () \<Longrightarrow> tr_handle rt'"
    using assms by (auto simp: ensure_started_def split: if_splits prod.splits sum.splits dest!: device)
qed

lemma bypass_log:
  assumes "reconcile_linux_endpoint_bypass_routes H routes (rt, t) = (rt', t')"
  shows "uapi_log t' = uapi_log t \<and> (\<exists>x. rt' = rt\<lparr>tr_endpoint_bypass_routes := x\<rparr>)"
  using assms by (auto simp: reconcile_linux_endpoint_bypass_routes_def Let_def uapi_log_fold_log)

lemma cleanup_runtime: "fst (exit_forwarding_cleanup H s) = (fst s)\<lparr>tr_exit_node := exit_node_runtime_default\<rparr>"
  by (cases s) (simp add: exit_forwarding_cleanup_def Let_def)

text \<open>Forwarding for others touches nothing of the runtime but its own state.\<close>

definition only_exit :: "rt_step \<Rightarrow> rt_step \<Rightarrow> bool" where
  "only_exit s s' \<longleftrightarrow> (\<exists>x. fst s' = (fst s)\<lparr>tr_exit_node := x\<rparr>)"

lemma only_exit_refl: "only_exit s s"
  unfolding only_exit_def by (rule exI [of _ "tr_exit_node (fst s)"]) simp

lemma only_exit_trans: "only_exit s1 s2 \<Longrightarrow> only_exit s2 s3 \<Longrightarrow> only_exit s1 s3"
  by (auto simp: only_exit_def)

lemma only_exit_cleanup: "only_exit s (exit_forwarding_cleanup H s)"
  by (auto simp: only_exit_def cleanup_runtime)

lemma only_exit_eq: "fst s' = fst s \<Longrightarrow> only_exit s s'"
  using only_exit_refl [of s] by (simp add: only_exit_def)

lemma only_exit_enable:
  "only_exit s (snd (enable_v4_forwarding H s))" "only_exit s (snd (enable_v6_forwarding H s))"
proof -
  obtain rt t where s: "s = (rt, t)" by (cases s)
  have upd: "only_exit (rt, t) (rt\<lparr>tr_exit_node := x\<rparr>, t')" and same: "only_exit (rt, t) (rt, t')" for x t'
    by (simp_all add: only_exit_eq) (auto simp: only_exit_def)
  obtain r t1 where rd: "read_linux_ip_forward H FamilyV4 t = (r, t1)" by fastforce
  obtain r' t2 where wr: "write_linux_ip_forward H FamilyV4 True t1 = (r', t2)" by fastforce
  show "only_exit s (snd (enable_v4_forwarding H s))"
    by (cases r; cases r') (simp_all add: s enable_v4_forwarding_def rd wr Let_def upd same)
  obtain q u1 where rd: "read_linux_ip_forward H FamilyV6 t = (q, u1)" by fastforce
  obtain q' u2 where wr: "write_linux_ip_forward H FamilyV6 True u1 = (q', u2)" by fastforce
  show "only_exit s (snd (enable_v6_forwarding H s))"
    by (cases q; cases q') (simp_all add: s enable_v6_forwarding_def rd wr Let_def forget_v6_def upd same)
qed

lemma only_exit_install: "only_exit s (install_exit_rules H w ipv6 s)"
proof -
  obtain rt t where s: "s = (rt, t)" by (cases s)
  define rules where "rules = (case (ew_ipv4_outbound w, ew_source_cidr w) of
      (Some outbound_iface, Some tunnel_source_cidr) \<Rightarrow>
        v4_firewall H (tr_iface rt) outbound_iface tunnel_source_cidr t
    | _ \<Rightarrow> (Inr (), t))"
  obtain r t1 where r: "rules = (r, t1)" by (cases rules)
  obtain r' t2 where v6: "v6_firewall H (tr_iface rt) t1 = (r', t2)" by fastforce
  have clean: "only_exit (rt, t) (exit_forwarding_cleanup H (rt, t1))"
    using only_exit_cleanup [of "(rt, t1)" H] by (simp add: only_exit_def)
  have forget: "only_exit (rt, t) (forget_v6 rt, t')" and same: "only_exit (rt, t) (rt, t')" for t'
    by (simp_all add: only_exit_eq) (auto simp: only_exit_def forget_v6_def)
  show ?thesis
    unfolding install_exit_rules_def s prod.case [of _ rt t] rules_def [symmetric] r
    by (cases r; cases r') (simp_all add: v6 clean forget same)
qed

lemma only_exit_reconcile: "only_exit s (reconcile_linux_exit_node_forwarding H app s)"
proof -
  obtain rt t where s: "s = (rt, t)" by (cases s)
  obtain w t1 where w: "exit_wanted_for H app t = (w, t1)" by fastforce
  have t1: "only_exit s (rt, t1)" by (simp add: s only_exit_eq)
  have set_up: "only_exit (rt, t1) (set_up_exit H w' (rt, t1))" for w'
  proof -
    obtain rt0 t0 where clean: "exit_forwarding_cleanup H (rt, t1) = (rt0, t0)" by fastforce
    define s1 where "s1 = (rt0\<lparr>tr_exit_node := (tr_exit_node rt0)
              \<lparr>en_ipv4_outbound_iface := ew_ipv4_outbound w', en_ipv6_outbound_iface := ew_ipv6_outbound w',
               en_ipv4_tunnel_source_cidr := ew_source_cidr w'\<rparr>\<rparr>, t0)"
    have s1: "only_exit (rt, t1) s1"
      using only_exit_cleanup [of "(rt, t1)" H] by (auto simp: clean only_exit_def s1_def)
    obtain ok s2 where v4: "(if ew_source_cidr w' \<noteq> None then enable_v4_forwarding H s1 else (True, s1)) = (ok, s2)"
      by (metis prod.exhaust)
    obtain ipv6 s3 where v6: "(if ew_ipv6 w' then enable_v6_forwarding H s2 else (False, s2)) = (ipv6, s3)"
      by (metis prod.exhaust)
    have "only_exit s1 s2" "only_exit s2 s3"
      using v4 v6 only_exit_enable(1) [of s1 H] only_exit_enable(2) [of s2 H] only_exit_refl
      by (auto split: if_splits)
    then have s2: "only_exit (rt, t1) s2" and s3: "only_exit (rt, t1) s3"
      using s1 only_exit_trans by blast+
    have "only_exit (rt, t1) (exit_forwarding_cleanup H s2)" "only_exit (rt, t1) (install_exit_rules H w' ipv6 s3)"
      using only_exit_trans [OF s2 only_exit_cleanup] only_exit_trans [OF s3 only_exit_install] by blast+
    then show ?thesis
      unfolding set_up_exit_def clean prod.case Let_def s1_def [symmetric] v4
      by (cases ok) (simp_all add: v6)
  qed
  show ?thesis
    using t1 only_exit_trans [OF t1 only_exit_cleanup] only_exit_trans [OF t1 set_up]
    by (cases w) (auto simp: s reconcile_linux_exit_node_forwarding_def w only_exit_refl)
qed

lemma configure_log:
  assumes "configure_device H V A (rt, t) = (Inr (), rt', t')"
  shows "tr_handle rt' \<and> (\<exists>socket key ports. tr_uapi_socket_path rt' = Some socket
    \<and> key_b64_to_hex (nv_b64 V) (nd_private_key (ac_node (ai_app A))) = Some key
    \<and> uapi_log t' = uapi_log t @ port_requests socket key ports @ peer_requests socket (planned_tunnel_peers_of A))"
proof -
  obtain r rt1 t1 where start: "ensure_started H (rt, t) = (r, rt1, t1)" by (metis prod.exhaust)
  with assms have r: "r = Inr ()" by (cases r) (auto simp: configure_device_def)
  obtain socket where socket: "tr_uapi_socket_path rt1 = Some socket"
    using assms start r by (cases "tr_uapi_socket_path rt1") (auto simp: configure_device_def)
  obtain key where key: "key_b64_to_hex (nv_b64 V) (nd_private_key (ac_node (ai_app A))) = Some key"
    using assms start r socket by (cases "key_b64_to_hex (nv_b64 V) (nd_private_key (ac_node (ai_app A)))")
      (auto simp: configure_device_def)
  obtain p t2 where port: "choose_listen_port H socket key rt1
      (runtime_listen_port rt1 (nd_listen_port (ac_node (ai_app A)))) t1 = (p, t2)" by fastforce
  with assms start r socket key obtain port where p: "p = Inr port"
    by (cases p) (auto simp: configure_device_def)
  obtain ports where t2: "uapi_log t2 = uapi_log t1 @ port_requests socket key ports"
    using tries_choose [of socket key H rt1 "runtime_listen_port rt1 (nd_listen_port (ac_node (ai_app A)))"] port
    by (metis snd_conv tries_ports_def)
  obtain r3 t3 where peers: "act_bind (wg_set H socket ''replace_peers=true'')
      (\<lambda>_. act_each (\<lambda>peer. wg_set H socket (peer_body peer)) (planned_tunnel_peers_of A)) t2 = (r3, t3)"
    by fastforce
  have done': "r3 = Inr ()" "rt' = rt1\<lparr>tr_active_listen_port := Some port\<rparr>" "t' = t3"
    using assms start r socket key port p peers by (auto simp: configure_device_def Let_def)
  show ?thesis
    using peers_log [OF peers] ensure_started_log [OF start] r socket key t2 done'
    by (auto simp: peer_requests_def)
qed

text \<open>
  C27. When a plan has been applied, the WireGuard device has been told exactly that plan: after
  settling the key and the listening port it was told to forget its peers and then every planned peer
  once, in the order of the plan, and nothing afterwards. Only then is the plan's fingerprint
  recorded, with the interface and the port in use, and its endpoints noted as selected.
\<close>

theorem applied_plan_is_on_device:
  assumes "apply_plan H V A book (rt, t) = (Inr (), book', rt', t')"
  shows "(\<exists>socket key ports. tr_uapi_socket_path rt' = Some socket
      \<and> key_b64_to_hex (nv_b64 V) (nd_private_key (ac_node (ai_app A))) = Some key
      \<and> uapi_log t' = uapi_log t @ port_requests socket key ports @ peer_requests socket (planned_tunnel_peers_of A))
    \<and> is_running rt'
    \<and> tr_last_fingerprint rt' = Some (tunnel_runtime_fingerprint
        (tunnel_fingerprint (tr_iface rt') (nd_private_key (ac_node (ai_app A)))
          (runtime_listen_port rt' (nd_listen_port (ac_node (ai_app A)))) (ai_local_address A)
          (planned_tunnel_peers_of A)) (ai_route_targets A))
    \<and> book' = note_planned (ai_planned A) (ai_now A) book"
proof -
  obtain r rt1 t1 where conf: "configure_device H V A (rt, t) = (r, rt1, t1)" by (metis prod.exhaust)
  with assms have r: "r = Inr ()" by (cases r) (auto simp: apply_plan_def)
  obtain rt2 t2 where bypass: "reconcile_linux_endpoint_bypass_routes H (ai_bypass A) (rt1, t1) = (rt2, t2)"
    by fastforce
  obtain r3 t3 where net: "apply_local_interface_network H (tr_iface rt2) (ai_local_address A)
      (ai_route_targets A) t2 = (r3, t3)" by fastforce
  with assms conf r bypass have r3: "r3 = Inr ()" by (cases r3) (auto simp: apply_plan_def)
  obtain rt4 t4 where exit_node: "reconcile_linux_exit_node_forwarding H (ai_app A)
      (rt2, act_log (flush_linux_route_cache H) t3) = (rt4, t4)" by fastforce
  have "uapi_log t4 = uapi_log t1"
    using bypass_log [OF bypass] uapi_log_adds [OF network_no_request, of H "tr_iface rt2" "ai_local_address A"
        "ai_route_targets A" t2] reconcile_no_request [of H "ai_app A" "(rt2, act_log (flush_linux_route_cache H) t3)"]
    by (simp add: net exit_node uapi_log_log)
  moreover have "tr_handle rt4 = tr_handle rt1" "tr_uapi_socket_path rt4 = tr_uapi_socket_path rt1"
    using bypass_log [OF bypass] only_exit_reconcile [of "(rt2, act_log (flush_linux_route_cache H) t3)" H "ai_app A"]
    by (auto simp: exit_node only_exit_def)
  moreover have "book' = note_planned (ai_planned A) (ai_now A) book" "t' = t4"
    "rt' = rt4\<lparr>tr_last_fingerprint := Some (tunnel_runtime_fingerprint
        (tunnel_fingerprint (tr_iface rt4) (nd_private_key (ac_node (ai_app A)))
          (runtime_listen_port rt4 (nd_listen_port (ac_node (ai_app A)))) (ai_local_address A)
          (planned_tunnel_peers_of A)) (ai_route_targets A))\<rparr>"
    using assms unfolding apply_plan_def conf r prod.case sum.case bypass net r3 exit_node Let_def by simp_all
  ultimately show ?thesis
    using configure_log [OF conf [unfolded r]] by (simp add: is_running_def runtime_listen_port_def)
qed

section \<open>A plan that fails half-way\<close>

lemma find_free_ports_ok: "\<exists>ports t'. find_free_ports H n t = (Inr ports, t') \<and> uapi_log t' = uapi_log t"
proof (induction n arbitrary: t)
  case (Suc n)
  obtain r t1 where one: "act_io (\<lambda>t. ho_port H t) FindUdpPort t = (r, t1)" by fastforce
  then have t1: "uapi_log t1 = uapi_log t" by (auto simp: act_io_def)
  from Suc.IH [of t1] obtain ports t2 where "find_free_ports H n t1 = (Inr ports, t2)" "uapi_log t2 = uapi_log t1"
    by blast
  with one t1 show ?case
    by (simp add: act_bind_def act_try_def act_return_def)
qed (simp add: act_simps)

lemma reuse_listen_port:
  assumes "tr_handle rt" "tr_last_fingerprint rt = Some fp" "tr_active_listen_port rt = Some port"
  shows "\<exists>t'. choose_listen_port H socket key rt port t = (Inr port, t') \<and> uapi_log t' = uapi_log t"
proof -
  obtain ports t' where free: "find_free_ports H 16 t = (Inr ports, t')" "uapi_log t' = uapi_log t"
    using find_free_ports_ok by blast
  have attempts: "PRIMARY_LISTEN_PORT_RETRY_ATTEMPTS = Suc 39"
    by (simp add: PRIMARY_LISTEN_PORT_RETRY_ATTEMPTS_def)
  have "try_primary_port H socket key rt port (Suc n) None t' = (Inr (Inr port), t')" for n
    using assms by (simp add: try_listen_port_def can_reuse_active_listen_port_def act_bind_def act_return_def)
  from this [of 39]
  have "try_primary_port H socket key rt port PRIMARY_LISTEN_PORT_RETRY_ATTEMPTS None t' = (Inr (Inr port), t')"
    unfolding attempts .
  with free show ?thesis
    by (simp add: choose_listen_port_def act_bind_def act_return_def)
qed

lemma configure_running:
  assumes rt: "tr_handle rt" "tr_uapi_socket_path rt = Some socket" "tr_last_fingerprint rt = Some fp"
      "tr_active_listen_port rt = Some port"
    and key: "key_b64_to_hex (nv_b64 V) (nd_private_key (ac_node (ai_app A))) = Some key"
    and conf: "configure_device H V A (rt, t) = (r, rt', t')"
  shows "rt' = rt \<and> (\<exists>told. prefix told (planned_tunnel_peers_of A)
    \<and> uapi_log t' = uapi_log t @ peer_requests socket told \<and> (r = Inr () \<longrightarrow> told = planned_tunnel_peers_of A))"
proof -
  have port: "runtime_listen_port rt (nd_listen_port (ac_node (ai_app A))) = port"
    using rt(4) by (simp add: runtime_listen_port_def)
  obtain t1 where t1: "choose_listen_port H socket key rt port t = (Inr port, t1)" "uapi_log t1 = uapi_log t"
    using reuse_listen_port [OF rt(1,3,4)] by blast
  have same: "rt\<lparr>tr_active_listen_port := Some port\<rparr> = rt" using rt(4) by (cases rt) simp
  obtain r2 t2 where peers: "act_bind (wg_set H socket ''replace_peers=true'')
      (\<lambda>_. act_each (\<lambda>peer. wg_set H socket (peer_body peer)) (planned_tunnel_peers_of A)) t1 = (r2, t2)"
    by fastforce
  have "r = r2" "rt' = rt" "t' = t2"
    using conf by (simp_all add: configure_device_def ensure_started_def rt key port t1 Let_def same peers)
  then show ?thesis
    using peers_log [OF peers] t1(2) by (auto simp: peer_requests_def)
qed

text \<open>
  C28. Applying a plan to a running tunnel is not undone when it fails half-way, nor is it forgotten that
  the plan before succeeded: the device has been told to forget its peers and then only some
  of the new ones, yet the runtime is left running with the old fingerprint, interface and port. So
  going back to the plan before is then taken for current and does nothing, while the device has
  lost its peers.
\<close>

theorem failed_plan_keeps_old_fingerprint:
  assumes running: "tr_handle rt" "tr_uapi_socket_path rt = Some socket" "tr_last_fingerprint rt = Some fp"
      "tr_active_listen_port rt = Some port"
    and key: "key_b64_to_hex (nv_b64 V) (nd_private_key (ac_node (ai_app A))) = Some key"
    and failed: "apply_plan H V A book (rt, t) = (Inl e, book', rt', t')"
  shows "book' = book \<and> plan_is_current rt' fp False
    \<and> tr_iface rt' = tr_iface rt \<and> tr_active_listen_port rt' = Some port
    \<and> (\<exists>told. prefix told (planned_tunnel_peers_of A) \<and> uapi_log t' = uapi_log t @ peer_requests socket told)"
proof -
  obtain r rt1 t1 where conf: "configure_device H V A (rt, t) = (r, rt1, t1)" by (metis prod.exhaust)
  note told = configure_running [OF running key conf]
  show ?thesis
  proof (cases r)
    case (Inl e')
    with failed conf told show ?thesis
      using running by (auto simp: apply_plan_def plan_is_current_def is_running_def)
  next
    case (Inr u)
    obtain rt2 t2 where bypass: "reconcile_linux_endpoint_bypass_routes H (ai_bypass A) (rt1, t1) = (rt2, t2)"
      by fastforce
    obtain r3 t3 where net: "apply_local_interface_network H (tr_iface rt2) (ai_local_address A)
        (ai_route_targets A) t2 = (r3, t3)" by fastforce
    obtain e3 where r3: "r3 = Inl e3"
      using failed unfolding apply_plan_def conf Inr prod.case sum.case bypass net
      by (cases r3) (auto simp: Let_def split: prod.splits)
    have "book' = book" "rt' = rt2" "t' = t3"
      using failed unfolding apply_plan_def conf Inr prod.case sum.case bypass net r3 by simp_all
    moreover have "uapi_log t3 = uapi_log t1"
      using bypass_log [OF bypass] uapi_log_adds [OF network_no_request, of H "tr_iface rt2" "ai_local_address A"
          "ai_route_targets A" t2] by (simp add: net)
    moreover obtain x where "rt2 = rt1\<lparr>tr_endpoint_bypass_routes := x\<rparr>" using bypass_log [OF bypass] by blast
    ultimately show ?thesis
      using told running by (auto simp: plan_is_current_def is_running_def)
  qed
qed

section \<open>A small plan\<close>

definition sample_tunnel_config :: app_config where
  "sample_tunnel_config = sample_config\<lparr>ac_node := (ac_node sample_config)
    \<lparr>nd_tunnel_ip := ''10.44.0.1/32'', nd_private_key := ''K''\<rparr>\<rparr>"

definition sample_input :: apply_input where
  "sample_input = \<lparr>ai_app = sample_tunnel_config,
     ai_planned = [sample_planned ''bb22'' (CHR ''2'') [''10.44.0.2/32'']],
     ai_local_address = ''10.44.0.1/32'', ai_route_targets = [''10.44.0.2/32''], ai_bypass = [], ai_now = 20\<rparr>"

definition sample_runtime :: tunnel_runtime where
  "sample_runtime = (tunnel_runtime_new ''utun9'')\<lparr>tr_handle := True, tr_uapi_socket_path := Some ''s'',
     tr_last_fingerprint := Some ''old'', tr_active_listen_port := Some 51820\<rparr>"

text \<open>A device that refuses everything it is told.\<close>

definition sample_deaf :: host where
  "sample_deaf = sample_linux\<lparr>ho_uapi := (\<lambda>t path request. Inr ''errno=5'')\<rparr>"

lemma sample_key: "key_b64_to_hex (nv_b64 sample_view) (nd_private_key (ac_node (ai_app sample_input))) \<noteq> None"
  by code_simp

lemma sample_applies: "fst (apply_plan sample_linux sample_view sample_input book_new (sample_runtime, [])) = Inr ()"
  by code_simp

lemma sample_fails:
  "fst (apply_plan sample_deaf sample_view sample_input book_new (sample_runtime, [])) = Inl (UapiFailed ''errno=5'')"
  by code_simp

lemma applied_plan_is_on_device_witness:
  "is_running (fst (snd (snd (apply_plan sample_linux sample_view sample_input book_new (sample_runtime, [])))))
   \<and> (\<exists>socket. (socket, set_request (peer_body (pl_peer (sample_planned ''bb22'' (CHR ''2'') [''10.44.0.2/32'']))))
     \<in> set (uapi_log (snd (snd (snd (apply_plan sample_linux sample_view sample_input book_new (sample_runtime, [])))))))"
proof -
  obtain book' rt' t' where r: "apply_plan sample_linux sample_view sample_input book_new (sample_runtime, [])
      = (Inr (), book', rt', t')"
    using sample_applies by (metis prod.exhaust fst_conv)
  have "planned_tunnel_peers_of sample_input = [pl_peer (sample_planned ''bb22'' (CHR ''2'') [''10.44.0.2/32''])]"
    by (simp add: planned_tunnel_peers_of_def sample_input_def)
  with applied_plan_is_on_device [OF r] show ?thesis
    unfolding r by (auto simp: peer_requests_def)
qed

lemma failed_plan_keeps_old_fingerprint_witness:
  "plan_is_current (fst (snd (snd (apply_plan sample_deaf sample_view sample_input book_new (sample_runtime, [])))))
     ''old'' False
   \<and> (''s'', set_request ''replace_peers=true'')
     \<in> set (uapi_log (snd (snd (snd (apply_plan sample_deaf sample_view sample_input book_new (sample_runtime, []))))))"
proof -
  obtain book' rt' t' where r: "apply_plan sample_deaf sample_view sample_input book_new (sample_runtime, [])
      = (Inl (UapiFailed ''errno=5''), book', rt', t')"
    using sample_fails by (metis prod.exhaust fst_conv)
  obtain key where key: "key_b64_to_hex (nv_b64 sample_view) (nd_private_key (ac_node (ai_app sample_input))) = Some key"
    using sample_key by blast
  have rt: "tr_handle sample_runtime" "tr_uapi_socket_path sample_runtime = Some ''s''"
    "tr_last_fingerprint sample_runtime = Some ''old''" "tr_active_listen_port sample_runtime = Some 51820"
    by (simp_all add: sample_runtime_def)
  from failed_plan_keeps_old_fingerprint [OF rt key r] show ?thesis
    unfolding r by (auto simp: peer_requests_def)
qed

text \<open>
  A tunnel address is announced by the peer and goes into the request as it is: one with line feeds
  adds lines of its own, here a further peer with an address to itself.
\<close>

lemma tunnel_ip_adds_lines:
  "let a = (sample_peer ''K2'' [])\<lparr>pa_tunnel_ip := ''10.44.0.2'' @ newline1 @ ''public_key=00'' @ newline1 @ ''allowed_ip=10.44.0.3''\<rparr>
   in ''public_key=00'' \<in> set (str_lines (peer_body
     (projr (tunnel_peer_from_endpoint sample_b64 a ''203.0.113.20:51820'' []))))"
  by code_simp

end
