(* ===== verification/Nostr_Relay.thy ===== *)
theory Nostr_Relay
  imports Rust_Str
begin

text \<open>
  \<open>crates/nostr-vpn-relay/src/main.rs\<close>: the local Nostr relay. Events are stored in one list and
  broadcast to every connection; a connection has its subscriptions, a reader that handles the
  client's messages, and a task that delivers broadcast events. The step relation interleaves the
  readers and the tasks between any two of their \<open>await\<close> points, under the two read-write locks.
\<close>

section \<open>Events and filters\<close>

record relay_event =
  re_id :: string
  re_pubkey :: string
  re_created_at :: u64
  re_kind :: u32
  re_tags :: "string list list"
  re_content :: string
  re_sig :: string

record nostr_filter =
  nf_ids :: "string list option"
  nf_authors :: "string list option"
  nf_kinds :: "u32 list option"
  nf_p_tags :: "string list option"
  nf_t_tags :: "string list option"
  nf_d_tags :: "string list option"
  nf_since :: "u64 option"

definition misses :: "'a list option \<Rightarrow> 'a \<Rightarrow> bool" where
  "misses wanted x = (case wanted of None \<Rightarrow> False | Some xs \<Rightarrow> x \<notin> set xs)"

definition misses_tag :: "string list option \<Rightarrow> string \<Rightarrow> relay_event \<Rightarrow> bool" where
  "misses_tag wanted name event = (case wanted of None \<Rightarrow> False | Some xs \<Rightarrow>
    \<not> list_ex (\<lambda>tag. 2 \<le> length tag \<and> tag ! 0 = name \<and> tag ! 1 \<in> set xs) (re_tags event))"

definition filter_matches :: "nostr_filter \<Rightarrow> relay_event \<Rightarrow> bool" where
  "filter_matches f event =
    (if misses (nf_ids f) (re_id event) then False
     else if misses (nf_authors f) (re_pubkey event) then False
     else if misses (nf_kinds f) (re_kind event) then False
     else if misses_tag (nf_p_tags f) ''p'' event then False
     else if misses_tag (nf_t_tags f) ''t'' event then False
     else if misses_tag (nf_d_tags f) ''d'' event then False
     else (case nf_since f of None \<Rightarrow> True | Some since \<Rightarrow> since \<le> re_created_at event))"

definition matches_any :: "nostr_filter list \<Rightarrow> relay_event \<Rightarrow> bool" where
  "matches_any filters event = list_ex (\<lambda>f. filter_matches f event) filters"

section \<open>Messages\<close>

text \<open>
  One element of the array a client sent, as JSON reads it: the string it is, and the event or the
  filter it parses as. A text that is not an array is no message.
\<close>

record json_value =
  jv_str :: "string option"
  jv_event :: "relay_event option"
  jv_filter :: "nostr_filter option"

datatype client_request =
    PublishEvent relay_event
  | SubscribeTo string "nostr_filter list"
  | CloseSubscription string
  | IgnoredMessage

definition client_request :: "json_value list \<Rightarrow> client_request" where
  "client_request parsed =
    (if parsed = [] then IgnoredMessage
     else let command = (case jv_str (parsed ! 0) of None \<Rightarrow> [] | Some s \<Rightarrow> s)
       in if command = ''EVENT''
          then (if length parsed < 2 then IgnoredMessage
                else (case jv_event (parsed ! 1) of None \<Rightarrow> IgnoredMessage | Some event \<Rightarrow> PublishEvent event))
          else if command = ''REQ''
          then (if length parsed < 3 then IgnoredMessage
                else SubscribeTo (case jv_str (parsed ! 1) of None \<Rightarrow> [] | Some s \<Rightarrow> s)
                  (List.map_filter jv_filter (drop 2 parsed)))
          else if command = ''CLOSE''
          then (if 2 \<le> length parsed
                then (case jv_str (parsed ! 1) of None \<Rightarrow> IgnoredMessage | Some sub_id \<Rightarrow> CloseSubscription sub_id)
                else IgnoredMessage)
          else IgnoredMessage)"

datatype relay_message = EventMessage string relay_event | OkMessage string | EoseMessage string

section \<open>The state\<close>

text \<open>
  Where a connection's reader is: waiting for a message; having stored an event, before the
  broadcast; before the \<open>OK\<close>; sending the stored events of a request, of which those in the list
  are left; after the end of stored events, before the subscription is inserted. During the last
  two it holds the read guard of the stored events.
\<close>

datatype reader =
    ReaderIdle
  | StoredEvent relay_event
  | BroadcastEvent relay_event
  | SendingStored string "nostr_filter list" "relay_event list"
  | InsertingSubscription string "nostr_filter list"

text \<open>
  Where the broadcast task is: waiting; delivering an event, with the subscriptions left, under the
  read guard of the subscriptions; or ended, after the channel reported that it fell behind.
\<close>

datatype delivery =
    DeliveryWaiting
  | Delivering relay_event "(string \<times> nostr_filter list) list"
  | DeliveryEnded

record connection =
  co_open :: bool
  co_subscriptions :: "(string, nostr_filter list) hmap"
  co_reader :: reader
  co_task :: delivery
  co_unread :: "relay_event list"
  co_sent :: "relay_message list"

record relay_state =
  ly_events :: "relay_event list"
  ly_conns :: "connection list"

definition relay_state_new :: relay_state where
  "relay_state_new = \<lparr>ly_events = [], ly_conns = []\<rparr>"

definition BROADCAST_CAPACITY :: nat where "BROADCAST_CAPACITY = 2048"

definition connection_new :: connection where
  "connection_new = \<lparr>co_open = True, co_subscriptions = [], co_reader = ReaderIdle,
     co_task = DeliveryWaiting, co_unread = [], co_sent = []\<rparr>"

definition holds_events :: "connection \<Rightarrow> bool" where
  "holds_events c = (case co_reader c of SendingStored _ _ _ \<Rightarrow> True | InsertingSubscription _ _ \<Rightarrow> True | _ \<Rightarrow> False)"

definition holds_subscriptions :: "connection \<Rightarrow> bool" where
  "holds_subscriptions c = (case co_task c of Delivering _ _ \<Rightarrow> True | _ \<Rightarrow> False)"

definition queue_message :: "relay_message \<Rightarrow> connection \<Rightarrow> connection" where
  "queue_message m c = c\<lparr>co_sent := co_sent c @ [m]\<rparr>"

text \<open>The broadcast channel puts an event before every receiver that still exists.\<close>

definition broadcast_to :: "relay_event \<Rightarrow> connection \<Rightarrow> connection" where
  "broadcast_to event c =
    (if co_task c = DeliveryEnded then c else c\<lparr>co_unread := co_unread c @ [event]\<rparr>)"

section \<open>Steps of one connection\<close>

text \<open>
  The steps a connection takes by itself: those of its reader after a message, without the one that
  broadcasts, and those of its task. A task whose receiver fell behind the channel's capacity ends.
\<close>

inductive conn_step :: "connection \<Rightarrow> connection \<Rightarrow> bool" where
  send_ok: "co_reader c = BroadcastEvent event \<Longrightarrow>
    conn_step c ((queue_message (OkMessage (re_id event)) c)\<lparr>co_reader := ReaderIdle\<rparr>)"
| send_stored: "co_reader c = SendingStored sub_id filters (event # events) \<Longrightarrow>
    conn_step c ((if matches_any filters event then queue_message (EventMessage sub_id event) c else c)
      \<lparr>co_reader := SendingStored sub_id filters events\<rparr>)"
| send_eose: "co_reader c = SendingStored sub_id filters [] \<Longrightarrow>
    conn_step c ((queue_message (EoseMessage sub_id) c)\<lparr>co_reader := InsertingSubscription sub_id filters\<rparr>)"
| insert_subscription: "co_reader c = InsertingSubscription sub_id filters \<Longrightarrow> \<not> holds_subscriptions c \<Longrightarrow>
    conn_step c (c\<lparr>co_subscriptions := hm_insert sub_id filters (co_subscriptions c), co_reader := ReaderIdle\<rparr>)"
| task_receive: "co_task c = DeliveryWaiting \<Longrightarrow> co_unread c = event # unread \<Longrightarrow>
    length (co_unread c) \<le> BROADCAST_CAPACITY \<Longrightarrow>
    conn_step c (c\<lparr>co_unread := unread, co_task := Delivering event (co_subscriptions c)\<rparr>)"
| task_lagged: "co_task c = DeliveryWaiting \<Longrightarrow> BROADCAST_CAPACITY < length (co_unread c) \<Longrightarrow>
    conn_step c (c\<lparr>co_unread := [], co_task := DeliveryEnded\<rparr>)"
| task_send: "co_task c = Delivering event ((sub_id, filters) # subs) \<Longrightarrow>
    conn_step c ((if matches_any filters event then queue_message (EventMessage sub_id event) c else c)
      \<lparr>co_task := Delivering event subs\<rparr>)"
| task_done: "co_task c = Delivering event [] \<Longrightarrow> conn_step c (c\<lparr>co_task := DeliveryWaiting\<rparr>)"

section \<open>Steps of the relay\<close>

text \<open>
  A client connects; it sends a message, which waits for the locks it needs; it goes away between
  two messages; a reader broadcasts the event it stored; a connection takes a step by itself.
  Storing an event needs the write lock of the stored events, changing the subscriptions that of the
  subscriptions.
\<close>

datatype relay_label = ClientConnects | ClientSends nat client_request | ClientLeaves nat | Internal nat

inductive relay_step :: "relay_state \<Rightarrow> relay_label \<Rightarrow> relay_state \<Rightarrow> bool" where
  connects: "relay_step s ClientConnects (s\<lparr>ly_conns := ly_conns s @ [connection_new]\<rparr>)"
| publishes: "i < length (ly_conns s) \<Longrightarrow> co_open (ly_conns s ! i) \<Longrightarrow> co_reader (ly_conns s ! i) = ReaderIdle \<Longrightarrow>
    list_all (\<lambda>c. \<not> holds_events c) (ly_conns s) \<Longrightarrow>
    relay_step s (ClientSends i (PublishEvent event))
      (s\<lparr>ly_events := ly_events s @ [event],
         ly_conns := (ly_conns s)[i := (ly_conns s ! i)\<lparr>co_reader := StoredEvent event\<rparr>]\<rparr>)"
| subscribes: "i < length (ly_conns s) \<Longrightarrow> co_open (ly_conns s ! i) \<Longrightarrow> co_reader (ly_conns s ! i) = ReaderIdle \<Longrightarrow>
    relay_step s (ClientSends i (SubscribeTo sub_id filters))
      (s\<lparr>ly_conns := (ly_conns s)[i := (ly_conns s ! i)
         \<lparr>co_reader := SendingStored sub_id filters (ly_events s)\<rparr>]\<rparr>)"
| closes: "i < length (ly_conns s) \<Longrightarrow> co_open (ly_conns s ! i) \<Longrightarrow> co_reader (ly_conns s ! i) = ReaderIdle \<Longrightarrow>
    \<not> holds_subscriptions (ly_conns s ! i) \<Longrightarrow>
    relay_step s (ClientSends i (CloseSubscription sub_id))
      (s\<lparr>ly_conns := (ly_conns s)[i := (ly_conns s ! i)
         \<lparr>co_subscriptions := hm_remove sub_id (co_subscriptions (ly_conns s ! i))\<rparr>]\<rparr>)"
| ignored: "i < length (ly_conns s) \<Longrightarrow> co_open (ly_conns s ! i) \<Longrightarrow> co_reader (ly_conns s ! i) = ReaderIdle \<Longrightarrow>
    relay_step s (ClientSends i IgnoredMessage) s"
| leaves: "i < length (ly_conns s) \<Longrightarrow> co_open (ly_conns s ! i) \<Longrightarrow> co_reader (ly_conns s ! i) = ReaderIdle \<Longrightarrow>
    relay_step s (ClientLeaves i)
      (s\<lparr>ly_conns := (ly_conns s)[i := (ly_conns s ! i)\<lparr>co_open := False, co_task := DeliveryEnded, co_unread := []\<rparr>]\<rparr>)"
| broadcasts: "i < length (ly_conns s) \<Longrightarrow> co_reader (ly_conns s ! i) = StoredEvent event \<Longrightarrow>
    relay_step s (Internal i)
      (s\<lparr>ly_conns := map (broadcast_to event)
         ((ly_conns s)[i := (ly_conns s ! i)\<lparr>co_reader := BroadcastEvent event\<rparr>])\<rparr>)"
| internal: "i < length (ly_conns s) \<Longrightarrow> conn_step (ly_conns s ! i) c \<Longrightarrow>
    relay_step s (Internal i) (s\<lparr>ly_conns := (ly_conns s)[i := c]\<rparr>)"

inductive relay_run :: "relay_label list \<Rightarrow> relay_state \<Rightarrow> bool" where
  start: "relay_run [] relay_state_new"
| step: "relay_run labels s \<Longrightarrow> relay_step s label s' \<Longrightarrow> relay_run (labels @ [label]) s'"

inductive_cases conn_stepE: "conn_step c c'"
inductive_cases relay_stepE: "relay_step s label s'"

end
