(* ===== verification/Relay_Delivery.thy ===== *)
theory Relay_Delivery
  imports Nostr_Relay
begin

text \<open>
  The local Nostr relay delivers: whatever interleaves, a subscription misses no event that was
  stored before, during or after the request that opened it.
\<close>

section \<open>The invariant of a connection\<close>

text \<open>
  \<open>P\<close>: the events stored but not yet broadcast; \<open>E\<close>: the stored events; \<open>R\<close>: the subscriptions
  this client has asked for.
\<close>

definition sent_event :: "connection \<Rightarrow> string \<Rightarrow> relay_event \<Rightarrow> bool" where
  "sent_event c sub_id event \<longleftrightarrow> EventMessage sub_id event \<in> set (co_sent c)"

definition on_its_way :: "relay_event set \<Rightarrow> connection \<Rightarrow> string \<times> nostr_filter list \<Rightarrow> relay_event \<Rightarrow> bool" where
  "on_its_way P c sub event \<longleftrightarrow> event \<in> set (co_unread c) \<or> event \<in> P
    \<or> (\<exists>subs. co_task c = Delivering event subs \<and> sub \<in> set subs)"

definition subs_ok :: "relay_event set \<Rightarrow> relay_event set \<Rightarrow> connection \<Rightarrow> bool" where
  "subs_ok P E c \<longleftrightarrow> co_task c \<noteq> DeliveryEnded \<longrightarrow>
    (\<forall>sub_id filters. (sub_id, filters) \<in> set (co_subscriptions c) \<longrightarrow>
      (\<forall>event \<in> E. matches_any filters event \<longrightarrow> sent_event c sub_id event \<or> on_its_way P c (sub_id, filters) event))"

definition reader_ok ::
  "relay_event set \<Rightarrow> (string \<times> nostr_filter list) set \<Rightarrow> connection \<Rightarrow> bool" where
  "reader_ok E R c \<longleftrightarrow> (case co_reader c of
      ReaderIdle \<Rightarrow> True
    | StoredEvent event \<Rightarrow> event \<in> E
    | BroadcastEvent event \<Rightarrow> True
    | SendingStored sub_id filters events \<Rightarrow> (sub_id, filters) \<in> R \<and> set events \<subseteq> E
        \<and> (\<forall>event \<in> E. matches_any filters event \<longrightarrow> event \<in> set events \<or> sent_event c sub_id event)
    | InsertingSubscription sub_id filters \<Rightarrow> (sub_id, filters) \<in> R
        \<and> (\<forall>event \<in> E. matches_any filters event \<longrightarrow> sent_event c sub_id event))"

definition task_ok :: "relay_event set \<Rightarrow> connection \<Rightarrow> bool" where
  "task_ok E c \<longleftrightarrow> set (co_unread c) \<subseteq> E \<and> (case co_task c of
      DeliveryWaiting \<Rightarrow> True
    | Delivering event subs \<Rightarrow> event \<in> E \<and> set subs \<subseteq> set (co_subscriptions c)
    | DeliveryEnded \<Rightarrow> co_unread c = [])"

definition sent_ok :: "relay_event set \<Rightarrow> (string \<times> nostr_filter list) set \<Rightarrow> connection \<Rightarrow> bool" where
  "sent_ok E R c \<longleftrightarrow> hm_wf (co_subscriptions c) \<and> set (co_subscriptions c) \<subseteq> R
    \<and> (\<forall>sub_id event. sent_event c sub_id event \<longrightarrow>
        event \<in> E \<and> (\<exists>filters. (sub_id, filters) \<in> R \<and> matches_any filters event))"

definition conn_ok ::
  "relay_event set \<Rightarrow> relay_event set \<Rightarrow> (string \<times> nostr_filter list) set \<Rightarrow> connection \<Rightarrow> bool" where
  "conn_ok P E R c \<longleftrightarrow> subs_ok P E c \<and> reader_ok E R c \<and> task_ok E c \<and> sent_ok E R c"

lemmas conn_ok_defs = conn_ok_def subs_ok_def reader_ok_def task_ok_def sent_ok_def sent_event_def
  on_its_way_def queue_message_def

lemma conn_ok_new: "conn_ok P E R connection_new"
  by (simp add: conn_ok_defs connection_new_def)

lemma conn_step_ok:
  assumes "conn_step c c'" "conn_ok P E R c"
  shows "conn_ok P E R c'"
  using assms
proof (cases rule: conn_step.cases)
  case (insert_subscription sub_id filters)
  then show ?thesis using assms(2)
    by (cases "co_task c") (auto simp: conn_ok_defs holds_subscriptions_def hm_set_insert hm_wf_insert)
next
  case (task_send event sub_id filters subs)
  then show ?thesis using assms(2) by (auto simp: conn_ok_defs split: reader.splits)
qed (auto simp: conn_ok_defs split: reader.splits delivery.splits)

lemma conn_step_stored:
  "conn_step c c' \<Longrightarrow> co_reader c' = StoredEvent event \<longleftrightarrow> co_reader c = StoredEvent event"
  by (cases rule: conn_step.cases, assumption) (auto simp: queue_message_def)

lemma conn_step_holds:
  "conn_step c c' \<Longrightarrow> holds_events c' \<Longrightarrow> holds_events c"
  by (cases rule: conn_step.cases, assumption) (auto simp: queue_message_def holds_events_def split: reader.splits if_splits)

section \<open>The invariant of the relay\<close>

definition pending :: "connection list \<Rightarrow> relay_event set" where
  "pending cs = {event. \<exists>c \<in> set cs. co_reader c = StoredEvent event}"

definition asked :: "relay_label list \<Rightarrow> nat \<Rightarrow> (string \<times> nostr_filter list) set" where
  "asked labels i = {(sub_id, filters). ClientSends i (SubscribeTo sub_id filters) \<in> set labels}"

definition relay_inv :: "relay_label list \<Rightarrow> relay_state \<Rightarrow> bool" where
  "relay_inv labels s \<longleftrightarrow> (\<forall>i < length (ly_conns s).
     conn_ok (pending (ly_conns s)) (set (ly_events s)) (asked labels i) (ly_conns s ! i))"

lemma conn_ok_weaken: "conn_ok P E R c \<Longrightarrow> P \<subseteq> P' \<Longrightarrow> R \<subseteq> R' \<Longrightarrow> conn_ok P' E R' c"
proof -
  assume ok: "conn_ok P E R c" and P: "P \<subseteq> P'" and R: "R \<subseteq> R'"
  have "subs_ok P' E c" using ok P unfolding conn_ok_def subs_ok_def on_its_way_def by blast
  moreover have "reader_ok E R' c" using ok R by (auto simp: conn_ok_def reader_ok_def split: reader.splits)
  moreover have "sent_ok E R' c" using ok R unfolding conn_ok_def sent_ok_def by blast
  ultimately show ?thesis using ok by (simp add: conn_ok_def)
qed

lemma asked_append: "asked labels i \<subseteq> asked (labels @ [l]) i"
  by (auto simp: asked_def)

text \<open>One connection changes; nothing that waits for its broadcast is lost by it.\<close>

lemma relay_inv_update:
  assumes inv: "relay_inv labels s" and i: "i < length (ly_conns s)"
    and pending: "\<And>event. co_reader (ly_conns s ! i) = StoredEvent event \<Longrightarrow> co_reader c = StoredEvent event"
    and ok: "conn_ok (pending ((ly_conns s)[i := c])) (set (ly_events s)) (asked (labels @ [l]) i) c"
  shows "relay_inv (labels @ [l]) (s\<lparr>ly_conns := (ly_conns s)[i := c]\<rparr>)"
proof -
  have "pending (ly_conns s) \<subseteq> pending ((ly_conns s)[i := c])"
    using i pending by (fastforce simp: pending_def in_set_conv_nth nth_list_update)
  then have "conn_ok (pending ((ly_conns s)[i := c])) (set (ly_events s)) (asked (labels @ [l]) j) (ly_conns s ! j)"
    if "j < length (ly_conns s)" for j
    using inv that by (auto simp: relay_inv_def intro: conn_ok_weaken [OF _ \<open>pending _ \<subseteq> _\<close> asked_append])
  with ok i show ?thesis by (auto simp: relay_inv_def nth_list_update)
qed

lemma conn_ok_publish:
  assumes "conn_ok P E R c" "\<not> holds_events c"
  shows "conn_ok (insert event P) (insert event E) R c"
  using assms by (cases "co_reader c") (auto simp: conn_ok_defs holds_events_def split: delivery.splits)

lemma conn_ok_broadcast: "conn_ok P E R c \<Longrightarrow> event \<in> E \<Longrightarrow> conn_ok (P - {event}) E R (broadcast_to event c)"
  by (auto simp: conn_ok_defs broadcast_to_def split: reader.splits delivery.splits)

lemma broadcast_to_reader [simp]: "co_reader (broadcast_to event c) = co_reader c"
  by (simp add: broadcast_to_def)

lemma pending_update_le:
  "i < length cs \<Longrightarrow> pending cs - {event. co_reader (cs ! i) = StoredEvent event} \<subseteq> pending (cs[i := c])"
proof
  fix event assume i: "i < length cs" and "event \<in> pending cs - {event. co_reader (cs ! i) = StoredEvent event}"
  then obtain j where "j < length cs" "co_reader (cs ! j) = StoredEvent event"
    and "co_reader (cs ! i) \<noteq> StoredEvent event" by (auto simp: pending_def in_set_conv_nth)
  moreover from this have "j \<noteq> i" by auto
  ultimately have "j < length cs" "co_reader (cs ! j) = StoredEvent event" "j \<noteq> i" by auto
  moreover from this have "cs ! j \<in> set (cs[i := c])" using nth_mem [of j "cs[i := c]"] by simp
  ultimately show "event \<in> pending (cs[i := c])" unfolding pending_def by blast
qed

lemma relay_inv_nth:
  "relay_inv labels s \<Longrightarrow> i < length (ly_conns s) \<Longrightarrow>
    conn_ok (pending (ly_conns s)) (set (ly_events s)) (asked (labels @ [l]) i) (ly_conns s ! i)"
  by (auto simp: relay_inv_def intro: conn_ok_weaken [OF _ _ asked_append])

lemma conn_ok_reader_idle:
  "conn_ok P E R c \<Longrightarrow> reader_ok E R (c\<lparr>co_reader := r\<rparr>) \<Longrightarrow> conn_ok P E R (c\<lparr>co_reader := r\<rparr>)"
  by (auto simp: conn_ok_def subs_ok_def task_ok_def sent_ok_def sent_event_def on_its_way_def split: delivery.splits)

lemma publish_inv:
  assumes inv: "relay_inv labels s" and i: "i < length (ly_conns s)" and free: "list_all (\<lambda>c. \<not> holds_events c) (ly_conns s)"
    and idle: "co_reader (ly_conns s ! i) = ReaderIdle"
  shows "relay_inv (labels @ [l]) (s\<lparr>ly_events := ly_events s @ [event],
    ly_conns := (ly_conns s)[i := (ly_conns s ! i)\<lparr>co_reader := StoredEvent event\<rparr>]\<rparr>)"
proof -
  let ?cs = "(ly_conns s)[i := (ly_conns s ! i)\<lparr>co_reader := StoredEvent event\<rparr>]"
  have "pending (ly_conns s) \<subseteq> pending ?cs"
    using pending_update_le [OF i, of "(ly_conns s ! i)\<lparr>co_reader := StoredEvent event\<rparr>"] idle by simp
  moreover have "event \<in> pending ?cs" using set_update_memI [OF i] unfolding pending_def by force
  ultimately have P: "insert event (pending (ly_conns s)) \<subseteq> pending ?cs" by simp
  have ok: "conn_ok (pending ?cs) (insert event (set (ly_events s))) (asked (labels @ [l]) j) (ly_conns s ! j)"
    if j: "j < length (ly_conns s)" for j
    using conn_ok_publish [OF relay_inv_nth [OF inv j, of l], of event] free j P
    by (auto simp: list_all_length intro: conn_ok_weaken)
  then have "conn_ok (pending ?cs) (insert event (set (ly_events s))) (asked (labels @ [l]) i)
      ((ly_conns s ! i)\<lparr>co_reader := StoredEvent event\<rparr>)"
    using i by (intro conn_ok_reader_idle) (auto simp: reader_ok_def)
  with ok i show ?thesis by (auto simp: relay_inv_def nth_list_update)
qed

lemma broadcast_inv:
  assumes inv: "relay_inv labels s" and i: "i < length (ly_conns s)"
    and stored: "co_reader (ly_conns s ! i) = StoredEvent event"
  shows "relay_inv (labels @ [l]) (s\<lparr>ly_conns := map (broadcast_to event)
    ((ly_conns s)[i := (ly_conns s ! i)\<lparr>co_reader := BroadcastEvent event\<rparr>])\<rparr>)"
proof -
  let ?cs = "(ly_conns s)[i := (ly_conns s ! i)\<lparr>co_reader := BroadcastEvent event\<rparr>]"
  have event: "event \<in> set (ly_events s)"
    using relay_inv_nth [OF inv i, of l] stored by (simp add: conn_ok_def reader_ok_def)
  have "pending (ly_conns s) - {event} \<subseteq> pending (map (broadcast_to event) ?cs)"
    using pending_update_le [OF i, of "(ly_conns s ! i)\<lparr>co_reader := BroadcastEvent event\<rparr>"] stored
    by (auto simp: pending_def)
  moreover have "conn_ok (pending (ly_conns s)) (set (ly_events s)) (asked (labels @ [l]) j) (?cs ! j)"
    if "j < length (ly_conns s)" for j
    using relay_inv_nth [OF inv that, of l] that i
    by (auto simp: nth_list_update reader_ok_def intro: conn_ok_reader_idle)
  ultimately show ?thesis
    using event by (auto simp: relay_inv_def intro!: conn_ok_weaken [OF conn_ok_broadcast])
qed

lemma relay_step_inv:
  assumes "relay_step s l s'" "relay_inv labels s"
  shows "relay_inv (labels @ [l]) s'"
  using assms
proof (cases rule: relay_step.cases)
  case connects
  have "pending (ly_conns s @ [connection_new]) = pending (ly_conns s)"
    by (auto simp: pending_def connection_new_def)
  with assms(2) show ?thesis
    by (auto simp: connects relay_inv_def nth_append conn_ok_new intro: conn_ok_weaken [OF _ _ asked_append])
next
  case (publishes i event)
  then show ?thesis using publish_inv [OF assms(2)] by simp
next
  case (subscribes i sub_id filters)
  let ?c = "(ly_conns s ! i)\<lparr>co_reader := SendingStored sub_id filters (ly_events s)\<rparr>"
  have "conn_ok (pending (ly_conns s)) (set (ly_events s)) (asked (labels @ [l]) i) ?c"
    using relay_inv_nth [OF assms(2) subscribes(3), of l] subscribes(1)
    by (auto simp: reader_ok_def asked_def intro: conn_ok_reader_idle)
  then show ?thesis unfolding subscribes(2)
    by (intro relay_inv_update [OF assms(2) subscribes(3)])
      (use subscribes pending_update_le [of i "ly_conns s" ?c] in \<open>auto intro: conn_ok_weaken\<close>)
next
  case (closes i sub_id)
  let ?c = "(ly_conns s ! i)\<lparr>co_subscriptions := hm_remove sub_id (co_subscriptions (ly_conns s ! i))\<rparr>"
  have "conn_ok (pending (ly_conns s)) (set (ly_events s)) (asked (labels @ [l]) i) ?c"
    using relay_inv_nth [OF assms(2) closes(3), of l] closes
    by (auto simp: conn_ok_defs holds_subscriptions_def hm_set_remove hm_wf_remove split: delivery.splits)
  then show ?thesis unfolding closes(2)
    by (intro relay_inv_update [OF assms(2) closes(3)])
      (use closes pending_update_le [of i "ly_conns s" ?c] in \<open>auto intro: conn_ok_weaken\<close>)
next
  case (ignored i)
  then show ?thesis using assms(2) by (auto simp: relay_inv_def intro: conn_ok_weaken [OF _ _ asked_append])
next
  case (leaves i)
  let ?c = "(ly_conns s ! i)\<lparr>co_open := False, co_task := DeliveryEnded, co_unread := []\<rparr>"
  have "conn_ok (pending (ly_conns s)) (set (ly_events s)) (asked (labels @ [l]) i) ?c"
    using relay_inv_nth [OF assms(2) leaves(3), of l] leaves by (auto simp: conn_ok_defs)
  then show ?thesis unfolding leaves(2)
    by (intro relay_inv_update [OF assms(2) leaves(3)])
      (use leaves pending_update_le [of i "ly_conns s" ?c] in \<open>auto intro: conn_ok_weaken\<close>)
next
  case (broadcasts i event)
  then show ?thesis using broadcast_inv [OF assms(2)] by simp
next
  case (internal i c)
  have "pending (ly_conns s) \<subseteq> pending ((ly_conns s)[i := c])"
    using internal conn_step_stored [OF internal(4)]
    by (fastforce simp: pending_def in_set_conv_nth nth_list_update)
  then have "conn_ok (pending ((ly_conns s)[i := c])) (set (ly_events s)) (asked (labels @ [l]) i) c"
    using relay_inv_nth [OF assms(2) internal(3), of l] internal(4)
    by (auto intro: conn_step_ok conn_ok_weaken)
  then show ?thesis unfolding internal(2)
    by (intro relay_inv_update [OF assms(2) internal(3)]) (simp_all add: conn_step_stored [OF internal(4)])
qed

lemma relay_run_inv: "relay_run labels s \<Longrightarrow> relay_inv labels s"
proof (induction rule: relay_run.induct)
  case start
  show ?case by (simp add: relay_inv_def relay_state_new_def)
next
  case (step labels s label s')
  then show ?case by (intro relay_step_inv)
qed

section \<open>Progress\<close>

text \<open>The work left: broadcasts, readers' work, unread events, deliveries.\<close>

definition to_broadcast :: "connection \<Rightarrow> nat" where
  "to_broadcast c = (case co_reader c of StoredEvent _ \<Rightarrow> 1 | _ \<Rightarrow> 0)"

definition reader_work :: "connection \<Rightarrow> nat" where
  "reader_work c = (case co_reader c of BroadcastEvent _ \<Rightarrow> 1 | SendingStored _ _ events \<Rightarrow> length events + 2
     | InsertingSubscription _ _ \<Rightarrow> 1 | _ \<Rightarrow> 0)"

definition unread_work :: "connection \<Rightarrow> nat" where
  "unread_work c = length (co_unread c)"

definition delivery_work :: "connection \<Rightarrow> nat" where
  "delivery_work c = (case co_task c of Delivering _ subs \<Rightarrow> length subs + 1 | _ \<Rightarrow> 0)"

definition total :: "(connection \<Rightarrow> nat) \<Rightarrow> relay_state \<Rightarrow> nat" where
  "total w s = sum_list (map w (ly_conns s))"

definition work_order :: "(relay_state \<times> relay_state) set" where
  "work_order = measures [total to_broadcast, total reader_work, total unread_work, total delivery_work]"

lemmas work_defs = to_broadcast_def reader_work_def unread_work_def delivery_work_def

lemma total_update:
  "i < length (ly_conns s) \<Longrightarrow>
    total w (s\<lparr>ly_conns := (ly_conns s)[i := c]\<rparr>) + w (ly_conns s ! i) = total w s + w c"
proof -
  assume i: "i < length (ly_conns s)"
  have "sum_list (map w (xs[i := c])) + w (xs ! i) = sum_list (map w xs) + w c"
    if "i < length xs" for xs :: "connection list"
    using that by (induction xs arbitrary: i) (auto split: nat.splits)
  with i show ?thesis by (simp add: total_def)
qed

lemma conn_step_work:
  "conn_step c c' \<Longrightarrow> to_broadcast c' = to_broadcast c \<and>
    (reader_work c' < reader_work c \<or> reader_work c' = reader_work c \<and>
      (unread_work c' < unread_work c \<or> unread_work c' = unread_work c \<and> delivery_work c' < delivery_work c))"
  by (cases rule: conn_step.cases, assumption) (auto simp: work_defs queue_message_def)

lemma internal_step_work:
  assumes "relay_step s (Internal i) s'"
  shows "(s', s) \<in> work_order"
  using assms
proof (cases rule: relay_step.cases)
  case (broadcasts event)
  let ?c = "(ly_conns s ! i)\<lparr>co_reader := BroadcastEvent event\<rparr>"
  have same: "to_broadcast \<circ> broadcast_to event = to_broadcast"
    by (auto simp: fun_eq_iff to_broadcast_def broadcast_to_def)
  have "total to_broadcast s' = total to_broadcast (s\<lparr>ly_conns := (ly_conns s)[i := ?c]\<rparr>)"
    by (simp add: broadcasts total_def same)
  with total_update [OF broadcasts(2), of to_broadcast ?c] broadcasts(3) show ?thesis
    by (simp add: work_order_def to_broadcast_def)
next
  case (internal c)
  show ?thesis
    using conn_step_work [OF internal(3)] total_update [OF internal(2), of to_broadcast c]
      total_update [OF internal(2), of reader_work c] total_update [OF internal(2), of unread_work c]
      total_update [OF internal(2), of delivery_work c]
    by (auto simp: internal(1) work_order_def)
qed

definition quiet :: "relay_state \<Rightarrow> bool" where
  "quiet s \<longleftrightarrow> list_all (\<lambda>c. co_reader c = ReaderIdle \<and> co_unread c = [] \<and> \<not> holds_subscriptions c) (ly_conns s)"

lemma reader_can_step:
  assumes "co_reader c \<noteq> ReaderIdle" "\<And>event. co_reader c \<noteq> StoredEvent event" "\<not> holds_subscriptions c"
  shows "\<exists>c'. conn_step c c'"
proof (cases "co_reader c")
  case (SendingStored sub_id filters events)
  then show ?thesis by (cases events) (auto intro: conn_step.intros)
qed (use assms in \<open>auto intro: conn_step.intros\<close>)

lemma conn_can_step:
  assumes "conn_ok P E R c" "\<And>event. co_reader c \<noteq> StoredEvent event"
    and "co_reader c \<noteq> ReaderIdle \<or> co_unread c \<noteq> [] \<or> holds_subscriptions c"
  shows "\<exists>c'. conn_step c c'"
proof (cases "co_task c")
  case DeliveryWaiting
  show ?thesis
  proof (cases "co_unread c")
    case Nil
    with assms DeliveryWaiting show ?thesis by (intro reader_can_step) (auto simp: holds_subscriptions_def)
  next
    case (Cons event unread)
    with DeliveryWaiting show ?thesis
      using conn_step.task_receive [of c event unread] conn_step.task_lagged [of c]
      by (cases "length (co_unread c) \<le> BROADCAST_CAPACITY") (auto simp: not_le)
  qed
next
  case (Delivering event subs)
  then show ?thesis by (cases subs) (auto intro: conn_step.intros)
next
  case DeliveryEnded
  with assms show ?thesis
    by (intro reader_can_step) (auto simp: holds_subscriptions_def conn_ok_def task_ok_def)
qed

lemma stuck_quiet:
  assumes inv: "relay_inv labels s" and stuck: "\<And>i s'. \<not> relay_step s (Internal i) s'"
  shows "quiet s"
  unfolding quiet_def list_all_length
proof (intro allI impI, rule ccontr)
  fix i
  let ?c = "ly_conns s ! i"
  assume i: "i < length (ly_conns s)"
    and "\<not> (co_reader ?c = ReaderIdle \<and> co_unread ?c = [] \<and> \<not> holds_subscriptions ?c)"
  then have busy: "co_reader ?c \<noteq> ReaderIdle \<or> co_unread ?c \<noteq> [] \<or> holds_subscriptions ?c" by argo
  have stored: "co_reader ?c \<noteq> StoredEvent event" for event
    using relay_step.broadcasts [OF i] stuck by metis
  have ok: "conn_ok (pending (ly_conns s)) (set (ly_events s)) (asked labels i) ?c"
    using inv i by (simp add: relay_inv_def)
  from conn_can_step [OF ok stored busy] obtain c' where "conn_step ?c c'" ..
  from relay_step.internal [OF i this] stuck show False by metis
qed

text \<open>In a quiet state nothing is on its way any more.\<close>

lemma quiet_delivered:
  assumes "relay_inv labels s" "quiet s" "c \<in> set (ly_conns s)" "co_task c \<noteq> DeliveryEnded"
    "(sub_id, filters) \<in> set (co_subscriptions c)" "event \<in> set (ly_events s)" "matches_any filters event"
  shows "EventMessage sub_id event \<in> set (co_sent c)"
proof -
  obtain i where i: "i < length (ly_conns s)" "c = ly_conns s ! i" using assms(3) by (auto simp: in_set_conv_nth)
  have "pending (ly_conns s) = {}" using assms(2) by (auto simp: pending_def quiet_def list_all_iff)
  with i assms(1) have "subs_ok {} (set (ly_events s)) c" by (simp add: relay_inv_def conn_ok_def)
  moreover have "co_unread c = []" "\<not> holds_subscriptions c" using assms(2,3) by (auto simp: quiet_def list_all_iff)
  ultimately show ?thesis
    using assms(4-7) by (fastforce simp: subs_ok_def on_its_way_def sent_event_def holds_subscriptions_def)
qed

section \<open>An example run\<close>

text \<open>One client publishes an event and then asks for everything.\<close>

definition sample_event :: relay_event where
  "sample_event = \<lparr>re_id = ''id'', re_pubkey = ''aa'', re_created_at = 5, re_kind = 25050, re_tags = [],
     re_content = [], re_sig = ''sig''\<rparr>"

definition any_filter :: nostr_filter where
  "any_filter = \<lparr>nf_ids = None, nf_authors = None, nf_kinds = Some [25050], nf_p_tags = None,
     nf_t_tags = None, nf_d_tags = None, nf_since = None\<rparr>"

definition sample_conn ::
  "reader \<Rightarrow> delivery \<Rightarrow> relay_event list \<Rightarrow> relay_message list \<Rightarrow> connection" where
  "sample_conn reader task unread sent = \<lparr>co_open = True, co_subscriptions = [], co_reader = reader,
     co_task = task, co_unread = unread, co_sent = sent\<rparr>"

definition one_conn :: "connection \<Rightarrow> relay_state" where
  "one_conn c = \<lparr>ly_events = [sample_event], ly_conns = [c]\<rparr>"

definition sample_end :: connection where
  "sample_end = (sample_conn ReaderIdle DeliveryWaiting [] [OkMessage ''id'', EventMessage ''s'' sample_event,
     EoseMessage ''s''])\<lparr>co_subscriptions := [(''s'', [any_filter])]\<rparr>"

definition sample_labels :: "relay_label list" where
  "sample_labels = [ClientConnects, ClientSends 0 (PublishEvent sample_event)] @ replicate 4 (Internal 0)
     @ [ClientSends 0 (SubscribeTo ''s'' [any_filter])] @ replicate 3 (Internal 0)"

lemma any_filter_matches [simp]: "matches_any [any_filter] sample_event"
  by (simp add: matches_any_def filter_matches_def any_filter_def misses_def misses_tag_def sample_event_def)

lemma run_internal:
  "relay_run labels (one_conn c) \<Longrightarrow> conn_step c c' \<Longrightarrow> relay_run (labels @ [Internal 0]) (one_conn c')"
  using relay_run.step [OF _ relay_step.internal [of 0 "one_conn c" c']] by (simp add: one_conn_def)

lemma sample_run: "relay_run sample_labels (one_conn sample_end)"
proof -
  let ?ok = "[OkMessage ''id'']" and ?ev = "[OkMessage ''id'', EventMessage ''s'' sample_event]"
  let ?fs = "[any_filter]"
  note defs = sample_conn_def one_conn_def queue_message_def
  have "relay_run [ClientConnects] \<lparr>ly_events = [], ly_conns = [connection_new]\<rparr>"
    using relay_run.step [OF relay_run.start relay_step.connects] by (simp add: relay_state_new_def)
  from relay_run.step [OF this relay_step.publishes [of 0 _ sample_event]]
  have "relay_run [ClientConnects, ClientSends 0 (PublishEvent sample_event)]
      (one_conn (sample_conn (StoredEvent sample_event) DeliveryWaiting [] []))"
    by (simp add: defs connection_new_def holds_events_def)
  from relay_run.step [OF this relay_step.broadcasts [of 0 _ sample_event]]
  have "relay_run [ClientConnects, ClientSends 0 (PublishEvent sample_event), Internal 0]
      (one_conn (sample_conn (BroadcastEvent sample_event) DeliveryWaiting [sample_event] []))"
    by (simp add: defs broadcast_to_def)
  from run_internal [OF this, of "sample_conn ReaderIdle DeliveryWaiting [sample_event] ?ok"]
    conn_step.send_ok [of "sample_conn (BroadcastEvent sample_event) DeliveryWaiting [sample_event] []" sample_event]
  have "relay_run ([ClientConnects, ClientSends 0 (PublishEvent sample_event)] @ replicate 2 (Internal 0))
      (one_conn (sample_conn ReaderIdle DeliveryWaiting [sample_event] ?ok))"
    by (simp add: defs sample_event_def numeral_2_eq_2)
  from run_internal [OF this, of "sample_conn ReaderIdle (Delivering sample_event []) [] ?ok"]
    conn_step.task_receive [of "sample_conn ReaderIdle DeliveryWaiting [sample_event] ?ok" sample_event "[]"]
  have "relay_run ([ClientConnects, ClientSends 0 (PublishEvent sample_event)] @ replicate 3 (Internal 0))
      (one_conn (sample_conn ReaderIdle (Delivering sample_event []) [] ?ok))"
    by (simp add: defs BROADCAST_CAPACITY_def replicate_Suc numeral_2_eq_2 numeral_3_eq_3)
  from run_internal [OF this, of "sample_conn ReaderIdle DeliveryWaiting [] ?ok"]
    conn_step.task_done [of "sample_conn ReaderIdle (Delivering sample_event []) [] ?ok" sample_event]
  have "relay_run ([ClientConnects, ClientSends 0 (PublishEvent sample_event)] @ replicate 4 (Internal 0))
      (one_conn (sample_conn ReaderIdle DeliveryWaiting [] ?ok))"
    by (simp add: defs numeral_eq_Suc)
  from relay_run.step [OF this relay_step.subscribes [of 0 _ "''s''" ?fs]]
  have sub: "relay_run ([ClientConnects, ClientSends 0 (PublishEvent sample_event)] @ replicate 4 (Internal 0)
        @ [ClientSends 0 (SubscribeTo ''s'' ?fs)])
      (one_conn (sample_conn (SendingStored ''s'' ?fs [sample_event]) DeliveryWaiting [] ?ok))"
    by (simp add: defs)
  have "conn_step (sample_conn (SendingStored ''s'' ?fs [sample_event]) DeliveryWaiting [] ?ok)
      (sample_conn (SendingStored ''s'' ?fs []) DeliveryWaiting [] ?ev)"
    using conn_step.send_stored [of "sample_conn (SendingStored ''s'' ?fs [sample_event]) DeliveryWaiting [] ?ok"
        "''s''" ?fs sample_event "[]"] by (simp add: defs)
  from run_internal [OF sub this]
  have sent: "relay_run (([ClientConnects, ClientSends 0 (PublishEvent sample_event)] @ replicate 4 (Internal 0)
        @ [ClientSends 0 (SubscribeTo ''s'' ?fs)]) @ replicate 1 (Internal 0))
      (one_conn (sample_conn (SendingStored ''s'' ?fs []) DeliveryWaiting [] ?ev))" by simp
  have "conn_step (sample_conn (SendingStored ''s'' ?fs []) DeliveryWaiting [] ?ev)
      (sample_conn (InsertingSubscription ''s'' ?fs) DeliveryWaiting [] (?ev @ [EoseMessage ''s'']))"
    using conn_step.send_eose [of "sample_conn (SendingStored ''s'' ?fs []) DeliveryWaiting [] ?ev" "''s''" ?fs]
    by (simp add: defs)
  note eose = run_internal [OF sent this]
  have "conn_step (sample_conn (InsertingSubscription ''s'' ?fs) DeliveryWaiting [] (?ev @ [EoseMessage ''s''])) sample_end"
    using conn_step.insert_subscription [of "sample_conn (InsertingSubscription ''s'' ?fs) DeliveryWaiting []
        (?ev @ [EoseMessage ''s''])" "''s''" ?fs]
    by (simp add: defs holds_subscriptions_def sample_end_def hm_insert_def)
  from run_internal [OF eose this] show ?thesis by (simp add: sample_labels_def numeral_eq_Suc)
qed

lemma sample_end_stuck: "\<not> relay_step (one_conn sample_end) (Internal i) s"
  by (auto simp: one_conn_def sample_end_def sample_conn_def elim!: relay_stepE conn_stepE)

section \<open>What the relay promises\<close>

text \<open>
  C20. The relay sends a client an event under a subscription id only if the event was published
  and some request of that client with that id has a filter that matches it, in every interleaving.
\<close>

theorem relay_sends_what_was_asked:
  assumes "relay_run labels s" and "i < length (ly_conns s)"
    and "EventMessage sub_id event \<in> set (co_sent (ly_conns s ! i))"
  shows "event \<in> set (ly_events s)
    \<and> (\<exists>filters. ClientSends i (SubscribeTo sub_id filters) \<in> set labels \<and> matches_any filters event)"
  using relay_run_inv [OF assms(1)] assms(2,3)
  by (fastforce simp: relay_inv_def conn_ok_def sent_ok_def sent_event_def asked_def)


lemma relay_sends_what_was_asked_witness:
  "EventMessage ''s'' sample_event \<in> set (co_sent (ly_conns (one_conn sample_end) ! 0))
    \<and> sample_event \<in> set (ly_events (one_conn sample_end))"
  using relay_sends_what_was_asked [OF sample_run, of 0 "''s''" sample_event]
  by (simp add: one_conn_def sample_end_def sample_conn_def)


end
