(* ===== verification/Relay_Budget.thy ===== *)
theory Relay_Budget
  imports Relay_Runtime
begin

text \<open>
  What the bookkeeping of the UDP relay promises: a session never forwards more than its byte
  limit nor faster than its rate, and the persistent counters survive a restart.
\<close>

section \<open>The byte limit\<close>

text \<open>One packet offered to a session: when it arrives and its length.\<close>

type_synonym packet = "nat \<times> u64"

definition offer :: "relay_service_limits \<Rightarrow> packet \<Rightarrow> session_forwarding_state \<Rightarrow> session_forwarding_state" where
  "offer limits p s = snd (allow_forward limits (fst p) (snd p) s)"

text \<open>The bytes of the packets let through, in a run of packets.\<close>

fun forwarded :: "relay_service_limits \<Rightarrow> packet list \<Rightarrow> session_forwarding_state \<Rightarrow> nat" where
  "forwarded limits [] s = 0"
| "forwarded limits (p # ps) s =
    (if fst (allow_forward limits (fst p) (snd p) s) = Inr () then unat (snd p) else 0)
      + forwarded limits ps (offer limits p s)"

definition budget_inv :: "relay_service_limits \<Rightarrow> session_forwarding_state \<Rightarrow> bool" where
  "budget_inv limits s \<longleftrightarrow> sf_total_forwarded_bytes s \<le> rl_max_bytes_per_session limits"

lemma saturating_add_within:
  fixes a b m :: "'a::len word"
  assumes "saturating_add a b \<le> m" "m < - 1"
  shows "unat (saturating_add a b) = unat a + unat b"
proof -
  have "saturating_add a b < - 1" using assms by (rule order_le_less_trans)
  then have "unat (saturating_add a b) < 2 ^ LENGTH('a) - 1"
    by (simp add: word_less_nat_alt unsigned_minus_1_eq_mask mask_eq_exp_minus_1)
  then show ?thesis by (simp add: unat_saturating_add)
qed

text \<open>One packet: it is let through and charged in full, or the charge stays.\<close>

lemma allow_forward_charge:
  "fst (allow_forward limits now bytes s) = Inr () \<and>
     sf_total_forwarded_bytes (snd (allow_forward limits now bytes s))
       = saturating_add (sf_total_forwarded_bytes s) bytes
     \<and> saturating_add (sf_total_forwarded_bytes s) bytes \<le> rl_max_bytes_per_session limits
   \<or> fst (allow_forward limits now bytes s) \<noteq> Inr () \<and>
     sf_total_forwarded_bytes (snd (allow_forward limits now bytes s)) = sf_total_forwarded_bytes s"
  by (auto simp: allow_forward_def Let_def not_less split: option.split)

lemma allow_forward_closed:
  "sf_closed s \<Longrightarrow> allow_forward limits now bytes s = (Inl ByteLimitExceeded, s)"
  by (simp add: allow_forward_def)

lemma offer_budget: "budget_inv limits s \<Longrightarrow> budget_inv limits (offer limits p s)"
  using allow_forward_charge [of limits "fst p" "snd p" s] by (auto simp: budget_inv_def offer_def)

lemma offer_level:
  "sf_total_forwarded_bytes s \<le> sf_total_forwarded_bytes (offer limits p s)"
  using allow_forward_charge [of limits "fst p" "snd p" s] by (auto simp: offer_def)

interpretation budget: stepped_mono "offer limits" "budget_inv limits" sf_total_forwarded_bytes for limits
  by unfold_locales (auto simp: offer_budget offer_level)

lemma forwarded_charged:
  assumes "budget_inv limits s" "rl_max_bytes_per_session limits < - 1"
  shows "unat (sf_total_forwarded_bytes s) + forwarded limits ps s
    = unat (sf_total_forwarded_bytes (fold (offer limits) ps s))"
  using assms
proof (induction ps arbitrary: s)
  case (Cons p ps)
  have "unat (sf_total_forwarded_bytes s)
      + (if fst (allow_forward limits (fst p) (snd p) s) = Inr () then unat (snd p) else 0)
    = unat (sf_total_forwarded_bytes (offer limits p s))"
    using allow_forward_charge [of limits "fst p" "snd p" s] saturating_add_within [OF _ Cons.prems(2)]
    by (auto simp: offer_def)
  with Cons.IH [OF offer_budget [OF Cons.prems(1)] Cons.prems(2), of p] show ?case by simp
qed simp

lemma forwarded_closed: "sf_closed s \<Longrightarrow> forwarded limits qs s = 0"
  by (induction qs) (simp_all add: offer_def allow_forward_closed)

text \<open>
  C12. Whatever packets are offered to a fresh session, in whatever order and at whatever times,
  the bytes let through are exactly those charged to it and never more than the session's limit
  (a limit of \<open>u64::MAX\<close> is no limit); the charge never falls; and a session that was closed
  because a packet would have exceeded the limit lets nothing more through.
\<close>

theorem session_byte_limit:
  fixes limits :: relay_service_limits and ps qs :: "packet list"
  assumes "rl_max_bytes_per_session limits < - 1"
  defines "s \<equiv> fold (offer limits) ps session_forwarding_state_default"
  shows "forwarded limits ps session_forwarding_state_default = unat (sf_total_forwarded_bytes s)
    \<and> sf_total_forwarded_bytes s \<le> rl_max_bytes_per_session limits
    \<and> sf_total_forwarded_bytes s \<le> sf_total_forwarded_bytes (fold (offer limits) qs s)
    \<and> (sf_closed s \<longrightarrow> forwarded limits qs s = 0)"
proof -
  have init: "budget_inv limits session_forwarding_state_default"
    by (simp add: budget_inv_def session_forwarding_state_default_def)
  have inv: "budget_inv limits s" unfolding s_def by (rule budget.run_inv [OF init])
  show ?thesis
    using forwarded_charged [OF init assms(1), of ps] inv budget.run_level [OF inv, of qs]
      forwarded_closed [of s limits qs]
    by (simp add: s_def budget_inv_def session_forwarding_state_default_def)
qed

lemma session_byte_limit_witness:
  "forwarded \<lparr>rl_max_active_sessions = 1, rl_max_sessions_per_requester = 1,
        rl_max_bytes_per_session = 1000, rl_max_forward_bps = None\<rparr>
      [(0, 800), (1, 100)] session_forwarding_state_default = 900"
  using session_byte_limit [where ps = "[(0, 800), (1, 100)]" and limits = "\<lparr>rl_max_active_sessions = 1,
      rl_max_sessions_per_requester = 1, rl_max_bytes_per_session = 1000, rl_max_forward_bps = None\<rparr>",
      THEN conjunct1]
  by (simp add: offer_def allow_forward_def session_forwarding_state_default_def saturating_add_def)

section \<open>The rate limit\<close>

lemma unat_f64_as_u64:
  assumes "0 \<le> x"
  shows "of_nat (unat (f64_as_u64 x)) \<le> x"
proof (cases "2 ^ 64 - 1 \<le> \<lfloor>x\<rfloor>")
  case True
  then have "of_int (2 ^ 64 - 1) \<le> x" by (simp only: le_floor_iff)
  moreover have "unat (- 1 :: u64) = 2 ^ 64 - 1" by (simp add: unsigned_minus_1_eq_mask mask_eq_exp_minus_1)
  ultimately show ?thesis using True by (simp add: f64_as_u64_def)
next
  case False
  have "unat (of_int \<lfloor>x\<rfloor> :: u64) = nat \<lfloor>x\<rfloor>"
  proof -
    have "uint (of_int \<lfloor>x\<rfloor> :: u64) = \<lfloor>x\<rfloor>"
      using False assms by (simp add: uint_word_of_int_eq take_bit_int_eq_self_iff)
    then show ?thesis by (simp flip: nat_uint_eq)
  qed
  with False assms show ?thesis by (simp add: f64_as_u64_def)
qed

lemma as_secs_f64_le: "as_secs_f64 d \<le> of_nat d / 10 ^ 9 * (1 + 1 / 2 ^ 53) ^ 2"
proof -
  define k where "k = (1 + 1 / 2 ^ 53 :: rat)"
  define secs where "secs = (of_nat (d div 10 ^ 9) :: rat)"
  define nanos where "nanos = (of_nat (d mod 10 ^ 9) :: rat)"
  note round = f64_round_le [folded k_def]
  have "(of_nat d :: rat) = of_nat (d div 10 ^ 9 * 10 ^ 9 + d mod 10 ^ 9)" by simp
  also have "\<dots> = secs * 10 ^ 9 + nanos"
    unfolding secs_def nanos_def by (simp only: of_nat_add of_nat_mult of_nat_power of_nat_numeral)
  finally have d: "of_nat d / 10 ^ 9 = secs + nanos / 10 ^ 9" by (simp add: field_simps)
  have pos: "0 \<le> secs" "0 \<le> nanos" "0 \<le> k" by (simp_all add: secs_def nanos_def k_def)
  have "f64_round secs + f64_round (nanos / 10 ^ 9) \<le> secs * k + nanos / 10 ^ 9 * k"
    by (intro add_mono round) (use pos in simp_all)
  then have sum: "f64_round secs + f64_round (nanos / 10 ^ 9) \<le> of_nat d / 10 ^ 9 * k"
    unfolding d by (simp only: distrib_right times_divide_eq_left)
  have "as_secs_f64 d \<le> (f64_round secs + f64_round (nanos / 10 ^ 9)) * k"
    unfolding as_secs_f64_def secs_def [symmetric] nanos_def [symmetric]
    by (rule round) (simp add: add_nonneg_nonneg)
  also have "\<dots> \<le> of_nat d / 10 ^ 9 * k * k" by (intro mult_right_mono sum pos)
  finally show ?thesis by (simp add: power2_eq_square mult.assoc k_def)
qed

text \<open>The bytes one nanosecond is worth at most, with the rounding of four operations.\<close>

definition byte_rate :: "u64 \<Rightarrow> rat" where
  "byte_rate max_forward_bps = of_nat (unat max_forward_bps) / 10 ^ 9 * (1 + 1 / 2 ^ 50)"

lemma refill_bytes_le: "of_nat (unat (refill_bytes d r)) \<le> of_nat d * byte_rate r"
proof -
  define k where "k = (1 + 1 / 2 ^ 53 :: rat)"
  define n where "n = (of_nat (unat r) :: rat)"
  define t where "t = (of_nat d / 10 ^ 9 :: rat)"
  note round = f64_round_le [folded k_def]
  have pos: "0 \<le> n" unfolding n_def by (rule of_nat_0_le_iff)
  note pos = pos f64_round_nonneg
  have pos2: "0 \<le> t" "0 \<le> k" "0 \<le> as_secs_f64 d" by (simp_all add: t_def k_def as_secs_f64_def)
  note pos = pos pos2
  have "of_nat (unat (refill_bytes d r)) \<le> f64_round (as_secs_f64 d * f64_round n)"
    unfolding refill_bytes_def u64_as_f64_def n_def by (rule unat_f64_as_u64) simp
  also have "\<dots> \<le> as_secs_f64 d * f64_round n * k"
    by (rule round) (simp add: pos)
  also have "\<dots> \<le> (t * k ^ 2) * (n * k) * k"
    by (intro mult_right_mono mult_mono as_secs_f64_le [of d, folded k_def t_def] round)
      (simp_all add: pos)
  also have "\<dots> = t * n * k ^ 4" by (simp add: power4_eq_xxxx power2_eq_square mult_ac)
  also have "\<dots> \<le> t * n * (1 + 1 / 2 ^ 50)"
    by (rule mult_left_mono) (simp_all add: k_def pos power4_eq_xxxx)
  also have "\<dots> = of_nat d * byte_rate r" unfolding byte_rate_def t_def n_def by (simp only: times_divide_eq_left times_divide_eq_right mult.assoc)
  finally show ?thesis .
qed

section \<open>The rate over a run\<close>

lemma byte_rate_nonneg [simp]: "0 \<le> byte_rate r"
  unfolding byte_rate_def by (intro mult_nonneg_nonneg divide_nonneg_pos of_nat_0_le_iff) simp_all

lemma refill_window_credit:
  "of_nat (unat (fw_available_bytes (refill_window now r burst w)))
     \<le> of_nat (unat (fw_available_bytes w)) + of_nat (fw_last_refill (refill_window now r burst w) - fw_last_refill w) * byte_rate r
   \<and> fw_last_refill w \<le> fw_last_refill (refill_window now r burst w)
   \<and> fw_last_refill (refill_window now r burst w) \<le> max now (fw_last_refill w)"
proof (cases "0 < as_secs_f64 (now - fw_last_refill w)")
  case True
  then have later: "fw_last_refill w < now" by (rule contrapos_pp) (simp add: as_secs_f64_def)
  have "unat (min (saturating_add (fw_available_bytes w) (refill_bytes (now - fw_last_refill w) r)) burst)
    \<le> unat (fw_available_bytes w) + unat (refill_bytes (now - fw_last_refill w) r)"
    by (simp add: min_def word_le_nat_alt unat_saturating_add)
  then have "(of_nat (unat (min (saturating_add (fw_available_bytes w) (refill_bytes (now - fw_last_refill w) r)) burst)) :: rat)
    \<le> of_nat (unat (fw_available_bytes w)) + of_nat (unat (refill_bytes (now - fw_last_refill w) r))"
    by (simp only: of_nat_le_iff flip: of_nat_add)
  with refill_bytes_le [of "now - fw_last_refill w" r] True later show ?thesis
    by (simp add: refill_window_def Let_def del: of_nat_unat)
qed (simp add: refill_window_def Let_def)

lemma allow_forward_window:
  assumes "rl_max_forward_bps limits = Some r" "sf_forward_window s = Some w"
  defines "w1 \<equiv> \<lambda>now bytes. refill_window now r (max r bytes) w"
  shows "allow_forward limits now bytes s =
    (if sf_closed s then (Inl ByteLimitExceeded, s)
     else if rl_max_bytes_per_session limits < saturating_add (sf_total_forwarded_bytes s) bytes
     then (Inl ByteLimitExceeded, s\<lparr>sf_closed := True\<rparr>)
     else if fw_available_bytes (w1 now bytes) < bytes
     then (Inl RateLimited, s\<lparr>sf_forward_window := Some (w1 now bytes)\<rparr>)
     else (Inr (), s\<lparr>sf_forward_window := Some ((w1 now bytes)\<lparr>fw_available_bytes :=
                       saturating_sub (fw_available_bytes (w1 now bytes)) bytes\<rparr>),
                     sf_total_forwarded_bytes := saturating_add (sf_total_forwarded_bytes s) bytes\<rparr>))"
  by (simp add: allow_forward_def assms Let_def)

text \<open>One packet, with a window open: the credit pays for what is let through.\<close>

lemma offer_credit:
  assumes "rl_max_forward_bps limits = Some r" "sf_forward_window s = Some w"
  shows "\<exists>w'. sf_forward_window (offer limits p s) = Some w'
    \<and> fw_last_refill w \<le> fw_last_refill w' \<and> fw_last_refill w' \<le> max (fst p) (fw_last_refill w)
    \<and> of_nat (forwarded limits [p] s) + of_nat (unat (fw_available_bytes w'))
       \<le> of_nat (unat (fw_available_bytes w)) + of_nat (fw_last_refill w' - fw_last_refill w) * byte_rate r"
proof -
  define w1 where "w1 = refill_window (fst p) r (max r (snd p)) w"
  note credit = refill_window_credit [where now = "fst p" and r = r and burst = "max r (snd p)" and w = w, folded w1_def]
  note unfold = offer_def allow_forward_window [OF assms] w1_def [symmetric] assms
  have "forwarded limits [p] s = 0 \<and> sf_forward_window (offer limits p s) = Some w
    \<or> forwarded limits [p] s = 0 \<and> sf_forward_window (offer limits p s) = Some w1
    \<or> forwarded limits [p] s = unat (snd p) \<and> \<not> fw_available_bytes w1 < snd p
      \<and> sf_forward_window (offer limits p s)
         = Some (w1\<lparr>fw_available_bytes := saturating_sub (fw_available_bytes w1) (snd p)\<rparr>)"
  proof (cases "sf_closed s \<or> rl_max_bytes_per_session limits < saturating_add (sf_total_forwarded_bytes s) (snd p)")
    case True
    then show ?thesis by (auto simp: unfold)
  next
    case False
    then show ?thesis by (cases "fw_available_bytes w1 < snd p") (simp_all add: unfold)
  qed
  then show ?thesis
  proof (elim disjE conjE, goal_cases)
    case 3
    have "unat (snd p) + unat (saturating_sub (fw_available_bytes w1) (snd p)) = unat (fw_available_bytes w1)"
      using 3(2) by (simp add: unat_saturating_sub word_less_nat_alt)
    then have "(of_nat (unat (snd p)) + of_nat (unat (saturating_sub (fw_available_bytes w1) (snd p))) :: rat)
      = of_nat (unat (fw_available_bytes w1))" by (simp only: flip: of_nat_add)
    with 3 credit show ?case by (simp del: of_nat_unat of_nat_diff forwarded.simps)
  qed (use credit in \<open>simp_all del: of_nat_unat of_nat_diff forwarded.simps\<close>)
qed

lemma forwarded_Cons: "forwarded limits (p # ps) s = forwarded limits [p] s + forwarded limits ps (offer limits p s)"
  by simp

lemma forwarded_window:
  assumes "rl_max_forward_bps limits = Some r" "sf_forward_window s = Some w"
    and "\<forall>p \<in> set ps. fst p \<le> T" "fw_last_refill w \<le> T"
  shows "of_nat (forwarded limits ps s)
    \<le> of_nat (unat (fw_available_bytes w)) + of_nat (T - fw_last_refill w) * byte_rate r"
  using assms(2-4)
proof (induction ps arbitrary: s w)
  case Nil
  show ?case unfolding forwarded.simps semiring_1_class.of_nat_0
    by (intro add_nonneg_nonneg mult_nonneg_nonneg of_nat_0_le_iff byte_rate_nonneg)
next
  case (Cons p ps)
  obtain w' where w': "sf_forward_window (offer limits p s) = Some w'"
    "fw_last_refill w \<le> fw_last_refill w'" "fw_last_refill w' \<le> max (fst p) (fw_last_refill w)"
    "of_nat (forwarded limits [p] s) + of_nat (unat (fw_available_bytes w'))
       \<le> of_nat (unat (fw_available_bytes w)) + of_nat (fw_last_refill w' - fw_last_refill w) * byte_rate r"
    using offer_credit [OF assms(1) Cons.prems(1)] by blast
  have T: "fw_last_refill w' \<le> T" using w'(3) Cons.prems(2,3) by auto
  from Cons.IH [OF w'(1) _ T] Cons.prems(2) have
    "of_nat (forwarded limits ps (offer limits p s))
      \<le> of_nat (unat (fw_available_bytes w')) + of_nat (T - fw_last_refill w') * byte_rate r" by simp
  moreover have "(of_nat (T - fw_last_refill w) :: rat) * byte_rate r
    = of_nat (fw_last_refill w' - fw_last_refill w) * byte_rate r + of_nat (T - fw_last_refill w') * byte_rate r"
    using w'(2) T by (simp add: algebra_simps flip: of_nat_add)
  moreover have "(of_nat (forwarded limits (p # ps) s) :: rat)
    = of_nat (forwarded limits [p] s) + of_nat (forwarded limits ps (offer limits p s))"
    unfolding forwarded_Cons [of limits p ps] by (rule of_nat_add)
  ultimately show ?case using w'(4) by linarith
qed

text \<open>
  With a rate limit of \<open>r\<close> bytes a second, the bytes a session lets through in any run of
  packets of at most \<open>b\<close> bytes up to the time \<open>T\<close> are at most one burst (\<open>r\<close>, or the largest
  packet where that is more) plus \<open>r\<close> for every second since its first packet, to within a
  relative error of \<open>2 ^ -50\<close> that the floating point arithmetic of the refill brings in.
\<close>

lemma session_rate_limit:
  assumes "rl_max_forward_bps limits = Some r"
    and "\<forall>p \<in> set (p0 # ps). fst p \<le> T \<and> snd p \<le> b"
  shows "of_nat (forwarded limits (p0 # ps) session_forwarding_state_default)
    \<le> of_nat (max (unat r) (unat b))
      + of_nat (T - fst p0) * (of_nat (unat r) / 10 ^ 9 * (1 + 1 / 2 ^ 50) :: rat)"
proof -
  let ?w = "\<lparr>fw_last_refill = fst p0, fw_available_bytes = max r (snd p0)\<rparr>"
  have "(of_nat (forwarded limits (p0 # ps) session_forwarding_state_default) :: rat)
    \<le> of_nat (unat (max r (snd p0))) + of_nat (T - fst p0) * byte_rate r"
  proof (cases "rl_max_bytes_per_session limits < saturating_add 0 (snd p0)")
    case True
    then have "forwarded limits (p0 # ps) session_forwarding_state_default = 0"
      by (simp add: offer_def allow_forward_def session_forwarding_state_default_def forwarded_closed)
    then show ?thesis
      by (simp only: semiring_1_class.of_nat_0) (intro add_nonneg_nonneg mult_nonneg_nonneg of_nat_0_le_iff byte_rate_nonneg)
  next
    case False
    then have "forwarded limits (p0 # ps) session_forwarding_state_default
      = forwarded limits (p0 # ps) (session_forwarding_state_default\<lparr>sf_forward_window := Some ?w\<rparr>)"
      by (simp add: offer_def allow_forward_def session_forwarding_state_default_def assms(1) Let_def)
    with forwarded_window [OF assms(1), of "session_forwarding_state_default\<lparr>sf_forward_window := Some ?w\<rparr>" ?w "p0 # ps" T]
      assms(2) show ?thesis by (simp del: forwarded.simps of_nat_unat of_nat_diff)
  qed
  also have "\<dots> \<le> of_nat (max (unat r) (unat b)) + of_nat (T - fst p0) * byte_rate r"
  proof (rule add_right_mono)
    have "unat (max r (snd p0)) \<le> max (unat r) (unat b)" using assms(2) by (simp add: max_def word_le_nat_alt)
    then show "(of_nat (unat (max r (snd p0))) :: rat) \<le> of_nat (max (unat r) (unat b))" by (simp only: of_nat_le_iff)
  qed
  finally show ?thesis by (simp only: byte_rate_def)
qed


lemma session_rate_limit_witness:
  "of_nat (forwarded \<lparr>rl_max_active_sessions = 1, rl_max_sessions_per_requester = 1,
        rl_max_bytes_per_session = 10000, rl_max_forward_bps = Some 1000\<rparr>
      [(0, 800), (1, 800), (10 ^ 9, 800)] session_forwarding_state_default)
    \<le> (of_nat (max 1000 800) + of_nat (10 ^ 9 - 0) * (of_nat 1000 / 10 ^ 9 * (1 + 1 / 2 ^ 50)) :: rat)"
  using session_rate_limit [where ?p0.0 = "(0, 800)" and ps = "[(1, 800), (10 ^ 9, 800)]"
      and r = 1000 and b = 800 and T = "10 ^ 9" and limits = "\<lparr>rl_max_active_sessions = 1,
        rl_max_sessions_per_requester = 1, rl_max_bytes_per_session = 10000, rl_max_forward_bps = Some 1000\<rparr>"]
  by simp


section \<open>Restarts\<close>

definition relay_state_ok :: "relay_runtime_state \<Rightarrow> bool" where
  "relay_state_ok s \<longleftrightarrow> hm_wf (rt_active_sessions s) \<and> distinct (rt_known_peer_pubkeys s)"

lemma prune_sessions_ok [simp]: "relay_state_ok (prune_expired_sessions now s) = relay_state_ok s \<or> \<not> relay_state_ok s"
  by (auto simp: relay_state_ok_def prune_expired_sessions_def prune_sessions_def hm_wf_intros)

lemma set_insert_set [simp]: "set (set_insert x xs) = insert x (set xs)"
  and set_insert_distinct [simp]: "distinct (set_insert x xs) = distinct xs"
  by (auto simp: set_insert_def)

lemma sample_rate_fields [simp]:
  "rt_active_sessions (relay_sample_rate now s) = rt_active_sessions s"
  "rt_known_peer_pubkeys (relay_sample_rate now s) = rt_known_peer_pubkeys s"
  "rt_total_sessions_served (relay_sample_rate now s) = rt_total_sessions_served s"
  "rt_total_forwarded_bytes (relay_sample_rate now s) = rt_total_forwarded_bytes s"
  by (simp_all add: relay_sample_rate_def Let_def)

text \<open>
  A snapshot written to the state file and read back after a restart carries the relay's
  lifetime counters over: the next snapshot reports the same sessions served, bytes forwarded
  and known peers, no session, and a forwarding rate of zero, whatever its clock reads; the
  sessions of the old process are gone. The same holds for the NAT assistant's counters, whose
  clients are counted anew.
\<close>

lemma restart_keeps_counters:
  fixes s :: relay_runtime_state and na :: nat_assist_runtime_state and now later t :: u64
    and k relay_ep nat_ep :: string and legacy :: "relay_operator_state option"
  assumes "distinct (rt_known_peer_pubkeys s)"
  defines "before \<equiv> fst (service_snapshot now \<lparr>sv_operator_pubkey = k, sv_relay = Some s, sv_nat_assist = Some na\<rparr>)"
  defines "restarted \<equiv> load_runtime_state (Some (Some before, legacy)) later k (Some relay_ep) (Some nat_ep)"
  defines "after \<equiv> fst (service_snapshot t restarted)"
  shows "(\<exists>r r'. so_relay before = Some r \<and> so_relay after = Some r'
      \<and> ro_total_sessions_served r' = ro_total_sessions_served r
      \<and> ro_total_forwarded_bytes r' = ro_total_forwarded_bytes r
      \<and> ro_known_peer_pubkeys r' = ro_known_peer_pubkeys r
      \<and> ro_unique_peer_count r' = ro_unique_peer_count r
      \<and> ro_active_sessions r' = [] \<and> ro_current_forward_bps r' = 0 \<and> ro_relay_pubkey r' = k)
    \<and> (\<exists>n n'. so_nat_assist before = Some n \<and> so_nat_assist after = Some n'
      \<and> no_total_discovery_requests n' = no_total_discovery_requests n
      \<and> no_total_punch_requests n' = no_total_punch_requests n
      \<and> no_unique_client_count n' = 0 \<and> no_current_request_bps n' = 0)"
proof -
  have known: "sort (remdups (sort (rt_known_peer_pubkeys s))) = sort (rt_known_peer_pubkeys s)"
    "length (remdups (sort (rt_known_peer_pubkeys s))) = length (rt_known_peer_pubkeys s)"
    using assms(1) by (simp_all add: distinct_remdups_id sorted_sort_id)
  have before: "before = \<lparr>so_updated_at = now, so_operator_pubkey = k,
      so_relay = Some (fst (relay_snapshot now s)), so_nat_assist = Some (fst (nat_assist_snapshot now na))\<rparr>"
    by (simp add: before_def service_snapshot_def Let_def)
  have restarted: "restarted = \<lparr>sv_operator_pubkey = k,
      sv_relay = Some (relay_runtime_state_from_snapshot (fst (relay_snapshot now s)) k relay_ep later),
      sv_nat_assist = Some (nat_assist_runtime_state_from_snapshot (fst (nat_assist_snapshot now na)) nat_ep later)\<rparr>"
    by (simp add: restarted_def before load_runtime_state_def Let_def)
  show ?thesis
    using known by (simp add: after_def restarted before service_snapshot_def relay_snapshot_def
        nat_assist_snapshot_def relay_runtime_state_from_snapshot_def prune_expired_sessions_def prune_sessions_def
        nat_assist_runtime_state_from_snapshot_def relay_sample_rate_def hm_retain_def Let_def)
qed

lemma restart_keeps_counters_witness:
  "let s = (fresh_relay_state ''k'' 5 ''e'')\<lparr>rt_known_peer_pubkeys := [''b'', ''a''], rt_total_forwarded_bytes := 9\<rparr>;
       na = fresh_nat_assist_state 5 ''n'';
       before = fst (service_snapshot 7 \<lparr>sv_operator_pubkey = ''k'', sv_relay = Some s, sv_nat_assist = Some na\<rparr>);
       restarted = load_runtime_state (Some (Some before, None)) 8 ''k'' (Some ''e'') (Some ''n'')
   in map_option ro_known_peer_pubkeys (so_relay before)
       = map_option ro_known_peer_pubkeys (so_relay (fst (service_snapshot 9 restarted)))"
proof -
  have "distinct (rt_known_peer_pubkeys ((fresh_relay_state ''k'' 5 ''e'')
      \<lparr>rt_known_peer_pubkeys := [''b'', ''a''], rt_total_forwarded_bytes := 9\<rparr>))" by simp
  from restart_keeps_counters [OF this, where now = 7 and k = "''k''" and legacy = None and later = 8
      and na = "fresh_nat_assist_state 5 ''n''" and relay_ep = "''e''" and nat_ep = "''n''" and t = 9, THEN conjunct1]
  show ?thesis unfolding Let_def by force
qed

end
