(* ===== verification/Port_Allocator.thy ===== *)
theory Port_Allocator
  imports Net_Addr Rust_Base
begin

text \<open>
  \<open>crates/nostr-vpn-relay/src/bin/nvpn_udp_relay/port_allocator.rs\<close>: the range of relay ports
  and the search for two ports to bind. The operating system's answer to binding a port is an
  argument; the model takes it to be the same for every attempt within one call.
\<close>

section \<open>Port ranges\<close>

record port_range =
  pr_start :: u16
  pr_end :: u16

datatype port_range_error = PortZero | EndBeforeStart

definition relay_port_range_new :: "u16 \<Rightarrow> u16 \<Rightarrow> port_range_error + port_range" where
  "relay_port_range_new start stop =
    (if start = 0 \<or> stop = 0 then Inl PortZero
     else if stop < start then Inl EndBeforeStart
     else Inr \<lparr>pr_start = start, pr_end = stop\<rparr>)"

definition range_len :: "port_range \<Rightarrow> nat" where
  "range_len r = unat (pr_end r - pr_start r) + 1"

definition capacity_sessions :: "port_range \<Rightarrow> nat" where
  "capacity_sessions r = range_len r div 2"

definition range_contains :: "port_range \<Rightarrow> u16 \<Rightarrow> bool" where
  "range_contains r port \<longleftrightarrow> pr_start r \<le> port \<and> port \<le> pr_end r"

definition next_after :: "port_range \<Rightarrow> u16 \<Rightarrow> u16" where
  "next_after r port = (if pr_end r \<le> port then pr_start r else port + 1)"

section \<open>Binding a pair of ports\<close>

text \<open>
  Binding either gives a socket, whose local address may fail to be read, finds the port in
  use, or fails otherwise.
\<close>

datatype bind_result = Bound "u16 option" | AddrInUse | BindFailed

datatype pair_error =
    InvalidAdvertiseHost
  | BindError
  | NoLocalAddr
  | NoFreePair
  | AllocatorPoisoned

record relay_port_allocator =
  al_range :: port_range
  al_next_port :: u16

definition allocator_new :: "port_range \<Rightarrow> relay_port_allocator" where
  "allocator_new r = \<lparr>al_range = r, al_next_port = pr_start r\<rparr>"

text \<open>
  The inner loop, for the second port; \<open>Inr None\<close> when it runs out. The result of a bound port
  is the port asked for and the one the socket reports. Both loops come back to their first
  port only inside the range, so they are partial functions: \<open>None\<close> is a loop without end.
\<close>

partial_function (option) find_second ::
  "(u16 \<Rightarrow> bind_result) \<Rightarrow> port_range \<Rightarrow> u16 \<Rightarrow> u16 \<Rightarrow> bool \<Rightarrow> u16
    \<Rightarrow> (pair_error + (u16 \<times> u16) option) option" where
  "find_second B r first_port second_start tried second_port =
    (if tried \<and> second_port = second_start then Some (Inr None)
     else if second_port = first_port then Some (Inr None)
     else (case B second_port of
         Bound (Some addr) \<Rightarrow> Some (Inr (Some (second_port, addr)))
       | Bound None \<Rightarrow> Some (Inl NoLocalAddr)
       | AddrInUse \<Rightarrow> find_second B r first_port second_start True (next_after r second_port)
       | BindFailed \<Rightarrow> Some (Inl BindError)))"

partial_function (option) find_pair ::
  "(u16 \<Rightarrow> bind_result) \<Rightarrow> port_range \<Rightarrow> u16 \<Rightarrow> bool \<Rightarrow> u16
    \<Rightarrow> (pair_error + (u16 \<times> u16) \<times> (u16 \<times> u16)) option" where
  "find_pair B r start_port tried first_port =
    (if tried \<and> first_port = start_port then Some (Inl NoFreePair)
     else (case B first_port of
         AddrInUse \<Rightarrow> find_pair B r start_port True (next_after r first_port)
       | BindFailed \<Rightarrow> Some (Inl BindError)
       | Bound None \<Rightarrow> Some (Inl NoLocalAddr)
       | Bound (Some addr) \<Rightarrow>
           Option.bind (find_second B r first_port (next_after r first_port) False (next_after r first_port))
             (\<lambda>found. case found of
                Inl e \<Rightarrow> Some (Inl e)
              | Inr (Some second) \<Rightarrow> Some (Inr ((first_port, addr), second))
              | Inr None \<Rightarrow> find_pair B r start_port True (next_after r first_port))))"

type_synonym bound_pair = "(u16 \<times> u16) \<times> string \<times> string"

text \<open>
  \<open>bind_pair\<close>: the local ports of the two sockets and the endpoints to advertise; \<open>None\<close> when
  the search does not end.
\<close>

definition bind_pair ::
  "(u16 \<Rightarrow> bind_result) \<Rightarrow> string \<Rightarrow> relay_port_allocator
    \<Rightarrow> ((pair_error + bound_pair) \<times> relay_port_allocator) option" where
  "bind_pair B advertise_host al =
    (case parse_ip advertise_host of
       None \<Rightarrow> Some (Inl InvalidAdvertiseHost, al)
     | Some advertise_ip \<Rightarrow>
         map_option (\<lambda>found. case found of
             Inl e \<Rightarrow> (Inl e, al)
           | Inr ((_, requester_port), (second_port, target_port)) \<Rightarrow>
               (Inr ((requester_port, target_port),
                     print_socket_addr (socket_addr_new advertise_ip requester_port),
                     print_socket_addr (socket_addr_new advertise_ip target_port)),
                al\<lparr>al_next_port := next_after (al_range al) second_port\<rparr>))
           (find_pair B (al_range al) (al_next_port al) False (al_next_port al)))"

text \<open>
  Without an allocator the operating system chooses both ports: \<open>e1\<close> and \<open>e2\<close> are its answers
  to binding port 0 twice.
\<close>

definition bind_any_pair :: "bind_result \<Rightarrow> bind_result \<Rightarrow> string \<Rightarrow> pair_error + bound_pair" where
  "bind_any_pair e1 e2 advertise_host =
    (case (e1, e2) of
       (Bound a, Bound b) \<Rightarrow>
         (case (a, b) of
            (Some requester_port, Some target_port) \<Rightarrow>
              (case parse_ip advertise_host of
                 None \<Rightarrow> Inl InvalidAdvertiseHost
               | Some advertise_ip \<Rightarrow>
                   Inr ((requester_port, target_port),
                        print_socket_addr (socket_addr_new advertise_ip requester_port),
                        print_socket_addr (socket_addr_new advertise_ip target_port)))
          | _ \<Rightarrow> Inl NoLocalAddr)
     | _ \<Rightarrow> Inl BindError)"

record bind_env =
  be_bind :: "u16 \<Rightarrow> bind_result"
  be_any1 :: bind_result
  be_any2 :: bind_result
  be_poisoned :: bool

definition bind_relay_leg_pair ::
  "bind_env \<Rightarrow> string \<Rightarrow> relay_port_allocator option
    \<Rightarrow> ((pair_error + bound_pair) \<times> relay_port_allocator option) option" where
  "bind_relay_leg_pair env advertise_host allocator =
    (case allocator of
       Some al \<Rightarrow>
         if be_poisoned env then Some (Inl AllocatorPoisoned, Some al)
         else map_option (\<lambda>(res, al'). (res, Some al')) (bind_pair (be_bind env) advertise_host al)
     | None \<Rightarrow> Some (bind_any_pair (be_any1 env) (be_any2 env) advertise_host, None))"

section \<open>The configured range\<close>

record relay_args =
  ra_secret_key :: string
  ra_relays :: "string list"
  ra_bind_ip :: string
  ra_advertise_host :: string
  ra_disable_relay :: bool
  ra_enable_nat_assist :: bool
  ra_nat_assist_port :: u16
  ra_lease_secs :: u64
  ra_relay_port_range_start :: "u16 option"
  ra_relay_port_range_end :: "u16 option"
  ra_publish_interval_secs :: u64
  ra_max_active_sessions :: nat
  ra_max_sessions_per_requester :: nat
  ra_max_bytes_per_session :: u64
  ra_max_forward_bps :: "u64 option"
  ra_price_hint_msats :: "u64 option"

datatype range_error =
    BothEndsRequired
  | RelayDisabled
  | BadRange port_range_error
  | TooFewPorts
  | NatPortOverlaps
  | TooManySessions

definition relay_port_range :: "relay_args \<Rightarrow> range_error + port_range option" where
  "relay_port_range args =
    (case (ra_relay_port_range_start args, ra_relay_port_range_end args) of
       (None, None) \<Rightarrow> Inr None
     | (Some start, Some stop) \<Rightarrow>
         if ra_disable_relay args then Inl RelayDisabled
         else (case relay_port_range_new start stop of
             Inl e \<Rightarrow> Inl (BadRange e)
           | Inr r \<Rightarrow>
               if capacity_sessions r = 0 then Inl TooFewPorts
               else if ra_enable_nat_assist args \<and> range_contains r (ra_nat_assist_port args)
               then Inl NatPortOverlaps
               else if capacity_sessions r < ra_max_active_sessions args then Inl TooManySessions
               else Inr (Some r))
     | _ \<Rightarrow> Inl BothEndsRequired)"

end
