(* ===== verification/Nat_Probe.thy ===== *)
theory Nat_Probe
  imports Net_Addr
begin

text \<open>
  \<open>crates/nostr-vpn-core/src/nat.rs\<close> and the reflector that answers its probes
  (\<open>crates/nostr-vpn-relay/src/bin/nvpn-reflector.rs\<close>): the text protocol of endpoint discovery
  and hole punching. Sockets, sleeping, name resolution and the STUN library are not modelled;
  what they return is an argument.
\<close>

section \<open>The messages\<close>

definition DISCOVER_REQUEST_PREFIX :: string where "DISCOVER_REQUEST_PREFIX = ''NVPN_DISCOVER''"
definition ENDPOINT_RESPONSE_PREFIX :: string where "ENDPOINT_RESPONSE_PREFIX = ''NVPN_ENDPOINT''"
definition PUNCH_REQUEST_PREFIX :: string where "PUNCH_REQUEST_PREFIX = ''NVPN_PUNCH''"
definition PUNCH_ACK_PREFIX :: string where "PUNCH_ACK_PREFIX = ''NVPN_ACK''"

text \<open>\<open>str::from_utf8\<close>: whether a sequence of bytes is well-formed UTF-8.\<close>

definition cont_byte :: "char \<Rightarrow> bool" where
  "cont_byte c \<longleftrightarrow> 128 \<le> byte c \<and> byte c \<le> 191"

definition byte_in :: "nat \<Rightarrow> nat \<Rightarrow> char \<Rightarrow> bool" where
  "byte_in lo hi c \<longleftrightarrow> lo \<le> byte c \<and> byte c \<le> hi"

fun utf8_step :: "string \<Rightarrow> string option" where
  "utf8_step [] = None"
| "utf8_step (a # s) =
    (if byte a \<le> 127 then Some s
     else (case s of
         [] \<Rightarrow> None
       | b # s1 \<Rightarrow>
           if byte_in 194 223 a then (if cont_byte b then Some s1 else None)
           else (case s1 of
               [] \<Rightarrow> None
             | c # s2 \<Rightarrow>
                 if byte a = 224 then (if byte_in 160 191 b \<and> cont_byte c then Some s2 else None)
                 else if byte_in 225 236 a \<or> byte_in 238 239 a
                 then (if cont_byte b \<and> cont_byte c then Some s2 else None)
                 else if byte a = 237 then (if byte_in 128 159 b \<and> cont_byte c then Some s2 else None)
                 else (case s2 of
                     [] \<Rightarrow> None
                   | d # s3 \<Rightarrow>
                       if cont_byte c \<and> cont_byte d
                         \<and> (byte a = 240 \<and> byte_in 144 191 b \<or> byte_in 241 243 a \<and> cont_byte b
                             \<or> byte a = 244 \<and> byte_in 128 143 b)
                       then Some s3 else None))))"

lemma utf8_step_shorter: "utf8_step s = Some s' \<Longrightarrow> length s' < length s"
  by (cases s rule: utf8_step.cases) (auto split: if_splits list.splits)

function utf8_valid :: "string \<Rightarrow> bool" where
  "utf8_valid s = (s = [] \<or> (case utf8_step s of None \<Rightarrow> False | Some s' \<Rightarrow> utf8_valid s'))"
  by pat_completeness auto
termination
  by (relation "measure length") (auto dest: utf8_step_shorter)

declare utf8_valid.simps [simp del]

definition utf8_or_empty :: "string \<Rightarrow> string" where
  "utf8_or_empty s = (if utf8_valid s then s else [])"

section \<open>The reflector\<close>

text \<open>
  The answer to one datagram, of which the buffer keeps the first 2048 bytes; the second
  component says which request it was.
\<close>

datatype probe_kind = DiscoverProbe | PunchProbe

definition reflect :: "string \<Rightarrow> socket_addr \<Rightarrow> (string \<times> probe_kind) option" where
  "reflect datagram src =
    (let payload = utf8_or_empty (take 2048 datagram)
     in if starts_with DISCOVER_REQUEST_PREFIX payload
        then Some (ENDPOINT_RESPONSE_PREFIX @ '' '' @ print_socket_addr src, DiscoverProbe)
        else if starts_with PUNCH_REQUEST_PREFIX payload then Some (PUNCH_ACK_PREFIX, PunchProbe)
        else None)"

section \<open>The client\<close>

datatype nat_error =
    SocketFailed
  | SendFailed
  | ReceiveFailed
  | NotUtf8
  | UnexpectedResponse
  | EmptyEndpoint
  | InvalidEndpoint
  | NoAttempts
  | EmptyServer
  | ResolveFailed
  | NoIpv4Address

definition parse_public_endpoint_response :: "string \<Rightarrow> nat_error + string" where
  "parse_public_endpoint_response payload =
    (case strip_prefix ENDPOINT_RESPONSE_PREFIX payload of
       None \<Rightarrow> Inl UnexpectedResponse
     | Some v \<Rightarrow>
         (let endpoint = trim v
          in if endpoint = [] then Inl EmptyEndpoint
             else (case parse_socket_addr endpoint of
                 None \<Rightarrow> Inl InvalidEndpoint
               | Some parsed \<Rightarrow> Inr (print_socket_addr parsed))))"

text \<open>
  Discovery through a reflector: the request sent, and the result given whether the socket could
  be set up, whether sending succeeded, and the datagram received, if any (1024 bytes of it).
\<close>

definition discover_request :: "nat \<Rightarrow> string" where
  "discover_request nonce = DISCOVER_REQUEST_PREFIX @ '' '' @ dec nonce"

definition discover_public_udp_endpoint :: "bool \<Rightarrow> bool \<Rightarrow> string option \<Rightarrow> nat_error + string" where
  "discover_public_udp_endpoint socket_ok sent response =
    (if \<not> socket_ok then Inl SocketFailed
     else if \<not> sent then Inl SendFailed
     else (case response of
         None \<Rightarrow> Inl ReceiveFailed
       | Some datagram \<Rightarrow>
           if \<not> utf8_valid (take 1024 datagram) then Inl NotUtf8
           else parse_public_endpoint_response (take 1024 datagram)))"

record hole_punch_report =
  hp_packets_sent :: u32
  hp_packet_received :: bool
  hp_local_addr :: socket_addr

text \<open>
  One round of hole punching per attempt: whether its packet could be sent, and what was
  received before the timeout (length and source).
\<close>

fun punch_rounds ::
  "socket_addr \<Rightarrow> (bool \<times> (nat \<times> socket_addr) option) list \<Rightarrow> u32 \<Rightarrow> bool \<Rightarrow> nat_error + u32 \<times> bool" where
  "punch_rounds peer_endpoint [] packets_sent packet_received = Inr (packets_sent, packet_received)"
| "punch_rounds peer_endpoint ((sent, received) # rounds) packets_sent packet_received =
    (if \<not> sent then Inl SendFailed
     else punch_rounds peer_endpoint rounds (packets_sent + 1)
       (case received of
          Some (read, src) \<Rightarrow> packet_received \<or> src = peer_endpoint \<and> 0 < read
        | None \<Rightarrow> packet_received))"

text \<open>\<open>rounds\<close> has the outcome of every attempt; \<open>local_addr\<close> is \<open>None\<close> when no socket was set up.\<close>

definition hole_punch_udp ::
  "socket_addr \<Rightarrow> u32 \<Rightarrow> socket_addr option \<Rightarrow> (nat \<Rightarrow> bool \<times> (nat \<times> socket_addr) option)
    \<Rightarrow> nat_error + hole_punch_report" where
  "hole_punch_udp peer_endpoint attempts local_addr rounds =
    (if attempts = 0 then Inl NoAttempts
     else (case local_addr of
         None \<Rightarrow> Inl SocketFailed
       | Some addr \<Rightarrow>
           (case punch_rounds peer_endpoint (map rounds [0..<unat attempts]) 0 False of
              Inl e \<Rightarrow> Inl e
            | Inr (packets_sent, packet_received) \<Rightarrow>
                Inr \<lparr>hp_packets_sent = packets_sent, hp_packet_received = packet_received,
                     hp_local_addr = addr\<rparr>)))"

definition select_ipv4_socket_addr :: "socket_addr list \<Rightarrow> socket_addr option" where
  "select_ipv4_socket_addr addrs = find is_ipv4 addrs"

text \<open>\<open>resolve\<close> is the operating system's name resolution.\<close>

definition resolve_stun_server_addr ::
  "(string \<Rightarrow> socket_addr list option) \<Rightarrow> string \<Rightarrow> nat_error + socket_addr" where
  "resolve_stun_server_addr resolve server =
    (let raw = trim server;
         stripped = (case strip_prefix ''stun://'' raw of
             Some v \<Rightarrow> v
           | None \<Rightarrow> (case strip_prefix ''stun:'' raw of Some v \<Rightarrow> v | None \<Rightarrow> raw))
     in if raw = [] then Inl EmptyServer
        else (case resolve stripped of
            None \<Rightarrow> Inl ResolveFailed
          | Some addrs \<Rightarrow>
              (case select_ipv4_socket_addr addrs of None \<Rightarrow> Inl NoIpv4Address | Some a \<Rightarrow> Inr a)))"

section \<open>Discovery gives the address the reflector saw\<close>

lemma utf8_ascii: "\<forall>c \<in> set s. byte c \<le> 127 \<Longrightarrow> utf8_valid s"
proof (induction s)
  case Nil
  show ?case by (subst utf8_valid.simps) simp
next
  case (Cons a s)
  then show ?case by (subst utf8_valid.simps) simp
qed

lemma v4_endpoint_bytes:
  "c \<in> set (print_socket_addr (SockV4 ip p)) \<Longrightarrow> 33 \<le> byte c \<and> byte c \<le> 58"
  using print_v4_bytes [of c ip] dec_chars [of c "unat p"] by (auto simp: byte_def)

lemma v4_endpoint_length: "length (print_socket_addr (SockV4 ip p)) \<le> 21"
proof -
  have "unat p < 2 ^ LENGTH(16)" by (rule unsigned_less)
  then have "length (dec (unat p)) \<le> 5"
    unfolding dec_def by (intro print_radix_length) simp_all
  with length_print_v4 [of ip] show ?thesis by simp
qed

lemma trim_space: "ws_free s \<Longrightarrow> trim (CHR '' '' # s) = s"
proof -
  assume free: "ws_free s"
  have "ws_len (CHR '' '' # s) = 1" by (cases "CHR '' '' # s" rule: ws_len.cases) (auto simp: ws1_def byte_def)
  then have "trim_start (CHR '' '' # s) = trim_start s" by (subst trim_start.simps) simp
  then show ?thesis using trim_ws_free [OF free] by (simp add: trim_def)
qed

lemma reflect_discover:
  assumes "nonce < 2 ^ 128"
  shows "reflect (discover_request nonce) src = Some (ENDPOINT_RESPONSE_PREFIX @ '' '' @ print_socket_addr src, DiscoverProbe)"
proof -
  have "(2::nat) ^ 128 < 10 ^ 39" by simp
  then have "length (dec nonce) \<le> 39"
    unfolding dec_def using assms by (intro print_radix_length) simp_all
  then have "take 2048 (discover_request nonce) = discover_request nonce"
    by (simp add: discover_request_def DISCOVER_REQUEST_PREFIX_def)
  moreover have "\<forall>c \<in> set (discover_request nonce). byte c \<le> 127"
    using dec_chars [of _ nonce] by (force simp: discover_request_def DISCOVER_REQUEST_PREFIX_def byte_def)
  ultimately show ?thesis
    by (simp add: reflect_def utf8_or_empty_def utf8_ascii discover_request_def starts_with_def Let_def)
qed

lemma parse_v4_response:
  "discover_public_udp_endpoint True True (Some (ENDPOINT_RESPONSE_PREFIX @ '' '' @ print_socket_addr (SockV4 ip p)))
    = Inr (print_socket_addr (SockV4 ip p))"
proof -
  define e where "e = print_socket_addr (SockV4 ip p)"
  have free: "ws_free e" unfolding e_def by (rule ws_freeI) (drule v4_endpoint_bytes, simp)
  have ne: "e \<noteq> []" by (simp add: e_def)
  have len: "length e \<le> 21" unfolding e_def by (rule v4_endpoint_length)
  have parse: "parse_socket_addr e = Some (SockV4 ip p)" unfolding e_def by (rule parse_socket_addr_print_v4)
  have "\<forall>c \<in> set (ENDPOINT_RESPONSE_PREFIX @ '' '' @ e). byte c \<le> 127"
    using v4_endpoint_bytes [of _ ip p, folded e_def]
    by (force simp: ENDPOINT_RESPONSE_PREFIX_def byte_def)
  moreover have "take 1024 (ENDPOINT_RESPONSE_PREFIX @ '' '' @ e) = ENDPOINT_RESPONSE_PREFIX @ '' '' @ e"
    using len by (simp add: ENDPOINT_RESPONSE_PREFIX_def)
  ultimately have "discover_public_udp_endpoint True True (Some (ENDPOINT_RESPONSE_PREFIX @ '' '' @ e))
    = parse_public_endpoint_response (ENDPOINT_RESPONSE_PREFIX @ '' '' @ e)"
    by (simp add: discover_public_udp_endpoint_def utf8_ascii)
  also have "\<dots> = Inr (print_socket_addr (SockV4 ip p))"
    by (simp add: parse_public_endpoint_response_def strip_prefix_append trim_space [OF free] ne parse Let_def)
  finally show ?thesis unfolding e_def .
qed

lemma punch_ack_rejected: "discover_public_udp_endpoint True True (Some PUNCH_ACK_PREFIX) = Inl UnexpectedResponse"
  by code_simp

text \<open>
  Endpoint discovery through the reflector is a round trip: for a client whose datagrams
  arrive from an IPv4 address and port, the request it sends is recognised, and the response
  parses to exactly the endpoint the reflector saw; the reflector's answer to a hole punching
  probe is never taken for an endpoint.
\<close>

theorem discovery_round_trip:
  assumes "nonce < 2 ^ 128"
  shows "discover_public_udp_endpoint True True (map_option fst (reflect (discover_request nonce) (SockV4 ip p)))
      = Inr (print_socket_addr (SockV4 ip p))
    \<and> (\<forall>datagram src answer. reflect datagram src = Some (answer, PunchProbe)
        \<longrightarrow> discover_public_udp_endpoint True True (Some answer) = Inl UnexpectedResponse)"
proof -
  have "answer = PUNCH_ACK_PREFIX" if "reflect datagram src = Some (answer, PunchProbe)" for datagram src answer
    using that by (auto simp: reflect_def Let_def split: if_splits)
  then have "\<forall>datagram src answer. reflect datagram src = Some (answer, PunchProbe)
      \<longrightarrow> discover_public_udp_endpoint True True (Some answer) = Inl UnexpectedResponse"
    using punch_ack_rejected by metis
  moreover have "map_option fst (reflect (discover_request nonce) (SockV4 ip p))
      = Some (ENDPOINT_RESPONSE_PREFIX @ '' '' @ print_socket_addr (SockV4 ip p))"
    by (simp only: reflect_discover [OF assms] option.map fst_conv)
  ultimately show ?thesis using parse_v4_response [of ip p] by metis
qed

lemma discovery_round_trip_witness:
  "discover_public_udp_endpoint True True (map_option fst (reflect (discover_request 7) (SockV4 16909060 3478)))
    = Inr (print_socket_addr (SockV4 16909060 3478))"
  by (rule discovery_round_trip [THEN conjunct1]) simp

section \<open>Hole punching\<close>

lemma punch_rounds_result:
  "punch_rounds peer rounds n got =
    (if \<forall>r \<in> set rounds. fst r
     then Inr (n + of_nat (length rounds), got \<or> (\<exists>r \<in> set rounds. \<exists>read. snd r = Some (read, peer) \<and> 0 < read))
     else Inl SendFailed)"
  by (induction peer rounds n got rule: punch_rounds.induct) (auto split: option.splits simp: add.assoc)

text \<open>
  Hole punching sends exactly the requested number of packets or fails at the first that
  cannot be sent, and reports a packet as received exactly when some round received a nonempty
  datagram from the peer itself.
\<close>

theorem hole_punch_result:
  "hole_punch_udp peer attempts local_addr rounds =
    (if attempts = 0 then Inl NoAttempts
     else case local_addr of None \<Rightarrow> Inl SocketFailed
     | Some addr \<Rightarrow>
         if \<forall>i \<in> {..<unat attempts}. fst (rounds i)
         then Inr \<lparr>hp_packets_sent = attempts,
           hp_packet_received = (\<exists>i \<in> {..<unat attempts}. \<exists>read. snd (rounds i) = Some (read, peer) \<and> 0 < read),
           hp_local_addr = addr\<rparr>
         else Inl SendFailed)"
  by (auto simp: hole_punch_udp_def punch_rounds_result lessThan_def split: option.splits)


lemma hole_punch_result_witness:
  "hole_punch_udp (SockV4 1 2) 2 (Some (SockV4 3 4)) (\<lambda>i. (True, if i = 1 then Some (5, SockV4 1 2) else None))
    = Inr \<lparr>hp_packets_sent = 2, hp_packet_received = True, hp_local_addr = SockV4 3 4\<rparr>"
  by (subst hole_punch_result) (auto intro!: bexI [of _ 1])

end
