(* ===== verification/Relay_Service.thy ===== *)
theory Relay_Service
  imports Port_Allocator Service_Signaling Node_Record Nat_Probe
begin

text \<open>
  The UDP relay service, \<open>crates/nostr-vpn-relay/src/bin/nvpn-udp-relay.rs\<close>: the handling of
  allocation and probe requests, the two legs of a relayed session, the NAT assistant and the
  published record. The clock, the sockets and the outcome of publishing are arguments of each
  step; the tasks of the program interleave as a sequence of such steps.
\<close>

section \<open>Constants and start-up\<close>

definition DEFAULT_PROBE_LEASE_SECS :: u64 where "DEFAULT_PROBE_LEASE_SECS = 8"

definition relay_limits :: "relay_args \<Rightarrow> relay_service_limits" where
  "relay_limits args =
    \<lparr>rl_max_active_sessions = max (ra_max_active_sessions args) 1,
     rl_max_sessions_per_requester = max (ra_max_sessions_per_requester args) 1,
     rl_max_bytes_per_session = max (ra_max_bytes_per_session args) 1,
     rl_max_forward_bps = (case ra_max_forward_bps args of
         Some v \<Rightarrow> if 0 < v then Some v else None | None \<Rightarrow> None)\<rparr>"

datatype start_error =
    NoRelays
  | NoServiceEnabled
  | InvalidBindIp
  | RangeError range_error
  | InvalidHost

definition relay_endpoint_of :: "relay_args \<Rightarrow> string option" where
  "relay_endpoint_of args = (if ra_disable_relay args then None else Some (ra_advertise_host args @ '':0''))"

definition nat_assist_endpoint_of :: "relay_args \<Rightarrow> start_error + string option" where
  "nat_assist_endpoint_of args =
    (if ra_enable_nat_assist args
     then (case parse_ip (ra_advertise_host args) of
         None \<Rightarrow> Inl InvalidHost
       | Some ip \<Rightarrow> Inr (Some (print_socket_addr (socket_addr_new ip (ra_nat_assist_port args)))))
     else Inr None)"

definition node_record_services :: "relay_args \<Rightarrow> start_error + node_service list" where
  "node_record_services args =
    (let relay = (if ra_disable_relay args then []
         else [\<lparr>ns_kind = KindRelay, ns_endpoint = ra_advertise_host args @ '':0'',
                ns_protocol = Some ''udp-port-pair'', ns_price_hint_msats = ra_price_hint_msats args\<rparr>])
     in if \<not> ra_enable_nat_assist args then Inr relay
        else (case parse_ip (ra_advertise_host args) of
            None \<Rightarrow> Inl InvalidHost
          | Some ip \<Rightarrow> Inr (relay @
              [\<lparr>ns_kind = KindNatAssist,
                ns_endpoint = print_socket_addr (socket_addr_new ip (ra_nat_assist_port args)),
                ns_protocol = Some ''udp-reflector'', ns_price_hint_msats = None\<rparr>])))"

text \<open>The record published every interval, at the times \<open>t1\<close> and \<open>t2\<close> the clock is read.\<close>

definition published_record :: "relay_args \<Rightarrow> node_service list \<Rightarrow> u64 \<Rightarrow> u64 \<Rightarrow> node_record" where
  "published_record args services t1 t2 =
    \<lparr>nr_mode = ModePublicService, nr_services = services, nr_updated_at = t1,
     nr_expires_at = t2 + max (ra_publish_interval_secs args) 5 * 3\<rparr>"

section \<open>Sessions\<close>

record session_state =
  ss_requester :: "socket_addr option"
  ss_target :: "socket_addr option"
  ss_forwarding :: session_forwarding_state

definition session_state_default :: session_state where
  "session_state_default =
    \<lparr>ss_requester = None, ss_target = None, ss_forwarding = session_forwarding_state_default\<rparr>"

text \<open>
  A packet of \<open>len\<close> bytes arriving from \<open>src\<close> on one leg: where it is sent on to from the
  other leg's socket, if anywhere.
\<close>

definition leg_packet ::
  "relay_service_limits \<Rightarrow> nat \<Rightarrow> bool \<Rightarrow> u64 \<Rightarrow> socket_addr \<Rightarrow> session_state
    \<Rightarrow> socket_addr option \<times> session_state" where
  "leg_packet limits now requester_leg len src st0 =
    (case allow_forward limits now len (ss_forwarding st0) of
       (Inl _, forwarding) \<Rightarrow> (None, st0\<lparr>ss_forwarding := forwarding\<rparr>)
     | (Inr _, forwarding) \<Rightarrow>
         (let st = st0\<lparr>ss_forwarding := forwarding\<rparr>
          in if requester_leg
             then (case ss_requester st of
                 Some bound \<Rightarrow> if bound \<noteq> src then (None, st) else (ss_target st, st)
               | None \<Rightarrow> (ss_target st, st\<lparr>ss_requester := Some src\<rparr>))
             else (case ss_target st of
                 Some bound \<Rightarrow> if bound \<noteq> src then (None, st) else (ss_requester st, st)
               | None \<Rightarrow> (ss_requester st, st\<lparr>ss_target := Some src\<rparr>))))"

text \<open>The two leg tasks of one granted request, while they run.\<close>

record live_relay =
  lr_request_id :: string
  lr_ports :: "u16 \<times> u16"
  lr_expires_at :: nat
  lr_session :: session_state

record relay_service =
  rs_runtime :: service_runtime_state
  rs_allocator :: "relay_port_allocator option"
  rs_live :: "live_relay list"

text \<open>
  Start-up: the checks on the arguments, then the state from the state file. Connecting to the
  relays and spawning the tasks is I/O.
\<close>

definition start_service ::
  "relay_args \<Rightarrow> (service_operator_state option \<times> relay_operator_state option) option \<Rightarrow> u64 \<Rightarrow> string
    \<Rightarrow> start_error + relay_service" where
  "start_service args file now own_pubkey =
    (if ra_relays args = [] then Inl NoRelays
     else if ra_disable_relay args \<and> \<not> ra_enable_nat_assist args then Inl NoServiceEnabled
     else (case parse_ip (ra_bind_ip args) of
         None \<Rightarrow> Inl InvalidBindIp
       | Some _ \<Rightarrow>
           (case relay_port_range args of
              Inl e \<Rightarrow> Inl (RangeError e)
            | Inr ports \<Rightarrow>
                (case nat_assist_endpoint_of args of
                   Inl e \<Rightarrow> Inl e
                 | Inr nat_endpoint \<Rightarrow>
                     Inr \<lparr>rs_runtime = load_runtime_state file now own_pubkey (relay_endpoint_of args) nat_endpoint,
                          rs_allocator = map_option allocator_new ports, rs_live = []\<rparr>))))"

section \<open>Requests\<close>

text \<open>
  What the environment contributes to the handling of one request: the clock's readings when
  the limits are checked, when the lease starts and when the session is noted, the instant the
  lease starts, the operating system's answers to binding, and whether publishing succeeds.
\<close>

record request_env =
  qe_check_time :: u64
  qe_start_time :: u64
  qe_note_time :: u64
  qe_start_instant :: nat
  qe_bind :: bind_env
  qe_publish_ok :: bool

text \<open>Whether the program goes on with the next message or stops with an error.\<close>

datatype flow = Continue | Abort

type_synonym handled = "(flow \<times> (service_payload \<times> string) list \<times> relay_service) option"

definition check_limits ::
  "relay_service_limits \<Rightarrow> string \<Rightarrow> u64 \<Rightarrow> relay_service
    \<Rightarrow> (relay_allocation_reject_reason \<times> u64 option) option \<times> relay_service" where
  "check_limits limits sender now s =
    (case sv_relay (rs_runtime s) of
       None \<Rightarrow> (None, s)
     | Some relay \<Rightarrow>
         (case allocation_rejection_for_requester sender now limits relay of
            (rejection, relay') \<Rightarrow>
              (rejection, s\<lparr>rs_runtime := (rs_runtime s)\<lparr>sv_relay := Some relay'\<rparr>\<rparr>)))"

definition flow_of :: "bool \<Rightarrow> flow" where
  "flow_of published = (if published then Continue else Abort)"

definition handle_allocation_request ::
  "relay_args \<Rightarrow> string \<Rightarrow> request_env \<Rightarrow> string \<Rightarrow> relay_allocation_request \<Rightarrow> relay_service \<Rightarrow> handled" where
  "handle_allocation_request args own_pubkey env sender request s0 =
    (let reject = (\<lambda>reason retry_after. RelayAllocationRejected
           \<lparr>rr_request_id = rq_request_id request, rr_network_id = rq_network_id request,
            rr_relay_pubkey = own_pubkey, rr_reason = reason, rr_retry_after_secs = retry_after\<rparr>)
     in case check_limits (relay_limits args) sender (qe_check_time env) s0 of
          (Some (reason, retry_after), s) \<Rightarrow>
            Some (flow_of (qe_publish_ok env), [(reject reason retry_after, sender)], s)
        | (None, s) \<Rightarrow>
            (case bind_relay_leg_pair (qe_bind env) (ra_advertise_host args) (rs_allocator s) of
               None \<Rightarrow> None
             | Some (Inl _, allocator) \<Rightarrow>
                 Some (Continue, [(reject OverCapacity (Some 30), sender)], s\<lparr>rs_allocator := allocator\<rparr>)
             | Some (Inr (ports, requester_endpoint, target_endpoint), allocator) \<Rightarrow>
                 (let lease_secs = max (ra_lease_secs args) 30;
                      started_at = qe_start_time env;
                      expires_at = started_at + lease_secs;
                      granted = RelayAllocationGranted
                        \<lparr>rg_request_id = rq_request_id request, rg_network_id = rq_network_id request,
                         rg_relay_pubkey = own_pubkey, rg_requester_ingress_endpoint = requester_endpoint,
                         rg_target_ingress_endpoint = target_endpoint, rg_expires_at = expires_at\<rparr>;
                      session = \<lparr>os_request_id = rq_request_id request, os_network_id = rq_network_id request,
                         os_requester_pubkey = sender, os_target_pubkey = rq_target_pubkey request,
                         os_requester_ingress_endpoint = requester_endpoint,
                         os_target_ingress_endpoint = target_endpoint, os_started_at = started_at,
                         os_expires_at = expires_at, os_bytes_from_requester = 0, os_bytes_from_target = 0\<rparr>;
                      live = \<lparr>lr_request_id = rq_request_id request, lr_ports = ports,
                         lr_expires_at = qe_start_instant env + unat lease_secs * 10 ^ 9,
                         lr_session = session_state_default\<rparr>
                  in if \<not> qe_publish_ok env then Some (Abort, [(granted, sender)], s\<lparr>rs_allocator := allocator\<rparr>)
                     else Some (Continue, [(granted, sender)],
                       s\<lparr>rs_allocator := allocator,
                         rs_runtime := service_note_session_started (qe_note_time env) session (rs_runtime s),
                         rs_live := rs_live s @ [live]\<rparr>))))"

definition handle_probe_request ::
  "relay_args \<Rightarrow> string \<Rightarrow> request_env \<Rightarrow> string \<Rightarrow> relay_probe_request \<Rightarrow> relay_service \<Rightarrow> handled" where
  "handle_probe_request args own_pubkey env sender request s0 =
    (let reject = (\<lambda>reason retry_after. RelayProbeRejected
           \<lparr>br_request_id = bq_request_id request, br_relay_pubkey = own_pubkey, br_reason = reason,
            br_retry_after_secs = retry_after\<rparr>)
     in case check_limits (relay_limits args) sender (qe_check_time env) s0 of
          (Some (reason, retry_after), s) \<Rightarrow>
            Some (flow_of (qe_publish_ok env), [(reject reason retry_after, sender)], s)
        | (None, s) \<Rightarrow>
            (case bind_relay_leg_pair (qe_bind env) (ra_advertise_host args) (rs_allocator s) of
               None \<Rightarrow> None
             | Some (Inl _, allocator) \<Rightarrow>
                 Some (Continue, [(reject OverCapacity (Some 30), sender)], s\<lparr>rs_allocator := allocator\<rparr>)
             | Some (Inr (ports, requester_endpoint, target_endpoint), allocator) \<Rightarrow>
                 (let started_at = qe_start_time env;
                      expires_at = started_at + DEFAULT_PROBE_LEASE_SECS;
                      granted = RelayProbeGranted
                        \<lparr>bg_request_id = bq_request_id request, bg_relay_pubkey = own_pubkey,
                         bg_requester_ingress_endpoint = requester_endpoint,
                         bg_target_ingress_endpoint = target_endpoint, bg_expires_at = expires_at\<rparr>;
                      session = \<lparr>os_request_id = bq_request_id request, os_network_id = ''__probe__'',
                         os_requester_pubkey = sender, os_target_pubkey = sender,
                         os_requester_ingress_endpoint = requester_endpoint,
                         os_target_ingress_endpoint = target_endpoint, os_started_at = started_at,
                         os_expires_at = expires_at, os_bytes_from_requester = 0, os_bytes_from_target = 0\<rparr>;
                      live = \<lparr>lr_request_id = bq_request_id request, lr_ports = ports,
                         lr_expires_at = qe_start_instant env + unat DEFAULT_PROBE_LEASE_SECS * 10 ^ 9,
                         lr_session = session_state_default\<rparr>
                  in if \<not> qe_publish_ok env then Some (Abort, [(granted, sender)], s\<lparr>rs_allocator := allocator\<rparr>)
                     else Some (Continue, [(granted, sender)],
                       s\<lparr>rs_allocator := allocator,
                         rs_runtime := service_note_session_started (qe_note_time env) session (rs_runtime s),
                         rs_live := rs_live s @ [live]\<rparr>))))"

definition handle_message ::
  "relay_args \<Rightarrow> string \<Rightarrow> request_env \<Rightarrow> service_envelope \<Rightarrow> relay_service \<Rightarrow> handled" where
  "handle_message args own_pubkey env message s =
    (case sx_payload message of
       RelayAllocationRequest request \<Rightarrow>
         handle_allocation_request args own_pubkey env (sx_sender_pubkey message) request s
     | RelayProbeRequest request \<Rightarrow>
         handle_probe_request args own_pubkey env (sx_sender_pubkey message) request s
     | _ \<Rightarrow> Some (Continue, [], s))"

section \<open>The other tasks\<close>

text \<open>
  A packet for the live session \<open>i\<close>: nothing happens once its lease has ended; otherwise the
  bytes actually sent on (\<open>sent\<close>, \<open>None\<close> when sending fails) are noted.
\<close>

definition relay_leg_step ::
  "relay_service_limits \<Rightarrow> nat \<Rightarrow> nat \<Rightarrow> bool \<Rightarrow> u64 \<Rightarrow> socket_addr \<Rightarrow> u64 option \<Rightarrow> relay_service
    \<Rightarrow> socket_addr option \<times> relay_service" where
  "relay_leg_step limits i now requester_leg len src sent s =
    (if \<not> i < length (rs_live s) \<or> lr_expires_at (rs_live s ! i) \<le> now then (None, s)
     else (case leg_packet limits now requester_leg len src (lr_session (rs_live s ! i)) of
         (maybe_dest, st) \<Rightarrow>
           (let s1 = s\<lparr>rs_live := (rs_live s)[i := (rs_live s ! i)\<lparr>lr_session := st\<rparr>]\<rparr>
            in (case (maybe_dest, sent) of
                  (Some dest, Some bytes) \<Rightarrow>
                    (Some dest, s1\<lparr>rs_runtime := service_note_forwarded_bytes
                        (lr_request_id (rs_live s ! i)) requester_leg bytes (rs_runtime s1)\<rparr>)
                | _ \<Rightarrow> (maybe_dest, s1)))))"

definition nat_assist_packet ::
  "string \<Rightarrow> socket_addr \<Rightarrow> relay_service \<Rightarrow> string option \<times> relay_service" where
  "nat_assist_packet datagram src s =
    (case reflect datagram src of
       None \<Rightarrow> (None, s)
     | Some (response, DiscoverProbe) \<Rightarrow>
         (Some response, s\<lparr>rs_runtime := service_note_discovery_request src (rs_runtime s)\<rparr>)
     | Some (response, PunchProbe) \<Rightarrow>
         (Some response, s\<lparr>rs_runtime := service_note_punch_request src (rs_runtime s)\<rparr>))"

definition write_state :: "u64 \<Rightarrow> relay_service \<Rightarrow> service_operator_state \<times> relay_service" where
  "write_state now s =
    (case service_snapshot now (rs_runtime s) of (snapshot, runtime) \<Rightarrow> (snapshot, s\<lparr>rs_runtime := runtime\<rparr>))"

text \<open>A step of the service.\<close>

datatype service_event =
    MessageEvent request_env service_envelope
  | LegEvent nat nat bool u64 socket_addr "u64 option"
  | NatEvent string socket_addr
  | SnapshotEvent u64

text \<open>A message whose handling does not end leaves the state as it was at that point.\<close>

fun service_step :: "relay_args \<Rightarrow> string \<Rightarrow> service_event \<Rightarrow> relay_service \<Rightarrow> relay_service" where
  "service_step args own_pubkey (MessageEvent env message) s =
    (case handle_message args own_pubkey env message s of None \<Rightarrow> s | Some (_, _, s') \<Rightarrow> s')"
| "service_step args own_pubkey (LegEvent i now requester_leg len src sent) s =
    snd (relay_leg_step (relay_limits args) i now requester_leg len src sent s)"
| "service_step args own_pubkey (NatEvent datagram src) s = snd (nat_assist_packet datagram src s)"
| "service_step args own_pubkey (SnapshotEvent now) s = snd (write_state now s)"

end
