(* ===== verification/Port_Search.thy ===== *)
theory Port_Search
  imports Port_Allocator
begin

text \<open>
  The search for a pair of relay ports ends, finds a pair whenever there is one, and only ever
  returns two different ports of the configured range.
\<close>

section \<open>Going around a range\<close>

definition range_ok :: "port_range \<Rightarrow> bool" where
  "range_ok r \<longleftrightarrow> pr_start r \<le> pr_end r"

definition pos :: "port_range \<Rightarrow> u16 \<Rightarrow> nat" where
  "pos r p = unat p - unat (pr_start r)"

text \<open>The number of steps of \<open>next_after\<close> from \<open>p\<close> to \<open>q\<close>.\<close>

definition steps_to :: "port_range \<Rightarrow> u16 \<Rightarrow> u16 \<Rightarrow> nat" where
  "steps_to r p q =
    (if pos r p \<le> pos r q then pos r q - pos r p else pos r q + range_len r - pos r p)"

lemma range_len_nat: "range_ok r \<Longrightarrow> range_len r = unat (pr_end r) - unat (pr_start r) + 1"
  by (simp add: range_len_def range_ok_def unat_sub)

lemma pos_less: "range_ok r \<Longrightarrow> range_contains r p \<Longrightarrow> pos r p < range_len r"
  unfolding range_len_nat pos_def range_contains_def word_le_nat_alt by linarith

lemma pos_inj: "range_contains r p \<Longrightarrow> range_contains r q \<Longrightarrow> pos r p = pos r q \<longleftrightarrow> p = q"
  using eq_diff_iff [of "unat (pr_start r)" "unat p" "unat q"]
  by (auto simp: pos_def range_contains_def word_le_nat_alt intro: unsigned_word_eqI)

lemma next_after_range:
  assumes "range_ok r" "range_contains r p"
  shows "range_contains r (next_after r p)"
    and "pos r (next_after r p) = (if Suc (pos r p) = range_len r then 0 else Suc (pos r p))"
proof -
  have le: "unat (pr_start r) \<le> unat p" "unat p \<le> unat (pr_end r)"
    using assms(2) by (simp_all add: range_contains_def word_le_nat_alt)
  have "unat (p + 1) = unat p + 1" if "unat p < unat (pr_end r)"
  proof -
    have "unat p + 1 < 2 ^ LENGTH(16)" using that unsigned_less [of "pr_end r", where 'a = nat] by simp
    then show ?thesis by (simp add: unat_word_ariths)
  qed
  with le assms(1) show "range_contains r (next_after r p)"
    and "pos r (next_after r p) = (if Suc (pos r p) = range_len r then 0 else Suc (pos r p))"
    by (auto simp: next_after_def range_contains_def pos_def range_len_nat word_le_nat_alt range_ok_def)
qed

lemma steps_to_facts:
  assumes "range_ok r" "range_contains r p" "range_contains r q"
  shows "steps_to r p q < range_len r" "steps_to r p q = 0 \<longleftrightarrow> p = q"
    and "p \<noteq> q \<Longrightarrow> Suc (steps_to r (next_after r p) q) = steps_to r p q"
    and "Suc (steps_to r (next_after r p) p) = range_len r"
  using pos_less [OF assms(1,2)] pos_less [OF assms(1,3)] pos_inj [OF assms(2,3)]
    next_after_range [OF assms(1,2)]
  by (auto simp: steps_to_def split: if_splits)

section \<open>The search\<close>

text \<open>What the search for the second port may return after looking at the ports \<open>V\<close>.\<close>

definition second_spec ::
  "(u16 \<Rightarrow> bind_result) \<Rightarrow> port_range \<Rightarrow> u16 \<Rightarrow> u16 set \<Rightarrow> pair_error + (u16 \<times> u16) option \<Rightarrow> bool" where
  "second_spec B r f V res = (case res of
     Inl e \<Rightarrow> e \<noteq> NoFreePair \<and> (\<exists>q. range_contains r q \<and> q \<noteq> f \<and> (B q = BindFailed \<or> B q = Bound None))
   | Inr None \<Rightarrow> \<forall>q \<in> V. B q = AddrInUse
   | Inr (Some (q, a)) \<Rightarrow> range_contains r q \<and> q \<noteq> f \<and> B q = Bound (Some a))"

lemma second_spec_extend:
  "second_spec B r f V res \<Longrightarrow> (\<And>q. q \<in> V' \<Longrightarrow> q \<in> V \<or> B q = AddrInUse) \<Longrightarrow> second_spec B r f V' res"
  by (auto simp: second_spec_def split: sum.splits option.splits)

definition between :: "port_range \<Rightarrow> u16 \<Rightarrow> nat \<Rightarrow> u16 set" where
  "between r p n = {q. range_contains r q \<and> steps_to r p q < n}"

lemma between_step:
  assumes "range_ok r" "range_contains r p" "q \<in> between r p (Suc n)"
  shows "q \<in> between r (next_after r p) n \<or> q = p"
  using assms(3) steps_to_facts(3) [OF assms(1,2), of q] by (auto simp: between_def)

lemma find_second_found:
  assumes "range_ok r" "range_contains r f" "range_contains r p"
    and "tried \<longrightarrow> p \<noteq> next_after r f \<or> p = f"
  shows "\<exists>res. find_second B r f (next_after r f) tried p = Some res
    \<and> second_spec B r f (between r p (steps_to r p f)) res"
  using assms(3,4)
proof (induction "steps_to r p f" arbitrary: p tried)
  case 0
  then have "p = f" using steps_to_facts(2) [OF assms(1) 0(2) assms(2)] by simp
  with 0 show ?case by (subst find_second.simps) (auto simp: second_spec_def between_def)
next
  case (Suc n)
  let ?s = "next_after r f" and ?p = "next_after r p"
  note facts = steps_to_facts [OF assms(1)]
  have pf: "p \<noteq> f" using facts(2) [OF Suc.prems(1) assms(2)] Suc.hyps(2) by auto
  with Suc.prems(2) have go: "(tried \<and> p = ?s) = False" by auto
  have nxt: "range_contains r ?p" by (rule next_after_range(1) [OF assms(1) Suc.prems(1)])
  have n: "n = steps_to r ?p f" using facts(3) [OF Suc.prems(1) assms(2) pf] Suc.hyps(2) by simp
  have "?p \<noteq> ?s \<or> ?p = f"
    using facts(4) [OF assms(2,2)] n Suc.hyps(2) facts(1) [OF Suc.prems(1) assms(2)] by auto
  with Suc.hyps(1) [OF n nxt, of True] obtain res where
    res: "find_second B r f ?s True ?p = Some res" and spec: "second_spec B r f (between r ?p n) res"
    using n by auto
  show ?case
  proof (cases "B p")
    case (Bound a)
    with pf Suc.prems(1) show ?thesis
      by (subst find_second.simps) (cases a, auto simp: go second_spec_def)
  next
    case AddrInUse
    have "second_spec B r f (between r p (Suc n)) res"
      using between_step [OF assms(1) Suc.prems(1)] AddrInUse by (intro second_spec_extend [OF spec]) auto
    with AddrInUse pf res show ?thesis
      by (subst find_second.simps) (simp add: go Suc.hyps(2) [symmetric])
  next
    case BindFailed
    with pf Suc.prems(1) show ?thesis by (subst find_second.simps) (auto simp: go second_spec_def)
  qed
qed

text \<open>The whole inner loop, started after the first port.\<close>

lemma find_second_complete:
  assumes "range_ok r" "range_contains r f"
  shows "\<exists>res. find_second B r f (next_after r f) False (next_after r f) = Some res
    \<and> second_spec B r f {q. range_contains r q \<and> q \<noteq> f} res"
proof -
  let ?s = "next_after r f"
  have nxt: "range_contains r ?s" by (rule next_after_range(1) [OF assms])
  obtain res where res: "find_second B r f ?s False ?s = Some res"
    "second_spec B r f (between r ?s (steps_to r ?s f)) res"
    using find_second_found [OF assms nxt, of False B] by auto
  have "q \<in> between r ?s (steps_to r ?s f)" if "range_contains r q" "q \<noteq> f" for q
    using steps_to_facts(1,4) [OF assms that(1)] steps_to_facts(3) [OF assms that(1)] steps_to_facts(4) [OF assms assms(2)] that
    by (auto simp: between_def)
  then have "second_spec B r f {q. range_contains r q \<and> q \<noteq> f} res"
    by (intro second_spec_extend [OF res(2)]) auto
  with res(1) show ?thesis by blast
qed

text \<open>The outer loop.\<close>

definition stuck :: "(u16 \<Rightarrow> bind_result) \<Rightarrow> port_range \<Rightarrow> u16 \<Rightarrow> bool" where
  "stuck B r p \<longleftrightarrow> B p = AddrInUse
    \<or> (\<forall>q. range_contains r q \<and> q \<noteq> p \<longrightarrow> B q = AddrInUse)"

definition pair_spec ::
  "(u16 \<Rightarrow> bind_result) \<Rightarrow> port_range \<Rightarrow> u16 set \<Rightarrow> pair_error + (u16 \<times> u16) \<times> (u16 \<times> u16) \<Rightarrow> bool" where
  "pair_spec B r V res = (case res of
     Inl e \<Rightarrow> if e = NoFreePair then \<forall>p \<in> V. stuck B r p
       else \<exists>q. range_contains r q \<and> (B q = BindFailed \<or> B q = Bound None)
   | Inr ((p, a), (q, b)) \<Rightarrow> range_contains r p \<and> range_contains r q \<and> p \<noteq> q
       \<and> B p = Bound (Some a) \<and> B q = Bound (Some b))"

lemma pair_spec_extend:
  "pair_spec B r V res \<Longrightarrow> \<forall>p \<in> V'. p \<in> V \<or> stuck B r p \<Longrightarrow> pair_spec B r V' res"
  unfolding pair_spec_def by (auto split: sum.splits if_splits)

lemma find_pair_found:
  assumes "range_ok r" "range_contains r s" "range_contains r p"
    and "n = (if tried then steps_to r p s else range_len r)" "tried \<or> p = s"
  shows "\<exists>res. find_pair B r s tried p = Some res \<and> pair_spec B r (between r p n) res"
  using assms(3-5)
proof (induction n arbitrary: p tried)
  case 0
  then have "tried \<and> p = s" using steps_to_facts(2) [OF assms(1) 0(1) assms(2)] by (auto simp: range_len_def split: if_splits)
  then show ?case by (subst find_pair.simps) (auto simp: pair_spec_def between_def)
next
  case (Suc n)
  let ?p = "next_after r p"
  note facts = steps_to_facts [OF assms(1)]
  have go: "(tried \<and> p = s) = False" using facts(2) [OF Suc.prems(1) assms(2)] Suc.prems(2) by auto
  have nxt: "range_contains r ?p" by (rule next_after_range(1) [OF assms(1) Suc.prems(1)])
  have "n = steps_to r ?p s"
    using facts(3) [OF Suc.prems(1) assms(2)] facts(4) [OF assms(2,2)] Suc.prems(2,3) go by (auto split: if_splits)
  with Suc.IH [OF nxt, of True] obtain res where
    res: "find_pair B r s True ?p = Some res" and spec: "pair_spec B r (between r ?p n) res" by auto
  have extend: "pair_spec B r (between r p (Suc n)) res" if "stuck B r p"
    using between_step [OF assms(1) Suc.prems(1)] that by (intro pair_spec_extend [OF spec]) auto
  show ?case
  proof (cases "B p")
    case (Bound a)
    show ?thesis
    proof (cases a)
      case None
      with Bound Suc.prems(1) show ?thesis by (subst find_pair.simps) (auto simp: go pair_spec_def)
    next
      case (Some addr)
      obtain second where second: "find_second B r p ?p False ?p = Some second"
        "second_spec B r p {q. range_contains r q \<and> q \<noteq> p} second"
        using find_second_complete [OF assms(1) Suc.prems(1)] by blast
      consider e where "second = Inl e" | "second = Inr None" | q b where "second = Inr (Some (q, b))"
        by (cases second) (auto, metis option.exhaust surj_pair)
      then show ?thesis
      proof cases
        case 2
        with second(2) have "stuck B r p" by (auto simp: stuck_def second_spec_def)
        with extend Bound Some second(1) 2 res show ?thesis by (subst find_pair.simps) (simp add: go)
      qed (use second Bound Some Suc.prems(1) in \<open>subst find_pair.simps,
          auto simp: go pair_spec_def second_spec_def\<close>)+
    qed
  next
    case AddrInUse
    with extend res show ?thesis by (subst find_pair.simps) (simp add: go stuck_def)
  next
    case BindFailed
    with Suc.prems(1) show ?thesis by (subst find_pair.simps) (auto simp: go pair_spec_def)
  qed
qed

section \<open>What the allocator promises\<close>

definition allocator_ok :: "relay_port_allocator \<Rightarrow> bool" where
  "allocator_ok al \<longleftrightarrow> range_ok (al_range al) \<and> range_contains (al_range al) (al_next_port al)"

lemma allocator_new_ok: "range_ok r \<Longrightarrow> allocator_ok (allocator_new r)"
  by (simp add: allocator_ok_def allocator_new_def range_ok_def range_contains_def)

lemma find_pair_whole:
  assumes "allocator_ok al"
  shows "\<exists>res. find_pair B (al_range al) (al_next_port al) False (al_next_port al) = Some res
    \<and> pair_spec B (al_range al) {p. range_contains (al_range al) p} res"
proof -
  have ok: "range_ok (al_range al)" "range_contains (al_range al) (al_next_port al)"
    using assms by (simp_all add: allocator_ok_def)
  have "{p. range_contains (al_range al) p} \<subseteq> between (al_range al) (al_next_port al) (range_len (al_range al))"
    using steps_to_facts(1) [OF ok] by (auto simp: between_def)
  moreover obtain res where "find_pair B (al_range al) (al_next_port al) False (al_next_port al) = Some res"
    "pair_spec B (al_range al) (between (al_range al) (al_next_port al) (range_len (al_range al))) res"
    using find_pair_found [OF ok ok(2), of "range_len (al_range al)" False B] by auto
  ultimately show ?thesis using pair_spec_extend by (metis subsetD)
qed

lemma bind_pair_result:
  assumes "allocator_ok al" and "parse_ip host = Some ip"
  shows "(\<exists>p a q b. bind_pair B host al
        = Some (Inr ((a, b), print_socket_addr (socket_addr_new ip a), print_socket_addr (socket_addr_new ip b)),
            al\<lparr>al_next_port := next_after (al_range al) q\<rparr>)
      \<and> range_contains (al_range al) p \<and> range_contains (al_range al) q \<and> p \<noteq> q
      \<and> B p = Bound (Some a) \<and> B q = Bound (Some b))
    \<or> bind_pair B host al = Some (Inl NoFreePair, al)
      \<and> (\<forall>p q. range_contains (al_range al) p \<and> range_contains (al_range al) q \<and> p \<noteq> q
          \<longrightarrow> B p = AddrInUse \<or> B q = AddrInUse)
    \<or> (\<exists>e q. e \<noteq> NoFreePair \<and> bind_pair B host al = Some (Inl e, al) \<and> range_contains (al_range al) q
      \<and> (B q = BindFailed \<or> B q = Bound None))"
proof -
  obtain res where res: "find_pair B (al_range al) (al_next_port al) False (al_next_port al) = Some res"
    "pair_spec B (al_range al) {p. range_contains (al_range al) p} res"
    using find_pair_whole [OF assms(1)] by blast
  show ?thesis
  proof (cases res)
    case (Inl e)
    with res assms(2) show ?thesis
      by (cases "e = NoFreePair") (auto simp: bind_pair_def pair_spec_def stuck_def)
  next
    case (Inr v)
    obtain p a q b where "v = ((p, a), (q, b))" by (metis surj_pair)
    with Inr res assms(2) have "bind_pair B host al
        = Some (Inr ((a, b), print_socket_addr (socket_addr_new ip a), print_socket_addr (socket_addr_new ip b)),
            al\<lparr>al_next_port := next_after (al_range al) q\<rparr>)"
      "range_contains (al_range al) p \<and> range_contains (al_range al) q \<and> p \<noteq> q
      \<and> B p = Bound (Some a) \<and> B q = Bound (Some b)"
      by (simp_all add: bind_pair_def pair_spec_def)
    then show ?thesis by blast
  qed
qed

text \<open>
  C13. Whatever ports are in use, the search for a relay port pair ends. A pair it returns are two
  different ports of the range that could be bound, advertised under the configured address;
  it reports that no pair is free only when at most one port of the range can be bound; and the
  allocator stays inside its range, so that the next search ends too.
\<close>

theorem bind_pair_terminates:
  assumes "allocator_ok al" and "parse_ip host = Some ip"
  shows "\<exists>res al'. bind_pair B host al = Some (res, al') \<and> allocator_ok al' \<and> al_range al' = al_range al
    \<and> (case res of
         Inr ((a, b), requester_endpoint, target_endpoint) \<Rightarrow>
           (\<exists>p q. range_contains (al_range al) p \<and> range_contains (al_range al) q \<and> p \<noteq> q
             \<and> B p = Bound (Some a) \<and> B q = Bound (Some b))
           \<and> requester_endpoint = print_socket_addr (socket_addr_new ip a)
           \<and> target_endpoint = print_socket_addr (socket_addr_new ip b)
       | Inl e \<Rightarrow> e = NoFreePair
           \<and> (\<forall>p q. range_contains (al_range al) p \<and> range_contains (al_range al) q \<and> p \<noteq> q
               \<longrightarrow> B p = AddrInUse \<or> B q = AddrInUse)
         \<or> (\<exists>q. range_contains (al_range al) q \<and> (B q = BindFailed \<or> B q = Bound None)))"
proof -
  have step: "allocator_ok (al\<lparr>al_next_port := next_after (al_range al) q\<rparr>)" if "range_contains (al_range al) q" for q
    using assms(1) next_after_range(1) [of "al_range al" q] that by (simp add: allocator_ok_def)
  from bind_pair_result [OF assms, of B] show ?thesis
  proof (elim disjE exE conjE, goal_cases)
    case (1 p a q b)
    with step [of q] show ?case by auto
  qed (use assms(1) in auto)
qed

text \<open>The ports of a range are as many as its length.\<close>

lemma card_range: "range_ok r \<Longrightarrow> card {p. range_contains r p} = range_len r"
proof -
  assume ok: "range_ok r"
  have "bij_betw unat {p. range_contains r p} {unat (pr_start r)..unat (pr_end r)}"
  proof (rule bij_betwI')
    fix y assume y: "y \<in> {unat (pr_start r)..unat (pr_end r)}"
    then have "unat (word_of_nat y :: u16) = y"
      using unsigned_less [of "pr_end r", where 'a = nat] by (simp add: unsigned_of_nat take_bit_nat_eq_self_iff)
    with y show "\<exists>x \<in> {p. range_contains r p}. y = unat x"
      by (intro bexI [of _ "word_of_nat y"]) (auto simp: range_contains_def word_le_nat_alt)
  qed (auto simp: range_contains_def word_le_nat_alt intro: unsigned_word_eqI)
  then show ?thesis using ok by (simp add: bij_betw_same_card [of unat] range_len_nat range_ok_def word_le_nat_alt)
qed

text \<open>
  A port range that passes the start-up checks has no port zero, keeps the NAT assistant's
  port free, and is wide enough: as long as the ports in use are those of fewer sessions than
  the configured maximum, and every other port can be bound, binding a pair succeeds.
\<close>

theorem accepted_range_suffices:
  assumes "relay_port_range args = Inr (Some r)" and "parse_ip (ra_advertise_host args) = Some ip"
    and "allocator_ok al" "al_range al = r"
    and "\<forall>p. range_contains r p \<longrightarrow> B p = AddrInUse \<or> (\<exists>a. B p = Bound (Some a))"
    and "card {p. range_contains r p \<and> B p = AddrInUse} \<le> 2 * n" "n < ra_max_active_sessions args"
  shows "\<not> range_contains r 0 \<and> (ra_enable_nat_assist args \<longrightarrow> \<not> range_contains r (ra_nat_assist_port args))
    \<and> 2 * ra_max_active_sessions args \<le> range_len r
    \<and> (\<exists>pair al'. bind_pair B (ra_advertise_host args) al = Some (Inr pair, al'))"
proof -
  have r: "range_ok r" "pr_start r \<noteq> 0" "ra_max_active_sessions args \<le> range_len r div 2"
    "ra_enable_nat_assist args \<longrightarrow> \<not> range_contains r (ra_nat_assist_port args)"
    using assms(1) by (auto simp: relay_port_range_def relay_port_range_new_def capacity_sessions_def range_ok_def
        split: option.splits if_splits)
  let ?used = "{p. range_contains r p \<and> B p = AddrInUse}"
  let ?free = "{p. range_contains r p} - ?used"
  have fin: "finite A" for A :: "u16 set" by (rule finite)
  have "card ?free = range_len r - card ?used"
    by (subst card_Diff_subset) (auto simp: card_range [OF r(1)])
  then have "2 \<le> card ?free" using assms(6,7) r(3) by linarith
  then have "\<not> card ?free \<le> Suc 0" by simp
  then obtain p q where free: "p \<in> ?free" "q \<in> ?free" "p \<noteq> q"
    unfolding card_le_Suc0_iff_eq [OF fin] by blast
  have "\<exists>pair al'. bind_pair B (ra_advertise_host args) al = Some (Inr pair, al')"
    using bind_pair_result [OF assms(3,2), of B] unfolding assms(4)
  proof (elim disjE exE conjE, goal_cases)
    case 2
    with free show ?case by blast
  next
    case (3 e q')
    with assms(5) show ?case by force
  next
    case (4 e q')
    with assms(5) show ?case by force
  qed blast
  with r show ?thesis by (auto simp: range_contains_def)
qed


definition sample_args :: relay_args where
  "sample_args =
    \<lparr>ra_secret_key = ''k'', ra_relays = [''r''], ra_bind_ip = ''0.0.0.0'', ra_advertise_host = ''1.2.3.4'',
     ra_disable_relay = False, ra_enable_nat_assist = True, ra_nat_assist_port = 3478, ra_lease_secs = 120,
     ra_relay_port_range_start = Some 4000, ra_relay_port_range_end = Some 4003,
     ra_publish_interval_secs = 30, ra_max_active_sessions = 2, ra_max_sessions_per_requester = 8,
     ra_max_bytes_per_session = 1000, ra_max_forward_bps = None, ra_price_hint_msats = None\<rparr>"

definition sample_bind :: "u16 \<Rightarrow> bind_result" where
  "sample_bind p = (if p = 4000 \<or> p = 4002 then AddrInUse else Bound (Some p))"

lemma bind_pair_terminates_witness:
  "\<exists>res al'. bind_pair sample_bind ''1.2.3.4'' (allocator_new \<lparr>pr_start = 4000, pr_end = 4003\<rparr>) = Some (res, al')
    \<and> allocator_ok al'"
proof -
  have ok: "allocator_ok (allocator_new \<lparr>pr_start = 4000, pr_end = 4003\<rparr>)"
    by (rule allocator_new_ok) (simp add: range_ok_def)
  have "parse_ip ''1.2.3.4'' = Some (V4 (v4_of_octets 1 2 3 4))" by code_simp
  from bind_pair_terminates [OF ok this, of sample_bind] show ?thesis by blast
qed

lemma accepted_range_suffices_witness:
  "\<exists>pair al'. bind_pair sample_bind (ra_advertise_host sample_args)
      (allocator_new \<lparr>pr_start = 4000, pr_end = 4003\<rparr>) = Some (Inr pair, al')"
proof -
  let ?r = "\<lparr>pr_start = 4000, pr_end = 4003\<rparr> :: port_range"
  have accepted: "relay_port_range sample_args = Inr (Some ?r)" by code_simp
  have host: "parse_ip (ra_advertise_host sample_args) = Some (V4 (v4_of_octets 1 2 3 4))" by code_simp
  have ok: "allocator_ok (allocator_new ?r)" "al_range (allocator_new ?r) = ?r"
    by (rule allocator_new_ok) (simp_all add: range_ok_def allocator_new_def)
  have binds: "\<forall>p. range_contains ?r p \<longrightarrow> sample_bind p = AddrInUse \<or> (\<exists>a. sample_bind p = Bound (Some a))"
    by (simp add: sample_bind_def)
  have "{p. range_contains ?r p \<and> sample_bind p = AddrInUse} = {4000, 4002}"
    by (auto simp: range_contains_def sample_bind_def)
  then have "card {p. range_contains ?r p \<and> sample_bind p = AddrInUse} \<le> 2 * 1" by simp
  moreover have "1 < ra_max_active_sessions sample_args" by (simp add: sample_args_def)
  ultimately show ?thesis
    using accepted_range_suffices [OF accepted host ok binds] by blast
qed

end
