(* ===== verification/Relay_Service_Safety.thy ===== *)
theory Relay_Service_Safety
  imports Relay_Service Port_Search Relay_Budget
begin

text \<open>
  What the UDP relay service promises: its limits hold whatever requests, packets and snapshots
  interleave, and a relayed session only connects the two addresses it has bound.
\<close>

section \<open>The limits on sessions\<close>

definition sessions_within :: "relay_service_limits \<Rightarrow> (string, relay_operator_session_state) hmap \<Rightarrow> bool" where
  "sessions_within limits m \<longleftrightarrow> hm_wf m \<and> length m \<le> rl_max_active_sessions limits
    \<and> (\<forall>r. sessions_of r m \<le> rl_max_sessions_per_requester limits)"

interpretation session_table: expiring_table live_session prune_sessions
  by unfold_locales (auto simp: prune_sessions_def live_session_def)

lemma prune_sessions_within: "sessions_within limits m \<Longrightarrow> sessions_within limits (prune_sessions now m)"
  unfolding sessions_within_def sessions_of_def
  by (meson order_trans session_table.prune_filter_length session_table.prune_length session_table.prune_wf)

lemma sessions_of_le: "sessions_of r m \<le> length m"
  by (simp add: sessions_of_def)

lemma length_hm_insert: "hm_wf m \<Longrightarrow> length (hm_insert k v m) = (if hm_contains m k then length m else Suc (length m))"
  unfolding hm_wf_def hm_contains_def hm_insert_def
  by (induction m) (auto split: if_splits)

lemma sessions_of_insert:
  "hm_wf m \<Longrightarrow> sessions_of r (hm_insert k v m)
    \<le> sessions_of r m + (if os_requester_pubkey v = r then 1 else 0)"
  unfolding hm_wf_def hm_insert_def sessions_of_def
  by (induction m) (auto split: if_splits)

lemma sessions_of_update:
  "hm_wf m \<Longrightarrow> hm_get m k = Some v \<Longrightarrow> os_requester_pubkey v' = os_requester_pubkey v \<Longrightarrow>
    sessions_of r (hm_insert k v' m) = sessions_of r m"
  unfolding hm_wf_def hm_insert_def sessions_of_def hm_get_def
  by (induction m) (auto split: if_splits dest: map_of_SomeD)

text \<open>What the limits allow, after the table was pruned once more.\<close>

lemma admitted_within:
  assumes "sessions_within limits m" "length m < rl_max_active_sessions limits"
    "sessions_of (os_requester_pubkey v) m < rl_max_sessions_per_requester limits"
  shows "sessions_within limits (hm_insert k v (prune_sessions now m))"
proof -
  let ?m = "prune_sessions now m"
  have wf: "hm_wf ?m" using assms(1) session_table.prune_wf by (auto simp: sessions_within_def)
  have len: "length ?m \<le> length m" by (rule session_table.prune_length)
  have of_le: "sessions_of r ?m \<le> sessions_of r m" for r
    unfolding sessions_of_def by (rule session_table.prune_filter_length)
  have "sessions_of r (hm_insert k v ?m) \<le> rl_max_sessions_per_requester limits" for r
    using sessions_of_insert [OF wf, of r k v] of_le [of r] assms(1,3) by (auto simp: sessions_within_def split: if_splits intro: order_trans)
  moreover have "length (hm_insert k v ?m) \<le> rl_max_active_sessions limits"
    using len assms(2) by (simp add: length_hm_insert [OF wf])
  ultimately show ?thesis by (simp add: sessions_within_def wf hm_wf_intros)
qed

definition service_inv :: "relay_args \<Rightarrow> relay_service \<Rightarrow> bool" where
  "service_inv args s \<longleftrightarrow>
    (\<forall>relay. sv_relay (rs_runtime s) = Some relay \<longrightarrow> sessions_within (relay_limits args) (rt_active_sessions relay))
    \<and> (\<forall>al. rs_allocator s = Some al \<longrightarrow> allocator_ok al)"

lemma check_limits_inv:
  assumes "service_inv args s" "check_limits (relay_limits args) sender now s = (rejection, s')"
  shows "service_inv args s' \<and> rs_allocator s' = rs_allocator s \<and> rs_live s' = rs_live s
    \<and> (\<forall>relay. sv_relay (rs_runtime s') = Some relay \<and> rejection = None \<longrightarrow>
        length (rt_active_sessions relay) < rl_max_active_sessions (relay_limits args)
        \<and> sessions_of sender (rt_active_sessions relay) < rl_max_sessions_per_requester (relay_limits args))"
  using assms
  by (auto simp: check_limits_def service_inv_def allocation_rejection_for_requester_def Let_def
      prune_expired_sessions_def prune_sessions_within split: option.splits if_splits)

lemma note_started_inv:
  assumes "service_inv args s" "os_requester_pubkey session = sender"
    and "\<forall>relay. sv_relay (rs_runtime s) = Some relay \<longrightarrow>
        length (rt_active_sessions relay) < rl_max_active_sessions (relay_limits args)
        \<and> sessions_of sender (rt_active_sessions relay) < rl_max_sessions_per_requester (relay_limits args)"
    and "\<forall>al. allocator = Some al \<longrightarrow> allocator_ok al"
  shows "service_inv args (s\<lparr>rs_allocator := allocator,
      rs_runtime := service_note_session_started now session (rs_runtime s), rs_live := live\<rparr>)"
  using assms
  by (auto simp: service_inv_def service_note_session_started_def note_session_started_def
      prune_expired_sessions_def Let_def admitted_within)

lemma bind_keeps_allocator_ok:
  assumes "\<forall>al. allocator = Some al \<longrightarrow> allocator_ok al"
    and "bind_relay_leg_pair env host allocator = Some (res, allocator')"
  shows "\<forall>al. allocator' = Some al \<longrightarrow> allocator_ok al"
proof (cases allocator)
  case (Some al)
  show ?thesis
  proof (cases "parse_ip host")
    case None
    with Some assms show ?thesis
      by (auto simp: bind_relay_leg_pair_def bind_pair_def split: if_splits)
  next
    case (Some ip)
    have "allocator_ok al" using assms(1) \<open>allocator = Some al\<close> by simp
    from bind_pair_result [OF this Some, of "be_bind env"] this \<open>allocator = Some al\<close> assms(2)
    show ?thesis
      by (auto simp: bind_relay_leg_pair_def allocator_ok_def next_after_range split: if_splits)
  qed
qed (use assms in \<open>auto simp: bind_relay_leg_pair_def\<close>)

lemma service_inv_allocator:
  "service_inv args s \<Longrightarrow> \<forall>al. allocator = Some al \<longrightarrow> allocator_ok al \<Longrightarrow>
    service_inv args (s\<lparr>rs_allocator := allocator\<rparr>)"
  by (simp add: service_inv_def)

lemma handle_allocation_inv:
  assumes "service_inv args s0" "handle_allocation_request args own env sender request s0 = Some (fl, out, s')"
  shows "service_inv args s'"
proof -
  obtain rejection s where check: "check_limits (relay_limits args) sender (qe_check_time env) s0 = (rejection, s)"
    by (metis surj_pair)
  note inv = check_limits_inv [OF assms(1) check]
  have al: "\<forall>al. rs_allocator s = Some al \<longrightarrow> allocator_ok al" using inv by (simp add: service_inv_def)
  show ?thesis
  proof (cases rejection)
    case (Some _)
    with assms(2) check inv show ?thesis by (auto simp: handle_allocation_request_def Let_def split: prod.splits)
  next
    case None
    obtain res allocator where bind: "bind_relay_leg_pair (qe_bind env) (ra_advertise_host args) (rs_allocator s)
        = Some (res, allocator)"
      using assms(2) check None by (auto simp: handle_allocation_request_def Let_def split: option.splits)
    note ok = bind_keeps_allocator_ok [OF al bind]
    show ?thesis
      using assms(2) check None bind inv ok
      by (cases res)
        (auto simp: handle_allocation_request_def Let_def split: if_splits
          intro!: service_inv_allocator note_started_inv [where sender = sender])
  qed
qed

lemma handle_probe_inv:
  assumes "service_inv args s0" "handle_probe_request args own env sender request s0 = Some (fl, out, s')"
  shows "service_inv args s'"
proof -
  obtain rejection s where check: "check_limits (relay_limits args) sender (qe_check_time env) s0 = (rejection, s)"
    by (metis surj_pair)
  note inv = check_limits_inv [OF assms(1) check]
  have al: "\<forall>al. rs_allocator s = Some al \<longrightarrow> allocator_ok al" using inv by (simp add: service_inv_def)
  show ?thesis
  proof (cases rejection)
    case (Some _)
    with assms(2) check inv show ?thesis by (auto simp: handle_probe_request_def Let_def split: prod.splits)
  next
    case None
    obtain res allocator where bind: "bind_relay_leg_pair (qe_bind env) (ra_advertise_host args) (rs_allocator s)
        = Some (res, allocator)"
      using assms(2) check None by (auto simp: handle_probe_request_def Let_def split: option.splits)
    note ok = bind_keeps_allocator_ok [OF al bind]
    show ?thesis
      using assms(2) check None bind inv ok
      by (cases res)
        (auto simp: handle_probe_request_def Let_def split: if_splits
          intro!: service_inv_allocator note_started_inv [where sender = sender])
  qed
qed

lemma sessions_within_forwarded:
  "sessions_within limits (rt_active_sessions relay) \<Longrightarrow>
    sessions_within limits (rt_active_sessions (note_forwarded_bytes k leg bytes relay))"
  by (auto simp: note_forwarded_bytes_def Let_def sessions_within_def hm_wf_intros length_hm_insert
      hm_contains_iff sessions_of_update split: option.split)

lemma service_inv_cong:
  "service_inv args s \<Longrightarrow> rs_allocator s' = rs_allocator s \<Longrightarrow>
    (\<And>relay'. sv_relay (rs_runtime s') = Some relay' \<Longrightarrow> \<exists>relay. sv_relay (rs_runtime s) = Some relay
      \<and> (sessions_within (relay_limits args) (rt_active_sessions relay)
          \<longrightarrow> sessions_within (relay_limits args) (rt_active_sessions relay'))) \<Longrightarrow>
    service_inv args s'"
  unfolding service_inv_def by metis

lemma leg_step_runtime:
  "rs_allocator (snd (relay_leg_step limits i now leg len src sent s)) = rs_allocator s \<and>
    (rs_runtime (snd (relay_leg_step limits i now leg len src sent s)) = rs_runtime s
     \<or> (\<exists>k bytes. rs_runtime (snd (relay_leg_step limits i now leg len src sent s))
          = service_note_forwarded_bytes k leg bytes (rs_runtime s)))"
  by (auto simp: relay_leg_step_def Let_def split: prod.splits option.splits)

lemma service_step_inv:
  assumes "service_inv args s"
  shows "service_inv args (service_step args own e s)"
proof (cases e)
  case (MessageEvent env message)
  with assms show ?thesis
    by (auto simp: handle_message_def split: option.split service_payload.splits
        dest: handle_allocation_inv handle_probe_inv)
next
  case (LegEvent i now leg len src sent)
  show ?thesis
    using leg_step_runtime [of "relay_limits args" i now leg len src sent s]
    by (intro service_inv_cong [OF assms])
      (auto simp: LegEvent service_note_forwarded_bytes_def sessions_within_forwarded)
next
  case (NatEvent datagram src)
  then show ?thesis
    by (intro service_inv_cong [OF assms])
      (auto simp: nat_assist_packet_def service_note_discovery_request_def service_note_punch_request_def
        split: option.splits probe_kind.splits)
next
  case (SnapshotEvent now)
  then show ?thesis
    by (intro service_inv_cong [OF assms])
      (auto simp: write_state_def service_snapshot_def relay_snapshot_def relay_sample_rate_def Let_def
        prune_expired_sessions_def prune_sessions_within split: prod.splits if_splits)
qed

interpretation service_run: stepped "service_step args own" "service_inv args" for args own
  by unfold_locales (rule service_step_inv)

lemma start_service_inv:
  assumes "start_service args file now own = Inr s"
  shows "service_inv args s"
proof -
  have empty: "sessions_within (relay_limits args) []"
    by (simp add: sessions_within_def sessions_of_def hm_wf_intros relay_limits_def)
  have "rt_active_sessions relay = []"
    if "sv_relay (load_runtime_state file now own re ne) = Some relay" for re ne relay
    using that by (auto simp: load_runtime_state_def fresh_relay_state_def relay_runtime_state_default_def
        relay_runtime_state_from_snapshot_def Let_def split: option.splits prod.splits if_splits)
  moreover have "range_ok r" if "relay_port_range args = Inr (Some r)" for r
    using that by (auto simp: relay_port_range_def relay_port_range_new_def range_ok_def split: option.splits if_splits)
  ultimately show ?thesis
    using assms empty by (auto simp: start_service_def service_inv_def allocator_new_ok
        split: if_splits option.splits sum.splits)
qed

text \<open>
  C17. However requests, probes, relayed packets, NAT probes and snapshots interleave, and whatever
  the clock does, the relay never books more sessions than its maximum, nor more for one requester
  than the maximum per requester; each request id is booked once; and the port allocator stays
  inside its range.
\<close>

theorem relay_limits_hold:
  fixes args :: relay_args and events :: "service_event list"
  assumes "start_service args file now own = Inr s0"
  defines "s \<equiv> fold (service_step args own) events s0"
  shows "(\<forall>relay. sv_relay (rs_runtime s) = Some relay \<longrightarrow>
      length (rt_active_sessions relay) \<le> max (ra_max_active_sessions args) 1
      \<and> (\<forall>requester. length (filter (\<lambda>(_, session). os_requester_pubkey session = requester) (rt_active_sessions relay))
          \<le> max (ra_max_sessions_per_requester args) 1)
      \<and> distinct (map fst (rt_active_sessions relay)))
    \<and> (\<forall>al. rs_allocator s = Some al \<longrightarrow> range_contains (al_range al) (al_next_port al))"
proof -
  have "service_inv args s"
    unfolding s_def by (rule service_run.run_inv [OF start_service_inv [OF assms(1)]])
  then show ?thesis
    by (simp add: service_inv_def sessions_within_def sessions_of_def hm_wf_def relay_limits_def allocator_ok_def)
qed

lemma relay_limits_hold_witness:
  "\<exists>s0. start_service sample_args None 5 ''own'' = Inr s0
    \<and> (\<forall>relay. sv_relay (rs_runtime (fold (service_step sample_args ''own'') [SnapshotEvent 9] s0)) = Some relay \<longrightarrow>
        length (rt_active_sessions relay) \<le> 2)"
proof -
  have "\<not> isl (start_service sample_args None 5 ''own'')" by code_simp
  then obtain s0 where s0: "start_service sample_args None 5 ''own'' = Inr s0"
    by (cases "start_service sample_args None 5 ''own''") simp_all
  have "max (ra_max_active_sessions sample_args) 1 = 2" by (simp add: sample_args_def)
  with relay_limits_hold [OF s0, where events = "[SnapshotEvent 9]"] s0 show ?thesis by fastforce
qed

section \<open>The legs of a session\<close>

text \<open>Where packets may go: between the two bound addresses only.\<close>

lemma leg_packet_bound:
  "leg_packet limits now leg len src st = (dest, st') \<Longrightarrow>
    (ss_requester st = Some a \<longrightarrow> ss_requester st' = Some a) \<and> (ss_target st = Some b \<longrightarrow> ss_target st' = Some b)
    \<and> (dest = Some d \<longrightarrow> (if leg then ss_requester st' = Some src \<and> ss_target st' = Some d
        else ss_target st' = Some src \<and> ss_requester st' = Some d))"
  by (auto simp: leg_packet_def Let_def split: sum.splits prod.splits option.splits if_splits)

text \<open>A packet on a leg: when, on which leg, how long and from where.\<close>

type_synonym leg_event = "nat \<times> bool \<times> u64 \<times> socket_addr"

definition leg_step :: "relay_service_limits \<Rightarrow> leg_event \<Rightarrow> session_state \<Rightarrow> session_state" where
  "leg_step limits e st = (case e of (now, leg, len, src) \<Rightarrow> snd (leg_packet limits now leg len src st))"

definition leg_dest :: "relay_service_limits \<Rightarrow> leg_event \<Rightarrow> session_state \<Rightarrow> socket_addr option" where
  "leg_dest limits e st = (case e of (now, leg, len, src) \<Rightarrow> fst (leg_packet limits now leg len src st))"

lemma leg_step_keeps:
  "(ss_requester st = Some a \<longrightarrow> ss_requester (leg_step limits e st) = Some a)
    \<and> (ss_target st = Some b \<longrightarrow> ss_target (leg_step limits e st) = Some b)"
  using leg_packet_bound [where dest = "leg_dest limits e st" and st' = "leg_step limits e st"]
  by (auto simp: leg_step_def leg_dest_def split: prod.splits)

lemma leg_run_keeps:
  "(ss_requester st = Some a \<longrightarrow> ss_requester (fold (leg_step limits) es st) = Some a)
    \<and> (ss_target st = Some b \<longrightarrow> ss_target (fold (leg_step limits) es st) = Some b)"
proof (induction es arbitrary: st)
  case (Cons e es)
  with leg_step_keeps [of st a limits e b] show ?case by auto
qed simp

text \<open>
  C18. A relayed session connects two addresses only: if a packet of a session is ever sent on to
  an address, then in whatever packets follow, any packet sent on travels between that address
  and the packet's source, in one direction or the other; the first accepted sender on a leg
  cannot be displaced.
\<close>

theorem session_connects_two_addresses:
  fixes limits :: relay_service_limits and es :: "leg_event list"
  assumes "leg_dest limits (now, leg, len, src) st = Some dest"
    and "leg_dest limits (now', leg', len', src') (fold (leg_step limits) es (leg_step limits (now, leg, len, src) st)) = Some dest'"
  shows "(src', dest') = (if leg' = leg then (src, dest) else (dest, src))"
proof -
  let ?s1 = "leg_step limits (now, leg, len, src) st"
  let ?s2 = "fold (leg_step limits) es ?s1"
  let ?s3 = "leg_step limits (now', leg', len', src') ?s2"
  have b1: "if leg then ss_requester ?s1 = Some src \<and> ss_target ?s1 = Some dest
      else ss_target ?s1 = Some src \<and> ss_requester ?s1 = Some dest"
    using leg_packet_bound [where dest = "Some dest" and d = dest] assms(1)
    by (auto simp: leg_dest_def leg_step_def prod_eq_iff)
  have b3: "if leg' then ss_requester ?s3 = Some src' \<and> ss_target ?s3 = Some dest'
      else ss_target ?s3 = Some src' \<and> ss_requester ?s3 = Some dest'"
    using leg_packet_bound [where dest = "Some dest'" and d = dest'] assms(2)
    by (auto simp: leg_dest_def leg_step_def prod_eq_iff)
  have "ss_requester ?s1 = Some a \<Longrightarrow> ss_requester ?s3 = Some a" "ss_target ?s1 = Some b \<Longrightarrow> ss_target ?s3 = Some b" for a b
    using leg_run_keeps [of ?s1 a limits es b] leg_step_keeps [of ?s2 a limits _ b] by blast+
  with b1 b3 show ?thesis by (cases leg; cases leg') auto
qed

text \<open>
  The byte budget of a session is charged before the source of a packet is looked at: a packet
  from a stranger is never sent on, and leaves the budget exactly as a packet of the bound sender
  of the same length would, so a stranger who knows the port can use up the budget and close the
  session.
\<close>

theorem stranger_is_charged:
  assumes "ss_requester st = Some bound" and "src \<noteq> bound"
  shows "fst (leg_packet limits now True len src st) = None
    \<and> snd (leg_packet limits now True len src st) = snd (leg_packet limits now True len bound st)
    \<and> (fst (allow_forward limits now len (ss_forwarding st)) = Inr () \<longrightarrow>
        sf_total_forwarded_bytes (ss_forwarding (snd (leg_packet limits now True len src st)))
          = saturating_add (sf_total_forwarded_bytes (ss_forwarding st)) len)"
  using assms allow_forward_charge [of limits now len "ss_forwarding st"]
  by (auto simp: leg_packet_def Let_def split: sum.splits prod.splits)

definition sample_leg_state :: session_state where
  "sample_leg_state = session_state_default\<lparr>ss_requester := Some (SockV4 1 2), ss_target := Some (SockV4 3 4)\<rparr>"

lemma session_connects_two_addresses_witness:
  "leg_dest (relay_limits sample_args) (0, True, 10, SockV4 1 2) sample_leg_state = Some (SockV4 3 4)
    \<and> (SockV4 3 4, SockV4 1 2) = (if False = True then (SockV4 1 2, SockV4 3 4) else (SockV4 3 4, SockV4 1 2))"
proof -
  let ?L = "relay_limits sample_args"
  have 1: "leg_dest ?L (0, True, 10, SockV4 1 2) sample_leg_state = Some (SockV4 3 4)" by code_simp
  have 2: "leg_dest ?L (1, False, 10, SockV4 3 4)
      (fold (leg_step ?L) [] (leg_step ?L (0, True, 10, SockV4 1 2) sample_leg_state)) = Some (SockV4 1 2)" by code_simp
  from session_connects_two_addresses [OF 1 2] 1 show ?thesis by (rule conjI [rotated])
qed

lemma stranger_is_charged_witness:
  "fst (leg_packet (relay_limits sample_args) 0 True 1000 (SockV4 9 9) sample_leg_state) = None
    \<and> sf_total_forwarded_bytes (ss_forwarding
        (snd (leg_packet (relay_limits sample_args) 0 True 1000 (SockV4 9 9) sample_leg_state))) = 1000"
proof -
  have bound: "ss_requester sample_leg_state = Some (SockV4 1 2)" by (simp add: sample_leg_state_def)
  have "SockV4 9 9 \<noteq> SockV4 1 (2 :: u16)" by simp
  note charged = stranger_is_charged [OF bound this, of "relay_limits sample_args" 0 1000]
  moreover have "fst (allow_forward (relay_limits sample_args) 0 1000 (ss_forwarding sample_leg_state)) = Inr ()" by code_simp
  moreover have "saturating_add (sf_total_forwarded_bytes (ss_forwarding sample_leg_state)) 1000 = 1000" by code_simp
  ultimately show ?thesis by metis
qed

section \<open>Request ids used twice\<close>

text \<open>The environment of a request whose ports are chosen by the system and whose grant goes out.\<close>

definition easy_env :: "u64 \<Rightarrow> nat \<Rightarrow> u16 \<Rightarrow> u16 \<Rightarrow> request_env" where
  "easy_env t i a b =
    \<lparr>qe_check_time = t, qe_start_time = t, qe_note_time = t, qe_start_instant = i,
     qe_bind = \<lparr>be_bind = (\<lambda>_. BindFailed), be_any1 = Bound (Some a), be_any2 = Bound (Some b), be_poisoned = False\<rparr>,
     qe_publish_ok = True\<rparr>"

definition one_booked :: "nat \<Rightarrow> string \<Rightarrow> nat \<Rightarrow> relay_service \<Rightarrow> bool" where
  "one_booked i k n s \<longleftrightarrow> rs_allocator s = None \<and> length (rs_live s) = n
    \<and> (\<forall>live \<in> set (rs_live s). i < lr_expires_at live)
    \<and> (\<exists>relay. sv_relay (rs_runtime s) = Some relay
      \<and> (rt_active_sessions relay = [] \<or> (\<exists>v. rt_active_sessions relay = [(k, v)])))"

lemma duplicate_step:
  assumes "one_booked i (rq_request_id request) n s" "parse_ip (ra_advertise_host args) = Some ip"
    "2 \<le> ra_max_active_sessions args" "2 \<le> ra_max_sessions_per_requester args"
  shows "one_booked i (rq_request_id request) (Suc n) (service_step args own
    (MessageEvent (easy_env t i a b) \<lparr>sx_sender_pubkey = sender, sx_payload = RelayAllocationRequest request\<rparr>) s)"
proof -
  obtain relay where relay: "sv_relay (rs_runtime s) = Some relay" "rs_allocator s = None" "length (rs_live s) = n"
    "\<forall>live \<in> set (rs_live s). i < lr_expires_at live"
    "rt_active_sessions relay = [] \<or> (\<exists>v. rt_active_sessions relay = [(rq_request_id request, v)])"
    using assms(1) by (auto simp: one_booked_def)
  let ?m = "prune_sessions t (rt_active_sessions relay)"
  have m: "?m = [] \<or> (\<exists>v. ?m = [(rq_request_id request, v)])"
    using relay(5) by (auto simp: prune_sessions_def hm_retain_def)
  then have "length ?m \<le> 1" "sessions_of sender ?m \<le> 1"
    using sessions_of_le [of sender ?m] by auto
  then have check: "check_limits (relay_limits args) sender t s
    = (None, s\<lparr>rs_runtime := (rs_runtime s)\<lparr>sv_relay := Some (relay\<lparr>rt_active_sessions := ?m\<rparr>)\<rparr>\<rparr>)"
    using assms(3,4) relay(1)
    by (simp add: check_limits_def allocation_rejection_for_requester_def prune_expired_sessions_def relay_limits_def)
  have "prune_sessions t ?m = ?m" by (rule session_table.prune_idem)
  moreover have "(30 :: u64) \<le> max (ra_lease_secs args) 30" by simp
  then have "0 < unat (max (ra_lease_secs args) 30)" by (simp add: word_le_nat_alt)
  ultimately show ?thesis using m check relay assms(2)
    by (auto simp: handle_message_def handle_allocation_request_def easy_env_def bind_relay_leg_pair_def
        bind_any_pair_def one_booked_def service_note_session_started_def note_session_started_def
        prune_expired_sessions_def hm_insert_def Let_def)
qed

text \<open>
  C19. The session limits count request ids, not sessions: a sender who repeats one request id gets
  a new pair of ports for every repetition, all of them running at once, while the relay has only
  one session booked for it, so the limits on sessions do not bound the sockets and tasks it can
  cause.
\<close>

theorem repeated_request_id_unbounded:
  fixes t :: u64 and i n :: nat and a b :: u16 and sender own :: string
    and request :: relay_allocation_request and args :: relay_args and s0 :: relay_service
  assumes "parse_ip (ra_advertise_host args) = Some ip"
    and "2 \<le> ra_max_active_sessions args" "2 \<le> ra_max_sessions_per_requester args"
    and "rs_allocator s0 = None" "rs_live s0 = []" "sv_relay (rs_runtime s0) = Some relay" "rt_active_sessions relay = []"
  defines "request_event \<equiv> MessageEvent (easy_env t i a b)
    \<lparr>sx_sender_pubkey = sender, sx_payload = RelayAllocationRequest request\<rparr>"
  defines "s \<equiv> fold (service_step args own) (replicate n request_event) s0"
  shows "length (filter (\<lambda>live. i < lr_expires_at live) (rs_live s)) = n
    \<and> (\<exists>relay'. sv_relay (rs_runtime s) = Some relay' \<and> length (rt_active_sessions relay') \<le> 1)"
proof -
  have "one_booked i (rq_request_id request) (m + n) (fold (service_step args own) (replicate n request_event) s)"
    if "one_booked i (rq_request_id request) m s" for m s
    using that
  proof (induction n arbitrary: m s)
    case (Suc n)
    from Suc.IH [OF duplicate_step [OF Suc.prems assms(1-3)]] show ?case by (simp add: request_event_def)
  qed simp
  moreover have "one_booked i (rq_request_id request) 0 s0" using assms(4-7) by (simp add: one_booked_def)
  ultimately have "one_booked i (rq_request_id request) (0 + n) s" unfolding s_def by blast
  then show ?thesis by (auto simp: one_booked_def filter_id_conv)
qed

lemma repeated_request_id_unbounded_witness:
  "length (filter (\<lambda>live. 0 < lr_expires_at live) (rs_live (fold (service_step sample_args ''own'')
      (replicate 5 (MessageEvent (easy_env 7 0 4000 4001) \<lparr>sx_sender_pubkey = ''aa'', sx_payload = RelayAllocationRequest
        \<lparr>rq_request_id = ''r'', rq_network_id = ''n'', rq_target_pubkey = ''bb'', rq_requested_at = 7\<rparr>\<rparr>))
      \<lparr>rs_runtime = \<lparr>sv_operator_pubkey = ''own'', sv_relay = Some (fresh_relay_state ''own'' 5 ''e''), sv_nat_assist = None\<rparr>,
       rs_allocator = None, rs_live = []\<rparr>))) = 5"
proof -
  have "parse_ip (ra_advertise_host sample_args) = Some (V4 (v4_of_octets 1 2 3 4))" by code_simp
  then show ?thesis
    by (rule repeated_request_id_unbounded [where relay = "fresh_relay_state ''own'' 5 ''e''", THEN conjunct1])
      (simp_all add: sample_args_def fresh_relay_state_def relay_runtime_state_default_def)
qed

end
