(* ===== verification/Userspace_Wg.thy ===== *)
theory Userspace_Wg
  imports Wg_Status Routes
begin

text \<open>
  \<open>crates/nostr-vpn-core/src/crypto.rs\<close>, \<open>wireguard.rs\<close> and \<open>crates/nostr-vpn-cli/src/userspace_wg.rs\<close>:
  WireGuard in the process itself, as Windows uses it. The state of one tunnel and what it makes of
  packets are the WireGuard library's, a record of functions; base64 and the key exchange are arguments.
\<close>

section \<open>Keys and the textual configuration\<close>

datatype crypto_error = InvalidEncoding | InvalidLength | UnexpectedHandshakeResult

definition decode_key :: "(string \<Rightarrow> string option) \<Rightarrow> string \<Rightarrow> crypto_error + string" where
  "decode_key b64 encoded =
    (case b64 encoded of
       None \<Rightarrow> Inl InvalidEncoding
     | Some raw \<Rightarrow> if length raw \<noteq> 32 then Inl InvalidLength else Inr raw)"

text \<open>The two decoders do the same, for the key types of the library.\<close>

definition decode_private_key :: "(string \<Rightarrow> string option) \<Rightarrow> string \<Rightarrow> crypto_error + string" where
  "decode_private_key = decode_key"

definition decode_public_key :: "(string \<Rightarrow> string option) \<Rightarrow> string \<Rightarrow> crypto_error + string" where
  "decode_public_key = decode_key"

record wg_interface_config =
  wi_private_key :: string
  wi_address :: string
  wi_listen_port :: u16

record wg_peer_section =
  ws_public_key :: string
  ws_allowed_ips :: string
  ws_endpoint :: string
  ws_persistent_keepalive :: u16

definition line_end :: string where "line_end = [CHR 0x0A]"

definition render_peer_section :: "wg_peer_section \<Rightarrow> string" where
  "render_peer_section peer =
    line_end @ ''[Peer]'' @ line_end @ ''PublicKey = '' @ ws_public_key peer @ line_end
    @ ''AllowedIPs = '' @ ws_allowed_ips peer @ line_end @ ''Endpoint = '' @ ws_endpoint peer @ line_end
    @ ''PersistentKeepalive = '' @ dec (unat (ws_persistent_keepalive peer)) @ line_end"

definition render_wireguard_config :: "wg_interface_config \<Rightarrow> wg_peer_section list \<Rightarrow> string" where
  "render_wireguard_config interface peers =
    ''[Interface]'' @ line_end @ ''PrivateKey = '' @ wi_private_key interface @ line_end
    @ ''Address = '' @ wi_address interface @ line_end
    @ ''ListenPort = '' @ dec (unat (wi_listen_port interface)) @ line_end
    @ concat (map render_peer_section peers)"

section \<open>The WireGuard library\<close>

datatype wg_error =
    WrongKey | WrongIndex | InvalidMac | InvalidAeadTag | UnexpectedPacket | WrongPacketType
  | NoCurrentSession | InvalidPacket | InvalidCounter | DuplicateCounter | OtherWgError string

datatype tunn_result =
    TunnDone
  | TunnErr wg_error
  | WriteToNetwork string
  | WriteToTunnelV4 string
  | WriteToTunnelV6 string

text \<open>A tunnel is made from the own private and the peer's public key and an index.\<close>

record 't tunn_lib =
  tl_new :: "string \<Rightarrow> string \<Rightarrow> u32 \<Rightarrow> 't"
  tl_encapsulate :: "string \<Rightarrow> 't \<Rightarrow> tunn_result \<times> 't"
  tl_decapsulate :: "ip_addr option \<Rightarrow> string \<Rightarrow> 't \<Rightarrow> tunn_result \<times> 't"
  tl_initiate :: "'t \<Rightarrow> tunn_result \<times> 't"
  tl_timers :: "'t \<Rightarrow> tunn_result \<times> 't"
  tl_stats :: "'t \<Rightarrow> nat option \<times> nat \<times> nat"
  tl_dst_address :: "string \<Rightarrow> ip_addr option"

text \<open>The handshake of two fresh tunnels, as the lengths of its three messages.\<close>

definition written :: "tunn_result \<times> 't \<Rightarrow> (string \<times> 't) option" where
  "written r = (case r of (WriteToNetwork packet, t) \<Rightarrow> Some (packet, t) | _ \<Rightarrow> None)"

definition simulate_boringtun_handshake ::
  "'t tunn_lib \<Rightarrow> (string \<Rightarrow> string option) \<Rightarrow> (string \<Rightarrow> string) \<Rightarrow> string \<Rightarrow> string
    \<Rightarrow> crypto_error + nat \<times> nat \<times> nat" where
  "simulate_boringtun_handshake L b64 public_of initiator_private_key responder_private_key =
    (case decode_private_key b64 initiator_private_key of Inl e \<Rightarrow> Inl e | Inr a \<Rightarrow>
    (case decode_private_key b64 responder_private_key of Inl e \<Rightarrow> Inl e | Inr b \<Rightarrow>
      (let initiator = tl_new L a (public_of b) 1; responder = tl_new L b (public_of a) 2
       in (case written (tl_initiate L initiator) of None \<Rightarrow> Inl UnexpectedHandshakeResult
           | Some (initiation, initiator) \<Rightarrow>
          (case written (tl_decapsulate L None initiation responder) of None \<Rightarrow> Inl UnexpectedHandshakeResult
           | Some (response, responder) \<Rightarrow>
          (case written (tl_decapsulate L None response initiator) of None \<Rightarrow> Inl UnexpectedHandshakeResult
           | Some (keepalive, initiator) \<Rightarrow>
          (case fst (tl_decapsulate L None keepalive responder) of
             TunnErr _ \<Rightarrow> Inl UnexpectedHandshakeResult
           | WriteToTunnelV4 _ \<Rightarrow> Inl UnexpectedHandshakeResult
           | WriteToTunnelV6 _ \<Rightarrow> Inl UnexpectedHandshakeResult
           | _ \<Rightarrow> Inr (length initiation, length response, length keepalive))))))))"

section \<open>Routes\<close>

record v4_route =
  vr_network :: ipv4_addr
  vr_prefix_len :: nat

definition prefix_mask :: "nat \<Rightarrow> u32" where
  "prefix_mask prefix_len = (if prefix_len = 0 then 0 else push_bit (32 - prefix_len) (- 1))"

definition v4_route_parse :: "string \<Rightarrow> v4_route option" where
  "v4_route_parse value =
    (case split_once (CHR ''/'') (trim value) of
       None \<Rightarrow> None
     | Some (addr, bits) \<Rightarrow>
         (case parse_u8 bits of
            None \<Rightarrow> None
          | Some prefix_len \<Rightarrow>
              if 32 < prefix_len then None
              else (case parse_ipv4 addr of
                  None \<Rightarrow> None
                | Some ip \<Rightarrow> Some \<lparr>vr_network = and ip (prefix_mask prefix_len), vr_prefix_len = prefix_len\<rparr>)))"

definition v4_route_matches :: "v4_route \<Rightarrow> ipv4_addr \<Rightarrow> bool" where
  "v4_route_matches route ip \<longleftrightarrow> and ip (prefix_mask (vr_prefix_len route)) = vr_network route"

section \<open>The runtime\<close>

record 't wg_peer =
  uw_participant_pubkey :: string
  uw_endpoint :: socket_addr
  uw_tunnel :: 't
  uw_routes :: "v4_route list"

record wg_peer_config =
  uc_participant_pubkey :: string
  uc_public_key_base64 :: string
  uc_endpoint :: socket_addr
  uc_allowed_ips :: "string list"

record outgoing_datagram =
  og_participant_pubkey :: string
  og_endpoint :: socket_addr
  og_payload :: string

record processing_result =
  pr_outgoing :: "outgoing_datagram list"
  pr_tunnel_packets :: "string list"

definition nothing_processed :: processing_result where
  "nothing_processed = \<lparr>pr_outgoing = [], pr_tunnel_packets = []\<rparr>"

definition extend_result :: "processing_result \<Rightarrow> processing_result \<Rightarrow> processing_result" where
  "extend_result a b = \<lparr>pr_outgoing = pr_outgoing a @ pr_outgoing b,
     pr_tunnel_packets = pr_tunnel_packets a @ pr_tunnel_packets b\<rparr>"

record peer_runtime_status =
  ps_participant_pubkey :: string
  ps_endpoint :: socket_addr
  ps_last_handshake_age :: "nat option"
  ps_tx_bytes :: u64
  ps_rx_bytes :: u64

text \<open>The peers with their keys decoded, or the first key that cannot be.\<close>

fun build_peers ::
  "'t tunn_lib \<Rightarrow> (string \<Rightarrow> string option) \<Rightarrow> string \<Rightarrow> nat \<Rightarrow> wg_peer_config list \<Rightarrow> crypto_error + 't wg_peer list" where
  "build_peers L b64 private_key index [] = Inr []"
| "build_peers L b64 private_key index (peer # peers) =
    (case decode_public_key b64 (uc_public_key_base64 peer) of
       Inl error \<Rightarrow> Inl error
     | Inr public_key \<Rightarrow>
         (case build_peers L b64 private_key (index + 1) peers of
            Inl error \<Rightarrow> Inl error
          | Inr rest \<Rightarrow> Inr (\<lparr>uw_participant_pubkey = uc_participant_pubkey peer, uw_endpoint = uc_endpoint peer,
              uw_tunnel = tl_new L private_key public_key (saturating_add (of_nat index) 1),
              uw_routes = List.map_filter v4_route_parse (uc_allowed_ips peer)\<rparr> # rest)))"

definition userspace_runtime_new ::
  "'t tunn_lib \<Rightarrow> (string \<Rightarrow> string option) \<Rightarrow> string \<Rightarrow> wg_peer_config list \<Rightarrow> crypto_error + 't wg_peer list" where
  "userspace_runtime_new L b64 private_key_base64 peers =
    (case decode_private_key b64 private_key_base64 of
       Inl error \<Rightarrow> Inl error | Inr private_key \<Rightarrow> build_peers L b64 private_key 0 peers)"

fun matches_nonmatching_peer :: "tunn_result \<Rightarrow> bool" where
  "matches_nonmatching_peer (TunnErr (OtherWgError _)) = False"
| "matches_nonmatching_peer (TunnErr _) = True"
| "matches_nonmatching_peer _ = False"

fun process_tunn_result :: "string \<Rightarrow> socket_addr \<Rightarrow> tunn_result \<Rightarrow> processing_result" where
  "process_tunn_result participant_pubkey endpoint (WriteToNetwork packet) =
    \<lparr>pr_outgoing = [\<lparr>og_participant_pubkey = participant_pubkey, og_endpoint = endpoint, og_payload = packet\<rparr>],
     pr_tunnel_packets = []\<rparr>"
| "process_tunn_result participant_pubkey endpoint (WriteToTunnelV4 packet) =
    \<lparr>pr_outgoing = [], pr_tunnel_packets = [packet]\<rparr>"
| "process_tunn_result participant_pubkey endpoint (WriteToTunnelV6 packet) =
    \<lparr>pr_outgoing = [], pr_tunnel_packets = [packet]\<rparr>"
| "process_tunn_result participant_pubkey endpoint _ = nothing_processed"

text \<open>One call of the library on a peer's tunnel, and what it leaves.\<close>

definition peer_call :: "('t \<Rightarrow> tunn_result \<times> 't) \<Rightarrow> 't wg_peer \<Rightarrow> processing_result \<times> 't wg_peer" where
  "peer_call f peer =
    (case f (uw_tunnel peer) of (result, tunnel) \<Rightarrow>
       (process_tunn_result (uw_participant_pubkey peer) (uw_endpoint peer) result, peer\<lparr>uw_tunnel := tunnel\<rparr>))"

text \<open>An empty datagram asks the library for its queued packets, until it has none.\<close>

partial_function (option) flush_queued ::
  "'t tunn_lib \<Rightarrow> processing_result \<Rightarrow> 't wg_peer \<Rightarrow> (processing_result \<times> 't wg_peer) option" where
  "flush_queued L processed peer =
    (case peer_call (tl_decapsulate L None []) peer of (next_result, peer) \<Rightarrow>
       if pr_outgoing next_result = [] \<and> pr_tunnel_packets next_result = [] then Some (processed, peer)
       else flush_queued L (extend_result processed next_result) peer)"

declare flush_queued.simps [code]

definition select_peer_for_packet :: "'t tunn_lib \<Rightarrow> 't wg_peer list \<Rightarrow> string \<Rightarrow> nat option" where
  "select_peer_for_packet L peers packet =
    (case tl_dst_address L packet of
       Some (V4 destination) \<Rightarrow>
         map_option fst (max_by_key snd (concat (map (\<lambda>(index, peer).
           map (\<lambda>route. (index, vr_prefix_len route))
             (filter (\<lambda>route. v4_route_matches route destination) (uw_routes peer))) (enumerate 0 peers))))
     | _ \<Rightarrow> None)"

text \<open>A packet of the host for the tunnel: the datagrams to send and the peers after it.\<close>

definition queue_tunnel_packet ::
  "'t tunn_lib \<Rightarrow> string \<Rightarrow> 't wg_peer list \<Rightarrow> (outgoing_datagram list \<times> 't wg_peer list) option" where
  "queue_tunnel_packet L packet peers =
    (case select_peer_for_packet L peers packet of
       None \<Rightarrow> Some ([], peers)
     | Some i \<Rightarrow>
         (case peer_call (tl_encapsulate L packet) (peers ! i) of (processed, peer) \<Rightarrow>
           (case flush_queued L nothing_processed peer of
              None \<Rightarrow> None
            | Some (flushed, peer) \<Rightarrow> Some (pr_outgoing processed @ pr_outgoing flushed, peers[i := peer]))))"

text \<open>
  A datagram offered to one peer. A peer that rejects it is marked by an outgoing datagram without
  participant and payload; then the next candidate is tried.
\<close>

definition offer_datagram ::
  "'t tunn_lib \<Rightarrow> socket_addr \<Rightarrow> string \<Rightarrow> 't wg_peer \<Rightarrow> processing_result \<times> 't wg_peer" where
  "offer_datagram L source datagram peer =
    (case tl_decapsulate L (Some (sock_ip source)) datagram (uw_tunnel peer) of (result, tunnel) \<Rightarrow>
       (if matches_nonmatching_peer result
        then \<lparr>pr_outgoing = [\<lparr>og_participant_pubkey = [], og_endpoint = uw_endpoint peer, og_payload = []\<rparr>],
              pr_tunnel_packets = []\<rparr>
        else process_tunn_result (uw_participant_pubkey peer) (uw_endpoint peer) result,
        peer\<lparr>uw_tunnel := tunnel\<rparr>))"

definition marks_rejection :: "processing_result \<Rightarrow> bool" where
  "marks_rejection processed =
    (case pr_outgoing processed of
       [datagram] \<Rightarrow> og_participant_pubkey datagram = [] \<and> og_payload datagram = [] | _ \<Rightarrow> False)"

fun try_candidates ::
  "'t tunn_lib \<Rightarrow> socket_addr \<Rightarrow> string \<Rightarrow> nat list \<Rightarrow> 't wg_peer list \<Rightarrow> (processing_result \<times> 't wg_peer list) option" where
  "try_candidates L source datagram [] peers = Some (nothing_processed, peers)"
| "try_candidates L source datagram (i # candidates) peers =
    (case offer_datagram L source datagram (peers ! i) of (processed, peer) \<Rightarrow>
       if marks_rejection processed then try_candidates L source datagram candidates (peers[i := peer])
       else (case flush_queued L nothing_processed (peer\<lparr>uw_endpoint := source\<rparr>) of
           None \<Rightarrow> None
         | Some (flushed, peer) \<Rightarrow>
             Some (extend_result (processed\<lparr>pr_outgoing := map (\<lambda>o'. o'\<lparr>og_endpoint := source\<rparr>) (pr_outgoing processed)\<rparr>)
               flushed, peers[i := peer])))"

definition datagram_candidates :: "socket_addr \<Rightarrow> 't wg_peer list \<Rightarrow> nat list" where
  "datagram_candidates source peers =
    map fst (filter (\<lambda>(_, peer). uw_endpoint peer = source) (enumerate 0 peers))
    @ map fst (filter (\<lambda>(_, peer). uw_endpoint peer \<noteq> source) (enumerate 0 peers))"

definition receive_datagram ::
  "'t tunn_lib \<Rightarrow> socket_addr \<Rightarrow> string \<Rightarrow> 't wg_peer list \<Rightarrow> (processing_result \<times> 't wg_peer list) option" where
  "receive_datagram L source datagram peers =
    try_candidates L source datagram (datagram_candidates source peers) peers"

definition initiate_handshakes ::
  "'t tunn_lib \<Rightarrow> 't wg_peer list \<Rightarrow> outgoing_datagram list \<times> 't wg_peer list" where
  "initiate_handshakes L peers =
    (let results = map (peer_call (tl_initiate L)) peers
     in (concat (map (pr_outgoing \<circ> fst) results), map snd results))"

fun tick_timers ::
  "'t tunn_lib \<Rightarrow> 't wg_peer list \<Rightarrow> (processing_result \<times> 't wg_peer list) option" where
  "tick_timers L [] = Some (nothing_processed, [])"
| "tick_timers L (peer # peers) =
    (case peer_call (tl_timers L) peer of (processed, peer) \<Rightarrow>
      (case flush_queued L nothing_processed peer of
         None \<Rightarrow> None
       | Some (flushed, peer) \<Rightarrow>
           (case tick_timers L peers of
              None \<Rightarrow> None
            | Some (rest, peers) \<Rightarrow> Some (extend_result (extend_result processed flushed) rest, peer # peers))))"

definition peer_statuses :: "'t tunn_lib \<Rightarrow> 't wg_peer list \<Rightarrow> peer_runtime_status list" where
  "peer_statuses L peers = map (\<lambda>peer. case tl_stats L (uw_tunnel peer) of (age, tx, rx) \<Rightarrow>
      \<lparr>ps_participant_pubkey = uw_participant_pubkey peer, ps_endpoint = uw_endpoint peer,
       ps_last_handshake_age = age, ps_tx_bytes = of_nat tx, ps_rx_bytes = of_nat rx\<rparr>) peers"

text \<open>The status as the daemon reads it, with the handshake's age where a time is expected.\<close>

definition windows_peer_status :: "'t tunn_lib \<Rightarrow> 't wg_peer list \<Rightarrow> (string, wg_peer_status) hmap" where
  "windows_peer_status L peers = fold (\<lambda>status m. hm_insert (ps_participant_pubkey status)
      \<lparr>wp_endpoint = Some (print_socket_addr (ps_endpoint status)),
       wp_last_handshake_sec = map_option (\<lambda>age. of_nat (age div 1000000000)) (ps_last_handshake_age status),
       wp_last_handshake_nsec = map_option (\<lambda>age. of_nat (age mod 1000000000)) (ps_last_handshake_age status),
       wp_tx_bytes = ps_tx_bytes status, wp_rx_bytes = ps_rx_bytes status\<rparr> m) (peer_statuses L peers) []"

end
