(* ===== verification/Userspace_Wg_Safety.thy ===== *)
theory Userspace_Wg_Safety
  imports Userspace_Wg
begin

text \<open>
  The routing of packets to peers by longest prefix, which endpoints a datagram can move, and that
  the loops over a tunnel's queued packets end. Two lemmas show what the code leaves unchecked.
\<close>

section \<open>Prefixes\<close>

lemma bit_prefix_mask: "k \<le> 32 \<Longrightarrow> bit (prefix_mask k) i \<longleftrightarrow> 32 - k \<le> i \<and> i < 32"
  by (auto simp: prefix_mask_def bit_simps)

lemma v4_route_matches_prefix:
  assumes "v4_route_parse s = Some route"
  obtains addr where "vr_prefix_len route \<le> 32"
    and "\<And>ip. v4_route_matches route ip \<longleftrightarrow>
      (\<forall>i < 32. 32 - vr_prefix_len route \<le> i \<longrightarrow> bit ip i = bit (addr :: ipv4_addr) i)"
proof -
  from assms obtain addr bits where route: "route = \<lparr>vr_network = and addr (prefix_mask bits), vr_prefix_len = bits\<rparr>"
      and k: "bits \<le> 32"
    by (auto simp: v4_route_parse_def split: option.splits prod.splits if_splits)
  have "v4_route_matches route ip \<longleftrightarrow> (\<forall>i < 32. 32 - bits \<le> i \<longrightarrow> bit ip i = bit addr i)" for ip
    by (auto simp: v4_route_matches_def route bit_eq_iff bit_simps bit_prefix_mask [OF k])
  with route k that show ?thesis by simp
qed

section \<open>The choice of a peer\<close>

definition routes_to :: "'t wg_peer list \<Rightarrow> ipv4_addr \<Rightarrow> (nat \<times> nat) set" where
  "routes_to peers ip = {(i, vr_prefix_len route) | i route.
    i < length peers \<and> route \<in> set (uw_routes (peers ! i)) \<and> v4_route_matches route ip}"

definition routes_for :: "ipv4_addr \<Rightarrow> 't wg_peer list \<Rightarrow> (nat \<times> nat) list" where
  "routes_for ip peers = concat (map (\<lambda>(index, peer). map (\<lambda>route. (index, vr_prefix_len route))
      (filter (\<lambda>route. v4_route_matches route ip) (uw_routes peer))) (enumerate 0 peers))"

lemma enumerate_index: "enumerate 0 xs = map (\<lambda>i. (i, xs ! i)) [0..<length xs]"
  by (rule nth_equalityI) (simp_all add: nth_enumerate_eq)

lemma set_routes_for: "set (routes_for ip peers) = routes_to peers ip"
proof -
  have "routes_for ip peers = concat (map (\<lambda>i. map (\<lambda>route. (i, vr_prefix_len route))
      (filter (\<lambda>route. v4_route_matches route ip) (uw_routes (peers ! i)))) [0..<length peers])"
    unfolding routes_for_def enumerate_index map_map by (simp add: comp_def)
  then show ?thesis by (auto simp: routes_to_def)
qed

lemma select_peer_routes:
  "select_peer_for_packet L peers packet =
    (case tl_dst_address L packet of
       Some (V4 ip) \<Rightarrow> map_option fst (max_by_key snd (routes_for ip peers))
     | _ \<Rightarrow> None)"
  unfolding select_peer_for_packet_def routes_for_def by (rule refl)

lemma select_peer_Some:
  assumes "select_peer_for_packet L peers packet = Some i"
  obtains ip k where "tl_dst_address L packet = Some (V4 ip)" "(i, k) \<in> routes_to peers ip"
    "\<And>j k'. (j, k') \<in> routes_to peers ip \<Longrightarrow> k' \<le> k"
proof -
  from assms obtain ip k where ip: "tl_dst_address L packet = Some (V4 ip)"
    and best: "max_by_key snd (routes_for ip peers) = Some (i, k)"
    by (auto simp: select_peer_routes split: option.splits ip_addr.splits)
  from max_by_key_Some [OF best] have "(i, k) \<in> routes_to peers ip"
    and "\<And>x. x \<in> routes_to peers ip \<Longrightarrow> snd x \<le> k"
    by (simp_all add: set_routes_for [symmetric])
  then show ?thesis using that [OF ip, of k] by force
qed

lemma select_peer_None:
  "select_peer_for_packet L peers packet = None \<longleftrightarrow>
    (\<forall>ip. tl_dst_address L packet = Some (V4 ip) \<longrightarrow> routes_to peers ip = {})"
  by (auto simp: select_peer_routes set_routes_for [symmetric] max_by_key_None
      split: option.splits ip_addr.splits)

section \<open>What calls on a tunnel may produce\<close>

text \<open>Datagrams of one participant to one endpoint, and the same peer but for its tunnel.\<close>

definition sent_by :: "string \<Rightarrow> socket_addr \<Rightarrow> processing_result \<Rightarrow> bool" where
  "sent_by participant endpoint processed \<longleftrightarrow>
    (\<forall>d \<in> set (pr_outgoing processed). og_participant_pubkey d = participant \<and> og_endpoint d = endpoint)"

definition same_peer :: "'t wg_peer \<Rightarrow> 't wg_peer \<Rightarrow> bool" where
  "same_peer p p' \<longleftrightarrow> (\<exists>t. p' = p\<lparr>uw_tunnel := t\<rparr>)"

lemma same_peer_refl [simp]: "same_peer p p"
  by (cases p) (auto simp: same_peer_def)

lemma same_peer_trans: "same_peer p q \<Longrightarrow> same_peer q r \<Longrightarrow> same_peer p r"
  by (auto simp: same_peer_def)

lemma same_peer_fields:
  "same_peer p p' \<Longrightarrow> uw_participant_pubkey p' = uw_participant_pubkey p \<and> uw_endpoint p' = uw_endpoint p
    \<and> uw_routes p' = uw_routes p"
  by (auto simp: same_peer_def)

lemma process_sent_by: "sent_by participant endpoint (process_tunn_result participant endpoint result)"
  by (cases result) (simp_all add: sent_by_def nothing_processed_def)

lemma peer_call_facts:
  assumes "peer_call f p = (processed, p')"
  shows "sent_by (uw_participant_pubkey p) (uw_endpoint p) processed" "same_peer p p'"
  using assms process_sent_by by (auto simp: peer_call_def same_peer_def split: prod.splits)

lemma sent_by_extend: "sent_by a e x \<Longrightarrow> sent_by a e y \<Longrightarrow> sent_by a e (extend_result x y)"
  by (auto simp: sent_by_def extend_result_def)

lemma sent_by_nothing [simp]: "sent_by a e nothing_processed"
  by (simp add: sent_by_def nothing_processed_def)

lemma flush_keeps:
  "flush_queued L processed p = Some x \<Longrightarrow> sent_by (uw_participant_pubkey p) (uw_endpoint p) processed \<longrightarrow>
    sent_by (uw_participant_pubkey p) (uw_endpoint p) (fst x) \<and> same_peer p (snd x)"
proof (erule flush_queued.raw_induct [rotated])
  fix flush L processed and p :: "'t wg_peer" and x
  assume IH: "\<And>L processed p x. flush L processed p = Some x \<Longrightarrow>
      sent_by (uw_participant_pubkey p) (uw_endpoint p) processed \<longrightarrow>
      sent_by (uw_participant_pubkey p) (uw_endpoint p) (fst x) \<and> same_peer p (snd x)"
    and run: "(case peer_call (tl_decapsulate L None []) p of (next_result, peer) \<Rightarrow>
       if pr_outgoing next_result = [] \<and> pr_tunnel_packets next_result = [] then Some (processed, peer)
       else flush L (extend_result processed next_result) peer) = Some x"
  obtain r q where call: "peer_call (tl_decapsulate L None []) p = (r, q)" by (metis prod.exhaust)
  note facts = peer_call_facts [OF call]
  have q: "uw_participant_pubkey q = uw_participant_pubkey p" "uw_endpoint q = uw_endpoint p"
    using same_peer_fields [OF facts(2)] by simp_all
  show "sent_by (uw_participant_pubkey p) (uw_endpoint p) processed \<longrightarrow>
      sent_by (uw_participant_pubkey p) (uw_endpoint p) (fst x) \<and> same_peer p (snd x)"
  proof (cases "pr_outgoing r = [] \<and> pr_tunnel_packets r = []")
    case True
    with run call facts show ?thesis by auto
  next
    case False
    with run call have "flush L (extend_result processed r) q = Some x" by auto
    from IH [OF this] facts q show ?thesis
      using sent_by_extend same_peer_trans by metis
  qed
qed

lemma flush_facts:
  assumes "flush_queued L nothing_processed p = Some (r, p')"
  shows "sent_by (uw_participant_pubkey p) (uw_endpoint p) r" "same_peer p p'"
  using flush_keeps [OF assms] by simp_all

section \<open>Termination\<close>

text \<open>
  What the loops rely on: asked with an empty datagram, the library either has nothing or hands out one
  of finitely many queued packets; \<open>q\<close> counts them.
\<close>

definition drains :: "'t tunn_lib \<Rightarrow> ('t \<Rightarrow> nat) \<Rightarrow> bool" where
  "drains L q \<longleftrightarrow> (\<forall>t. (\<forall>p e. process_tunn_result p e (fst (tl_decapsulate L None [] t)) = nothing_processed)
      \<or> q (snd (tl_decapsulate L None [] t)) < q t)"

lemma drains_step:
  "drains L q \<Longrightarrow> (\<forall>p e. process_tunn_result p e (fst (tl_decapsulate L None [] t)) = nothing_processed)
    \<or> q (snd (tl_decapsulate L None [] t)) < q t"
  by (simp add: drains_def)

lemma flush_ends:
  assumes "drains L q"
  shows "\<exists>r. flush_queued L processed p = Some r"
proof (induction "q (uw_tunnel p)" arbitrary: processed p rule: less_induct)
  case less
  obtain result t where call: "tl_decapsulate L None [] (uw_tunnel p) = (result, t)" by (metis prod.exhaust)
  show ?case
  proof (cases "\<forall>a e. process_tunn_result a e result = nothing_processed")
    case True
    then show ?thesis
      by (subst flush_queued.simps) (simp add: peer_call_def call nothing_processed_def)
  next
    case False
    have "q t < q (uw_tunnel p)"
      using drains_step [OF assms, of "uw_tunnel p"] False by (simp add: call)
    then have "\<exists>r. flush_queued L pr (p\<lparr>uw_tunnel := t\<rparr>) = Some r" for pr
      using less [of "p\<lparr>uw_tunnel := t\<rparr>"] by simp
    then show ?thesis
      by (subst flush_queued.simps) (simp add: peer_call_def call)
  qed
qed

lemma candidates_end:
  assumes "drains L q"
  shows "\<exists>r. try_candidates L source datagram is peers = Some r"
proof (induction "is" arbitrary: peers)
  case (Cons i "is")
  obtain processed p where "offer_datagram L source datagram (peers ! i) = (processed, p)" by (metis prod.exhaust)
  with Cons flush_ends [OF assms, of nothing_processed "p\<lparr>uw_endpoint := source\<rparr>"] show ?case by auto
qed simp

lemma timers_end:
  assumes "drains L q"
  shows "\<exists>r. tick_timers L peers = Some r"
proof (induction peers)
  case (Cons p peers)
  obtain processed p' where "peer_call (tl_timers L) p = (processed, p')" by (metis prod.exhaust)
  with Cons flush_ends [OF assms, of nothing_processed p'] show ?case by auto
qed simp

text \<open>
  C36. The userspace WireGuard never hangs. As long as the library hands out only finitely many packets
  when it is asked for queued ones, taking a packet of the host, a datagram of the network and a timer
  tick each return, whatever the peers and the bytes.
\<close>

theorem userspace_wireguard_returns:
  assumes "drains L q"
  shows "(\<exists>r. queue_tunnel_packet L packet peers = Some r)
    \<and> (\<exists>r. receive_datagram L source datagram peers = Some r)
    \<and> (\<exists>r. tick_timers L peers = Some r)"
proof -
  have "\<exists>r. queue_tunnel_packet L packet peers = Some r"
  proof (cases "select_peer_for_packet L peers packet")
    case None
    then show ?thesis by (simp add: queue_tunnel_packet_def)
  next
    case (Some i)
    obtain processed p where "peer_call (tl_encapsulate L packet) (peers ! i) = (processed, p)" by (metis prod.exhaust)
    with Some flush_ends [OF assms, of nothing_processed p] show ?thesis by (auto simp: queue_tunnel_packet_def)
  qed
  then show ?thesis
    using candidates_end [OF assms] timers_end [OF assms] by (simp add: receive_datagram_def)
qed

section \<open>Packets of the host\<close>

text \<open>
  C34. A packet of the host leaves only through the peer with the longest matching route. If it has no
  IPv4 destination or no peer has a route for it, nothing is sent and no peer changes. Otherwise one
  peer is asked, whose route for the destination is as long as any peer's; all datagrams that come of
  it are that peer's, to its endpoint, and no peer's endpoint or routes change.
\<close>

theorem packet_takes_longest_prefix:
  assumes run: "queue_tunnel_packet L packet peers = Some (outgoing, peers')"
  shows "(select_peer_for_packet L peers packet = None \<longleftrightarrow>
        (\<forall>ip. tl_dst_address L packet = Some (V4 ip) \<longrightarrow> routes_to peers ip = {}))
    \<and> (case select_peer_for_packet L peers packet of
        None \<Rightarrow> outgoing = [] \<and> peers' = peers
      | Some i \<Rightarrow> \<exists>ip k p'. tl_dst_address L packet = Some (V4 ip) \<and> i < length peers
          \<and> (i, k) \<in> routes_to peers ip \<and> (\<forall>(j, k') \<in> routes_to peers ip. k' \<le> k)
          \<and> (\<forall>d \<in> set outgoing. og_participant_pubkey d = uw_participant_pubkey (peers ! i)
               \<and> og_endpoint d = uw_endpoint (peers ! i))
          \<and> peers' = peers[i := p'] \<and> same_peer (peers ! i) p')"
proof (cases "select_peer_for_packet L peers packet")
  case None
  with run show ?thesis using select_peer_None [of L peers packet] by (simp add: queue_tunnel_packet_def)
next
  case (Some i)
  obtain ip k where best: "tl_dst_address L packet = Some (V4 ip)" "(i, k) \<in> routes_to peers ip"
      "\<And>j k'. (j, k') \<in> routes_to peers ip \<Longrightarrow> k' \<le> k"
    using select_peer_Some [OF Some] by blast
  obtain processed p1 where call: "peer_call (tl_encapsulate L packet) (peers ! i) = (processed, p1)" by (metis prod.exhaust)
  from run Some call obtain flushed p2 where flush: "flush_queued L nothing_processed p1 = Some (flushed, p2)"
      and result: "outgoing = pr_outgoing processed @ pr_outgoing flushed" "peers' = peers[i := p2]"
    by (auto simp: queue_tunnel_packet_def split: option.splits)
  note c = peer_call_facts [OF call] and f = flush_facts [OF flush]
  have "\<forall>d \<in> set outgoing. og_participant_pubkey d = uw_participant_pubkey (peers ! i)
      \<and> og_endpoint d = uw_endpoint (peers ! i)"
    using c f same_peer_fields [OF c(2)] by (auto simp: result(1) sent_by_def)
  moreover have "same_peer (peers ! i) p2" using same_peer_trans [OF c(2) f(2)] .
  moreover have "i < length peers" using best(2) by (auto simp: routes_to_def)
  ultimately show ?thesis
    using Some best result(2) select_peer_None [of L peers packet] by fastforce
qed

text \<open>A library whose tunnel is the number of packets queued in it.\<close>

definition counting_lib :: "nat tunn_lib" where
  "counting_lib = \<lparr>tl_new = (\<lambda>_ _ _. 0), tl_encapsulate = (\<lambda>packet t. (WriteToNetwork packet, t + 1)),
     tl_decapsulate = (\<lambda>from datagram t.
       if datagram = [] then (if t = 0 then (TunnDone, 0) else (WriteToNetwork ''queued'', t - 1))
       else if datagram = ''forged'' then (TunnErr InvalidMac, t) else (WriteToTunnelV4 datagram, t)),
     tl_initiate = (\<lambda>t. (WriteToNetwork ''hello'', t)), tl_timers = (\<lambda>t. (TunnDone, t)),
     tl_stats = (\<lambda>_. (None, 0, 0)),
     tl_dst_address = (\<lambda>packet. if packet = [] then None else Some (V4 0x0A2C0105))\<rparr>"

definition counting_peer :: "string \<Rightarrow> nat \<Rightarrow> nat wg_peer" where
  "counting_peer name prefix_len = \<lparr>uw_participant_pubkey = name,
     uw_endpoint = SockV4 1 51820, uw_tunnel = 0,
     uw_routes = [\<lparr>vr_network = and 0x0A2C0105 (prefix_mask prefix_len), vr_prefix_len = prefix_len\<rparr>]\<rparr>"

lemma counting_drains: "drains counting_lib (\<lambda>t. t)"
  by (simp add: drains_def counting_lib_def nothing_processed_def)

theorem userspace_wireguard_returns_witness:
  "drains counting_lib (\<lambda>t. t) \<and> (\<exists>r. tick_timers counting_lib [counting_peer ''a'' 24] = Some r)"
  using userspace_wireguard_returns [OF counting_drains] counting_drains by blast

lemma counting_queue:
  "queue_tunnel_packet counting_lib ''packet'' [counting_peer ''b'' 0, counting_peer ''a'' 24] =
    Some ([\<lparr>og_participant_pubkey = ''a'', og_endpoint = SockV4 1 51820, og_payload = ''packet''\<rparr>,
      \<lparr>og_participant_pubkey = ''a'', og_endpoint = SockV4 1 51820, og_payload = ''queued''\<rparr>],
     [counting_peer ''b'' 0, counting_peer ''a'' 24])"
  by (code_simp)

theorem packet_takes_longest_prefix_witness:
  "select_peer_for_packet counting_lib [counting_peer ''b'' 0, counting_peer ''a'' 24] ''packet'' = Some 1
    \<and> (\<exists>ip k. (1, k) \<in> routes_to [counting_peer ''b'' 0, counting_peer ''a'' 24] ip)"
proof -
  have "select_peer_for_packet counting_lib [counting_peer ''b'' 0, counting_peer ''a'' 24] ''packet'' = Some 1"
    by code_simp
  with packet_takes_longest_prefix [OF counting_queue] show ?thesis by auto
qed

section \<open>Datagrams of the network\<close>

lemma offer_same_peer: "offer_datagram L source datagram p = (processed, p') \<Longrightarrow> same_peer p p'"
  by (auto simp: offer_datagram_def same_peer_def split: prod.splits if_splits)

lemma offer_sent_by:
  assumes "offer_datagram L source datagram p = (processed, p')" "\<not> marks_rejection processed"
  shows "\<forall>d \<in> set (pr_outgoing processed). og_participant_pubkey d = uw_participant_pubkey p"
  using assms process_sent_by [of "uw_participant_pubkey p" "uw_endpoint p"]
  by (auto simp: offer_datagram_def sent_by_def marks_rejection_def split: prod.splits if_splits)

lemma same_peers_update:
  assumes "same_peer (peers ! i) p"
  shows "list_all2 same_peer peers (peers[i := p])"
proof (rule list_all2_all_nthI)
  fix j
  assume "j < length peers"
  then show "same_peer (peers ! j) (peers[i := p] ! j)"
    using assms by (cases "j = i") auto
qed simp

lemma same_peers_trans: "list_all2 same_peer a b \<Longrightarrow> list_all2 same_peer b c \<Longrightarrow> list_all2 same_peer a c"
  using list_all2_trans [of same_peer same_peer same_peer] same_peer_trans by metis

definition accepts :: "'t tunn_lib \<Rightarrow> socket_addr \<Rightarrow> string \<Rightarrow> 't wg_peer \<Rightarrow> bool" where
  "accepts L source datagram p \<longleftrightarrow> \<not> marks_rejection (fst (offer_datagram L source datagram p))"

definition took_datagram ::
  "socket_addr \<Rightarrow> nat option \<Rightarrow> 't wg_peer list \<Rightarrow> processing_result \<Rightarrow> 't wg_peer list \<Rightarrow> bool" where
  "took_datagram source taker peers processed peers' \<longleftrightarrow>
    (case taker of
       None \<Rightarrow> processed = nothing_processed \<and> list_all2 same_peer peers peers'
     | Some i \<Rightarrow> i < length peers \<and> sent_by (uw_participant_pubkey (peers ! i)) source processed
         \<and> list_all2 same_peer (peers[i := (peers ! i)\<lparr>uw_endpoint := source\<rparr>]) peers')"

lemma took_before:
  assumes "same_peer (peers ! i) p"
    and "distinct (i # is)" "took_datagram source (find P is) (peers[i := p]) processed peers'"
  shows "took_datagram source (find P is) peers processed peers'"
proof (cases "find P is")
  case None
  then show ?thesis
    using assms(3) same_peers_trans [OF same_peers_update [where peers = peers, OF assms(1)]]
    by (simp add: took_datagram_def)
next
  case (Some j)
  then have "j \<noteq> i" using assms(2) by (auto simp: find_Some_iff)
  moreover have "list_all2 same_peer (peers[j := x]) (peers[i := p, j := x])" for x
    using same_peers_update [of "peers[j := x]" i p] \<open>j \<noteq> i\<close> assms(1) by (simp add: list_update_swap)
  ultimately show ?thesis
    using assms(3) Some same_peers_trans by (simp add: took_datagram_def) blast
qed

lemma candidates_take:
  assumes "try_candidates L source datagram is peers = Some (processed, peers')"
    and "distinct is" and "\<forall>i \<in> set is. i < length peers"
  shows "took_datagram source (find (\<lambda>i. accepts L source datagram (peers ! i)) is) peers processed peers'"
  using assms
proof (induction "is" arbitrary: peers)
  case Nil
  then show ?case by (simp add: took_datagram_def list_all2_refl)
next
  case (Cons i "is")
  obtain r p where offer: "offer_datagram L source datagram (peers ! i) = (r, p)" by (metis prod.exhaust)
  note same = offer_same_peer [OF offer]
  show ?case
  proof (cases "marks_rejection r")
    case True
    have later: "find (\<lambda>j. accepts L source datagram (peers[i := p] ! j)) is
        = find (\<lambda>j. accepts L source datagram (peers ! j)) is"
      by (rule find_cong [OF refl]) (metis Cons.prems(2) distinct.simps(2) nth_list_update_neq)
    have "took_datagram source (find (\<lambda>j. accepts L source datagram (peers ! j)) is) (peers[i := p]) processed peers'"
      using Cons.IH [of "peers[i := p]"] Cons.prems True offer by (simp add: later)
    then have "took_datagram source (find (\<lambda>j. accepts L source datagram (peers ! j)) is) peers processed peers'"
      using took_before [OF same Cons.prems(2)] by blast
    then show ?thesis using True offer by (simp add: accepts_def)
  next
    case False
    with Cons.prems(1) offer obtain flushed q
      where flush: "flush_queued L nothing_processed (p\<lparr>uw_endpoint := source\<rparr>) = Some (flushed, q)"
        and result: "processed = extend_result (r\<lparr>pr_outgoing := map (\<lambda>d. d\<lparr>og_endpoint := source\<rparr>) (pr_outgoing r)\<rparr>) flushed"
          "peers' = peers[i := q]"
      by (auto split: option.splits)
    note f = flush_facts [OF flush]
    from offer_sent_by [OF offer False] f(1) same_peer_fields [OF same]
    have "sent_by (uw_participant_pubkey (peers ! i)) source processed"
      by (auto simp: result sent_by_def extend_result_def)
    moreover have "same_peer ((peers ! i)\<lparr>uw_endpoint := source\<rparr>) q"
      using same f(2) by (auto simp: same_peer_def)
    then have "list_all2 same_peer (peers[i := (peers ! i)\<lparr>uw_endpoint := source\<rparr>]) peers'"
      using Cons.prems(3) by (auto simp: result(2) list_all2_conv_all_nth nth_list_update)
    ultimately show ?thesis
      using False offer Cons.prems(3) by (simp add: accepts_def took_datagram_def)
  qed
qed

lemma datagram_candidates_facts:
  "distinct (datagram_candidates source peers)" "\<forall>i \<in> set (datagram_candidates source peers). i < length peers"
proof -
  have split: "datagram_candidates source peers =
      filter (\<lambda>i. uw_endpoint (peers ! i) = source) [0..<length peers]
      @ filter (\<lambda>i. uw_endpoint (peers ! i) \<noteq> source) [0..<length peers]"
    by (simp add: datagram_candidates_def enumerate_index filter_map comp_def)
  show "distinct (datagram_candidates source peers)" "\<forall>i \<in> set (datagram_candidates source peers). i < length peers"
    by (auto simp: split)
qed

text \<open>
  C35. A datagram concerns one peer at most. The peers that had this source as their endpoint are asked
  first, then the others; the first one that does not reject it takes it. Without one nothing is sent or
  delivered. Otherwise all that is sent comes from the taker and goes to the source, the taker's
  endpoint is now the source, and no other peer's endpoint, name or routes change.
\<close>

theorem datagram_moves_one_peer:
  assumes run: "receive_datagram L source datagram peers = Some (processed, peers')"
  shows "took_datagram source
      (find (\<lambda>i. accepts L source datagram (peers ! i)) (datagram_candidates source peers)) peers processed peers'"
  using candidates_take [OF run [unfolded receive_datagram_def] datagram_candidates_facts] .

lemma counting_receive:
  "receive_datagram counting_lib (SockV4 7 9) ''packet'' [counting_peer ''a'' 24] =
    Some (\<lparr>pr_outgoing = [], pr_tunnel_packets = [''packet'']\<rparr>,
      [(counting_peer ''a'' 24)\<lparr>uw_endpoint := SockV4 7 9\<rparr>])"
  by code_simp

theorem datagram_moves_one_peer_witness:
  "took_datagram (SockV4 7 9) (find (\<lambda>i. accepts counting_lib (SockV4 7 9) ''packet'' ([counting_peer ''a'' 24] ! i))
      (datagram_candidates (SockV4 7 9) [counting_peer ''a'' 24])) [counting_peer ''a'' 24]
    \<lparr>pr_outgoing = [], pr_tunnel_packets = [''packet'']\<rparr> [(counting_peer ''a'' 24)\<lparr>uw_endpoint := SockV4 7 9\<rparr>]"
  using datagram_moves_one_peer [OF counting_receive] .

section \<open>What is not checked\<close>

text \<open>
  Every answer but the listed errors counts as acceptance: also an error outside the list, and the "done"
  that an empty datagram gets. Whoever sends one becomes the first peer's endpoint.
\<close>

lemma unlisted_answer_moves_endpoint:
  assumes "tl_decapsulate L (Some (sock_ip source)) datagram (uw_tunnel p) = (result, t)"
    and "result = TunnDone \<or> (\<exists>e. result = TunnErr (OtherWgError e))"
    and "tl_decapsulate L None [] t = (TunnDone, t')"
  shows "receive_datagram L source datagram [p] =
    Some (nothing_processed, [p\<lparr>uw_endpoint := source, uw_tunnel := t'\<rparr>])"
proof -
  have "datagram_candidates source [p] = [0]" by (simp add: datagram_candidates_def)
  moreover have "offer_datagram L source datagram p = (nothing_processed, p\<lparr>uw_tunnel := t\<rparr>)"
    using assms(1,2) by (auto simp: offer_datagram_def)
  moreover have "flush_queued L nothing_processed (p\<lparr>uw_tunnel := t, uw_endpoint := source\<rparr>)
      = Some (nothing_processed, p\<lparr>uw_tunnel := t', uw_endpoint := source\<rparr>)"
    by (subst flush_queued.simps) (simp add: peer_call_def assms(3) nothing_processed_def)
  ultimately show ?thesis
    by (simp add: receive_datagram_def marks_rejection_def nothing_processed_def extend_result_def)
qed

text \<open>What is delivered to the host does not depend on the sending peer's routes.\<close>

lemma source_address_not_checked:
  assumes "tl_decapsulate L (Some (sock_ip source)) datagram (uw_tunnel p) = (WriteToTunnelV4 packet, t)"
    and "tl_decapsulate L None [] t = (TunnDone, t')"
  shows "\<exists>p'. receive_datagram L source datagram [p\<lparr>uw_routes := routes\<rparr>]
    = Some (\<lparr>pr_outgoing = [], pr_tunnel_packets = [packet]\<rparr>, [p'])"
proof -
  let ?p = "p\<lparr>uw_routes := routes\<rparr>"
  have "datagram_candidates source [?p] = [0]" by (simp add: datagram_candidates_def)
  moreover have "offer_datagram L source datagram ?p
      = (\<lparr>pr_outgoing = [], pr_tunnel_packets = [packet]\<rparr>, ?p\<lparr>uw_tunnel := t\<rparr>)"
    using assms(1) by (simp add: offer_datagram_def)
  moreover have "flush_queued L nothing_processed (?p\<lparr>uw_tunnel := t, uw_endpoint := source\<rparr>)
      = Some (nothing_processed, ?p\<lparr>uw_tunnel := t', uw_endpoint := source\<rparr>)"
    by (subst flush_queued.simps) (simp add: peer_call_def assms(2) nothing_processed_def)
  ultimately show ?thesis
    by (simp add: receive_datagram_def marks_rejection_def nothing_processed_def extend_result_def)
qed

end
