(* ===== verification/Daemon_Files.thy ===== *)
theory Daemon_Files
  imports Config_Ops Nostr_Event
begin

text \<open>
  The files by which the daemon and its clients talk: \<open>crates/nostr-vpn-cli/src/daemon_runtime.rs\<close> and
  the loading of the configuration in \<open>config_bootstrap.rs\<close> and \<open>main.rs\<close>. The files of one configuration
  are a map; formats are codecs. Permissions of files are left out.
\<close>

section \<open>Files\<close>

datatype daemon_file =
  ConfigFile | StagedConfig | ControlFile | ControlResultFile | StateFile | PeerCacheFile

type_synonym files = "(daemon_file, string) hmap"

text \<open>
  What the file system does: whether a file can be read, written and renamed, and what a write in
  place that fails leaves behind.
\<close>

record file_system =
  fy_readable :: "daemon_file \<Rightarrow> bool"
  fy_writable :: "daemon_file \<Rightarrow> bool"
  fy_left :: "daemon_file \<Rightarrow> string option"
  fy_renames :: "daemon_file \<Rightarrow> bool"

datatype file_error =
    CannotRead daemon_file
  | CannotWrite daemon_file
  | CannotRename daemon_file
  | Unparsable daemon_file
  | Unprintable daemon_file
  | ConfigRefused config_error

type_synonym 'a io = "(file_error + 'a) \<times> files"

definition read_file :: "file_system \<Rightarrow> daemon_file \<Rightarrow> files \<Rightarrow> file_error + string" where
  "read_file Y f files =
    (case hm_get files f of
       None \<Rightarrow> Inl (CannotRead f) | Some raw \<Rightarrow> if fy_readable Y f then Inr raw else Inl (CannotRead f))"

definition write_file :: "file_system \<Rightarrow> daemon_file \<Rightarrow> string \<Rightarrow> files \<Rightarrow> unit io" where
  "write_file Y f raw files =
    (if fy_writable Y f then (Inr (), hm_insert f raw files)
     else (Inl (CannotWrite f), case fy_left Y f of None \<Rightarrow> files | Some left \<Rightarrow> hm_insert f left files))"

text \<open>A temporary file is written beside the file and takes its name.\<close>

definition write_runtime_file_atomically :: "file_system \<Rightarrow> daemon_file \<Rightarrow> string \<Rightarrow> files \<Rightarrow> unit io" where
  "write_runtime_file_atomically Y f raw files =
    (if \<not> fy_writable Y f then (Inl (CannotWrite f), files)
     else if \<not> fy_renames Y f then (Inl (CannotRename f), files)
     else (Inr (), hm_insert f raw files))"

definition is_padding :: "char \<Rightarrow> bool" where
  "is_padding c \<longleftrightarrow> byte c = 0 \<or> c \<in> set [CHR '' '', CHR 0x09, CHR 0x0A, CHR 0x0C, CHR 0x0D]"

definition trim_runtime_json_padding :: "string \<Rightarrow> string" where
  "trim_runtime_json_padding raw = rev (dropWhile is_padding (rev (dropWhile is_padding raw)))"

text \<open>The state file, with padding cut off or moved aside when it does not parse.\<close>

definition read_daemon_state :: "file_system \<Rightarrow> 's json_codec \<Rightarrow> files \<Rightarrow> 's option io" where
  "read_daemon_state Y J files =
    (case hm_get files StateFile of
       None \<Rightarrow> (Inr None, files)
     | Some raw \<Rightarrow>
         if \<not> fy_readable Y StateFile then (Inl (CannotRead StateFile), files)
         else (case from_json J raw of
             Some parsed \<Rightarrow> (Inr (Some parsed), files)
           | None \<Rightarrow>
               (let trimmed = trim_runtime_json_padding raw
                in (case (if length trimmed \<noteq> length raw \<and> trimmed \<noteq> [] then from_json J trimmed else None) of
                     Some parsed \<Rightarrow> (Inr (Some parsed), snd (write_runtime_file_atomically Y StateFile trimmed files))
                   | None \<Rightarrow> (Inr None, if fy_renames Y StateFile then hm_remove StateFile files else files)))))"

definition write_daemon_state :: "file_system \<Rightarrow> 's json_codec \<Rightarrow> 's \<Rightarrow> files \<Rightarrow> unit io" where
  "write_daemon_state Y J state files =
    (case to_json J state of
       None \<Rightarrow> (Inl (Unprintable StateFile), files)
     | Some raw \<Rightarrow> write_runtime_file_atomically Y StateFile raw files)"

section \<open>Control requests and their results\<close>

datatype daemon_control_request = StopRequest | ReloadRequest | PauseRequest | ResumeRequest

fun request_as_str :: "daemon_control_request \<Rightarrow> string" where
  "request_as_str StopRequest = ''stop''"
| "request_as_str ReloadRequest = ''reload''"
| "request_as_str PauseRequest = ''pause''"
| "request_as_str ResumeRequest = ''resume''"

definition request_parse :: "string \<Rightarrow> daemon_control_request option" where
  "request_parse value =
    (let normalized = to_ascii_lowercase (trim value)
     in if normalized = ''stop'' then Some StopRequest
        else if normalized = ''reload'' then Some ReloadRequest
        else if normalized = ''pause'' then Some PauseRequest
        else if normalized = ''resume'' then Some ResumeRequest
        else None)"

record daemon_control_result =
  dr_request :: string
  dr_ok :: bool
  dr_error :: "string option"

definition write_daemon_control_request :: "file_system \<Rightarrow> daemon_control_request \<Rightarrow> files \<Rightarrow> unit io" where
  "write_daemon_control_request Y request files =
    write_file Y ControlFile (request_as_str request @ [CHR 0x0A]) files"

definition clear_daemon_control_result :: "files \<Rightarrow> files" where
  "clear_daemon_control_result files = hm_remove ControlResultFile files"

text \<open>\<open>text\<close> is the text of an error.\<close>

definition write_daemon_control_result ::
  "file_system \<Rightarrow> daemon_control_result json_codec \<Rightarrow> daemon_control_request \<Rightarrow> string option \<Rightarrow> files \<Rightarrow> unit io" where
  "write_daemon_control_result Y J request error files =
    (case to_json J \<lparr>dr_request = request_as_str request, dr_ok = (error = None), dr_error = error\<rparr> of
       None \<Rightarrow> (Inl (Unprintable ControlResultFile), files)
     | Some raw \<Rightarrow> write_runtime_file_atomically Y ControlResultFile raw files)"

definition read_daemon_control_result ::
  "file_system \<Rightarrow> daemon_control_result json_codec \<Rightarrow> files \<Rightarrow> file_error + daemon_control_result option" where
  "read_daemon_control_result Y J files =
    (if \<not> hm_contains files ControlResultFile then Inr None
     else (case read_file Y ControlResultFile files of
         Inl e \<Rightarrow> Inl e
       | Inr raw \<Rightarrow> (case from_json J raw of
           None \<Rightarrow> Inl (Unparsable ControlResultFile) | Some result \<Rightarrow> Inr (Some result))))"

text \<open>The request is taken by removing its file, readable or not in form.\<close>

definition take_daemon_control_request :: "file_system \<Rightarrow> files \<Rightarrow> daemon_control_request option \<times> files" where
  "take_daemon_control_request Y files =
    (case read_file Y ControlFile files of
       Inl _ \<Rightarrow> (None, files)
     | Inr raw \<Rightarrow> (request_parse raw, hm_remove ControlFile files))"

text \<open>
  The waiting of a client: the files as it finds them, poll by poll, until its time is up. The
  result's file is removed by the client that takes it.
\<close>

fun wait_for_daemon_control_ack :: "files list \<Rightarrow> bool" where
  "wait_for_daemon_control_ack [] = False"
| "wait_for_daemon_control_ack (files # polls) = (\<not> hm_contains files ControlFile \<or> wait_for_daemon_control_ack polls)"

datatype control_error = ControlFileError file_error | RequestFailed string | NoResult

fun wait_for_daemon_control_result ::
  "file_system \<Rightarrow> daemon_control_result json_codec \<Rightarrow> daemon_control_request \<Rightarrow> files list \<Rightarrow> control_error + unit" where
  "wait_for_daemon_control_result Y J request [] = Inl NoResult"
| "wait_for_daemon_control_result Y J request (files # polls) =
    (case read_daemon_control_result Y J files of
       Inl e \<Rightarrow> Inl (ControlFileError e)
     | Inr result \<Rightarrow>
         (case result of
            None \<Rightarrow> wait_for_daemon_control_result Y J request polls
          | Some r \<Rightarrow>
              if dr_request r = request_as_str request
              then (if dr_ok r then Inr ()
                    else Inl (RequestFailed (case dr_error r of None \<Rightarrow> ''daemon control request failed'' | Some e \<Rightarrow> e)))
              else wait_for_daemon_control_result Y J request polls))"

section \<open>Loading and applying a configuration\<close>

definition load_config ::
  "key_env \<Rightarrow> host_env \<Rightarrow> file_system \<Rightarrow> app_config json_codec \<Rightarrow> daemon_file \<Rightarrow> files \<Rightarrow> file_error + app_config" where
  "load_config E H Y J f files =
    (case read_file Y f files of
       Inl e \<Rightarrow> Inl e
     | Inr raw \<Rightarrow> (case from_json J raw of
         None \<Rightarrow> Inl (Unparsable f) | Some config \<Rightarrow> Inr (ensure_defaults E H config)))"

definition save_config ::
  "key_env \<Rightarrow> host_env \<Rightarrow> file_system \<Rightarrow> app_config json_codec \<Rightarrow> app_config \<Rightarrow> files \<Rightarrow> unit io" where
  "save_config E H Y J config files =
    (case to_json J (config_to_save E H config) of
       None \<Rightarrow> (Inl (Unprintable ConfigFile), files)
     | Some raw \<Rightarrow> write_file Y ConfigFile raw files)"

definition load_or_default_config ::
  "key_env \<Rightarrow> host_env \<Rightarrow> file_system \<Rightarrow> app_config json_codec \<Rightarrow> files \<Rightarrow> app_config io" where
  "load_or_default_config E H Y J files =
    (if hm_contains files ConfigFile then (load_config E H Y J ConfigFile files, files)
     else (let config = app_config_default E H
           in (case save_config E H Y J config files of
                (Inl e, files) \<Rightarrow> (Inl e, files) | (Inr _, files) \<Rightarrow> (Inr config, files))))"

definition apply_participants_override ::
  "key_env \<Rightarrow> host_env \<Rightarrow> string list \<Rightarrow> app_config \<Rightarrow> config_error + app_config" where
  "apply_participants_override E H participants config =
    (if participants = [] then Inr config
     else (case those (map (normalize_nostr_pubkey E) participants) of
         None \<Rightarrow> Inl InvalidPubkey
       | Some keys \<Rightarrow>
           (let normalized = sort_dedup keys;
                pending_exit_node = normalize_nostr_pubkey E (ac_exit_node config);
                c1 = update_active_network (\<lambda>n. n\<lparr>nc_participants := normalized\<rparr>) (ensure_defaults E H config);
                c2 = (case pending_exit_node of
                    Some exit_node \<Rightarrow> if exit_node \<in> set normalized then c1\<lparr>ac_exit_node := exit_node\<rparr> else c1
                  | None \<Rightarrow> c1)
            in Inr (ensure_defaults E H (snd (note_active_network_roster_local_change E (h_now H) c2))))))"

record session_overrides =
  so_network_id :: "string option"
  so_participants :: "string list"
  so_relays :: "string list"

definition load_config_with_overrides ::
  "key_env \<Rightarrow> host_env \<Rightarrow> file_system \<Rightarrow> app_config json_codec \<Rightarrow> session_overrides \<Rightarrow> files \<Rightarrow> (app_config \<times> string) io" where
  "load_config_with_overrides E H Y J overrides files =
    (case load_or_default_config E H Y J files of
       (Inl e, files) \<Rightarrow> (Inl e, files)
     | (Inr app, files) \<Rightarrow>
         (case apply_participants_override E H (so_participants overrides) app of
            Inl e \<Rightarrow> (Inl (ConfigRefused e), files)
          | Inr app \<Rightarrow>
              (case (case so_network_id overrides of
                   None \<Rightarrow> (Inr (), app) | Some network_id \<Rightarrow> set_active_network_id network_id app) of
                 (Inl e, _) \<Rightarrow> (Inl (ConfigRefused e), files)
               | (Inr _, app) \<Rightarrow>
                   (let app = maybe_autoconfigure_node E H app
                    in (Inr (app, effective_network_id app), files)))))"

definition resolve_relays :: "string list \<Rightarrow> app_config \<Rightarrow> string list" where
  "resolve_relays cli_relays config =
    (if cli_relays \<noteq> [] then cli_relays
     else if no_relays (ac_nostr config) \<noteq> [] then no_relays (ac_nostr config)
     else default_relays)"

definition expected_peer_count :: "key_env \<Rightarrow> app_config \<Rightarrow> nat" where
  "expected_peer_count E config =
    (let participants = participant_pubkeys_hex config
     in (case own_nostr_pubkey_hex E config of
          Some own_pubkey \<Rightarrow> if own_pubkey \<in> set participants then length participants - 1 else length participants
        | None \<Rightarrow> length participants))"

record daemon_reload_config =
  lo_app :: app_config
  lo_network_id :: string
  lo_configured_participants :: "string list"
  lo_expected_peers :: nat
  lo_own_pubkey :: "string option"
  lo_relays :: "string list"

definition build_daemon_reload_config ::
  "key_env \<Rightarrow> app_config \<Rightarrow> string \<Rightarrow> string list \<Rightarrow> daemon_reload_config" where
  "build_daemon_reload_config E app network_id relay_args =
    \<lparr>lo_app = app, lo_network_id = network_id, lo_configured_participants = participant_pubkeys_hex app,
     lo_expected_peers = expected_peer_count E app, lo_own_pubkey = own_nostr_pubkey_hex E app,
     lo_relays = resolve_relays relay_args app\<rparr>"

definition apply_config_file ::
  "key_env \<Rightarrow> host_env \<Rightarrow> file_system \<Rightarrow> app_config json_codec \<Rightarrow> daemon_file \<Rightarrow> files \<Rightarrow> unit io" where
  "apply_config_file E H Y J source files =
    (case load_config E H Y J source files of
       Inl e \<Rightarrow> (Inl e, files)
     | Inr config \<Rightarrow> save_config E H Y J (maybe_autoconfigure_node E H (ensure_defaults E H config)) files)"

text \<open>\<open>raw\<close> is what the client's own file holds, none when it cannot be read.\<close>

definition stage_daemon_config_apply :: "file_system \<Rightarrow> string option \<Rightarrow> files \<Rightarrow> unit io" where
  "stage_daemon_config_apply Y raw files =
    (case raw of
       None \<Rightarrow> (Inl (CannotRead StagedConfig), files)
     | Some raw \<Rightarrow> write_runtime_file_atomically Y StagedConfig raw files)"

definition update_daemon_config_from_staged_request ::
  "key_env \<Rightarrow> host_env \<Rightarrow> file_system \<Rightarrow> app_config json_codec \<Rightarrow> files \<Rightarrow> bool io" where
  "update_daemon_config_from_staged_request E H Y J files =
    (if \<not> hm_contains files StagedConfig then (Inr False, files)
     else (case apply_config_file E H Y J StagedConfig files of
         (Inl e, files) \<Rightarrow> (Inl e, hm_remove StagedConfig files)
       | (Inr _, files) \<Rightarrow> (Inr True, hm_remove StagedConfig files)))"

text \<open>A client asks the running daemon for a configuration: the result is cleared, the file staged, the request written.\<close>

definition request_config_apply :: "file_system \<Rightarrow> string option \<Rightarrow> files \<Rightarrow> unit io" where
  "request_config_apply Y raw files =
    (case stage_daemon_config_apply Y raw (clear_daemon_control_result files) of
       (Inl e, files) \<Rightarrow> (Inl e, files)
     | (Inr _, files) \<Rightarrow> write_daemon_control_request Y ReloadRequest files)"

end
