(* ===== verification/Peer_Cache.thy ===== *)
theory Peer_Cache
  imports Daemon_Files Tunnel_Plan
begin

text \<open>
  What the daemon remembers of its peers over a restart: \<open>crates/nostr-vpn-cli/src/main.rs\<close>, the peer
  cache. What was written is restored for the members that were heard of in time, as known peers
  that are not active, with the paths that worked.
\<close>

record daemon_peer_cache_entry =
  ce_participant_pubkey :: string
  ce_announcement :: peer_announcement
  ce_last_signal_seen_at :: "u64 option"
  ce_cached_at :: u64

record daemon_peer_cache_state =
  cs_version :: u8
  cs_network_id :: string
  cs_own_pubkey :: "string option"
  cs_updated_at :: u64
  cs_peers :: "daemon_peer_cache_entry list"
  cs_path_book :: peer_path_book

definition cache_entry ::
  "(string \<Rightarrow> string option) \<Rightarrow> peer_presence_book \<Rightarrow> runtime_peers option \<Rightarrow> u64 \<Rightarrow> string \<Rightarrow> peer_announcement
    \<Rightarrow> daemon_peer_cache_entry" where
  "cache_entry b64 presence runtime_peers now participant a =
    (let handshake_at = Option.bind (peer_runtime_lookup b64 a runtime_peers) (last_handshake_at now);
         seen_at = presence_last_seen_at presence participant
     in \<lparr>ce_participant_pubkey = participant, ce_announcement = a, ce_last_signal_seen_at = seen_at,
         ce_cached_at = max (max (case seen_at of None \<Rightarrow> pa_timestamp a | Some t \<Rightarrow> t) (unwrap_or_zero handshake_at))
           (pa_timestamp a)\<rparr>)"

definition build_daemon_peer_cache_state ::
  "(string \<Rightarrow> string option) \<Rightarrow> string \<Rightarrow> string option \<Rightarrow> peer_presence_book \<Rightarrow> peer_path_book
    \<Rightarrow> runtime_peers option \<Rightarrow> u64 \<Rightarrow> daemon_peer_cache_state option" where
  "build_daemon_peer_cache_state b64 network_id own_pubkey presence book runtime_peers now =
    (let peers = sort_key ce_participant_pubkey
           (map (\<lambda>(participant, a). cache_entry b64 presence runtime_peers now participant a) (pp_known presence))
     in if peers = [] then None
        else Some \<lparr>cs_version = 1, cs_network_id = network_id, cs_own_pubkey = own_pubkey,
                   cs_updated_at = now, cs_peers = peers, cs_path_book = book\<rparr>)"

definition read_daemon_peer_cache ::
  "file_system \<Rightarrow> daemon_peer_cache_state json_codec \<Rightarrow> files \<Rightarrow> file_error + daemon_peer_cache_state option" where
  "read_daemon_peer_cache Y J files =
    (if \<not> hm_contains files PeerCacheFile then Inr None
     else (case read_file Y PeerCacheFile files of
         Inl e \<Rightarrow> Inl e
       | Inr raw \<Rightarrow> (case from_json J raw of None \<Rightarrow> Inl (Unparsable PeerCacheFile) | Some cache \<Rightarrow> Inr (Some cache))))"

definition write_daemon_peer_cache ::
  "file_system \<Rightarrow> daemon_peer_cache_state json_codec \<Rightarrow> daemon_peer_cache_state \<Rightarrow> files \<Rightarrow> unit io" where
  "write_daemon_peer_cache Y J cache files =
    (case to_json J cache of
       None \<Rightarrow> (Inl (Unprintable PeerCacheFile), files) | Some raw \<Rightarrow> write_file Y PeerCacheFile raw files)"

record daemon_peer_cache_restore =
  cr_app :: app_config
  cr_network_id :: string
  cr_own_pubkey :: "string option"
  cr_now :: u64
  cr_announce_interval_secs :: u64

definition restorable :: "daemon_peer_cache_restore \<Rightarrow> daemon_peer_cache_entry \<Rightarrow> bool" where
  "restorable R entry \<longleftrightarrow>
    saturating_sub (cr_now R) (persisted_peer_cache_timeout_secs (cr_announce_interval_secs R)) < ce_cached_at entry
    \<and> ce_participant_pubkey entry \<in> set (participant_pubkeys_hex (cr_app R))
    \<and> Some (ce_participant_pubkey entry) \<noteq> cr_own_pubkey R"

definition cache_is_ours :: "daemon_peer_cache_restore \<Rightarrow> daemon_peer_cache_state \<Rightarrow> bool" where
  "cache_is_ours R cache \<longleftrightarrow>
    cs_version cache = 1 \<and> cs_network_id cache = cr_network_id R
    \<and> (case (cs_own_pubkey cache, cr_own_pubkey R) of
         (Some cached, Some current) \<Rightarrow> cached = current | _ \<Rightarrow> True)"

definition restore_daemon_peer_cache ::
  "file_system \<Rightarrow> daemon_peer_cache_state json_codec \<Rightarrow> daemon_peer_cache_restore \<Rightarrow> files
    \<Rightarrow> peer_presence_book \<Rightarrow> peer_path_book \<Rightarrow> (file_error + bool) \<times> peer_presence_book \<times> peer_path_book" where
  "restore_daemon_peer_cache Y J R files presence book =
    (case read_daemon_peer_cache Y J files of
       Inl e \<Rightarrow> (Inl e, presence, book)
     | Inr None \<Rightarrow> (Inr False, presence, book)
     | Inr (Some cache) \<Rightarrow>
         if \<not> cache_is_ours R cache then (Inr False, presence, book)
         else (let entries = filter (restorable R) (cs_peers cache)
               in if entries = [] then (Inr False, presence, book)
                  else (Inr True,
                    fold (\<lambda>entry. restore_known (ce_participant_pubkey entry) (ce_announcement entry)
                        (ce_last_signal_seen_at entry)) entries presence,
                    snd (book_prune_stale (cr_now R) (persisted_path_cache_timeout_secs (cr_announce_interval_secs R))
                      (retain_participants (set (participant_pubkeys_hex (cr_app R))) (cs_path_book cache))))))"

text \<open>The cache is written when there is one and its compact form is not what it was at the last writing.\<close>

definition write_daemon_peer_cache_if_changed ::
  "file_system \<Rightarrow> daemon_peer_cache_state json_codec \<Rightarrow> (daemon_peer_cache_state \<Rightarrow> string option) \<Rightarrow> daemon_peer_cache_state option \<Rightarrow> string option \<Rightarrow> files
    \<Rightarrow> (file_error + unit) \<times> string option \<times> files" where
  "write_daemon_peer_cache_if_changed Y J brief cache last_written files =
    (case cache of
       None \<Rightarrow> (Inr (), last_written, files)
     | Some cache \<Rightarrow>
         (case brief cache of
            None \<Rightarrow> (Inl (Unprintable PeerCacheFile), last_written, files)
          | Some raw \<Rightarrow>
              if last_written = Some raw then (Inr (), last_written, files)
              else (case write_daemon_peer_cache Y J cache files of
                  (Inl e, files) \<Rightarrow> (Inl e, last_written, files)
                | (Inr _, files) \<Rightarrow> (Inr (), Some raw, files))))"

definition recently_seen_participants :: "peer_presence_book \<Rightarrow> u64 \<Rightarrow> u64 \<Rightarrow> string set" where
  "recently_seen_participants presence now stale_after_secs =
    (if stale_after_secs = 0 then {}
     else (let cutoff = saturating_sub now stale_after_secs
           in set (map fst (filter (\<lambda>(_, last_seen). cutoff < last_seen) (pp_last_seen_at presence)))))"

section \<open>The round trip\<close>

lemma find_key: "find (\<lambda>x. f x = p) xs = Some y \<Longrightarrow> y \<in> set xs \<and> f y = p"
  by (auto simp: find_Some_iff)

lemma restore_fold:
  assumes "distinct (map ce_participant_pubkey entries)"
  shows "hm_get (pp_known (fold (\<lambda>entry. restore_known (ce_participant_pubkey entry) (ce_announcement entry)
            (ce_last_signal_seen_at entry)) entries presence)) p =
          (case find (\<lambda>entry. ce_participant_pubkey entry = p) entries of
             Some entry \<Rightarrow> Some (ce_announcement entry) | None \<Rightarrow> hm_get (pp_known presence) p)"
    and "pp_active (fold (\<lambda>entry. restore_known (ce_participant_pubkey entry) (ce_announcement entry)
            (ce_last_signal_seen_at entry)) entries presence) = pp_active presence"
  using assms
proof (induction entries arbitrary: presence)
  case (Cons e es)
  {
    case 1
    have "find (\<lambda>entry. ce_participant_pubkey entry = p) es = None" if "ce_participant_pubkey e = p"
      using 1 that by (auto simp: find_None_iff rev_image_eqI)
    with Cons(1) 1 show ?case
      by (auto simp: restore_known_def Let_def hm_simps split: option.splits)
  next
    case 2
    with Cons(2) show ?case by (simp add: restore_known_def Let_def split: option.split)
  }
qed simp_all

lemma find_sort_unique:
  assumes "distinct (map f xs)"
  shows "find (\<lambda>x. f x = p) (sort_key f xs) = find (\<lambda>x. f x = p) xs"
proof -
  have at_most: "filter (\<lambda>x. f x = p) ys = (case find (\<lambda>x. f x = p) ys of None \<Rightarrow> [] | Some y \<Rightarrow> [y])"
    if "distinct (map f ys)" for ys
    using that by (induction ys) (auto simp: filter_empty_conv find_None_iff rev_image_eqI dest!: find_key split: option.splits)
  have "filter (\<lambda>x. f x = p) (sort_key f xs) = filter (\<lambda>x. f x = p) xs"
    by (rule sort_key_stable)
  moreover have "distinct (map f (sort_key f xs))"
    using assms by (simp add: distinct_map)
  ultimately show ?thesis
    using at_most [OF assms] at_most [of "sort_key f xs"] by (auto split: option.splits)
qed

lemma find_filter_unique:
  assumes "distinct (map f xs)"
  shows "find (\<lambda>x. f x = p) (filter P xs) =
    (case find (\<lambda>x. f x = p) xs of None \<Rightarrow> None | Some x \<Rightarrow> if P x then Some x else None)"
  using assms by (induction xs) (auto simp: find_None_iff rev_image_eqI dest!: find_key split: option.splits)

lemma cache_entry_name [simp]: "ce_participant_pubkey (cache_entry b64 presence peers t p a) = p"
  by (simp add: cache_entry_def Let_def)

lemma find_cache_entry:
  "find (\<lambda>e. ce_participant_pubkey e = p) (map (\<lambda>(p, a). cache_entry b64 presence peers t p a) known)
    = map_option (cache_entry b64 presence peers t p) (hm_get known p)"
  by (induction known) (auto simp: hm_get_def)

lemma cache_entry_names:
  "map ce_participant_pubkey (map (\<lambda>(p, a). cache_entry b64 presence peers t p a) known) = map fst known"
  by (induction known) auto

lemma distinct_sort_key: "distinct (map f xs) \<Longrightarrow> distinct (map f (sort_key f xs))"
  by (simp add: distinct_map)

lemma distinct_restorable:
  assumes "hm_wf known"
  shows "distinct (map ce_participant_pubkey (filter (restorable R) (sort_key ce_participant_pubkey
      (map (\<lambda>(p, a). cache_entry b64 presence peers t p a) known))))"
  using assms by (intro distinct_map_filter distinct_sort_key) (simp only: cache_entry_names hm_wf_def)

lemma restored_known:
  assumes "hm_wf known"
    and entries: "entries = filter (restorable R)
      (sort_key ce_participant_pubkey (map (\<lambda>(p, a). cache_entry b64 presence peers t p a) known))"
  shows "hm_get (pp_known (fold (\<lambda>entry. restore_known (ce_participant_pubkey entry) (ce_announcement entry)
            (ce_last_signal_seen_at entry)) entries presence_new)) p =
    (case hm_get known p of
       None \<Rightarrow> None
     | Some a \<Rightarrow> if restorable R (cache_entry b64 presence peers t p a) then Some a else None)"
proof -
  let ?all = "map (\<lambda>(p, a). cache_entry b64 presence peers t p a) known"
  have distinct_all: "distinct (map ce_participant_pubkey ?all)"
    using assms(1) by (simp only: cache_entry_names hm_wf_def)
  note distinct_entries = distinct_restorable [OF assms(1), of R b64 presence peers t, folded entries]
  have "find (\<lambda>e. ce_participant_pubkey e = p) entries =
      (case find (\<lambda>e. ce_participant_pubkey e = p) (sort_key ce_participant_pubkey ?all) of
         None \<Rightarrow> None | Some e \<Rightarrow> if restorable R e then Some e else None)"
    unfolding entries by (intro find_filter_unique distinct_sort_key distinct_all)
  also have "find (\<lambda>e. ce_participant_pubkey e = p) (sort_key ce_participant_pubkey ?all)
      = find (\<lambda>e. ce_participant_pubkey e = p) ?all"
    using distinct_all by (rule find_sort_unique)
  also have "\<dots> = map_option (cache_entry b64 presence peers t p) (hm_get known p)"
    by (rule find_cache_entry)
  finally show ?thesis
    using restore_fold(1) [OF distinct_entries, where presence = presence_new and p = p]
    by (auto simp: presence_new_def cache_entry_def Let_def hm_simps split: option.splits)
qed

text \<open>
  C37. A restart keeps what the daemon knew of its peers. Restoring what was written, in the same network and
  under the same key, makes known, with the announcement they had, exactly the peers that are
  members, are not the node itself and were heard of or connected within the cache's time-out. None of
  them is active before it announces itself again. When one was restored, the paths of members that
  are recent enough are back as well.
\<close>

theorem peer_cache_survives_restart:
  assumes codec: "codec_law J" and inv: "presence_inv presence"
    and built: "build_daemon_peer_cache_state b64 (cr_network_id R) (cr_own_pubkey R) presence book peers t = Some cache"
    and written: "write_daemon_peer_cache Y J cache files = (Inr (), files')"
    and readable: "fy_readable Y PeerCacheFile"
  shows "\<exists>restored presence' book'.
    restore_daemon_peer_cache Y J R files' presence_new book0 = (Inr restored, presence', book')
    \<and> pp_active presence' = []
    \<and> (\<forall>p. hm_get (pp_known presence') p =
          (case hm_get (pp_known presence) p of
             None \<Rightarrow> None
           | Some a \<Rightarrow> if restorable R (cache_entry b64 presence peers t p a) then Some a else None))
    \<and> book' = (if restored
          then snd (book_prune_stale (cr_now R) (persisted_path_cache_timeout_secs (cr_announce_interval_secs R))
                 (retain_participants (set (participant_pubkeys_hex (cr_app R))) book))
          else book0)"
proof -
  obtain raw where raw: "to_json J cache = Some raw" "hm_get files' PeerCacheFile = Some raw"
    using written by (auto simp: write_daemon_peer_cache_def write_file_def hm_simps split: option.splits if_splits)
  have read: "read_daemon_peer_cache Y J files' = Inr (Some cache)"
    using raw codec readable by (auto simp: read_daemon_peer_cache_def read_file_def hm_contains_iff codec_law_def)
  define entries where "entries = filter (restorable R) (sort_key ce_participant_pubkey
      (map (\<lambda>(p, a). cache_entry b64 presence peers t p a) (pp_known presence)))"
  have cache: "cache_is_ours R cache" "filter (restorable R) (cs_peers cache) = entries" "cs_path_book cache = book"
    using built by (auto simp: build_daemon_peer_cache_state_def Let_def cache_is_ours_def entries_def
        split: if_splits option.split)
  have wf: "hm_wf (pp_known presence)" using inv by (simp add: presence_inv_def)
  note known = restored_known [OF wf entries_def]
  have active: "pp_active (fold (\<lambda>entry. restore_known (ce_participant_pubkey entry) (ce_announcement entry)
            (ce_last_signal_seen_at entry)) entries presence_new) = []"
    using wf by (subst restore_fold(2)) (simp_all add: presence_new_def entries_def distinct_restorable)
  show ?thesis
  proof (cases "entries = []")
    case True
    then show ?thesis
      using known by (intro exI [of _ False]) (simp add: restore_daemon_peer_cache_def read cache presence_new_def)
  next
    case False
    then show ?thesis
      using known active by (intro exI [of _ True]) (simp add: restore_daemon_peer_cache_def read cache)
  qed
qed

text \<open>One peer, heard of ten seconds before.\<close>

definition sample_heard :: peer_presence_book where
  "sample_heard = snd (apply_signal ''bb22'' (Announce (sample_announcement ''192.0.2.7:51820'' 5)) 90 presence_new)"

definition sample_restore :: daemon_peer_cache_restore where
  "sample_restore = \<lparr>cr_app = sample_config, cr_network_id = ''home'', cr_own_pubkey = Some ''aa11'', cr_now = 100,
     cr_announce_interval_secs = 20\<rparr>"

definition sample_cache :: daemon_peer_cache_state where
  "sample_cache = the (build_daemon_peer_cache_state (\<lambda>_. None) ''home'' (Some ''aa11'') sample_heard book_new None 100)"

definition sample_cache_codec :: "daemon_peer_cache_state json_codec" where
  "sample_cache_codec = \<lparr>to_json = (\<lambda>cache. if cache = sample_cache then Some ''cache'' else None),
     from_json = (\<lambda>raw. if raw = ''cache'' then Some sample_cache else None)\<rparr>"

lemma sort_key_empty: "sort_key f xs = [] \<longleftrightarrow> xs = []"
  by (metis length_0_conv length_sort)

lemma sample_restorable:
  "restorable sample_restore (cache_entry (\<lambda>_. None) sample_heard None 100 ''bb22'' (sample_announcement ''192.0.2.7:51820'' 5))"
  by code_simp

lemma peer_cache_survives_restart_witness:
  "\<exists>restored presence' book'.
    restore_daemon_peer_cache \<lparr>fy_readable = (\<lambda>_. True), fy_writable = (\<lambda>_. True), fy_left = (\<lambda>_. None), fy_renames = (\<lambda>_. True)\<rparr>
      sample_cache_codec sample_restore [(PeerCacheFile, ''cache'')] presence_new book_new = (Inr restored, presence', book')
    \<and> pp_active presence' = [] \<and> hm_get (pp_known presence') ''bb22'' = Some (sample_announcement ''192.0.2.7:51820'' 5)"
proof -
  let ?Y = "\<lparr>fy_readable = (\<lambda>_. True), fy_writable = (\<lambda>_. True), fy_left = (\<lambda>_. None), fy_renames = (\<lambda>_. True)\<rparr>"
  have codec: "codec_law sample_cache_codec" by (simp add: codec_law_def sample_cache_codec_def)
  have inv: "presence_inv sample_heard"
    unfolding sample_heard_def by (intro apply_signal_inv presence_new_inv)
  have known: "hm_get (pp_known sample_heard) ''bb22'' = Some (sample_announcement ''192.0.2.7:51820'' 5)"
    by code_simp
  then have "pp_known sample_heard \<noteq> []" by (auto simp: hm_get_def)
  then have built: "build_daemon_peer_cache_state (\<lambda>_. None) (cr_network_id sample_restore) (cr_own_pubkey sample_restore)
      sample_heard book_new None 100 = Some sample_cache"
    by (simp add: sample_cache_def build_daemon_peer_cache_state_def Let_def sample_restore_def sort_key_empty)
  have written: "write_daemon_peer_cache ?Y sample_cache_codec sample_cache [] = (Inr (), [(PeerCacheFile, ''cache'')])"
    by (simp add: write_daemon_peer_cache_def write_file_def sample_cache_codec_def hm_insert_def)
  have "fy_readable ?Y PeerCacheFile" by simp
  from peer_cache_survives_restart [OF codec inv built written this, of book_new] known sample_restorable
  show ?thesis by (auto dest: spec [of _ "''bb22''"])
qed

end
