(* ===== verification/Relay_Operator.thy ===== *)
theory Relay_Operator
  imports Signal_Endpoints Config_Inv
begin

text \<open>
  The relay that a node runs for others: \<open>sync_local_relay_operator\<close> of
  \<open>crates/nostr-vpn-cli/src/daemon_runtime.rs\<close>, by which the daemon keeps a child process in step with
  its configuration. The host's answers are in the environment; what was done to children is a trace.
\<close>

definition LOCAL_NAT_ASSIST_PORT :: nat where "LOCAL_NAT_ASSIST_PORT = 3478"

record operator_process =
  op_pid :: u32
  op_advertise_host :: string
  op_relays :: "string list"
  op_secret_key :: string
  op_relay_enabled :: bool
  op_nat_assist_enabled :: bool

text \<open>A child was started with arguments, was killed and awaited, or was found to have ended.\<close>

datatype child_event = Started u32 "string list" | Killed u32 | Ended u32

record relay_operator =
  oo_process :: "operator_process option"
  oo_running :: bool
  oo_pid :: "u32 option"
  oo_status :: string
  oo_nat_assist_running :: bool
  oo_nat_assist_status :: string
  oo_children :: "child_event list"

definition relay_operator_new :: "app_config \<Rightarrow> relay_operator" where
  "relay_operator_new app =
    \<lparr>oo_process = None, oo_running = False, oo_pid = None,
     oo_status = (if ac_relay_for_others app then ''Waiting for relay operator startup''
                  else ''Relay operator disabled''),
     oo_nat_assist_running = False,
     oo_nat_assist_status = (if ac_provide_nat_assist app then ''Waiting for NAT assist startup''
                             else ''NAT assist disabled''),
     oo_children = []\<rparr>"

text \<open>
  The answer to a poll: an error, still running, or how it ended. The error when the binary is
  missing; whether the log file can be opened; the error or the process of a start.
\<close>

record operator_env =
  oe_poll :: "u32 \<Rightarrow> unit + string option"
  oe_missing :: "string option"
  oe_log_opens :: bool
  oe_spawn :: "string list \<Rightarrow> string + u32"
  oe_state_file :: string

fun relay_operator_ip_is_viable :: "ip_addr \<Rightarrow> bool" where
  "relay_operator_ip_is_viable (V4 ip) \<longleftrightarrow>
    ip \<noteq> 0 \<and> \<not> is_loopback ip \<and> \<not> is_private ip \<and> \<not> is_link_local ip \<and> v4_octet 0 ip div 16 \<noteq> 14"
| "relay_operator_ip_is_viable (V6 ip) \<longleftrightarrow>
    ip \<noteq> 0 \<and> \<not> v6_is_loopback ip \<and> \<not> v6_is_unique_local ip \<and> \<not> v6_is_unicast_link_local ip
    \<and> v6_segment 0 ip div 256 \<noteq> 255"

definition relay_operator_host_from_endpoint :: "string \<Rightarrow> string option" where
  "relay_operator_host_from_endpoint endpoint =
    (case parse_socket_addr (trim endpoint) of
       None \<Rightarrow> None
     | Some addr \<Rightarrow> if relay_operator_ip_is_viable (sock_ip addr) then Some (print_ip (sock_ip addr)) else None)"

definition relay_operator_advertise_host :: "app_config \<Rightarrow> discovered_endpoint option \<Rightarrow> string option" where
  "relay_operator_advertise_host app public_signal_endpoint =
    (case Option.bind public_signal_endpoint (\<lambda>d. relay_operator_host_from_endpoint (dp_endpoint d)) of
       Some host \<Rightarrow> Some host
     | None \<Rightarrow> relay_operator_host_from_endpoint (nd_endpoint (ac_node app)))"

definition stop_local_relay_operator :: "string \<Rightarrow> string \<Rightarrow> relay_operator \<Rightarrow> relay_operator" where
  "stop_local_relay_operator relay_status nat_assist_status s =
    \<lparr>oo_process = None, oo_running = False, oo_pid = None, oo_status = relay_status,
     oo_nat_assist_running = False, oo_nat_assist_status = nat_assist_status,
     oo_children = (case oo_process s of None \<Rightarrow> oo_children s | Some p \<Rightarrow> oo_children s @ [Killed (op_pid p)])\<rparr>"

text \<open>The status texts for what is enabled; the others read disabled.\<close>

definition relay_text :: "app_config \<Rightarrow> string \<Rightarrow> string" where
  "relay_text app status = (if ac_relay_for_others app then status else ''Relay operator disabled'')"

definition nat_assist_text :: "app_config \<Rightarrow> string \<Rightarrow> string" where
  "nat_assist_text app status = (if ac_provide_nat_assist app then status else ''NAT assist disabled'')"

definition not_running :: "app_config \<Rightarrow> string \<Rightarrow> string \<Rightarrow> relay_operator \<Rightarrow> relay_operator" where
  "not_running app relay_status nat_assist_status s =
    s\<lparr>oo_running := False, oo_pid := None, oo_status := relay_text app relay_status,
      oo_nat_assist_running := False, oo_nat_assist_status := nat_assist_text app nat_assist_status\<rparr>"

text \<open>A child that has ended is no longer the operator; \<open>None\<close> when the poll fails.\<close>

definition poll_operator :: "operator_env \<Rightarrow> app_config \<Rightarrow> relay_operator \<Rightarrow> relay_operator option" where
  "poll_operator E app s =
    (case oo_process s of
       None \<Rightarrow> Some s
     | Some p \<Rightarrow>
         (case oe_poll E (op_pid p) of
            Inl _ \<Rightarrow> None
          | Inr None \<Rightarrow> Some s
          | Inr (Some status) \<Rightarrow>
              Some (not_running app (''Relay operator exited ('' @ status @ '')'') (''NAT assist exited ('' @ status @ '')'')
                (s\<lparr>oo_process := None, oo_children := oo_children s @ [Ended (op_pid p)]\<rparr>))))"

definition operator_matches :: "app_config \<Rightarrow> string list \<Rightarrow> string \<Rightarrow> operator_process \<Rightarrow> bool" where
  "operator_matches app relays host p \<longleftrightarrow>
    op_advertise_host p = host \<and> op_relays p = relays \<and> op_secret_key p = no_secret_key (ac_nostr app)
    \<and> op_relay_enabled p = ac_relay_for_others app \<and> op_nat_assist_enabled p = ac_provide_nat_assist app"

text \<open>What is told of a child that runs.\<close>

definition running_as :: "operator_process \<Rightarrow> relay_operator \<Rightarrow> relay_operator" where
  "running_as p s =
    (let pid = dec (unat (op_pid p))
     in s\<lparr>oo_running := op_relay_enabled p, oo_pid := (if op_relay_enabled p then Some (op_pid p) else None),
          oo_status := (if op_relay_enabled p
            then ''Relaying for others on '' @ op_advertise_host p @ '' (pid '' @ pid @ '')''
            else ''Relay operator disabled''),
          oo_nat_assist_running := op_nat_assist_enabled p,
          oo_nat_assist_status := (if op_nat_assist_enabled p
            then ''Providing NAT assist on '' @ op_advertise_host p @ '':'' @ dec LOCAL_NAT_ASSIST_PORT @ '' (pid '' @ pid @ '')''
            else ''NAT assist disabled'')\<rparr>)"

definition operator_arguments :: "operator_env \<Rightarrow> app_config \<Rightarrow> string list \<Rightarrow> string \<Rightarrow> string list" where
  "operator_arguments E app relays host =
    [''--secret-key'', no_secret_key (ac_nostr app), ''--advertise-host'', host, ''--state-file'', oe_state_file E]
    @ (if ac_relay_for_others app then [] else [''--disable-relay''])
    @ (if ac_provide_nat_assist app
       then [''--enable-nat-assist'', ''--nat-assist-port'', dec LOCAL_NAT_ASSIST_PORT] else [])
    @ concat (map (\<lambda>relay. [''--relay'', relay]) relays)"

definition start_operator ::
  "operator_env \<Rightarrow> app_config \<Rightarrow> string list \<Rightarrow> string \<Rightarrow> relay_operator \<Rightarrow> bool \<times> relay_operator" where
  "start_operator E app relays host s =
    (case oe_missing E of
       Some e \<Rightarrow> (True, not_running app (''Relay operator unavailable ('' @ e @ '')'')
         (''NAT assist unavailable ('' @ e @ '')'') s)
     | None \<Rightarrow>
         if \<not> oe_log_opens E then (False, s)
         else (case oe_spawn E (operator_arguments E app relays host) of
             Inl e \<Rightarrow> (True, not_running app (''Relay operator failed to start ('' @ e @ '')'')
               (''NAT assist failed to start ('' @ e @ '')'') s)
           | Inr pid \<Rightarrow>
               (let p = \<lparr>op_pid = pid, op_advertise_host = host, op_relays = relays,
                         op_secret_key = no_secret_key (ac_nostr app), op_relay_enabled = ac_relay_for_others app,
                         op_nat_assist_enabled = ac_provide_nat_assist app\<rparr>
                in (True, running_as p (s\<lparr>oo_process := Some p, oo_children := oo_children s @
                     [Started pid (operator_arguments E app relays host)]\<rparr>)))))"

text \<open>Whether the synchronisation succeeded, and the operator after it.\<close>

definition sync_local_relay_operator ::
  "operator_env \<Rightarrow> app_config \<Rightarrow> string list \<Rightarrow> discovered_endpoint option \<Rightarrow> relay_operator \<Rightarrow> bool \<times> relay_operator" where
  "sync_local_relay_operator E app relays public_signal_endpoint s0 =
    (case poll_operator E app s0 of
       None \<Rightarrow> (False, s0)
     | Some s1 \<Rightarrow>
         if \<not> ac_relay_for_others app \<and> \<not> ac_provide_nat_assist app
         then (True, stop_local_relay_operator ''Relay operator disabled'' ''NAT assist disabled'' s1)
         else if relays = []
         then (True, stop_local_relay_operator
           (relay_text app ''Add at least one Nostr relay to relay for others'')
           (nat_assist_text app ''Add at least one Nostr relay to provide NAT assist'') s1)
         else (case relay_operator_advertise_host app public_signal_endpoint of
             None \<Rightarrow> (True, stop_local_relay_operator
               (relay_text app ''Waiting for a public relay ingress address'')
               (nat_assist_text app ''Waiting for a public NAT-assist address'') s1)
           | Some host \<Rightarrow>
               (let s2 = (case oo_process s1 of
                      Some p \<Rightarrow> if operator_matches app relays host p then s1
                        else stop_local_relay_operator ''Restarting relay operator'' ''Restarting NAT assist'' s1
                    | None \<Rightarrow> s1)
                in (case oo_process s2 of
                      Some p \<Rightarrow> (True, running_as p s2)
                    | None \<Rightarrow> start_operator E app relays host s2))))"

section \<open>One child, as configured\<close>

text \<open>The children that were started and neither killed nor found to have ended.\<close>

fun child_step :: "u32 list \<Rightarrow> child_event \<Rightarrow> u32 list" where
  "child_step live (Started pid _) = pid # live"
| "child_step live (Killed pid) = remove1 pid live"
| "child_step live (Ended pid) = remove1 pid live"

definition living_children :: "relay_operator \<Rightarrow> u32 list" where
  "living_children s = foldl child_step [] (oo_children s)"

definition operator_inv :: "relay_operator \<Rightarrow> bool" where
  "operator_inv s \<longleftrightarrow> living_children s = (case oo_process s of None \<Rightarrow> [] | Some p \<Rightarrow> [op_pid p])"

lemma operator_inv_new: "operator_inv (relay_operator_new app)"
  by (simp add: operator_inv_def living_children_def relay_operator_new_def)

lemma operator_inv_cong:
  "oo_process s' = oo_process s \<Longrightarrow> oo_children s' = oo_children s \<Longrightarrow> operator_inv s' = operator_inv s"
  by (simp add: operator_inv_def living_children_def)

lemma told_only [simp]:
  "oo_process (running_as p s) = oo_process s" "oo_children (running_as p s) = oo_children s"
  "oo_process (not_running app a b s) = oo_process s" "oo_children (not_running app a b s) = oo_children s"
  "operator_inv (running_as p s) = operator_inv s" "operator_inv (not_running app a b s) = operator_inv s"
  by (simp_all add: running_as_def not_running_def Let_def operator_inv_def living_children_def)

lemma stop_operator:
  "oo_process (stop_local_relay_operator a b s) = None"
  "operator_inv s \<Longrightarrow> operator_inv (stop_local_relay_operator a b s)"
  by (auto simp: stop_local_relay_operator_def operator_inv_def living_children_def split: option.splits)

lemma poll_inv: "poll_operator E app s = Some s' \<Longrightarrow> operator_inv s \<Longrightarrow> operator_inv s'"
  by (auto simp: poll_operator_def operator_inv_def living_children_def not_running_def
      split: option.splits sum.splits)

lemma start_operator_facts:
  assumes "oo_process s = None" "start_operator E app relays host s = (ok, s')"
  shows "operator_inv s \<Longrightarrow> operator_inv s'"
    and "oo_process s' = Some p \<Longrightarrow> operator_matches app relays host p"
    and "ok \<Longrightarrow> oo_process s' = None \<Longrightarrow>
      oe_missing E \<noteq> None \<or> (\<exists>e. oe_spawn E (operator_arguments E app relays host) = Inl e)"
  using assms
  by (auto simp: start_operator_def Let_def operator_matches_def operator_inv_def living_children_def
      split: option.splits sum.splits if_splits)

lemma sync_inv:
  assumes "operator_inv s" shows "operator_inv (snd (sync_local_relay_operator E app relays public s))"
proof (cases "poll_operator E app s")
  case None
  then show ?thesis using assms by (simp add: sync_local_relay_operator_def)
next
  case (Some s1)
  from poll_inv [OF this assms] have s1: "operator_inv s1" .
  have started: "operator_inv (snd (start_operator E app relays host t))" if "oo_process t = None" "operator_inv t" for host t
    using start_operator_facts(1) [OF that(1) prod.collapse [symmetric] that(2)] by simp
  show ?thesis
    using s1 by (simp add: sync_local_relay_operator_def Some Let_def stop_operator started split: option.split)
qed

text \<open>The operator after synchronisations, each with an environment, a configuration, relays and an endpoint.\<close>

definition operator_step ::
  "operator_env \<times> app_config \<times> string list \<times> discovered_endpoint option \<Rightarrow> relay_operator \<Rightarrow> relay_operator" where
  "operator_step = (\<lambda>(E, app, relays, public). \<lambda>s. snd (sync_local_relay_operator E app relays public s))"

interpretation operator_run: stepped operator_step operator_inv
  by unfold_locales (auto simp: operator_step_def sync_inv)

text \<open>What the configuration asks for: a host to advertise, when a child is to run at all.\<close>

definition operator_wanted :: "app_config \<Rightarrow> string list \<Rightarrow> discovered_endpoint option \<Rightarrow> string option" where
  "operator_wanted app relays public =
    (if (ac_relay_for_others app \<or> ac_provide_nat_assist app) \<and> relays \<noteq> []
     then relay_operator_advertise_host app public else None)"


definition sample_operator_env :: operator_env where
  "sample_operator_env = \<lparr>oe_poll = (\<lambda>_. Inr None), oe_missing = None, oe_log_opens = True, oe_spawn = (\<lambda>_. Inr 7),
     oe_state_file = ''state''\<rparr>"

definition sample_operator_config :: app_config where
  "sample_operator_config = (app_config_raw sample_host)\<lparr>ac_relay_for_others := True\<rparr>"

definition sample_public :: "discovered_endpoint option" where
  "sample_public = Some \<lparr>dp_listen_port = 51820, dp_endpoint = ''203.0.113.7:51820''\<rparr>"

lemma sample_operator_started:
  "oo_process (snd (sync_local_relay_operator sample_operator_env sample_operator_config [''wss://r''] sample_public
     (relay_operator_new sample_operator_config))) \<noteq> None"
  by code_simp


end
