(* ===== verification/Daemon_Session.thy ===== *)
theory Daemon_Session
  imports Peer_Cache Relay_Fallback Network_Invite Linux_Tunnel Relay_Operator
begin

text \<open>
  The daemon's loop on Linux: \<open>crates/nostr-vpn-cli/src/session_runtime.rs\<close> and the steps in \<open>main.rs\<close>. Its
  state is made of the states of the components; a step is what the loop does for one event.
  Everything a step learns from outside is in the environment of the step, whose clock stands still
  meanwhile. What is only logged is left out.
\<close>

section \<open>The network as seen last\<close>

record network_snapshot =
  ns_default_interface :: "string option"
  ns_primary_ipv4 :: "ipv4_addr option"
  ns_primary_ipv6 :: "ipv6_addr option"
  ns_gateway_ipv4 :: "ipv4_addr option"
  ns_gateway_ipv6 :: "ipv6_addr option"

definition snapshot_fingerprint :: "network_snapshot \<Rightarrow> string" where
  "snapshot_fingerprint s = join ''|''
    [or_blank (ns_default_interface s), or_blank (map_option (\<lambda>ip. print_ip (V4 ip)) (ns_primary_ipv4 s)),
     or_blank (map_option (\<lambda>ip. print_ip (V6 ip)) (ns_primary_ipv6 s)),
     or_blank (map_option (\<lambda>ip. print_ip (V4 ip)) (ns_gateway_ipv4 s)),
     or_blank (map_option (\<lambda>ip. print_ip (V6 ip)) (ns_gateway_ipv6 s))]"

definition changed_since :: "network_snapshot \<Rightarrow> network_snapshot \<Rightarrow> bool" where
  "changed_since latest previous \<longleftrightarrow> snapshot_fingerprint latest \<noteq> snapshot_fingerprint previous"

definition snapshot_is_empty :: "network_snapshot \<Rightarrow> bool" where
  "snapshot_is_empty s \<longleftrightarrow> ns_default_interface s = None \<and> ns_primary_ipv4 s = None \<and> ns_primary_ipv6 s = None
    \<and> ns_gateway_ipv4 s = None \<and> ns_gateway_ipv6 s = None"

definition prefer_nonempty_network_snapshot :: "network_snapshot \<Rightarrow> network_snapshot \<Rightarrow> network_snapshot" where
  "prefer_nonempty_network_snapshot previous latest =
    (if snapshot_is_empty latest \<and> \<not> snapshot_is_empty previous then previous else latest)"

definition prefer_nonself_tunnel_snapshot ::
  "tunnel_runtime \<Rightarrow> network_snapshot \<Rightarrow> network_snapshot \<Rightarrow> network_snapshot" where
  "prefer_nonself_tunnel_snapshot rt previous latest0 =
    (let latest = prefer_nonempty_network_snapshot previous latest0
     in (case ns_default_interface latest of
           Some iface \<Rightarrow> if owns_interface rt iface then previous else latest
         | None \<Rightarrow> latest))"

section \<open>State and environment\<close>

text \<open>\<open>Because s\<close> is the text \<open>s\<close> followed by the text of an error.\<close>

datatype session_status = Told string | Because string

record daemon =
  dm_app :: app_config
  dm_network_id :: string
  dm_relays :: "string list"
  dm_own_pubkey :: "string option"
  dm_expected_peers :: nat
  dm_presence :: peer_presence_book
  dm_paths :: peer_path_book
  dm_outbound :: outbound_announce_book
  dm_fallback :: relay_fallback
  dm_runtime :: tunnel_runtime
  dm_trace :: trace
  dm_dns :: "(string, ipv4_addr) hmap option"
  dm_snapshot :: network_snapshot
  dm_public_endpoint :: "discovered_endpoint option"
  dm_lib :: nostr_lib
  dm_client :: signaling_client
  dm_service_lib :: nostr_lib
  dm_service :: relay_service_client
  dm_service_connected :: bool
  dm_outbox :: "nostr_event list"
  dm_operator :: relay_operator
  dm_files :: files
  dm_last_cache :: "string option"
  dm_session_enabled :: bool
  dm_status :: session_status
  dm_relay_connected :: bool
  dm_reconnect_attempt :: u32
  dm_reconnect_due :: nat
  dm_last_punch :: "(string \<times> nat) option"

text \<open>
  Instants are milliseconds. \<open>dn_lib\<close> makes a client library of a secret key, none when the key does not
  parse; \<open>dn_punch\<close> gives the error of an attempt at punching, if any; \<open>dn_mapped\<close> is the endpoint of the port
  mapping after a refresh and \<open>dn_renewed\<close> whether a renewal changed it, none when it failed; \<open>dn_dns_bound\<close>
  says whether the MagicDNS server finds a port, \<open>dn_alone\<close> whether no other daemon runs.
\<close>

record daemon_env =
  dn_keys :: key_env
  dn_node :: host_env
  dn_host :: host
  dn_view :: node_view
  dn_fs :: file_system
  dn_config_codec :: "app_config json_codec"
  dn_result_codec :: "daemon_control_result json_codec"
  dn_cache_codec :: "daemon_peer_cache_state json_codec"
  dn_cache_compact :: "daemon_peer_cache_state \<Rightarrow> string option"
  dn_signal_codec :: "signal_envelope json_codec"
  dn_service_codec :: "service_envelope json_codec"
  dn_lib :: "string \<Rightarrow> nostr_lib option"
  dn_add_relay :: "string \<Rightarrow> bool"
  dn_subscribe :: "event_filter list \<Rightarrow> bool"
  dn_service_add_relay :: "string \<Rightarrow> bool"
  dn_service_subscribe :: "event_filter list \<Rightarrow> bool"
  dn_publish_text :: "publish_error \<Rightarrow> string"
  dn_file_text :: "file_error \<Rightarrow> string"
  dn_discovery :: discovery_env
  dn_mapped :: "string option"
  dn_renewed :: "bool option"
  dn_punch :: "socket_addr \<Rightarrow> nat \<Rightarrow> string option"
  dn_discovered :: "(string, node_record) hmap option"
  dn_probe :: "string \<Rightarrow> probe_env"
  dn_captured :: network_snapshot
  dn_operator :: operator_env
  dn_dns_bound :: bool
  dn_alone :: bool
  dn_overrides :: session_overrides
  dn_announce_interval_secs :: u64
  dn_restart_due :: bool
  dn_now :: u64
  dn_instant :: nat

definition session_active :: "daemon \<Rightarrow> bool" where
  "session_active dm = daemon_session_active (dm_session_enabled dm) (dm_expected_peers dm)"

definition listens_to_relays :: "daemon \<Rightarrow> bool" where
  "listens_to_relays dm =
    relay_session_active (dm_session_enabled dm) (dm_expected_peers dm) (join_requests_enabled (dm_app dm))"

definition idle_status :: "daemon \<Rightarrow> session_status" where
  "idle_status dm =
    Told (daemon_session_idle_status (dm_session_enabled dm) (dm_expected_peers dm) (join_requests_enabled (dm_app dm)))"

definition daemon_reconnect_backoff_delay :: "u32 \<Rightarrow> nat" where
  "daemon_reconnect_backoff_delay attempt =
    (if attempt \<le> 1 then 1 else if attempt = 2 then 2 else if attempt = 3 then 4 else if attempt = 4 then 8
     else if attempt = 5 then 16 else 30)"

definition publish_error_requires_reconnect :: "string \<Rightarrow> bool" where
  "publish_error_requires_reconnect message =
    (let lower = to_ascii_lowercase message
     in list_ex (\<lambda>text. str_contains text lower)
       [''client not connected'', ''relay pool shutdown'', ''relay not connected'', ''status changed'',
        ''recv message response timeout'', ''connection closed'', ''broken pipe''])"

text \<open>The next attempt to connect comes later; \<open>status\<close> makes a status of the delay.\<close>

definition retry_later :: "daemon_env \<Rightarrow> (nat \<Rightarrow> session_status) \<Rightarrow> daemon \<Rightarrow> daemon" where
  "retry_later E status dm =
    (let attempt = saturating_add (dm_reconnect_attempt dm) 1;
         delay = daemon_reconnect_backoff_delay attempt
     in dm\<lparr>dm_reconnect_attempt := attempt, dm_reconnect_due := dn_instant E + 1000 * delay, dm_status := status delay\<rparr>)"

section \<open>The tunnel\<close>

definition runtime_peers_of :: "daemon_env \<Rightarrow> daemon \<Rightarrow> runtime_peers option \<times> daemon" where
  "runtime_peers_of E dm =
    (case runtime_peer_status (dn_host E) (nv_lower (dn_view E)) (dm_runtime dm) (dm_trace dm) of (r, t) \<Rightarrow>
      (case r of Inl _ \<Rightarrow> None | Inr peers \<Rightarrow> Some peers, dm\<lparr>dm_trace := t\<rparr>))"

definition listen_port_of :: "daemon \<Rightarrow> u16" where
  "listen_port_of dm = runtime_listen_port (dm_runtime dm) (nd_listen_port (ac_node (dm_app dm)))"

definition local_endpoints_of :: "daemon_env \<Rightarrow> daemon \<Rightarrow> string list" where
  "local_endpoints_of E dm = runtime_local_signal_endpoints (nv_detected_ipv4 (dn_view E))
     (nv_interfaces (dn_view E)) (dm_app dm) (listen_port_of dm)"

definition apply_announcements :: "daemon_env \<Rightarrow> announcements \<Rightarrow> daemon \<Rightarrow> (apply_error + unit) \<times> daemon" where
  "apply_announcements E announcements dm =
    (case apply_tunnel (dn_host E) (dn_view E) (dm_app dm) (dm_own_pubkey dm) announcements (dn_now E)
        (dm_paths dm) (dm_runtime dm, dm_trace dm) of (r, book, rt, t) \<Rightarrow>
      (r, dm\<lparr>dm_paths := book, dm_runtime := rt, dm_trace := t\<rparr>))"

definition apply_presence_runtime_update :: "daemon_env \<Rightarrow> daemon \<Rightarrow> (apply_error + unit) \<times> daemon" where
  "apply_presence_runtime_update E dm =
    (let announcements = effective_peer_announcements_for_runtime (pp_known (dm_presence dm))
           (rf_sessions (dm_fallback dm)) (dn_now E)
     in (case apply_announcements E announcements dm of
           (Inl e, dm) \<Rightarrow> (Inl e, dm)
         | (Inr _, dm) \<Rightarrow> (Inr (), dm\<lparr>dm_dns :=
             map_option (\<lambda>_. build_runtime_magic_dns_records (dn_keys E) (dm_app dm) announcements) (dm_dns dm)\<rparr>)))"

text \<open>The same, with a status when it fails.\<close>

definition update_tunnel :: "daemon_env \<Rightarrow> session_status \<Rightarrow> daemon \<Rightarrow> daemon" where
  "update_tunnel E failure dm =
    (case apply_presence_runtime_update E dm of (Inl _, dm) \<Rightarrow> dm\<lparr>dm_status := failure\<rparr> | (Inr _, dm) \<Rightarrow> dm)"

definition direct_peer_announcements :: "daemon \<Rightarrow> announcements" where
  "direct_peer_announcements dm =
    (if dm_relay_connected dm then pp_active (dm_presence dm) else pp_known (dm_presence dm))"

section \<open>Punching\<close>

text \<open>Twenty attempts while the port is busy: \<open>attempts\<close> left, the number of the next one, the error so far.\<close>

fun hole_punch_with_retry :: "(nat \<Rightarrow> string option) \<Rightarrow> nat \<Rightarrow> nat \<Rightarrow> string option \<Rightarrow> string option" where
  "hole_punch_with_retry punch 0 k last_error =
    Some (case last_error of None \<Rightarrow> ''failed to bind hole-punch socket'' | Some e \<Rightarrow> e)"
| "hole_punch_with_retry punch (Suc n) k last_error =
    (case punch k of
       None \<Rightarrow> None
     | Some e \<Rightarrow> if is_resource_busy_message e then hole_punch_with_retry punch n (Suc k) (Some e) else Some e)"

text \<open>The targets in order, up to the first that fails.\<close>

fun punch_targets :: "(socket_addr \<Rightarrow> nat \<Rightarrow> string option) \<Rightarrow> socket_addr list \<Rightarrow> string option" where
  "punch_targets punch [] = None"
| "punch_targets punch (target # targets) =
    (case hole_punch_with_retry (punch target) 20 0 None of
       Some e \<Rightarrow> Some e | None \<Rightarrow> punch_targets punch targets)"

datatype punch_error = PunchPanic select_panic | PunchApply apply_error | PunchFailed string

definition refresh_endpoint :: "daemon_env \<Rightarrow> u16 \<Rightarrow> daemon \<Rightarrow> daemon" where
  "refresh_endpoint E listen_port dm = dm\<lparr>dm_public_endpoint :=
     refresh_public_signal_endpoint (dn_discovery E) (dm_app dm) listen_port (dm_public_endpoint dm)\<rparr>"

definition refresh_mapped_endpoint :: "daemon_env \<Rightarrow> u16 \<Rightarrow> daemon \<Rightarrow> daemon" where
  "refresh_mapped_endpoint E listen_port dm = dm\<lparr>dm_public_endpoint :=
     sync_public_signal_endpoint_from_mapping_or_stun (dn_discovery E) (dm_app dm) listen_port (dn_mapped E)
       (dm_public_endpoint dm)\<rparr>"

definition punch_due :: "nat \<Rightarrow> string \<Rightarrow> (string \<times> nat) option \<Rightarrow> bool" where
  "punch_due instant fingerprint last_attempt =
    (case last_attempt of
       None \<Rightarrow> True
     | Some (last_fingerprint, last_at) \<Rightarrow> last_fingerprint \<noteq> fingerprint \<or> 10000 \<le> instant - last_at)"

text \<open>The tunnel makes room for the punching and is set up again, with the announcements as they are.\<close>

definition run_nat_punch ::
  "daemon_env \<Rightarrow> announcements \<Rightarrow> u16 \<Rightarrow> string \<Rightarrow> socket_addr list \<Rightarrow> daemon \<Rightarrow> (punch_error + unit) \<times> daemon" where
  "run_nat_punch E announcements listen_port fingerprint targets dm =
    (case stop_tunnel (dn_host E) (dm_runtime dm, dm_trace dm) of (rt, t) \<Rightarrow>
      (let dm1 = refresh_endpoint E listen_port
             (dm\<lparr>dm_runtime := rt\<lparr>tr_active_listen_port := Some listen_port\<rparr>, dm_trace := t\<rparr>);
           punched = punch_targets (dn_punch E) targets
       in (case apply_announcements E announcements dm1 of
             (Inl e, dm2) \<Rightarrow> (Inl (PunchApply e), dm2)
           | (Inr _, dm2) \<Rightarrow>
               (case punched of
                  Some e \<Rightarrow> (Inl (PunchFailed e), dm2)
                | None \<Rightarrow> (Inr (), dm2\<lparr>dm_last_punch := Some (fingerprint, dn_instant E)\<rparr>)))))"

definition maybe_run_nat_punch ::
  "daemon_env \<Rightarrow> announcements \<Rightarrow> daemon \<Rightarrow> (punch_error + unit) \<times> daemon" where
  "maybe_run_nat_punch E announcements dm0 =
    (if \<not> nat_enabled (ac_nat (dm_app dm0)) then (Inr (), dm0\<lparr>dm_public_endpoint := None\<rparr>)
     else (let listen_port = listen_port_of dm0;
               dm1 = (if public_endpoint_for_listen_port (dm_public_endpoint dm0) listen_port = None
                      then refresh_endpoint E listen_port dm0 else dm0)
           in (case runtime_peers_of E dm1 of (runtime_peers, dm) \<Rightarrow>
             (case pending_nat_punch_targets_for_local_endpoints Linux (nv_b64 (dn_view E)) (dm_app dm) (dm_own_pubkey dm)
                 announcements (dm_paths dm) runtime_peers (local_endpoints_of E dm) (dn_now E) of
                Inl panic \<Rightarrow> (Inl (PunchPanic panic), dm)
              | Inr targets \<Rightarrow>
                  (case nat_punch_fingerprint targets listen_port of
                     None \<Rightarrow> (Inr (), dm\<lparr>dm_last_punch := None\<rparr>)
                   | Some fingerprint \<Rightarrow>
                       if \<not> punch_due (dn_instant E) fingerprint (dm_last_punch dm) then (Inr (), dm)
                       else run_nat_punch E announcements listen_port fingerprint targets dm)))))"

text \<open>A failure of punching is only logged.\<close>

definition try_nat_punch :: "daemon_env \<Rightarrow> announcements \<Rightarrow> daemon \<Rightarrow> daemon" where
  "try_nat_punch E announcements dm = snd (maybe_run_nat_punch E announcements dm)"

text \<open>Heartbeats: whom they go to; the query for the peers is all that they leave.\<close>

definition heartbeat_pending_tunnel_peers ::
  "daemon_env \<Rightarrow> announcements \<Rightarrow> daemon \<Rightarrow> ipv4_addr list \<times> daemon" where
  "heartbeat_pending_tunnel_peers E announcements dm0 =
    (case runtime_peers_of E dm0 of (runtime_peers, dm) \<Rightarrow>
      (pending_tunnel_heartbeat_ips (nv_b64 (dn_view E)) (dn_now E) (dm_app dm) (dm_own_pubkey dm) announcements
         runtime_peers, dm))"

definition try_heartbeat :: "daemon_env \<Rightarrow> announcements \<Rightarrow> daemon \<Rightarrow> daemon" where
  "try_heartbeat E announcements dm = snd (heartbeat_pending_tunnel_peers E announcements dm)"

end
