(* ===== verification/Daemon_Loop.thy ===== *)
theory Daemon_Loop
  imports Daemon_Session
begin

text \<open>
  The events of the daemon's loop: its five timers, the messages of peers and of relay services, the
  control requests, and the runs made of them.
\<close>

section \<open>Publishing\<close>

definition publish_payload :: "daemon_env \<Rightarrow> signal_payload \<Rightarrow> daemon \<Rightarrow> (publish_error + unit) \<times> daemon" where
  "publish_payload E payload dm =
    (case publish_signal (dm_lib dm) (dn_signal_codec E) (dn_now E) (dm_client dm) payload (dm_outbox dm) of
       (r, outbox) \<Rightarrow> (r, dm\<lparr>dm_outbox := outbox\<rparr>))"

definition publish_roster :: "daemon_env \<Rightarrow> string list option \<Rightarrow> daemon \<Rightarrow> daemon" where
  "publish_roster E recipients dm = dm\<lparr>dm_outbox :=
     snd (publish_active_network_roster (dn_keys E) (dm_lib dm) (dn_signal_codec E) (dn_now E) (dm_client dm)
       (dm_app dm) recipients (dm_outbox dm))\<rparr>"

text \<open>What the announcement says of a relay session that is active.\<close>

definition relay_fields :: "u64 \<Rightarrow> active_relay_session option \<Rightarrow> relay_announcement_details" where
  "relay_fields now session =
    (case session of
       Some s \<Rightarrow>
         if relay_session_is_active s now
         then \<lparr>rd_relay_endpoint = Some (as_advertised_ingress_endpoint s), rd_relay_pubkey = Some (as_relay_pubkey s),
               rd_relay_expires_at = Some (as_expires_at s)\<rparr>
         else \<lparr>rd_relay_endpoint = None, rd_relay_pubkey = None, rd_relay_expires_at = None\<rparr>
     | None \<Rightarrow> \<lparr>rd_relay_endpoint = None, rd_relay_pubkey = None, rd_relay_expires_at = None\<rparr>)"

definition announcement_to :: "daemon_env \<Rightarrow> announcements \<Rightarrow> string \<Rightarrow> daemon \<Rightarrow> peer_announcement" where
  "announcement_to E peer_announcements participant dm =
    (let app = dm_app dm; listen_port = listen_port_of dm; own_local_endpoints = local_endpoints_of E dm;
         fallback = (case own_local_endpoints of
             endpoint # _ \<Rightarrow> endpoint | [] \<Rightarrow> local_signal_endpoint (nv_detected_ipv4 (dn_view E)) app listen_port);
         local_endpoint = (case Option.bind (hm_get peer_announcements participant)
               (\<lambda>a. select_local_signal_endpoint_for_peer a own_local_endpoints) of
             Some endpoint \<Rightarrow> endpoint | None \<Rightarrow> fallback);
         endpoint = (case public_endpoint_for_listen_port (dm_public_endpoint dm) listen_port of
             Some endpoint \<Rightarrow> endpoint | None \<Rightarrow> local_endpoint)
     in build_explicit_peer_announcement_with_relay (dn_now E) (nd_id (ac_node app)) (nd_public_key (ac_node app))
          endpoint local_endpoint (nd_tunnel_ip (ac_node app)) (runtime_effective_advertised_routes Linux app)
          (relay_fields (dn_now E) (hm_get (rf_sessions (dm_fallback dm)) participant)))"

text \<open>The recipients in order, up to the first whose announcement is not published.\<close>

fun announce_each ::
  "daemon_env \<Rightarrow> announcements \<Rightarrow> string list \<Rightarrow> nat \<Rightarrow> daemon \<Rightarrow> (publish_error + nat) \<times> daemon" where
  "announce_each E peer_announcements [] sent dm = (Inr sent, dm)"
| "announce_each E peer_announcements (participant # participants) sent dm =
    (let announcement = announcement_to E peer_announcements participant dm;
         fingerprint = announcement_fingerprint announcement
     in if \<not> announce_needs_send (dm_outbound dm) participant fingerprint
        then announce_each E peer_announcements participants sent dm
        else (case publish_signal_to (dm_lib dm) (dn_signal_codec E) (dn_now E) (dm_client dm) (Announce announcement)
              [participant] (dm_outbox dm) of
            (Inl e, outbox) \<Rightarrow> (Inl e, dm\<lparr>dm_outbox := outbox\<rparr>)
          | (Inr _, outbox) \<Rightarrow> announce_each E peer_announcements participants (sent + 1)
              (dm\<lparr>dm_outbox := outbox, dm_outbound := announce_mark_sent participant fingerprint (dm_outbound dm)\<rparr>)))"

definition publish_private_announce_to_participants ::
  "daemon_env \<Rightarrow> announcements \<Rightarrow> string list \<Rightarrow> daemon \<Rightarrow> (publish_error + nat) \<times> daemon" where
  "publish_private_announce_to_participants E peer_announcements participants dm =
    announce_each E peer_announcements (sort_dedup participants) 0 dm"

definition active_private_announce_participants :: "daemon \<Rightarrow> string list" where
  "active_private_announce_participants dm =
    filter (\<lambda>p. hm_contains (pp_active (dm_presence dm)) p) (other_participants (dm_app dm) (dm_own_pubkey dm))"

definition known_private_announce_participants :: "daemon \<Rightarrow> string list" where
  "known_private_announce_participants dm =
    filter (\<lambda>p. announcement_for (dm_presence dm) p \<noteq> None) (other_participants (dm_app dm) (dm_own_pubkey dm))"

definition publish_private_announce_to_active_peers :: "daemon_env \<Rightarrow> daemon \<Rightarrow> (publish_error + nat) \<times> daemon" where
  "publish_private_announce_to_active_peers E dm =
    publish_private_announce_to_participants E (pp_active (dm_presence dm)) (active_private_announce_participants dm) dm"

definition publish_private_announce_to_known_peers :: "daemon_env \<Rightarrow> daemon \<Rightarrow> (publish_error + nat) \<times> daemon" where
  "publish_private_announce_to_known_peers E dm =
    publish_private_announce_to_participants E (pp_known (dm_presence dm)) (known_private_announce_participants dm) dm"

text \<open>Publishing with a status, when one is given, for the failure.\<close>

definition noting ::
  "session_status option \<Rightarrow> (daemon \<Rightarrow> ('e + 'a) \<times> daemon) \<Rightarrow> daemon \<Rightarrow> daemon" where
  "noting failure publish dm =
    (case publish dm of
       (Inl _, dm) \<Rightarrow> (case failure of Some status \<Rightarrow> dm\<lparr>dm_status := status\<rparr> | None \<Rightarrow> dm)
     | (Inr _, dm) \<Rightarrow> dm)"

section \<open>Connecting\<close>

definition new_signaling_client :: "daemon_env \<Rightarrow> app_config \<Rightarrow> (nostr_lib \<times> signaling_client) option" where
  "new_signaling_client E app =
    (case dn_lib E (no_secret_key (ac_nostr app)) of
       None \<Rightarrow> None
     | Some L \<Rightarrow>
         (case new_with_keys_and_networks (dn_keys E) L (signaling_networks_for_app app) of
            Inl _ \<Rightarrow> None | Inr client \<Rightarrow> Some (L, client)))"

definition connect_signaling :: "daemon_env \<Rightarrow> daemon \<Rightarrow> bool \<times> daemon" where
  "connect_signaling E dm =
    (case signaling_connect (dm_lib dm) (dn_now E) (dn_add_relay E) (dn_subscribe E) (dm_relays dm) (dm_client dm) of
       (r, client) \<Rightarrow> (r = Inr (), dm\<lparr>dm_client := client\<rparr>))"

definition connect_service :: "daemon_env \<Rightarrow> daemon \<Rightarrow> daemon" where
  "connect_service E dm =
    (case service_connect (dm_service_lib dm) (dn_now E) (dn_service_add_relay E) (dn_service_subscribe E)
        (dm_relays dm) (dm_service dm) of
       (r, service) \<Rightarrow> dm\<lparr>dm_service := service, dm_service_connected := (r = Inr ())\<rparr>)"

definition disconnect_signaling :: "daemon \<Rightarrow> daemon" where
  "disconnect_signaling dm = dm\<lparr>dm_client := signaling_disconnect (dm_client dm)\<rparr>"

definition greet_after_reconnect :: "daemon_env \<Rightarrow> daemon \<Rightarrow> daemon" where
  "greet_after_reconnect E dm =
    noting (Some (Because ''Connected; hello publish failed ('')) (publish_payload E Hello)
      (noting (Some (Because ''Connected; private announce failed ('')) (publish_private_announce_to_known_peers E)
        (dm\<lparr>dm_outbound := announce_clear (dm_outbound dm)\<rparr>))"

text \<open>The tick of the reconnect timer; \<open>None\<close> is the daemon ending with an error, for a key that does not parse.\<close>

definition reconnect_tick :: "daemon_env \<Rightarrow> daemon \<Rightarrow> daemon option" where
  "reconnect_tick E dm0 =
    (if \<not> listens_to_relays dm0 \<or> dm_relay_connected dm0 \<or> dn_instant E < dm_reconnect_due dm0 then Some dm0
     else if relay_connection_action (dm_relay_connected dm0) = KeepConnected then Some dm0
     else (case new_signaling_client E (dm_app dm0) of
         None \<Rightarrow> None
       | Some (L, client) \<Rightarrow>
           (let dm1 = dm0\<lparr>dm_lib := L, dm_client := client, dm_service_lib := L,
                  dm_service := service_client_new L, dm_service_connected := False\<rparr>
            in (case connect_signaling E dm1 of
                (False, dm) \<Rightarrow> Some (retry_later E (\<lambda>delay.
                  Because (''Relay connect failed; retry in '' @ dec delay @ ''s ('')) dm)
              | (True, dm) \<Rightarrow>
                  (let dm = publish_roster E None (connect_service E (dm\<lparr>dm_relay_connected := True, dm_reconnect_attempt := 0\<rparr>));
                       dm = dm\<lparr>dm_status := (if session_active dm then Told ''Connected'' else idle_status dm)\<rparr>
                   in Some (if session_active dm then greet_after_reconnect E dm else dm))))))"

section \<open>Announcing\<close>

definition fallback_env_of :: "daemon_env \<Rightarrow> runtime_peers option \<Rightarrow> daemon \<Rightarrow> fallback_env" where
  "fallback_env_of E runtime_peers dm =
    \<lparr>fe_b64 = nv_b64 (dn_view E), fe_app = dm_app dm, fe_own_pubkey = dm_own_pubkey dm,
     fe_presence = dm_presence dm, fe_runtime_peers = runtime_peers, fe_discovered = dn_discovered E,
     fe_probe = dn_probe E,
     fe_publishes = (\<lambda>payload recipient.
       fst (publish_to (dm_service_lib dm) (dn_service_codec E) (dn_now E) (dm_service dm) payload recipient []) = Inr ())\<rparr>"

definition request_relays :: "daemon_env \<Rightarrow> daemon \<Rightarrow> daemon" where
  "request_relays E dm =
    (if ac_use_public_relay_fallback (dm_app dm) \<and> dm_service_connected dm
     then (case runtime_peers_of E dm of (runtime_peers, dm) \<Rightarrow>
         dm\<lparr>dm_fallback := snd (maybe_request_public_relay_fallback (fallback_env_of E runtime_peers dm) (dn_now E)
              (dm_fallback dm))\<rparr>)
     else dm)"

definition greet_periodically :: "daemon_env \<Rightarrow> daemon \<Rightarrow> daemon" where
  "greet_periodically E dm =
    (case publish_payload E Hello dm of
       (Inr _, dm) \<Rightarrow> dm
     | (Inl e, dm) \<Rightarrow>
         if publish_error_requires_reconnect (dn_publish_text E e)
         then retry_later E (\<lambda>delay. Because (''Relay disconnected; retry in '' @ dec delay @ ''s (''))
             (dm\<lparr>dm_relay_connected := False\<rparr>)
         else dm\<lparr>dm_status := Because ''Hello publish failed (''\<rparr>)"

definition announce_tick :: "daemon_env \<Rightarrow> daemon \<Rightarrow> daemon" where
  "announce_tick E dm0 =
    (if \<not> session_active dm0 \<or> \<not> dm_relay_connected dm0 then dm0
     else (case fallback_prune (dn_now E) (dm_fallback dm0) of (changed, fallback) \<Rightarrow>
       (let dm1 = dm0\<lparr>dm_fallback := fallback\<rparr>;
            dm2 = (if changed
                   then update_tunnel E (Because ''Relay expiry update failed ('')
                     (dm1\<lparr>dm_outbound := announce_clear (dm_outbound dm1), dm_last_punch := None\<rparr>)
                   else dm1);
            dm3 = request_relays E (try_nat_punch E (pp_active (dm_presence dm2)) dm2)
        in greet_periodically E (noting (Some (Because ''Private announce failed (''))
             (publish_private_announce_to_active_peers E) dm3))))"

definition heartbeat_tick :: "daemon_env \<Rightarrow> daemon \<Rightarrow> daemon" where
  "heartbeat_tick E dm =
    (if \<not> session_active dm then dm
     else (let announcements = direct_peer_announcements dm
           in try_heartbeat E announcements (update_tunnel E (Because ''Tunnel heartbeat refresh failed ('')
                (if dm_relay_connected dm then dm else try_nat_punch E announcements dm))))"

section \<open>The network\<close>

text \<open>What a changed network or a renewed mapping makes of the public endpoint, and whether it counts as changed.\<close>

definition network_endpoint :: "daemon_env \<Rightarrow> bool \<Rightarrow> daemon \<Rightarrow> bool \<times> daemon" where
  "network_endpoint E network_changed dm =
    (let listen_port = listen_port_of dm
     in if network_changed
        then (if session_active dm then (True, refresh_mapped_endpoint E listen_port dm)
              else (False, dm\<lparr>dm_public_endpoint := None\<rparr>))
        else if session_active dm
        then (case dn_renewed E of
            None \<Rightarrow> (False, dm)
          | Some changed \<Rightarrow> (changed, if changed then refresh_mapped_endpoint E listen_port dm else dm))
        else (False, dm))"

definition network_tick :: "daemon_env \<Rightarrow> daemon \<Rightarrow> daemon" where
  "network_tick E dm0 =
    (let latest = prefer_nonself_tunnel_snapshot (dm_runtime dm0) (dm_snapshot dm0) (dn_captured E);
         network_changed = changed_since latest (dm_snapshot dm0)
     in (case network_endpoint E network_changed dm0 of (endpoint_changed, dm1) \<Rightarrow>
       if \<not> network_changed \<and> \<not> endpoint_changed then dm1
       else (let dm2 = (if network_changed
               then (case apply_presence_runtime_update E (dm1\<lparr>dm_snapshot := latest, dm_last_punch := None\<rparr>) of
                   (Inl _, dm) \<Rightarrow> dm\<lparr>dm_status := Because ''Network change refresh failed (''\<rparr>
                 | (Inr _, dm) \<Rightarrow> dm\<lparr>dm_status :=
                     (if session_active dm then Told ''Connected (network refresh)'' else idle_status dm)\<rparr>)
               else dm1)
             in if \<not> session_active dm2 then dm2
                else (let announcements = direct_peer_announcements dm2;
                          dm3 = try_heartbeat E announcements (try_nat_punch E announcements dm2)
                      in if dm_relay_connected dm3
                         then noting None (publish_payload E Hello)
                           (noting None (publish_private_announce_to_known_peers E) dm3)
                         else dm3))))"

section \<open>Control requests\<close>

definition no_fallback :: "daemon \<Rightarrow> daemon" where
  "no_fallback dm = dm\<lparr>dm_fallback := relay_fallback_new\<rparr>"

definition pause_session :: "daemon_env \<Rightarrow> daemon \<Rightarrow> daemon" where
  "pause_session E dm0 =
    (let dm1 = (if dm_relay_connected dm0 \<and> session_active dm0
                then noting None (publish_payload E (Disconnect (nd_id (ac_node (dm_app dm0))))) dm0 else dm0);
         join_requests_active = join_requests_enabled (dm_app dm1);
         dm2 = (if join_requests_active then dm1 else (disconnect_signaling dm1)\<lparr>dm_relay_connected := False\<rparr>);
         dm3 = (no_fallback dm2)\<lparr>dm_session_enabled := False, dm_reconnect_attempt := 0,
             dm_reconnect_due := dn_instant E, dm_public_endpoint := None, dm_presence := presence_new,
             dm_paths := book_clear (dm_paths dm2), dm_outbound := announce_clear (dm_outbound dm2),
             dm_last_punch := None\<rparr>
     in (case apply_presence_runtime_update E dm3 of
           (Inl _, dm) \<Rightarrow> dm\<lparr>dm_status := Because ''Pause failed (''\<rparr>
         | (Inr _, dm) \<Rightarrow> dm\<lparr>dm_status := idle_status dm\<rparr>))"

definition cache_restore :: "daemon_env \<Rightarrow> daemon \<Rightarrow> daemon_peer_cache_restore" where
  "cache_restore E dm =
    \<lparr>cr_app = dm_app dm, cr_network_id = dm_network_id dm, cr_own_pubkey = dm_own_pubkey dm,
     cr_now = dn_now E, cr_announce_interval_secs = dn_announce_interval_secs E\<rparr>"

definition restore_cache :: "daemon_env \<Rightarrow> daemon \<Rightarrow> daemon" where
  "restore_cache E dm =
    (case restore_daemon_peer_cache (dn_fs E) (dn_cache_codec E) (cache_restore E dm) (dm_files dm) (dm_presence dm) (dm_paths dm) of
       (_, presence, book) \<Rightarrow> dm\<lparr>dm_presence := presence, dm_paths := book\<rparr>)"

definition resume_session :: "daemon_env \<Rightarrow> daemon \<Rightarrow> daemon" where
  "resume_session E dm0 =
    (if dm_session_enabled dm0 then dm0
     else (let dm1 = dm0\<lparr>dm_session_enabled := True, dm_relay_connected := False, dm_reconnect_attempt := 0,
                 dm_reconnect_due := dn_instant E\<rparr>;
               dm2 = (if session_active dm1 then restore_cache E dm1 else dm1)
           in (case apply_presence_runtime_update E dm2 of
                 (Inl _, dm) \<Rightarrow> dm\<lparr>dm_status := Because ''Resume failed (''\<rparr>
               | (Inr _, dm) \<Rightarrow>
                   if session_active dm
                   then (refresh_mapped_endpoint E (listen_port_of dm) dm)\<lparr>dm_status := Told ''Resuming''\<rparr>
                   else dm\<lparr>dm_public_endpoint := None, dm_status := idle_status dm\<rparr>)))"

text \<open>The part that a reload and a new roster share: the configuration, its members, and no connection.\<close>

definition take_config :: "daemon_reload_config \<Rightarrow> daemon \<Rightarrow> daemon" where
  "take_config reload dm =
    (let members = set (lo_configured_participants reload)
     in disconnect_signaling (dm\<lparr>dm_app := lo_app reload, dm_network_id := lo_network_id reload,
          dm_expected_peers := lo_expected_peers reload, dm_own_pubkey := lo_own_pubkey reload,
          dm_relays := lo_relays reload,
          dm_presence := presence_retain_participants members (dm_presence dm),
          dm_paths := retain_participants members (dm_paths dm),
          dm_outbound := announce_clear (announce_retain_participants members (dm_outbound dm)),
          dm_last_punch := None\<rparr>))"

definition reload_connected :: "daemon_env \<Rightarrow> daemon \<Rightarrow> daemon" where
  "reload_connected E dm0 =
    (let dm1 = publish_roster E None (dm0\<lparr>dm_relay_connected := True, dm_reconnect_attempt := 0,
                 dm_reconnect_due := dn_instant E\<rparr>);
         dm2 = dm1\<lparr>dm_status := (if session_active dm1 then Told ''Config reloaded'' else idle_status dm1)\<rparr>
     in if session_active dm2
        then noting (Some (Because ''Config reloaded; hello publish failed ('')) (publish_payload E Hello)
          (noting (Some (Because ''Config reloaded; private announce failed (''))
            (publish_private_announce_to_known_peers E) dm2)
        else dm2)"

definition reload_client :: "daemon_env \<Rightarrow> daemon \<Rightarrow> daemon" where
  "reload_client E dm =
    (case new_signaling_client E (dm_app dm) of
       None \<Rightarrow> dm\<lparr>dm_status := Because ''Config reload failed (signal client init): ''\<rparr>
     | Some (L, client) \<Rightarrow>
         (let dm = dm\<lparr>dm_lib := L, dm_client := client\<rparr>
          in if listens_to_relays dm
             then (case connect_signaling E dm of
                 (True, dm) \<Rightarrow> reload_connected E dm
               | (False, dm) \<Rightarrow> retry_later E (\<lambda>delay.
                   Because (''Config reloaded; relay reconnect failed (retry in '' @ dec delay @ ''s: ''))
                   (dm\<lparr>dm_relay_connected := False\<rparr>))
             else dm\<lparr>dm_relay_connected := False, dm_reconnect_attempt := 0, dm_reconnect_due := dn_instant E,
               dm_public_endpoint := None,
               dm_status := (if dm_session_enabled dm then idle_status dm else Told ''Config reloaded (paused)'')\<rparr>))"

definition reload_applied :: "daemon_env \<Rightarrow> daemon_reload_config \<Rightarrow> daemon \<Rightarrow> daemon" where
  "reload_applied E reload dm =
    (case apply_presence_runtime_update E (reload_client E (take_config reload dm)) of
       (Inl _, dm) \<Rightarrow> dm\<lparr>dm_status := Because ''Config reloaded; tunnel update failed (''\<rparr>
     | (Inr _, dm) \<Rightarrow> if session_active dm then refresh_mapped_endpoint E (listen_port_of dm) dm else dm)"

text \<open>The error of the request, if any, and the daemon after it.\<close>

definition reload_session :: "daemon_env \<Rightarrow> daemon \<Rightarrow> file_error option \<times> daemon" where
  "reload_session E dm0 =
    (case update_daemon_config_from_staged_request (dn_keys E) (dn_node E) (dn_fs E) (dn_config_codec E) (dm_files dm0) of
       (Inl e, files) \<Rightarrow> (Some e, dm0\<lparr>dm_files := files, dm_status := Because ''Config apply failed (''\<rparr>)
     | (Inr staged, files) \<Rightarrow>
         (case load_config_with_overrides (dn_keys E) (dn_node E) (dn_fs E) (dn_config_codec E) (dn_overrides E) files of
            (Inl e, files) \<Rightarrow> (Some e, dm0\<lparr>dm_files := files, dm_status :=
               Because (if staged then ''Config apply failed (reload: '' else ''Config reload failed ('')\<rparr>)
          | (Inr (app, network_id), files) \<Rightarrow>
              (None, reload_applied E
                (build_daemon_reload_config (dn_keys E) app network_id (so_relays (dn_overrides E)))
                (dm0\<lparr>dm_files := files\<rparr>))))"

definition sync_operator :: "daemon_env \<Rightarrow> daemon \<Rightarrow> daemon" where
  "sync_operator E dm = dm\<lparr>dm_operator :=
     snd (sync_local_relay_operator (dn_operator E) (dm_app dm) (dm_relays dm) (dm_public_endpoint dm) (dm_operator dm))\<rparr>"

text \<open>\<open>None\<close> is the request to stop, which ends the loop.\<close>

definition handle_control_request :: "daemon_env \<Rightarrow> daemon_control_request \<Rightarrow> daemon \<Rightarrow> daemon option" where
  "handle_control_request E request dm =
    (let finish = (\<lambda>(error, dm). Some (sync_operator E (dm\<lparr>dm_files :=
           snd (write_daemon_control_result (dn_fs E) (dn_result_codec E) request (map_option (dn_file_text E) error)
             (dm_files dm))\<rparr>)))
     in (case request of
           StopRequest \<Rightarrow> None
         | PauseRequest \<Rightarrow> finish (None, pause_session E dm)
         | ResumeRequest \<Rightarrow> finish (None, resume_session E dm)
         | ReloadRequest \<Rightarrow> finish (reload_session E dm)))"

section \<open>Every second\<close>

definition relay_failover :: "daemon_env \<Rightarrow> daemon \<Rightarrow> daemon" where
  "relay_failover E dm0 =
    (case runtime_peers_of E dm0 of (runtime_peers, dm1) \<Rightarrow>
      (case reconcile_active_relay_sessions (nv_b64 (dn_view E)) (dm_presence dm1) runtime_peers (dn_now E)
          (dm_fallback dm1) of (changed, fallback) \<Rightarrow>
        (let dm2 = dm1\<lparr>dm_fallback := fallback\<rparr>
         in if changed = [] then dm2
            else (case apply_presence_runtime_update E
                (dm2\<lparr>dm_last_punch := None, dm_outbound := fold announce_forget changed (dm_outbound dm2)\<rparr>) of
                (Inl _, dm) \<Rightarrow> dm\<lparr>dm_status := Because ''Relay failover update failed (''\<rparr>
              | (Inr _, dm) \<Rightarrow>
                  if dm_relay_connected dm
                  then noting None (publish_private_announce_to_participants E (pp_known (dm_presence dm)) changed) dm
                  else dm))))"

definition prune_peers :: "daemon_env \<Rightarrow> daemon \<Rightarrow> daemon" where
  "prune_peers E dm0 =
    (if \<not> session_active dm0 then dm0
     else (let now = dn_now E; timeout = peer_signal_timeout_secs (dn_announce_interval_secs E)
           in (case presence_prune_stale now timeout (dm_presence dm0) of (removed, presence) \<Rightarrow>
             (case book_prune_stale now (peer_path_cache_timeout_secs (dn_announce_interval_secs E)) (dm_paths dm0) of
                (paths_pruned, book) \<Rightarrow>
               (let dm1 = dm0\<lparr>dm_presence := presence, dm_paths := book,
                      dm_outbound := announce_retain_participants (recently_seen_participants presence now timeout)
                        (fold announce_forget removed (dm_outbound dm0))\<rparr>
                in if removed \<noteq> [] \<or> paths_pruned
                   then update_tunnel E (Because ''Stale peer expiry update failed ('') (dm1\<lparr>dm_last_punch := None\<rparr>)
                   else dm1)))))"

definition write_cache :: "daemon_env \<Rightarrow> daemon \<Rightarrow> daemon" where
  "write_cache E dm0 =
    (case runtime_peers_of E dm0 of (runtime_peers, dm) \<Rightarrow>
      (case write_daemon_peer_cache_if_changed (dn_fs E) (dn_cache_codec E) (dn_cache_compact E)
          (build_daemon_peer_cache_state (nv_b64 (dn_view E)) (dm_network_id dm) (dm_own_pubkey dm) (dm_presence dm)
             (dm_paths dm) runtime_peers (dn_now E)) (dm_last_cache dm) (dm_files dm) of
         (_, last_cache, files) \<Rightarrow> dm\<lparr>dm_last_cache := last_cache, dm_files := files\<rparr>))"

definition state_tick :: "daemon_env \<Rightarrow> daemon \<Rightarrow> daemon option" where
  "state_tick E dm0 =
    (let dm1 = relay_failover E dm0
     in (case take_daemon_control_request (dn_fs E) (dm_files dm1) of (request, files) \<Rightarrow>
       (let dm2 = dm1\<lparr>dm_files := files\<rparr>
        in (case (case request of None \<Rightarrow> Some dm2 | Some r \<Rightarrow> handle_control_request E r dm2) of
              None \<Rightarrow> None
            | Some dm3 \<Rightarrow> if dn_restart_due E then None else Some (sync_operator E (write_cache E (prune_peers E dm3)))))))"

section \<open>Messages of peers\<close>

definition persist_inbound_join_request :: "daemon_env \<Rightarrow> string \<Rightarrow> u64 \<Rightarrow> mesh_join_request \<Rightarrow> daemon \<Rightarrow> daemon" where
  "persist_inbound_join_request E sender_pubkey requested_at request dm0 =
    (case record_inbound_join_request (dn_keys E) (mj_network_id request) sender_pubkey
        (mj_requester_node_name request) requested_at (dm_app dm0) of (r, app) \<Rightarrow>
      (let dm = dm0\<lparr>dm_app := app\<rparr>
       in (case r of
             Inr (Some network_name) \<Rightarrow>
               (case save_config (dn_keys E) (dn_node E) (dn_fs E) (dn_config_codec E) app (dm_files dm) of
                  (Inl _, files) \<Rightarrow> dm\<lparr>dm_files := files, dm_status := Because ''Failed to persist join request: ''\<rparr>
                | (Inr _, files) \<Rightarrow> dm\<lparr>dm_files := files,
                    dm_status := Told (''Join request received for '' @ network_name @ ''.'')\<rparr>)
           | _ \<Rightarrow> dm)))"

definition named_network :: "string \<Rightarrow> app_config \<Rightarrow> string" where
  "named_network network_id app =
    (case find (\<lambda>n. normalize_runtime_network_id (nc_network_id n) = normalize_runtime_network_id network_id) (ac_networks app) of
       Some n \<Rightarrow> nc_name n | None \<Rightarrow> network_id)"

text \<open>Whether a roster was applied and stored.\<close>

definition persist_shared_network_roster ::
  "daemon_env \<Rightarrow> string \<Rightarrow> string \<Rightarrow> network_roster \<Rightarrow> daemon \<Rightarrow> bool \<times> daemon" where
  "persist_shared_network_roster E sender_pubkey network_id roster dm0 =
    (case apply_admin_signed_shared_roster (dn_keys E) (dn_now E) network_id (nr_network_name roster)
        (nr_participants roster) (nr_admins roster) (nr_aliases roster) (nr_signed_at roster) sender_pubkey (dm_app dm0) of
       (Inr True, app) \<Rightarrow>
         (let app = maybe_autoconfigure_node (dn_keys E) (dn_node E) app
          in (case save_config (dn_keys E) (dn_node E) (dn_fs E) (dn_config_codec E) app (dm_files dm0) of
                (Inl _, files) \<Rightarrow> (False, dm0\<lparr>dm_app := app, dm_files := files\<rparr>)
              | (Inr _, files) \<Rightarrow> (True, dm0\<lparr>dm_app := app, dm_files := files,
                  dm_status := Told (''Roster updated for '' @ named_network network_id app @ ''.'')\<rparr>)))
     | (_, app) \<Rightarrow> (False, dm0\<lparr>dm_app := app\<rparr>))"

definition roster_applied :: "daemon_env \<Rightarrow> daemon \<Rightarrow> daemon" where
  "roster_applied E dm0 =
    (let dm1 = take_config (build_daemon_reload_config (dn_keys E) (dm_app dm0) (effective_network_id (dm_app dm0))
           (so_relays (dn_overrides E))) dm0
     in (case new_signaling_client E (dm_app dm1) of
           None \<Rightarrow> dm1\<lparr>dm_relay_connected := False, dm_status := Because ''Roster applied, but signaling reload failed (''\<rparr>
         | Some (L, client) \<Rightarrow>
             (let dm2 = dm1\<lparr>dm_lib := L, dm_client := client\<rparr>
              in if \<not> listens_to_relays dm2 then dm2
                 else (case connect_signaling E dm2 of
                     (False, dm) \<Rightarrow> retry_later E (\<lambda>delay.
                       Because (''Roster applied; relay reconnect failed (retry in '' @ dec delay @ ''s: ''))
                       (dm\<lparr>dm_relay_connected := False\<rparr>)
                   | (True, dm) \<Rightarrow>
                       (let dm = publish_roster E None (update_tunnel E
                             (Because ''Roster applied, but tunnel reload failed ('')
                             (dm\<lparr>dm_relay_connected := True, dm_reconnect_attempt := 0, dm_reconnect_due := dn_instant E\<rparr>))
                        in if session_active dm then noting None (publish_payload E Hello) dm else dm)))))"

fun is_greeting :: "signal_payload \<Rightarrow> bool" where
  "is_greeting Hello = True"
| "is_greeting (Announce _) = True"
| "is_greeting _ = False"

definition greet_back :: "daemon_env \<Rightarrow> string \<Rightarrow> signal_payload \<Rightarrow> daemon \<Rightarrow> daemon" where
  "greet_back E sender_pubkey payload dm =
    (if is_greeting payload
     then noting None (publish_private_announce_to_participants E (pp_known (dm_presence dm)) [sender_pubkey]) dm
     else dm)"

definition peer_changed :: "daemon_env \<Rightarrow> string \<Rightarrow> signal_payload \<Rightarrow> daemon \<Rightarrow> daemon" where
  "peer_changed E sender_pubkey payload dm0 =
    (case apply_presence_runtime_update E dm0 of
       (Inl _, dm) \<Rightarrow> dm\<lparr>dm_status := Because ''Tunnel update failed (''\<rparr>
     | (Inr _, dm1) \<Rightarrow>
         (let active = pp_active (dm_presence dm1);
              dm2 = try_heartbeat E active (try_nat_punch E active dm1);
              dm3 = dm2\<lparr>dm_outbound := maybe_reset_targeted_announce_cache_for_hello (dm_outbound dm2) sender_pubkey payload\<rparr>;
              dm4 = greet_back E sender_pubkey payload dm3
          in dm4\<lparr>dm_status := (if session_active dm4 then Told ''Connected'' else idle_status dm4)\<rparr>))"

definition presence_message :: "daemon_env \<Rightarrow> string \<Rightarrow> signal_payload \<Rightarrow> daemon \<Rightarrow> daemon" where
  "presence_message E sender_pubkey payload dm0 =
    (let dm1 = (if is_greeting payload then publish_roster E (Some [sender_pubkey]) dm0 else dm0)
     in if \<not> session_active dm1 then dm1
        else (case apply_signal sender_pubkey payload (dn_now E) (dm_presence dm1) of (changed, presence) \<Rightarrow>
          (let dm2 = dm1\<lparr>dm_presence := presence,
                 dm_outbound := (case payload of
                     Disconnect _ \<Rightarrow> announce_forget sender_pubkey (dm_outbound dm1) | _ \<Rightarrow> dm_outbound dm1)\<rparr>
           in if changed then peer_changed E sender_pubkey payload dm2 else greet_back E sender_pubkey payload dm2)))"

text \<open>One message, or the end of their stream; the loop asks for them only while it is connected and listens.\<close>

definition signal_message :: "daemon_env \<Rightarrow> signal_envelope option \<Rightarrow> daemon \<Rightarrow> daemon" where
  "signal_message E message dm =
    (if \<not> listens_to_relays dm \<or> \<not> dm_relay_connected dm then dm
     else (case message of
         None \<Rightarrow> retry_later E (\<lambda>delay. Told (''Signal stream closed; retry in '' @ dec delay @ ''s''))
           (dm\<lparr>dm_relay_connected := False\<rparr>)
       | Some envelope \<Rightarrow>
           (case se_payload envelope of
              JoinRequest requested_at request \<Rightarrow>
                persist_inbound_join_request E (se_sender_pubkey envelope) requested_at request dm
            | Roster roster \<Rightarrow>
                (case persist_shared_network_roster E (se_sender_pubkey envelope) (se_network_id envelope) roster dm of
                   (True, dm) \<Rightarrow> roster_applied E dm | (False, dm) \<Rightarrow> dm)
            | payload \<Rightarrow> presence_message E (se_sender_pubkey envelope) payload dm)))"

section \<open>Messages of relay services\<close>

definition service_message :: "daemon_env \<Rightarrow> service_envelope option \<Rightarrow> daemon \<Rightarrow> daemon" where
  "service_message E message dm0 =
    (if \<not> listens_to_relays dm0 \<or> \<not> dm_relay_connected dm0 \<or> \<not> dm_service_connected dm0 then dm0
     else (case message of
         None \<Rightarrow> dm0\<lparr>dm_service_connected := False\<rparr>
       | Some envelope \<Rightarrow>
           (case handle_service_message envelope (dn_now E) (dm_fallback dm0, dm_outbound dm0) of
              (activated, fallback, outbound) \<Rightarrow>
                (let dm1 = dm0\<lparr>dm_fallback := fallback, dm_outbound := outbound\<rparr>
                 in (case activated of
                       None \<Rightarrow> dm1
                     | Some participant \<Rightarrow>
                         (case apply_presence_runtime_update E dm1 of
                            (Inl _, dm) \<Rightarrow> dm\<lparr>dm_status := Because ''Relay fallback update failed (''\<rparr>
                          | (Inr _, dm) \<Rightarrow> noting None
                              (publish_private_announce_to_participants E (pp_known (dm_presence dm)) [participant]) dm))))))"

section \<open>The loop\<close>

datatype daemon_event =
    Interrupted
  | ReconnectTimer
  | AnnounceTimer
  | HeartbeatTimer
  | NetworkTimer
  | StateTimer
  | SignalReceived "signal_envelope option"
  | ServiceReceived "service_envelope option"

text \<open>One turn of the loop; \<open>None\<close> when the loop ends.\<close>

fun daemon_turn :: "daemon_env \<Rightarrow> daemon_event \<Rightarrow> daemon \<Rightarrow> daemon option" where
  "daemon_turn E Interrupted dm = None"
| "daemon_turn E ReconnectTimer dm = reconnect_tick E dm"
| "daemon_turn E AnnounceTimer dm = Some (announce_tick E dm)"
| "daemon_turn E HeartbeatTimer dm = Some (heartbeat_tick E dm)"
| "daemon_turn E NetworkTimer dm = Some (network_tick E dm)"
| "daemon_turn E StateTimer dm = state_tick E dm"
| "daemon_turn E (SignalReceived message) dm = Some (signal_message E message dm)"
| "daemon_turn E (ServiceReceived message) dm = Some (service_message E message dm)"

section \<open>Start, stop and runs\<close>

datatype start_error = EmptyInterface | AnotherDaemon | StartFiles file_error | StartKey | StartTunnel apply_error | StartOperator

text \<open>\<open>ConnectMagicDnsRuntime::start\<close>: without records there is no server.\<close>

definition start_magic_dns :: "daemon_env \<Rightarrow> app_config \<Rightarrow> (string, ipv4_addr) hmap option" where
  "start_magic_dns E app =
    (let records = build_magic_dns_records (dn_keys E) app
     in if records = [] \<or> \<not> dn_dns_bound E then None else Some records)"

text \<open>The daemon before its loop: \<open>stored\<close> is the endpoint and port of the state file.\<close>

definition daemon_new ::
  "daemon_env \<Rightarrow> (string \<times> u16) option \<Rightarrow> string \<Rightarrow> app_config \<Rightarrow> string \<Rightarrow> files
    \<Rightarrow> nostr_lib \<Rightarrow> signaling_client \<Rightarrow> daemon" where
  "daemon_new E stored iface app network_id files L client =
    (let expected_peers = expected_peer_count (dn_keys E) app
     in \<lparr>dm_app = app, dm_network_id = network_id, dm_relays = resolve_relays (so_relays (dn_overrides E)) app,
         dm_own_pubkey = own_nostr_pubkey_hex (dn_keys E) app, dm_expected_peers = expected_peers,
         dm_presence = presence_new, dm_paths = book_new, dm_outbound = \<lparr>oa_fingerprints = []\<rparr>,
         dm_fallback = relay_fallback_new, dm_runtime = tunnel_runtime_new iface, dm_trace = [],
         dm_dns = start_magic_dns E app, dm_snapshot = dn_captured E,
         dm_public_endpoint = restored_public_signal_endpoint_from_state stored (nd_listen_port (ac_node app)),
         dm_lib = L, dm_client = client, dm_service_lib = L, dm_service = service_client_new L,
         dm_service_connected = False, dm_outbox = [], dm_operator = relay_operator_new app,
         dm_files = hm_remove ControlFile files, dm_last_cache = None, dm_session_enabled = True,
         dm_status = Told (if daemon_session_active True expected_peers then ''Connecting to relays''
           else daemon_session_idle_status True expected_peers (join_requests_enabled app)),
         dm_relay_connected = False, dm_reconnect_attempt = 0, dm_reconnect_due = dn_instant E,
         dm_last_punch = None\<rparr>)"

definition restored_from_cache :: "daemon_env \<Rightarrow> daemon \<Rightarrow> bool" where
  "restored_from_cache E dm \<longleftrightarrow>
    fst (restore_daemon_peer_cache (dn_fs E) (dn_cache_codec E) (cache_restore E dm) (dm_files dm)
      (dm_presence dm) (dm_paths dm)) = Inr True"

text \<open>The punching at the start keeps no record of its attempt.\<close>

definition bootstrap_peers :: "daemon_env \<Rightarrow> daemon \<Rightarrow> daemon" where
  "bootstrap_peers E dm =
    (let announcements = pp_known (dm_presence dm)
     in (try_heartbeat E announcements (try_nat_punch E announcements dm))\<lparr>dm_last_punch := None\<rparr>)"

definition daemon_begin :: "daemon_env \<Rightarrow> daemon \<Rightarrow> start_error + daemon" where
  "daemon_begin E dm0 =
    (let dm1 = (if session_active dm0 then refresh_mapped_endpoint E (nd_listen_port (ac_node (dm_app dm0))) dm0 else dm0);
         restored = session_active dm1 \<and> restored_from_cache E dm1;
         dm2 = (if session_active dm1 then restore_cache E dm1 else dm1)
     in (case apply_presence_runtime_update E dm2 of
           (Inl e, _) \<Rightarrow> Inl (StartTunnel e)
         | (Inr _, dm3) \<Rightarrow>
             (case sync_local_relay_operator (dn_operator E) (dm_app dm3) (dm_relays dm3) (dm_public_endpoint dm3)
                 (dm_operator dm3) of
                (False, _) \<Rightarrow> Inl StartOperator
              | (True, operator) \<Rightarrow>
                  (let dm4 = dm3\<lparr>dm_operator := operator\<rparr>
                   in Inr (if restored then bootstrap_peers E dm4 else dm4)))))"

definition daemon_start :: "daemon_env \<Rightarrow> (string \<times> u16) option \<Rightarrow> string \<Rightarrow> files \<Rightarrow> start_error + daemon" where
  "daemon_start E stored iface files0 =
    (if trim iface = [] then Inl EmptyInterface
     else if \<not> dn_alone E then Inl AnotherDaemon
     else (case load_config_with_overrides (dn_keys E) (dn_node E) (dn_fs E) (dn_config_codec E) (dn_overrides E) files0 of
         (Inl e, _) \<Rightarrow> Inl (StartFiles e)
       | (Inr (app, network_id), files) \<Rightarrow>
           (case new_signaling_client E app of
              None \<Rightarrow> Inl StartKey
            | Some (L, client) \<Rightarrow> daemon_begin E (daemon_new E stored iface app network_id files L client))))"

text \<open>After the loop: the farewell, and everything is stopped.\<close>

definition daemon_stop :: "daemon_env \<Rightarrow> daemon \<Rightarrow> daemon" where
  "daemon_stop E dm0 =
    (let dm1 = disconnect_signaling (if dm_relay_connected dm0 \<and> session_active dm0
           then noting None (publish_payload E (Disconnect (nd_id (ac_node (dm_app dm0))))) dm0 else dm0)
     in (case stop_tunnel (dn_host E) (dm_runtime dm1, dm_trace dm1) of
           (rt, t) \<Rightarrow> dm1\<lparr>dm_operator := stop_local_relay_operator ''Relay operator stopped'' ''NAT assist stopped''
               (dm_operator dm1), dm_runtime := rt, dm_trace := t\<rparr>))"

text \<open>A run: turns with an environment each, of a given kind, and the files changed by others in between.\<close>

inductive daemon_run :: "(daemon_env \<Rightarrow> bool) \<Rightarrow> daemon \<Rightarrow> daemon \<Rightarrow> bool" for env dm where
  begun: "daemon_run env dm dm"
| turned: "daemon_run env dm dm' \<Longrightarrow> env E \<Longrightarrow> daemon_turn E event dm' = Some dm'' \<Longrightarrow> daemon_run env dm dm''"
| files_changed: "daemon_run env dm dm' \<Longrightarrow> daemon_run env dm (dm'\<lparr>dm_files := fs\<rparr>)"

end
