(* ===== verification/Daemon_Inv.thy ===== *)
theory Daemon_Inv
  imports Daemon_Loop Linux_Tunnel_Safety Relay_Fallback_Inv Signaling_Safety Config_Roster
begin

text \<open>
  What no turn of the daemon's loop breaks: the invariants of its components, and that a paused daemon
  keeps nothing of its session.
\<close>

named_theorems serve_intros "operations that serve the session and leave the daemon's state"

section \<open>Operations that serve the session\<close>

text \<open>
  Most operations only drive the tunnel, publish and query: they leave the configuration, the
  presence, the relay sessions and the clients as they are.
\<close>

definition core :: "daemon \<Rightarrow> app_config \<times> string \<times> string list \<times> string option \<times> nat \<times> peer_presence_book
    \<times> relay_fallback \<times> bool \<times> signaling_client \<times> relay_operator" where
  "core dm = (dm_app dm, dm_network_id dm, dm_relays dm, dm_own_pubkey dm, dm_expected_peers dm, dm_presence dm,
     dm_fallback dm, dm_session_enabled dm, dm_client dm, dm_operator dm)"

definition serves :: "daemon \<Rightarrow> daemon \<Rightarrow> bool" where
  "serves dm dm' \<longleftrightarrow> core dm' = core dm
    \<and> (book_inv (dm_paths dm) \<longrightarrow> book_inv (dm_paths dm'))
    \<and> (v4_owed (dm_runtime dm, dm_trace dm) \<longrightarrow> v4_owed (dm_runtime dm', dm_trace dm'))"

lemma serves_refl [serve_intros]: "serves dm dm"
  by (simp add: serves_def)

lemma serves_trans: "serves dm dm' \<Longrightarrow> serves dm' dm'' \<Longrightarrow> serves dm dm''"
  by (simp add: serves_def)

lemma core_same [simp]:
  "core (dm\<lparr>dm_status := status\<rparr>) = core dm" "core (dm\<lparr>dm_outbox := outbox\<rparr>) = core dm"
  "core (dm\<lparr>dm_outbound := outbound\<rparr>) = core dm" "core (dm\<lparr>dm_dns := dns\<rparr>) = core dm"
  "core (dm\<lparr>dm_last_punch := punch\<rparr>) = core dm" "core (dm\<lparr>dm_public_endpoint := endpoint\<rparr>) = core dm"
  "core (dm\<lparr>dm_relay_connected := up\<rparr>) = core dm" "core (dm\<lparr>dm_reconnect_attempt := attempt\<rparr>) = core dm"
  "core (dm\<lparr>dm_reconnect_due := due\<rparr>) = core dm" "core (dm\<lparr>dm_files := files\<rparr>) = core dm"
  "core (dm\<lparr>dm_last_cache := cache\<rparr>) = core dm" "core (dm\<lparr>dm_snapshot := snapshot\<rparr>) = core dm"
  "core (dm\<lparr>dm_service := service\<rparr>) = core dm" "core (dm\<lparr>dm_service_connected := up\<rparr>) = core dm"
  "core (dm\<lparr>dm_service_lib := L\<rparr>) = core dm" "core (dm\<lparr>dm_lib := L\<rparr>) = core dm"
  "core (dm\<lparr>dm_paths := book\<rparr>) = core dm" "core (dm\<lparr>dm_runtime := rt\<rparr>) = core dm" "core (dm\<lparr>dm_trace := t\<rparr>) = core dm"
  by (simp_all add: core_def)

lemma serves_same [serve_intros]:
  "serves dm dm' \<Longrightarrow> serves dm (dm'\<lparr>dm_status := status\<rparr>)"
  "serves dm dm' \<Longrightarrow> serves dm (dm'\<lparr>dm_outbox := outbox\<rparr>)"
  "serves dm dm' \<Longrightarrow> serves dm (dm'\<lparr>dm_outbound := outbound\<rparr>)"
  "serves dm dm' \<Longrightarrow> serves dm (dm'\<lparr>dm_dns := dns\<rparr>)"
  "serves dm dm' \<Longrightarrow> serves dm (dm'\<lparr>dm_last_punch := punch\<rparr>)"
  "serves dm dm' \<Longrightarrow> serves dm (dm'\<lparr>dm_public_endpoint := endpoint\<rparr>)"
  "serves dm dm' \<Longrightarrow> serves dm (dm'\<lparr>dm_relay_connected := up\<rparr>)"
  "serves dm dm' \<Longrightarrow> serves dm (dm'\<lparr>dm_reconnect_attempt := attempt\<rparr>)"
  "serves dm dm' \<Longrightarrow> serves dm (dm'\<lparr>dm_reconnect_due := due\<rparr>)"
  "serves dm dm' \<Longrightarrow> serves dm (dm'\<lparr>dm_files := files\<rparr>)"
  "serves dm dm' \<Longrightarrow> serves dm (dm'\<lparr>dm_last_cache := cache\<rparr>)"
  "serves dm dm' \<Longrightarrow> serves dm (dm'\<lparr>dm_snapshot := snapshot\<rparr>)"
  "serves dm dm' \<Longrightarrow> serves dm (dm'\<lparr>dm_service := service\<rparr>)"
  "serves dm dm' \<Longrightarrow> serves dm (dm'\<lparr>dm_service_connected := up\<rparr>)"
  "serves dm dm' \<Longrightarrow> serves dm (dm'\<lparr>dm_service_lib := L\<rparr>)"
  "serves dm dm' \<Longrightarrow> serves dm (dm'\<lparr>dm_lib := L\<rparr>)"
  by (simp_all add: serves_def)

lemma plan_peers_book: "book_inv book \<Longrightarrow> book_inv (snd (plan_peers I participants peers book))"
proof (induction I participants peers book rule: plan_peers.induct)
  case (2 I participant participants peers book)
  then show ?case
    by (auto simp: Let_def refresh_inv split: option.split sum.split)
qed simp

lemma planned_book:
  "book_inv book \<Longrightarrow> book_inv (snd (planned_tunnel_peers_for_local_endpoints os b64 app own announcements book local now))"
  using plan_peers_book [OF retain_participants_inv]
  by (auto simp: planned_tunnel_peers_for_local_endpoints_def Let_def split: prod.split sum.split)
     (metis snd_conv)+

lemma record_paths_book:
  "book_inv book \<Longrightarrow> book_inv (snd (record_successful_runtime_paths b64 announcements peers book local now))"
proof -
  have one: "book_inv (snd (record_runtime_path b64 ps local now entry acc))" if "book_inv (snd acc)" for ps entry acc
    using that by (auto simp: record_runtime_path_def note_success_inv split: option.split prod.split)
      (metis note_success_inv snd_conv)+
  have "book_inv (snd (fold (record_runtime_path b64 ps local now) announcements acc))" if "book_inv (snd acc)" for ps acc
    using that by (induction announcements arbitrary: acc) (simp_all add: one)
  then show "book_inv book \<Longrightarrow> ?thesis"
    by (simp add: record_successful_runtime_paths_def split: option.split)
qed

lemma note_planned_book: "book_inv book \<Longrightarrow> book_inv (note_planned planned now book)"
  by (induction planned arbitrary: book) (simp_all add: note_planned_def note_selected_inv)

lemma apply_plan_book: "book_inv book \<Longrightarrow> book_inv (fst (snd (apply_plan H V A book s)))"
  by (simp add: apply_plan_def Let_def note_planned_book split: prod.split sum.split)

lemma apply_tunnel_book: "book_inv book \<Longrightarrow> book_inv (fst (snd (apply_tunnel H V app own announcements now book s)))"
proof -
  assume inv: "book_inv book"
  obtain rt t0 where s: "s = (rt, t0)" by (cases s)
  obtain status t where status: "runtime_peer_status H (nv_lower V) rt t0 = (status, t)" by fastforce
  define own_local where "own_local = runtime_local_signal_endpoints (nv_detected_ipv4 V) (nv_interfaces V) app
    (runtime_listen_port rt (nd_listen_port (ac_node app)))"
  define peers where "peers = (case status of Inl _ \<Rightarrow> None | Inr peers \<Rightarrow> Some peers)"
  define book1 where "book1 = snd (record_successful_runtime_paths (nv_b64 V) announcements peers book own_local now)"
  obtain r book2 where r: "planned_tunnel_peers_for_local_endpoints Linux (nv_b64 V) app own announcements book1 own_local now
      = (r, book2)" by (metis prod.exhaust)
  have "book_inv book1" unfolding book1_def by (rule record_paths_book [OF inv])
  from planned_book [OF this] r have book2: "book_inv book2" by (metis snd_conv)
  note unfold = apply_tunnel_def s prod.case Let_def status own_local_def [symmetric] peers_def [symmetric]
    book1_def [symmetric] r
  have rest: "book_inv (fst (snd (case apply_plan H V A book2 s1 of
        (Inl e, book', s2) \<Rightarrow> (Inl (HostFailed e), book', s2) | (Inr _, book', s2) \<Rightarrow> (Inr (), book', s2))))" for A s1
    using apply_plan_book [OF book2, of H V A s1] by (auto split: prod.split sum.split)
  show ?thesis
    unfolding unfold using book2 rest by (simp split: sum.split prod.split)
qed

lemma runtime_peer_status_owed:
  "runtime_peer_status H lower rt t = (r, t') \<Longrightarrow> v4_owed (rt, t) \<Longrightarrow> v4_owed (rt, t')"
proof -
  assume r: "runtime_peer_status H lower rt t = (r, t')" and owed: "v4_owed (rt, t)"
  have "adds leaves_v4 (runtime_peer_status H lower rt)"
    unfolding runtime_peer_status_def wg_get_def by (intro adds_intros)
  from last_written_adds [OF this, of t] r owed show ?thesis by (simp add: v4_owed_def)
qed

lemma runtime_peers_serve [serve_intros]: "serves dm (snd (runtime_peers_of E dm))"
  by (auto simp: runtime_peers_of_def serves_def intro: runtime_peer_status_owed split: prod.split)

lemma apply_announcements_serve [serve_intros]: "serves dm (snd (apply_announcements E announcements dm))"
  using apply_tunnel_owed [of "(dm_runtime dm, dm_trace dm)"] apply_tunnel_book [of "dm_paths dm"]
  by (auto simp: apply_announcements_def serves_def split: prod.split) (metis fst_conv snd_conv)+

lemma serves_next: "serves dm dm' \<Longrightarrow> serves dm' (snd (f dm')) \<Longrightarrow> f dm' = (r, dm'') \<Longrightarrow> serves dm dm''"
  by (metis serves_trans snd_conv)

lemma serves_via: "(\<And>dm. serves dm (snd (f dm))) \<Longrightarrow> f dm = (r, dm') \<Longrightarrow> serves dm dm'"
  by (metis snd_conv)

lemma update_serves [serve_intros]: "serves dm (snd (apply_presence_runtime_update E dm))"
  by (auto simp: apply_presence_runtime_update_def Let_def
      intro!: serve_intros intro: serves_via [OF apply_announcements_serve] split: prod.split sum.split)

lemma update_tunnel_serves [serve_intros]: "serves dm (update_tunnel E failure dm)"
  by (auto simp: update_tunnel_def intro!: serve_intros intro: serves_via [OF update_serves] split: prod.split sum.split)

lemma endpoint_serves [serve_intros]:
  "serves dm (refresh_endpoint E port dm)" "serves dm (refresh_mapped_endpoint E port dm)"
  by (simp_all add: refresh_endpoint_def refresh_mapped_endpoint_def serve_intros)

lemma run_punch_serves [serve_intros]: "serves dm (snd (run_nat_punch E announcements port fingerprint targets dm))"
proof -
  obtain rt t where stop: "stop_tunnel (dn_host E) (dm_runtime dm, dm_trace dm) = (rt, t)" by fastforce
  have "v4_owed (rt\<lparr>tr_active_listen_port := Some port\<rparr>, t)" if "v4_owed (dm_runtime dm, dm_trace dm)"
    using stop_v4_off [OF that, of "dn_host E"] by (simp add: stop v4_off_def v4_owed_def)
  then have "serves dm (dm\<lparr>dm_runtime := rt\<lparr>tr_active_listen_port := Some port\<rparr>, dm_trace := t\<rparr>)"
    by (simp add: serves_def)
  then have stopped: "serves dm (refresh_endpoint E port (dm\<lparr>dm_runtime := rt\<lparr>tr_active_listen_port := Some port\<rparr>, dm_trace := t\<rparr>))"
    by (rule serves_trans [OF _ endpoint_serves(1)])
  show ?thesis
    by (auto simp: run_nat_punch_def stop Let_def intro!: serve_intros
        intro: serves_next [where f = "apply_announcements E announcements", OF stopped apply_announcements_serve] split: prod.split sum.split option.split)
qed

lemma punch_serves [serve_intros]: "serves dm (snd (maybe_run_nat_punch E announcements dm))"
proof (cases "nat_enabled (ac_nat (dm_app dm))")
  case False
  then show ?thesis by (simp add: maybe_run_nat_punch_def serve_intros)
next
  case True
  define port where "port = listen_port_of dm"
  define dm1 where "dm1 = (if public_endpoint_for_listen_port (dm_public_endpoint dm) port = None
    then refresh_endpoint E port dm else dm)"
  obtain peers dm2 where q: "runtime_peers_of E dm1 = (peers, dm2)" by fastforce
  have "serves dm dm1" by (simp add: dm1_def serve_intros)
  from serves_next [where f = "runtime_peers_of E", OF this runtime_peers_serve q] have dm2: "serves dm dm2" .
  from serves_trans [OF this run_punch_serves] dm2 show ?thesis
    unfolding maybe_run_nat_punch_def Let_def port_def [symmetric] dm1_def [symmetric] q
    using True by (simp add: serve_intros split: sum.split option.split)
qed

lemma try_serves [serve_intros]:
  "serves dm (try_nat_punch E announcements dm)" "serves dm (try_heartbeat E announcements dm)"
  using serves_via [OF runtime_peers_serve]
  by (auto simp: try_nat_punch_def try_heartbeat_def heartbeat_pending_tunnel_peers_def intro!: serve_intros
      split: prod.split)

lemma noting_serves [serve_intros]: "(\<And>dm. serves dm (snd (publish dm))) \<Longrightarrow> serves dm (noting status publish dm)"
  by (auto simp: noting_def intro!: serve_intros intro: serves_via split: prod.split sum.split option.split)

lemma publish_serves [serve_intros]:
  "serves dm (snd (publish_payload E payload dm))" "serves dm (publish_roster E recipients dm)"
  by (auto simp: publish_payload_def publish_roster_def intro!: serve_intros split: prod.split)

lemma announce_each_serves: "serves dm (snd (announce_each E announcements participants sent dm))"
proof (induction E announcements participants sent dm rule: announce_each.induct)
  case (2 E announcements participant participants sent dm)
  have "serves dm (dm\<lparr>dm_outbox := outbox, dm_outbound := outbound\<rparr>)" for outbox outbound
    by (intro serve_intros)
  from serves_trans [OF this] 2 show ?case
    by (auto simp: Let_def intro!: serve_intros split: prod.split sum.split) blast
qed (simp add: serve_intros)

lemma announcing_serves [serve_intros]:
  "serves dm (snd (publish_private_announce_to_participants E announcements participants dm))"
  "serves dm (snd (publish_private_announce_to_active_peers E dm))"
  "serves dm (snd (publish_private_announce_to_known_peers E dm))"
  by (simp_all add: publish_private_announce_to_participants_def publish_private_announce_to_active_peers_def
      publish_private_announce_to_known_peers_def announce_each_serves)

lemma retry_serves [serve_intros]: "serves dm dm' \<Longrightarrow> serves dm (retry_later E status dm')"
  by (simp add: retry_later_def Let_def serve_intros)

lemma service_serves [serve_intros]: "serves dm (connect_service E dm)"
  by (auto simp: connect_service_def intro!: serve_intros split: prod.split)

lemma cache_serves [serve_intros]: "serves dm (write_cache E dm)"
  using serves_via [OF runtime_peers_serve]
  by (auto simp: write_cache_def intro!: serve_intros split: prod.split)

section \<open>The components' invariants\<close>

definition daemon_inv :: "key_env \<Rightarrow> daemon \<Rightarrow> bool" where
  "daemon_inv K dm \<longleftrightarrow>
    presence_inv (dm_presence dm) \<and> book_inv (dm_paths dm) \<and> fallback_inv None (dm_fallback dm)
    \<and> client_inv (dm_client dm) \<and> operator_inv (dm_operator dm) \<and> config_inv K (dm_app dm)
    \<and> v4_owed (dm_runtime dm, dm_trace dm)"

definition continues :: "key_env \<Rightarrow> daemon \<Rightarrow> daemon \<Rightarrow> bool" where
  "continues K dm dm' \<longleftrightarrow>
    (daemon_inv K dm \<longrightarrow> daemon_inv K dm') \<and> dm_session_enabled dm' = dm_session_enabled dm"

lemma continues_trans: "continues K dm dm' \<Longrightarrow> continues K dm' dm'' \<Longrightarrow> continues K dm dm''"
  by (simp add: continues_def)

lemma serves_continues: "serves dm dm' \<Longrightarrow> continues K dm dm'"
  by (simp add: serves_def core_def continues_def daemon_inv_def)

lemma continues_served: "continues K dm dm' \<Longrightarrow> serves dm' dm'' \<Longrightarrow> continues K dm dm''"
  by (rule continues_trans [OF _ serves_continues])

lemma served_continues: "serves dm dm' \<Longrightarrow> continues K dm' dm'' \<Longrightarrow> continues K dm dm''"
  by (rule continues_trans [OF serves_continues])

text \<open>The fields that a step may change beyond that, one at a time.\<close>

lemma continues_change:
  "(presence_inv (dm_presence dm) \<Longrightarrow> presence_inv presence) \<Longrightarrow> continues K dm (dm\<lparr>dm_presence := presence\<rparr>)"
  "(book_inv (dm_paths dm) \<Longrightarrow> book_inv book) \<Longrightarrow> continues K dm (dm\<lparr>dm_paths := book\<rparr>)"
  "(fallback_inv None (dm_fallback dm) \<Longrightarrow> fallback_inv None fallback) \<Longrightarrow> continues K dm (dm\<lparr>dm_fallback := fallback\<rparr>)"
  "(client_inv (dm_client dm) \<Longrightarrow> client_inv client) \<Longrightarrow> continues K dm (dm\<lparr>dm_client := client\<rparr>)"
  "(operator_inv (dm_operator dm) \<Longrightarrow> operator_inv operator) \<Longrightarrow> continues K dm (dm\<lparr>dm_operator := operator\<rparr>)"
  "(config_inv K (dm_app dm) \<Longrightarrow> config_inv K app) \<Longrightarrow> continues K dm (dm\<lparr>dm_app := app\<rparr>)"
  by (simp_all add: continues_def daemon_inv_def)

lemma client_connect_inv: "client_inv client \<Longrightarrow> client_inv (snd (signaling_connect L now add subscribe relays client))"
  by (simp add: signaling_connect_def client_inv_def split: sum.split)

lemma connect_continues: "continues K dm (snd (connect_signaling E dm))"
  by (auto simp: connect_signaling_def split: prod.split intro!: continues_change(4))
    (metis client_connect_inv snd_conv)

lemma disconnect_continues: "continues K dm (disconnect_signaling dm)"
  unfolding disconnect_signaling_def
  by (rule continues_change(4)) (simp add: signaling_disconnect_def client_inv_def)

lemma new_client_ok: "new_signaling_client E app = Some (L, client) \<Longrightarrow> client_inv client"
  by (auto simp: new_signaling_client_def dest: new_client_inv split: option.splits sum.splits)

lemma renewed_client: "new_signaling_client E app = Some (L, client) \<Longrightarrow> continues K dm (dm\<lparr>dm_client := client\<rparr>)"
  by (rule continues_change(4)) (rule new_client_ok)

lemma greet_serves [serve_intros]: "serves dm (greet_after_reconnect E dm)"
proof -
  have "serves dm (dm\<lparr>dm_outbound := announce_clear (dm_outbound dm)\<rparr>)" by (intro serve_intros)
  then show ?thesis unfolding greet_after_reconnect_def
    by (rule serves_trans [OF serves_trans [OF _ noting_serves] noting_serves]) (intro serve_intros)+
qed

lemma reconnect_continues: "reconnect_tick E dm = Some dm' \<Longrightarrow> continues K dm dm'"
proof -
  assume tick: "reconnect_tick E dm = Some dm'"
  show ?thesis
  proof (cases "dm' = dm")
    case True
    then show ?thesis by (simp add: continues_def)
  next
    case False
    then obtain L client where client: "new_signaling_client E (dm_app dm) = Some (L, client)"
      using tick by (auto simp: reconnect_tick_def split: if_splits option.splits)
    define dm1 where "dm1 = dm\<lparr>dm_lib := L, dm_client := client, dm_service_lib := L,
      dm_service := service_client_new L, dm_service_connected := False\<rparr>"
    obtain up dm2 where up: "connect_signaling E dm1 = (up, dm2)" by fastforce
    have "serves (dm\<lparr>dm_client := client\<rparr>) dm1" by (simp add: dm1_def serves_def core_def)
    from continues_served [OF renewed_client [OF client] this]
    have dm1: "continues K dm dm1" .
    from continues_trans [OF this connect_continues, of E] up have dm2: "continues K dm dm2" by simp
    have "serves dm2 dm'"
      using tick False client up dm1_def [symmetric]
      by (auto simp: reconnect_tick_def Let_def split: if_splits bool.splits
          intro!: serve_intros serves_trans [OF _ greet_serves] serves_trans [OF _ publish_serves(2)]
            serves_trans [OF _ service_serves])
    with dm2 show ?thesis by (rule continues_served)
  qed
qed

lemma ask_continues: "continues K dm (request_relays E dm)"
proof (cases "ac_use_public_relay_fallback (dm_app dm) \<and> dm_service_connected dm")
  case True
  obtain peers dm1 where q: "runtime_peers_of E dm = (peers, dm1)" by fastforce
  from runtime_peers_serve [of dm E] q have "serves dm dm1" by simp
  moreover have "continues K dm1 (dm1\<lparr>dm_fallback :=
      snd (maybe_request_public_relay_fallback (fallback_env_of E peers dm1) (dn_now E) (dm_fallback dm1))\<rparr>)"
    by (rule continues_change(3), rule ask_inv) simp_all
  ultimately show ?thesis using True by (simp add: request_relays_def q served_continues)
qed (auto simp: request_relays_def continues_def)

lemma greeting_serves [serve_intros]: "serves dm (greet_periodically E dm)"
  by (auto simp: greet_periodically_def intro!: serve_intros intro: serves_via [OF publish_serves(1)]
      split: prod.split sum.split)

lemma pruned_fallback: "fallback_inv own s \<Longrightarrow> fallback_inv own (snd (fallback_prune now s))"
  using fallback_step_inv [where e = "AnnounceTick now"] by simp

lemma announce_continues: "continues K dm (announce_tick E dm)"
proof (cases "session_active dm \<and> dm_relay_connected dm")
  case True
  obtain changed fallback where pruned: "fallback_prune (dn_now E) (dm_fallback dm) = (changed, fallback)" by fastforce
  define dm1 where "dm1 = dm\<lparr>dm_fallback := fallback\<rparr>"
  define dm2 where "dm2 = (if changed
    then update_tunnel E (Because ''Relay expiry update failed ('')
      (dm1\<lparr>dm_outbound := announce_clear (dm_outbound dm1), dm_last_punch := None\<rparr>) else dm1)"
  have "continues K dm dm1"
    unfolding dm1_def using pruned_fallback [of None "dm_fallback dm" "dn_now E"] pruned
    by (intro continues_change(3)) simp
  moreover have "serves dm1 (dm1\<lparr>dm_outbound := announce_clear (dm_outbound dm1), dm_last_punch := None\<rparr>)"
    by (intro serve_intros)
  then have "serves dm1 dm2"
    unfolding dm2_def using serves_trans [OF _ update_tunnel_serves] by (simp add: serve_intros)
  ultimately have dm2: "continues K dm dm2" by (rule continues_served)
  have "continues K dm (request_relays E (try_nat_punch E (pp_active (dm_presence dm2)) dm2))"
    by (rule continues_trans [OF continues_served [OF dm2 try_serves(1)] ask_continues])
  from continues_served [OF continues_served [OF this noting_serves [OF announcing_serves(2)]] greeting_serves]
  have "continues K dm (greet_periodically E (noting (Some (Because ''Private announce failed (''))
      (publish_private_announce_to_active_peers E)
      (request_relays E (try_nat_punch E (pp_active (dm_presence dm2)) dm2))))" .
  then show ?thesis using True
    unfolding announce_tick_def pruned Let_def prod.case dm1_def [symmetric] dm2_def [symmetric] by simp
qed (auto simp: announce_tick_def continues_def)

lemma heartbeat_serves [serve_intros]: "serves dm (heartbeat_tick E dm)"
  by (auto simp: heartbeat_tick_def Let_def intro: serves_trans [OF _ try_serves(2)] serves_trans [OF _ update_tunnel_serves]
      serve_intros)

lemma network_endpoint_serves: "serves dm (snd (network_endpoint E changed dm))"
  by (auto simp: network_endpoint_def Let_def intro!: serve_intros split: option.split)

lemma network_serves [serve_intros]: "serves dm (network_tick E dm)"
proof -
  define latest where "latest = prefer_nonself_tunnel_snapshot (dm_runtime dm) (dm_snapshot dm) (dn_captured E)"
  define changed where "changed = changed_since latest (dm_snapshot dm)"
  obtain moved dm1 where moved: "network_endpoint E changed dm = (moved, dm1)" by fastforce
  with network_endpoint_serves [of dm E changed] have dm1: "serves dm dm1" by simp
  define base where "base = dm1\<lparr>dm_snapshot := latest, dm_last_punch := None\<rparr>"
  obtain r dm2 where r: "apply_presence_runtime_update E base = (r, dm2)" by fastforce
  have "serves dm1 base" by (simp add: base_def serve_intros)
  from serves_trans [OF serves_trans [OF dm1 this] update_serves, of E] r have dm2: "serves dm dm2" by simp
  define dm3 where "dm3 = (if changed then case (r, dm2) of
      (Inl _, dm) \<Rightarrow> dm\<lparr>dm_status := Because ''Network change refresh failed (''\<rparr>
    | (Inr _, dm) \<Rightarrow> dm\<lparr>dm_status := (if session_active dm then Told ''Connected (network refresh)'' else idle_status dm)\<rparr>
    else dm1)"
  have dm3: "serves dm dm3" by (simp add: dm3_def serves_same dm1 dm2 split: sum.split)
  have last: "serves dm (noting None (publish_payload E Hello) (noting None (publish_private_announce_to_known_peers E)
      (try_heartbeat E announcements (try_nat_punch E announcements dm3))))"
    "serves dm (try_heartbeat E announcements (try_nat_punch E announcements dm3))" for announcements
    by (intro serves_trans [OF _ noting_serves] serves_trans [OF _ try_serves(2)] serves_trans [OF _ try_serves(1)] dm3
        serve_intros)+
  show ?thesis
    unfolding network_tick_def Let_def latest_def [symmetric] changed_def [symmetric] moved prod.case
      base_def [symmetric] r dm3_def [unfolded prod.case, symmetric]
    using dm1 dm3 last by simp
qed

lemma failover_continues: "continues K dm (relay_failover E dm)"
proof -
  obtain peers dm1 where q: "runtime_peers_of E dm = (peers, dm1)" by fastforce
  from runtime_peers_serve [of dm E] q have dm1: "serves dm dm1" by simp
  obtain changed fallback where rec: "reconcile_active_relay_sessions (nv_b64 (dn_view E)) (dm_presence dm1) peers
      (dn_now E) (dm_fallback dm1) = (changed, fallback)" by fastforce
  define dm2 where "dm2 = dm1\<lparr>dm_fallback := fallback\<rparr>"
  have "continues K dm1 dm2"
    unfolding dm2_def by (rule continues_change(3)) (metis rec reconcile_inv snd_conv)
  with dm1 have dm2: "continues K dm dm2" by (rule served_continues)
  define dm3 where "dm3 = dm2\<lparr>dm_last_punch := None, dm_outbound := fold announce_forget changed (dm_outbound dm2)\<rparr>"
  obtain r dm4 where r: "apply_presence_runtime_update E dm3 = (r, dm4)" by fastforce
  have "serves dm2 dm3" by (simp add: dm3_def serve_intros)
  from serves_trans [OF this update_serves, of E] r have dm4: "serves dm2 dm4" by simp
  have "serves dm2 (relay_failover E dm)"
    unfolding relay_failover_def q prod.case rec Let_def dm2_def [symmetric] dm3_def [symmetric] r
    using dm4 by (auto intro: serves_same serve_intros serves_trans [OF dm4 noting_serves] split: sum.split)
  with dm2 show ?thesis by (rule continues_served)
qed

lemma prune_continues: "continues K dm (prune_peers E dm)"
proof (cases "session_active dm")
  case True
  define now timeout where "now = dn_now E" and "timeout = peer_signal_timeout_secs (dn_announce_interval_secs E)"
  obtain removed presence where p: "presence_prune_stale now timeout (dm_presence dm) = (removed, presence)" by fastforce
  obtain pruned book where b: "book_prune_stale now (peer_path_cache_timeout_secs (dn_announce_interval_secs E))
      (dm_paths dm) = (pruned, book)" by fastforce
  define dm1 where "dm1 = dm\<lparr>dm_presence := presence, dm_paths := book\<rparr>"
  have "continues K dm (dm\<lparr>dm_presence := presence\<rparr>)"
    using presence_prune_inv [of "dm_presence dm" now timeout] p by (intro continues_change(1)) simp
  moreover have "continues K (dm\<lparr>dm_presence := presence\<rparr>) dm1"
    unfolding dm1_def using b
      book_prune_stale_inv [of "dm_paths dm" now "peer_path_cache_timeout_secs (dn_announce_interval_secs E)"]
    by (intro continues_change(2)) (simp add: now_def)
  ultimately have dm1: "continues K dm dm1" by (rule continues_trans)
  define dm2 where "dm2 = dm1\<lparr>dm_outbound := announce_retain_participants (recently_seen_participants presence now timeout)
    (fold announce_forget removed (dm_outbound dm))\<rparr>"
  have dm2: "serves dm1 dm2" by (simp add: dm2_def serve_intros)
  have "serves dm1 (prune_peers E dm)"
    unfolding prune_peers_def Let_def now_def [symmetric] timeout_def [symmetric] p b prod.case
      dm2_def [unfolded dm1_def, symmetric]
    using True dm2 serves_trans [OF serves_same(5) [OF dm2] update_tunnel_serves] by simp
  with dm1 show ?thesis by (rule continues_served)
qed (simp add: prune_peers_def continues_def)

section \<open>Configurations\<close>

lemma ensured_inv: "config_inv K (ensure_defaults K H c)"
  by (simp add: config_inv_def ensure_defaults_facts(1))

lemma autoconfigured_inv: "config_inv K (maybe_autoconfigure_node K H c)"
  using ensured_inv [of K H c] config_ok_cong [of "maybe_autoconfigure_node K H c" "ensure_defaults K H c" K]
  by (simp add: config_inv_def maybe_autoconfigure_node_def Let_def)

lemma config_step_keeps: "config_inv K c \<Longrightarrow> config_inv K (config_step K e c)"
  by (simp add: config_inv_def config_step_ok)

lemma loaded_inv:
  "load_config_with_overrides K H Y J overrides files = (Inr (app, network_id), files') \<Longrightarrow> config_inv K app"
  by (auto simp: load_config_with_overrides_def autoconfigured_inv Let_def split: prod.splits sum.splits)

lemma joined_inv:
  "config_inv K c \<Longrightarrow> config_inv K (snd (record_inbound_join_request K i r name t c))"
  using config_step_keeps [where e = "RecordJoinRequest i r name t"] by simp

lemma rostered_inv:
  "config_inv K c \<Longrightarrow> config_inv K (snd (apply_admin_signed_shared_roster K now i nm ps ads al t k c))"
  using config_step_keeps [where e = "ApplyRoster now i nm ps ads al t k"] by simp

section \<open>Requests and messages\<close>

lemma take_config_continues:
  assumes "config_inv K (lo_app reload)" shows "continues K dm (take_config reload dm)"
proof -
  define members where "members = set (lo_configured_participants reload)"
  define dm1 where "dm1 = dm\<lparr>dm_app := lo_app reload, dm_network_id := lo_network_id reload,
    dm_expected_peers := lo_expected_peers reload, dm_own_pubkey := lo_own_pubkey reload,
    dm_relays := lo_relays reload, dm_presence := presence_retain_participants members (dm_presence dm),
    dm_paths := retain_participants members (dm_paths dm),
    dm_outbound := announce_clear (announce_retain_participants members (dm_outbound dm)), dm_last_punch := None\<rparr>"
  have "continues K dm dm1"
    using assms by (simp add: continues_def daemon_inv_def dm1_def presence_retain_inv retain_participants_inv)
  from continues_trans [OF this disconnect_continues] show ?thesis
    by (simp add: take_config_def Let_def dm1_def members_def)
qed

lemma reload_connected_serves: "serves dm (reload_connected E dm)"
proof -
  define dm1 where "dm1 = publish_roster E None (dm\<lparr>dm_relay_connected := True, dm_reconnect_attempt := 0,
    dm_reconnect_due := dn_instant E\<rparr>)"
  have "serves dm (dm\<lparr>dm_relay_connected := True, dm_reconnect_attempt := 0, dm_reconnect_due := dn_instant E\<rparr>)"
    by (intro serve_intros)
  then have dm1: "serves dm dm1" unfolding dm1_def by (rule serves_trans) (rule publish_serves)
  then show ?thesis
    unfolding reload_connected_def dm1_def [symmetric] Let_def
    by (auto intro!: serves_trans [OF _ noting_serves] publish_serves announcing_serves serves_same)
qed

lemma reload_client_continues: "continues K dm (reload_client E dm)"
proof (cases "new_signaling_client E (dm_app dm)")
  case None
  then show ?thesis by (simp add: reload_client_def serves_continues serve_intros)
next
  case (Some x)
  then obtain L client where client: "new_signaling_client E (dm_app dm) = Some (L, client)" by (cases x) simp
  define dm1 where "dm1 = dm\<lparr>dm_lib := L, dm_client := client\<rparr>"
  have "serves (dm\<lparr>dm_client := client\<rparr>) dm1" by (simp add: dm1_def serves_def core_def)
  from continues_served [OF renewed_client [OF client] this] have dm1: "continues K dm dm1" .
  obtain up dm2 where up: "connect_signaling E dm1 = (up, dm2)" by fastforce
  from continues_trans [OF dm1 connect_continues, of E] up have dm2: "continues K dm dm2" by simp
  have late: "serves dm2 (retry_later E status (dm2\<lparr>dm_relay_connected := False\<rparr>))" for status
    by (intro serve_intros)
  have idle: "serves dm1 (dm1\<lparr>dm_relay_connected := False, dm_reconnect_attempt := 0, dm_reconnect_due := dn_instant E,
      dm_public_endpoint := None, dm_status := status\<rparr>)" for status
    by (intro serve_intros)
  show ?thesis
    unfolding reload_client_def client option.case prod.case dm1_def [symmetric] Let_def up
    using continues_served [OF dm2 reload_connected_serves] continues_served [OF dm2 late] continues_served [OF dm1 idle]
    by (simp split: bool.split)
qed

lemma reload_applied_continues:
  assumes "config_inv K (lo_app reload)" shows "continues K dm (reload_applied E reload dm)"
proof -
  define dm1 where "dm1 = reload_client E (take_config reload dm)"
  have dm1: "continues K dm dm1"
    unfolding dm1_def by (rule continues_trans [OF take_config_continues [OF assms] reload_client_continues])
  obtain r dm2 where r: "apply_presence_runtime_update E dm1 = (r, dm2)" by fastforce
  from continues_served [OF dm1 update_serves, of E] r have dm2: "continues K dm dm2" by simp
  have "serves dm2 (dm2\<lparr>dm_status := status\<rparr>)" for status by (intro serve_intros)
  from continues_served [OF dm2 this] continues_served [OF dm2 endpoint_serves(2)] dm2 show ?thesis
    by (simp add: reload_applied_def dm1_def [symmetric] r split: sum.split)
qed

lemma reload_continues:
  assumes "dn_keys E = K" shows "continues K dm (snd (reload_session E dm))"
proof -
  have files: "continues K dm (dm\<lparr>dm_files := files\<rparr>)" for files by (simp add: serves_continues serve_intros)
  have told: "continues K dm (dm\<lparr>dm_files := files, dm_status := status\<rparr>)" for files status
    by (simp add: serves_continues serve_intros)
  have loaded: "continues K dm (reload_applied E (build_daemon_reload_config K app network_id relays) (dm\<lparr>dm_files := files'\<rparr>))"
    if "load_config_with_overrides K H Y J overrides files = (Inr (app, network_id), files')"
    for H Y J overrides files app network_id relays files'
    by (rule continues_trans [OF files reload_applied_continues])
      (simp add: build_daemon_reload_config_def loaded_inv [OF that])
  then show ?thesis
    using told by (auto simp: reload_session_def assms split: prod.split sum.split)
qed

lemma pause_inv:
  assumes "daemon_inv K dm" shows "daemon_inv K (pause_session E dm)"
proof -
  define dm1 where "dm1 = (if dm_relay_connected dm \<and> session_active dm
    then noting None (publish_payload E (Disconnect (nd_id (ac_node (dm_app dm))))) dm else dm)"
  define dm2 where "dm2 = (if join_requests_enabled (dm_app dm1) then dm1
    else (disconnect_signaling dm1)\<lparr>dm_relay_connected := False\<rparr>)"
  define dm3 where "dm3 = (no_fallback dm2)\<lparr>dm_session_enabled := False, dm_reconnect_attempt := 0,
    dm_reconnect_due := dn_instant E, dm_public_endpoint := None, dm_presence := presence_new,
    dm_paths := book_clear (dm_paths dm2), dm_outbound := announce_clear (dm_outbound dm2), dm_last_punch := None\<rparr>"
  have "continues K dm dm1"
    unfolding dm1_def by (simp add: serves_continues serve_intros)
  moreover have "continues K dm1 dm2"
    unfolding dm2_def using continues_served [OF disconnect_continues serves_same(7) [OF serves_refl]]
    by (simp add: serves_continues serve_intros)
  ultimately have "daemon_inv K dm2" using assms by (simp add: continues_def)
  then have dm3: "daemon_inv K dm3"
    by (simp add: daemon_inv_def dm3_def no_fallback_def presence_new_inv fallback_inv_new book_clear_def book_inv_def hm_simps)
  obtain r dm4 where r: "apply_presence_runtime_update E dm3 = (r, dm4)" by fastforce
  from update_serves [of dm3 E] r have dm4: "serves dm3 dm4" by simp
  from serves_continues [OF serves_same(1) [OF dm4]] dm3 show ?thesis
    unfolding pause_session_def Let_def dm1_def [symmetric] dm2_def [symmetric] dm3_def [symmetric] r
    by (simp add: continues_def split: sum.split)
qed

section \<open>What is restored\<close>

text \<open>A map that is read from a file is a map: it has every key once.\<close>

definition maps_wf :: "peer_path_book \<Rightarrow> bool" where
  "maps_wf b \<longleftrightarrow> hm_wf (pb_peers b) \<and> list_all (\<lambda>(_, st). hm_wf (ps_endpoints st)) (pb_peers b)"

definition sound_env :: "key_env \<Rightarrow> daemon_env \<Rightarrow> bool" where
  "sound_env K E \<longleftrightarrow> dn_keys E = K
    \<and> (\<forall>raw cache. from_json (dn_cache_codec E) raw = Some cache \<longrightarrow> maps_wf (cs_path_book cache))"

lemma pruned_book_inv:
  assumes "maps_wf b" "stale \<noteq> 0" shows "book_inv (snd (book_prune_stale now stale (retain_participants ps b)))"
proof -
  have "path_state_inv (snd (prune_path_state cutoff st))" if "hm_wf (ps_endpoints st)" for cutoff st
    unfolding prune_path_state_def Let_def
    by (rule drop_untracked_current_inv) (simp add: that prune_endpoints_def hm_wf_intros)
  with assms show ?thesis
    unfolding book_inv_def book_prune_peers [OF assms(2)]
    by (auto simp: maps_wf_def retain_participants_def hm_wf_intros list_all_iff hm_set_retain hm_set_map_values)
qed

lemma path_timeout_nonzero: "persisted_path_cache_timeout_secs secs \<noteq> 0"
proof -
  have "(1800 :: u64) \<le> persisted_path_cache_timeout_secs secs"
    by (simp add: persisted_path_cache_timeout_secs_def MIN_PERSISTED_PATH_CACHE_TIMEOUT_SECS_def)
  then show ?thesis by (auto simp: word_le_nat_alt)
qed

lemma restored_fold_inv:
  "presence_inv presence \<Longrightarrow> presence_inv (fold (\<lambda>entry. restore_known (p entry) (a entry) (t entry)) entries presence)"
  by (induction entries arbitrary: presence) (simp_all add: restore_known_inv)

lemma restore_inv:
  assumes "presence_inv presence" "book_inv book"
    and "\<And>raw cache. from_json J raw = Some cache \<Longrightarrow> maps_wf (cs_path_book cache)"
    and "restore_daemon_peer_cache Y J R files presence book = (r, presence', book')"
  shows "presence_inv presence'" "book_inv book'"
  using assms(4,1,2)
  by (auto simp: restore_daemon_peer_cache_def read_daemon_peer_cache_def restored_fold_inv Let_def
      intro!: pruned_book_inv assms(3) path_timeout_nonzero split: sum.splits option.splits if_splits)

lemma restore_continues: "sound_env K E \<Longrightarrow> continues K dm (restore_cache E dm)"
proof -
  assume sound: "sound_env K E"
  obtain r presence book where r: "restore_daemon_peer_cache (dn_fs E) (dn_cache_codec E) (cache_restore E dm)
      (dm_files dm) (dm_presence dm) (dm_paths dm) = (r, presence, book)" by (metis prod.exhaust)
  have "presence_inv presence \<and> book_inv book" if "presence_inv (dm_presence dm)" "book_inv (dm_paths dm)"
    using restore_inv [OF that _ r] sound by (auto simp: sound_env_def)
  then show ?thesis by (simp add: restore_cache_def r continues_def daemon_inv_def)
qed

lemma resume_inv:
  assumes "sound_env K E" "daemon_inv K dm" shows "daemon_inv K (resume_session E dm)"
proof (cases "dm_session_enabled dm")
  case True
  then show ?thesis using assms by (simp add: resume_session_def)
next
  case False
  define dm1 where "dm1 = dm\<lparr>dm_session_enabled := True, dm_relay_connected := False, dm_reconnect_attempt := 0,
    dm_reconnect_due := dn_instant E\<rparr>"
  define dm2 where "dm2 = (if session_active dm1 then restore_cache E dm1 else dm1)"
  have "daemon_inv K dm1" using assms(2) by (simp add: daemon_inv_def dm1_def)
  then have dm2: "daemon_inv K dm2"
    using restore_continues [OF assms(1), of dm1] by (simp add: dm2_def continues_def)
  obtain r dm3 where r: "apply_presence_runtime_update E dm2 = (r, dm3)" by fastforce
  from update_serves [of dm2 E] r have dm3: "serves dm2 dm3" by simp
  have "serves dm2 (resume_session E dm)"
    unfolding resume_session_def Let_def dm1_def [symmetric] dm2_def [symmetric] r
    using False by (auto intro!: serves_same serves_trans [OF dm3] endpoint_serves dm3 serves_refl split: sum.split)
  from serves_continues [OF this] dm2 show ?thesis by (simp add: continues_def)
qed

section \<open>Messages\<close>

lemma join_continues:
  assumes "dn_keys E = K" shows "continues K dm (persist_inbound_join_request E sender at_time request dm)"
proof -
  obtain r app where r: "record_inbound_join_request (dn_keys E) (mj_network_id request) sender
      (mj_requester_node_name request) at_time (dm_app dm) = (r, app)" by fastforce
  have "continues K dm (dm\<lparr>dm_app := app\<rparr>)"
    by (rule continues_change(6)) (metis assms joined_inv r snd_conv)
  moreover have "serves (dm\<lparr>dm_app := app\<rparr>) (dm\<lparr>dm_app := app, dm_files := files, dm_status := status\<rparr>)"
    for files status by (simp add: serves_def core_def)
  note continues_served [OF calculation this]
  ultimately show ?thesis
    unfolding persist_inbound_join_request_def r prod.case Let_def
    by (auto split: sum.split option.split prod.split)
qed

lemma persist_roster_continues:
  assumes "dn_keys E = K" shows "continues K dm (snd (persist_shared_network_roster E sender network_id roster dm))"
proof -
  obtain r app where r: "apply_admin_signed_shared_roster (dn_keys E) (dn_now E) network_id (nr_network_name roster)
        (nr_participants roster) (nr_admins roster) (nr_aliases roster) (nr_signed_at roster) sender (dm_app dm) = (r, app)"
    by fastforce
  have "config_inv K (dm_app dm) \<Longrightarrow> config_inv K app" by (metis assms rostered_inv r snd_conv)
  then show ?thesis
    unfolding persist_shared_network_roster_def r prod.case Let_def
    by (auto simp: continues_def daemon_inv_def assms autoconfigured_inv split: sum.split bool.split prod.split)
qed

lemma roster_applied_continues:
  assumes "config_inv K (dm_app dm)" "daemon_inv K dm" shows "continues K dm (roster_applied E dm)"
proof -
  define dm1 where "dm1 = take_config (build_daemon_reload_config (dn_keys E) (dm_app dm) (effective_network_id (dm_app dm))
    (so_relays (dn_overrides E))) dm"
  have dm1: "continues K dm dm1"
    unfolding dm1_def by (rule take_config_continues) (simp add: build_daemon_reload_config_def assms)
  show ?thesis
  proof (cases "new_signaling_client E (dm_app dm1)")
    case None
    have "serves dm1 (dm1\<lparr>dm_relay_connected := False, dm_status := status\<rparr>)" for status by (intro serve_intros)
    from continues_served [OF dm1 this] None show ?thesis
      by (simp add: roster_applied_def Let_def dm1_def [symmetric])
  next
    case (Some x)
    then obtain L client where client: "new_signaling_client E (dm_app dm1) = Some (L, client)" by (cases x) simp
    define dm2 where "dm2 = dm1\<lparr>dm_lib := L, dm_client := client\<rparr>"
    have "serves (dm1\<lparr>dm_client := client\<rparr>) dm2" by (simp add: dm2_def serves_def core_def)
    from continues_trans [OF dm1 continues_served [OF renewed_client [OF client] this]] have dm2: "continues K dm dm2" .
    obtain up dm3 where up: "connect_signaling E dm2 = (up, dm3)" by fastforce
    from continues_trans [OF dm2 connect_continues, of E] up have dm3: "continues K dm dm3" by simp
    have late: "serves dm3 (retry_later E status (dm3\<lparr>dm_relay_connected := False\<rparr>))" for status
      by (intro serve_intros)
    define dm4 where "dm4 = publish_roster E None (update_tunnel E (Because ''Roster applied, but tunnel reload failed ('')
      (dm3\<lparr>dm_relay_connected := True, dm_reconnect_attempt := 0, dm_reconnect_due := dn_instant E\<rparr>))"
    have "serves dm3 (dm3\<lparr>dm_relay_connected := True, dm_reconnect_attempt := 0, dm_reconnect_due := dn_instant E\<rparr>)"
      by (intro serve_intros)
    then have dm4: "serves dm3 dm4"
      unfolding dm4_def by (rule serves_trans [OF serves_trans [OF _ update_tunnel_serves] publish_serves(2)])
    have "serves dm3 (if session_active dm4 then noting None (publish_payload E Hello) dm4 else dm4)"
      using dm4 serves_trans [OF dm4 noting_serves [OF publish_serves(1)]] by simp
    from continues_served [OF dm3 this] continues_served [OF dm3 late] dm2 show ?thesis
      unfolding roster_applied_def Let_def dm1_def [symmetric] client option.case prod.case dm2_def [symmetric] up
        dm4_def [symmetric]
      by (simp split: bool.split if_split_asm)
  qed
qed

lemma greet_back_serves [serve_intros]: "serves dm (greet_back E sender payload dm)"
  by (auto simp: greet_back_def intro!: serve_intros)

lemma peer_changed_serves: "serves dm (peer_changed E sender payload dm)"
proof -
  obtain r dm1 where r: "apply_presence_runtime_update E dm = (r, dm1)" by fastforce
  from update_serves [of dm E] r have dm1: "serves dm dm1" by simp
  then have "serves dm (try_heartbeat E active (try_nat_punch E active dm1))" for active
    by (rule serves_trans [OF serves_trans [OF _ try_serves(1)] try_serves(2)])
  then show ?thesis
    unfolding peer_changed_def r prod.case Let_def
    by (auto intro!: serves_same serves_trans [OF _ greet_back_serves] dm1 split: sum.split)
qed

lemma presence_message_continues: "continues K dm (presence_message E sender payload dm)"
proof -
  define dm1 where "dm1 = (if is_greeting payload then publish_roster E (Some [sender]) dm else dm)"
  have dm1: "serves dm dm1" by (simp add: dm1_def serve_intros)
  obtain changed presence where p: "apply_signal sender payload (dn_now E) (dm_presence dm1) = (changed, presence)"
    by fastforce
  define dm2 where "dm2 = dm1\<lparr>dm_presence := presence, dm_outbound := (case payload of
    Disconnect _ \<Rightarrow> announce_forget sender (dm_outbound dm1) | _ \<Rightarrow> dm_outbound dm1)\<rparr>"
  have "continues K dm1 (dm1\<lparr>dm_presence := presence\<rparr>)"
    using apply_signal_inv [of "dm_presence dm1" sender payload "dn_now E"] p by (intro continues_change(1)) simp
  moreover have "serves (dm1\<lparr>dm_presence := presence\<rparr>) dm2" by (simp add: dm2_def serves_def core_def)
  ultimately have dm2: "continues K dm dm2"
    by (rule served_continues [OF dm1 continues_served])
  show ?thesis
    unfolding presence_message_def Let_def dm1_def [symmetric] p prod.case dm2_def [symmetric]
    using serves_continues [OF dm1] continues_served [OF dm2 peer_changed_serves] continues_served [OF dm2 greet_back_serves]
    by simp
qed

lemma signal_continues:
  assumes "dn_keys E = K" "daemon_inv K dm" shows "continues K dm (signal_message E message dm)"
proof -
  have closed: "continues K dm (retry_later E status (dm\<lparr>dm_relay_connected := False\<rparr>))" for status
    by (intro serves_continues serve_intros)
  have roster: "continues K dm (case persist_shared_network_roster E sender network_id roster dm of
      (True, dm) \<Rightarrow> roster_applied E dm | (False, dm) \<Rightarrow> dm)" for sender network_id roster
  proof -
    obtain applied dm1 where r: "persist_shared_network_roster E sender network_id roster dm = (applied, dm1)" by fastforce
    from persist_roster_continues [OF assms(1), of dm] r have dm1: "continues K dm dm1" by (metis snd_conv)
    then have "daemon_inv K dm1" using assms(2) by (simp add: continues_def)
    then have "continues K dm1 (roster_applied E dm1)"
      by (intro roster_applied_continues) (simp_all add: daemon_inv_def)
    with dm1 show ?thesis by (simp add: r continues_trans split: bool.split)
  qed
  have same: "continues K dm dm" by (simp add: continues_def)
  show ?thesis
    by (simp add: signal_message_def same closed roster join_continues [OF assms(1)] presence_message_continues
        split: option.split signal_payload.split)
qed

lemma service_continues: "continues K dm (service_message E message dm)"
proof -
  have same: "continues K dm dm" by (simp add: continues_def)
  have closed: "continues K dm (dm\<lparr>dm_service_connected := False\<rparr>)"
    by (intro serves_continues serve_intros)
  have "continues K dm (case handle_service_message envelope (dn_now E) (dm_fallback dm, dm_outbound dm) of
      (activated, fallback, outbound) \<Rightarrow>
        (let dm1 = dm\<lparr>dm_fallback := fallback, dm_outbound := outbound\<rparr>
         in (case activated of
               None \<Rightarrow> dm1
             | Some participant \<Rightarrow>
                 (case apply_presence_runtime_update E dm1 of
                    (Inl _, dm) \<Rightarrow> dm\<lparr>dm_status := Because ''Relay fallback update failed (''\<rparr>
                  | (Inr _, dm) \<Rightarrow> noting None
                      (publish_private_announce_to_participants E (pp_known (dm_presence dm)) [participant]) dm))))"
    for envelope
  proof -
    obtain activated fallback outbound where h: "handle_service_message envelope (dn_now E) (dm_fallback dm, dm_outbound dm)
        = (activated, fallback, outbound)" by (metis prod.exhaust)
    define dm1 where "dm1 = dm\<lparr>dm_fallback := fallback, dm_outbound := outbound\<rparr>"
    have "fallback = fst (snd (handle_service_message envelope (dn_now E) (dm_fallback dm, dm_outbound dm)))"
      by (simp add: h)
    then have "fallback_inv None (dm_fallback dm) \<Longrightarrow> fallback_inv None fallback"
      by (simp add: message_state grant_inv rejection_inv split: service_payload.split)
    from continues_change(3) [OF this] have "continues K dm (dm\<lparr>dm_fallback := fallback\<rparr>)" .
    moreover have "serves (dm\<lparr>dm_fallback := fallback\<rparr>) dm1" by (simp add: dm1_def serves_def core_def)
    ultimately have dm1: "continues K dm dm1" by (rule continues_served)
    obtain r dm2 where r: "apply_presence_runtime_update E dm1 = (r, dm2)" by fastforce
    from continues_served [OF dm1 update_serves, of E] r have dm2: "continues K dm dm2" by simp
    have "continues K dm (noting None (publish_private_announce_to_participants E announcements ps) dm2)" for announcements ps
      by (rule continues_served [OF dm2 noting_serves]) (rule announcing_serves)
    moreover have "continues K dm (dm2\<lparr>dm_status := status\<rparr>)" for status
      by (rule continues_served [OF dm2]) (intro serve_intros)
    ultimately show ?thesis
      unfolding h prod.case Let_def dm1_def [symmetric] r using dm1 by (simp split: option.split sum.split)
  qed
  with same closed show ?thesis
    by (simp add: service_message_def split: option.split)
qed

section \<open>A turn, a run\<close>

lemma operator_continues: "continues K dm (sync_operator E dm)"
  unfolding sync_operator_def by (rule continues_change(5)) (rule sync_inv)

lemma request_inv:
  assumes "sound_env K E" "daemon_inv K dm" "handle_control_request E request dm = Some dm'"
  shows "daemon_inv K dm'"
proof -
  have written: "daemon_inv K (sync_operator E (dm1\<lparr>dm_files := files\<rparr>))" if "daemon_inv K dm1" for dm1 files
    using continues_trans [OF serves_continues [OF serves_same(10) [OF serves_refl]] operator_continues] that
    by (simp add: continues_def)
  have reloaded: "daemon_inv K (snd (reload_session E dm))"
    using reload_continues [of E K dm] assms(1,2) by (simp add: sound_env_def continues_def)
  show ?thesis
    using assms(3) written [OF pause_inv [OF assms(2)]] written [OF resume_inv [OF assms(1,2)]] written [OF reloaded]
    by (cases request) (auto simp: handle_control_request_def Let_def split_beta)
qed

lemma state_tick_inv:
  assumes "sound_env K E" "daemon_inv K dm" "state_tick E dm = Some dm'"
  shows "daemon_inv K dm'"
proof -
  define dm1 where "dm1 = relay_failover E dm"
  obtain request files where taken: "take_daemon_control_request (dn_fs E) (dm_files dm1) = (request, files)" by fastforce
  have dm1: "daemon_inv K dm1" using failover_continues assms(2) by (simp add: dm1_def continues_def)
  then have dm2: "daemon_inv K (dm1\<lparr>dm_files := files\<rparr>)" by (simp add: daemon_inv_def)
  obtain dm3 where dm3: "(case request of None \<Rightarrow> Some (dm1\<lparr>dm_files := files\<rparr>)
      | Some r \<Rightarrow> handle_control_request E r (dm1\<lparr>dm_files := files\<rparr>)) = Some dm3"
    and dm': "dm' = sync_operator E (write_cache E (prune_peers E dm3))"
    using assms(3) by (auto simp: state_tick_def dm1_def [symmetric] taken Let_def split: option.splits if_splits)
  have "daemon_inv K dm3"
    using dm3 dm2 request_inv [OF assms(1) dm2] by (auto split: option.splits)
  moreover have "continues K dm3 dm'"
    unfolding dm' by (rule continues_trans [OF continues_served [OF prune_continues cache_serves] operator_continues])
  ultimately show ?thesis by (simp add: continues_def)
qed

lemma turn_inv:
  assumes "sound_env K E" "daemon_inv K dm" "daemon_turn E event dm = Some dm'"
  shows "daemon_inv K dm'"
proof -
  have keys: "dn_keys E = K" using assms(1) by (simp add: sound_env_def)
  have step: "daemon_inv K d" if "continues K dm d" for d using that assms(2) by (simp add: continues_def)
  show ?thesis
    using assms(3) reconnect_continues announce_continues serves_continues [OF heartbeat_serves]
      serves_continues [OF network_serves] signal_continues [OF keys assms(2)] service_continues
      state_tick_inv [OF assms(1,2)]
    by (cases event) (auto intro!: step)
qed

lemma run_inv_daemon: "daemon_run (sound_env K) dm dm' \<Longrightarrow> daemon_inv K dm \<Longrightarrow> daemon_inv K dm'"
proof (induction rule: daemon_run.induct)
  case (files_changed dm' fs)
  then show ?case by (simp add: daemon_inv_def)
qed (auto intro: turn_inv)

end
