(* ===== verification/Daemon_Safety.thy ===== *)
theory Daemon_Safety
  imports Daemon_Inv
begin

text \<open>
  What holds in every run of the daemon: its state is well formed, a paused daemon keeps nothing of its
  session, IPv4 forwarding is given back at the end; and how a control request is served.
\<close>

named_theorems rest_intros "operations that leave a resting daemon at rest"

section \<open>A daemon at rest\<close>

definition rests :: "daemon \<Rightarrow> bool" where
  "rests dm \<longleftrightarrow> \<not> dm_session_enabled dm \<and> dm_presence dm = presence_new \<and> dm_fallback dm = relay_fallback_new
    \<and> pb_peers (dm_paths dm) = [] \<and> \<not> is_running (dm_runtime dm)
    \<and> dm_public_endpoint dm = None \<and> dm_last_punch dm = None"

definition at_rest :: "daemon \<Rightarrow> bool" where
  "at_rest dm \<longleftrightarrow> dm_session_enabled dm \<or> rests dm"

lemma rests_same [rest_intros]:
  "rests dm \<Longrightarrow> rests (dm\<lparr>dm_status := status\<rparr>)"
  "rests dm \<Longrightarrow> rests (dm\<lparr>dm_outbox := outbox\<rparr>)"
  "rests dm \<Longrightarrow> rests (dm\<lparr>dm_outbound := outbound\<rparr>)"
  "rests dm \<Longrightarrow> rests (dm\<lparr>dm_relay_connected := up\<rparr>)"
  "rests dm \<Longrightarrow> rests (dm\<lparr>dm_reconnect_attempt := attempt\<rparr>)"
  "rests dm \<Longrightarrow> rests (dm\<lparr>dm_reconnect_due := due\<rparr>)"
  "rests dm \<Longrightarrow> rests (dm\<lparr>dm_files := files\<rparr>)"
  "rests dm \<Longrightarrow> rests (dm\<lparr>dm_last_cache := cache\<rparr>)"
  "rests dm \<Longrightarrow> rests (dm\<lparr>dm_service := service\<rparr>)"
  "rests dm \<Longrightarrow> rests (dm\<lparr>dm_service_connected := up\<rparr>)"
  "rests dm \<Longrightarrow> rests (dm\<lparr>dm_service_lib := L\<rparr>)"
  "rests dm \<Longrightarrow> rests (dm\<lparr>dm_lib := L\<rparr>)"
  "rests dm \<Longrightarrow> rests (dm\<lparr>dm_client := client\<rparr>)"
  "rests dm \<Longrightarrow> rests (dm\<lparr>dm_app := app\<rparr>)"
  "rests dm \<Longrightarrow> rests (dm\<lparr>dm_operator := operator\<rparr>)"
  "rests dm \<Longrightarrow> rests (dm\<lparr>dm_trace := t\<rparr>)"
  "rests dm \<Longrightarrow> rests (dm\<lparr>dm_snapshot := snapshot\<rparr>)"
  "rests dm \<Longrightarrow> rests (dm\<lparr>dm_public_endpoint := None\<rparr>)"
  "rests dm \<Longrightarrow> rests (dm\<lparr>dm_last_punch := None\<rparr>)"
  "rests dm \<Longrightarrow> rests (dm\<lparr>dm_fallback := relay_fallback_new\<rparr>)"
  by (simp_all add: rests_def)

lemma rests_inactive: "rests dm \<Longrightarrow> \<not> session_active dm"
  by (simp add: rests_def session_active_def daemon_session_active_def)

lemma plan_nobody: "pi_announcements I = [] \<Longrightarrow> plan_peers I participants peers book = (Inr peers, book)"
  by (induction I participants peers book rule: plan_peers.induct) (simp_all add: hm_simps)

lemma stop_not_running: "stop_tunnel H s = (rt, t) \<Longrightarrow> \<not> is_running rt"
  by (auto simp: stop_tunnel_def is_running_def Let_def split: prod.splits)

lemma apply_nobody:
  assumes "pb_peers book = []" "apply_tunnel H V app own [] now book s = (r, book', rt, t)"
  shows "r = Inr () \<and> pb_peers book' = [] \<and> \<not> is_running rt"
proof -
  have "record_successful_runtime_paths b64 [] peers book local now = (False, book)" for b64 peers local
    by (simp add: record_successful_runtime_paths_def split: option.split)
  then show ?thesis
    using assms
    by (auto simp: apply_tunnel_def Let_def planned_tunnel_peers_for_local_endpoints_def plan_nobody
        retain_participants_def hm_retain_def dest!: stop_not_running split: prod.splits sum.splits)
qed

lemma update_at_rest: "rests dm \<Longrightarrow> \<exists>dm'. apply_presence_runtime_update E dm = (Inr (), dm') \<and> rests dm'"
proof -
  assume rests: "rests dm"
  obtain r book rt t where a: "apply_tunnel (dn_host E) (dn_view E) (dm_app dm) (dm_own_pubkey dm) [] (dn_now E)
      (dm_paths dm) (dm_runtime dm, dm_trace dm) = (r, book, rt, t)" by (metis prod.exhaust)
  have "pb_peers (dm_paths dm) = []" using rests by (simp add: rests_def)
  note nobody = apply_nobody [OF this a]
  show ?thesis
    using rests nobody a
    by (auto simp: apply_presence_runtime_update_def apply_announcements_def Let_def rests_def presence_new_def
        relay_fallback_new_def effective_peer_announcements_for_runtime_def hm_map_values_def)
qed

lemma update_tunnel_rests [rest_intros]: "rests dm \<Longrightarrow> rests (update_tunnel E failure dm)"
  using update_at_rest [of dm E] by (auto simp: update_tunnel_def)

lemma runtime_peers_rest: "runtime_peers_of E dm = (peers, dm') \<Longrightarrow> rests dm \<Longrightarrow> rests dm'"
  by (auto simp: runtime_peers_of_def rest_intros split: prod.splits)

lemma noting_rests [rest_intros]: "rests dm \<Longrightarrow> (\<And>dm. rests dm \<Longrightarrow> rests (snd (publish dm))) \<Longrightarrow> rests (noting status publish dm)"
  by (auto simp: noting_def intro!: rests_same split: prod.split sum.split option.split dest: sym) (metis snd_conv)+

lemma publishing_rests [rest_intros]:
  "rests dm \<Longrightarrow> rests (snd (publish_payload E payload dm))"
  "rests dm \<Longrightarrow> rests (publish_roster E recipients dm)"
  by (auto simp: publish_payload_def publish_roster_def intro!: rests_same split: prod.split)

lemma connecting_rests [rest_intros]:
  "rests dm \<Longrightarrow> rests (snd (connect_signaling E dm))"
  "rests dm \<Longrightarrow> rests (connect_service E dm)"
  "rests dm \<Longrightarrow> rests (disconnect_signaling dm)"
  "rests dm \<Longrightarrow> rests (retry_later E delay dm)"
  by (auto simp: connect_signaling_def connect_service_def disconnect_signaling_def retry_later_def Let_def
      intro!: rests_same split: prod.split)

lemma connected_rests: "connect_signaling E dm = (up, dm') \<Longrightarrow> rests dm \<Longrightarrow> rests dm'"
  using connecting_rests(1) [of dm E] by simp

text \<open>The turns of a paused daemon.\<close>

lemma reconnect_rests:
  assumes "rests dm" "reconnect_tick E dm = Some dm'" shows "rests dm'"
proof (cases "dm' = dm")
  case False
  then obtain L client where client: "new_signaling_client E (dm_app dm) = Some (L, client)"
    using assms(2) by (auto simp: reconnect_tick_def split: if_splits option.splits)
  define dm1 where "dm1 = dm\<lparr>dm_lib := L, dm_client := client, dm_service_lib := L,
    dm_service := service_client_new L, dm_service_connected := False\<rparr>"
  obtain up dm2 where up: "connect_signaling E dm1 = (up, dm2)" by fastforce
  have "rests dm1" unfolding dm1_def by (intro rest_intros assms(1))
  from connected_rests [OF up this] have dm2: "rests dm2" .
  have dm3: "rests (publish_roster E None (connect_service E (dm2\<lparr>dm_relay_connected := True, dm_reconnect_attempt := 0\<rparr>)))"
    by (intro rest_intros dm2)
  have late: "rests (retry_later E status dm2)" for status by (intro rest_intros dm2)
  show ?thesis
    using assms(2) False client up dm1_def [symmetric] late rests_same(1) [OF dm3]
      rests_inactive [OF rests_same(1) [OF dm3]] rests_inactive [OF dm3]
    by (auto simp: reconnect_tick_def Let_def split: if_splits bool.splits)
qed (use assms(1) in simp)

lemma network_rests: "rests dm \<Longrightarrow> rests (network_tick E dm)"
proof -
  assume rests: "rests dm"
  define latest where "latest = prefer_nonself_tunnel_snapshot (dm_runtime dm) (dm_snapshot dm) (dn_captured E)"
  define changed where "changed = changed_since latest (dm_snapshot dm)"
  obtain moved dm1 where moved: "network_endpoint E changed dm = (moved, dm1)" by fastforce
  have dm1: "rests dm1" "\<not> moved"
    using moved rests rests_inactive [OF rests]
    by (auto simp: network_endpoint_def Let_def intro: rest_intros split: if_splits)
  have "rests (dm1\<lparr>dm_snapshot := latest, dm_last_punch := None\<rparr>)" by (intro rest_intros dm1)
  from update_at_rest [OF this, of E] obtain dm2 where
    dm2: "apply_presence_runtime_update E (dm1\<lparr>dm_snapshot := latest, dm_last_punch := None\<rparr>) = (Inr (), dm2)" "rests dm2"
    by blast
  have inactive: "\<not> session_active (dm2\<lparr>dm_status := status\<rparr>)" for status
    by (rule rests_inactive) (intro rest_intros dm2)
  show ?thesis
    unfolding network_tick_def Let_def latest_def [symmetric] changed_def [symmetric] moved prod.case
    using dm1 inactive rests_same(1) [OF dm2(2)] by (simp add: dm2(1))
qed

lemma failover_rests: "rests dm \<Longrightarrow> rests (relay_failover E dm)"
proof -
  assume rests: "rests dm"
  obtain peers dm1 where q: "runtime_peers_of E dm = (peers, dm1)" by fastforce
  from runtime_peers_rest [OF q rests] have dm1: "rests dm1" .
  then have "reconcile_active_relay_sessions b64 presence peers now (dm_fallback dm1) = ([], relay_fallback_new)"
    for b64 presence now
    by (simp add: rests_def reconcile_active_relay_sessions_def relay_fallback_new_def sort_dedup_def)
  with rests_same(20) [OF dm1] show ?thesis by (simp add: relay_failover_def q)
qed

lemma prune_rests: "rests dm \<Longrightarrow> prune_peers E dm = dm"
  by (simp add: prune_peers_def rests_inactive)

lemma cache_rests: "rests dm \<Longrightarrow> rests (write_cache E dm)"
  by (auto simp: write_cache_def intro!: rests_same intro: runtime_peers_rest split: prod.split)

lemma operator_rests: "rests dm \<Longrightarrow> rests (sync_operator E dm)"
  by (simp add: sync_operator_def rest_intros)

lemma take_config_rests: "rests dm \<Longrightarrow> rests (take_config reload dm)"
  by (simp add: rests_def take_config_def Let_def disconnect_signaling_def presence_retain_participants_def
      presence_new_def retain_participants_def hm_retain_def)

lemma reload_client_rests: "rests dm \<Longrightarrow> rests (reload_client E dm)"
proof -
  assume rests: "rests dm"
  show ?thesis
  proof (cases "new_signaling_client E (dm_app dm)")
    case None
    then show ?thesis by (simp add: reload_client_def rests rest_intros)
  next
    case (Some x)
    then obtain L client where client: "new_signaling_client E (dm_app dm) = Some (L, client)" by (cases x) simp
    have dm1: "rests (dm\<lparr>dm_lib := L, dm_client := client\<rparr>)" by (intro rest_intros rests)
    obtain up dm2 where up: "connect_signaling E (dm\<lparr>dm_lib := L, dm_client := client\<rparr>) = (up, dm2)" by fastforce
    from connected_rests [OF up dm1] have dm2: "rests dm2" .
    define dm3 where "dm3 = publish_roster E None (dm2\<lparr>dm_relay_connected := True, dm_reconnect_attempt := 0,
      dm_reconnect_due := dn_instant E\<rparr>)"
    have "rests dm3" unfolding dm3_def by (intro rest_intros dm2)
    then have "rests (reload_connected E dm2)"
      using rests_inactive [OF rests_same(1)] by (simp add: reload_connected_def Let_def dm3_def [symmetric] rests_same)
    moreover have "rests (retry_later E status (dm2\<lparr>dm_relay_connected := False\<rparr>))" for status
      by (intro rest_intros dm2)
    moreover have "rests (dm\<lparr>dm_lib := L, dm_client := client, dm_relay_connected := False, dm_reconnect_attempt := 0,
        dm_reconnect_due := dn_instant E, dm_public_endpoint := None, dm_status := status\<rparr>)" for status
      by (intro rest_intros rests)
    ultimately show ?thesis by (simp add: reload_client_def client Let_def up split: bool.split)
  qed
qed

lemma reload_applied_rests: "rests dm \<Longrightarrow> rests (reload_applied E reload dm)"
proof -
  assume "rests dm"
  then have "rests (reload_client E (take_config reload dm))" by (intro reload_client_rests take_config_rests)
  from update_at_rest [OF this, of E] obtain dm1 where
    "apply_presence_runtime_update E (reload_client E (take_config reload dm)) = (Inr (), dm1)" "rests dm1" by blast
  then show ?thesis by (simp add: reload_applied_def rests_inactive)
qed

lemma reload_rests: "rests dm \<Longrightarrow> rests (snd (reload_session E dm))"
  by (auto simp: reload_session_def intro!: reload_applied_rests rests_same split: prod.split sum.split)

lemma pause_rests: "rests (pause_session E dm)"
proof -
  define dm2 where "dm2 = (let dm1 = (if dm_relay_connected dm \<and> session_active dm
      then noting None (publish_payload E (Disconnect (nd_id (ac_node (dm_app dm))))) dm else dm)
    in if join_requests_enabled (dm_app dm1) then dm1 else (disconnect_signaling dm1)\<lparr>dm_relay_connected := False\<rparr>)"
  define dm3 where "dm3 = (no_fallback dm2)\<lparr>dm_session_enabled := False, dm_reconnect_attempt := 0,
    dm_reconnect_due := dn_instant E, dm_public_endpoint := None, dm_presence := presence_new,
    dm_paths := book_clear (dm_paths dm2), dm_outbound := announce_clear (dm_outbound dm2), dm_last_punch := None\<rparr>"
  obtain r book rt t where a: "apply_tunnel (dn_host E) (dn_view E) (dm_app dm3) (dm_own_pubkey dm3) [] (dn_now E)
      (dm_paths dm3) (dm_runtime dm3, dm_trace dm3) = (r, book, rt, t)" by (metis prod.exhaust)
  have "pb_peers (dm_paths dm3) = []" by (simp add: dm3_def book_clear_def)
  note nobody = apply_nobody [OF this a]
  have nobody_heard: "effective_peer_announcements_for_runtime (pp_known (dm_presence dm3)) sessions now = []" for sessions now
    by (simp add: effective_peer_announcements_for_runtime_def dm3_def presence_new_def hm_map_values_def)
  have "\<exists>dm'. apply_presence_runtime_update E dm3 = (Inr (), dm') \<and> rests dm'"
    using a nobody
    by (auto simp: apply_presence_runtime_update_def apply_announcements_def Let_def nobody_heard rests_def)
      (simp_all add: dm3_def no_fallback_def)
  then obtain dm' where "apply_presence_runtime_update E dm3 = (Inr (), dm')" "rests dm'" by blast
  then show ?thesis
    unfolding pause_session_def Let_def dm2_def [unfolded Let_def, symmetric] dm3_def [symmetric]
    by (simp add: rests_same)
qed

lemma join_rests: "rests dm \<Longrightarrow> rests (persist_inbound_join_request E sender at_time request dm)"
  by (auto simp: persist_inbound_join_request_def Let_def intro!: rests_same
      split: prod.split sum.split option.split)

lemma persist_roster_rests: "rests dm \<Longrightarrow> rests (snd (persist_shared_network_roster E sender network_id roster dm))"
  by (auto simp: persist_shared_network_roster_def Let_def intro!: rests_same split: prod.split sum.split bool.split)

lemma roster_applied_rests: "rests dm \<Longrightarrow> rests (roster_applied E dm)"
proof -
  assume rests: "rests dm"
  define dm1 where "dm1 = take_config (build_daemon_reload_config (dn_keys E) (dm_app dm) (effective_network_id (dm_app dm))
    (so_relays (dn_overrides E))) dm"
  have dm1: "rests dm1" unfolding dm1_def by (rule take_config_rests [OF rests])
  show ?thesis
  proof (cases "new_signaling_client E (dm_app dm1)")
    case None
    then show ?thesis by (simp add: roster_applied_def Let_def dm1_def [symmetric] dm1 rests_same)
  next
    case (Some x)
    then obtain L client where client: "new_signaling_client E (dm_app dm1) = Some (L, client)" by (cases x) simp
    have dm2: "rests (dm1\<lparr>dm_lib := L, dm_client := client\<rparr>)" by (intro rest_intros dm1)
    obtain up dm3 where up: "connect_signaling E (dm1\<lparr>dm_lib := L, dm_client := client\<rparr>) = (up, dm3)" by fastforce
    from connected_rests [OF up dm2] have dm3: "rests dm3" .
    define dm4 where "dm4 = publish_roster E None (update_tunnel E (Because ''Roster applied, but tunnel reload failed ('')
      (dm3\<lparr>dm_relay_connected := True, dm_reconnect_attempt := 0, dm_reconnect_due := dn_instant E\<rparr>))"
    have dm4: "rests dm4" unfolding dm4_def by (intro rest_intros dm3)
    have "rests (retry_later E status (dm3\<lparr>dm_relay_connected := False\<rparr>))" for status
      by (intro rest_intros dm3)
    with dm2 dm4 show ?thesis
      by (simp add: roster_applied_def Let_def dm1_def [symmetric] client up dm4_def [symmetric] rests_inactive
          split: bool.split)
  qed
qed

lemma presence_message_rests: "rests dm \<Longrightarrow> rests (presence_message E sender payload dm)"
  using rests_inactive [OF publishing_rests(2)] by (simp add: presence_message_def Let_def rests_inactive publishing_rests)

lemma signal_rests: "rests dm \<Longrightarrow> rests (signal_message E message dm)"
proof -
  assume rests: "rests dm"
  have "rests (case persist_shared_network_roster E sender network_id roster dm of
      (True, dm) \<Rightarrow> roster_applied E dm | (False, dm) \<Rightarrow> dm)" for sender network_id roster
    using persist_roster_rests [OF rests, of E sender network_id roster] by (auto intro: roster_applied_rests split: prod.split bool.split)
  moreover have "rests (retry_later E status (dm\<lparr>dm_relay_connected := False\<rparr>))" for status
    by (intro rest_intros rests)
  ultimately show ?thesis
    by (simp add: signal_message_def rests join_rests presence_message_rests split: option.split signal_payload.split)
qed

lemma service_rests: "rests dm \<Longrightarrow> rests (service_message E message dm)"
proof -
  assume rests: "rests dm"
  have "\<exists>outbound'. handle_service_message envelope now (relay_fallback_new, outbound) = (None, relay_fallback_new, outbound')"
    for envelope now outbound
    by (simp add: handle_service_message_def accept_relay_allocation_grant_def accept_relay_allocation_rejection_def
        relay_fallback_new_def hm_simps split: service_payload.split)
  then obtain outbound' where "\<And>envelope now outbound.
      handle_service_message envelope now (relay_fallback_new, outbound) = (None, relay_fallback_new, outbound' envelope now outbound)"
    by metis
  then show ?thesis
    using rests by (simp add: service_message_def Let_def rests_def split: option.split)
qed

lemma resume_enables: "dm_session_enabled (resume_session E dm)"
proof (cases "dm_session_enabled dm")
  case False
  define dm1 where "dm1 = dm\<lparr>dm_session_enabled := True, dm_relay_connected := False, dm_reconnect_attempt := 0,
    dm_reconnect_due := dn_instant E\<rparr>"
  define dm2 where "dm2 = (if session_active dm1 then restore_cache E dm1 else dm1)"
  have dm2: "dm_session_enabled dm2" by (simp add: dm2_def dm1_def restore_cache_def split: prod.split)
  obtain r dm3 where r: "apply_presence_runtime_update E dm2 = (r, dm3)" by fastforce
  from update_serves [of dm2 E] r dm2 have "dm_session_enabled dm3" by (simp add: serves_def core_def)
  then show ?thesis
    unfolding resume_session_def Let_def dm1_def [symmetric] dm2_def [symmetric] r
    using False by (simp add: refresh_mapped_endpoint_def split: sum.split)
qed (simp add: resume_session_def)

lemma request_at_rest:
  assumes "dn_keys E = K" "at_rest dm" "handle_control_request E request dm = Some dm'"
  shows "at_rest dm'"
proof -
  have written: "at_rest (sync_operator E (dm1\<lparr>dm_files := files\<rparr>))" if "at_rest dm1" for dm1 files
  proof (cases "dm_session_enabled dm1")
    case False
    then have "rests dm1" using that by (simp add: at_rest_def)
    then have "rests (sync_operator E (dm1\<lparr>dm_files := files\<rparr>))" by (intro operator_rests rest_intros)
    then show ?thesis by (simp add: at_rest_def)
  qed (simp add: at_rest_def sync_operator_def)
  have "at_rest (snd (reload_session E dm))"
    using assms(2) reload_rests reload_continues [OF assms(1), of dm] by (auto simp: at_rest_def continues_def)
  moreover have "at_rest (pause_session E dm)" "at_rest (resume_session E dm)"
    by (simp_all add: at_rest_def pause_rests resume_enables)
  ultimately show ?thesis
    using assms(3) written by (cases request) (auto simp: handle_control_request_def Let_def split_beta)
qed

lemma continues_at_rest: "continues K dm dm' \<Longrightarrow> (rests dm \<Longrightarrow> rests dm') \<Longrightarrow> at_rest dm \<Longrightarrow> at_rest dm'"
  by (auto simp: at_rest_def continues_def)

lemma state_tick_at_rest:
  assumes "dn_keys E = K" "at_rest dm" "state_tick E dm = Some dm'" shows "at_rest dm'"
proof -
  define dm1 where "dm1 = relay_failover E dm"
  obtain request files where taken: "take_daemon_control_request (dn_fs E) (dm_files dm1) = (request, files)" by fastforce
  have "at_rest dm1"
    unfolding dm1_def by (rule continues_at_rest [OF failover_continues failover_rests assms(2)])
  then have dm2: "at_rest (dm1\<lparr>dm_files := files\<rparr>)" by (auto simp: at_rest_def rests_same)
  obtain dm3 where dm3: "(case request of None \<Rightarrow> Some (dm1\<lparr>dm_files := files\<rparr>)
      | Some r \<Rightarrow> handle_control_request E r (dm1\<lparr>dm_files := files\<rparr>)) = Some dm3"
    and dm': "dm' = sync_operator E (write_cache E (prune_peers E dm3))"
    using assms(3) by (auto simp: state_tick_def dm1_def [symmetric] taken Let_def split: option.splits if_splits)
  have "at_rest dm3"
    using dm3 dm2 request_at_rest [OF assms(1) dm2] by (auto split: option.splits)
  moreover have "continues K dm3 dm'"
    unfolding dm' by (rule continues_trans [OF continues_served [OF prune_continues cache_serves] operator_continues])
  ultimately show ?thesis
    using continues_at_rest prune_rests cache_rests operator_rests unfolding dm' by metis
qed

lemma turn_at_rest:
  assumes "sound_env K E" "daemon_inv K dm" "at_rest dm" "daemon_turn E event dm = Some dm'"
  shows "at_rest dm'"
proof -
  have keys: "dn_keys E = K" using assms(1) by (simp add: sound_env_def)
  have idle: "announce_tick E dm = dm" "heartbeat_tick E dm = dm" if "rests dm"
    using rests_inactive [OF that] by (simp_all add: announce_tick_def heartbeat_tick_def)
  have step: "at_rest d" if "continues K dm d" "rests dm \<Longrightarrow> rests d" for d
    using continues_at_rest [OF that assms(3)] .
  show ?thesis
  proof (cases event)
    case ReconnectTimer
    then show ?thesis using assms(4) by (auto intro: step reconnect_continues reconnect_rests)
  next
    case AnnounceTimer
    then show ?thesis using assms(4) by (auto intro!: step announce_continues simp: idle)
  next
    case HeartbeatTimer
    then show ?thesis using assms(4) by (auto intro!: step serves_continues serve_intros simp: idle)
  next
    case NetworkTimer
    then show ?thesis using assms(4) by (auto intro!: step serves_continues serve_intros network_rests)
  next
    case StateTimer
    then show ?thesis using assms(4) state_tick_at_rest [OF keys assms(3)] by simp
  next
    case (SignalReceived message)
    then show ?thesis using assms(4) by (auto intro!: step signal_continues [OF keys assms(2)] signal_rests)
  next
    case (ServiceReceived message)
    then show ?thesis using assms(4) by (auto intro!: step service_continues service_rests)
  qed (use assms(4) in simp)
qed

lemma run_daemon_inv:
  assumes "daemon_run (sound_env K) dm dm'" "daemon_inv K dm" "at_rest dm"
  shows "daemon_inv K dm'" "at_rest dm'"
proof -
  have "daemon_inv K dm' \<and> at_rest dm'"
    using assms
  proof (induction rule: daemon_run.induct)
    case (turned dm' E event dm'')
    then show ?case using turn_inv turn_at_rest by blast
  next
    case (files_changed dm' fs)
    then show ?case by (auto simp: daemon_inv_def at_rest_def rests_def)
  qed simp
  then show "daemon_inv K dm'" "at_rest dm'" by simp_all
qed

section \<open>The start\<close>

lemma daemon_new_inv:
  assumes "config_inv K app" "new_signaling_client E app = Some (L, client)"
  shows "daemon_inv K (daemon_new E stored iface app network_id files L client)"
  using assms new_client_ok [OF assms(2)]
  by (simp add: daemon_inv_def daemon_new_def Let_def presence_new_inv fallback_inv_new operator_inv_new
      book_inv_def book_new_def v4_owed_def hm_simps)

lemma begin_inv:
  assumes "sound_env K E" "daemon_inv K dm0" "daemon_begin E dm0 = Inr dm"
  shows "daemon_inv K dm" "dm_session_enabled dm = dm_session_enabled dm0"
proof -
  define dm1 where "dm1 = (if session_active dm0
    then refresh_mapped_endpoint E (nd_listen_port (ac_node (dm_app dm0))) dm0 else dm0)"
  define dm2 where "dm2 = (if session_active dm1 then restore_cache E dm1 else dm1)"
  have "continues K dm0 dm1" by (simp add: dm1_def serves_continues serve_intros)
  moreover have "continues K dm1 dm2"
    using restore_continues [OF assms(1)] by (simp add: dm2_def serves_continues serve_intros)
  ultimately have dm2: "continues K dm0 dm2" by (rule continues_trans)
  obtain r dm3 where r: "apply_presence_runtime_update E dm2 = (r, dm3)" by fastforce
  from continues_served [OF dm2 update_serves, of E] r have dm3: "continues K dm0 dm3" by simp
  obtain operator where operator: "sync_local_relay_operator (dn_operator E) (dm_app dm3) (dm_relays dm3)
      (dm_public_endpoint dm3) (dm_operator dm3) = (True, operator)"
    and dm: "dm = dm3\<lparr>dm_operator := operator\<rparr> \<or> dm = bootstrap_peers E (dm3\<lparr>dm_operator := operator\<rparr>)"
    using assms(3) unfolding daemon_begin_def Let_def dm1_def [symmetric] dm2_def [symmetric] r
    by (auto split: sum.splits prod.splits bool.splits if_splits)
  have "operator_inv (dm_operator dm3) \<Longrightarrow> operator_inv operator"
    using sync_inv operator by (metis snd_conv)
  from continues_trans [OF dm3 continues_change(5) [OF this]] have dm4: "continues K dm0 (dm3\<lparr>dm_operator := operator\<rparr>)" .
  have "serves d (bootstrap_peers E d)" for d
    unfolding bootstrap_peers_def Let_def
    by (intro serves_same serves_trans [OF try_serves(1) try_serves(2)])
  with dm4 dm have "continues K dm0 dm" using continues_served by blast
  then show "daemon_inv K dm" "dm_session_enabled dm = dm_session_enabled dm0"
    using assms(2) by (simp_all add: continues_def)
qed

lemma start_inv:
  assumes "sound_env K E" "daemon_start E stored iface files = Inr dm"
  shows "daemon_inv K dm" "at_rest dm"
proof -
  have keys: "dn_keys E = K" using assms(1) by (simp add: sound_env_def)
  obtain app network_id files' L client where
    load: "load_config_with_overrides (dn_keys E) (dn_node E) (dn_fs E) (dn_config_codec E) (dn_overrides E) files
      = (Inr (app, network_id), files')"
    and client: "new_signaling_client E app = Some (L, client)"
    and begun: "daemon_begin E (daemon_new E stored iface app network_id files' L client) = Inr dm"
    using assms(2) by (auto simp: daemon_start_def split: if_splits prod.splits sum.splits option.splits)
  from daemon_new_inv [OF loaded_inv [OF load [unfolded keys]] client]
  have new: "daemon_inv K (daemon_new E stored iface app network_id files' L client)" .
  show "daemon_inv K dm" by (rule begin_inv(1) [OF assms(1) new begun])
  show "at_rest dm" using begin_inv(2) [OF assms(1) new begun] by (simp add: at_rest_def daemon_new_def Let_def)
qed

section \<open>Every run\<close>


text \<open>
  C2. A daemon that was paused holds nothing of its session for as long as it is paused: no presence
  of a peer and no path, no relay session, request or verdict on a provider, no public endpoint, no
  attempt at punching, and its tunnel device is closed. No timer, message or reload brings
  any of it back.
\<close>

theorem paused_daemon_holds_nothing:
  assumes "sound_env K E" "daemon_start E stored iface files = Inr dm0" "daemon_run (sound_env K) dm0 dm"
    and "\<not> dm_session_enabled dm"
  shows "dm_presence dm = presence_new \<and> dm_fallback dm = relay_fallback_new \<and> pb_peers (dm_paths dm) = []
    \<and> dm_public_endpoint dm = None \<and> dm_last_punch dm = None \<and> \<not> is_running (dm_runtime dm)"
  using run_daemon_inv(2) [OF assms(3) start_inv [OF assms(1,2)]] assms(4) by (simp add: at_rest_def rests_def)


section \<open>A daemon for the examples\<close>

text \<open>A codec of results: the length of the request in unary, the request, the rest.\<close>

definition sample_result_codec :: "daemon_control_result json_codec" where
  "sample_result_codec =
    \<lparr>to_json = (\<lambda>r. Some (replicate (length (dr_request r)) (CHR ''a'') @ CHR ''b'' # dr_request r
        @ (if dr_ok r then CHR ''1'' else CHR ''0'')
        # (case dr_error r of None \<Rightarrow> ''n'' | Some e \<Rightarrow> CHR ''s'' # e))),
     from_json = (\<lambda>raw.
        (let n = length (takeWhile (\<lambda>c. c = CHR ''a'') raw); body = drop (Suc n) raw
         in (case drop n body of
               flag # kind # e \<Rightarrow> Some \<lparr>dr_request = take n body, dr_ok = (flag = CHR ''1''),
                 dr_error = (if kind = CHR ''s'' then Some e else None)\<rparr>
             | _ \<Rightarrow> None)))\<rparr>"

lemma sample_result_law: "codec_law sample_result_codec"
proof -
  have "takeWhile (\<lambda>c. c = CHR ''a'') (replicate n (CHR ''a'') @ CHR ''b'' # xs) = replicate n (CHR ''a'')" for n xs
    by (induction n) simp_all
  then show ?thesis
    by (simp add: codec_law_def sample_result_codec_def Let_def split: option.split)
qed

definition sample_env :: daemon_env where
  "sample_env =
    \<lparr>dn_keys = sample_keys, dn_node = sample_host, dn_host = sample_linux, dn_view = sample_view,
     dn_fs = \<lparr>fy_readable = (\<lambda>_. True), fy_writable = (\<lambda>_. True), fy_left = (\<lambda>_. None), fy_renames = (\<lambda>_. True)\<rparr>,
     dn_config_codec = one_codec sample_config ''config'',
     dn_result_codec = sample_result_codec,
     dn_cache_codec = \<lparr>to_json = (\<lambda>_. None), from_json = (\<lambda>_. None)\<rparr>, dn_cache_compact = (\<lambda>_. None),
     dn_signal_codec = sample_codec,
     dn_service_codec = \<lparr>to_json = (\<lambda>_. None), from_json = (\<lambda>_. None)\<rparr>,
     dn_lib = (\<lambda>_. Some (sample_lib ''aa11'')),
     dn_add_relay = (\<lambda>_. True), dn_subscribe = (\<lambda>_. True), dn_service_add_relay = (\<lambda>_. True),
     dn_service_subscribe = (\<lambda>_. True), dn_publish_text = (\<lambda>_. ''not sent''), dn_file_text = (\<lambda>_. ''file''),
     dn_discovery = \<lparr>de_reflector = (\<lambda>_ _. Inl ''none''), de_stun = (\<lambda>_ _. Inl ''none'')\<rparr>,
     dn_mapped = None, dn_renewed = None, dn_punch = (\<lambda>_ _. None), dn_discovered = None,
     dn_probe = (\<lambda>_. \<lparr>be_connects = False, be_publishes = (\<lambda>_ _. False), be_messages = [],
       be_net = \<lparr>bn_bind = False, bn_send = (\<lambda>_. False), bn_requester_receives = None, bn_target_receives = None\<rparr>\<rparr>),
     dn_captured = \<lparr>ns_default_interface = None, ns_primary_ipv4 = None, ns_primary_ipv6 = None,
       ns_gateway_ipv4 = None, ns_gateway_ipv6 = None\<rparr>,
     dn_operator = \<lparr>oe_poll = (\<lambda>_. Inr None), oe_missing = Some ''missing'', oe_log_opens = True,
       oe_spawn = (\<lambda>_. Inl ''refused''), oe_state_file = ''state''\<rparr>,
     dn_dns_bound = True, dn_alone = True,
     dn_overrides = \<lparr>so_network_id = None, so_participants = [], so_relays = []\<rparr>,
     dn_announce_interval_secs = 20, dn_restart_due = False, dn_now = 1000, dn_instant = 0\<rparr>"

definition sample_files :: files where
  "sample_files = [(ConfigFile, ''config'')]"

lemma sample_env_sound: "sound_env sample_keys sample_env"
  by (simp add: sound_env_def sample_env_def)

end
