(* ===== verification/Daemon_Control.thy ===== *)
theory Daemon_Control
  imports Daemon_Safety
begin

text \<open>
  How the daemon serves a control request: what a client finds in the files after the turn that
  took it. And the runs by which the theorems on the daemon are shown to speak of something.
\<close>

section \<open>Operations that leave the files and the configuration\<close>

named_theorems kept "operations that leave the files and the configuration"

definition keeps :: "daemon \<Rightarrow> files \<times> app_config \<times> string" where
  "keeps dm = (dm_files dm, dm_app dm, dm_network_id dm)"

lemma keeps_same [simp]:
  "keeps (dm\<lparr>dm_status := status\<rparr>) = keeps dm" "keeps (dm\<lparr>dm_outbox := outbox\<rparr>) = keeps dm"
  "keeps (dm\<lparr>dm_outbound := outbound\<rparr>) = keeps dm" "keeps (dm\<lparr>dm_dns := dns\<rparr>) = keeps dm"
  "keeps (dm\<lparr>dm_last_punch := punch\<rparr>) = keeps dm" "keeps (dm\<lparr>dm_public_endpoint := endpoint\<rparr>) = keeps dm"
  "keeps (dm\<lparr>dm_relay_connected := up\<rparr>) = keeps dm" "keeps (dm\<lparr>dm_reconnect_attempt := attempt\<rparr>) = keeps dm"
  "keeps (dm\<lparr>dm_reconnect_due := due\<rparr>) = keeps dm" "keeps (dm\<lparr>dm_session_enabled := up\<rparr>) = keeps dm"
  "keeps (dm\<lparr>dm_last_cache := cache\<rparr>) = keeps dm" "keeps (dm\<lparr>dm_snapshot := snapshot\<rparr>) = keeps dm"
  "keeps (dm\<lparr>dm_client := client\<rparr>) = keeps dm" "keeps (dm\<lparr>dm_operator := operator\<rparr>) = keeps dm"
  "keeps (dm\<lparr>dm_fallback := fallback\<rparr>) = keeps dm" "keeps (dm\<lparr>dm_lib := L\<rparr>) = keeps dm"
  "keeps (dm\<lparr>dm_presence := presence\<rparr>) = keeps dm"
  "keeps (dm\<lparr>dm_paths := book\<rparr>) = keeps dm" "keeps (dm\<lparr>dm_runtime := rt\<rparr>) = keeps dm" "keeps (dm\<lparr>dm_trace := t\<rparr>) = keeps dm"
  by (simp_all add: keeps_def)

lemma runtime_peers_keep [kept]: "runtime_peers_of E dm = (peers, dm') \<Longrightarrow> keeps dm' = keeps dm"
  by (auto simp: runtime_peers_of_def split: prod.splits)

lemma update_keeps [kept]: "apply_presence_runtime_update E dm = (r, dm') \<Longrightarrow> keeps dm' = keeps dm"
  by (auto simp: apply_presence_runtime_update_def apply_announcements_def Let_def split: prod.splits sum.splits)

lemma update_tunnel_keeps [kept]: "keeps (update_tunnel E failure dm) = keeps dm"
  by (auto simp: update_tunnel_def update_keeps split: prod.split sum.split)

lemma publish_keeps [kept]:
  "keeps (snd (publish_payload E payload dm)) = keeps dm" "keeps (publish_roster E recipients dm) = keeps dm"
  by (simp_all add: publish_payload_def publish_roster_def split: prod.split)

lemma announce_keeps [kept]: "keeps (snd (announce_each E announcements participants sent dm)) = keeps dm"
  by (induction E announcements participants sent dm rule: announce_each.induct)
    (auto simp: Let_def split: prod.split sum.split)

lemma announcing_keeps [kept]:
  "keeps (snd (publish_private_announce_to_participants E announcements participants dm)) = keeps dm"
  "keeps (snd (publish_private_announce_to_known_peers E dm)) = keeps dm"
  by (simp_all add: publish_private_announce_to_participants_def publish_private_announce_to_known_peers_def announce_keeps)

lemma noting_keeps [kept]: "(\<And>dm. keeps (snd (publish dm)) = keeps dm) \<Longrightarrow> keeps (noting status publish dm) = keeps dm"
  by (auto simp: noting_def split: prod.split sum.split option.split) (metis snd_conv)+

lemma connect_keeps [kept]: "connect_signaling E dm = (up, dm') \<Longrightarrow> keeps dm' = keeps dm"
  by (auto simp: connect_signaling_def split: prod.splits)

lemma retry_keeps [kept]: "keeps (retry_later E status dm) = keeps dm"
  by (simp add: retry_later_def Let_def)

lemma failover_keeps [kept]: "keeps (relay_failover E dm) = keeps dm"
proof -
  obtain peers dm1 where q: "runtime_peers_of E dm = (peers, dm1)" by fastforce
  obtain changed fallback where rec: "reconcile_active_relay_sessions (nv_b64 (dn_view E)) (dm_presence dm1) peers
      (dn_now E) (dm_fallback dm1) = (changed, fallback)" by fastforce
  obtain r dm2 where r: "apply_presence_runtime_update E (dm1\<lparr>dm_fallback := fallback, dm_last_punch := None,
      dm_outbound := fold announce_forget changed (dm_outbound dm1)\<rparr>) = (r, dm2)" by fastforce
  show ?thesis
    using runtime_peers_keep [OF q] update_keeps [OF r]
    by (simp add: relay_failover_def q rec Let_def r noting_keeps announcing_keeps split: sum.split)
qed

lemma prune_keeps [kept]: "keeps (prune_peers E dm) = keeps dm"
  by (simp add: prune_peers_def Let_def update_tunnel_keeps split: prod.split)

lemma reload_connected_keeps [kept]: "keeps (reload_connected E dm) = keeps dm"
  by (simp add: reload_connected_def Let_def noting_keeps announcing_keeps publish_keeps)

lemma reload_client_keeps [kept]: "keeps (reload_client E dm) = keeps dm"
  by (auto simp: reload_client_def Let_def reload_connected_keeps retry_keeps dest!: connect_keeps
      split: option.split prod.split bool.split)

lemma reload_applied_keeps:
  "keeps (reload_applied E reload dm) = (dm_files dm, lo_app reload, lo_network_id reload)"
proof -
  obtain r dm1 where r: "apply_presence_runtime_update E (reload_client E (take_config reload dm)) = (r, dm1)" by fastforce
  have "keeps dm1 = keeps (take_config reload dm)"
    using update_keeps [OF r] by (simp add: reload_client_keeps)
  also have "\<dots> = (dm_files dm, lo_app reload, lo_network_id reload)"
    by (simp add: take_config_def Let_def disconnect_signaling_def keeps_def)
  finally show ?thesis
    by (simp add: reload_applied_def r refresh_mapped_endpoint_def split: sum.split)
qed

lemma pause_keeps: "keeps (pause_session E dm) = keeps dm"
proof -
  define dm1 where "dm1 = (if dm_relay_connected dm \<and> session_active dm
    then noting None (publish_payload E (Disconnect (nd_id (ac_node (dm_app dm))))) dm else dm)"
  define dm2 where "dm2 = (if join_requests_enabled (dm_app dm1) then dm1
    else (disconnect_signaling dm1)\<lparr>dm_relay_connected := False\<rparr>)"
  have "keeps dm2 = keeps dm"
    by (simp add: dm2_def dm1_def disconnect_signaling_def noting_keeps publish_keeps)
  then show ?thesis
    unfolding pause_session_def Let_def dm1_def [symmetric] dm2_def [symmetric]
    by (auto simp: no_fallback_def dest!: update_keeps split: prod.split sum.split)
qed

lemma resume_keeps: "keeps (resume_session E dm) = keeps dm"
proof (cases "dm_session_enabled dm")
  case False
  define dm1 where "dm1 = dm\<lparr>dm_session_enabled := True, dm_relay_connected := False, dm_reconnect_attempt := 0,
    dm_reconnect_due := dn_instant E\<rparr>"
  define dm2 where "dm2 = (if session_active dm1 then restore_cache E dm1 else dm1)"
  have dm2: "keeps dm2 = keeps dm"
    by (simp add: dm2_def dm1_def restore_cache_def split: prod.split)
  obtain r dm3 where r: "apply_presence_runtime_update E dm2 = (r, dm3)" by fastforce
  have "keeps dm3 = keeps dm" using update_keeps [OF r] dm2 by simp
  then show ?thesis
    unfolding resume_session_def Let_def dm1_def [symmetric] dm2_def [symmetric] r
    using False by (simp add: refresh_mapped_endpoint_def split: sum.split)
qed (simp add: resume_session_def)

section \<open>The files\<close>

lemma cache_written:
  "f \<noteq> PeerCacheFile \<Longrightarrow> write_daemon_peer_cache_if_changed Y J brief cache raw files = (r, raw', files')
    \<Longrightarrow> hm_get files' f = hm_get files f"
  by (auto simp: write_daemon_peer_cache_if_changed_def write_daemon_peer_cache_def write_file_def hm_simps
      split: option.splits if_splits prod.splits sum.splits)

lemma cache_files:
  "f \<noteq> PeerCacheFile \<Longrightarrow> hm_get (dm_files (write_cache E dm)) f = hm_get (dm_files dm) f"
  "dm_app (write_cache E dm) = dm_app dm" "dm_network_id (write_cache E dm) = dm_network_id dm"
proof -
  obtain peers dm1 where q: "runtime_peers_of E dm = (peers, dm1)" by fastforce
  from runtime_peers_keep [OF q] have dm1: "dm_files dm1 = dm_files dm" "dm_app dm1 = dm_app dm"
    "dm_network_id dm1 = dm_network_id dm" by (simp_all add: keeps_def)
  show "f \<noteq> PeerCacheFile \<Longrightarrow> hm_get (dm_files (write_cache E dm)) f = hm_get (dm_files dm) f"
    by (auto simp: write_cache_def q dm1 dest: cache_written split: prod.split)
  show "dm_app (write_cache E dm) = dm_app dm" "dm_network_id (write_cache E dm) = dm_network_id dm"
    by (simp_all add: write_cache_def q dm1 split: prod.split)
qed

lemma load_again:
  assumes "load_config_with_overrides K H Y J overrides files = (Inr (app, network_id), files1)"
    and "hm_contains files ConfigFile" "hm_get files' ConfigFile = hm_get files ConfigFile"
  shows "files1 = files" "load_config_with_overrides K H Y J overrides files' = (Inr (app, network_id), files')"
proof -
  have "hm_contains files' ConfigFile" using assms(2,3) by (simp add: hm_contains_iff)
  moreover have "load_config K H Y J ConfigFile files' = load_config K H Y J ConfigFile files"
    by (simp add: load_config_def read_file_def assms(3))
  ultimately show "files1 = files" "load_config_with_overrides K H Y J overrides files' = (Inr (app, network_id), files')"
    using assms(1,2)
    by (auto simp: load_config_with_overrides_def load_or_default_config_def Let_def split: sum.splits prod.splits)
qed

lemma staged_gone:
  assumes "update_daemon_config_from_staged_request K H Y J files = (r, files')"
  shows "hm_get files' StagedConfig = None"
    and "hm_contains files ConfigFile \<Longrightarrow> r = Inr staged \<Longrightarrow> hm_contains files' ConfigFile"
    and "hm_get files' ControlFile = hm_get files ControlFile"
  using assms
  by (auto simp: update_daemon_config_from_staged_request_def apply_config_file_def save_config_def write_file_def
      hm_contains_iff hm_simps split: if_splits prod.splits sum.splits option.splits)

lemma loading_keeps_files:
  assumes "load_config_with_overrides K H Y J overrides files = (r, files')" "f \<noteq> ConfigFile"
  shows "hm_get files' f = hm_get files f"
  using assms
  by (auto simp: load_config_with_overrides_def load_or_default_config_def save_config_def write_file_def Let_def
      hm_simps split: if_splits prod.splits sum.splits option.splits)

definition reloads :: "daemon_env \<Rightarrow> files \<Rightarrow> (app_config \<times> string) io" where
  "reloads E files = load_config_with_overrides (dn_keys E) (dn_node E) (dn_fs E) (dn_config_codec E) (dn_overrides E) files"

lemma reload_outcome:
  assumes "reload_session E dm = (error, dm')"
  shows "hm_get (dm_files dm') StagedConfig = None"
    and "hm_get (dm_files dm') ControlFile = hm_get (dm_files dm) ControlFile"
    and "error \<noteq> None \<Longrightarrow> dm_app dm' = dm_app dm"
    and "error = None \<Longrightarrow> hm_contains (dm_files dm) ConfigFile \<Longrightarrow>
      reloads E (dm_files dm') = (Inr (dm_app dm', dm_network_id dm'), dm_files dm')"
    and "error = None \<Longrightarrow> hm_contains (dm_files dm) ConfigFile \<Longrightarrow> hm_contains (dm_files dm') ConfigFile"
proof -
  obtain r files1 where staged: "update_daemon_config_from_staged_request (dn_keys E) (dn_node E) (dn_fs E)
      (dn_config_codec E) (dm_files dm) = (r, files1)" by fastforce
  note gone = staged_gone [OF staged]
  obtain q files2 where load: "reloads E files1 = (q, files2)" by fastforce
  note kept = loading_keeps_files [OF load [unfolded reloads_def]]
  have applied: "dm_files (reload_applied E reload d) = dm_files d" "dm_app (reload_applied E reload d) = lo_app reload"
    "dm_network_id (reload_applied E reload d) = lo_network_id reload" for reload d
    using reload_applied_keeps [of E reload d] by (simp_all add: keeps_def)
  note out = assms [unfolded reload_session_def staged prod.case reloads_def [symmetric] load]
  have cases: "(\<exists>e. r = Inl e \<and> error = Some e \<and> dm_files dm' = files1 \<and> dm_app dm' = dm_app dm)
    \<or> (\<exists>s e. r = Inr s \<and> q = Inl e \<and> error = Some e \<and> dm_files dm' = files2 \<and> dm_app dm' = dm_app dm)
    \<or> (\<exists>s app network_id. r = Inr s \<and> q = Inr (app, network_id) \<and> error = None \<and> dm_files dm' = files2
        \<and> dm_app dm' = app \<and> dm_network_id dm' = network_id)"
  proof (cases r)
    case (Inl e)
    with out show ?thesis by auto
  next
    case (Inr s)
    with out show ?thesis by (cases q) (auto simp: applied build_daemon_reload_config_def)
  qed
  show "hm_get (dm_files dm') StagedConfig = None" "hm_get (dm_files dm') ControlFile = hm_get (dm_files dm) ControlFile"
    using cases gone(1,3) kept by auto
  show "error \<noteq> None \<Longrightarrow> dm_app dm' = dm_app dm" using cases by auto
  assume ok: "error = None" "hm_contains (dm_files dm) ConfigFile"
  with cases obtain s app network_id where c: "r = Inr s" "q = Inr (app, network_id)" "dm_files dm' = files2"
    "dm_app dm' = app" "dm_network_id dm' = network_id" by auto
  have there: "hm_contains files1 ConfigFile" by (rule gone(2) [OF ok(2) c(1)])
  have "files2 = files1"
    by (rule load_again(1) [OF load [unfolded reloads_def c(2)] there refl])
  then show "reloads E (dm_files dm') = (Inr (dm_app dm', dm_network_id dm'), dm_files dm')"
    "hm_contains (dm_files dm') ConfigFile"
    using load c there by simp_all
qed

section \<open>The answer to a request\<close>

text \<open>The client of a request can read, and the daemon write, the result.\<close>

definition result_readable :: "daemon_env \<Rightarrow> bool" where
  "result_readable E \<longleftrightarrow> codec_law (dn_result_codec E) \<and> (\<forall>r. to_json (dn_result_codec E) r \<noteq> None)
    \<and> fy_writable (dn_fs E) ControlResultFile \<and> fy_renames (dn_fs E) ControlResultFile
    \<and> fy_readable (dn_fs E) ControlResultFile"

lemma result_written:
  assumes "result_readable E"
  shows "read_daemon_control_result (dn_fs E) (dn_result_codec E)
      (snd (write_daemon_control_result (dn_fs E) (dn_result_codec E) request error files))
    = Inr (Some \<lparr>dr_request = request_as_str request, dr_ok = (error = None), dr_error = error\<rparr>)"
    and "f \<noteq> ControlResultFile \<Longrightarrow>
      hm_get (snd (write_daemon_control_result (dn_fs E) (dn_result_codec E) request error files)) f = hm_get files f"
proof -
  let ?r = "\<lparr>dr_request = request_as_str request, dr_ok = (error = None), dr_error = error\<rparr>"
  obtain raw where raw: "to_json (dn_result_codec E) ?r = Some raw"
    using assms by (auto simp: result_readable_def)
  then have reread: "from_json (dn_result_codec E) raw = Some ?r"
    using assms by (simp add: result_readable_def codec_law_def)
  have "snd (write_daemon_control_result (dn_fs E) (dn_result_codec E) request error files)
      = hm_insert ControlResultFile raw files"
    using assms raw by (simp add: result_readable_def write_daemon_control_result_def write_runtime_file_atomically_def)
  then show "read_daemon_control_result (dn_fs E) (dn_result_codec E)
      (snd (write_daemon_control_result (dn_fs E) (dn_result_codec E) request error files)) = Inr (Some ?r)"
    "f \<noteq> ControlResultFile \<Longrightarrow>
      hm_get (snd (write_daemon_control_result (dn_fs E) (dn_result_codec E) request error files)) f = hm_get files f"
    using assms by (simp_all add: result_readable_def read_daemon_control_result_def read_file_def hm_contains_iff
        hm_simps reread)
qed

lemma result_read:
  "hm_get files' ControlResultFile = hm_get files ControlResultFile \<Longrightarrow>
    read_daemon_control_result Y J files' = read_daemon_control_result Y J files"
  by (simp add: read_daemon_control_result_def hm_contains_iff read_file_def)

definition request_outcome ::
  "daemon_env \<Rightarrow> daemon_control_request \<Rightarrow> daemon \<Rightarrow> file_error option \<Rightarrow> daemon \<Rightarrow> bool" where
  "request_outcome E request dm error dm' \<longleftrightarrow>
    (case request of
       ReloadRequest \<Rightarrow> reload_session E dm = (error, dm')
     | PauseRequest \<Rightarrow> error = None \<and> dm' = pause_session E dm
     | ResumeRequest \<Rightarrow> error = None \<and> dm' = resume_session E dm
     | StopRequest \<Rightarrow> False)"

lemma handled:
  "handle_control_request E request dm = Some dm' \<Longrightarrow> \<exists>error dm1. request_outcome E request dm error dm1
    \<and> dm' = sync_operator E (dm1\<lparr>dm_files := snd (write_daemon_control_result (dn_fs E) (dn_result_codec E) request
        (map_option (dn_file_text E) error) (dm_files dm1))\<rparr>)"
  by (cases request) (auto simp: handle_control_request_def request_outcome_def Let_def split: prod.splits)

text \<open>What the turn does after the request: it leaves the files of the protocol and the configuration.\<close>

lemma rest_of_turn:
  assumes "dm' = sync_operator E (write_cache E (prune_peers E dm))"
  shows "f \<noteq> PeerCacheFile \<Longrightarrow> hm_get (dm_files dm') f = hm_get (dm_files dm) f"
    and "dm_app dm' = dm_app dm" "dm_network_id dm' = dm_network_id dm" "dm_session_enabled dm' = dm_session_enabled dm"
proof -
  have pruned: "dm_files (prune_peers E dm) = dm_files dm" "dm_app (prune_peers E dm) = dm_app dm"
    "dm_network_id (prune_peers E dm) = dm_network_id dm"
    using prune_keeps [of E dm] by (simp_all add: keeps_def)
  show "f \<noteq> PeerCacheFile \<Longrightarrow> hm_get (dm_files dm') f = hm_get (dm_files dm) f"
    "dm_app dm' = dm_app dm" "dm_network_id dm' = dm_network_id dm"
    by (simp_all add: assms sync_operator_def cache_files pruned)
  have "continues (dn_keys E) dm dm'"
    unfolding assms by (rule continues_trans [OF continues_served [OF prune_continues cache_serves] operator_continues])
  then show "dm_session_enabled dm' = dm_session_enabled dm" by (simp add: continues_def)
qed


section \<open>A run\<close>

text \<open>The daemon of the examples starts from its configuration file and is then asked to pause.\<close>

definition sample_app :: app_config where
  "sample_app = maybe_autoconfigure_node sample_keys sample_host (ensure_defaults sample_keys sample_host sample_config)"

lemma sample_client_made: "new_signaling_client sample_env sample_app \<noteq> None"
  by code_simp

lemma sample_loads:
  "load_config_with_overrides (dn_keys sample_env) (dn_node sample_env) (dn_fs sample_env) (dn_config_codec sample_env)
     (dn_overrides sample_env) sample_files = (Inr (sample_app, effective_network_id sample_app), sample_files)"
  by (simp add: load_config_with_overrides_def load_or_default_config_def load_config_def read_file_def
      apply_participants_override_def sample_env_def sample_files_def one_codec_def sample_app_def hm_contains_iff
      hm_get_def Let_def)

lemma update_unheard:
  assumes "dm_presence dm = presence_new" "pb_peers (dm_paths dm) = []"
  shows "\<exists>dm'. apply_presence_runtime_update E dm = (Inr (), dm')"
proof -
  obtain r book rt t where a: "apply_tunnel (dn_host E) (dn_view E) (dm_app dm) (dm_own_pubkey dm) [] (dn_now E)
      (dm_paths dm) (dm_runtime dm, dm_trace dm) = (r, book, rt, t)" by (metis prod.exhaust)
  from apply_nobody [OF assms(2) a] show ?thesis
    using a by (simp add: apply_presence_runtime_update_def apply_announcements_def Let_def assms(1) presence_new_def
        effective_peer_announcements_for_runtime_def hm_map_values_def)
qed

lemma sample_starts: "\<exists>dm. daemon_start sample_env None ''utun9'' sample_files = Inr dm"
proof -
  obtain L client where client: "new_signaling_client sample_env sample_app = Some (L, client)"
    using sample_client_made by auto
  define dm0 where "dm0 = daemon_new sample_env None ''utun9'' sample_app (effective_network_id sample_app) sample_files L client"
  define dm1 where "dm1 = (if session_active dm0
    then refresh_mapped_endpoint sample_env (nd_listen_port (ac_node (dm_app dm0))) dm0 else dm0)"
  have fresh: "dm_presence dm0 = presence_new" "pb_peers (dm_paths dm0) = []" "hm_get (dm_files dm0) PeerCacheFile = None"
    "oo_process (dm_operator dm0) = None"
    by (simp_all add: dm0_def daemon_new_def Let_def book_new_def sample_files_def hm_simps relay_operator_new_def hm_get_def
        hm_remove_def)
  have "dm_presence dm1 = presence_new" "pb_peers (dm_paths dm1) = []" "hm_get (dm_files dm1) PeerCacheFile = None"
    "dm_operator dm1 = dm_operator dm0"
    by (simp_all add: dm1_def refresh_mapped_endpoint_def fresh)
  note dm1 = this
  have restored: "restore_cache sample_env dm1 = dm1"
    using dm1(3) by (simp add: restore_cache_def restore_daemon_peer_cache_def read_daemon_peer_cache_def hm_contains_iff)
  obtain dm2 where dm2: "apply_presence_runtime_update sample_env dm1 = (Inr (), dm2)"
    using update_unheard [OF dm1(1,2)] by blast
  have "dm_operator dm2 = dm_operator dm0"
    using update_serves [of dm1 sample_env] dm1(4) by (simp add: dm2 serves_def core_def)
  then have "fst (sync_local_relay_operator (dn_operator sample_env) app relays endpoint (dm_operator dm2))" for app relays endpoint
    by (simp add: sync_local_relay_operator_def poll_operator_def fresh Let_def start_operator_def sample_env_def
        split: option.split)
  then obtain operator where operator: "sync_local_relay_operator (dn_operator sample_env) (dm_app dm2) (dm_relays dm2)
      (dm_public_endpoint dm2) (dm_operator dm2) = (True, operator)"
    by (metis prod.exhaust_sel)
  have "trim ''utun9'' \<noteq> []" by code_simp
  moreover have "dn_alone sample_env" by (simp add: sample_env_def)
  moreover have "\<exists>dm. daemon_begin sample_env dm0 = Inr dm"
    unfolding daemon_begin_def Let_def dm1_def [symmetric] restored if_cancel dm2 by (simp add: operator)
  ultimately show ?thesis
    by (simp add: daemon_start_def sample_loads client dm0_def)
qed

definition pause_files :: files where
  "pause_files = [(ConfigFile, ''config''), (ControlFile, ''pause'' @ [CHR 0x0A])]"

lemma sample_pause: "request_parse (''pause'' @ [CHR 0x0A]) = Some PauseRequest"
  by code_simp

lemma sample_result_readable: "result_readable sample_env"
  using sample_result_law by (simp add: result_readable_def sample_env_def) (simp add: sample_result_codec_def)

lemma sample_turn:
  assumes "dm_files dm = pause_files"
  shows "\<exists>dm'. state_tick sample_env dm = Some dm' \<and> \<not> dm_session_enabled dm'"
proof -
  have facts: "dn_restart_due sample_env = False" "fy_readable (dn_fs sample_env) ControlFile"
    by (simp_all add: sample_env_def)
  have "dm_files (relay_failover sample_env dm) = pause_files"
    using failover_keeps [of sample_env dm] assms by (simp add: keeps_def)
  then have taken: "take_daemon_control_request (dn_fs sample_env) (dm_files (relay_failover sample_env dm))
      = (Some PauseRequest, hm_remove ControlFile pause_files)"
    using sample_pause by (simp add: take_daemon_control_request_def read_file_def pause_files_def hm_get_def facts)
  define dm2 where "dm2 = relay_failover sample_env dm\<lparr>dm_files := hm_remove ControlFile pause_files\<rparr>"
  define files where "files = snd (write_daemon_control_result (dn_fs sample_env) (dn_result_codec sample_env) PauseRequest
    None (dm_files (pause_session sample_env dm2)))"
  have paused: "handle_control_request sample_env PauseRequest dm2
      = Some (sync_operator sample_env ((pause_session sample_env dm2)\<lparr>dm_files := files\<rparr>))"
    unfolding files_def handle_control_request_def Let_def daemon_control_request.case prod.case option.map ..
  have rest: "rests (sync_operator sample_env ((pause_session sample_env dm2)\<lparr>dm_files := files\<rparr>))"
    by (intro operator_rests rest_intros pause_rests)
  define dm3 where "dm3 = sync_operator sample_env ((pause_session sample_env dm2)\<lparr>dm_files := files\<rparr>)"
  define dm4 where "dm4 = sync_operator sample_env (write_cache sample_env (prune_peers sample_env dm3))"
  have "rests dm4"
    unfolding dm4_def prune_rests [OF rest [folded dm3_def]] by (intro operator_rests cache_rests rest [folded dm3_def])
  then have "\<not> dm_session_enabled dm4" unfolding rests_def by blast
  moreover have "state_tick sample_env dm = Some dm4"
    unfolding state_tick_def Let_def taken prod.case option.case dm2_def [symmetric] paused facts(1) if_False
      dm3_def [symmetric] dm4_def [symmetric] ..
  ultimately show ?thesis by blast
qed

lemma sample_daemon_run:
  "\<exists>dm0 dm. daemon_start sample_env None ''utun9'' sample_files = Inr dm0
    \<and> daemon_run (sound_env sample_keys) dm0 dm \<and> \<not> dm_session_enabled dm"
proof -
  obtain dm0 where dm0: "daemon_start sample_env None ''utun9'' sample_files = Inr dm0" using sample_starts by blast
  obtain dm where dm: "state_tick sample_env (dm0\<lparr>dm_files := pause_files\<rparr>) = Some dm" "\<not> dm_session_enabled dm"
    using sample_turn [of "dm0\<lparr>dm_files := pause_files\<rparr>"] by auto
  have "daemon_run (sound_env sample_keys) dm0 (dm0\<lparr>dm_files := pause_files\<rparr>)"
    by (rule daemon_run.files_changed [OF daemon_run.begun])
  from daemon_run.turned [OF this sample_env_sound, of StateTimer] dm
  show ?thesis using dm0 by auto
qed


lemma paused_daemon_holds_nothing_witness:
  "\<exists>dm0 dm. daemon_start sample_env None ''utun9'' sample_files = Inr dm0 \<and> daemon_run (sound_env sample_keys) dm0 dm
    \<and> \<not> dm_session_enabled dm \<and> \<not> is_running (dm_runtime dm)"
  using sample_daemon_run Daemon_Safety.paused_daemon_holds_nothing [OF sample_env_sound] by metis



end
