(* ===== verification/Daemon_Behaviour.thy ===== *)
theory Daemon_Behaviour
  imports Daemon_Control
begin

text \<open>
  What single turns of the daemon do: greetings, hole punching, the retry of a connection, the writing of
  the peer cache, and a key that cannot be used.
\<close>

section \<open>Greetings\<close>

text \<open>
  C39. The daemon does not answer a repeated greeting: when a peer says hello and the daemon's announcement is
  the one it sent that peer last, the peer gets the roster, if the daemon may publish one, but not the
  announcement, and the record of what was sent stays. A peer that restarted and lost what it knew hears
  nothing of the daemon until the announcement changes or the record is dropped.
\<close>

theorem repeated_hello_unanswered:
  assumes "session_active dm"
    and "\<not> announce_needs_send (dm_outbound dm) sender
      (announcement_fingerprint (announcement_to E (pp_known (dm_presence dm)) sender dm))"
  shows "dm_outbox (presence_message E sender Hello dm) = dm_outbox (publish_roster E (Some [sender]) dm)
    \<and> dm_outbound (presence_message E sender Hello dm) = dm_outbound dm"
proof -
  define dm1 where "dm1 = publish_roster E (Some [sender]) dm"
  define dm2 where "dm2 = dm1\<lparr>dm_presence := snd (apply_signal sender Hello (dn_now E) (dm_presence dm1)),
    dm_outbound := dm_outbound dm1\<rparr>"
  have active: "session_active dm1"
    using assms(1) by (simp add: dm1_def session_active_def publish_roster_def)
  have known: "pp_known (dm_presence dm2) = pp_known (dm_presence dm)" "dm_outbound dm2 = dm_outbound dm"
    "announcement_to E known sender dm2 = announcement_to E known sender dm" for known
    by (simp_all add: dm2_def dm1_def publish_roster_def apply_signal_def Let_def announcement_to_def listen_port_of_def
        local_endpoints_of_def)
  have "publish_private_announce_to_participants E (pp_known (dm_presence dm2)) [sender] dm2 = (Inr 0, dm2)"
    using assms(2) by (simp add: publish_private_announce_to_participants_def sort_dedup_def known Let_def)
  then have "greet_back E sender Hello dm2 = dm2" by (simp add: greet_back_def noting_def)
  moreover have "presence_message E sender Hello dm = greet_back E sender Hello dm2"
    using active by (simp add: presence_message_def dm1_def [symmetric] dm2_def apply_signal_def Let_def)
  ultimately show ?thesis by (simp add: dm2_def dm1_def publish_roster_def)
qed

lemma repeated_hello_unanswered_witness:
  "\<exists>dm. session_active dm \<and> dm_outbound (presence_message sample_env ''bb22'' Hello dm) = dm_outbound dm"
proof -
  obtain dm0 where "daemon_start sample_env None ''utun9'' sample_files = Inr dm0" using sample_starts by blast
  define fingerprint where "fingerprint = announcement_fingerprint
    (announcement_to sample_env (pp_known (dm_presence dm0)) ''bb22'' dm0)"
  define dm where "dm = dm0\<lparr>dm_session_enabled := True, dm_expected_peers := 1,
    dm_outbound := announce_mark_sent ''bb22'' fingerprint (dm_outbound dm0)\<rparr>"
  have active: "session_active dm"
    by (simp add: dm_def session_active_def daemon_session_active_def)
  have same: "announcement_to sample_env (pp_known (dm_presence dm)) ''bb22'' dm
      = announcement_to sample_env (pp_known (dm_presence dm0)) ''bb22'' dm0"
    by (simp add: dm_def announcement_to_def listen_port_of_def local_endpoints_of_def)
  have "\<not> announce_needs_send (dm_outbound dm) ''bb22'' (announcement_fingerprint
      (announcement_to sample_env (pp_known (dm_presence dm)) ''bb22'' dm))"
    unfolding same fingerprint_def [symmetric]
    by (simp add: dm_def announce_needs_send_def announce_mark_sent_def hm_simps)
  from repeated_hello_unanswered [OF active this] active show ?thesis by blast
qed

section \<open>Punching\<close>

text \<open>
  Punching does not know of relay sessions: the tunnel that it sets up again is planned from the
  announcements it was given, whatever sessions there are.
\<close>

lemma punch_ignores_relays:
  "maybe_run_nat_punch E announcements (dm\<lparr>dm_fallback := fallback\<rparr>)
    = (case maybe_run_nat_punch E announcements dm of (r, dm') \<Rightarrow> (r, dm'\<lparr>dm_fallback := fallback\<rparr>))"
proof -
  have peers: "runtime_peers_of E (d\<lparr>dm_fallback := fallback\<rparr>)
      = (case runtime_peers_of E d of (peers, d') \<Rightarrow> (peers, d'\<lparr>dm_fallback := fallback\<rparr>))" for d
    by (simp add: runtime_peers_of_def split: prod.split)
  have applied: "apply_announcements E announcements (d\<lparr>dm_fallback := fallback\<rparr>)
      = (case apply_announcements E announcements d of (r, d') \<Rightarrow> (r, d'\<lparr>dm_fallback := fallback\<rparr>))" for d
    by (simp add: apply_announcements_def split: prod.split)
  have run: "run_nat_punch E announcements port fingerprint targets (d\<lparr>dm_fallback := fallback\<rparr>)
      = (case run_nat_punch E announcements port fingerprint targets d of (r, d') \<Rightarrow> (r, d'\<lparr>dm_fallback := fallback\<rparr>))"
    for port fingerprint targets d
  proof -
    obtain rt t where stop: "stop_tunnel (dn_host E) (dm_runtime d, dm_trace d) = (rt, t)" by fastforce
    define d1 where "d1 = refresh_endpoint E port (d\<lparr>dm_runtime := rt\<lparr>tr_active_listen_port := Some port\<rparr>, dm_trace := t\<rparr>)"
    have d1: "refresh_endpoint E port (d\<lparr>dm_fallback := fallback, dm_runtime := rt\<lparr>tr_active_listen_port := Some port\<rparr>,
        dm_trace := t\<rparr>) = d1\<lparr>dm_fallback := fallback\<rparr>"
      by (simp add: d1_def refresh_endpoint_def)
    show ?thesis
      by (simp add: run_nat_punch_def stop Let_def d1 d1_def [symmetric] applied split: prod.split sum.split option.split)
  qed
  define port where "port = listen_port_of dm"
  define dm1 where "dm1 = (if public_endpoint_for_listen_port (dm_public_endpoint dm) port = None
    then refresh_endpoint E port dm else dm)"
  obtain ps dm2 where q: "runtime_peers_of E dm1 = (ps, dm2)" by fastforce
  have port: "listen_port_of (dm\<lparr>dm_fallback := fallback\<rparr>) = port"
    by (simp add: port_def listen_port_of_def)
  have dm1: "(if public_endpoint_for_listen_port (dm_public_endpoint (dm\<lparr>dm_fallback := fallback\<rparr>)) port = None
      then refresh_endpoint E port (dm\<lparr>dm_fallback := fallback\<rparr>) else dm\<lparr>dm_fallback := fallback\<rparr>)
      = dm1\<lparr>dm_fallback := fallback\<rparr>"
    by (simp add: dm1_def refresh_endpoint_def)
  have local: "local_endpoints_of E (dm2\<lparr>dm_fallback := fallback\<rparr>) = local_endpoints_of E dm2"
    by (simp add: local_endpoints_of_def listen_port_of_def)
  show ?thesis
    unfolding maybe_run_nat_punch_def Let_def port port_def [symmetric] dm1 dm1_def [symmetric] peers q prod.case local
    by (simp add: run split: sum.split option.split)
qed

text \<open>An attempt that failed leaves no record: it is due again at once.\<close>

lemma failed_punch_forgotten:
  assumes "maybe_run_nat_punch E announcements dm = (Inl (PunchFailed e), dm')"
  shows "dm_last_punch dm' = dm_last_punch dm"
proof -
  have "dm_last_punch d' = dm_last_punch d"
    if "run_nat_punch E announcements port fingerprint targets d = (Inl (PunchFailed e), d')" for port fingerprint targets d d'
    using that by (auto simp: run_nat_punch_def apply_announcements_def refresh_endpoint_def Let_def
        split: prod.splits sum.splits option.splits)
  moreover have "runtime_peers_of E d = (peers, d') \<Longrightarrow> dm_last_punch d' = dm_last_punch d" for d peers d'
    by (auto simp: runtime_peers_of_def split: prod.splits)
  ultimately show ?thesis
    using assms by (fastforce simp: maybe_run_nat_punch_def Let_def refresh_endpoint_def
        split: prod.splits sum.splits option.splits if_splits)
qed

section \<open>Connecting again\<close>

text \<open>
  The pause before the next attempt to connect never shortens with the number of failures and is between one and
  thirty seconds; whoever postpones the attempt counts it and the attempt is due that much later.
\<close>

lemma reconnect_backoff_bounds:
  "1 \<le> daemon_reconnect_backoff_delay a \<and> daemon_reconnect_backoff_delay a \<le> 30
    \<and> daemon_reconnect_backoff_delay a \<le> daemon_reconnect_backoff_delay (saturating_add a 1)
    \<and> dm_reconnect_due (retry_later E status dm)
        = dn_instant E + 1000 * daemon_reconnect_backoff_delay (dm_reconnect_attempt (retry_later E status dm))"
proof -
  have delay: "daemon_reconnect_backoff_delay a =
      (if unat a \<le> 1 then 1 else if unat a = 2 then 2 else if unat a = 3 then 4 else if unat a = 4 then 8
       else if unat a = 5 then 16 else 30)" for a
    by (simp add: daemon_reconnect_backoff_delay_def word_le_nat_alt word_unat_eq_iff)
  have later: "unat (saturating_add a 1) = unat a + 1 \<or> unat a = 2 ^ 32 - 1 \<and> unat (saturating_add a 1) = unat a" for a :: u32
    using unsigned_less [of a, where ?'a = nat] by (auto simp: unat_saturating_add min_def)
  have "daemon_reconnect_backoff_delay a \<le> daemon_reconnect_backoff_delay (saturating_add a 1)"
    using later [of a] by (auto simp: delay)
  then show ?thesis by (simp add: delay retry_later_def Let_def)
qed

section \<open>The peer cache\<close>

text \<open>
  The cache carries the time of its making: made at another time it is another cache, and what is to spare a
  writing of the same text spares none but within a second.
\<close>

lemma cache_differs_by_time:
  assumes "build_daemon_peer_cache_state b64 network own presence book peers now = Some cache"
    and "build_daemon_peer_cache_state b64 network own presence book peers now' = Some cache'" "now \<noteq> now'"
    and "\<And>c c'. brief c = brief c' \<Longrightarrow> c = c'"
  shows "brief cache \<noteq> brief cache'"
  using assms by (auto simp: build_daemon_peer_cache_state_def Let_def split: if_splits)

section \<open>A key that cannot be used\<close>

text \<open>
  A reload that brings such a key disconnects the client but keeps saying that it is connected. When it
  was not connected, the next attempt to connect ends the daemon, without what \<open>daemon_stop\<close> does.
\<close>

lemma unusable_key_reload:
  assumes "new_signaling_client E (lo_app reload) = None"
  shows "dm_relay_connected (reload_client E (take_config reload dm)) = dm_relay_connected dm
    \<and> \<not> sc_connected (dm_client (reload_client E (take_config reload dm)))"
  using assms by (simp add: reload_client_def take_config_def Let_def disconnect_signaling_def signaling_disconnect_def)

lemma unusable_key_ends:
  assumes "new_signaling_client E (dm_app dm) = None" "listens_to_relays dm" "\<not> dm_relay_connected dm"
    and "dm_reconnect_due dm \<le> dn_instant E"
  shows "daemon_turn E ReconnectTimer dm = None"
  using assms by (simp add: reconnect_tick_def relay_connection_action_def)

end
