(* ===== verification/Spec2Isabelle.thy ===== *)
theory Spec2Isabelle
  imports Network_Invite_Safety Relay_Fallback_Inv Linux_Device Magic_Dns Relay_Delivery Signaling_Safety Paths Presence Config_Roster Config_Names Relay_Budget Relay_Service_Safety Userspace_Wg_Safety
    Daemon_Behaviour
begin

text \<open>
  A model of nostr-vpn, a mesh VPN whose nodes find each other over Nostr relays and connect with
  WireGuard: directly, by UDP hole punching, or through a public UDP relay. The crates are
  \<open>nostr-vpn-core\<close> (the library), \<open>nostr-vpn-cli\<close> (the daemon and its command line),
  \<open>nostr-vpn-relay\<close> (a local Nostr relay, the UDP relay and a reflector), and two interfaces
  over them, a desktop and mobile application and a web page.

  \<^bold>\<open>How the parts interact.\<close> The configuration holds networks: participants, admins and an id that
  their members share. A node joins by an invite, asks an admin by a join request, and takes the
  rosters that its admins sign. The signaling client publishes the node's announcement (key,
  endpoints, tunnel address, routes) encrypted to each member and receives theirs; presence keeps who
  is there, the path book which of a peer's endpoints works. From announcements, paths and routes the
  daemon plans the tunnel's peers and tells the WireGuard device and the host's routing of them.
  Without a handshake it asks public relay operators, found by their node records, for relay sessions.
  The MagicDNS server answers the names of members with their tunnel addresses.

  \<^bold>\<open>Prelude.\<close> \<open>Rust_Base\<close>: machine integers, hash maps as association lists with distinct keys, sorted
  vectors, and the interfaces as locales, each interpreted where a component provides it: a stepped
  state with an invariant, a table of expiring entries, a book of newest entries, a generator of
  fresh names. \<open>Rust_Str\<close>: what the code uses of \<open>str\<close> and \<open>char\<close> on ASCII text. \<open>Net_Addr\<close>: the
  addresses of \<open>std::net\<close>, parsed and printed. \<open>Rust_Float\<close>: the non-negative \<open>f64\<close> values of the
  token bucket, with rounding as a parameter.

  \<^bold>\<open>The library.\<close> (paths under \<open>src/crates/nostr-vpn-core/src\<close>)
    \<^item> \<open>Control\<close> (control.rs): announcements, the choice of an endpoint, the peer directory. The newest
      announcement wins in whatever order they come.
    \<^item> \<open>Paths\<close> (paths.rs): the path book; the selected endpoint is the best tracked one.
    \<^item> \<open>Presence\<close> (presence.rs): active and known peers, and when they were seen.
    \<^item> \<open>Magic_Labels\<close>, \<open>Key_Roster\<close>, \<open>Routes\<close>, \<open>Config\<close>, \<open>Config_Ops\<close> (config_magic_dns.rs,
      config_defaults.rs, network_roster.rs, network_routes.rs, config.rs): labels and names, keys and
      rosters, routes and tunnel addresses, the configuration with its normalisation and operations.
      \<open>Config_Inv\<close>, \<open>Config_Roster\<close> and \<open>Config_Names\<close> prove the invariant of every operation, what a
      roster may change and who may sign it, and that MagicDNS resolution inverts the naming.
    \<^item> \<open>Nostr_Event\<close>, \<open>Service_Signaling\<close>, \<open>Join_Requests\<close>, \<open>Signaling\<close>, \<open>Node_Record\<close> (files of the
      same names): events and clients, and the messages on them. \<open>Signaling_Safety\<close>: what is received is
      authentic, and what is published is received.
    \<^item> \<open>Magic_Dns\<close> (magic_dns.rs): the DNS server, which refines the resolver of the configuration.
    \<^item> \<open>Nat_Probe\<close> (nat.rs, nvpn-reflector.rs): address discovery and hole punching.
    \<^item> \<open>Userspace_Wg\<close> (crypto.rs, wireguard.rs and the daemon's userspace_wg.rs): WireGuard in the
      process. \<open>Userspace_Wg_Safety\<close>: longest prefix first, one peer per datagram, and that it returns.

  \<^bold>\<open>The relays.\<close> (\<open>src/crates/nostr-vpn-relay/src\<close>)
    \<^item> \<open>Relay_Runtime\<close> (relay_runtime.rs and core relay.rs) and \<open>Port_Allocator\<close> (port_allocator.rs):
      counters, limits, the token bucket, the pair of ports. \<open>Relay_Budget\<close> and \<open>Port_Search\<close> prove the byte
      and rate limits and that the search for ports ends and finds a pair if there is one.
    \<^item> \<open>Relay_Service\<close> (nvpn-udp-relay.rs): requests, packets and snapshots as a step relation;
      \<open>Relay_Service_Safety\<close> proves limits and isolation for every reachable state.
    \<^item> \<open>Nostr_Relay\<close> (main.rs): the local relay as interleaved tasks; \<open>Relay_Delivery\<close> proves that it
      sends what was asked for and, once its tasks have settled, has sent all of it.

  \<^bold>\<open>The daemon.\<close> (\<open>src/crates/nostr-vpn-cli/src\<close>)
    \<^item> \<open>Wg_Status\<close>, \<open>Endpoint_Tests\<close>, \<open>Signal_Endpoints\<close>, \<open>Tunnel_Plan\<close> (main.rs): the status of peers, the
      daemon's own tests of endpoints, its own endpoints and announcement, the plan of the tunnel.
      \<open>Tunnel_Plan_Safety\<close>: who may use which addresses.
    \<^item> \<open>Host_Actions\<close>, \<open>Linux_Routing\<close> (platform_routing.rs), \<open>Linux_Tunnel\<close> (CliTunnelRuntime in main.rs):
      programs, files and the device are a host that answers each command depending on all commands
      before it. \<open>Linux_Tunnel_Safety\<close> and \<open>Linux_Device\<close> prove what a plan leaves on the host, on success,
      on failure and after stopping.
    \<^item> \<open>Relay_Fallback\<close> (relay_runtime.rs, main.rs, the message handlers of session_runtime.rs): relay
      sessions, stand-bys, cool-downs and the provider book; \<open>Relay_Fallback_Safety\<close> proves what one
      reconciliation does, \<open>Relay_Fallback_Inv\<close> what holds in every run.
    \<^item> \<open>Network_Invite\<close> (network_signaling.rs): invites, roster edits and their publication;
      \<open>Network_Invite_Safety\<close>: an invite code joins the mesh, and a refused one changes nothing.
    \<^item> \<open>Daemon_Files\<close> (daemon_runtime.rs, config_bootstrap.rs): the control file, its result, the staged
      configuration and the loading of configurations, over a file system that may fail at every call.
      \<open>Peer_Cache\<close>: what a restart restores. \<open>Relay_Operator\<close>: the relay child, kept as configured.
    \<^item> \<open>Daemon_Session\<close> and \<open>Daemon_Loop\<close> (session_runtime.rs and the steps in main.rs) compose all of these:
      the record \<open>daemon\<close> holds the states of the components, \<open>daemon_turn\<close> is one turn of the select loop
      (timers, messages of peers and relay services, control requests), \<open>daemon_start\<close> and \<open>daemon_stop\<close> are
      what comes before and after it. All a turn learns from outside is its \<open>daemon_env\<close>; \<open>daemon_run\<close> is
      any sequence of turns, each with an environment of its own, and of changes to the files by others.
      \<open>Daemon_Inv\<close> proves that every step keeps the components' invariants together, given an environment
      that is sound (\<open>sound_env\<close>: the key library stays the same, and a path book read back has distinct keys).
      \<open>Daemon_Safety\<close> states it for runs, with what a paused daemon holds and what a stopped one leaves on
      the host. \<open>Daemon_Control\<close>: control requests are answered; its witnesses run a concrete daemon from
      start through pause to stop. \<open>Daemon_Behaviour\<close>: where the loop does not do what it means to.

  \<^bold>\<open>How things are represented.\<close> A struct is a record, an enum a datatype, an integer a word of its width
  (\<open>saturating_add\<close> and \<open>saturating_sub\<close> written out), a \<open>HashMap\<close> an association list (type \<open>hmap\<close>) whose
  iteration order is then the list's order, a \<open>Result\<close> a sum with \<open>Inl\<close> for the error. Methods take and
  return the state. Clocks, random choices, the cryptographic library, base64 and JSON codecs, Nostr
  clients, the operating system and the WireGuard library are parameters, as functions or records of
  functions; theorems name what they assume of them, and witnesses instantiate them.

  \<^bold>\<open>Loops and fuel.\<close> No fuel is used. Loops over collections are structural recursion; the searches for a
  free network id and a free label, the scanning of text and the parsing of addresses are functions with
  a termination proof (the label's search stops at 9999 as in the code). Two loops need not end: the
  search for a pair of ports, when it starts outside its range, and the draining of a tunnel's
  queued packets. They are partial functions, with theorems that they return: the first for every range
  the code accepts, the second when the library's queue is finite.

  \<^bold>\<open>Not modelled.\<close> Of the daemon: finding and spawning processes, the contents of the state file, and the
  foreground command \<open>connect_session\<close>, which is the daemon's loop without its files. Service installation, macOS
  routing, the Windows tunnel's threads and netsh calls, diagnostics, port mapping, file locations, and the
  graphical, mobile and web interfaces: they call programs, files and libraries, and the decisions they
  take are the modelled functions. The clock stands still within a turn. Text is ASCII; \<open>str\<close> operations on
  other code points are outside the model. Logging and file permissions are left out. Time-outs of
  network calls appear as the call's failure.
\<close>

end
